(* ===== verification/Prelude.thy ===== *)
theory Prelude
  imports
    Complex_Main
    "HOL-Library.Multiset"
    "HOL-Library.AList"
    "HOL-Library.List_Lexorder"
    "HOL-Library.Char_ord"
    "HOL-Library.Product_Lexorder"
begin

text \<open>
  Shared vocabulary of the development: the collections of rewrite rules, results of
  fallible operations, Go's \<open>int64\<close> wrap-around, maps as association lists, and the
  interface of Go's stable sort with the facts every sorted result inherits.
\<close>

named_theorems result_simps \<open>rewriting of results of fallible operations\<close>
named_theorems store_simps \<open>what each store operation leaves in each table\<close>
named_theorems frame_simps \<open>what an operation does not touch\<close>

section \<open>Results of fallible operations\<close>

text \<open>A call that returns \<open>(value, error)\<close> is \<open>Inl\<close> of the error or \<open>Inr\<close> of the value.\<close>

definition bindr :: "'e + 'a \<Rightarrow> ('a \<Rightarrow> 'e + 'b) \<Rightarrow> 'e + 'b" where
  "bindr r k = (case r of Inl e \<Rightarrow> Inl e | Inr x \<Rightarrow> k x)"

lemma bindr_Inl [simp, result_simps]: "bindr (Inl e) k = Inl e"
  by (simp add: bindr_def)

lemma bindr_Inr [simp, result_simps]: "bindr (Inr x) k = k x"
  by (simp add: bindr_def)

lemma bindr_eq_Inr [result_simps]: "bindr r k = Inr y \<longleftrightarrow> (\<exists>x. r = Inr x \<and> k x = Inr y)"
  by (cases r) auto

lemma bindr_eq_Inl [result_simps]:
  "bindr r k = Inl e \<longleftrightarrow> r = Inl e \<or> (\<exists>x. r = Inr x \<and> k x = Inl e)"
  by (cases r) auto

text \<open>A loop that stops at the first error: the results in order, or that error.\<close>

fun mapr :: "('a \<Rightarrow> 'e + 'b) \<Rightarrow> 'a list \<Rightarrow> 'e + 'b list" where
  "mapr f [] = Inr []"
| "mapr f (x # xs) = bindr (f x) (\<lambda>y. bindr (mapr f xs) (\<lambda>ys. Inr (y # ys)))"

lemma mapr_length: "mapr f xs = Inr ys \<Longrightarrow> length ys = length xs"
  by (induction xs arbitrary: ys) (auto simp: result_simps)

lemma mapr_nth: "mapr f xs = Inr ys \<Longrightarrow> i < length xs \<Longrightarrow> f (xs ! i) = Inr (ys ! i)"
  by (induction xs arbitrary: ys i) (auto simp: result_simps nth_Cons split: nat.split)

lemma mapr_set: "mapr f xs = Inr ys \<Longrightarrow> y \<in> set ys \<Longrightarrow> \<exists>x \<in> set xs. f x = Inr y"
  by (induction xs arbitrary: ys) (auto simp: result_simps)

text \<open>Steps on a state that stop at the first error, \<open>if err := step(); err != nil { return err }\<close>.\<close>

definition then_ok :: "'s \<times> 'e option \<Rightarrow> ('s \<Rightarrow> 's \<times> 'e option) \<Rightarrow> 's \<times> 'e option" where
  "then_ok r k = (case r of (s, Some e) \<Rightarrow> (s, Some e) | (s, None) \<Rightarrow> k s)"

lemma then_ok_Some [simp, result_simps]: "then_ok (s, Some e) k = (s, Some e)"
  by (simp add: then_ok_def)

lemma then_ok_None [simp, result_simps]: "then_ok (s, None) k = k s"
  by (simp add: then_ok_def)

lemma then_ok_inv: "P (fst r) \<Longrightarrow> (\<And>s. P s \<Longrightarrow> P (fst (k s))) \<Longrightarrow> P (fst (then_ok r k))"
  by (cases r; cases "snd r") auto

lemma then_ok_cases:
  obtains (fails) e where "snd r = Some e" "then_ok r k = r" | (goes) "snd r = None" "then_ok r k = k (fst r)"
  by (cases r; cases "snd r") (auto simp: then_ok_def)

section \<open>Go integers\<close>

text \<open>Go's \<open>int\<close> and \<open>int64\<close> are read as \<open>int\<close>; an operation that can leave the range wraps.\<close>

definition wrap64 :: "int \<Rightarrow> int" where
  "wrap64 x = (x + 2 ^ 63) mod 2 ^ 64 - 2 ^ 63"

lemma wrap64_id: "- (2 ^ 63) \<le> x \<Longrightarrow> x < 2 ^ 63 \<Longrightarrow> wrap64 x = x"
  by (simp add: wrap64_def)

lemma wrap64_range: "- (2 ^ 63) \<le> wrap64 x \<and> wrap64 x < 2 ^ 63"
proof -
  have "0 \<le> (x + 2 ^ 63) mod 2 ^ 64" and "(x + 2 ^ 63) mod 2 ^ 64 < 2 ^ 64"
    by (rule pos_mod_sign, simp) (rule pos_mod_bound, simp)
  then show ?thesis by (simp add: wrap64_def)
qed

section \<open>Maps as association lists\<close>

text \<open>
  A Go map is an association list with distinct keys: \<open>map_of\<close> reads it, \<open>AList.update\<close>
  writes it, \<open>AList.delete\<close> removes a key. Its order is one of the orders in which Go may
  range over the map; where the code sorts or where order cannot be seen, nothing depends on it.
\<close>

type_synonym 'v smap = "(string \<times> 'v) list"

definition lookup_default :: "'v \<Rightarrow> ('k \<times> 'v) list \<Rightarrow> 'k \<Rightarrow> 'v" where
  "lookup_default d m k = (case map_of m k of None \<Rightarrow> d | Some v \<Rightarrow> v)"

lemma lookup_update: "lookup_default d (AList.update k v m) k' = (if k' = k then v else lookup_default d m k')"
  by (simp add: lookup_default_def update_conv')

lemma set_update_subset: "set (AList.update k v m) \<subseteq> insert (k, v) (set m)"
  by (induction m) auto

text \<open>\<open>for key, value := range extra { merged[key] = value }\<close>\<close>

definition map_merge :: "('k \<times> 'v) list \<Rightarrow> ('k \<times> 'v) list \<Rightarrow> ('k \<times> 'v) list" where
  "map_merge m extra = fold (\<lambda>(k, v) acc. AList.update k v acc) extra m"

lemma map_of_map_merge:
  "distinct (map fst extra) \<Longrightarrow> map_of (map_merge m extra) k =
     (case map_of extra k of Some v \<Rightarrow> Some v | None \<Rightarrow> map_of m k)"
proof (induction extra arbitrary: m)
  case Nil
  then show ?case by (simp add: map_merge_def)
next
  case (Cons kv extra)
  obtain a b where kv: "kv = (a, b)" by (cases kv)
  from Cons.prems kv have "map_of extra a = None"
    by (auto simp: map_of_eq_None_iff)
  with Cons kv show ?case
    by (auto simp: map_merge_def update_conv' split: option.splits)
qed

lemma distinct_map_merge:
  "distinct (map fst m) \<Longrightarrow> distinct (map fst (map_merge m extra))"
  unfolding map_merge_def
  by (induction extra arbitrary: m) (auto simp: distinct_update)

section \<open>The interface of Go's stable sort\<close>

text \<open>
  \<open>sort.SliceStable(xs, less)\<close> with \<open>less\<close> a strict weak order has one possible result: the
  permutation of \<open>xs\<close> that is ordered by \<open>less\<close> and keeps incomparable elements in their order.
  Insertion from the right computes it.
\<close>

fun insert_stable :: "('a \<Rightarrow> 'a \<Rightarrow> bool) \<Rightarrow> 'a \<Rightarrow> 'a list \<Rightarrow> 'a list" where
  "insert_stable lt x [] = [x]"
| "insert_stable lt x (y # ys) = (if lt y x then y # insert_stable lt x ys else x # y # ys)"

fun sort_stable :: "('a \<Rightarrow> 'a \<Rightarrow> bool) \<Rightarrow> 'a list \<Rightarrow> 'a list" where
  "sort_stable lt [] = []"
| "sort_stable lt (x # xs) = insert_stable lt x (sort_stable lt xs)"

lemma mset_insert_stable: "mset (insert_stable lt x xs) = add_mset x (mset xs)"
  by (induction xs) auto

lemma mset_sort_stable [simp]: "mset (sort_stable lt xs) = mset xs"
  by (induction xs) (auto simp: mset_insert_stable)

lemma set_sort_stable [simp]: "set (sort_stable lt xs) = set xs"
  by (metis mset_sort_stable set_mset_mset)

lemma length_sort_stable [simp]: "length (sort_stable lt xs) = length xs"
  by (metis mset_sort_stable size_mset)

lemma sort_stable_eq_Nil [simp]: "sort_stable lt xs = [] \<longleftrightarrow> xs = []"
  by (metis length_0_conv length_sort_stable)

lemma distinct_sort_stable [simp]: "distinct (sort_stable lt xs) = distinct xs"
  by (metis mset_sort_stable mset_eq_imp_distinct_iff)

text \<open>The contract of a \<open>less\<close> function handed to Go's sort.\<close>

locale strict_weak_order =
  fixes lt :: "'a \<Rightarrow> 'a \<Rightarrow> bool"
  assumes asym: "lt x y \<Longrightarrow> \<not> lt y x"
    and neg_trans: "\<not> lt x y \<Longrightarrow> \<not> lt y z \<Longrightarrow> \<not> lt x z"
begin

lemma irrefl: "\<not> lt x x"
  using asym by blast

lemma sorted_insert_stable:
  "sorted_wrt (\<lambda>a b. \<not> lt b a) xs \<Longrightarrow> sorted_wrt (\<lambda>a b. \<not> lt b a) (insert_stable lt x xs)"
proof (induction xs)
  case Nil
  then show ?case by simp
next
  case (Cons y ys)
  have set_ins: "set (insert_stable lt x ys) = insert x (set ys)"
    by (metis mset_insert_stable set_mset_add_mset_insert set_mset_mset)
  show ?case
  proof (cases "lt y x")
    case True
    with Cons set_ins asym show ?thesis by auto
  next
    case False
    have "\<not> lt z x" if "z \<in> set ys" for z
      using that Cons.prems neg_trans [of z y x] False by auto
    with False Cons.prems show ?thesis by auto
  qed
qed

lemma sorted_sort_stable: "sorted_wrt (\<lambda>a b. \<not> lt b a) (sort_stable lt xs)"
  by (induction xs) (auto intro: sorted_insert_stable)

text \<open>The head of the sorted list is minimal: nothing in the input is before it.\<close>

lemma hd_sort_stable_minimal:
  assumes "xs \<noteq> []" and "y \<in> set xs"
  shows "\<not> lt y (hd (sort_stable lt xs))"
proof -
  from assms(1) obtain h t where ht: "sort_stable lt xs = h # t"
    by (cases "sort_stable lt xs") auto
  have "y \<in> set (h # t)" using assms(2) ht by (metis set_sort_stable)
  moreover have "\<forall>z \<in> set t. \<not> lt z h"
    using sorted_sort_stable [of xs] ht by simp
  ultimately show ?thesis using ht irrefl by auto
qed

lemma filter_insert_stable:
  assumes "\<And>z. lt z x \<Longrightarrow> \<not> P z" and "P x"
  shows "filter P (insert_stable lt x xs) = x # filter P xs"
  using assms by (induction xs) auto

lemma filter_insert_stable_other:
  "\<not> P x \<Longrightarrow> filter P (insert_stable lt x xs) = filter P xs"
  by (induction xs) auto

text \<open>Elements that no comparison separates keep their order.\<close>

lemma sort_stable_stable:
  assumes "\<And>a b. P a \<Longrightarrow> P b \<Longrightarrow> \<not> lt a b"
  shows "filter P (sort_stable lt xs) = filter P xs"
proof (induction xs)
  case Nil
  show ?case by simp
next
  case (Cons x xs)
  show ?case
  proof (cases "P x")
    case True
    have "\<And>z. lt z x \<Longrightarrow> \<not> P z" using assms True by blast
    with True Cons show ?thesis by (simp add: filter_insert_stable)
  next
    case False
    with Cons show ?thesis by (simp add: filter_insert_stable_other)
  qed
qed

end

text \<open>Comparison by a key in a linear order always meets the contract.\<close>

definition key_less :: "('a \<Rightarrow> 'k::linorder) \<Rightarrow> 'a \<Rightarrow> 'a \<Rightarrow> bool" where
  "key_less key a b \<longleftrightarrow> key a < key b"

interpretation by_key: strict_weak_order "key_less key" for key
  by unfold_locales (auto simp: key_less_def)

text \<open>\<open>sort.Strings\<close>\<close>

definition sort_strings :: "string list \<Rightarrow> string list" where
  "sort_strings xs = sort_stable (key_less id) xs"

lemma set_sort_strings [simp]: "set (sort_strings xs) = set xs"
  by (simp add: sort_strings_def)

lemma distinct_sort_strings [simp]: "distinct (sort_strings xs) = distinct xs"
  by (simp add: sort_strings_def)

lemma sorted_sort_strings [simp]: "sorted (sort_strings xs)"
  using by_key.sorted_sort_stable [of id xs]
  by (simp add: sort_strings_def key_less_def not_less)

end
