(* ===== verification/GoStrings.thy ===== *)
theory GoStrings
  imports Prelude "HOL-Library.Sublist"
begin

text \<open>
  The operations of Go's \<open>strings\<close>, \<open>strconv\<close> and \<open>fmt\<close> packages that the program uses, on
  strings read as lists of bytes. Case mapping and white space are those of ASCII; a byte
  above 127 is a letter of no case and no white space. \<open>strings.Contains\<close>, \<open>HasPrefix\<close> and
  \<open>HasSuffix\<close> are the library's \<open>sublist\<close>, \<open>prefix\<close> and \<open>suffix\<close>.
\<close>

section \<open>Bytes\<close>

abbreviation byte :: "char \<Rightarrow> nat" where
  "byte c \<equiv> of_char c"

definition is_upper :: "char \<Rightarrow> bool" where
  "is_upper c \<longleftrightarrow> 65 \<le> byte c \<and> byte c \<le> 90"

definition is_lower :: "char \<Rightarrow> bool" where
  "is_lower c \<longleftrightarrow> 97 \<le> byte c \<and> byte c \<le> 122"

definition is_digit :: "char \<Rightarrow> bool" where
  "is_digit c \<longleftrightarrow> 48 \<le> byte c \<and> byte c \<le> 57"

definition is_alnum :: "char \<Rightarrow> bool" where
  "is_alnum c \<longleftrightarrow> is_upper c \<or> is_lower c \<or> is_digit c"

definition is_space :: "char \<Rightarrow> bool" where
  "is_space c \<longleftrightarrow> byte c = 32 \<or> (9 \<le> byte c \<and> byte c \<le> 13)"

definition lower_char :: "char \<Rightarrow> char" where
  "lower_char c = (if is_upper c then char_of (byte c + 32) else c)"

definition upper_char :: "char \<Rightarrow> char" where
  "upper_char c = (if is_lower c then char_of (byte c - 32) else c)"

lemma byte_char_of: "n < 256 \<Longrightarrow> byte (char_of n) = n"
  by (simp add: of_char_mod_256)

lemma lower_char_lower: "is_upper c \<Longrightarrow> byte (lower_char c) = byte c + 32"
  by (simp add: lower_char_def is_upper_def byte_char_of)

lemma not_upper_lower_char [simp]: "\<not> is_upper (lower_char c)"
  by (cases "is_upper c") (auto simp: lower_char_lower is_upper_def lower_char_def byte_char_of)

lemma lower_char_idem [simp]: "lower_char (lower_char c) = lower_char c"
  using not_upper_lower_char [of c] by (simp add: lower_char_def [of "lower_char c"])

definition to_lower :: "string \<Rightarrow> string" where
  "to_lower s = map lower_char s"

definition to_upper :: "string \<Rightarrow> string" where
  "to_upper s = map upper_char s"

lemma to_lower_idem [simp]: "to_lower (to_lower s) = to_lower s"
  by (simp add: to_lower_def)

lemma to_lower_Nil [simp]: "to_lower s = [] \<longleftrightarrow> s = []"
  by (simp add: to_lower_def)

definition equal_fold :: "string \<Rightarrow> string \<Rightarrow> bool" where
  "equal_fold s t \<longleftrightarrow> to_lower s = to_lower t"

section \<open>Trimming, splitting, joining\<close>

definition trim_left :: "(char \<Rightarrow> bool) \<Rightarrow> string \<Rightarrow> string" where
  "trim_left p s = dropWhile p s"

definition trim_right :: "(char \<Rightarrow> bool) \<Rightarrow> string \<Rightarrow> string" where
  "trim_right p s = rev (dropWhile p (rev s))"

definition trim :: "(char \<Rightarrow> bool) \<Rightarrow> string \<Rightarrow> string" where
  "trim p s = trim_right p (trim_left p s)"

definition trim_space :: "string \<Rightarrow> string" where
  "trim_space s = trim is_space s"

definition trim_prefix :: "string \<Rightarrow> string \<Rightarrow> string" where
  "trim_prefix p s = (if prefix p s then drop (length p) s else s)"

lemma trim_prefix_append [simp]: "trim_prefix p (p @ s) = s"
  by (simp add: trim_prefix_def)

definition trim_suffix :: "string \<Rightarrow> string \<Rightarrow> string" where
  "trim_suffix p s = (if suffix p s then take (length s - length p) s else s)"

text \<open>\<open>strings.Split(s, sep)\<close> for a separator of one byte: always at least one part.\<close>

fun split_char :: "char \<Rightarrow> string \<Rightarrow> string list" where
  "split_char d [] = [[]]"
| "split_char d (c # cs) =
     (if c = d then [] # split_char d cs
      else (case split_char d cs of [] \<Rightarrow> [[c]] | p # ps \<Rightarrow> (c # p) # ps))"

fun join :: "string \<Rightarrow> string list \<Rightarrow> string" where
  "join sep [] = []"
| "join sep [p] = p"
| "join sep (p # ps) = p @ sep @ join sep ps"

lemma split_char_ne [simp]: "split_char d s \<noteq> []"
  by (induction s) (auto split: list.split)

lemma join_Cons: "ps \<noteq> [] \<Longrightarrow> join sep (p # ps) = p @ sep @ join sep ps"
  by (cases ps) auto

lemma join_split_char: "join [d] (split_char d s) = s"
proof (induction s)
  case Nil
  show ?case by simp
next
  case (Cons c cs)
  obtain p ps where p: "split_char d cs = p # ps" by (cases "split_char d cs") auto
  show ?case
  proof (cases "c = d")
    case True
    with Cons show ?thesis by (simp add: join_Cons)
  next
    case False
    with Cons p show ?thesis by (cases ps) auto
  qed
qed

lemma split_char_no_sep: "p \<in> set (split_char d s) \<Longrightarrow> d \<notin> set p"
  by (induction s arbitrary: p) (auto split: list.splits if_splits)

lemma split_char_single: "d \<notin> set s \<Longrightarrow> split_char d s = [s]"
  by (induction s) auto

lemma split_char_append: "d \<notin> set p \<Longrightarrow> split_char d (p @ d # s) = p # split_char d s"
  by (induction p) auto

lemma split_char_join:
  "ps \<noteq> [] \<Longrightarrow> (\<forall>p \<in> set ps. d \<notin> set p) \<Longrightarrow> split_char d (join [d] ps) = ps"
proof (induction ps)
  case Nil
  then show ?case by simp
next
  case (Cons p ps)
  then show ?case
    by (cases ps) (auto simp: split_char_single split_char_append)
qed

text \<open>\<open>strings.Fields\<close>\<close>

definition fields :: "string \<Rightarrow> string list" where
  "fields s = filter (\<lambda>w. w \<noteq> []) (split_char CHR '' '' (map (\<lambda>c. if is_space c then CHR '' '' else c) s))"

text \<open>\<open>strings.Cut\<close> on a separator: the parts around its first occurrence.\<close>

fun cut :: "string \<Rightarrow> string \<Rightarrow> (string \<times> string) option" where
  "cut sep [] = (if sep = [] then Some ([], []) else None)"
| "cut sep (c # cs) =
     (if prefix sep (c # cs) then Some ([], drop (length sep) (c # cs))
      else (case cut sep cs of None \<Rightarrow> None | Some (b, a) \<Rightarrow> Some (c # b, a)))"

lemma cut_Some: "cut sep s = Some (b, a) \<Longrightarrow> s = b @ sep @ a"
  by (induction sep s arbitrary: b rule: cut.induct)
     (auto split: if_splits option.splits simp: prefix_def)

lemma cut_None: "cut sep s = None \<Longrightarrow> \<not> sublist sep s"
proof (induction sep s rule: cut.induct)
  case (1 sep)
  then show ?case by (auto split: if_splits)
next
  case (2 sep c cs)
  then show ?case
    by (auto split: if_splits option.splits simp: sublist_Cons_right)
qed

text \<open>The prefix before the first occurrence holds no earlier one.\<close>

lemma cut_first:
  "cut sep s = Some (b, a) \<Longrightarrow> sep \<noteq> [] \<Longrightarrow> \<not> sublist sep b"
proof (induction sep s arbitrary: b rule: cut.induct)
  case (1 sep)
  then show ?case by simp
next
  case (2 sep c cs)
  show ?case
  proof (cases "prefix sep (c # cs)")
    case True
    with 2 show ?thesis by simp
  next
    case False
    with "2.prems" obtain b' where b': "cut sep cs = Some (b', a)" "b = c # b'"
      by (auto split: option.splits)
    with "2.IH" [OF False] "2.prems" have "\<not> sublist sep b'" by simp
    moreover have "\<not> prefix sep b"
    proof
      assume "prefix sep b"
      moreover have "c # cs = b @ sep @ a" using b' cut_Some [OF b'(1)] by simp
      ultimately have "prefix sep (c # cs)" by (metis prefix_prefix)
      with False show False by simp
    qed
    ultimately show ?thesis using b'(2) by (simp add: sublist_Cons_right)
  qed
qed

text \<open>\<open>strings.LastIndex(s, d)\<close> for one byte, as the parts around the last occurrence.\<close>

definition cut_last :: "char \<Rightarrow> string \<Rightarrow> (string \<times> string) option" where
  "cut_last d s = (if d \<in> set s
     then Some (rev (tl (dropWhile (\<lambda>c. c \<noteq> d) (rev s))), rev (takeWhile (\<lambda>c. c \<noteq> d) (rev s)))
     else None)"

lemma cut_last_Some:
  assumes "cut_last d s = Some (b, a)"
  shows "s = b @ d # a" and "d \<notin> set a"
proof -
  from assms have d: "d \<in> set (rev s)" and b: "b = rev (tl (dropWhile (\<lambda>c. c \<noteq> d) (rev s)))"
    and a: "a = rev (takeWhile (\<lambda>c. c \<noteq> d) (rev s))"
    by (auto simp: cut_last_def split: if_splits)
  from d obtain x xs where x: "dropWhile (\<lambda>c. c \<noteq> d) (rev s) = x # xs"
    by (metis (full_types) dropWhile_eq_Nil_conv list.exhaust)
  then have "x = d" by (metis (full_types) hd_dropWhile list.sel(1) list.simps(3))
  have "rev s = takeWhile (\<lambda>c. c \<noteq> d) (rev s) @ x # xs"
    using x by (metis takeWhile_dropWhile_id)
  then have "s = rev (x # xs) @ a" using a by (metis rev_append rev_rev_ident)
  with x b \<open>x = d\<close> show "s = b @ d # a" by simp
  show "d \<notin> set a" using a by (auto dest: set_takeWhileD)
qed

section \<open>Replacement\<close>

text \<open>\<open>strings.ReplaceAll(s, old, new)\<close> for a non-empty \<open>old\<close>: leftmost, non-overlapping.\<close>

function replace_all :: "string \<Rightarrow> string \<Rightarrow> string \<Rightarrow> string" where
  "replace_all old new [] = []"
| "replace_all old new (c # cs) =
     (if old \<noteq> [] \<and> prefix old (c # cs) then new @ replace_all old new (drop (length old) (c # cs))
      else c # replace_all old new cs)"
  by pat_completeness auto
termination
  by (relation "measure (\<lambda>(old, new, s). length s)") auto

text \<open>A list without \<open>d\<close> sits inside one of the parts that \<open>d\<close> separates.\<close>

lemma sublist_delim:
  assumes "d \<notin> set t"
  shows "sublist t (u @ d # v) \<longleftrightarrow> sublist t u \<or> sublist t v"
proof
  assume "sublist t (u @ d # v)"
  then consider "sublist t u" | "sublist t (d # v)"
    | t1 t2 where "t = t1 @ t2" "suffix t1 u" "prefix t2 (d # v)"
    by (auto simp: sublist_append)
  then show "sublist t u \<or> sublist t v"
  proof cases
    case 2
    with assms show ?thesis by (cases t) (auto simp: sublist_Cons_right)
  next
    case 3
    with assms have "t2 = []" by (cases t2) auto
    with 3 show ?thesis by (simp add: suffix_imp_sublist)
  qed simp
next
  assume "sublist t u \<or> sublist t v"
  moreover have "sublist u (u @ d # v)" and "sublist v (u @ d # v)"
    by (auto simp: sublist_append sublist_Cons_right)
  ultimately show "sublist t (u @ d # v)" by (meson sublist_order.order_trans)
qed

text \<open>Either nothing is replaced, or the text up to the first occurrence is copied.\<close>

lemma replace_all_split:
  assumes "old \<noteq> []"
  shows "(\<not> sublist old s \<and> replace_all old new s = s) \<or>
    (\<exists>u v. s = u @ old @ v \<and> \<not> sublist old u \<and> replace_all old new s = u @ new @ replace_all old new v)"
  using assms
proof (induction s)
  case Nil
  then show ?case by simp
next
  case (Cons c cs)
  show ?case
  proof (cases "prefix old (c # cs)")
    case True
    then obtain v where v: "c # cs = old @ v" by (auto simp: prefix_def)
    have "drop (length old) (c # cs) = v" unfolding v by simp
    then have "replace_all old new (c # cs) = [] @ new @ replace_all old new v"
      using Cons.prems True by simp
    moreover have "\<not> sublist old []" using Cons.prems by simp
    ultimately show ?thesis using v by fastforce
  next
    case False
    from Cons.IH [OF Cons.prems] consider
      "\<not> sublist old cs" "replace_all old new cs = cs"
      | u v where "cs = u @ old @ v" "\<not> sublist old u" "replace_all old new cs = u @ new @ replace_all old new v"
      by auto
    then show ?thesis
    proof cases
      case 1
      with False show ?thesis by (simp add: sublist_Cons_right)
    next
      case 2
      have "\<not> prefix old (c # u)"
      proof
        assume "prefix old (c # u)"
        then have "prefix old (c # cs)" using 2(1) by (metis append_Cons prefix_prefix)
        with False show False by simp
      qed
      with 2 have "\<not> sublist old (c # u)" by (simp add: sublist_Cons_right)
      moreover have "c # cs = (c # u) @ old @ v" using 2(1) by simp
      moreover have "replace_all old new (c # cs) = (c # u) @ new @ replace_all old new v"
        using False 2(3) by simp
      ultimately show ?thesis by blast
    qed
  qed
qed

text \<open>
  The replacement is written between two delimiters that the searched text does not hold,
  around a middle part that does not hold the searched text: then nothing of that kind
  survives, and replacing one text brings back no other.
\<close>

definition shielded :: "string \<Rightarrow> string \<Rightarrow> bool" where
  "shielded t new \<longleftrightarrow> (\<exists>l m r. new = l # m @ [r] \<and> l \<notin> set t \<and> r \<notin> set t \<and> \<not> sublist t m)"

lemma sublist_shielded:
  assumes "shielded t new"
  shows "sublist t (u @ new @ v) \<longleftrightarrow> sublist t u \<or> sublist t v"
proof -
  from assms obtain l m r where n: "new = l # m @ [r]" "l \<notin> set t" "r \<notin> set t" "\<not> sublist t m"
    by (auto simp: shielded_def)
  then have "sublist t (u @ l # (m @ r # v)) \<longleftrightarrow> sublist t u \<or> sublist t m \<or> sublist t v"
    by (simp add: sublist_delim)
  with n show ?thesis by simp
qed

lemma replace_all_removes:
  assumes "old \<noteq> []" and "shielded old new"
  shows "\<not> sublist old (replace_all old new s)"
proof (induction s rule: length_induct)
  case (1 s)
  from replace_all_split [OF assms(1), of s new] show ?case
  proof (elim disjE exE conjE)
    fix u v
    assume s: "s = u @ old @ v" "\<not> sublist old u" "replace_all old new s = u @ new @ replace_all old new v"
    have "length v < length s" using s(1) assms(1) by simp
    with 1 have "\<not> sublist old (replace_all old new v)" by blast
    with s sublist_shielded [OF assms(2)] show ?thesis by simp
  qed simp
qed

lemma replace_all_no_new:
  assumes "shielded t new" and "old \<noteq> []" and "\<not> sublist t s"
  shows "\<not> sublist t (replace_all old new s)"
  using assms(3)
proof (induction s rule: length_induct)
  case (1 s)
  from replace_all_split [OF assms(2), of s new] show ?case
  proof (elim disjE exE conjE)
    fix u v
    assume s: "s = u @ old @ v" "replace_all old new s = u @ new @ replace_all old new v"
    have "sublist u s" and "sublist v s" using s(1) by (auto simp: sublist_append)
    then have uv: "\<not> sublist t u" "\<not> sublist t v"
      using "1.prems" by (meson sublist_order.order_trans)+
    have "length v < length s" using s(1) assms(2) by simp
    with 1 uv have "\<not> sublist t (replace_all old new v)" by blast
    with s uv sublist_shielded [OF assms(1)] show ?thesis by simp
  qed (use 1 in simp)
qed

lemma replace_all_id: "\<not> sublist old s \<Longrightarrow> replace_all old new s = s"
  using replace_all_split [of old s new] by (cases "old = []") (auto simp: sublist_append)

text \<open>\<open>strings.ReplaceAll\<close> of one byte by another.\<close>

definition replace_char :: "char \<Rightarrow> char \<Rightarrow> string \<Rightarrow> string" where
  "replace_char a b s = map (\<lambda>c. if c = a then b else c) s"

section \<open>Formatting\<close>

fun string_of_nat :: "nat \<Rightarrow> string" where
  "string_of_nat n = (if n < 10 then [char_of (48 + n)] else string_of_nat (n div 10) @ [char_of (48 + n mod 10)])"

declare string_of_nat.simps [simp del]

definition string_of_int :: "int \<Rightarrow> string" where
  "string_of_int i = (if i < 0 then CHR ''-'' # string_of_nat (nat (- i)) else string_of_nat (nat i))"

lemma string_of_nat_ne [simp]: "string_of_nat n \<noteq> []"
  by (subst string_of_nat.simps) simp

lemma string_of_nat_digits: "c \<in> set (string_of_nat n) \<Longrightarrow> is_digit c"
proof (induction n rule: string_of_nat.induct)
  case (1 n)
  show ?case
  proof (cases "n < 10")
    case True
    with 1 show ?thesis by (simp add: string_of_nat.simps [of n] is_digit_def byte_char_of)
  next
    case False
    with 1 show ?thesis
      by (auto simp: string_of_nat.simps [of n] is_digit_def byte_char_of)
  qed
qed

text \<open>\<open>%q\<close>: a double-quoted literal with Go's escapes; bytes above 127 stand for themselves.\<close>

definition hex_digit :: "nat \<Rightarrow> char" where
  "hex_digit n = ''0123456789abcdef'' ! (n mod 16)"

definition quote_char :: "char \<Rightarrow> string" where
  "quote_char c =
     (if byte c = 34 then [CHR 0x5C, CHR 0x22]
      else if byte c = 92 then [CHR 0x5C, CHR 0x5C]
      else if byte c = 7 then [CHR 0x5C, CHR ''a'']
      else if byte c = 8 then [CHR 0x5C, CHR ''b'']
      else if byte c = 12 then [CHR 0x5C, CHR ''f'']
      else if byte c = 10 then [CHR 0x5C, CHR ''n'']
      else if byte c = 13 then [CHR 0x5C, CHR ''r'']
      else if byte c = 9 then [CHR 0x5C, CHR ''t'']
      else if byte c = 11 then [CHR 0x5C, CHR ''v'']
      else if byte c < 32 \<or> byte c = 127
        then [CHR 0x5C, CHR ''x'', hex_digit (byte c div 16), hex_digit (byte c mod 16)]
      else [c])"

definition quote :: "string \<Rightarrow> string" where
  "quote s = CHR 0x22 # concat (map quote_char s) @ [CHR 0x22]"

text \<open>\<open>%.nf\<close> of an exact number: rounded to the nearest, a tie to the even digit.\<close>

definition round_even :: "rat \<Rightarrow> int" where
  "round_even r = (let f = \<lfloor>r\<rfloor>; d = r - of_int f in
     if d < 1 / 2 then f else if d > 1 / 2 then f + 1 else if even f then f else f + 1)"

definition fmt_fixed :: "nat \<Rightarrow> rat \<Rightarrow> string" where
  "fmt_fixed k r =
     (let m = round_even (\<bar>r\<bar> * of_nat (10 ^ k)); n = nat m;
          whole = string_of_nat (n div 10 ^ k);
          frac = string_of_nat (n mod 10 ^ k);
          sign = (if r < 0 then ''-'' else [])
      in sign @ whole @ (if k = 0 then [] else CHR ''.'' # replicate (k - length frac) CHR ''0'' @ frac))"

end
