(* ===== verification/GoUrl.thy ===== *)
theory GoUrl
  imports GoStrings
begin

text \<open>
  The part of Go's \<open>net/url\<close> that the program relies on: \<open>Parse\<close>, \<open>URL.String\<close>, the escaping
  modes, \<open>ParseQuery\<close> and \<open>Values.Encode\<close>. A host in brackets is checked for its bracket and
  port only; the text of a parse error is not modelled, as the program shows it nowhere that a
  decision depends on.
\<close>

section \<open>Percent encoding\<close>

datatype encoding = EncodePath | EncodePathSegment | EncodeHost | EncodeUserPassword
  | EncodeQueryComponent | EncodeFragment

definition should_escape :: "encoding \<Rightarrow> char \<Rightarrow> bool" where
  "should_escape mode c =
     (if is_alnum c then False
      else if mode = EncodeHost \<and> c \<in> set (''!$&()*+,;=:[]<>'' @ [CHR 0x27, CHR 0x22]) then False
      else if c \<in> set ''-_.~'' then False
      else if c \<in> set ''$&+,/:;=?@''
        then (case mode of
            EncodePath \<Rightarrow> c = CHR ''?''
          | EncodePathSegment \<Rightarrow> c \<in> set ''/;,?''
          | EncodeUserPassword \<Rightarrow> c \<in> set ''@/?:''
          | EncodeQueryComponent \<Rightarrow> True
          | EncodeFragment \<Rightarrow> False
          | EncodeHost \<Rightarrow> True)
      else if mode = EncodeFragment \<and> c \<in> set ''!()*'' then False
      else True)"

definition upper_hex :: "nat \<Rightarrow> char" where
  "upper_hex n = ''0123456789ABCDEF'' ! (n mod 16)"

definition is_hex :: "char \<Rightarrow> bool" where
  "is_hex c \<longleftrightarrow> is_digit c \<or> (97 \<le> byte c \<and> byte c \<le> 102) \<or> (65 \<le> byte c \<and> byte c \<le> 70)"

definition unhex :: "char \<Rightarrow> nat" where
  "unhex c = (if is_digit c then byte c - 48
     else if 97 \<le> byte c \<and> byte c \<le> 102 then byte c - 87
     else if 65 \<le> byte c \<and> byte c \<le> 70 then byte c - 55 else 0)"

definition escape_char :: "encoding \<Rightarrow> char \<Rightarrow> string" where
  "escape_char mode c =
     (if c = CHR '' '' \<and> mode = EncodeQueryComponent then ''+''
      else if should_escape mode c then [CHR ''%'', upper_hex (byte c div 16), upper_hex (byte c mod 16)]
      else [c])"

definition escape :: "encoding \<Rightarrow> string \<Rightarrow> string" where
  "escape mode s = concat (map (escape_char mode) s)"

fun unescape :: "encoding \<Rightarrow> string \<Rightarrow> string option" where
  "unescape mode [] = Some []"
| "unescape mode (c # cs) =
     (if c = CHR ''%'' then
        (case cs of a # b # rest \<Rightarrow>
           (if \<not> is_hex a \<or> \<not> is_hex b then None
            else if mode = EncodeHost \<and> unhex a < 8 \<and> \<not> (a = CHR ''2'' \<and> b = CHR ''5'') then None
            else map_option (\<lambda>r. char_of (16 * unhex a + unhex b) # r) (unescape mode rest))
         | _ \<Rightarrow> None)
      else if c = CHR ''+'' \<and> mode = EncodeQueryComponent then map_option (\<lambda>r. CHR '' '' # r) (unescape mode cs)
      else if mode = EncodeHost \<and> byte c < 128 \<and> should_escape mode c then None
      else map_option (\<lambda>r. c # r) (unescape mode cs))"

lemma upper_hex_digit:
  assumes "n < 16"
  shows "is_hex (upper_hex n) \<and> unhex (upper_hex n) = n"
proof -
  have "\<forall>k \<in> set [0..<16]. is_hex (upper_hex k) \<and> unhex (upper_hex k) = k"
    by code_simp
  with assms show ?thesis by simp
qed

lemma unescape_hex:
  assumes "mode \<noteq> EncodeHost" and "is_hex a" and "is_hex b"
  shows "unescape mode (CHR ''%'' # a # b # s)
    = map_option (\<lambda>r. char_of (16 * unhex a + unhex b) # r) (unescape mode s)"
  using assms by simp

lemma should_escape_percent: "should_escape mode (CHR ''%'')"
proof -
  have "\<forall>m \<in> set [EncodePath, EncodePathSegment, EncodeHost, EncodeUserPassword, EncodeQueryComponent,
      EncodeFragment]. should_escape m (CHR ''%'')"
    by code_simp
  then show ?thesis by (cases mode) simp_all
qed

lemma should_escape_plus: "should_escape EncodeQueryComponent (CHR ''+'')"
  by code_simp

lemma unescape_plain:
  assumes "mode \<noteq> EncodeHost" and "\<not> should_escape mode c"
  shows "unescape mode (c # s) = map_option (\<lambda>r. c # r) (unescape mode s)"
proof -
  have "c \<noteq> CHR ''%''" using assms(2) should_escape_percent by blast
  moreover have "\<not> (c = CHR ''+'' \<and> mode = EncodeQueryComponent)"
    using assms(2) should_escape_plus by blast
  ultimately show ?thesis using assms(1) by (auto simp del: map_option_eq_Some)
qed

lemma unescape_escape_char:
  assumes "mode \<noteq> EncodeHost"
  shows "unescape mode (escape_char mode c @ s) = map_option (\<lambda>r. c # r) (unescape mode s)"
proof (cases "c = CHR '' '' \<and> mode = EncodeQueryComponent")
  case True
  then show ?thesis by (simp add: escape_char_def)
next
  case space: False
  show ?thesis
  proof (cases "should_escape mode c")
    case True
    have "byte c < 256" by (metis of_char_mod_256 mod_less_divisor zero_less_numeral)
    then have hi: "byte c div 16 < 16" by (simp add: less_mult_imp_div_less)
    have lo: "byte c mod 16 < 16" by simp
    have re: "char_of (16 * (byte c div 16) + byte c mod 16) = c" by simp
    have "escape_char mode c = CHR ''%'' # upper_hex (byte c div 16) # [upper_hex (byte c mod 16)]"
      using space True by (auto simp: escape_char_def)
    then show ?thesis
      using unescape_hex [OF assms, of "upper_hex (byte c div 16)" "upper_hex (byte c mod 16)" s]
        upper_hex_digit [OF hi] upper_hex_digit [OF lo] re
      by (simp del: unescape.simps)
  next
    case False
    have "escape_char mode c = [c]" using space False by (auto simp: escape_char_def)
    then show ?thesis using unescape_plain [OF assms False] by (simp del: unescape.simps)
  qed
qed

text \<open>Unescaping undoes escaping in every mode but that of a host.\<close>

lemma unescape_escape: "mode \<noteq> EncodeHost \<Longrightarrow> unescape mode (escape mode s) = Some s"
  by (induction s) (simp_all add: escape_def unescape_escape_char)

definition query_escape :: "string \<Rightarrow> string" where
  "query_escape s = escape EncodeQueryComponent s"

definition valid_encoded :: "encoding \<Rightarrow> string \<Rightarrow> bool" where
  "valid_encoded mode s \<longleftrightarrow>
     (\<forall>c \<in> set s. c \<in> set (''!$&()*+,;=:@[]%'' @ [CHR 0x27]) \<or> \<not> should_escape mode c)"

section \<open>Parsing\<close>

record url =
  url_scheme :: string
  url_opaque :: string
  url_user :: "(string \<times> string option) option"
  url_host :: string
  url_path :: string
  url_raw_path :: string
  url_omit_host :: bool
  url_force_query :: bool
  url_raw_query :: string
  url_fragment :: string
  url_raw_fragment :: string

definition empty_url :: url where
  "empty_url = \<lparr>url_scheme = [], url_opaque = [], url_user = None, url_host = [], url_path = [],
     url_raw_path = [], url_omit_host = False, url_force_query = False, url_raw_query = [],
     url_fragment = [], url_raw_fragment = []\<rparr>"

text \<open>The scheme before the first colon and the rest; \<open>None\<close> for a colon in front.\<close>

fun get_scheme_from :: "string \<Rightarrow> string \<Rightarrow> string \<Rightarrow> (string \<times> string) option" where
  "get_scheme_from raw seen [] = Some ([], raw)"
| "get_scheme_from raw seen (c # cs) =
     (if is_upper c \<or> is_lower c then get_scheme_from raw (seen @ [c]) cs
      else if is_digit c \<or> c \<in> set ''+-.''
        then (if seen = [] then Some ([], raw) else get_scheme_from raw (seen @ [c]) cs)
      else if c = CHR '':'' then (if seen = [] then None else Some (seen, cs))
      else Some ([], raw))"

definition get_scheme :: "string \<Rightarrow> (string \<times> string) option" where
  "get_scheme raw = get_scheme_from raw [] raw"

definition valid_userinfo :: "string \<Rightarrow> bool" where
  "valid_userinfo s \<longleftrightarrow>
     (\<forall>c \<in> set s. is_alnum c \<or> c \<in> set (''-._:~!$&()*+,;=%@'' @ [CHR 0x27]))"

definition valid_optional_port :: "string \<Rightarrow> bool" where
  "valid_optional_port port =
     (case port of [] \<Rightarrow> True | c # cs \<Rightarrow> c = CHR '':'' \<and> (\<forall>d \<in> set cs. is_digit d))"

definition parse_host :: "string \<Rightarrow> string option" where
  "parse_host host =
     (let port_ok =
        (if prefix ''['' host
           then (case cut_last (CHR '']'') host of None \<Rightarrow> False | Some (_, port) \<Rightarrow> valid_optional_port port)
         else (case cut_last (CHR '':'') host of None \<Rightarrow> True
               | Some (_, port) \<Rightarrow> valid_optional_port (CHR '':'' # port)))
      in if port_ok then unescape EncodeHost host else None)"

definition parse_authority :: "string \<Rightarrow> ((string \<times> string option) option \<times> string) option" where
  "parse_authority a =
     (case cut_last (CHR ''@'') a of
        None \<Rightarrow> map_option (\<lambda>h. (None, h)) (parse_host a)
      | Some (info, host) \<Rightarrow>
          (case parse_host host of None \<Rightarrow> None | Some h \<Rightarrow>
             if \<not> valid_userinfo info then None
             else (case cut '':'' info of
                 None \<Rightarrow> map_option (\<lambda>u. (Some (u, None), h)) (unescape EncodeUserPassword info)
               | Some (name, pw) \<Rightarrow>
                   (case (unescape EncodeUserPassword name, unescape EncodeUserPassword pw) of
                      (Some u, Some p) \<Rightarrow> Some (Some (u, Some p), h)
                    | _ \<Rightarrow> None))))"

definition has_ctl :: "string \<Rightarrow> bool" where
  "has_ctl s \<longleftrightarrow> (\<exists>c \<in> set s. byte c < 32 \<or> byte c = 127)"

text \<open>\<open>setPath\<close>: the raw path is kept only where it is not the standard encoding of the path.\<close>

definition set_path :: "string \<Rightarrow> url \<Rightarrow> url option" where
  "set_path p u = map_option
     (\<lambda>path. u\<lparr>url_path := path, url_raw_path := (if escape EncodePath path = p then [] else p)\<rparr>)
     (unescape EncodePath p)"

definition cut_at :: "char \<Rightarrow> string \<Rightarrow> string \<times> string" where
  "cut_at d s = (takeWhile (\<lambda>c. c \<noteq> d) s, drop 1 (dropWhile (\<lambda>c. c \<noteq> d) s))"

definition parse_rest :: "url \<Rightarrow> string \<Rightarrow> url option" where
  "parse_rest u rest =
     (if \<not> prefix ''/'' rest \<and> url_scheme u \<noteq> [] then Some (u\<lparr>url_opaque := rest\<rparr>)
      else if \<not> prefix ''/'' rest \<and> CHR '':'' \<in> set (fst (cut_at (CHR ''/'') rest)) then None
      else if (url_scheme u \<noteq> [] \<or> \<not> prefix ''///'' rest) \<and> prefix ''//'' rest
        then (let (authority, path) = (takeWhile (\<lambda>c. c \<noteq> CHR ''/'') (drop 2 rest), dropWhile (\<lambda>c. c \<noteq> CHR ''/'') (drop 2 rest))
              in case parse_authority authority of None \<Rightarrow> None
                 | Some (user, host) \<Rightarrow> set_path path (u\<lparr>url_user := user, url_host := host\<rparr>))
      else if url_scheme u \<noteq> [] \<and> prefix ''/'' rest then set_path rest (u\<lparr>url_omit_host := True\<rparr>)
      else set_path rest u)"

definition parse_no_fragment :: "string \<Rightarrow> url option" where
  "parse_no_fragment raw =
     (if has_ctl raw then None
      else if raw = ''*'' then Some (empty_url\<lparr>url_path := ''*''\<rparr>)
      else (case get_scheme raw of None \<Rightarrow> None
        | Some (scheme, rest) \<Rightarrow>
            let u = empty_url\<lparr>url_scheme := to_lower scheme\<rparr> in
            if suffix ''?'' rest \<and> length (filter (\<lambda>c. c = CHR ''?'') rest) = 1
            then parse_rest (u\<lparr>url_force_query := True\<rparr>) (butlast rest)
            else (let (path, query) = cut_at (CHR ''?'') rest
                  in parse_rest (u\<lparr>url_raw_query := query\<rparr>) path)))"

definition url_parse :: "string \<Rightarrow> url option" where
  "url_parse raw =
     (let (s, frag) = cut_at (CHR ''#'') raw in
      case parse_no_fragment s of None \<Rightarrow> None
      | Some u \<Rightarrow> if frag = [] then Some u
                 else map_option (\<lambda>f. u\<lparr>url_fragment := f,
                        url_raw_fragment := (if escape EncodeFragment f = frag then [] else frag)\<rparr>)
                      (unescape EncodeFragment frag))"

section \<open>Printing\<close>

definition escaped_path :: "url \<Rightarrow> string" where
  "escaped_path u =
     (if url_raw_path u \<noteq> [] \<and> valid_encoded EncodePath (url_raw_path u)
         \<and> unescape EncodePath (url_raw_path u) = Some (url_path u) then url_raw_path u
      else if url_path u = ''*'' then ''*''
      else escape EncodePath (url_path u))"

definition escaped_fragment :: "url \<Rightarrow> string" where
  "escaped_fragment u =
     (if url_raw_fragment u \<noteq> [] \<and> valid_encoded EncodeFragment (url_raw_fragment u)
         \<and> unescape EncodeFragment (url_raw_fragment u) = Some (url_fragment u) then url_raw_fragment u
      else escape EncodeFragment (url_fragment u))"

definition userinfo_string :: "string \<times> string option \<Rightarrow> string" where
  "userinfo_string ui = (case ui of (name, pw) \<Rightarrow>
     escape EncodeUserPassword name @
     (case pw of None \<Rightarrow> [] | Some p \<Rightarrow> CHR '':'' # escape EncodeUserPassword p))"

definition url_string :: "url \<Rightarrow> string" where
  "url_string u =
     (let scheme = (if url_scheme u \<noteq> [] then url_scheme u @ '':'' else []);
          body =
            (if url_opaque u \<noteq> [] then url_opaque u
             else
               let path = escaped_path u;
                   authority =
                     (if (url_scheme u \<noteq> [] \<or> url_host u \<noteq> [] \<or> url_user u \<noteq> None)
                         \<and> \<not> (url_omit_host u \<and> url_host u = [] \<and> url_user u = None)
                      then (if url_host u \<noteq> [] \<or> url_path u \<noteq> [] \<or> url_user u \<noteq> None then ''//'' else [])
                           @ (case url_user u of None \<Rightarrow> [] | Some ui \<Rightarrow> userinfo_string ui @ ''@'')
                           @ escape EncodeHost (url_host u)
                      else []);
                   slash = (if path \<noteq> [] \<and> hd path \<noteq> CHR ''/'' \<and> url_host u \<noteq> [] then ''/'' else []);
                   dot = (if scheme @ authority @ slash = [] \<and> CHR '':'' \<in> set (fst (cut_at (CHR ''/'') path))
                          then ''./'' else [])
               in authority @ slash @ dot @ path)
      in scheme @ body
         @ (if url_force_query u \<or> url_raw_query u \<noteq> [] then CHR ''?'' # url_raw_query u else [])
         @ (if url_fragment u \<noteq> [] then CHR ''#'' # escaped_fragment u else []))"

section \<open>Query strings\<close>

type_synonym url_values = "string list smap"

text \<open>\<open>URL.Query\<close> drops the pairs that do not parse; values of one key keep their order.\<close>

definition add_query_pair :: "url_values \<Rightarrow> string \<Rightarrow> url_values" where
  "add_query_pair m pair =
     (if CHR '';'' \<in> set pair \<or> pair = [] then m
      else let (k, v) = cut_at (CHR ''='') pair in
        case (unescape EncodeQueryComponent k, unescape EncodeQueryComponent v) of
          (Some key, Some value) \<Rightarrow> AList.update key (lookup_default [] m key @ [value]) m
        | _ \<Rightarrow> m)"

definition parse_query :: "string \<Rightarrow> url_values" where
  "parse_query q = foldl add_query_pair [] (split_char (CHR ''&'') q)"

lemma distinct_parse_query: "distinct (map fst (parse_query q))"
proof -
  have "distinct (map fst (foldl add_query_pair m ps))" if "distinct (map fst m)" for m ps
    using that
    by (induction ps arbitrary: m)
       (auto simp: add_query_pair_def Let_def distinct_update split: prod.splits option.splits)
  then show ?thesis by (simp add: parse_query_def)
qed

definition encode_query :: "url_values \<Rightarrow> string" where
  "encode_query m = join ''&'' (concat (map
     (\<lambda>k. map (\<lambda>v. query_escape k @ ''='' @ query_escape v) (lookup_default [] m k))
     (sort_strings (map fst m))))"

end
