(* ===== verification/GoTime.thy ===== *)
theory GoTime
  imports GoStrings
begin

text \<open>
  Go's \<open>time.Time\<close> in UTC, as its civil components: the program takes every time from
  \<open>time.Now().UTC()\<close>. The zero time is the first instant of year 1. The layout
  \<open>time.RFC3339Nano\<close>, in which the store keeps times, drops the trailing zeros of the fraction.
\<close>

datatype gotime = GoTime (t_year: nat) (t_month: nat) (t_day: nat) (t_hour: nat) (t_min: nat)
  (t_sec: nat) (t_nano: nat)

definition time_key :: "gotime \<Rightarrow> nat \<times> nat \<times> nat \<times> nat \<times> nat \<times> nat \<times> nat" where
  "time_key t = (t_year t, t_month t, t_day t, t_hour t, t_min t, t_sec t, t_nano t)"

lemma time_key_inject [simp]: "time_key s = time_key t \<longleftrightarrow> s = t"
  by (cases s; cases t) (simp add: time_key_def)

text \<open>Chronological order.\<close>

instantiation gotime :: linorder
begin

definition less_eq_gotime :: "gotime \<Rightarrow> gotime \<Rightarrow> bool" where
  "less_eq_gotime s t \<longleftrightarrow> time_key s \<le> time_key t"

definition less_gotime :: "gotime \<Rightarrow> gotime \<Rightarrow> bool" where
  "less_gotime s t \<longleftrightarrow> time_key s < time_key t"

instance
  by standard
     (auto simp: less_eq_gotime_def less_gotime_def less_le_not_le
       dest: order.trans intro: antisym simp flip: time_key_inject)

end

definition zero_time :: gotime where
  "zero_time = GoTime 1 1 1 0 0 0 0"

definition is_zero_time :: "gotime \<Rightarrow> bool" where
  "is_zero_time t \<longleftrightarrow> t = zero_time"

definition leap_year :: "nat \<Rightarrow> bool" where
  "leap_year y \<longleftrightarrow> y mod 4 = 0 \<and> (y mod 100 \<noteq> 0 \<or> y mod 400 = 0)"

definition days_in_month :: "nat \<Rightarrow> nat \<Rightarrow> nat" where
  "days_in_month y m =
     (if m = 2 then (if leap_year y then 29 else 28)
      else if m \<in> set [4, 6, 9, 11] then 30 else 31)"

definition valid_time :: "gotime \<Rightarrow> bool" where
  "valid_time t \<longleftrightarrow> 1 \<le> t_year t \<and> t_year t \<le> 9999 \<and> 1 \<le> t_month t \<and> t_month t \<le> 12
     \<and> 1 \<le> t_day t \<and> t_day t \<le> days_in_month (t_year t) (t_month t)
     \<and> t_hour t \<le> 23 \<and> t_min t \<le> 59 \<and> t_sec t \<le> 59 \<and> t_nano t \<le> 999999999"

section \<open>Durations\<close>

text \<open>Days before a date, counted from the first day of year 1.\<close>

definition days_before :: "nat \<Rightarrow> nat \<Rightarrow> nat \<Rightarrow> int" where
  "days_before y m d =
     (let p = int y - 1 in
      365 * p + p div 4 - p div 100 + p div 400
      + int (sum_list (map (days_in_month y) [1 ..< m])) + int d - 1)"

definition time_nanos :: "gotime \<Rightarrow> int" where
  "time_nanos t =
     (((days_before (t_year t) (t_month t) (t_day t) * 24 + int (t_hour t)) * 60 + int (t_min t)) * 60
      + int (t_sec t)) * 1000000000 + int (t_nano t)"

text \<open>\<open>t.Sub(u)\<close>: a duration of 64 bits that saturates instead of wrapping.\<close>

definition time_sub :: "gotime \<Rightarrow> gotime \<Rightarrow> int" where
  "time_sub t u = max (- (2 ^ 63)) (min (2 ^ 63 - 1) (time_nanos t - time_nanos u))"

definition duration_seconds :: "int \<Rightarrow> rat" where
  "duration_seconds d = of_int d / 1000000000"

section \<open>The text of a time\<close>

text \<open>A number in exactly \<open>k\<close> decimal digits.\<close>

fun pad :: "nat \<Rightarrow> nat \<Rightarrow> string" where
  "pad 0 n = []"
| "pad (Suc k) n = pad k (n div 10) @ [char_of (48 + n mod 10)]"

fun digits_value :: "nat \<Rightarrow> string \<Rightarrow> nat" where
  "digits_value acc [] = acc"
| "digits_value acc (c # cs) = digits_value (10 * acc + (byte c - 48)) cs"

lemma length_pad [simp]: "length (pad k n) = k"
  by (induction k arbitrary: n) auto

lemma pad_digits: "c \<in> set (pad k n) \<Longrightarrow> is_digit c"
  by (induction k arbitrary: n) (auto simp: is_digit_def byte_char_of)

lemma digits_value_append:
  "digits_value acc (xs @ [c]) = 10 * digits_value acc xs + (byte c - 48)"
  by (induction xs arbitrary: acc) auto

lemma digits_value_pad: "digits_value 0 (pad k n) = n mod 10 ^ k"
proof (induction k arbitrary: n)
  case 0
  show ?case by simp
next
  case (Suc k)
  have "n mod 10 ^ Suc k = 10 * (n div 10 mod 10 ^ k) + n mod 10"
    by (simp add: mod_mult2_eq)
  with Suc show ?case by (simp add: digits_value_append byte_char_of)
qed

definition fraction_text :: "nat \<Rightarrow> string" where
  "fraction_text ns =
     (let ds = trim_right (\<lambda>c. c = CHR ''0'') (pad 9 ns) in if ds = [] then [] else CHR ''.'' # ds)"

definition rfc3339_nano :: "gotime \<Rightarrow> string" where
  "rfc3339_nano t = pad 4 (t_year t) @ ''-'' @ pad 2 (t_month t) @ ''-'' @ pad 2 (t_day t) @ ''T''
     @ pad 2 (t_hour t) @ '':'' @ pad 2 (t_min t) @ '':'' @ pad 2 (t_sec t)
     @ fraction_text (t_nano t) @ ''Z''"

text \<open>
  \<open>time.Parse(time.RFC3339Nano, s)\<close> on a text in UTC: fixed fields, then an optional fraction
  of one to nine digits, then \<open>Z\<close>. Numeric offsets, which the program never writes, are refused.
\<close>

definition num_field :: "nat \<Rightarrow> nat \<Rightarrow> string \<Rightarrow> nat" where
  "num_field i k s = digits_value 0 (take k (drop i s))"

definition shape_ok :: "string \<Rightarrow> bool" where
  "shape_ok s \<longleftrightarrow> length s \<ge> 20 \<and> s ! 4 = CHR ''-'' \<and> s ! 7 = CHR ''-'' \<and> s ! 10 = CHR ''T''
     \<and> s ! 13 = CHR '':'' \<and> s ! 16 = CHR '':''
     \<and> (\<forall>i \<in> set [0, 1, 2, 3, 5, 6, 8, 9, 11, 12, 14, 15, 17, 18]. is_digit (s ! i))"

definition parse_fraction :: "string \<Rightarrow> nat option" where
  "parse_fraction s =
     (if s = ''Z'' then Some 0
      else case s of
        d # rest \<Rightarrow>
          (let ds = butlast rest in
           if d = CHR ''.'' \<and> rest \<noteq> [] \<and> last rest = CHR ''Z'' \<and> ds \<noteq> [] \<and> length ds \<le> 9
              \<and> (\<forall>c \<in> set ds. is_digit c)
           then Some (digits_value 0 ds * 10 ^ (9 - length ds)) else None)
      | [] \<Rightarrow> None)"

definition parse_time :: "string \<Rightarrow> gotime option" where
  "parse_time s =
     (if shape_ok s then
        (case parse_fraction (drop 19 s) of
           None \<Rightarrow> None
         | Some ns \<Rightarrow>
             (let t = GoTime (num_field 0 4 s) (num_field 5 2 s) (num_field 8 2 s)
                        (num_field 11 2 s) (num_field 14 2 s) (num_field 17 2 s) ns
              in if valid_time t then Some t else None))
      else None)"

section \<open>Reading back a printed time\<close>

lemma trim_right_zeros:
  "s = trim_right (\<lambda>c. c = z) s @ replicate (length s - length (trim_right (\<lambda>c. c = z) s)) z"
proof -
  let ?t = "takeWhile (\<lambda>c. c = z) (rev s)" and ?d = "dropWhile (\<lambda>c. c = z) (rev s)"
  have "rev s = ?t @ ?d" by simp
  then have s: "s = rev ?d @ rev ?t" by (metis rev_append rev_rev_ident)
  have "?t = replicate (length ?t) z"
    by (metis (full_types) replicate_length_same set_takeWhileD)
  then have "rev ?t = replicate (length ?t) z" by (metis rev_replicate)
  moreover have "length ?t = length s - length ?d"
    by (metis add_diff_cancel_right' length_append length_rev takeWhile_dropWhile_id)
  ultimately show ?thesis using s by (simp add: trim_right_def)
qed

lemma digits_value_zeros: "digits_value acc (s @ replicate j (CHR ''0'')) = digits_value acc s * 10 ^ j"
proof (induction j)
  case 0
  show ?case by simp
next
  case (Suc j)
  have "s @ replicate (Suc j) (CHR ''0'') = (s @ replicate j (CHR ''0'')) @ [CHR ''0'']"
    by (simp add: replicate_append_same)
  with Suc show ?case by (simp only: digits_value_append) simp
qed

lemma parse_fraction_text:
  assumes "ns \<le> 999999999"
  shows "parse_fraction (fraction_text ns @ ''Z'') = Some ns"
proof -
  let ?ds = "trim_right (\<lambda>c. c = CHR ''0'') (pad 9 ns)"
  let ?j = "9 - length ?ds"
  have p: "pad 9 ns = ?ds @ replicate ?j (CHR ''0'')"
    using trim_right_zeros [of "pad 9 ns" "CHR ''0''"] by (simp only: length_pad)
  have "digits_value 0 (pad 9 ns) = digits_value 0 ?ds * 10 ^ ?j"
    by (subst p) (rule digits_value_zeros)
  then have v: "digits_value 0 ?ds * 10 ^ ?j = ns" using assms by (simp add: digits_value_pad)
  have "length (pad 9 ns) = length ?ds + ?j" by (subst p) simp
  then have len: "length ?ds \<le> 9" by (simp only: length_pad)
  have "set ?ds \<subseteq> set (pad 9 ns)" by (subst (2) p) simp
  then have dig: "\<forall>c \<in> set ?ds. is_digit c" using pad_digits by blast
  show ?thesis
  proof (cases "?ds = []")
    case True
    with v show ?thesis by (simp add: fraction_text_def parse_fraction_def)
  next
    case False
    then have "fraction_text ns @ ''Z'' = CHR ''.'' # (?ds @ ''Z'')"
      by (simp add: fraction_text_def)
    with False v len dig show ?thesis by (simp add: parse_fraction_def)
  qed
qed

lemma num_field_mid:
  "length a = i \<Longrightarrow> length b = k \<Longrightarrow> num_field i k (a @ b @ c) = digits_value 0 b"
  by (simp add: num_field_def)

lemma pad2: "pad 2 n = [char_of (48 + n div 10 mod 10), char_of (48 + n mod 10)]"
  by (simp add: numeral_2_eq_2)

lemma pad4: "pad 4 n = [char_of (48 + n div 10 div 10 div 10 mod 10), char_of (48 + n div 10 div 10 mod 10),
    char_of (48 + n div 10 mod 10), char_of (48 + n mod 10)]"
proof -
  have four: "(4::nat) = Suc (Suc (Suc (Suc 0)))" by simp
  show ?thesis by (simp only: four pad.simps append_Nil append_Cons)
qed

lemma digit_of_mod: "is_digit (char_of (48 + (n::nat) mod 10))"
  by (simp add: is_digit_def byte_char_of)

lemma shape_ok_rfc3339: "shape_ok (rfc3339_nano t)"
proof -
  have "rfc3339_nano t ! 4 = CHR ''-''" "rfc3339_nano t ! 7 = CHR ''-''" "rfc3339_nano t ! 10 = CHR ''T''"
    "rfc3339_nano t ! 13 = CHR '':''" "rfc3339_nano t ! 16 = CHR '':''"
    by (simp_all add: rfc3339_nano_def pad2 pad4)
  moreover have "\<forall>i \<in> set [0, 1, 2, 3, 5, 6, 8, 9, 11, 12, 14, 15, 17, 18]. is_digit (rfc3339_nano t ! i)"
    by (simp add: rfc3339_nano_def pad2 pad4 digit_of_mod)
  ultimately show ?thesis by (simp add: shape_ok_def rfc3339_nano_def)
qed

lemma field_of_rfc3339:
  "num_field 0 4 (rfc3339_nano t) = t_year t mod 10000"
  "num_field 5 2 (rfc3339_nano t) = t_month t mod 100"
  "num_field 8 2 (rfc3339_nano t) = t_day t mod 100"
  "num_field 11 2 (rfc3339_nano t) = t_hour t mod 100"
  "num_field 14 2 (rfc3339_nano t) = t_min t mod 100"
  "num_field 17 2 (rfc3339_nano t) = t_sec t mod 100"
proof -
  have v4: "digits_value 0 (pad 4 n) = n mod 10000" for n using digits_value_pad [of 4 n] by simp
  have v2: "digits_value 0 (pad 2 n) = n mod 100" for n using digits_value_pad [of 2 n] by simp
  show "num_field 0 4 (rfc3339_nano t) = t_year t mod 10000"
    by (simp add: num_field_def rfc3339_nano_def v4)
  show "num_field 5 2 (rfc3339_nano t) = t_month t mod 100"
    "num_field 8 2 (rfc3339_nano t) = t_day t mod 100"
    "num_field 11 2 (rfc3339_nano t) = t_hour t mod 100"
    "num_field 14 2 (rfc3339_nano t) = t_min t mod 100"
    "num_field 17 2 (rfc3339_nano t) = t_sec t mod 100"
    by (simp_all add: num_field_def rfc3339_nano_def v2)
qed

text \<open>A time that the store wrote is read back unchanged.\<close>

lemma parse_rfc3339_nano: "valid_time t \<Longrightarrow> parse_time (rfc3339_nano t) = Some t"
proof -
  assume v: "valid_time t"
  have "days_in_month (t_year t) (t_month t) \<le> 31" by (simp add: days_in_month_def)
  with v have b: "t_year t < 10000" "t_month t < 100" "t_day t < 100" "t_hour t < 100" "t_min t < 100"
    "t_sec t < 100" "t_nano t \<le> 999999999"
    by (simp_all add: valid_time_def)
  have "drop 19 (rfc3339_nano t) = fraction_text (t_nano t) @ ''Z''"
    by (simp add: rfc3339_nano_def)
  with parse_fraction_text [OF b(7)] shape_ok_rfc3339 [of t] field_of_rfc3339 [of t] b v
  show ?thesis by (simp add: parse_time_def Let_def)
qed

definition sample_time :: gotime where
  "sample_time = GoTime 2026 1 2 3 4 5 600000000"

end
