(* ===== verification/Types.thy ===== *)
theory Types
  imports GoTime
begin

text \<open>
  The data model of \<open>internal/app/types.go\<close>: job specifications, runs, attempts, provider
  resources, events, routing decisions, capabilities and provider errors. A string type with
  named constants is a datatype of them; a constructor for the empty or another string is added
  where a value can hold one. A pointer that may be nil is an option. Money, gigabytes and
  scores (\<open>float64\<close>) are exact rationals: rounding, infinities and NaN are not modelled.
\<close>

section \<open>JSON values\<close>

text \<open>What \<open>encoding/json\<close> decodes into \<open>interface{}\<close>: an object is a map with distinct keys.\<close>

datatype json = JNull | JBool bool | JNum rat | JStr string | JArr "json list" | JObj "(string \<times> json) list"

section \<open>Jobs and data\<close>

definition provider_local :: string where "provider_local = ''local''"
definition provider_auto :: string where "provider_auto = ''auto''"

datatype data_input_mode = ModeBundle | ModeUri | ModeOther string

fun mode_of_string :: "string \<Rightarrow> data_input_mode" where
  "mode_of_string s = (if s = ''bundle'' then ModeBundle else if s = ''uri'' then ModeUri else ModeOther s)"

record data_input =
  di_name :: string
  di_source :: string
  di_mount :: string
  di_mode :: data_input_mode

record data_manifest =
  dm_inputs :: "data_input list"
  dm_bundle_size_bytes :: int
  dm_requires_override :: bool
  dm_size_limit_bytes :: int
  dm_override_permitted :: bool

record job_spec =
  job_name :: string
  job_script :: string
  job_image :: string
  job_command :: "string list"
  job_args :: "string list"
  job_env :: "string smap"
  job_data :: "data_input list"
  job_work_dir :: string

section \<open>Runs and attempts\<close>

datatype run_state = RunRunning | RunSucceeded | RunFailed | RunCanceled

fun run_state_string :: "run_state \<Rightarrow> string" where
  "run_state_string RunRunning = ''running''"
| "run_state_string RunSucceeded = ''succeeded''"
| "run_state_string RunFailed = ''failed''"
| "run_state_string RunCanceled = ''canceled''"

datatype attempt_state = AttemptRunning | AttemptSucceeded | AttemptFailed | AttemptCanceled

record run =
  run_id :: string
  run_job_name :: string
  run_script :: string
  run_image :: string
  run_provider :: string
  run_state :: run_state
  run_started_at :: gotime
  run_ended_at :: gotime
  run_exit_code :: int
  run_error :: string

record attempt =
  at_id :: string
  at_run_id :: string
  at_provider :: string
  at_state :: attempt_state
  at_started_at :: gotime
  at_ended_at :: gotime
  at_exit_code :: int
  at_exit_reason :: string
  at_provider_ref :: string
  at_resume_uri :: string
  at_resume_step :: "int option"
  at_hourly_usd :: "rat option"
  at_currency :: string

section \<open>Provider resources\<close>

datatype resource_kind = KindCustomJob | KindInstance | KindNone

fun resource_kind_string :: "resource_kind \<Rightarrow> string" where
  "resource_kind_string KindCustomJob = ''custom_job''"
| "resource_kind_string KindInstance = ''instance''"
| "resource_kind_string KindNone = []"

datatype resource_state = ResCreating | ResBooting | ResRunning | ResSucceeded | ResFailed
  | ResCanceled | ResTerminating | ResTerminated | ResUnknown | ResNone

datatype cleanup_policy = CleanupAlways | CleanupOnSuccess | CleanupOnFailure | CleanupNever | CleanupNone

record provider_resource =
  res_id :: string
  res_run_id :: string
  res_attempt_id :: string
  res_provider :: string
  res_kind :: resource_kind
  res_external_id :: string
  res_provider_ref :: string
  res_region :: string
  res_project :: string
  res_state :: resource_state
  res_created_by_switchboard :: bool
  res_cleanup :: cleanup_policy
  res_metadata :: "string smap"
  res_created_at :: gotime
  res_updated_at :: gotime
  res_observed_at :: "gotime option"

section \<open>Events and summaries\<close>

datatype event_type = EventMetric | EventCheckpoint | EventStatus | EventLog | EventOther string

record event =
  ev_type :: event_type
  ev_run_id :: string
  ev_attempt_id :: string
  ev_timestamp :: gotime
  ev_step :: "int option"
  ev_epoch :: "int option"
  ev_split :: string
  ev_state :: string
  ev_checkpoint_uri :: string
  ev_message :: string
  ev_metrics :: "rat smap"
  ev_fields :: "(string \<times> json) list option"

section \<open>Routing\<close>

record routing_candidate =
  rc_provider :: string
  rc_score :: rat
  rc_reasons :: "string list"

record hardware_selection =
  hs_provider :: string
  hs_shape_id :: string
  hs_region :: string
  hs_machine_type :: string
  hs_accelerator_type :: string
  hs_accelerator_count :: int
  hs_gpu_family :: string
  hs_total_vram_gb :: int
  hs_hourly_usd :: rat

record hardware_candidate =
  hc_provider :: string
  hc_shape_id :: string
  hc_score :: rat
  hc_reasons :: "string list"

record routing_decision =
  rd_run_id :: string
  rd_selected_provider :: string
  rd_objective :: string
  rd_selection_reason :: string
  rd_eligible_providers :: "routing_candidate list"
  rd_rejected_providers :: "routing_candidate list"
  rd_selected_hardware :: "hardware_selection option"
  rd_eligible_hardware :: "hardware_candidate list"
  rd_rejected_hardware :: "hardware_candidate list"
  rd_required_vram :: "rat option"
  rd_runtime_sec :: "rat option"
  rd_total_cost :: "rat option"
  rd_confidence :: string

definition empty_decision :: routing_decision where
  "empty_decision = \<lparr>rd_run_id = [], rd_selected_provider = [], rd_objective = [],
     rd_selection_reason = [], rd_eligible_providers = [], rd_rejected_providers = [],
     rd_selected_hardware = None, rd_eligible_hardware = [], rd_rejected_hardware = [],
     rd_required_vram = None, rd_runtime_sec = None, rd_total_cost = None, rd_confidence = []\<rparr>"

record summary =
  sm_run_id :: string
  sm_state :: run_state
  sm_final_metrics :: "rat smap"
  sm_best_metrics :: "rat smap"
  sm_best_step :: "int option"
  sm_runtime_sec :: rat
  sm_attempts :: "attempt list"
  sm_checkpoint_count :: nat
  sm_resume_count :: nat
  sm_exit_reason :: string
  sm_routing :: "routing_decision option"

record hardware_shape =
  sh_id :: string
  sh_provider :: string
  sh_region :: string
  sh_zones :: "string list"
  sh_machine_type :: string
  sh_accelerator_type :: string
  sh_accelerator_count :: int
  sh_gpu_family :: string
  sh_vram_per_gpu :: int
  sh_total_vram :: int
  sh_on_demand_usd :: rat
  sh_spot_usd :: rat
  sh_supports_on_demand :: bool
  sh_supports_spot :: bool
  sh_max_runtime_hours :: "int option"
  sh_availability_hint :: string
  sh_availability_reason :: string
  sh_quota_metric :: string
  sh_quota_limit :: rat
  sh_quota_usage :: rat
  sh_quota_available :: rat

definition empty_shape :: hardware_shape where
  "empty_shape = \<lparr>sh_id = [], sh_provider = [], sh_region = [], sh_zones = [], sh_machine_type = [],
     sh_accelerator_type = [], sh_accelerator_count = 0, sh_gpu_family = [], sh_vram_per_gpu = 0,
     sh_total_vram = 0, sh_on_demand_usd = 0, sh_spot_usd = 0, sh_supports_on_demand = False,
     sh_supports_spot = False, sh_max_runtime_hours = None, sh_availability_hint = [],
     sh_availability_reason = [], sh_quota_metric = [], sh_quota_limit = 0, sh_quota_usage = 0,
     sh_quota_available = 0\<rparr>"

record provider_capabilities =
  cap_gpu_families :: "string list"
  cap_regions :: "string list"
  cap_shapes :: "hardware_shape list"
  cap_spot :: bool
  cap_on_demand :: bool
  cap_docker_image :: bool
  cap_local_script :: bool
  cap_data_bundle :: bool
  cap_uri_schemes :: "string list"
  cap_checkpoint_schemes :: "string list"
  cap_object_store_pull :: bool
  cap_max_runtime_hours :: "int option"

definition empty_capabilities :: provider_capabilities where
  "empty_capabilities = \<lparr>cap_gpu_families = [], cap_regions = [], cap_shapes = [], cap_spot = False,
     cap_on_demand = False, cap_docker_image = False, cap_local_script = False, cap_data_bundle = False,
     cap_uri_schemes = [], cap_checkpoint_schemes = [], cap_object_store_pull = False,
     cap_max_runtime_hours = None\<rparr>"

section \<open>Errors\<close>

datatype provider_error_kind = ErrAuth | ErrCapacity | ErrQuota | ErrInvalidSpec | ErrNetwork
  | ErrInternal | ErrRuntime | ErrUnknown

fun error_kind_string :: "provider_error_kind \<Rightarrow> string" where
  "error_kind_string ErrAuth = ''auth_error''"
| "error_kind_string ErrCapacity = ''capacity_error''"
| "error_kind_string ErrQuota = ''quota_error''"
| "error_kind_string ErrInvalidSpec = ''invalid_spec_error''"
| "error_kind_string ErrNetwork = ''network_error''"
| "error_kind_string ErrInternal = ''provider_internal_error''"
| "error_kind_string ErrRuntime = ''runtime_error''"
| "error_kind_string ErrUnknown = ''unknown_provider_error''"

text \<open>
  An error is a text, a \<open>*ProviderError\<close> around an optional cause, or \<open>fmt.Errorf("...: %w", err)\<close>:
  the formatted text in front of the cause, and the cause.
\<close>

datatype gerror = ErrText string | ErrProvider provider_error_kind string "gerror option"
  | ErrWrap string gerror

fun error_string :: "gerror \<Rightarrow> string" where
  "error_string (ErrText s) = s"
| "error_string (ErrProvider k m None) = (if m \<noteq> [] then m else error_kind_string k)"
| "error_string (ErrProvider k m (Some e)) = (if m \<noteq> [] then m else error_string e)"
| "error_string (ErrWrap p e) = p @ error_string e"

text \<open>\<open>errors.As(err, &providerErr)\<close>: the first provider error along the chain of causes.\<close>

fun as_provider_error :: "gerror \<Rightarrow> provider_error_kind option" where
  "as_provider_error (ErrText s) = None"
| "as_provider_error (ErrProvider k m e) = Some k"
| "as_provider_error (ErrWrap p e) = as_provider_error e"

definition kind_retryable :: "provider_error_kind \<Rightarrow> bool" where
  "kind_retryable k = (case k of
      ErrCapacity \<Rightarrow> True | ErrQuota \<Rightarrow> True | ErrNetwork \<Rightarrow> True | ErrInternal \<Rightarrow> True | _ \<Rightarrow> False)"

definition provider_error_kind_of :: "gerror \<Rightarrow> provider_error_kind" where
  "provider_error_kind_of e = (case as_provider_error e of Some k \<Rightarrow> k | None \<Rightarrow> ErrUnknown)"

definition is_retryable_provider_error :: "gerror \<Rightarrow> bool" where
  "is_retryable_provider_error e = (case as_provider_error e of Some k \<Rightarrow> kind_retryable k | None \<Rightarrow> False)"

lemma retryable_kind: "is_retryable_provider_error e \<longleftrightarrow> kind_retryable (provider_error_kind_of e)"
  by (auto simp: is_retryable_provider_error_def provider_error_kind_of_def kind_retryable_def
      split: option.splits)

section \<open>Provider calls\<close>

record support_report =
  sup_supported :: bool
  sup_reasons :: "string list"

record cost_estimate =
  est_hourly_usd :: rat
  est_currency :: string

record checkpoint_ref =
  ck_uri :: string
  ck_step :: int

record submit_result =
  sr_job_ref :: string
  sr_exit_code :: int
  sr_exit_reason :: string

record job_status =
  js_state :: "attempt_state option"
  js_resource_state :: resource_state

text \<open>The data of a submit request; its callbacks are the nodes of \<open>submit_prog\<close> below.\<close>

record submit_request =
  rq_job :: job_spec
  rq_run_id :: string
  rq_attempt_id :: string
  rq_resume :: "checkpoint_ref option"
  rq_hardware :: "hardware_selection option"
  rq_env :: "string smap"
  rq_run_dir :: string

text \<open>
  \<open>Submit\<close> as the sequence of what it does: the callbacks of the request, in their order, each with
  the rest of the call as a function of the error it returned; the events it appends to the run's
  \<open>events.jsonl\<close>; what the rest of the program does not see of it (\<open>Act\<close>): a resource of the provider's
  service that comes to exist or is released, and text for the run's log; and its result with its
  error. \<open>Meanwhile\<close> marks a point where another process (\<open>switchboard-cli cancel\<close>) may have acted
  on the run.
\<close>

datatype act = Acquired string | Released string | Logged string

datatype submit_prog =
    Done submit_result "gerror option"
  | Started string "gerror option \<Rightarrow> submit_prog"
  | ResourceSaved provider_resource "gerror option \<Rightarrow> submit_prog"
  | EventWritten event submit_prog
  | Act act submit_prog
  | Meanwhile submit_prog

record adapter =
  ad_name :: string
  ad_auth :: "gerror option"
  ad_capabilities :: "provider_capabilities \<times> gerror option"
  ad_validate :: "job_spec \<Rightarrow> support_report"
  ad_estimate :: "job_spec \<Rightarrow> gerror + cost_estimate"
  ad_submit :: "submit_request \<Rightarrow> submit_prog"
  ad_status :: "string \<Rightarrow> gerror + job_status"
  ad_cancel :: "string \<Rightarrow> gerror option"

end
