(* ===== verification/GoPath.thy ===== *)
theory GoPath
  imports Types
begin

text \<open>
  Go's \<open>path/filepath\<close> on Unix. \<open>Clean\<close> works on the stack of elements that are left after \<open>.\<close>,
  \<open>..\<close> and empty elements are resolved; \<open>Rel\<close> compares the stacks of two absolute paths. The
  working directory that \<open>Abs\<close> asks the system for is a parameter.
\<close>

definition rooted :: "string \<Rightarrow> bool" where
  "rooted p \<longleftrightarrow> prefix ''/'' p"

definition path_step :: "bool \<Rightarrow> string list \<Rightarrow> string \<Rightarrow> string list" where
  "path_step rt stack p =
     (if p = [] \<or> p = ''.'' then stack
      else if p = ''..'' then
        (if stack \<noteq> [] \<and> last stack \<noteq> ''..'' then butlast stack
         else if rt then stack else stack @ [''..''])
      else stack @ [p])"

definition path_stack :: "string \<Rightarrow> string list" where
  "path_stack p = foldl (path_step (rooted p)) [] (split_char (CHR ''/'') p)"

definition stack_path :: "bool \<Rightarrow> string list \<Rightarrow> string" where
  "stack_path rt stack =
     (if rt then ''/'' @ join ''/'' stack else if stack = [] then ''.'' else join ''/'' stack)"

definition path_clean :: "string \<Rightarrow> string" where
  "path_clean p = stack_path (rooted p) (path_stack p)"

definition path_join :: "string list \<Rightarrow> string" where
  "path_join elems = (case dropWhile (\<lambda>e. e = []) elems of [] \<Rightarrow> [] | es \<Rightarrow> path_clean (join ''/'' es))"

definition path_abs :: "string \<Rightarrow> string \<Rightarrow> string" where
  "path_abs cwd p = (if rooted p then path_clean p else path_join [cwd, p])"

definition path_base :: "string \<Rightarrow> string" where
  "path_base p =
     (if p = [] then ''.''
      else let q = trim_right (\<lambda>c. c = CHR ''/'') p in
        if q = [] then ''/'' else (case cut_last (CHR ''/'') q of None \<Rightarrow> q | Some (_, b) \<Rightarrow> b))"

definition path_dir :: "string \<Rightarrow> string" where
  "path_dir p = path_clean (case cut_last (CHR ''/'') p of None \<Rightarrow> [] | Some (d, _) \<Rightarrow> d @ ''/'')"

fun strip_common :: "string list \<Rightarrow> string list \<Rightarrow> string list \<times> string list" where
  "strip_common (x # xs) (y # ys) = (if x = y then strip_common xs ys else (x # xs, y # ys))"
| "strip_common xs ys = (xs, ys)"

definition path_rel :: "string \<Rightarrow> string \<Rightarrow> gerror + string" where
  "path_rel base targ =
     (let fail = Inl (ErrText (''Rel: can't make '' @ targ @ '' relative to '' @ base)) in
      if path_clean targ = path_clean base then Inr ''.''
      else if rooted base \<noteq> rooted targ then fail
      else case strip_common (path_stack base) (path_stack targ) of
        (bs, ts) \<Rightarrow>
          if bs \<noteq> [] \<and> hd bs = ''..'' then fail
          else Inr (join ''/'' (replicate (length bs) ''..'' @ ts)))"

definition path_ext :: "string \<Rightarrow> string" where
  "path_ext p = (let b = (case cut_last (CHR ''/'') p of None \<Rightarrow> p | Some (_, b) \<Rightarrow> b) in
     case cut_last (CHR ''.'') b of None \<Rightarrow> [] | Some (_, e) \<Rightarrow> CHR ''.'' # e)"

section \<open>Plain elements\<close>

text \<open>An element that \<open>Clean\<close> keeps wherever it stands.\<close>

definition plain_element :: "string \<Rightarrow> bool" where
  "plain_element p \<longleftrightarrow> p \<noteq> [] \<and> p \<noteq> ''.'' \<and> p \<noteq> ''..'' \<and> CHR ''/'' \<notin> set p"

lemma path_step_plain [simp]: "plain_element p \<Longrightarrow> path_step rt stack p = stack @ [p]"
  by (simp add: path_step_def plain_element_def)

lemma path_steps_plain: "\<forall>p \<in> set ps. plain_element p \<Longrightarrow> foldl (path_step rt) stack ps = stack @ ps"
  by (induction ps arbitrary: stack) auto

lemma split_char_append_all: "split_char d (s @ d # t) = split_char d s @ split_char d t"
  by (induction s) (auto split: list.split)

lemma path_stack_append:
  assumes "s \<noteq> []"
  shows "path_stack (s @ CHR ''/'' # t) = foldl (path_step (rooted s)) (path_stack s) (split_char (CHR ''/'') t)"
proof -
  have "rooted (s @ CHR ''/'' # t) = rooted s" using assms by (cases s) (auto simp: rooted_def)
  then show ?thesis by (simp add: path_stack_def split_char_append_all)
qed

text \<open>The stacks that cleaning builds: elements without separators, parents only in front and only
  in a relative path.\<close>

definition good_stack :: "bool \<Rightarrow> string list \<Rightarrow> bool" where
  "good_stack rt st \<longleftrightarrow> (\<exists>n ps. st = replicate n ''..'' @ ps \<and> (\<forall>p \<in> set ps. plain_element p) \<and> (rt \<longrightarrow> n = 0))"

lemma good_step:
  assumes "good_stack rt st" and "CHR ''/'' \<notin> set p"
  shows "good_stack rt (path_step rt st p)"
proof -
  from assms(1) obtain n ps where st: "st = replicate n ''..'' @ ps" "\<forall>p \<in> set ps. plain_element p" "rt \<longrightarrow> n = 0"
    by (auto simp: good_stack_def)
  consider "p = [] \<or> p = ''.''" | "p = ''..''" "ps \<noteq> []" | "p = ''..''" "ps = []" | "plain_element p"
    using assms(2) by (auto simp: plain_element_def)
  then show ?thesis
  proof cases
    case 1
    with assms(1) show ?thesis by (auto simp: path_step_def)
  next
    case 2
    have "last ps \<noteq> ''..''" using st(2) 2(2) by (auto simp: plain_element_def)
    then have "path_step rt st p = replicate n ''..'' @ butlast ps"
      using 2 st(1) by (simp add: path_step_def butlast_append)
    moreover have "\<forall>p \<in> set (butlast ps). plain_element p" using st(2) by (meson in_set_butlastD)
    ultimately show ?thesis using st(3) by (auto simp: good_stack_def)
  next
    case 3
    have "path_step rt st p = (if rt then [] else replicate (Suc n) ''..'')"
      using 3 st(1,3) by (cases n) (auto simp: path_step_def replicate_append_same)
    moreover have "good_stack rt []" unfolding good_stack_def by (intro exI [of _ 0] exI [of _ "[]"]) simp
    moreover have "good_stack False (replicate (Suc n) ''..'')"
      unfolding good_stack_def by (intro exI [of _ "Suc n"] exI [of _ "[]"]) simp
    ultimately show ?thesis by (cases rt) simp_all
  next
    case 4
    with st show ?thesis unfolding good_stack_def
      by (auto intro!: exI [of _ n] exI [of _ "ps @ [p]"])
  qed
qed

lemma good_steps:
  "good_stack rt st \<Longrightarrow> (\<forall>p \<in> set ps. CHR ''/'' \<notin> set p) \<Longrightarrow> good_stack rt (foldl (path_step rt) st ps)"
  by (induction ps arbitrary: st) (auto intro: good_step)

lemma good_path_stack: "good_stack (rooted p) (path_stack p)"
  unfolding path_stack_def
  by (rule good_steps) (auto simp: good_stack_def dest: split_char_no_sep)

lemma steps_good: "good_stack rt st \<Longrightarrow> foldl (path_step rt) [] st = st"
proof -
  assume "good_stack rt st"
  then obtain n ps where st: "st = replicate n ''..'' @ ps" "\<forall>p \<in> set ps. plain_element p" "rt \<longrightarrow> n = 0"
    by (auto simp: good_stack_def)
  have up: "foldl (path_step False) (replicate m ''..'') (replicate k ''..'') = replicate (m + k) ''..''" for m k
  proof (induction k arbitrary: m)
    case 0
    then show ?case by simp
  next
    case (Suc k)
    have "path_step False (replicate m ''..'') ''..'' = replicate (Suc m) ''..''"
      by (cases m) (auto simp: path_step_def replicate_append_same)
    then have "foldl (path_step False) (replicate m ''..'') (replicate (Suc k) ''..'')
        = foldl (path_step False) (replicate (Suc m) ''..'') (replicate k ''..'')"
      by simp
    with Suc [of "Suc m"] show ?case by simp
  qed
  have "foldl (path_step rt) [] (replicate n ''..'') = replicate n ''..''"
    using up [of 0 n] st(3) by (cases rt) auto
  with st show ?thesis by (simp add: path_steps_plain)
qed

lemma good_elements: "good_stack rt st \<Longrightarrow> p \<in> set st \<Longrightarrow> CHR ''/'' \<notin> set p \<and> p \<noteq> []"
proof -
  assume "good_stack rt st" and p: "p \<in> set st"
  then obtain n ps where st: "st = replicate n ''..'' @ ps" "\<forall>p \<in> set ps. plain_element p"
    unfolding good_stack_def by blast
  with p consider "p = ''..''" | "p \<in> set ps" by (metis UnE in_set_replicate set_append)
  then show ?thesis
  proof cases
    case 1
    then show ?thesis by simp
  next
    case 2
    with st(2) have "plain_element p" by blast
    then show ?thesis by (simp add: plain_element_def)
  qed
qed

text \<open>Cleaning is idempotent: the cleaned path has the same stack.\<close>

lemma path_stack_stack_path:
  assumes "good_stack rt st"
  shows "path_stack (stack_path rt st) = st \<and> rooted (stack_path rt st) = rt"
proof (cases "st = []")
  case True
  then show ?thesis by (simp add: stack_path_def path_stack_def rooted_def path_step_def)
next
  case False
  have parts: "split_char (CHR ''/'') (join ''/'' st) = st"
    using False good_elements [OF assms] by (intro split_char_join) auto
  obtain p ps where st: "st = p # ps" using False by (cases st) auto
  have "CHR ''/'' \<notin> set p" "p \<noteq> []" using good_elements [OF assms, of p] st by auto
  then have "\<not> prefix ''/'' (join ''/'' st)"
    using st by (cases p; cases ps) auto
  then have rel: "\<not> rooted (join ''/'' st)" by (simp add: rooted_def)
  show ?thesis
  proof (cases rt)
    case True
    have "split_char (CHR ''/'') (CHR ''/'' # join ''/'' st) = [] # st" using parts by simp
    then have "path_stack (CHR ''/'' # join ''/'' st) = foldl (path_step True) [] st"
      by (simp add: path_stack_def rooted_def path_step_def)
    with True steps_good [OF assms] show ?thesis by (simp add: stack_path_def rooted_def)
  next
    case rt: False
    with rel parts steps_good [OF assms] False show ?thesis
      by (simp add: stack_path_def path_stack_def)
  qed
qed

lemma path_stack_clean [simp]: "path_stack (path_clean p) = path_stack p"
  and rooted_clean [simp]: "rooted (path_clean p) = rooted p"
  using path_stack_stack_path [OF good_path_stack] by (simp_all add: path_clean_def)

lemma path_clean_idem: "path_clean (path_clean p) = path_clean p"
  by (simp add: path_clean_def [of "path_clean p"]) (simp add: path_clean_def)

section \<open>Joining plain elements\<close>

lemma join_append: "xs \<noteq> [] \<Longrightarrow> ys \<noteq> [] \<Longrightarrow> join sep (xs @ ys) = join sep xs @ sep @ join sep ys"
proof (induction xs)
  case Nil
  then show ?case by simp
next
  case (Cons x xs)
  then show ?case by (cases xs) (auto simp: join_Cons)
qed

lemma split_join_plain:
  "es \<noteq> [] \<Longrightarrow> \<forall>e \<in> set es. plain_element e \<Longrightarrow> split_char (CHR ''/'') (join ''/'' es) = es"
  by (intro split_char_join) (auto simp: plain_element_def)

lemma path_join_plain:
  assumes "es \<noteq> []" and "\<forall>e \<in> set es. plain_element e"
  shows "path_join (h # es) = stack_path (rooted h) (path_stack h @ es)"
proof (cases "h = []")
  case True
  obtain e es' where es: "es = e # es'" using assms(1) by (cases es) auto
  have e: "e \<noteq> []" "CHR ''/'' \<notin> set e" using assms(2) es by (auto simp: plain_element_def)
  then have "\<not> prefix ''/'' (join ''/'' es)" using es by (cases e; cases es') auto
  then have "\<not> rooted (join ''/'' es)" by (simp add: rooted_def)
  moreover have "path_stack (join ''/'' es) = es"
    using split_join_plain [OF assms] path_steps_plain [OF assms(2), of _ "[]"] by (simp add: path_stack_def)
  moreover have "path_stack [] = []" by (simp add: path_stack_def path_step_def)
  moreover have "path_join (h # es) = path_clean (join ''/'' es)"
    using True e es by (simp add: path_join_def)
  ultimately show ?thesis using True by (simp add: path_clean_def rooted_def)
next
  case False
  have j: "join ''/'' (h # es) = h @ CHR ''/'' # join ''/'' es"
    using assms(1) by (simp add: join_Cons)
  have "path_stack (h @ CHR ''/'' # join ''/'' es) = path_stack h @ es"
    using path_stack_append [OF False] split_join_plain [OF assms] path_steps_plain [OF assms(2)] by simp
  moreover have "rooted (h @ CHR ''/'' # join ''/'' es) = rooted h"
    using False by (cases h) (auto simp: rooted_def)
  ultimately show ?thesis using False j by (simp add: path_join_def path_clean_def)
qed

lemma good_append:
  "good_stack rt st \<Longrightarrow> \<forall>e \<in> set es. plain_element e \<Longrightarrow> good_stack rt (st @ es)"
proof -
  assume "good_stack rt st" and es: "\<forall>e \<in> set es. plain_element e"
  then obtain n ps where "st = replicate n ''..'' @ ps" "\<forall>p \<in> set ps. plain_element p" "rt \<longrightarrow> n = 0"
    unfolding good_stack_def by blast
  with es show ?thesis
    unfolding good_stack_def by (intro exI [of _ n] exI [of _ "ps @ es"]) auto
qed

lemma path_join_stack:
  assumes "es \<noteq> []" and "\<forall>e \<in> set es. plain_element e"
  shows "path_stack (path_join (h # es)) = path_stack h @ es \<and> rooted (path_join (h # es)) = rooted h"
  using path_join_plain [OF assms] path_stack_stack_path [OF good_append [OF good_path_stack assms(2)]] by metis

text \<open>The absolute path of a path with a given stack.\<close>

definition abs_stack :: "string \<Rightarrow> bool \<Rightarrow> string list \<Rightarrow> string list" where
  "abs_stack cwd rt st = (if rt then st else foldl (path_step True) (path_stack cwd) st)"

lemma path_stack_abs:
  assumes "rooted cwd" and "good_stack rt st"
  shows "path_stack (path_abs cwd (stack_path rt st)) = abs_stack cwd rt st \<and> rooted (path_abs cwd (stack_path rt st))"
proof (cases rt)
  case True
  with path_stack_stack_path [OF assms(2)] show ?thesis by (simp add: path_abs_def abs_stack_def)
next
  case False
  have cwd: "cwd \<noteq> []" using assms(1) by (auto simp: rooted_def)
  have p: "\<not> rooted (stack_path rt st)" "stack_path rt st \<noteq> []"
    using path_stack_stack_path [OF assms(2)] False good_elements [OF assms(2)]
    by (auto simp: stack_path_def) (metis join.elims append_is_Nil_conv list.set_intros(1))
  have parts: "foldl (path_step True) s (split_char (CHR ''/'') (stack_path rt st)) = foldl (path_step True) s st" for s
  proof (cases "st = []")
    case True
    with False show ?thesis by (simp add: stack_path_def path_step_def)
  next
    case ne: False
    have "split_char (CHR ''/'') (join ''/'' st) = st"
      using ne good_elements [OF assms(2)] by (intro split_char_join) auto
    with False ne show ?thesis by (simp add: stack_path_def)
  qed
  have "path_abs cwd (stack_path rt st) = path_clean (cwd @ CHR ''/'' # stack_path rt st)"
    using p cwd by (simp add: path_abs_def path_join_def)
  moreover have "rooted (cwd @ CHR ''/'' # stack_path rt st)"
    using assms(1) by (auto simp: rooted_def)
  ultimately show ?thesis
    using False assms(1) parts by (simp add: path_stack_append [OF cwd] abs_stack_def)
qed

lemma abs_stack_append:
  "\<forall>e \<in> set es. plain_element e \<Longrightarrow> abs_stack cwd rt (st @ es) = abs_stack cwd rt st @ es"
  by (simp add: abs_stack_def path_steps_plain)

lemma strip_common_append: "strip_common xs (xs @ ys) = ([], ys)"
  by (induction xs) (cases ys, auto)

lemma path_rel_below:
  assumes "rooted base" and "rooted targ" and "path_stack targ = path_stack base @ es"
    and "\<forall>e \<in> set es. plain_element e"
  shows "path_rel base targ = Inr (if es = [] then ''.'' else join ''/'' es)"
proof (cases "es = []")
  case True
  with assms show ?thesis by (simp add: path_rel_def path_clean_def)
next
  case False
  have "path_stack (path_clean targ) \<noteq> path_stack (path_clean base)" using assms(3) False by simp
  then have "path_clean targ \<noteq> path_clean base" by metis
  with False assms show ?thesis by (simp add: path_rel_def strip_common_append)
qed

lemma cut_last_append:
  assumes "d \<notin> set a"
  shows "cut_last d (b @ d # a) = Some (b, a)"
proof -
  have "dropWhile (\<lambda>c. c \<noteq> d) (rev a @ d # rev b) = d # rev b"
    using assms by (subst dropWhile_append2) auto
  moreover have "takeWhile (\<lambda>c. c \<noteq> d) (rev a @ d # rev b) = rev a"
    using assms by (subst takeWhile_append2) auto
  ultimately show ?thesis by (simp add: cut_last_def)
qed

lemma path_base_plain:
  assumes "plain_element e"
  shows "path_base (stack_path rt (st @ [e])) = e"
proof -
  have e: "e \<noteq> []" "CHR ''/'' \<notin> set e" using assms by (auto simp: plain_element_def)
  have keep: "trim_right (\<lambda>c. c = CHR ''/'') (b @ e) = b @ e" for b
  proof -
    have "hd (rev e) \<noteq> CHR ''/''" using e by (metis hd_in_set rev_is_Nil_conv set_rev)
    then have "dropWhile (\<lambda>c. c = CHR ''/'') (rev e @ rev b) = rev e @ rev b"
      using e(1) by (cases "rev e") auto
    then show ?thesis by (simp add: trim_right_def)
  qed
  have base: "path_base (b @ CHR ''/'' # e) = e" for b
    using keep [of "b @ ''/''"] cut_last_append [OF e(2), of b] by (simp add: path_base_def Let_def)
  show ?thesis
  proof (cases "st = []")
    case True
    have "path_base e = e"
      using keep [of "[]"] e by (simp add: path_base_def Let_def cut_last_def)
    with True base [of "[]"] show ?thesis by (simp add: stack_path_def)
  next
    case False
    then have "join ''/'' (st @ [e]) = join ''/'' st @ CHR ''/'' # e" by (simp add: join_append)
    with base [of "join ''/'' st"] base [of "CHR ''/'' # join ''/'' st"] show ?thesis
      by (simp add: stack_path_def)
  qed
qed

end
