(* ===== verification/GoJson.thy ===== *)
theory GoJson
  imports Types
begin

text \<open>
  \<open>encoding/json\<close> on texts: \<open>json.Unmarshal\<close> into \<open>interface{}\<close> and into a map, and \<open>json.Marshal\<close>
  of decoded values. Numbers are exact rationals (Go rounds them to a float) and are printed
  without exponent. Bytes above 127 stand for themselves on both sides. A value nested deeper
  than the fuel allows would be refused, but the fuel is twice the length of the text, and every
  two nested calls read at least one byte.
\<close>

definition json_space :: "char \<Rightarrow> bool" where
  "json_space c \<longleftrightarrow> c \<in> set [CHR '' '', CHR 0x09, CHR 0x0A, CHR 0x0D]"

definition skip_ws :: "string \<Rightarrow> string" where
  "skip_ws s = dropWhile json_space s"

section \<open>Strings\<close>

definition hex_value :: "char \<Rightarrow> nat option" where
  "hex_value c =
     (if is_digit c then Some (byte c - 48)
      else if 97 \<le> byte c \<and> byte c \<le> 102 then Some (byte c - 87)
      else if 65 \<le> byte c \<and> byte c \<le> 70 then Some (byte c - 55) else None)"

definition hex4 :: "char \<Rightarrow> char \<Rightarrow> char \<Rightarrow> char \<Rightarrow> nat option" where
  "hex4 a b c d = (case (hex_value a, hex_value b, hex_value c, hex_value d) of
      (Some w, Some x, Some y, Some z) \<Rightarrow> Some (((w * 16 + x) * 16 + y) * 16 + z)
    | _ \<Rightarrow> None)"

definition utf8 :: "nat \<Rightarrow> string" where
  "utf8 n =
     (if n < 128 then [char_of n]
      else if n < 2048 then [char_of (192 + n div 64), char_of (128 + n mod 64)]
      else if n < 65536 then [char_of (224 + n div 4096), char_of (128 + n div 64 mod 64), char_of (128 + n mod 64)]
      else [char_of (240 + n div 262144), char_of (128 + n div 4096 mod 64),
            char_of (128 + n div 64 mod 64), char_of (128 + n mod 64)])"

definition simple_escape :: "char \<Rightarrow> char option" where
  "simple_escape e =
     (if e = CHR 0x22 \<or> e = CHR 0x5C \<or> e = CHR ''/'' then Some e
      else if e = CHR ''b'' then Some (CHR 0x08) else if e = CHR ''f'' then Some (CHR 0x0C)
      else if e = CHR ''n'' then Some (CHR 0x0A) else if e = CHR ''r'' then Some (CHR 0x0D)
      else if e = CHR ''t'' then Some (CHR 0x09) else None)"

definition prepend :: "string \<Rightarrow> (string \<times> string) option \<Rightarrow> (string \<times> string) option" where
  "prepend p r = map_option (\<lambda>(s, rest). (p @ s, rest)) r"

text \<open>The rest of a string after its opening quote. A half of a surrogate pair that stands alone
  becomes the replacement character.\<close>

fun parse_string :: "nat \<Rightarrow> string \<Rightarrow> (string \<times> string) option" where
  "parse_string 0 s = None"
| "parse_string (Suc n) s =
     (case s of [] \<Rightarrow> None
      | c # cs \<Rightarrow>
          if c = CHR 0x22 then Some ([], cs)
          else if byte c < 32 then None
          else if c \<noteq> CHR 0x5C then prepend [c] (parse_string n cs)
          else (case cs of
              CHR ''u'' # a # b # x # y # rest \<Rightarrow>
                (case hex4 a b x y of None \<Rightarrow> None
                 | Some hi \<Rightarrow>
                     if 0xD800 \<le> hi \<and> hi < 0xDC00 then
                       (case rest of
                          p # q # a' # b' # x' # y' # rest' \<Rightarrow>
                            (case (if p = CHR 0x5C \<and> q = CHR ''u'' then hex4 a' b' x' y' else None) of
                               Some lo \<Rightarrow>
                                 if 0xDC00 \<le> lo \<and> lo < 0xE000
                                 then prepend (utf8 (65536 + (hi - 0xD800) * 1024 + (lo - 0xDC00))) (parse_string n rest')
                                 else prepend (utf8 0xFFFD) (parse_string n rest)
                             | None \<Rightarrow> prepend (utf8 0xFFFD) (parse_string n rest))
                        | _ \<Rightarrow> prepend (utf8 0xFFFD) (parse_string n rest))
                     else if 0xDC00 \<le> hi \<and> hi < 0xE000 then prepend (utf8 0xFFFD) (parse_string n rest)
                     else prepend (utf8 hi) (parse_string n rest))
            | e # rest \<Rightarrow>
                (case simple_escape e of None \<Rightarrow> None | Some d \<Rightarrow> prepend [d] (parse_string n rest))
            | [] \<Rightarrow> None))"

section \<open>Numbers\<close>

definition digits_of :: "string \<Rightarrow> string \<times> string" where
  "digits_of s = (takeWhile is_digit s, dropWhile is_digit s)"

definition nat_of_digits :: "string \<Rightarrow> nat" where
  "nat_of_digits s = digits_value 0 s"

text \<open>\<open>-? (0 | [1-9][0-9]*) (. [0-9]+)? ([eE] [+-]? [0-9]+)?\<close>\<close>

definition parse_exponent :: "rat \<Rightarrow> string \<Rightarrow> (json \<times> string) option" where
  "parse_exponent v s =
     (case s of [] \<Rightarrow> Some (JNum v, [])
      | c # cs \<Rightarrow>
          if c \<in> set ''eE'' then
            (let neg = prefix ''-'' cs; cs' = (if prefix ''-'' cs \<or> prefix ''+'' cs then tl cs else cs);
                 (ds, rest) = digits_of cs'
             in if ds = [] then None
                else Some (JNum (if neg then v / 10 ^ nat_of_digits ds else v * 10 ^ nat_of_digits ds), rest))
          else Some (JNum v, s))"

definition parse_number :: "string \<Rightarrow> (json \<times> string) option" where
  "parse_number s =
     (let neg = prefix ''-'' s; s1 = (if neg then tl s else s); (ip, s2) = digits_of s1;
          sign = (\<lambda>v :: rat. if neg then - v else v)
      in if ip = [] \<or> (hd ip = CHR ''0'' \<and> length ip > 1) then None
         else if prefix ''.'' s2 then
           (let (fp, s3) = digits_of (tl s2) in
            if fp = [] then None
            else parse_exponent (sign (of_nat (nat_of_digits (ip @ fp)) / 10 ^ length fp)) s3)
         else parse_exponent (sign (of_nat (nat_of_digits ip))) s2)"

section \<open>Values\<close>

fun parse_value :: "nat \<Rightarrow> string \<Rightarrow> (json \<times> string) option"
  and parse_elements :: "nat \<Rightarrow> string \<Rightarrow> (json list \<times> string) option"
  and parse_members :: "nat \<Rightarrow> (string \<times> json) list \<Rightarrow> string \<Rightarrow> ((string \<times> json) list \<times> string) option" where
  "parse_value 0 s = None"
| "parse_value (Suc n) s =
     (case skip_ws s of [] \<Rightarrow> None
      | c # cs \<Rightarrow>
          if c = CHR ''{'' then
            (if prefix ''}'' (skip_ws cs) then Some (JObj [], tl (skip_ws cs))
             else map_option (\<lambda>(m, rest). (JObj m, rest)) (parse_members n [] cs))
          else if c = CHR ''['' then
            (if prefix '']'' (skip_ws cs) then Some (JArr [], tl (skip_ws cs))
             else map_option (\<lambda>(xs, rest). (JArr xs, rest)) (parse_elements n cs))
          else if c = CHR 0x22 then
            map_option (\<lambda>(t, rest). (JStr t, rest)) (parse_string (length cs) cs)
          else if prefix ''true'' (c # cs) then Some (JBool True, drop 4 (c # cs))
          else if prefix ''false'' (c # cs) then Some (JBool False, drop 5 (c # cs))
          else if prefix ''null'' (c # cs) then Some (JNull, drop 4 (c # cs))
          else parse_number (c # cs))"
| "parse_elements 0 s = None"
| "parse_elements (Suc n) s =
     (case parse_value n s of None \<Rightarrow> None
      | Some (v, rest) \<Rightarrow>
          (case skip_ws rest of
             c # cs \<Rightarrow>
               if c = CHR '','' then map_option (\<lambda>(vs, r). (v # vs, r)) (parse_elements n cs)
               else if c = CHR '']'' then Some ([v], cs) else None
           | [] \<Rightarrow> None))"
| "parse_members 0 m s = None"
| "parse_members (Suc n) m s =
     (case skip_ws s of
        q # cs \<Rightarrow>
          if q \<noteq> CHR 0x22 then None
          else (case parse_string (length cs) cs of None \<Rightarrow> None
            | Some (k, r1) \<Rightarrow>
                (case skip_ws r1 of
                   colon # r2 \<Rightarrow>
                     if colon \<noteq> CHR '':'' then None
                     else (case parse_value n r2 of None \<Rightarrow> None
                       | Some (v, r3) \<Rightarrow>
                           (case skip_ws r3 of
                              c # r4 \<Rightarrow>
                                if c = CHR '','' then parse_members n (AList.update k v m) r4
                                else if c = CHR ''}'' then Some (AList.update k v m, r4) else None
                            | [] \<Rightarrow> None))
                 | [] \<Rightarrow> None))
      | [] \<Rightarrow> None)"

definition json_parse :: "string \<Rightarrow> json option" where
  "json_parse s = (case parse_value (2 * length s + 2) s of
      Some (v, rest) \<Rightarrow> if skip_ws rest = [] then Some v else None
    | None \<Rightarrow> None)"

text \<open>\<open>json.Unmarshal\<close> into a \<open>map[string]interface{}\<close>: \<open>null\<close> leaves the map empty.\<close>

definition unmarshal_object :: "string \<Rightarrow> (string \<times> json) list option" where
  "unmarshal_object s = (case json_parse s of
      Some (JObj m) \<Rightarrow> Some m | Some JNull \<Rightarrow> Some [] | _ \<Rightarrow> None)"

section \<open>Printing\<close>

text \<open>\<open>json.Marshal\<close> also escapes the bytes that matter in HTML.\<close>

definition json_char :: "char \<Rightarrow> string" where
  "json_char c =
     (if c = CHR 0x22 then [CHR 0x5C, CHR 0x22] else if c = CHR 0x5C then [CHR 0x5C, CHR 0x5C]
      else if byte c = 8 then [CHR 0x5C, CHR ''b''] else if byte c = 12 then [CHR 0x5C, CHR ''f'']
      else if byte c = 10 then [CHR 0x5C, CHR ''n''] else if byte c = 13 then [CHR 0x5C, CHR ''r'']
      else if byte c = 9 then [CHR 0x5C, CHR ''t'']
      else if byte c < 32 \<or> c \<in> set ''<>&''
      then [CHR 0x5C, CHR ''u'', CHR ''0'', CHR ''0'', hex_digit (byte c div 16), hex_digit (byte c mod 16)]
      else [c])"

definition json_string :: "string \<Rightarrow> string" where
  "json_string s = CHR 0x22 # concat (map json_char s) @ [CHR 0x22]"

text \<open>The decimal digits of a fraction below one, up to a number of them.\<close>

fun fraction_digits :: "nat \<Rightarrow> rat \<Rightarrow> string" where
  "fraction_digits 0 r = []"
| "fraction_digits (Suc n) r =
     (if r = 0 then [] else char_of (48 + nat \<lfloor>r * 10\<rfloor>) # fraction_digits n (r * 10 - of_int \<lfloor>r * 10\<rfloor>))"

definition json_number :: "rat \<Rightarrow> string" where
  "json_number r =
     (let a = \<bar>r\<bar>; ip = \<lfloor>a\<rfloor>; fd = fraction_digits 400 (a - of_int ip)
      in (if r < 0 then ''-'' else []) @ string_of_int ip @ (if fd = [] then [] else CHR ''.'' # fd))"

function json_print :: "json \<Rightarrow> string" where
  "json_print JNull = ''null''"
| "json_print (JBool b) = (if b then ''true'' else ''false'')"
| "json_print (JNum r) = json_number r"
| "json_print (JStr s) = json_string s"
| "json_print (JArr xs) = ''['' @ join '','' (map json_print xs) @ '']''"
| "json_print (JObj m) = ''{'' @ join '',''
     (map (\<lambda>(k, v). json_string k @ '':'' @ json_print v)
        (sort_stable (key_less fst) m)) @ ''}''"
  by pat_completeness auto
termination
proof (relation "measure size")
  fix m :: "(string \<times> json) list" and x k v
  assume "x \<in> set (sort_stable (key_less fst) m)" and "(k, v) = x"
  then have "(k, v) \<in> set m" by simp
  then have "size v \<le> size_list (size_prod (\<lambda>_. 0) size) m"
    by (induction m) auto
  then show "(v, JObj m) \<in> measure size" by simp
qed (auto simp: less_Suc_eq_le size_list_estimation')

end
