(* ===== verification/GoFiles.thy ===== *)
theory GoFiles
  imports GoPath
begin

text \<open>
  The file system as the program reads and writes it. Reading sees a fixed tree: a regular file
  with its bytes, a directory with its entries in the order of their names (or the error of
  reading it), a symbolic link, or anything else. Writing appends to a record of files by path;
  an oracle may fail the operation on a path.
\<close>

section \<open>Reading\<close>

datatype file_node =
    RegFile string
  | Dir "gerror option" "(string \<times> file_node) list"
  | Symlink
  | Irregular

text \<open>What \<open>os.Lstat\<close>, \<open>os.Stat\<close> (which follows links) and opening for reading find at a path.\<close>

record files =
  fl_lstat :: "string \<Rightarrow> gerror + file_node"
  fl_stat :: "string \<Rightarrow> gerror + file_node"
  fl_read :: "string \<Rightarrow> gerror + string"
  fl_is_not_exist :: "gerror \<Rightarrow> bool"

fun is_dir :: "file_node \<Rightarrow> bool" where
  "is_dir (Dir err es) = True"
| "is_dir n = False"

fun is_regular :: "file_node \<Rightarrow> bool" where
  "is_regular (RegFile c) = True"
| "is_regular n = False"

fun file_size :: "file_node \<Rightarrow> int" where
  "file_size (RegFile c) = int (length c)"
| "file_size n = 0"

text \<open>
  The calls that \<open>filepath.WalkDir\<close> makes of its callback, in their order: an entry before what
  it holds, entries by name, and a second call with the error for a directory that cannot be read.
\<close>

datatype visit = Visit string file_node "gerror option"

fun visits :: "string \<Rightarrow> file_node \<Rightarrow> visit list" where
  "visits p (Dir err es) = Visit p (Dir err es) None #
     (case err of Some e \<Rightarrow> [Visit p (Dir err es) (Some e)]
      | None \<Rightarrow> concat (map (\<lambda>(n, c). visits (path_join [p, n]) c) es))"
| "visits p n = [Visit p n None]"

text \<open>Every callback of the program returns the error it is given, which ends the walk.\<close>

fun walk_visits :: "(string \<Rightarrow> file_node \<Rightarrow> 's \<Rightarrow> 's \<times> gerror option) \<Rightarrow> visit list \<Rightarrow> 's \<Rightarrow> 's \<times> gerror option" where
  "walk_visits fn [] s = (s, None)"
| "walk_visits fn (Visit p n (Some e) # vs) s = (s, Some e)"
| "walk_visits fn (Visit p n None # vs) s = then_ok (fn p n s) (walk_visits fn vs)"

definition WalkDir ::
  "files \<Rightarrow> string \<Rightarrow> (string \<Rightarrow> file_node \<Rightarrow> 's \<Rightarrow> 's \<times> gerror option) \<Rightarrow> 's \<Rightarrow> 's \<times> gerror option" where
  "WalkDir fl base fn s =
     (case fl_lstat fl base of Inl e \<Rightarrow> (s, Some e) | Inr n \<Rightarrow> walk_visits fn (visits base n) s)"

lemma walk_append:
  "walk_visits fn (vs @ ws) s = then_ok (walk_visits fn vs s) (walk_visits fn ws)"
  by (induction fn vs s rule: walk_visits.induct) (auto simp: then_ok_def split: prod.splits option.splits)

text \<open>An invariant of the callback is one of the walk.\<close>

lemma walk_inv:
  assumes "\<And>p n err s. Visit p n err \<in> set vs \<Longrightarrow> P s \<Longrightarrow> P (fst (fn p n s))" and "P s"
  shows "P (fst (walk_visits fn vs s))"
  using assms
proof (induction fn vs s rule: walk_visits.induct)
  case (3 fn p n vs s)
  have s: "P (fst (fn p n s))" using "3.prems"(2) by (intro "3.prems"(1)) auto
  show ?case
  proof (cases rule: then_ok_cases [of "fn p n s" "walk_visits fn vs"])
    case (fails e)
    with s show ?thesis by simp
  next
    case goes
    have "P (fst (walk_visits fn vs (fst (fn p n s))))"
    proof (rule "3.IH")
      fix q m err t assume "Visit q m err \<in> set vs" "P t"
      then show "P (fst (fn q m t))" by (intro "3.prems"(1)) auto
    qed (rule s)
    with goes show ?thesis by simp
  qed
qed auto

text \<open>A tree of regular files and readable directories, the size of its files, and its files by
  their path below a directory.\<close>

fun regular_tree :: "file_node \<Rightarrow> bool" where
  "regular_tree (RegFile c) = True"
| "regular_tree (Dir err es) = (err = None \<and> (\<forall>(n, c) \<in> set es. regular_tree c))"
| "regular_tree n = False"

fun tree_size :: "file_node \<Rightarrow> int" where
  "tree_size (RegFile c) = int (length c)"
| "tree_size (Dir err es) = sum_list (map (\<lambda>(n, c). tree_size c) es)"
| "tree_size n = 0"

fun tree_files :: "string \<Rightarrow> file_node \<Rightarrow> (string \<times> string) list" where
  "tree_files p (RegFile c) = [(p, c)]"
| "tree_files p (Dir err es) = concat (map (\<lambda>(n, c). tree_files (path_join [p, n]) c) es)"
| "tree_files p n = []"

lemma tree_size_nonneg: "0 \<le> tree_size n"
  by (induction n rule: tree_size.induct) (auto intro!: sum_list_nonneg)

section \<open>Writing\<close>

record disk =
  dk_files :: "string smap"
  dk_dirs :: "string list"
  dk_fault :: "string \<Rightarrow> gerror option"

definition MkdirAll :: "string \<Rightarrow> disk \<Rightarrow> disk \<times> gerror option" where
  "MkdirAll p d = (case dk_fault d p of Some e \<Rightarrow> (d, Some e)
     | None \<Rightarrow> (d\<lparr>dk_dirs := List.insert p (dk_dirs d)\<rparr>, None))"

definition write_file :: "string \<Rightarrow> string \<Rightarrow> disk \<Rightarrow> disk \<times> gerror option" where
  "write_file p c d = (case dk_fault d p of Some e \<Rightarrow> (d, Some e)
     | None \<Rightarrow> (d\<lparr>dk_files := AList.update p c (dk_files d)\<rparr>, None))"

end
