(* ===== verification/Registry.thy ===== *)
theory Registry
  imports Types
begin

text \<open>
  \<open>internal/provider/registry.go\<close>: the adapters of a run by name. The directory interface is
  what routing and the run loop rely on: the listed names are sorted, distinct, and each of them
  can be fetched.
\<close>

type_synonym registry = "adapter smap"

text \<open>\<open>NewRegistry\<close> panics on the second adapter of a name; the panic is the error.\<close>

fun add_adapters :: "registry \<Rightarrow> adapter list \<Rightarrow> gerror + registry" where
  "add_adapters reg [] = Inr reg"
| "add_adapters reg (a # as) =
     (if map_of reg (ad_name a) \<noteq> None
      then Inl (ErrText (''duplicate provider '' @ quote (ad_name a)))
      else add_adapters (AList.update (ad_name a) a reg) as)"

definition new_registry :: "adapter list \<Rightarrow> gerror + registry" where
  "new_registry as = add_adapters [] as"

definition registry_get :: "registry \<Rightarrow> string \<Rightarrow> gerror + adapter" where
  "registry_get reg name = (case map_of reg name of
      None \<Rightarrow> Inl (ErrText (''unknown provider '' @ quote name))
    | Some a \<Rightarrow> Inr a)"

definition registry_list :: "registry \<Rightarrow> string list" where
  "registry_list reg = sort_strings (map fst reg)"

section \<open>The directory interface\<close>

locale provider_directory =
  fixes names :: "string list" and get :: "string \<Rightarrow> gerror + adapter"
  assumes names_distinct: "distinct names"
    and names_sorted: "sorted names"
    and get_listed: "n \<in> set names \<Longrightarrow> \<exists>a. get n = Inr a \<and> ad_name a = n"
    and get_unlisted: "n \<notin> set names \<Longrightarrow> get n = Inl (ErrText (''unknown provider '' @ quote n))"
begin

lemma get_name: "get n = Inr a \<Longrightarrow> ad_name a = n \<and> n \<in> set names"
  by (cases "n \<in> set names") (auto dest: get_listed get_unlisted)

lemma get_fails: "get n = Inl e \<longleftrightarrow> n \<notin> set names \<and> e = ErrText (''unknown provider '' @ quote n)"
  by (cases "n \<in> set names") (auto dest: get_listed get_unlisted)

end

section \<open>The registry provides it\<close>

definition registry_wf :: "registry \<Rightarrow> bool" where
  "registry_wf reg \<longleftrightarrow> distinct (map fst reg) \<and> (\<forall>(n, a) \<in> set reg. ad_name a = n)"

lemma add_adapters_wf:
  "add_adapters reg as = Inr reg' \<Longrightarrow> registry_wf reg \<Longrightarrow> registry_wf reg'"
proof (induction as arbitrary: reg)
  case Nil
  then show ?case by simp
next
  case (Cons a as)
  then have "map_of reg (ad_name a) = None" and rest: "add_adapters (AList.update (ad_name a) a reg) as = Inr reg'"
    by (auto split: if_splits)
  have "distinct (map fst (AList.update (ad_name a) a reg))"
    using Cons.prems(2) by (simp add: registry_wf_def distinct_update)
  then have "registry_wf (AList.update (ad_name a) a reg)"
    using Cons.prems(2) set_update_subset [of "ad_name a" a reg] by (fastforce simp: registry_wf_def)
  with rest Cons.IH show ?case by blast
qed

definition registry_of :: "adapter list \<Rightarrow> registry" where
  "registry_of as = (case new_registry as of Inr reg \<Rightarrow> reg | Inl _ \<Rightarrow> [])"

lemma registry_of_wf: "registry_wf (registry_of as)"
  using add_adapters_wf [of "[]" as]
  by (auto simp: registry_of_def new_registry_def registry_wf_def split: sum.split)

lemma registry_directory:
  assumes "registry_wf reg"
  shows "provider_directory (registry_list reg) (registry_get reg)"
proof
  show "distinct (registry_list reg)" using assms by (simp add: registry_list_def registry_wf_def)
  show "sorted (registry_list reg)" by (simp add: registry_list_def)
  fix n
  show "n \<in> set (registry_list reg) \<Longrightarrow> \<exists>a. registry_get reg n = Inr a \<and> ad_name a = n"
  proof -
    assume "n \<in> set (registry_list reg)"
    then obtain a where a: "map_of reg n = Some a"
      by (metis map_of_eq_None_iff not_None_eq registry_list_def set_map set_sort_strings)
    then have "(n, a) \<in> set reg" by (rule map_of_SomeD)
    with assms a show ?thesis by (auto simp: registry_wf_def registry_get_def)
  qed
  show "n \<notin> set (registry_list reg) \<Longrightarrow> registry_get reg n = Inl (ErrText (''unknown provider '' @ quote n))"
    by (simp add: registry_list_def registry_get_def map_of_eq_None_iff [THEN iffD2])
qed

interpretation built: provider_directory "registry_list (registry_of as)" "registry_get (registry_of as)" for as
  by (rule registry_directory [OF registry_of_wf])

text \<open>\<open>NewRegistry\<close> panics exactly when two adapters share a name, and then keeps all of them.\<close>

lemma add_adapters_result:
  "add_adapters reg as = Inr reg' \<Longrightarrow>
     distinct (map ad_name as) \<and> (\<forall>a \<in> set as. map_of reg (ad_name a) = None)
     \<and> map_of reg' = map_of reg ++ map_of (map (\<lambda>a. (ad_name a, a)) as)"
proof (induction as arbitrary: reg)
  case Nil
  then show ?case by simp
next
  case (Cons a as)
  then have new: "map_of reg (ad_name a) = None"
    and rest: "add_adapters (AList.update (ad_name a) a reg) as = Inr reg'"
    by (auto split: if_splits)
  from Cons.IH [OF rest] have ih: "distinct (map ad_name as)"
    "\<forall>b \<in> set as. map_of (AList.update (ad_name a) a reg) (ad_name b) = None"
    "map_of reg' = map_of (AList.update (ad_name a) a reg) ++ map_of (map (\<lambda>a. (ad_name a, a)) as)"
    by auto
  from ih(2) have d: "\<forall>b \<in> set as. ad_name b \<noteq> ad_name a \<and> map_of reg (ad_name b) = None"
    by (auto simp: update_conv' split: if_splits)
  have "map_of (map (\<lambda>a. (ad_name a, a)) as) (ad_name a) = None"
    using d by (force simp: map_of_eq_None_iff)
  with ih(3) have "map_of reg' = map_of reg ++ map_of (map (\<lambda>a. (ad_name a, a)) (a # as))"
    by (auto simp: update_conv' map_add_def fun_eq_iff split: option.split)
  moreover have "distinct (map ad_name (a # as))" using ih(1) d by (simp add: image_iff) metis
  moreover have "\<forall>b \<in> set (a # as). map_of reg (ad_name b) = None" using d new by simp
  ultimately show ?case by blast
qed

lemma new_registry_panics: "(\<exists>reg. new_registry as = Inr reg) \<longleftrightarrow> distinct (map ad_name as)"
proof
  assume "\<exists>reg. new_registry as = Inr reg"
  then show "distinct (map ad_name as)" by (auto simp: new_registry_def dest: add_adapters_result)
next
  have "\<exists>reg'. add_adapters reg as = Inr reg'"
    if "distinct (map ad_name as)" "\<forall>a \<in> set as. map_of reg (ad_name a) = None" for reg
    using that
  proof (induction as arbitrary: reg)
    case Nil
    then show ?case by simp
  next
    case (Cons a as)
    have "\<forall>b \<in> set as. map_of (AList.update (ad_name a) a reg) (ad_name b) = None"
      using Cons.prems by (auto simp: update_conv' image_iff)
    with Cons show ?case by simp
  qed
  then show "distinct (map ad_name as) \<Longrightarrow> \<exists>reg. new_registry as = Inr reg"
    by (simp add: new_registry_def)
qed

end
