(* ===== verification/Routing.thy ===== *)
theory Routing
  imports GoUrl Registry
begin

text \<open>
  \<open>internal/routing/routing.go\<close>: which provider, and which of its hardware shapes, runs a job.
  The providers of the registry are evaluated in the order of their names; each is either
  eligible or rejected with reasons. The eligible ones, or their hardware shapes, are sorted by
  the objective and the first one is selected.
\<close>

section \<open>Options\<close>

record sizing_hints =
  sz_required_vram :: rat
  sz_parameters_b :: rat
  sz_artifact_gb :: rat
  sz_batch_size :: int
  sz_grad_accum :: int
  sz_precision :: string
  sz_optimizer :: string
  sz_expected_steps :: int

record hardware_constraints =
  hw_max_gpus :: int
  hw_families :: "string list"
  hw_min_vram :: int
  hw_regions :: "string list"
  hw_allow_spot :: bool
  hw_require_on_demand :: bool

record manual_hardware =
  mh_provider :: string
  mh_shape_id :: string
  mh_machine_type :: string
  mh_region :: string

record routing_options =
  ro_mode :: string
  ro_objective :: string
  ro_exclude :: "bool smap"
  ro_budget :: rat
  ro_sizing :: sizing_hints
  ro_hardware :: hardware_constraints
  ro_manual :: manual_hardware
  ro_resume :: "checkpoint_ref option"

record provider_candidate =
  pc_provider :: string
  pc_score :: rat
  pc_caps :: provider_capabilities

record hardware_scored =
  hsc_provider :: string
  hsc_shape :: hardware_shape
  hsc_runtime :: rat
  hsc_cost :: rat

section \<open>What a provider can run\<close>

fun containsFold :: "string list \<Rightarrow> string \<Rightarrow> bool" where
  "containsFold [] target = False"
| "containsFold (v # vs) target = (if equal_fold v target then True else containsFold vs target)"

lemma containsFold_iff: "containsFold vs t \<longleftrightarrow> (\<exists>v \<in> set vs. equal_fold v t)"
  by (induction vs) auto

fun maxInt :: "int \<Rightarrow> int \<Rightarrow> int" where
  "maxInt a b = (if a > b then a else b)"

fun supportedCheckpointScheme :: "provider_capabilities \<Rightarrow> string \<Rightarrow> bool" where
  "supportedCheckpointScheme caps scheme = list_ex (\<lambda>s. equal_fold s scheme) (cap_checkpoint_schemes caps)"

definition checkpointScheme :: "string \<Rightarrow> string" where
  "checkpointScheme uri =
     (case url_parse uri of
        Some u \<Rightarrow> if url_scheme u \<noteq> [] then to_lower (url_scheme u) else ''file''
      | None \<Rightarrow> ''file'')"

definition uri_scheme :: "string \<Rightarrow> string" where
  "uri_scheme source = (case url_parse source of Some u \<Rightarrow> to_lower (url_scheme u) | None \<Rightarrow> [])"

fun data_rejections :: "provider_capabilities \<Rightarrow> data_input list \<Rightarrow> string list" where
  "data_rejections caps [] = []"
| "data_rejections caps (input # inputs) =
     (case di_mode input of
        ModeBundle \<Rightarrow> (if \<not> cap_data_bundle caps
          then [''provider does not support bundled data input '' @ quote (di_name input)] else [])
      | ModeUri \<Rightarrow>
          (let scheme = uri_scheme (di_source input) in
           if scheme = [] \<or> scheme \<notin> set (map to_lower (cap_uri_schemes caps))
           then [''provider does not support '' @ quote scheme @ '' URI data input '' @ quote (di_name input)] else [])
      | ModeOther s \<Rightarrow> []) @ data_rejections caps inputs"

definition capabilityRejections :: "job_spec \<Rightarrow> provider_capabilities \<Rightarrow> checkpoint_ref option \<Rightarrow> string list" where
  "capabilityRejections spec caps resume =
     data_rejections caps (job_data spec) @
     (case resume of None \<Rightarrow> []
      | Some ck \<Rightarrow>
          let scheme = checkpointScheme (ck_uri ck) in
          if \<not> supportedCheckpointScheme caps scheme
          then [''provider does not support '' @ quote scheme @ '' checkpoint resume URI '' @ quote (ck_uri ck)]
          else [])"

section \<open>Estimates\<close>

definition precisionBytes :: "string \<Rightarrow> rat" where
  "precisionBytes precision =
     (let p = to_lower precision in
      if p \<in> set [''fp32'', ''float32''] then 4
      else if p \<in> set [''int8'', ''8bit'', ''quantized''] then 1 else 2)"

definition optimizerMultiplier :: "string \<Rightarrow> rat" where
  "optimizerMultiplier optimizer =
     (let opt = to_lower optimizer in
      if opt \<in> set [''adam'', ''adamw''] then 4 else if opt = ''sgd'' then 2 else 3)"

definition estimateRequiredVRAM :: "routing_options \<Rightarrow> rat \<times> string \<times> gerror option" where
  "estimateRequiredVRAM opts =
     (let sz = ro_sizing opts; hw = ro_hardware opts in
      if sz_required_vram sz > 0 then (sz_required_vram sz, ''probe'', None)
      else if sz_parameters_b sz > 0 then
        (let bytesPerParam = precisionBytes (sz_precision sz);
             multiplier = optimizerMultiplier (sz_optimizer sz);
             activationGB = of_int (maxInt (sz_batch_size sz) 1) * (1 / 2)
         in (sz_parameters_b sz * bytesPerParam * multiplier + activationGB, ''hinted'', None))
      else if sz_artifact_gb sz > 0 then (sz_artifact_gb sz * 2, ''hinted'', None)
      else if hw_min_vram hw > 0 then (of_int (hw_min_vram hw), ''constraint'', None)
      else (0, ''low'', Some (ErrText ''full_auto routing requires sizing hints or min_vram_gb_per_gpu'')))"

text \<open>The product with ten is one of \<open>int\<close> and wraps before it becomes a float.\<close>

definition estimateRuntimeSeconds :: "hardware_shape \<Rightarrow> sizing_hints \<Rightarrow> rat" where
  "estimateRuntimeSeconds shape sizing =
     (let accelerators = maxInt (sh_accelerator_count shape) 1 in
      if sz_expected_steps sizing > 0
      then max 60 (of_int (wrap64 (sz_expected_steps sizing * 10)) / of_int accelerators)
      else if sh_accelerator_count shape > 0 then 3600 / of_int accelerators
      else 7200)"

definition estimateTotalCostUSD :: "hardware_shape \<Rightarrow> rat \<Rightarrow> rat \<Rightarrow> rat" where
  "estimateTotalCostUSD shape providerHourly runtimeSeconds =
     (let hourly = sh_on_demand_usd shape;
          hourly = (if hourly = 0 then sh_spot_usd shape else hourly);
          hourly = (if hourly = 0 then providerHourly else hourly)
      in hourly * runtimeSeconds / 3600)"

definition selectedHourlyUSD :: "hardware_shape \<Rightarrow> rat" where
  "selectedHourlyUSD shape = (if sh_on_demand_usd shape > 0 then sh_on_demand_usd shape else sh_spot_usd shape)"

definition hardwareSelection :: "string \<Rightarrow> hardware_shape \<Rightarrow> hardware_selection" where
  "hardwareSelection provider shape =
     \<lparr>hs_provider = provider, hs_shape_id = sh_id shape, hs_region = sh_region shape,
      hs_machine_type = sh_machine_type shape, hs_accelerator_type = sh_accelerator_type shape,
      hs_accelerator_count = sh_accelerator_count shape, hs_gpu_family = sh_gpu_family shape,
      hs_total_vram_gb = sh_total_vram shape, hs_hourly_usd = selectedHourlyUSD shape\<rparr>"

section \<open>Rejecting hardware\<close>

definition hardwareRejections :: "hardware_shape \<Rightarrow> rat \<Rightarrow> hardware_constraints \<Rightarrow> string list" where
  "hardwareRejections shape requiredVRAM c =
     (if sh_id shape = [] then [''hardware shape is missing id''] else [])
     @ (if requiredVRAM > 0 \<and> of_int (sh_total_vram shape) < requiredVRAM
        then [''total VRAM '' @ string_of_int (sh_total_vram shape) @ ''GB is below required '' @ fmt_fixed 1 requiredVRAM @ ''GB'']
        else [])
     @ (if hw_max_gpus c > 0 \<and> sh_accelerator_count shape > hw_max_gpus c
        then [''accelerator count '' @ string_of_int (sh_accelerator_count shape) @ '' exceeds max_gpus '' @ string_of_int (hw_max_gpus c)]
        else [])
     @ (if hw_min_vram c > 0 \<and> sh_vram_per_gpu shape < hw_min_vram c
        then [''VRAM per GPU '' @ string_of_int (sh_vram_per_gpu shape) @ ''GB is below minimum '' @ string_of_int (hw_min_vram c) @ ''GB'']
        else [])
     @ (if hw_families c \<noteq> [] \<and> \<not> containsFold (hw_families c) (sh_gpu_family shape)
        then [''gpu family '' @ quote (sh_gpu_family shape) @ '' is not allowed''] else [])
     @ (if hw_regions c \<noteq> [] \<and> \<not> containsFold (hw_regions c) (sh_region shape)
        then [''region '' @ quote (sh_region shape) @ '' is not allowed''] else [])
     @ (if hw_require_on_demand c \<and> \<not> sh_supports_on_demand shape
        then [''shape does not support on-demand execution''] else [])
     @ (if \<not> hw_allow_spot c \<and> \<not> sh_supports_on_demand shape \<and> sh_supports_spot shape
        then [''spot-only shape requires allow_spot''] else [])
     @ (if sh_on_demand_usd shape \<le> 0 \<and> sh_spot_usd shape \<le> 0
        then [''hardware shape is missing hourly price''] else [])
     @ (if sh_availability_hint shape \<in> set [''no_quota'', ''unavailable'']
        then [if sh_availability_reason shape = []
              then ''hardware shape availability is '' @ sh_availability_hint shape
              else sh_availability_reason shape]
        else [])"

section \<open>Reporting\<close>

definition routingCandidates :: "provider_candidate list \<Rightarrow> routing_candidate list" where
  "routingCandidates xs = map (\<lambda>i. \<lparr>rc_provider = pc_provider i, rc_score = pc_score i, rc_reasons = []\<rparr>) xs"

definition hardwareCandidates :: "hardware_scored list \<Rightarrow> hardware_candidate list" where
  "hardwareCandidates xs = map (\<lambda>i. \<lparr>hc_provider = hsc_provider i, hc_shape_id = sh_id (hsc_shape i),
     hc_score = hsc_runtime i, hc_reasons = []\<rparr>) xs"

definition formatRejectedProviders :: "routing_candidate list \<Rightarrow> string" where
  "formatRejectedProviders rejected =
     (if rejected = [] then ''no providers were registered''
      else join ''; '' (map (\<lambda>c.
        let reason = join '', '' (rc_reasons c);
            reason = (if reason = [] then ''no reason reported'' else reason)
        in rc_provider c @ '' rejected: '' @ reason) rejected))"

definition formatRejectedHardware :: "hardware_candidate list \<Rightarrow> string" where
  "formatRejectedHardware rejected =
     (if rejected = [] then ''no hardware shapes were reported by eligible providers''
      else join ''; '' (map (\<lambda>c.
        let reason = join '', '' (hc_reasons c);
            reason = (if reason = [] then ''no reason reported'' else reason)
        in hc_provider c @ ''/'' @ hc_shape_id c @ '' rejected: '' @ reason) rejected))"

section \<open>Ordering hardware\<close>

text \<open>The \<open>less\<close> function of \<open>sortHardware\<close>.\<close>

definition hardware_less :: "string \<Rightarrow> hardware_scored \<Rightarrow> hardware_scored \<Rightarrow> bool" where
  "hardware_less objective a b =
     (let by_name = (if hsc_provider a \<noteq> hsc_provider b then hsc_provider a < hsc_provider b
                     else sh_id (hsc_shape a) < sh_id (hsc_shape b))
      in if objective = ''fastest_within_budget'' then
           (if hsc_runtime a \<noteq> hsc_runtime b then hsc_runtime a < hsc_runtime b
            else if hsc_cost a \<noteq> hsc_cost b then hsc_cost a < hsc_cost b
            else by_name)
         else if hsc_cost a \<noteq> hsc_cost b then hsc_cost a < hsc_cost b
         else by_name)"

definition sortHardware :: "hardware_scored list \<Rightarrow> string \<Rightarrow> hardware_scored list" where
  "sortHardware candidates objective = sort_stable (hardware_less objective) candidates"

text \<open>The same order as a comparison of keys.\<close>

definition hardware_key :: "string \<Rightarrow> hardware_scored \<Rightarrow> rat \<times> rat \<times> string \<times> string" where
  "hardware_key objective a =
     (if objective = ''fastest_within_budget'' then hsc_runtime a else 0,
      hsc_cost a, hsc_provider a, sh_id (hsc_shape a))"

lemma hardware_less_key: "hardware_less objective = key_less (hardware_key objective)"
  by (auto simp: fun_eq_iff hardware_less_def hardware_key_def key_less_def less_prod_def'
      Let_def)

interpretation hardware: strict_weak_order "hardware_less objective" for objective
  unfolding hardware_less_key by (rule by_key.strict_weak_order_axioms)

text \<open>The \<open>less\<close> function of \<open>Select\<close>.\<close>

definition provider_less :: "string \<Rightarrow> provider_candidate \<Rightarrow> provider_candidate \<Rightarrow> bool" where
  "provider_less objective a b =
     (if objective = ''min_cost'' then pc_score a < pc_score b else pc_provider a < pc_provider b)"

interpretation provider: strict_weak_order "provider_less objective" for objective
  by unfold_locales (auto simp: provider_less_def)

section \<open>Selecting hardware\<close>

definition owned_shape :: "string \<Rightarrow> hardware_shape \<Rightarrow> hardware_shape" where
  "owned_shape provider shape = (if sh_provider shape = [] then shape\<lparr>sh_provider := provider\<rparr> else shape)"

text \<open>The first manual setting that a shape does not agree with.\<close>

definition manual_mismatch :: "manual_hardware \<Rightarrow> hardware_shape \<Rightarrow> string option" where
  "manual_mismatch manual shape =
     (if mh_shape_id manual \<noteq> [] \<and> sh_id shape \<noteq> mh_shape_id manual
      then Some ''manual shape_id did not match''
      else if mh_machine_type manual \<noteq> [] \<and> sh_machine_type shape \<noteq> mh_machine_type manual
      then Some ''manual machine_type did not match''
      else if mh_region manual \<noteq> [] \<and> sh_region shape \<noteq> mh_region manual
      then Some ''manual region did not match'' else None)"

text \<open>The shapes in the order in which the two loops visit them.\<close>

definition manual_visited ::
  "manual_hardware \<Rightarrow> provider_candidate list \<Rightarrow> (provider_candidate \<times> hardware_shape) list" where
  "manual_visited manual providers =
     concat (map (\<lambda>c. map (\<lambda>shape. (c, owned_shape (pc_provider c) shape)) (cap_shapes (pc_caps c)))
       (filter (\<lambda>c. \<not> (mh_provider manual \<noteq> [] \<and> pc_provider c \<noteq> mh_provider manual)) providers))"

fun manual_loop ::
  "manual_hardware \<Rightarrow> (provider_candidate \<times> hardware_shape) list \<Rightarrow> hardware_candidate list
    \<Rightarrow> hardware_candidate list \<times> (provider_candidate \<times> hardware_shape) option" where
  "manual_loop manual [] rejected = (rejected, None)"
| "manual_loop manual ((c, shape) # rest) rejected =
     (case manual_mismatch manual shape of
        Some reason \<Rightarrow> manual_loop manual rest
          (rejected @ [\<lparr>hc_provider = pc_provider c, hc_shape_id = sh_id shape, hc_score = 0, hc_reasons = [reason]\<rparr>])
      | None \<Rightarrow> (rejected, Some (c, shape)))"

definition selectManualHardware ::
  "string \<Rightarrow> provider_candidate list \<Rightarrow> routing_candidate list \<Rightarrow> routing_options
    \<Rightarrow> routing_decision \<times> gerror option" where
  "selectManualHardware objective providers rejectedProviders opts =
     (case manual_loop (ro_manual opts) (manual_visited (ro_manual opts) providers) [] of
        (rejectedHardware, Some (c, shape)) \<Rightarrow>
          (let runtimeSeconds = estimateRuntimeSeconds shape (ro_sizing opts);
               totalCostUSD = estimateTotalCostUSD shape (pc_score c) runtimeSeconds
           in (empty_decision\<lparr>rd_selected_provider := pc_provider c, rd_objective := objective,
                 rd_selection_reason := ''selected '' @ pc_provider c @ '' on '' @ sh_id shape @ '' by manual hardware'',
                 rd_eligible_providers := routingCandidates providers,
                 rd_rejected_providers := rejectedProviders,
                 rd_selected_hardware := Some (hardwareSelection (pc_provider c) shape),
                 rd_rejected_hardware := rejectedHardware,
                 rd_runtime_sec := Some runtimeSeconds,
                 rd_total_cost := Some totalCostUSD,
                 rd_confidence := ''manual''\<rparr>, None))
      | (rejectedHardware, None) \<Rightarrow>
          (empty_decision\<lparr>rd_objective := objective, rd_eligible_providers := routingCandidates providers,
             rd_rejected_providers := rejectedProviders, rd_rejected_hardware := rejectedHardware,
             rd_confidence := ''manual''\<rparr>,
           Some (ErrText ''manual hardware selection did not match any eligible provider shape'')))"

text \<open>One shape of one provider: scored, or rejected with the reasons.\<close>

definition score_shape ::
  "routing_options \<Rightarrow> rat \<Rightarrow> provider_candidate \<Rightarrow> hardware_shape \<Rightarrow> hardware_candidate + hardware_scored" where
  "score_shape opts requiredVRAM pc shape0 =
     (let shape = owned_shape (pc_provider pc) shape0;
          reasons = hardwareRejections shape requiredVRAM (ro_hardware opts);
          runtimeSeconds = estimateRuntimeSeconds shape (ro_sizing opts);
          totalCostUSD = estimateTotalCostUSD shape (pc_score pc) runtimeSeconds;
          reasons = reasons @
            (if ro_budget opts > 0 \<and> totalCostUSD > ro_budget opts
             then [''estimated total cost $'' @ fmt_fixed 2 totalCostUSD @ '' exceeds max budget $'' @ fmt_fixed 2 (ro_budget opts)]
             else [])
      in if reasons \<noteq> []
         then Inl \<lparr>hc_provider = pc_provider pc, hc_shape_id = sh_id shape, hc_score = 0, hc_reasons = reasons\<rparr>
         else Inr \<lparr>hsc_provider = pc_provider pc, hsc_shape = shape, hsc_runtime = runtimeSeconds, hsc_cost = totalCostUSD\<rparr>)"

definition scored_shapes ::
  "routing_options \<Rightarrow> rat \<Rightarrow> provider_candidate list \<Rightarrow> (hardware_candidate + hardware_scored) list" where
  "scored_shapes opts requiredVRAM providers =
     concat (map (\<lambda>pc. map (score_shape opts requiredVRAM pc) (cap_shapes (pc_caps pc))) providers)"

fun lefts :: "('a + 'b) list \<Rightarrow> 'a list" where
  "lefts [] = []"
| "lefts (Inl a # xs) = a # lefts xs"
| "lefts (Inr b # xs) = lefts xs"

fun rights :: "('a + 'b) list \<Rightarrow> 'b list" where
  "rights [] = []"
| "rights (Inl a # xs) = rights xs"
| "rights (Inr b # xs) = b # rights xs"

lemma set_lefts [simp]: "a \<in> set (lefts xs) \<longleftrightarrow> Inl a \<in> set xs"
  by (induction xs rule: lefts.induct) auto

lemma set_rights [simp]: "b \<in> set (rights xs) \<longleftrightarrow> Inr b \<in> set xs"
  by (induction xs rule: rights.induct) auto

lemma length_lefts_rights: "length (lefts xs) + length (rights xs) = length xs"
  by (induction xs rule: lefts.induct) auto

lemma lefts_append [simp]: "lefts (xs @ ys) = lefts xs @ lefts ys"
  by (induction xs rule: lefts.induct) auto

lemma rights_append [simp]: "rights (xs @ ys) = rights xs @ rights ys"
  by (induction xs rule: rights.induct) auto

definition selectHardwareRoute ::
  "string \<Rightarrow> provider_candidate list \<Rightarrow> routing_candidate list \<Rightarrow> routing_options
    \<Rightarrow> routing_decision \<times> gerror option" where
  "selectHardwareRoute objective providers rejectedProviders opts =
     (if ro_mode opts = ''manual'' then selectManualHardware objective providers rejectedProviders opts
      else
        let (vram, conf, err) = estimateRequiredVRAM opts in
        if err \<noteq> None \<and> ro_mode opts = ''full_auto''
        then (empty_decision\<lparr>rd_objective := objective, rd_eligible_providers := routingCandidates providers,
                rd_rejected_providers := rejectedProviders, rd_confidence := ''low''\<rparr>, err)
        else
          let (requiredVRAM, confidence) =
                (if err \<noteq> None then (of_int (hw_min_vram (ro_hardware opts)), ''constraint'') else (vram, conf));
              scored = scored_shapes opts requiredVRAM providers;
              rejectedHardware = lefts scored;
              eligibleHardware = rights scored
          in if eligibleHardware = []
             then (empty_decision\<lparr>rd_objective := objective, rd_eligible_providers := routingCandidates providers,
                     rd_rejected_providers := rejectedProviders, rd_rejected_hardware := rejectedHardware,
                     rd_confidence := confidence\<rparr>,
                   Some (ErrText (''no eligible hardware shapes: '' @ formatRejectedHardware rejectedHardware)))
             else
               let sorted = sortHardware eligibleHardware objective;
                   selected = hd sorted
               in (empty_decision\<lparr>rd_selected_provider := hsc_provider selected, rd_objective := objective,
                     rd_selection_reason := ''selected '' @ hsc_provider selected @ '' on ''
                       @ sh_id (hsc_shape selected) @ '' by '' @ objective,
                     rd_eligible_providers := routingCandidates providers,
                     rd_rejected_providers := rejectedProviders,
                     rd_selected_hardware := Some (hardwareSelection (hsc_provider selected) (hsc_shape selected)),
                     rd_eligible_hardware := hardwareCandidates sorted,
                     rd_rejected_hardware := rejectedHardware,
                     rd_required_vram := Some requiredVRAM,
                     rd_runtime_sec := Some (hsc_runtime selected),
                     rd_total_cost := Some (hsc_cost selected),
                     rd_confidence := confidence\<rparr>, None))"

section \<open>Selecting a provider\<close>

definition hardwareRoutingEnabled :: "routing_options \<Rightarrow> bool" where
  "hardwareRoutingEnabled opts \<longleftrightarrow>
     ro_mode opts = ''full_auto'' \<or> ro_mode opts = ''auto_provider'' \<or> ro_mode opts = ''manual''
     \<or> ro_objective opts = ''fastest_within_budget''"

text \<open>One turn of the loop over the registry: eligible, or rejected with the reasons.\<close>

definition evaluate_provider ::
  "registry \<Rightarrow> job_spec \<Rightarrow> routing_options \<Rightarrow> string \<Rightarrow> routing_candidate + provider_candidate" where
  "evaluate_provider reg spec opts name =
     (let reject = (\<lambda>reasons. Inl \<lparr>rc_provider = name, rc_score = 0, rc_reasons = reasons\<rparr>) in
      if lookup_default False (ro_exclude opts) name then reject [''excluded after retryable failure'']
      else case registry_get reg name of
        Inl e \<Rightarrow> reject [error_string e]
      | Inr a \<Rightarrow>
        (case ad_capabilities a of
           (_, Some e) \<Rightarrow> reject [error_string e]
         | (caps, None) \<Rightarrow>
             (let reasons = capabilityRejections spec caps (ro_resume opts) in
              if reasons \<noteq> [] then reject reasons
              else
                let report = ad_validate a spec in
                if \<not> sup_supported report then reject (sup_reasons report)
                else case ad_estimate a spec of
                  Inl e \<Rightarrow> reject [error_string e]
                | Inr est \<Rightarrow> Inr \<lparr>pc_provider = name, pc_score = est_hourly_usd est, pc_caps = caps\<rparr>)))"

definition routing_objective :: "routing_options \<Rightarrow> string" where
  "routing_objective opts = (if ro_objective opts = [] then ''min_cost'' else ro_objective opts)"

definition evaluations :: "registry \<Rightarrow> job_spec \<Rightarrow> routing_options \<Rightarrow> (routing_candidate + provider_candidate) list" where
  "evaluations reg spec opts = map (evaluate_provider reg spec opts) (registry_list reg)"

definition Select :: "registry \<Rightarrow> job_spec \<Rightarrow> routing_options \<Rightarrow> routing_decision \<times> gerror option" where
  "Select reg spec opts =
     (let objective = routing_objective opts;
          evaluated = evaluations reg spec opts;
          eligible = rights evaluated;
          rejected = lefts evaluated
      in if eligible = []
         then (empty_decision\<lparr>rd_objective := objective, rd_rejected_providers := rejected\<rparr>,
               Some (ErrText (''no eligible providers: '' @ formatRejectedProviders rejected)))
         else if hardwareRoutingEnabled opts then selectHardwareRoute objective eligible rejected opts
         else
           let sorted = sort_stable (provider_less objective) eligible;
               selected = hd sorted
           in (empty_decision\<lparr>rd_selected_provider := pc_provider selected, rd_objective := objective,
                 rd_selection_reason := ''selected '' @ pc_provider selected @ '' by '' @ objective,
                 rd_eligible_providers := routingCandidates sorted,
                 rd_rejected_providers := rejected\<rparr>, None))"

section \<open>What eligibility means\<close>

text \<open>A provider may run a job: listed, not excluded, and every check of it passes.\<close>

definition provider_eligible :: "registry \<Rightarrow> job_spec \<Rightarrow> routing_options \<Rightarrow> string \<Rightarrow> bool" where
  "provider_eligible reg spec opts name \<longleftrightarrow>
     \<not> lookup_default False (ro_exclude opts) name \<and>
     (case registry_get reg name of Inl _ \<Rightarrow> False
      | Inr a \<Rightarrow> snd (ad_capabilities a) = None
          \<and> capabilityRejections spec (fst (ad_capabilities a)) (ro_resume opts) = []
          \<and> sup_supported (ad_validate a spec)
          \<and> \<not> isl (ad_estimate a spec))"

lemma evaluate_eligible:
  "(\<exists>c. evaluate_provider reg spec opts name = Inr c) \<longleftrightarrow> provider_eligible reg spec opts name"
  by (auto simp: evaluate_provider_def provider_eligible_def Let_def split: sum.splits prod.splits option.splits)

lemma evaluate_Inr:
  "evaluate_provider reg spec opts name = Inr c \<Longrightarrow> pc_provider c = name \<and>
     (\<exists>a est. registry_get reg name = Inr a \<and> ad_capabilities a = (pc_caps c, None) \<and>
        ad_estimate a spec = Inr est \<and> pc_score c = est_hourly_usd est)"
  by (auto simp: evaluate_provider_def Let_def split: sum.splits prod.splits option.splits if_splits)

lemma evaluate_Inl:
  "evaluate_provider reg spec opts name = Inl c \<Longrightarrow> rc_provider c = name"
  by (auto simp: evaluate_provider_def Let_def split: sum.splits prod.splits option.splits if_splits)

definition eligible_of :: "registry \<Rightarrow> job_spec \<Rightarrow> routing_options \<Rightarrow> provider_candidate list" where
  "eligible_of reg spec opts = rights (evaluations reg spec opts)"

lemma in_eligible_of:
  "c \<in> set (eligible_of reg spec opts) \<longleftrightarrow>
     pc_provider c \<in> set (registry_list reg) \<and> evaluate_provider reg spec opts (pc_provider c) = Inr c"
proof
  assume "c \<in> set (eligible_of reg spec opts)"
  then have "Inr c \<in> evaluate_provider reg spec opts ` set (registry_list reg)"
    by (simp add: eligible_of_def evaluations_def)
  then obtain n where n: "n \<in> set (registry_list reg)" "evaluate_provider reg spec opts n = Inr c"
    by (metis imageE)
  with evaluate_Inr [OF n(2)] show "pc_provider c \<in> set (registry_list reg)
      \<and> evaluate_provider reg spec opts (pc_provider c) = Inr c" by auto
next
  assume "pc_provider c \<in> set (registry_list reg) \<and> evaluate_provider reg spec opts (pc_provider c) = Inr c"
  then show "c \<in> set (eligible_of reg spec opts)"
    by (force simp: eligible_of_def evaluations_def)
qed

lemma in_eligible_ok: "c \<in> set (eligible_of reg spec opts) \<Longrightarrow> provider_eligible reg spec opts (pc_provider c)"
  using evaluate_eligible [of reg spec opts "pc_provider c"] by (auto simp: in_eligible_of)

lemma eligible_provider_in:
  assumes "provider_eligible reg spec opts n" and "n \<in> set (registry_list reg)"
  shows "\<exists>c \<in> set (eligible_of reg spec opts). pc_provider c = n"
proof -
  from assms(1) obtain c where "evaluate_provider reg spec opts n = Inr c"
    using evaluate_eligible by blast
  with assms(2) show ?thesis using evaluate_Inr by (fastforce simp: in_eligible_of)
qed

text \<open>The loop puts every listed provider in exactly one of the two lists.\<close>

lemma evaluations_partition:
  "mset (map pc_provider (rights (map (evaluate_provider reg spec opts) ns)))
     + mset (map rc_provider (lefts (map (evaluate_provider reg spec opts) ns))) = mset ns"
proof (induction ns)
  case Nil
  then show ?case by simp
next
  case (Cons n ns)
  then show ?case
    by (cases "evaluate_provider reg spec opts n") (auto dest: evaluate_Inr evaluate_Inl)
qed

section \<open>What an admissible shape is\<close>

text \<open>The hardware constraints as one predicate, apart from the messages.\<close>

definition shape_admissible :: "hardware_shape \<Rightarrow> rat \<Rightarrow> hardware_constraints \<Rightarrow> bool" where
  "shape_admissible shape vram c \<longleftrightarrow>
     sh_id shape \<noteq> []
     \<and> (vram > 0 \<longrightarrow> vram \<le> of_int (sh_total_vram shape))
     \<and> (hw_max_gpus c > 0 \<longrightarrow> sh_accelerator_count shape \<le> hw_max_gpus c)
     \<and> (hw_min_vram c > 0 \<longrightarrow> hw_min_vram c \<le> sh_vram_per_gpu shape)
     \<and> (hw_families c \<noteq> [] \<longrightarrow> (\<exists>f \<in> set (hw_families c). equal_fold f (sh_gpu_family shape)))
     \<and> (hw_regions c \<noteq> [] \<longrightarrow> (\<exists>r \<in> set (hw_regions c). equal_fold r (sh_region shape)))
     \<and> (hw_require_on_demand c \<longrightarrow> sh_supports_on_demand shape)
     \<and> (\<not> hw_allow_spot c \<longrightarrow> sh_supports_on_demand shape \<or> \<not> sh_supports_spot shape)
     \<and> (sh_on_demand_usd shape > 0 \<or> sh_spot_usd shape > 0)
     \<and> sh_availability_hint shape \<notin> {''no_quota'', ''unavailable''}"

lemma hardwareRejections_admissible: "hardwareRejections shape vram c = [] \<longleftrightarrow> shape_admissible shape vram c"
  unfolding hardwareRejections_def shape_admissible_def containsFold_iff append_is_Nil_conv
  by (auto simp: not_less not_le)

lemma estimateRuntimeSeconds_pos: "0 < estimateRuntimeSeconds shape sizing"
  by (auto simp: estimateRuntimeSeconds_def Let_def less_max_iff_disj)

lemma score_shape_Inr:
  "score_shape opts vram pc shape0 = Inr h \<longleftrightarrow>
     hsc_provider h = pc_provider pc \<and> hsc_shape h = owned_shape (pc_provider pc) shape0
     \<and> hsc_runtime h = estimateRuntimeSeconds (hsc_shape h) (ro_sizing opts)
     \<and> hsc_cost h = estimateTotalCostUSD (hsc_shape h) (pc_score pc) (hsc_runtime h)
     \<and> shape_admissible (hsc_shape h) vram (ro_hardware opts)
     \<and> (ro_budget opts > 0 \<longrightarrow> hsc_cost h \<le> ro_budget opts)"
  by (cases h)
     (auto simp: score_shape_def Let_def hardwareRejections_admissible not_less split: if_splits)

lemma in_scored_shapes:
  "x \<in> set (scored_shapes opts vram ps) \<longleftrightarrow>
     (\<exists>pc \<in> set ps. \<exists>s \<in> set (cap_shapes (pc_caps pc)). x = score_shape opts vram pc s)"
  by (auto simp: scored_shapes_def)

lemma length_scored_shapes:
  "length (scored_shapes opts vram ps) = sum_list (map (\<lambda>pc. length (cap_shapes (pc_caps pc))) ps)"
  by (simp add: scored_shapes_def length_concat comp_def)

section \<open>The outcome of a selection\<close>

lemma manual_eligible:
  "rd_eligible_providers (fst (selectManualHardware objective ps rej opts)) = routingCandidates ps
   \<and> rd_rejected_providers (fst (selectManualHardware objective ps rej opts)) = rej"
  by (simp add: selectManualHardware_def Let_def split: option.split prod.split)

lemma route_eligible:
  "rd_eligible_providers (fst (selectHardwareRoute objective ps rej opts)) = routingCandidates ps
   \<and> rd_rejected_providers (fst (selectHardwareRoute objective ps rej opts)) = rej"
  by (simp add: selectHardwareRoute_def Let_def manual_eligible split: prod.split)

lemma Select_unfold:
  "Select reg spec opts =
     (let es = eligible_of reg spec opts; rej = lefts (evaluations reg spec opts);
          objective = routing_objective opts in
      if es = []
      then (empty_decision\<lparr>rd_objective := objective, rd_rejected_providers := rej\<rparr>,
            Some (ErrText (''no eligible providers: '' @ formatRejectedProviders rej)))
      else if hardwareRoutingEnabled opts then selectHardwareRoute objective es rej opts
      else (let sorted = sort_stable (provider_less objective) es in
        (empty_decision\<lparr>rd_selected_provider := pc_provider (hd sorted), rd_objective := objective,
           rd_selection_reason := ''selected '' @ pc_provider (hd sorted) @ '' by '' @ objective,
           rd_eligible_providers := routingCandidates sorted, rd_rejected_providers := rej\<rparr>, None)))"
  by (simp add: Select_def eligible_of_def Let_def)

lemma Select_reports:
  "mset (rd_eligible_providers (fst (Select reg spec opts))) = mset (routingCandidates (eligible_of reg spec opts))
   \<and> rd_rejected_providers (fst (Select reg spec opts)) = lefts (evaluations reg spec opts)"
  by (auto simp: Select_unfold Let_def route_eligible routingCandidates_def empty_decision_def)

lemma route_hardware:
  assumes "selectHardwareRoute objective ps rej opts = (d, None)" and "ro_mode opts \<noteq> ''manual''"
  obtains vram h hs where "rd_required_vram d = Some vram"
    and "hs = rights (scored_shapes opts vram ps)" and "h \<in> set hs"
    and "\<forall>h' \<in> set hs. hardware_key objective h \<le> hardware_key objective h'"
    and "rd_selected_provider d = hsc_provider h"
    and "rd_selected_hardware d = Some (hardwareSelection (hsc_provider h) (hsc_shape h))"
    and "rd_runtime_sec d = Some (hsc_runtime h)" and "rd_total_cost d = Some (hsc_cost h)"
    and "snd (snd (estimateRequiredVRAM opts)) = None \<longrightarrow> vram = fst (estimateRequiredVRAM opts)"
    and "snd (snd (estimateRequiredVRAM opts)) \<noteq> None \<longrightarrow> ro_mode opts \<noteq> ''full_auto''
      \<and> vram = of_int (hw_min_vram (ro_hardware opts))"
proof -
  obtain v cf e where est: "estimateRequiredVRAM opts = (v, cf, e)" by (cases "estimateRequiredVRAM opts")
  define vram where "vram = (if e \<noteq> None then of_int (hw_min_vram (ro_hardware opts)) else v)"
  define hs where "hs = rights (scored_shapes opts vram ps)"
  define h where "h = hd (sortHardware hs objective)"
  have ne: "\<not> (e \<noteq> None \<and> ro_mode opts = ''full_auto'')"
    using assms est by (auto simp: selectHardwareRoute_def Let_def)
  have hs: "hs \<noteq> []"
    using assms est ne by (auto simp: selectHardwareRoute_def Let_def hs_def vram_def split: if_splits)
  then have "sortHardware hs objective \<noteq> []" by (simp add: sortHardware_def)
  then have h: "h \<in> set hs" unfolding h_def
    by (metis hd_in_set set_sort_stable sortHardware_def)
  have min: "\<forall>h' \<in> set hs. hardware_key objective h \<le> hardware_key objective h'"
    using hardware.hd_sort_stable_minimal [OF hs]
    by (auto simp: h_def sortHardware_def hardware_less_key key_less_def not_less)
  have d: "d = fst (selectHardwareRoute objective ps rej opts)" using assms(1) by simp
  have out: "rd_required_vram d = Some vram" "rd_selected_provider d = hsc_provider h"
    "rd_selected_hardware d = Some (hardwareSelection (hsc_provider h) (hsc_shape h))"
    "rd_runtime_sec d = Some (hsc_runtime h)" "rd_total_cost d = Some (hsc_cost h)"
    unfolding d using assms(2) est ne hs
    by (cases e; simp add: selectHardwareRoute_def Let_def hs_def [symmetric] h_def vram_def [symmetric];
        simp add: vram_def hs_def h_def)+
  have "snd (snd (estimateRequiredVRAM opts)) = None \<longrightarrow> vram = fst (estimateRequiredVRAM opts)"
    "snd (snd (estimateRequiredVRAM opts)) \<noteq> None \<longrightarrow> ro_mode opts \<noteq> ''full_auto''
      \<and> vram = of_int (hw_min_vram (ro_hardware opts))"
    using ne by (auto simp: est vram_def)
  then show thesis by (intro that [OF out(1) hs_def h min out(2-5)]) simp_all
qed

lemma manual_loop_found:
  "manual_loop manual cs rej = (rej', Some (c, s)) \<Longrightarrow> (c, s) \<in> set cs \<and> manual_mismatch manual s = None"
  by (induction manual cs rej rule: manual_loop.induct) (auto split: option.splits)

lemma manual_matches:
  assumes "selectManualHardware objective ps rej opts = (d, None)"
  shows "\<exists>pc \<in> set ps. \<exists>s \<in> set (cap_shapes (pc_caps pc)).
     rd_selected_provider d = pc_provider pc
     \<and> rd_selected_hardware d = Some (hardwareSelection (pc_provider pc) (owned_shape (pc_provider pc) s))
     \<and> (mh_provider (ro_manual opts) \<noteq> [] \<longrightarrow> pc_provider pc = mh_provider (ro_manual opts))
     \<and> (mh_shape_id (ro_manual opts) \<noteq> [] \<longrightarrow> sh_id s = mh_shape_id (ro_manual opts))
     \<and> (mh_machine_type (ro_manual opts) \<noteq> [] \<longrightarrow> sh_machine_type s = mh_machine_type (ro_manual opts))
     \<and> (mh_region (ro_manual opts) \<noteq> [] \<longrightarrow> sh_region s = mh_region (ro_manual opts))"
proof -
  obtain rejected c s where found:
    "manual_loop (ro_manual opts) (manual_visited (ro_manual opts) ps) [] = (rejected, Some (c, s))"
    and d: "rd_selected_provider d = pc_provider c"
      "rd_selected_hardware d = Some (hardwareSelection (pc_provider c) s)"
    using assms by (auto simp: selectManualHardware_def Let_def split: option.splits prod.splits)
  from manual_loop_found [OF found] obtain s0 where c: "c \<in> set ps"
      "mh_provider (ro_manual opts) = [] \<or> pc_provider c = mh_provider (ro_manual opts)"
    and s: "s0 \<in> set (cap_shapes (pc_caps c))" "s = owned_shape (pc_provider c) s0"
    and agrees: "manual_mismatch (ro_manual opts) s = None"
    by (auto simp: manual_visited_def)
  have "sh_id s = sh_id s0" "sh_machine_type s = sh_machine_type s0" "sh_region s = sh_region s0"
    by (simp_all add: s(2) owned_shape_def)
  with agrees c s d show ?thesis
    by (intro bexI [OF _ c(1)] bexI [OF _ s(1)]) (auto simp: manual_mismatch_def split: if_splits)
qed

lemma Select_route:
  assumes "hardwareRoutingEnabled opts" and "Select reg spec opts = (d, None)"
  shows "selectHardwareRoute (routing_objective opts) (eligible_of reg spec opts)
           (lefts (evaluations reg spec opts)) opts = (d, None)"
  using assms by (simp add: Select_unfold Let_def split: if_splits)

lemma Select_in_eligible:
  assumes "Select reg spec opts = (d, None)"
  shows "\<exists>c \<in> set (eligible_of reg spec opts). pc_provider c = rd_selected_provider d"
proof (cases "hardwareRoutingEnabled opts")
  case False
  then show ?thesis
    using assms
    by (auto simp: Select_unfold Let_def split: if_splits)
       (metis hd_in_set set_sort_stable sort_stable_eq_Nil)
next
  case True
  note route = Select_route [OF True assms]
  show ?thesis
  proof (cases "ro_mode opts = ''manual''")
    case True
    with route manual_matches show ?thesis by (fastforce simp: selectHardwareRoute_def)
  next
    case False
    from route_hardware [OF route False] obtain vram h where
      "Inr h \<in> set (scored_shapes opts vram (eligible_of reg spec opts))" "rd_selected_provider d = hsc_provider h"
      by (metis set_rights)
    then show ?thesis by (auto simp: in_scored_shapes dest!: sym [of "Inr h"] simp: score_shape_Inr)
  qed
qed

section \<open>Properties of a selection\<close>

text \<open>C23. Whatever the mode, a provider that \<open>Select\<close> returns without an error is registered, was
  not excluded after an earlier failure, reports capabilities that cover the job's data inputs and
  the checkpoint to resume from, supports the job and estimates its cost.\<close>

theorem select_provider_eligible:
  assumes "Select reg spec opts = (d, None)"
  shows "rd_selected_provider d \<in> set (registry_list reg)
    \<and> provider_eligible reg spec opts (rd_selected_provider d)"
  using Select_in_eligible [OF assms] in_eligible_ok in_eligible_of by metis

text \<open>Every registered provider is reported exactly once, as eligible or as rejected, also
  when the selection fails.\<close>

theorem select_reports_all:
  "mset (map rc_provider (rd_eligible_providers (fst (Select reg spec opts)))
     @ map rc_provider (rd_rejected_providers (fst (Select reg spec opts)))) = mset (registry_list reg)"
proof -
  have names: "map rc_provider (routingCandidates es) = map pc_provider es" for es
    by (simp add: routingCandidates_def)
  have "mset (map rc_provider (rd_eligible_providers (fst (Select reg spec opts))))
      = mset (map pc_provider (eligible_of reg spec opts))"
    using Select_reports [of reg spec opts] by (metis mset_map names)
  then show ?thesis
    using Select_reports [of reg spec opts] evaluations_partition [of reg spec opts "registry_list reg"]
    by (simp add: eligible_of_def evaluations_def del: mset_map)
qed


text \<open>Without hardware routing and with the objective \<open>min_cost\<close>, which is the default, the
  selected provider's hourly estimate is the lowest of all eligible providers.\<close>

theorem select_cheapest:
  assumes "Select reg spec opts = (d, None)" and "\<not> hardwareRoutingEnabled opts"
    and "routing_objective opts = ''min_cost''"
    and "c \<in> set (eligible_of reg spec opts)"
  shows "\<exists>s \<in> set (eligible_of reg spec opts). pc_provider s = rd_selected_provider d \<and> pc_score s \<le> pc_score c"
proof -
  let ?es = "eligible_of reg spec opts" and ?s = "hd (sort_stable (provider_less (routing_objective opts)) (eligible_of reg spec opts))"
  have ne: "?es \<noteq> []" using assms(4) by auto
  then have "?s \<in> set ?es" by (metis hd_in_set set_sort_stable sort_stable_eq_Nil)
  moreover have "rd_selected_provider d = pc_provider ?s"
    using assms(1,2) ne by (auto simp: Select_unfold Let_def)
  moreover have "pc_score ?s \<le> pc_score c"
    using provider.hd_sort_stable_minimal [OF ne assms(4), of "routing_objective opts"] assms(3)
    by (simp add: provider_less_def not_less)
  ultimately show ?thesis by auto
qed

text \<open>In manual mode the selected shape is one that an eligible provider reports and that
  agrees with every manual setting that is given.\<close>

theorem select_manual_matches:
  assumes "Select reg spec opts = (d, None)" and "ro_mode opts = ''manual''"
  shows "\<exists>pc \<in> set (eligible_of reg spec opts). \<exists>s \<in> set (cap_shapes (pc_caps pc)).
     rd_selected_provider d = pc_provider pc
     \<and> rd_selected_hardware d = Some (hardwareSelection (pc_provider pc) (owned_shape (pc_provider pc) s))
     \<and> (mh_provider (ro_manual opts) \<noteq> [] \<longrightarrow> pc_provider pc = mh_provider (ro_manual opts))
     \<and> (mh_shape_id (ro_manual opts) \<noteq> [] \<longrightarrow> sh_id s = mh_shape_id (ro_manual opts))
     \<and> (mh_machine_type (ro_manual opts) \<noteq> [] \<longrightarrow> sh_machine_type s = mh_machine_type (ro_manual opts))
     \<and> (mh_region (ro_manual opts) \<noteq> [] \<longrightarrow> sh_region s = mh_region (ro_manual opts))"
proof -
  have "hardwareRoutingEnabled opts" using assms(2) by (simp add: hardwareRoutingEnabled_def)
  from Select_route [OF this assms(1)] assms(2)
  have "selectManualHardware (routing_objective opts) (eligible_of reg spec opts)
      (lefts (evaluations reg spec opts)) opts = (d, None)"
    by (simp add: selectHardwareRoute_def)
  then show ?thesis by (rule manual_matches)
qed

text \<open>Provider routing fails only when it must: without hardware routing, \<open>Select\<close> returns an
  error exactly when no registered provider is eligible.\<close>

theorem select_fails_iff:
  assumes "\<not> hardwareRoutingEnabled opts"
  shows "snd (Select reg spec opts) \<noteq> None
    \<longleftrightarrow> (\<forall>n \<in> set (registry_list reg). \<not> provider_eligible reg spec opts n)"
proof -
  have "snd (Select reg spec opts) \<noteq> None \<longleftrightarrow> eligible_of reg spec opts = []"
    using assms by (simp add: Select_unfold Let_def)
  also have "\<dots> \<longleftrightarrow> (\<forall>n \<in> set (registry_list reg). \<not> provider_eligible reg spec opts n)"
  proof
    assume "eligible_of reg spec opts = []"
    then show "\<forall>n \<in> set (registry_list reg). \<not> provider_eligible reg spec opts n"
      using eligible_provider_in [of reg spec opts] by auto
  next
    assume none: "\<forall>n \<in> set (registry_list reg). \<not> provider_eligible reg spec opts n"
    show "eligible_of reg spec opts = []"
    proof (rule ccontr)
      assume "eligible_of reg spec opts \<noteq> []"
      then have "hd (eligible_of reg spec opts) \<in> set (eligible_of reg spec opts)" by simp
      with none in_eligible_of in_eligible_ok show False by blast
    qed
  qed
  finally show ?thesis .
qed

section \<open>A concrete selection\<close>

text \<open>Two providers with one priced shape each, a job with a data input of the scheme \<open>gs\<close>.\<close>

definition sample_shape :: hardware_shape where
  "sample_shape = empty_shape\<lparr>sh_id := ''l4x1'', sh_region := ''us-central1'', sh_machine_type := ''g2'',
     sh_accelerator_count := 1, sh_gpu_family := ''l4'', sh_vram_per_gpu := 24, sh_total_vram := 24,
     sh_on_demand_usd := 1, sh_supports_on_demand := True\<rparr>"

definition sample_capabilities :: provider_capabilities where
  "sample_capabilities = empty_capabilities\<lparr>cap_shapes := [sample_shape], cap_uri_schemes := [''gs''],
     cap_checkpoint_schemes := [''gs''], cap_docker_image := True\<rparr>"

definition sample_adapter :: "string \<Rightarrow> rat \<Rightarrow> adapter" where
  "sample_adapter name price = \<lparr>ad_name = name, ad_auth = None,
     ad_capabilities = (sample_capabilities, None),
     ad_validate = (\<lambda>_. \<lparr>sup_supported = True, sup_reasons = []\<rparr>),
     ad_estimate = (\<lambda>_. Inr \<lparr>est_hourly_usd = price, est_currency = ''USD''\<rparr>),
     ad_submit = (\<lambda>rq. Started ''job-1'' (\<lambda>_. Done \<lparr>sr_job_ref = ''job-1'', sr_exit_code = 0, sr_exit_reason = []\<rparr> None)),
     ad_status = (\<lambda>_. Inr \<lparr>js_state = Some AttemptRunning, js_resource_state = ResNone\<rparr>),
     ad_cancel = (\<lambda>_. None)\<rparr>"

definition sample_registry :: registry where
  "sample_registry = registry_of [sample_adapter ''lambda'' 2, sample_adapter ''gcp'' 1]"

definition sample_job :: job_spec where
  "sample_job = \<lparr>job_name = ''demo'', job_script = [], job_image = ''img'', job_command = [], job_args = [],
     job_env = [], job_data = [\<lparr>di_name = ''train'', di_source = ''gs://b/train'', di_mount = ''/data'', di_mode = ModeUri\<rparr>],
     job_work_dir = []\<rparr>"

definition sample_options :: "string \<Rightarrow> string \<Rightarrow> routing_options" where
  "sample_options mode objective = \<lparr>ro_mode = mode, ro_objective = objective, ro_exclude = [], ro_budget = 5,
     ro_sizing = \<lparr>sz_required_vram = 16, sz_parameters_b = 0, sz_artifact_gb = 0, sz_batch_size = 0,
       sz_grad_accum = 0, sz_precision = [], sz_optimizer = [], sz_expected_steps = 100\<rparr>,
     ro_hardware = \<lparr>hw_max_gpus = 2, hw_families = [''L4''], hw_min_vram = 0, hw_regions = [], hw_allow_spot = False,
       hw_require_on_demand = True\<rparr>,
     ro_manual = \<lparr>mh_provider = ''lambda'', mh_shape_id = ''l4x1'', mh_machine_type = [], mh_region = []\<rparr>,
     ro_resume = Some \<lparr>ck_uri = ''gs://b/ckpt/1'', ck_step = 1\<rparr>\<rparr>"

definition sample_decision :: "string \<Rightarrow> string \<Rightarrow> routing_decision" where
  "sample_decision mode objective = fst (Select sample_registry sample_job (sample_options mode objective))"

lemma sample_plain: "Select sample_registry sample_job (sample_options [] []) = (sample_decision [] [], None)"
  by code_simp

lemma sample_hardware: "Select sample_registry sample_job (sample_options ''full_auto'' ''fastest_within_budget'')
    = (sample_decision ''full_auto'' ''fastest_within_budget'', None)"
  by code_simp

lemma sample_manual: "Select sample_registry sample_job (sample_options ''manual'' [])
    = (sample_decision ''manual'' [], None)"
  by code_simp

lemma select_provider_eligible_witness:
  "rd_selected_provider (sample_decision [] []) \<in> set (registry_list sample_registry)
     \<and> provider_eligible sample_registry sample_job (sample_options [] []) (rd_selected_provider (sample_decision [] []))"
  by (rule select_provider_eligible [OF sample_plain])


lemma select_cheapest_witness:
  "\<exists>s :: provider_candidate. pc_provider s = rd_selected_provider (sample_decision [] []) \<and> pc_score s \<le> 2"
proof -
  let ?c = "\<lparr>pc_provider = ''lambda'', pc_score = 2, pc_caps = sample_capabilities\<rparr>"
  have mem: "?c \<in> set (eligible_of sample_registry sample_job (sample_options [] []))" by code_simp
  have "\<not> hardwareRoutingEnabled (sample_options [] [])" "routing_objective (sample_options [] []) = ''min_cost''"
    by (simp_all add: hardwareRoutingEnabled_def sample_options_def routing_objective_def)
  from select_cheapest [OF sample_plain this mem] show ?thesis by auto
qed

lemma select_manual_matches_witness:
  "rd_selected_provider (sample_decision ''manual'' []) = ''lambda''"
proof -
  have "ro_mode (sample_options ''manual'' []) = ''manual''"
    and "mh_provider (ro_manual (sample_options ''manual'' [])) = ''lambda''"
    by (simp_all add: sample_options_def)
  with select_manual_matches [OF sample_manual] show ?thesis by auto
qed

lemma select_fails_iff_witness:
  "snd (Select [] sample_job (sample_options [] [])) \<noteq> None"
proof -
  have off: "\<not> hardwareRoutingEnabled (sample_options [] [])"
    by (simp add: hardwareRoutingEnabled_def sample_options_def)
  have "registry_list [] = []" by code_simp
  then show ?thesis unfolding select_fails_iff [OF off] by simp
qed

end
