(* ===== verification/Redact.thy ===== *)
theory Redact
  imports GoUrl GoJson
begin

text \<open>
  \<open>internal/redact/redact.go\<close>: secrets taken from environment variables are replaced in every
  text that is stored or shown, and URIs lose their user information, signed query parameters and
  fragment. \<open>os.Environ()\<close> is the list of \<open>KEY=value\<close> texts. The order of the secrets is by
  decreasing length; Go leaves the order of equally long ones open, and no lemma uses it.
\<close>

definition Replacement :: string where
  "Replacement = ''[REDACTED]''"

section \<open>Keys\<close>

text \<open>The replacer that drops the separators \<open>_\<close>, \<open>-\<close>, \<open>.\<close> and the space.\<close>

definition normalize_key :: "string \<Rightarrow> string" where
  "normalize_key key = filter (\<lambda>c. c \<notin> set ''_-. '') (to_lower key)"

definition secret_markers :: "string list" where
  "secret_markers = [''password'', ''passwd'', ''secret'', ''token'', ''apikey'', ''accesskey'',
     ''privatekey'', ''credential'', ''authorization'']"

definition IsSecretKey :: "string \<Rightarrow> bool" where
  "IsSecretKey key = list_ex (\<lambda>marker. sublist marker (normalize_key key)) secret_markers"

definition IsURIKey :: "string \<Rightarrow> bool" where
  "IsURIKey key = list_ex (\<lambda>marker. sublist marker (normalize_key key)) [''uri'', ''url'', ''source'']"

definition signed_markers :: "string list" where
  "signed_markers = [''xamzsignature'', ''xamzcredential'', ''xamzsecuritytoken'', ''xgoogsignature'',
     ''xgoogcredential'', ''xgoogsecuritytoken'', ''awsaccesskeyid'', ''signature'', ''sig'']"

definition queryHasSignedURLMarkers :: "url_values \<Rightarrow> bool" where
  "queryHasSignedURLMarkers query = list_ex (\<lambda>(key, _). normalize_key key \<in> set signed_markers) query"

definition isSecretQueryKey :: "string \<Rightarrow> bool" where
  "isSecretQueryKey key =
     (if IsSecretKey key then True
      else list_ex (\<lambda>marker. normalize_key key = marker \<or> sublist marker (normalize_key key))
        [''signature'', ''sig'', ''credential'', ''securitytoken'', ''accesskeyid'', ''secret''])"

section \<open>URIs\<close>

definition sanitize_query :: "url_values \<Rightarrow> url_values" where
  "sanitize_query query =
     (let redactAll = queryHasSignedURLMarkers query in
      map (\<lambda>(key, values). if redactAll \<or> isSecretQueryKey key
             then (key, map (\<lambda>_. Replacement) values) else (key, values)) query)"

definition query_changed :: "url_values \<Rightarrow> bool" where
  "query_changed query =
     list_ex (\<lambda>(key, _). queryHasSignedURLMarkers query \<or> isSecretQueryKey key) query"

definition sanitize_url :: "url \<Rightarrow> url" where
  "sanitize_url u =
     u\<lparr>url_user := (if url_user u \<noteq> None then Some (Replacement, None) else None),
       url_raw_query := (if url_raw_query u \<noteq> [] then encode_query (sanitize_query (parse_query (url_raw_query u)))
                         else []),
       url_fragment := (if url_fragment u \<noteq> [] then Replacement else [])\<rparr>"

definition url_changed :: "url \<Rightarrow> bool" where
  "url_changed u \<longleftrightarrow> url_user u \<noteq> None
     \<or> (url_raw_query u \<noteq> [] \<and> query_changed (parse_query (url_raw_query u)))
     \<or> url_fragment u \<noteq> []"

definition SanitizeURI :: "string \<Rightarrow> string" where
  "SanitizeURI value =
     (if value = [] then value
      else case url_parse value of None \<Rightarrow> value
      | Some u \<Rightarrow> if \<not> url_changed u then value else url_string (sanitize_url u))"

text \<open>
  The pattern \<open>(?i)\b[a-z][a-z0-9+.-]*://[^\s"'<>]+\<close>: the length of its match at the head of a
  text. The run of scheme bytes cannot hold the colon, so the greedy match is the only one.
\<close>

definition word_char :: "char \<Rightarrow> bool" where
  "word_char c \<longleftrightarrow> is_alnum c \<or> c = CHR ''_''"

definition scheme_char :: "char \<Rightarrow> bool" where
  "scheme_char c \<longleftrightarrow> is_alnum c \<or> c \<in> set ''+.-''"

definition uri_stop :: "char \<Rightarrow> bool" where
  "uri_stop c \<longleftrightarrow> c \<in> set [CHR '' '', CHR 0x09, CHR 0x0A, CHR 0x0C, CHR 0x0D, CHR 0x22, CHR 0x27, CHR ''<'', CHR ''>'']"

fun match_uri :: "string \<Rightarrow> nat" where
  "match_uri [] = 0"
| "match_uri (c # cs) =
     (if is_upper c \<or> is_lower c then
        (let run = takeWhile scheme_char cs; rest = dropWhile scheme_char cs;
             body = takeWhile (\<lambda>d. \<not> uri_stop d) (drop 3 rest)
         in if prefix ''://'' rest \<and> body \<noteq> [] then 1 + length run + 3 + length body else 0)
      else 0)"

text \<open>\<open>ReplaceAllStringFunc\<close>; the flag says whether the byte before is one of a word.\<close>

function replace_uris :: "(string \<Rightarrow> string) \<Rightarrow> bool \<Rightarrow> string \<Rightarrow> string" where
  "replace_uris f after_word [] = []"
| "replace_uris f after_word (c # cs) =
     (let n = match_uri (c # cs) in
      if \<not> after_word \<and> n > 0
      then f (take n (c # cs)) @ replace_uris f (word_char (last (take n (c # cs)))) (drop n (c # cs))
      else c # replace_uris f (word_char c) cs)"
  by pat_completeness auto
termination
  by (relation "measure (\<lambda>(f, w, s). length s)") auto

definition SanitizeURIReferences :: "string \<Rightarrow> string" where
  "SanitizeURIReferences value =
     (if \<not> sublist ''://'' value then value else replace_uris SanitizeURI False value)"

section \<open>Redactors\<close>

record redactor =
  rd_values :: "string list"

definition env_secrets :: "string smap \<Rightarrow> string list" where
  "env_secrets env = map snd (filter (\<lambda>(key, value). \<not> (\<not> IsSecretKey key \<or> length value < 6)) env)"

definition environ_pairs :: "string list \<Rightarrow> string smap" where
  "environ_pairs environ = concat (map (\<lambda>pair. case cut ''='' pair of None \<Rightarrow> [] | Some kv \<Rightarrow> [kv]) environ)"

definition FromEnvironment :: "string list \<Rightarrow> string smap list \<Rightarrow> redactor" where
  "FromEnvironment environ envMaps =
     (let values = remdups (env_secrets (environ_pairs environ) @ concat (map env_secrets envMaps))
      in \<lparr>rd_values = sort_stable (\<lambda>a b. length a > length b) values\<rparr>)"

definition replace_secrets :: "string list \<Rightarrow> string \<Rightarrow> string" where
  "replace_secrets values value = foldl (\<lambda>out secret. replace_all secret Replacement out) value values"

definition redact_string :: "redactor \<Rightarrow> string \<Rightarrow> string" where
  "redact_string r value = SanitizeURIReferences (replace_secrets (rd_values r) value)"

definition redact_uri :: "redactor \<Rightarrow> string \<Rightarrow> string" where
  "redact_uri r value = redact_string r (SanitizeURI value)"

text \<open>\<open>Redactor.value\<close> and \<open>sanitizeURIValue\<close> on decoded JSON.\<close>

fun redact_value :: "redactor \<Rightarrow> string \<Rightarrow> json \<Rightarrow> json" where
  "redact_value r key (JStr s) =
     (if IsSecretKey key then JStr Replacement
      else if IsURIKey key then JStr (redact_uri r s) else JStr (redact_string r s))"
| "redact_value r key (JObj m) =
     (if IsSecretKey key then JStr Replacement else JObj (map (\<lambda>(k, v). (k, redact_value r k v)) m))"
| "redact_value r key (JArr xs) =
     (if IsSecretKey key then JStr Replacement else JArr (map (redact_value r []) xs))"
| "redact_value r key JNull = (if IsSecretKey key then JStr Replacement else JNull)"
| "redact_value r key (JBool b) = (if IsSecretKey key then JStr Replacement else JBool b)"
| "redact_value r key (JNum n) = (if IsSecretKey key then JStr Replacement else JNum n)"

fun sanitizeURIValue :: "string \<Rightarrow> json \<Rightarrow> json" where
  "sanitizeURIValue key (JStr s) =
     (if IsSecretKey key then JStr Replacement
      else if IsURIKey key then JStr (SanitizeURI s) else JStr (SanitizeURIReferences s))"
| "sanitizeURIValue key (JObj m) =
     (if IsSecretKey key then JStr Replacement else JObj (map (\<lambda>(k, v). (k, sanitizeURIValue k v)) m))"
| "sanitizeURIValue key (JArr xs) =
     (if IsSecretKey key then JStr Replacement else JArr (map (sanitizeURIValue []) xs))"
| "sanitizeURIValue key JNull = (if IsSecretKey key then JStr Replacement else JNull)"
| "sanitizeURIValue key (JBool b) = (if IsSecretKey key then JStr Replacement else JBool b)"
| "sanitizeURIValue key (JNum n) = (if IsSecretKey key then JStr Replacement else JNum n)"

definition json_object :: "json \<Rightarrow> (string \<times> json) list option" where
  "json_object j = (case j of JObj m \<Rightarrow> Some m | _ \<Rightarrow> None)"

definition SanitizeEventURIs :: "event \<Rightarrow> event" where
  "SanitizeEventURIs ev =
     ev\<lparr>ev_checkpoint_uri := SanitizeURI (ev_checkpoint_uri ev),
        ev_message := SanitizeURIReferences (ev_message ev),
        ev_fields := (case ev_fields ev of None \<Rightarrow> None
          | Some m \<Rightarrow> (case json_object (sanitizeURIValue [] (JObj m)) of Some m' \<Rightarrow> Some m' | None \<Rightarrow> Some m))\<rparr>"

definition SanitizeAttemptURIs :: "attempt \<Rightarrow> attempt" where
  "SanitizeAttemptURIs a =
     a\<lparr>at_resume_uri := SanitizeURI (at_resume_uri a),
       at_exit_reason := SanitizeURIReferences (at_exit_reason a),
       at_provider_ref := SanitizeURIReferences (at_provider_ref a)\<rparr>"

definition redact_event :: "redactor \<Rightarrow> event \<Rightarrow> event" where
  "redact_event r ev =
     ev\<lparr>ev_run_id := redact_string r (ev_run_id ev), ev_attempt_id := redact_string r (ev_attempt_id ev),
        ev_split := redact_string r (ev_split ev), ev_state := redact_string r (ev_state ev),
        ev_checkpoint_uri := redact_uri r (ev_checkpoint_uri ev),
        ev_message := redact_string r (ev_message ev),
        ev_fields := (case ev_fields ev of None \<Rightarrow> None
          | Some m \<Rightarrow> (case json_object (redact_value r [] (JObj m)) of Some m' \<Rightarrow> Some m' | None \<Rightarrow> Some m))\<rparr>"

definition redact_attempt :: "redactor \<Rightarrow> attempt \<Rightarrow> attempt" where
  "redact_attempt r a =
     a\<lparr>at_id := redact_string r (at_id a), at_run_id := redact_string r (at_run_id a),
       at_provider := redact_string r (at_provider a), at_exit_reason := redact_string r (at_exit_reason a),
       at_provider_ref := redact_string r (at_provider_ref a), at_resume_uri := redact_uri r (at_resume_uri a),
       at_currency := redact_string r (at_currency a)\<rparr>"

definition redact_run :: "redactor \<Rightarrow> run \<Rightarrow> run" where
  "redact_run r x =
     x\<lparr>run_id := redact_string r (run_id x), run_job_name := redact_string r (run_job_name x),
       run_script := redact_string r (run_script x), run_image := redact_string r (run_image x),
       run_provider := redact_string r (run_provider x), run_error := redact_string r (run_error x)\<rparr>"

definition redact_summary :: "redactor \<Rightarrow> summary \<Rightarrow> summary" where
  "redact_summary r s =
     s\<lparr>sm_run_id := redact_string r (sm_run_id s), sm_exit_reason := redact_string r (sm_exit_reason s),
       sm_attempts := map (redact_attempt r) (sm_attempts s)\<rparr>"

text \<open>
  \<open>Redactor.Line\<close>: a line that decodes to a map is redacted by keys and encoded again, any
  other as text. Encoding a decoded value does not fail.
\<close>

definition redact_line :: "redactor \<Rightarrow> string \<Rightarrow> string" where
  "redact_line r value =
     (case unmarshal_object value of None \<Rightarrow> redact_string r value
      | Some m \<Rightarrow> (case json_object (redact_value r [] (JObj m)) of None \<Rightarrow> redact_string r value
          | Some m' \<Rightarrow> json_print (JObj m')))"

section \<open>Secrets do not survive\<close>

lemma IsSecretKey_empty [simp]: "\<not> IsSecretKey []"
  by code_simp

lemma set_FromEnvironment:
  "set (rd_values (FromEnvironment environ maps)) =
     set (env_secrets (environ_pairs environ)) \<union> (\<Union>m \<in> set maps. set (env_secrets m))"
  by (auto simp: FromEnvironment_def Let_def)

lemma env_secretsD: "v \<in> set (env_secrets env) \<Longrightarrow> 6 \<le> length v"
  by (auto simp: env_secrets_def)

lemma FromEnvironment_ne: "v \<in> set (rd_values (FromEnvironment environ maps)) \<Longrightarrow> v \<noteq> []"
  unfolding set_FromEnvironment by (auto dest!: env_secretsD)

text \<open>A text that holds no bracket and is not inside \<open>REDACTED\<close> cannot come from a replacement.\<close>

definition plain_secret :: "string \<Rightarrow> bool" where
  "plain_secret v \<longleftrightarrow> v \<noteq> [] \<and> CHR ''['' \<notin> set v \<and> CHR '']'' \<notin> set v \<and> \<not> sublist v ''REDACTED''"

lemma plain_shielded: "plain_secret v \<Longrightarrow> shielded v Replacement"
proof -
  assume "plain_secret v"
  moreover have "Replacement = CHR ''['' # ''REDACTED'' @ [CHR '']'']" by (simp add: Replacement_def)
  ultimately show ?thesis unfolding plain_secret_def shielded_def by blast
qed

lemma replace_secrets_no_new:
  assumes "plain_secret t" and "\<forall>v \<in> set secrets. v \<noteq> []" and "\<not> sublist t s"
  shows "\<not> sublist t (replace_secrets secrets s)"
  using assms(2,3)
proof (induction secrets arbitrary: s)
  case Nil
  then show ?case by (simp add: replace_secrets_def)
next
  case (Cons v secrets)
  then have "\<not> sublist t (replace_all v Replacement s)"
    by (intro replace_all_no_new plain_shielded assms(1)) auto
  with Cons show ?case by (simp add: replace_secrets_def)
qed

lemma replace_secrets_removes:
  assumes "plain_secret t" and "\<forall>v \<in> set secrets. v \<noteq> []" and "t \<in> set secrets"
  shows "\<not> sublist t (replace_secrets secrets s)"
  using assms(2,3)
proof (induction secrets arbitrary: s)
  case Nil
  then show ?case by simp
next
  case (Cons v secrets)
  show ?case
  proof (cases "t = v")
    case True
    have "\<not> sublist t (replace_all v Replacement s)"
      unfolding True using Cons.prems assms(1) True by (intro replace_all_removes plain_shielded) auto
    then have "\<not> sublist t (replace_secrets secrets (replace_all v Replacement s))"
      using Cons.prems by (intro replace_secrets_no_new assms(1)) auto
    then show ?thesis by (simp add: replace_secrets_def)
  next
    case False
    with Cons show ?thesis by (simp add: replace_secrets_def)
  qed
qed

lemma plain_scheme_mark: "plain_secret ''://''"
  by code_simp



section \<open>URIs lose their secrets\<close>

lemma sanitize_query_hides:
  "(k, vs) \<in> set (sanitize_query q) \<Longrightarrow> queryHasSignedURLMarkers q \<or> isSecretQueryKey k \<Longrightarrow>
     set vs \<subseteq> {Replacement}"
  by (auto simp: sanitize_query_def Let_def split: if_splits)

lemma sanitize_query_keys: "map fst (sanitize_query q) = map fst q"
  by (auto simp: sanitize_query_def Let_def comp_def case_prod_beta intro!: map_cong)

text \<open>A URI is either returned as it is, and then it has no user information, no fragment and
  no secret or signed query parameter, or it is printed from parts in which the user information
  and the fragment are replaced, and so is every value of a secret query parameter, and of all
  parameters when the query is signed.\<close>

theorem sanitize_uri_hides:
  assumes "url_parse value = Some u"
  shows "(SanitizeURI value = value \<and> url_user u = None \<and> url_fragment u = []
      \<and> (url_raw_query u \<noteq> [] \<longrightarrow> \<not> query_changed (parse_query (url_raw_query u))))
    \<or> (\<exists>q. SanitizeURI value = url_string (u\<lparr>url_user := (if url_user u = None then None else Some (Replacement, None)),
           url_raw_query := encode_query q, url_fragment := (if url_fragment u = [] then [] else Replacement)\<rparr>)
        \<and> map fst q = (if url_raw_query u = [] then [] else map fst (parse_query (url_raw_query u)))
        \<and> (\<forall>(k, vs) \<in> set q. queryHasSignedURLMarkers (parse_query (url_raw_query u)) \<or> isSecretQueryKey k
             \<longrightarrow> set vs \<subseteq> {Replacement}))"
proof (cases "value = [] \<or> \<not> url_changed u")
  case True
  have "url_parse [] = Some empty_url" by code_simp
  then have "value = [] \<Longrightarrow> \<not> url_changed u"
    using assms by (auto simp: url_changed_def empty_url_def)
  with True have unchanged: "\<not> url_changed u" by blast
  then have "SanitizeURI value = value" using assms by (simp add: SanitizeURI_def)
  with unchanged show ?thesis by (auto simp: url_changed_def)
next
  case False
  let ?q = "if url_raw_query u = [] then [] else sanitize_query (parse_query (url_raw_query u))"
  have "encode_query [] = []" by code_simp
  then have "SanitizeURI value = url_string (u\<lparr>url_user := (if url_user u = None then None else Some (Replacement, None)),
           url_raw_query := encode_query ?q, url_fragment := (if url_fragment u = [] then [] else Replacement)\<rparr>)"
    using assms False by (simp add: SanitizeURI_def sanitize_url_def)
  moreover have "map fst ?q = (if url_raw_query u = [] then [] else map fst (parse_query (url_raw_query u)))"
    by (simp add: sanitize_query_keys)
  moreover have "\<forall>(k, vs) \<in> set ?q. queryHasSignedURLMarkers (parse_query (url_raw_query u)) \<or> isSecretQueryKey k
             \<longrightarrow> set vs \<subseteq> {Replacement}"
    using sanitize_query_hides [of _ _ "parse_query (url_raw_query u)"]
    by (auto simp del: subset_singleton_iff split: if_splits)
  ultimately show ?thesis by blast
qed

section \<open>Decoded values lose their secrets\<close>

text \<open>Under a secret key, at any depth, there is nothing but the replacement.\<close>

fun secrets_hidden :: "json \<Rightarrow> bool" where
  "secrets_hidden (JObj m) = list_all (\<lambda>(k, v). (IsSecretKey k \<longrightarrow> v = JStr Replacement) \<and> secrets_hidden v) m"
| "secrets_hidden (JArr xs) = list_all secrets_hidden xs"
| "secrets_hidden _ = True"

lemma redact_value_secret: "IsSecretKey key \<Longrightarrow> redact_value r key j = JStr Replacement"
  by (cases j) auto

lemma sanitizeURIValue_secret: "IsSecretKey key \<Longrightarrow> sanitizeURIValue key j = JStr Replacement"
  by (cases j) auto

text \<open>Redacting a decoded line leaves only the replacement under every key that names a secret,
  at every depth of objects and lists.\<close>

theorem redact_value_hides: "secrets_hidden (redact_value r key j)"
proof (induction r key j rule: redact_value.induct)
  case (2 r key m)
  then show ?case by (fastforce simp: list_all_iff redact_value_secret)
next
  case (3 r key xs)
  then show ?case by (auto simp: list_all_iff)
qed simp_all

text \<open>The same holds of the fields of an event before it is appended to the run's event file.\<close>

theorem sanitize_event_hides: "secrets_hidden (sanitizeURIValue key j)"
proof (induction key j rule: sanitizeURIValue.induct)
  case (2 key m)
  then show ?case by (fastforce simp: list_all_iff sanitizeURIValue_secret)
next
  case (3 key xs)
  then show ?case by (auto simp: list_all_iff)
qed simp_all

lemma redact_fields:
  "(case json_object (redact_value r [] (JObj m)) of Some m' \<Rightarrow> Some m' | None \<Rightarrow> Some m)
     = Some (map (\<lambda>(k, v). (k, redact_value r k v)) m)"
  by (simp add: json_object_def)

section \<open>A limit of the redaction\<close>

text \<open>The secrets are replaced before URIs are sanitised, and a sanitised URI is printed anew
  with its query encoded in the standard form: a secret that was spelled with another escape
  appears in the result although it did not occur in the text. Here the value \<open>ab+cdef\<close> of a
  token is spelled \<open>ab%20cdef\<close>.\<close>

theorem redaction_can_reveal:
  "\<exists>environ text v. v \<in> set (rd_values (FromEnvironment environ [])) \<and> \<not> sublist v text
     \<and> sublist v (redact_string (FromEnvironment environ []) text)"
proof (intro exI conjI)
  show "''ab+cdef'' \<in> set (rd_values (FromEnvironment [''API_TOKEN=ab+cdef''] []))" by code_simp
  show "\<not> sublist ''ab+cdef'' ''https://u@h/?note=ab%20cdef''" by code_simp
  show "sublist ''ab+cdef'' (redact_string (FromEnvironment [''API_TOKEN=ab+cdef''] []) ''https://u@h/?note=ab%20cdef'')"
    by code_simp
qed

text \<open>The line \<open>null\<close> decodes into a map without an error, so it is rewritten to an empty object
  although it holds nothing to redact.\<close>

theorem redact_line_null: "redact_line r ''null'' = ''{}''"
proof -
  have "unmarshal_object ''null'' = Some []" by code_simp
  moreover have "json_print (JObj []) = ''{}''" by simp
  ultimately show ?thesis by (simp add: redact_line_def json_object_def)
qed

lemma sanitize_uri_hides_witness:
  "\<exists>u q. url_parse ''https://u:p@h/x?token=abc#f'' = Some u
     \<and> SanitizeURI ''https://u:p@h/x?token=abc#f'' = url_string (u\<lparr>url_user := Some (Replacement, None),
         url_raw_query := encode_query q, url_fragment := (if url_fragment u = [] then [] else Replacement)\<rparr>)
     \<and> (\<forall>(k, vs) \<in> set q. isSecretQueryKey k \<longrightarrow> set vs \<subseteq> {Replacement})"
proof -
  have "map_option url_user (url_parse ''https://u:p@h/x?token=abc#f'') = Some (Some (''u'', Some ''p''))"
    by code_simp
  then obtain u where u: "url_parse ''https://u:p@h/x?token=abc#f'' = Some u" "url_user u \<noteq> None"
    by auto
  from sanitize_uri_hides [OF u(1)] u(2) obtain q where
    "SanitizeURI ''https://u:p@h/x?token=abc#f'' = url_string (u\<lparr>url_user := Some (Replacement, None),
         url_raw_query := encode_query q, url_fragment := (if url_fragment u = [] then [] else Replacement)\<rparr>)"
    "\<forall>(k, vs) \<in> set q. queryHasSignedURLMarkers (parse_query (url_raw_query u)) \<or> isSecretQueryKey k
             \<longrightarrow> set vs \<subseteq> {Replacement}"
    by auto
  with u(1) show ?thesis by blast
qed

end
