(* ===== verification/Events.thy ===== *)
theory Events
  imports Redact
begin

text \<open>
  \<open>internal/event/ingestor.go\<close> and \<open>internal/checkpoint/resolver.go\<close>: a line of a training job
  becomes an event, events are appended to the run's \<open>events.jsonl\<close>, and the latest checkpoint of
  the file is where the next attempt resumes. A file is the list of its lines; times are in UTC.
\<close>

section \<open>Reading a line of output\<close>

record parsed_line =
  pl_event :: event
  pl_structured :: bool

definition stringValue :: "(string \<times> json) list \<Rightarrow> string \<Rightarrow> string \<Rightarrow> string" where
  "stringValue raw key fallback = (case map_of raw key of
      Some (JStr s) \<Rightarrow> if s = [] then fallback else s | _ \<Rightarrow> fallback)"

definition parseTime :: "(string \<times> json) list \<Rightarrow> gotime \<Rightarrow> gotime" where
  "parseTime raw fallback = (case map_of raw ''ts'' of
      Some (JStr s) \<Rightarrow>
        if s = [] then fallback else (case parse_time s of Some t \<Rightarrow> t | None \<Rightarrow> fallback)
    | _ \<Rightarrow> fallback)"

text \<open>\<open>int64(f)\<close> truncates; a number outside the range gives the least integer, as on amd64.\<close>

definition int64_of :: "rat \<Rightarrow> int" where
  "int64_of r =
     (let i = (if r < 0 then - \<lfloor>- r\<rfloor> else \<lfloor>r\<rfloor>)
      in if - (2 ^ 63) \<le> i \<and> i < 2 ^ 63 then i else - (2 ^ 63))"

definition intPointer :: "(string \<times> json) list \<Rightarrow> string \<Rightarrow> int option" where
  "intPointer raw key = (case map_of raw key of Some (JNum r) \<Rightarrow> Some (int64_of r) | _ \<Rightarrow> None)"

definition number_fields :: "(string \<times> json) list \<Rightarrow> rat smap" where
  "number_fields m = List.map_filter (\<lambda>(k, v). case v of JNum r \<Rightarrow> Some (k, r) | _ \<Rightarrow> None) m"

definition metrics :: "(string \<times> json) list \<Rightarrow> rat smap" where
  "metrics raw = (case map_of raw ''metrics'' of Some (JObj m) \<Rightarrow> number_fields m | _ \<Rightarrow> [])"

definition event_type_of :: "string \<Rightarrow> event_type" where
  "event_type_of s = (if s = ''metric'' then EventMetric else if s = ''checkpoint'' then EventCheckpoint
     else if s = ''status'' then EventStatus else if s = ''log'' then EventLog else EventOther s)"

fun event_type_string :: "event_type \<Rightarrow> string" where
  "event_type_string EventMetric = ''metric''"
| "event_type_string EventCheckpoint = ''checkpoint''"
| "event_type_string EventStatus = ''status''"
| "event_type_string EventLog = ''log''"
| "event_type_string (EventOther s) = s"

definition log_event :: "string \<Rightarrow> string \<Rightarrow> string \<Rightarrow> gotime \<Rightarrow> event" where
  "log_event line runID attemptID now = \<lparr>ev_type = EventLog, ev_run_id = runID, ev_attempt_id = attemptID,
     ev_timestamp = now, ev_step = None, ev_epoch = None, ev_split = [], ev_state = [],
     ev_checkpoint_uri = [], ev_message = line, ev_metrics = [], ev_fields = None\<rparr>"

definition ParseLine :: "string \<Rightarrow> string \<Rightarrow> string \<Rightarrow> gotime \<Rightarrow> parsed_line" where
  "ParseLine line runID attemptID now =
     (case unmarshal_object line of
        None \<Rightarrow> \<lparr>pl_event = log_event line runID attemptID now, pl_structured = False\<rparr>
      | Some raw \<Rightarrow>
          let typeValue = (case map_of raw ''type'' of Some (JStr s) \<Rightarrow> s | _ \<Rightarrow> []);
              t = event_type_of typeValue
          in if t \<in> set [EventMetric, EventCheckpoint, EventStatus]
             then \<lparr>pl_event = \<lparr>ev_type = t, ev_run_id = stringValue raw ''run_id'' runID,
                     ev_attempt_id = stringValue raw ''attempt_id'' attemptID,
                     ev_timestamp = parseTime raw now,
                     ev_step = intPointer raw ''step'', ev_epoch = intPointer raw ''epoch'',
                     ev_split = stringValue raw ''split'' [], ev_state = stringValue raw ''state'' [],
                     ev_checkpoint_uri = stringValue raw ''checkpoint_uri'' [], ev_message = [],
                     ev_metrics = metrics raw, ev_fields = Some raw\<rparr>,
                   pl_structured = True\<rparr>
             else \<lparr>pl_event = log_event line runID attemptID now, pl_structured = False\<rparr>)"

section \<open>The event file\<close>

definition opt_field :: "string \<Rightarrow> json option \<Rightarrow> (string \<times> json) list" where
  "opt_field k v = (case v of None \<Rightarrow> [] | Some j \<Rightarrow> [(k, j)])"

definition omit_empty :: "string \<Rightarrow> json option" where
  "omit_empty s = (if s = [] then None else Some (JStr s))"

text \<open>\<open>json.Marshal\<close> of an event by the tags of its fields.\<close>

definition event_object :: "event \<Rightarrow> (string \<times> json) list" where
  "event_object ev =
     opt_field ''type'' (Some (JStr (event_type_string (ev_type ev))))
     @ opt_field ''run_id'' (omit_empty (ev_run_id ev))
     @ opt_field ''attempt_id'' (omit_empty (ev_attempt_id ev))
     @ opt_field ''ts'' (Some (JStr (rfc3339_nano (ev_timestamp ev))))
     @ opt_field ''step'' (map_option (\<lambda>i. JNum (of_int i)) (ev_step ev))
     @ opt_field ''epoch'' (map_option (\<lambda>i. JNum (of_int i)) (ev_epoch ev))
     @ opt_field ''split'' (omit_empty (ev_split ev))
     @ opt_field ''state'' (omit_empty (ev_state ev))
     @ opt_field ''checkpoint_uri'' (omit_empty (ev_checkpoint_uri ev))
     @ opt_field ''message'' (omit_empty (ev_message ev))
     @ opt_field ''metrics'' (if ev_metrics ev = [] then None else Some (JObj (map (\<lambda>(k, r). (k, JNum r)) (ev_metrics ev))))
     @ opt_field ''fields'' (case ev_fields ev of None \<Rightarrow> None | Some [] \<Rightarrow> None | Some m \<Rightarrow> Some (JObj m))"

text \<open>\<open>json.Unmarshal\<close> into an event: a field of another type is an error, \<open>null\<close> leaves it.\<close>

definition dec_string :: "(string \<times> json) list \<Rightarrow> string \<Rightarrow> string option" where
  "dec_string m k = (case map_of m k of None \<Rightarrow> Some [] | Some JNull \<Rightarrow> Some [] | Some (JStr s) \<Rightarrow> Some s | _ \<Rightarrow> None)"

definition dec_int :: "(string \<times> json) list \<Rightarrow> string \<Rightarrow> int option option" where
  "dec_int m k = (case map_of m k of None \<Rightarrow> Some None | Some JNull \<Rightarrow> Some None
     | Some (JNum r) \<Rightarrow>
         if r = of_int \<lfloor>r\<rfloor> \<and> - (2 ^ 63) \<le> \<lfloor>r\<rfloor> \<and> \<lfloor>r\<rfloor> < 2 ^ 63 then Some (Some \<lfloor>r\<rfloor>) else None
     | _ \<Rightarrow> None)"

definition dec_time :: "(string \<times> json) list \<Rightarrow> gotime option" where
  "dec_time m = (case map_of m ''ts'' of None \<Rightarrow> Some zero_time | Some JNull \<Rightarrow> Some zero_time
     | Some (JStr s) \<Rightarrow> parse_time s | _ \<Rightarrow> None)"

fun dec_numbers :: "(string \<times> json) list \<Rightarrow> rat smap option" where
  "dec_numbers [] = Some []"
| "dec_numbers ((k, v) # m) =
     (case (v, dec_numbers m) of
        (JNum r, Some ns) \<Rightarrow> Some ((k, r) # ns)
      | (JNull, Some ns) \<Rightarrow> Some ((k, 0) # ns)
      | _ \<Rightarrow> None)"

definition dec_metrics :: "(string \<times> json) list \<Rightarrow> rat smap option" where
  "dec_metrics m = (case map_of m ''metrics'' of None \<Rightarrow> Some [] | Some JNull \<Rightarrow> Some []
     | Some (JObj ns) \<Rightarrow> dec_numbers ns | _ \<Rightarrow> None)"

definition dec_fields :: "(string \<times> json) list \<Rightarrow> (string \<times> json) list option option" where
  "dec_fields m = (case map_of m ''fields'' of None \<Rightarrow> Some None | Some JNull \<Rightarrow> Some None
     | Some (JObj fs) \<Rightarrow> Some (Some fs) | _ \<Rightarrow> None)"

definition event_of_object :: "(string \<times> json) list \<Rightarrow> event option" where
  "event_of_object m =
     (case (dec_string m ''type'', dec_string m ''run_id'', dec_string m ''attempt_id'', dec_time m) of
        (Some ty, Some run, Some att, Some ts) \<Rightarrow>
          (case (dec_int m ''step'', dec_int m ''epoch'', dec_string m ''split'', dec_string m ''state'') of
             (Some step, Some epoch, Some split, Some st) \<Rightarrow>
               (case (dec_string m ''checkpoint_uri'', dec_string m ''message'', dec_metrics m, dec_fields m) of
                  (Some uri, Some msg, Some ms, Some fs) \<Rightarrow>
                    Some \<lparr>ev_type = event_type_of ty, ev_run_id = run, ev_attempt_id = att, ev_timestamp = ts,
                      ev_step = step, ev_epoch = epoch, ev_split = split, ev_state = st,
                      ev_checkpoint_uri = uri, ev_message = msg, ev_metrics = ms, ev_fields = fs\<rparr>
                | _ \<Rightarrow> None)
           | _ \<Rightarrow> None)
      | _ \<Rightarrow> None)"

definition event_line :: "event \<Rightarrow> string" where
  "event_line ev = json_print (JObj (event_object ev))"

definition event_of_line :: "string \<Rightarrow> event option" where
  "event_of_line line = (case unmarshal_object line of None \<Rightarrow> None | Some m \<Rightarrow> event_of_object m)"

definition WriteJSONL :: "event \<Rightarrow> string list \<Rightarrow> string list" where
  "WriteJSONL ev file = file @ [event_line (SanitizeEventURIs ev)]"

text \<open>Lines that do not decode are skipped. A missing file is the error of \<open>os.Open\<close>.\<close>

definition ReadJSONL :: "string list option \<Rightarrow> gerror + event list" where
  "ReadJSONL file = (case file of
      None \<Rightarrow> Inl (ErrText ''open events.jsonl: no such file or directory'')
    | Some ls \<Rightarrow> Inr (List.map_filter event_of_line ls))"

section \<open>The latest checkpoint\<close>

text \<open>\<open>step := int64(0); if ev.Step != nil { step = *ev.Step }\<close>\<close>

definition step_of :: "event \<Rightarrow> int" where
  "step_of ev = (case ev_step ev of None \<Rightarrow> 0 | Some i \<Rightarrow> i)"

definition latest_step :: "checkpoint_ref option \<Rightarrow> event \<Rightarrow> checkpoint_ref option" where
  "latest_step latest ev =
     (if ev_type ev \<noteq> EventCheckpoint \<or> ev_checkpoint_uri ev = [] then latest
      else if (case latest of None \<Rightarrow> True | Some l \<Rightarrow> step_of ev \<ge> ck_step l)
      then Some \<lparr>ck_uri = SanitizeURI (ev_checkpoint_uri ev), ck_step = step_of ev\<rparr> else latest)"

definition latest_checkpoint :: "event list \<Rightarrow> checkpoint_ref option" where
  "latest_checkpoint events = foldl latest_step None events"

definition Latest :: "string list option \<Rightarrow> gerror + checkpoint_ref option" where
  "Latest file = (case ReadJSONL file of Inl e \<Rightarrow> Inl e | Inr events \<Rightarrow> Inr (latest_checkpoint events))"

section \<open>Writing and reading an event\<close>

lemma map_of_opt [simp]: "map_of (opt_field k v) k' = (if k = k' then v else None)"
  by (simp add: opt_field_def split: option.split)

lemma omit_empty_cases: "(case omit_empty s of None \<Rightarrow> Some [] | Some JNull \<Rightarrow> Some [] | Some (JStr t) \<Rightarrow> Some t | _ \<Rightarrow> None) = Some s"
  by (simp add: omit_empty_def)

lemma dec_numbers_map: "dec_numbers (map (\<lambda>(k, r). (k, JNum r)) ns) = Some ns"
  by (induction ns) auto

text \<open>What an event needs to be written without loss: a valid time, steps of 64 bits, a type that
  is not the text of another one, and no empty object of fields, which is left out.\<close>

definition event_writable :: "event \<Rightarrow> bool" where
  "event_writable ev \<longleftrightarrow> valid_time (ev_timestamp ev)
     \<and> (\<forall>i \<in> set_option (ev_step ev). - (2 ^ 63) \<le> i \<and> i < 2 ^ 63)
     \<and> (\<forall>i \<in> set_option (ev_epoch ev). - (2 ^ 63) \<le> i \<and> i < 2 ^ 63)
     \<and> event_type_of (event_type_string (ev_type ev)) = ev_type ev \<and> ev_fields ev \<noteq> Some []"

lemma dec_int_written:
  "map_of m k = map_option (\<lambda>i. JNum (of_int i)) v \<Longrightarrow> (\<forall>i \<in> set_option v. - (2 ^ 63) \<le> i \<and> i < 2 ^ 63) \<Longrightarrow>
     dec_int m k = Some v"
  by (cases v) (auto simp: dec_int_def)

lemma dec_string_written: "map_of m k = omit_empty s \<Longrightarrow> dec_string m k = Some s"
  by (simp add: dec_string_def omit_empty_cases)

lemma event_object_fields:
  "map_of (event_object ev) ''type'' = Some (JStr (event_type_string (ev_type ev)))"
  "map_of (event_object ev) ''run_id'' = omit_empty (ev_run_id ev)"
  "map_of (event_object ev) ''attempt_id'' = omit_empty (ev_attempt_id ev)"
  "map_of (event_object ev) ''ts'' = Some (JStr (rfc3339_nano (ev_timestamp ev)))"
  "map_of (event_object ev) ''step'' = map_option (\<lambda>i. JNum (of_int i)) (ev_step ev)"
  "map_of (event_object ev) ''epoch'' = map_option (\<lambda>i. JNum (of_int i)) (ev_epoch ev)"
  "map_of (event_object ev) ''split'' = omit_empty (ev_split ev)"
  "map_of (event_object ev) ''state'' = omit_empty (ev_state ev)"
  "map_of (event_object ev) ''checkpoint_uri'' = omit_empty (ev_checkpoint_uri ev)"
  "map_of (event_object ev) ''message'' = omit_empty (ev_message ev)"
  "map_of (event_object ev) ''metrics'' =
     (if ev_metrics ev = [] then None else Some (JObj (map (\<lambda>(k, r). (k, JNum r)) (ev_metrics ev))))"
  "map_of (event_object ev) ''fields'' = (case ev_fields ev of None \<Rightarrow> None | Some [] \<Rightarrow> None | Some m \<Rightarrow> Some (JObj m))"
  by (simp_all add: event_object_def map_add_def split: option.split)

text \<open>Reading back the object that an event is written as gives the same event.\<close>

theorem event_roundtrip:
  assumes "event_writable ev"
  shows "event_of_object (event_object ev) = Some ev"
proof -
  let ?m = "event_object ev"
  note w = assms [unfolded event_writable_def]
  have "dec_string ?m ''type'' = Some (event_type_string (ev_type ev))"
    by (simp add: dec_string_def event_object_fields)
  moreover have "dec_string ?m ''run_id'' = Some (ev_run_id ev)" "dec_string ?m ''attempt_id'' = Some (ev_attempt_id ev)"
    "dec_string ?m ''split'' = Some (ev_split ev)" "dec_string ?m ''state'' = Some (ev_state ev)"
    "dec_string ?m ''checkpoint_uri'' = Some (ev_checkpoint_uri ev)" "dec_string ?m ''message'' = Some (ev_message ev)"
    by (simp_all only: event_object_fields dec_string_written)
  moreover have "dec_time ?m = Some (ev_timestamp ev)"
    using w by (simp add: dec_time_def event_object_fields parse_rfc3339_nano)
  moreover have "dec_int ?m ''step'' = Some (ev_step ev)" "dec_int ?m ''epoch'' = Some (ev_epoch ev)"
    by (rule dec_int_written; use w in \<open>simp add: event_object_fields\<close>)+
  moreover have "dec_metrics ?m = Some (ev_metrics ev)"
    by (simp add: dec_metrics_def event_object_fields dec_numbers_map)
  moreover have "dec_fields ?m = Some (ev_fields ev)"
    using w by (simp add: dec_fields_def event_object_fields split: option.splits list.splits)
  ultimately show ?thesis
    using w by (simp add: event_of_object_def)
qed

definition sample_checkpoint :: event where
  "sample_checkpoint = \<lparr>ev_type = EventCheckpoint, ev_run_id = ''r_1'', ev_attempt_id = ''a_1'',
     ev_timestamp = sample_time, ev_step = Some 100, ev_epoch = None, ev_split = [], ev_state = [],
     ev_checkpoint_uri = ''gs://b/ckpt/100'', ev_message = [], ev_metrics = [(''loss'', 1 / 2)],
     ev_fields = Some [(''type'', JStr ''checkpoint'')]\<rparr>"

lemma event_roundtrip_witness: "event_of_object (event_object sample_checkpoint) = Some sample_checkpoint"
  by (rule event_roundtrip)
     (simp add: event_writable_def event_type_of_def sample_checkpoint_def sample_time_def valid_time_def days_in_month_def)

text \<open>A line that is not a metric, checkpoint or status object is kept word for word as the
  message of a log event of the given run and attempt; any other line becomes an event of its
  type whose fields are the decoded object.\<close>

theorem parse_line_cases:
  "(\<not> pl_structured (ParseLine line runID attemptID now)
      \<and> pl_event (ParseLine line runID attemptID now) = log_event line runID attemptID now)
   \<or> (pl_structured (ParseLine line runID attemptID now)
      \<and> ev_type (pl_event (ParseLine line runID attemptID now)) \<in> {EventMetric, EventCheckpoint, EventStatus}
      \<and> ev_fields (pl_event (ParseLine line runID attemptID now)) = unmarshal_object line
      \<and> (runID \<noteq> [] \<longrightarrow> ev_run_id (pl_event (ParseLine line runID attemptID now)) \<noteq> [])
      \<and> (attemptID \<noteq> [] \<longrightarrow> ev_attempt_id (pl_event (ParseLine line runID attemptID now)) \<noteq> []))"
proof (cases "unmarshal_object line")
  case None
  then show ?thesis by (simp add: ParseLine_def)
next
  case (Some raw)
  have ne: "fallback \<noteq> [] \<Longrightarrow> stringValue raw key fallback \<noteq> []" for key fallback
    by (simp add: stringValue_def split: option.split json.split)
  define t where "t = event_type_of (case map_of raw ''type'' of Some (JStr s) \<Rightarrow> s | _ \<Rightarrow> [])"
  show ?thesis
  proof (cases "t \<in> set [EventMetric, EventCheckpoint, EventStatus]")
    case True
    with Some ne show ?thesis by (simp add: ParseLine_def Let_def flip: t_def)
  next
    case False
    with Some show ?thesis by (simp add: ParseLine_def Let_def flip: t_def)
  qed
qed

lemma parse_line_cases_witness:
  "pl_structured (ParseLine ''{}'' ''r_1'' ''a_1'' sample_time) \<or>
     pl_event (ParseLine ''{}'' ''r_1'' ''a_1'' sample_time) = log_event ''{}'' ''r_1'' ''a_1'' sample_time"
  using parse_line_cases [of "''{}''" "''r_1''" "''a_1''" sample_time] by blast

section \<open>Which checkpoint is the latest\<close>

definition resumable :: "event \<Rightarrow> bool" where
  "resumable ev \<longleftrightarrow> ev_type ev = EventCheckpoint \<and> ev_checkpoint_uri ev \<noteq> []"

definition ref_of :: "event \<Rightarrow> checkpoint_ref" where
  "ref_of ev = \<lparr>ck_uri = SanitizeURI (ev_checkpoint_uri ev), ck_step = step_of ev\<rparr>"

lemma latest_step_eq:
  "latest_step latest ev = (if resumable ev \<and> (case latest of None \<Rightarrow> True | Some l \<Rightarrow> step_of ev \<ge> ck_step l)
     then Some (ref_of ev) else latest)"
  by (auto simp: latest_step_def resumable_def ref_of_def)

lemma latest_snoc: "latest_checkpoint (evs @ [ev]) = latest_step (latest_checkpoint evs) ev"
  by (simp add: latest_checkpoint_def)

text \<open>The last of the resumable events with the greatest step.\<close>

definition is_latest :: "event list \<Rightarrow> checkpoint_ref \<Rightarrow> bool" where
  "is_latest evs c \<longleftrightarrow> (\<exists>before ev after. evs = before @ ev # after \<and> resumable ev \<and> c = ref_of ev
     \<and> (\<forall>e \<in> set before. resumable e \<longrightarrow> step_of e \<le> step_of ev)
     \<and> (\<forall>e \<in> set after. resumable e \<longrightarrow> step_of e < step_of ev))"

lemma is_latest_new:
  "resumable x \<Longrightarrow> (\<forall>e \<in> set evs. resumable e \<longrightarrow> step_of e \<le> step_of x) \<Longrightarrow> is_latest (evs @ [x]) (ref_of x)"
  unfolding is_latest_def
  by (rule exI [of _ evs], rule exI [of _ x], rule exI [of _ "[]"]) auto

lemma is_latest_keep:
  assumes "is_latest evs c" and "resumable x \<longrightarrow> step_of x < ck_step c"
  shows "is_latest (evs @ [x]) c"
proof -
  from assms(1) obtain before ev after where "evs = before @ ev # after" "resumable ev" "c = ref_of ev"
    "\<forall>e \<in> set before. resumable e \<longrightarrow> step_of e \<le> step_of ev"
    "\<forall>e \<in> set after. resumable e \<longrightarrow> step_of e < step_of ev"
    unfolding is_latest_def by blast
  then show ?thesis
    unfolding is_latest_def using assms(2)
    by (intro exI [of _ before] exI [of _ ev] exI [of _ "after @ [x]"]) (auto simp: ref_of_def)
qed

lemma is_latest_max: "is_latest evs c \<Longrightarrow> e \<in> set evs \<Longrightarrow> resumable e \<Longrightarrow> step_of e \<le> ck_step c"
  by (fastforce simp: is_latest_def ref_of_def)

text \<open>C33. The latest checkpoint is that of the last event, among the checkpoint events with a URI,
  whose step is the greatest; its URI is sanitised; and there is none exactly when there is no
  such event.\<close>

theorem latest_checkpoint_spec:
  "case latest_checkpoint evs of None \<Rightarrow> \<forall>ev \<in> set evs. \<not> resumable ev | Some c \<Rightarrow> is_latest evs c"
proof (induction evs rule: rev_induct)
  case Nil
  then show ?case by (simp add: latest_checkpoint_def)
next
  case (snoc x evs)
  show ?case
  proof (cases "latest_checkpoint evs")
    case None
    with snoc have "\<forall>ev \<in> set evs. \<not> resumable ev" by simp
    with None is_latest_new [of x evs] show ?thesis
      by (simp add: latest_snoc latest_step_eq)
  next
    case (Some c)
    with snoc have c: "is_latest evs c" by simp
    show ?thesis
    proof (cases "resumable x \<and> step_of x \<ge> ck_step c")
      case True
      then have "\<forall>e \<in> set evs. resumable e \<longrightarrow> step_of e \<le> step_of x"
        using is_latest_max [OF c] by force
      with True Some is_latest_new [of x evs] show ?thesis
        by (simp add: latest_snoc latest_step_eq)
    next
      case False
      then have "is_latest (evs @ [x]) c" by (intro is_latest_keep [OF c]) auto
      with False Some show ?thesis by (auto simp: latest_snoc latest_step_eq)
    qed
  qed
qed

lemma latest_checkpoint_spec_witness:
  "latest_checkpoint [sample_checkpoint] \<noteq> None"
  using latest_checkpoint_spec [of "[sample_checkpoint]"]
  by (cases "latest_checkpoint [sample_checkpoint]") (simp_all add: resumable_def sample_checkpoint_def)

end
