(* ===== verification/Summary.thy ===== *)
theory Summary
  imports Events
begin

text \<open>
  \<open>internal/summary/summary.go\<close>: the summary of a run from its row, its attempts, its events and
  its routing decision. Within one event the order of the metrics cannot be seen in the result,
  as each name occurs once.
\<close>

definition lowerIsBetter :: "string \<Rightarrow> bool" where
  "lowerIsBetter name = list_ex (\<lambda>marker. sublist marker (to_lower name))
     [''loss'', ''error'', ''err'', ''perplexity'', ''ppl'', ''latency'', ''duration'']"

definition isBetterMetricValue :: "string \<Rightarrow> rat \<Rightarrow> rat smap \<Rightarrow> bool" where
  "isBetterMetricValue name candidate best = (case map_of best name of
      None \<Rightarrow> True
    | Some current \<Rightarrow> if lowerIsBetter name then candidate < current else candidate > current)"

record metric_state =
  ms_best :: "rat smap"
  ms_final :: "rat smap"
  ms_best_step :: "int option"
  ms_checkpoints :: nat

definition fold_metric :: "event \<Rightarrow> string \<times> rat \<Rightarrow> metric_state \<Rightarrow> metric_state" where
  "fold_metric ev kv s = (case kv of (k, v) \<Rightarrow>
     let s = s\<lparr>ms_final := AList.update k v (ms_final s)\<rparr> in
     if isBetterMetricValue k v (ms_best s)
     then s\<lparr>ms_best := AList.update k v (ms_best s),
            ms_best_step := (case ev_step ev of None \<Rightarrow> ms_best_step s | Some i \<Rightarrow> Some i)\<rparr>
     else s)"

definition fold_event :: "metric_state \<Rightarrow> event \<Rightarrow> metric_state" where
  "fold_event s ev = (case ev_type ev of
      EventMetric \<Rightarrow> fold (fold_metric ev) (ev_metrics ev) s
    | EventCheckpoint \<Rightarrow> s\<lparr>ms_checkpoints := Suc (ms_checkpoints s)\<rparr>
    | _ \<Rightarrow> s)"

definition empty_metrics :: metric_state where
  "empty_metrics = \<lparr>ms_best = [], ms_final = [], ms_best_step = None, ms_checkpoints = 0\<rparr>"

definition sanitizeAttempts :: "attempt list \<Rightarrow> attempt list" where
  "sanitizeAttempts attempts = map SanitizeAttemptURIs attempts"

definition Build :: "run \<Rightarrow> attempt list \<Rightarrow> event list \<Rightarrow> routing_decision option \<Rightarrow> summary" where
  "Build run attempts0 events decision =
     (let attempts = sanitizeAttempts attempts0;
          ms = foldl fold_event empty_metrics events;
          runtime = (if \<not> is_zero_time (run_started_at run) \<and> \<not> is_zero_time (run_ended_at run)
                     then duration_seconds (time_sub (run_ended_at run) (run_started_at run)) else 0);
          exitReason = (if run_error run = [] \<and> attempts \<noteq> [] then at_exit_reason (last attempts) else run_error run)
      in \<lparr>sm_run_id = run_id run, sm_state = run_state run,
          sm_final_metrics = ms_final ms,
          sm_best_metrics = ms_best ms,
          sm_best_step = (if ms_best ms \<noteq> [] then ms_best_step ms else None),
          sm_runtime_sec = runtime,
          sm_attempts = attempts,
          sm_checkpoint_count = ms_checkpoints ms,
          sm_resume_count = (if length attempts > 1 then length attempts - 1 else 0),
          sm_exit_reason = exitReason,
          sm_routing = decision\<rparr>)"

section \<open>Each metric on its own\<close>

text \<open>The values that a name took, in the order of the events.\<close>

definition metric_values :: "string \<Rightarrow> event list \<Rightarrow> rat list" where
  "metric_values k events = concat (map
     (\<lambda>ev. if ev_type ev = EventMetric then map snd (filter (\<lambda>(n, v). n = k) (ev_metrics ev)) else []) events)"

definition better_of :: "string \<Rightarrow> rat \<Rightarrow> rat \<Rightarrow> rat" where
  "better_of k a b = (if lowerIsBetter k then min a b else max a b)"

definition metric_inv :: "string \<Rightarrow> rat list \<Rightarrow> metric_state \<Rightarrow> bool" where
  "metric_inv k vs s \<longleftrightarrow>
     map_of (ms_final s) k = (if vs = [] then None else Some (last vs)) \<and>
     (case map_of (ms_best s) k of
        None \<Rightarrow> vs = []
      | Some b \<Rightarrow> b \<in> set vs \<and> (\<forall>v \<in> set vs. better_of k b v = b))"

lemma better_of_trans: "better_of k c b = c \<Longrightarrow> better_of k b v = b \<Longrightarrow> better_of k c v = c"
  by (auto simp: better_of_def min_def max_def split: if_splits)

lemma fold_metric_inv:
  assumes "metric_inv k vs s"
  shows "metric_inv k (if n = k then vs @ [v] else vs) (fold_metric ev (n, v) s)"
proof (cases "n = k")
  case False
  with assms show ?thesis
    by (auto simp: metric_inv_def fold_metric_def Let_def update_conv')
next
  case True
  show ?thesis
  proof (cases "isBetterMetricValue k v (ms_best s)")
    case better: True
    have "\<forall>x \<in> set vs. better_of k v x = v"
      using assms better
      by (force simp: metric_inv_def isBetterMetricValue_def better_of_def split: option.splits if_splits)
    with better True show ?thesis
      by (auto simp: metric_inv_def fold_metric_def Let_def update_conv' better_of_def)
  next
    case worse: False
    then obtain b where b: "map_of (ms_best s) k = Some b" "better_of k b v = b"
      by (auto simp: isBetterMetricValue_def better_of_def split: option.splits if_splits)
    with assms True worse show ?thesis
      by (auto simp: metric_inv_def fold_metric_def Let_def update_conv')
  qed
qed

lemma fold_metrics_inv:
  "metric_inv k vs s \<Longrightarrow> metric_inv k (vs @ map snd (filter (\<lambda>(n, v). n = k) ms)) (fold (fold_metric ev) ms s)"
proof (induction ms arbitrary: vs s)
  case Nil
  then show ?case by simp
next
  case (Cons m ms)
  obtain n v where m: "m = (n, v)" by (cases m)
  have "metric_inv k (if n = k then vs @ [v] else vs) (fold_metric ev (n, v) s)"
    using Cons.prems by (rule fold_metric_inv)
  from Cons.IH [OF this] show ?case by (cases "n = k") (simp_all add: m)
qed

lemma fold_event_inv:
  "metric_inv k vs s \<Longrightarrow> metric_inv k (vs @ (if ev_type ev = EventMetric
     then map snd (filter (\<lambda>(n, v). n = k) (ev_metrics ev)) else [])) (fold_event s ev)"
proof (cases "ev_type ev = EventMetric")
  case True
  then show "metric_inv k vs s \<Longrightarrow> ?thesis" by (simp add: fold_event_def fold_metrics_inv)
next
  case False
  then show "metric_inv k vs s \<Longrightarrow> ?thesis"
    by (cases "ev_type ev") (simp_all add: fold_event_def metric_inv_def)
qed

lemma fold_events_inv:
  "metric_inv k vs s \<Longrightarrow> metric_inv k (vs @ metric_values k events) (foldl fold_event s events)"
proof (induction events arbitrary: vs s)
  case Nil
  then show ?case by (simp add: metric_values_def)
next
  case (Cons ev events)
  from Cons.IH [OF fold_event_inv [OF Cons.prems, of ev]] show ?case
    by (simp add: metric_values_def)
qed

lemma fold_metrics_checkpoints: "ms_checkpoints (fold (fold_metric ev) ms s) = ms_checkpoints s"
  by (induction ms arbitrary: s) (auto simp: fold_metric_def Let_def split: prod.split)

lemma fold_events_checkpoints:
  "ms_checkpoints (foldl fold_event s events) = ms_checkpoints s + length (filter (\<lambda>ev. ev_type ev = EventCheckpoint) events)"
  by (induction events arbitrary: s)
     (auto simp: fold_event_def fold_metrics_checkpoints split: event_type.split)

text \<open>A summary reports for every metric name the last value as final and, as best, a value that
  occurred and that no other one beats in the direction of the name; names that never occurred are
  in neither map; and it counts the checkpoint events and the attempts after the first.\<close>

theorem summary_metrics:
  "map_of (sm_final_metrics (Build run attempts events d)) k =
     (if metric_values k events = [] then None else Some (last (metric_values k events)))
   \<and> (case map_of (sm_best_metrics (Build run attempts events d)) k of
        None \<Rightarrow> metric_values k events = []
      | Some b \<Rightarrow> b \<in> set (metric_values k events) \<and> (\<forall>v \<in> set (metric_values k events). better_of k b v = b))
   \<and> sm_checkpoint_count (Build run attempts events d) = length (filter (\<lambda>ev. ev_type ev = EventCheckpoint) events)
   \<and> sm_resume_count (Build run attempts events d) = length attempts - 1"
proof -
  have "metric_inv k [] empty_metrics" by (simp add: metric_inv_def empty_metrics_def)
  from fold_events_inv [OF this, of events] show ?thesis
    by (simp add: Build_def Let_def metric_inv_def fold_events_checkpoints empty_metrics_def sanitizeAttempts_def)
qed

definition sample_metric :: "int \<Rightarrow> rat \<Rightarrow> event" where
  "sample_metric i v = sample_checkpoint\<lparr>ev_type := EventMetric, ev_step := Some i, ev_metrics := [(''loss'', v)]\<rparr>"

definition done_run :: run where
  "done_run = \<lparr>run_id = ''r_1'', run_job_name = ''demo'', run_script = ''train.py'', run_image = [],
     run_provider = ''local'', run_state = RunSucceeded, run_started_at = sample_time, run_ended_at = sample_time,
     run_exit_code = 0, run_error = []\<rparr>"

lemma summary_metrics_witness:
  "map_of (sm_final_metrics (Build done_run [] [sample_metric 1 2, sample_metric 2 3] None)) ''loss'' = Some 3"
  using summary_metrics [of done_run "[]" "[sample_metric 1 2, sample_metric 2 3]" None "''loss''"]
  by (simp add: metric_values_def sample_metric_def sample_checkpoint_def)

end
