(* ===== verification/Store.thy ===== *)
theory Store
  imports Types
begin

text \<open>
  \<open>internal/state/store.go\<close>: the SQLite database of runs, attempts, provider resources and routing
  decisions. A table is the list of its rows in the order of insertion; times are kept as their
  RFC 3339 text, as in the database, and the JSON columns as the value they decode to. Each
  statement asks \<open>st_fault\<close> at its number whether the database fails (a lock, a full disk): then
  it has no effect and returns that error. Foreign keys are declared by the schema but SQLite
  does not enforce them unless asked to, and the program does not ask.
\<close>

section \<open>Rows by key\<close>

definition tbl_find :: "('r \<Rightarrow> string) \<Rightarrow> string \<Rightarrow> 'r list \<Rightarrow> 'r option" where
  "tbl_find key k rows = List.find (\<lambda>r. key r = k) rows"

definition tbl_insert :: "('r \<Rightarrow> string) \<Rightarrow> 'r \<Rightarrow> 'r list \<Rightarrow> 'r list option" where
  "tbl_insert key r rows = (if list_ex (\<lambda>x. key x = key r) rows then None else Some (rows @ [r]))"

definition tbl_update :: "('r \<Rightarrow> string) \<Rightarrow> string \<Rightarrow> ('r \<Rightarrow> 'r) \<Rightarrow> 'r list \<Rightarrow> 'r list" where
  "tbl_update key k f rows = map (\<lambda>r. if key r = k then f r else r) rows"

text \<open>\<open>INSERT ... ON CONFLICT(id) DO UPDATE SET\<close>: \<open>merge\<close> takes the old row and the excluded one.\<close>

definition tbl_upsert :: "('r \<Rightarrow> string) \<Rightarrow> ('r \<Rightarrow> 'r \<Rightarrow> 'r) \<Rightarrow> 'r \<Rightarrow> 'r list \<Rightarrow> 'r list" where
  "tbl_upsert key merge r rows =
     (case tbl_insert key r rows of Some rows' \<Rightarrow> rows'
      | None \<Rightarrow> tbl_update key (key r) (\<lambda>old. merge old r) rows)"

text \<open>What the program relies on from a table with a primary key.\<close>

locale keyed_table =
  fixes key :: "'r \<Rightarrow> string"
    and find :: "string \<Rightarrow> 'r list \<Rightarrow> 'r option"
    and insert :: "'r \<Rightarrow> 'r list \<Rightarrow> 'r list option"
    and update :: "string \<Rightarrow> ('r \<Rightarrow> 'r) \<Rightarrow> 'r list \<Rightarrow> 'r list"
  assumes find_key: "find k rows = Some r \<Longrightarrow> key r = k"
    and insert_dup: "insert r rows = None \<longleftrightarrow> find (key r) rows \<noteq> None"
    and find_insert: "insert r rows = Some rows' \<Longrightarrow> find k rows' = (if k = key r then Some r else find k rows)"
    and find_update: "(\<And>r. key (f r) = key r) \<Longrightarrow>
      find k (update k' f rows) = (if k = k' then map_option f (find k rows) else find k rows)"
begin

lemma insert_new: "find (key r) rows = None \<Longrightarrow> \<exists>rows'. insert r rows = Some rows'"
  using insert_dup [of r rows] by (cases "insert r rows") auto

lemma find_after_insert: "insert r rows = Some rows' \<Longrightarrow> find (key r) rows' = Some r"
  by (simp add: find_insert)

lemma insert_then_update:
  "insert r rows = Some rows' \<Longrightarrow> (\<And>r. key (f r) = key r) \<Longrightarrow> find (key r) (update (key r) f rows') = Some (f r)"
  by (simp add: find_insert find_update)

lemma update_other: "(\<And>r. key (f r) = key r) \<Longrightarrow> k \<noteq> k' \<Longrightarrow> find k (update k' f rows) = find k rows"
  by (simp add: find_update)

lemma update_exists:
  "(\<And>r. key (f r) = key r) \<Longrightarrow> find k (update k' f rows) = None \<longleftrightarrow> find k rows = None"
  by (simp add: find_update)

end

locale upsert_table = keyed_table +
  fixes merge :: "'a \<Rightarrow> 'a \<Rightarrow> 'a" and upsert :: "'a \<Rightarrow> 'a list \<Rightarrow> 'a list"
  assumes find_upsert: "find k (upsert r rows) = (if k = key r
      then Some (case find k rows of None \<Rightarrow> r | Some old \<Rightarrow> merge old r) else find k rows)"
begin

lemma upsert_other: "k \<noteq> key r \<Longrightarrow> find k (upsert r rows) = find k rows"
  by (simp add: find_upsert)

lemma upsert_total: "find (key r) (upsert r rows) \<noteq> None"
  by (simp add: find_upsert)

end

lemma tbl_find_Some: "tbl_find key k rows = Some r \<Longrightarrow> key r = k \<and> r \<in> set rows"
  by (auto simp: tbl_find_def find_Some_iff)

lemma tbl_find_None: "tbl_find key k rows = None \<longleftrightarrow> (\<forall>r \<in> set rows. key r \<noteq> k)"
  by (auto simp: tbl_find_def find_None_iff)

lemma tbl_find_append:
  "tbl_find key k (xs @ ys) = (case tbl_find key k xs of Some r \<Rightarrow> Some r | None \<Rightarrow> tbl_find key k ys)"
  by (induction xs) (auto simp: tbl_find_def)

lemma tbl_find_single: "tbl_find key k [r] = (if key r = k then Some r else None)"
  by (simp add: tbl_find_def)

lemma tbl_find_update:
  "(\<And>r. key (f r) = key r) \<Longrightarrow>
     tbl_find key k (tbl_update key k' f rows) = (if k = k' then map_option f (tbl_find key k rows) else tbl_find key k rows)"
  by (induction rows) (auto simp: tbl_find_def tbl_update_def)

lemma tbl_keyed: "keyed_table key (tbl_find key) (tbl_insert key) (tbl_update key)"
proof
  show "\<And>k rows r. tbl_find key k rows = Some r \<Longrightarrow> key r = k" by (simp add: tbl_find_Some)
  show "\<And>r rows. tbl_insert key r rows = None \<longleftrightarrow> tbl_find key (key r) rows \<noteq> None"
    by (simp add: tbl_insert_def tbl_find_None list_ex_iff del: not_None_eq)
  show "\<And>r rows rows' k. tbl_insert key r rows = Some rows' \<Longrightarrow>
      tbl_find key k rows' = (if k = key r then Some r else tbl_find key k rows)"
  proof -
    fix r rows rows' k
    assume ins: "tbl_insert key r rows = Some rows'"
    then have none: "tbl_find key (key r) rows = None" and rows': "rows' = rows @ [r]"
      by (auto simp: tbl_insert_def tbl_find_None list_ex_iff split: if_splits)
    then show "tbl_find key k rows' = (if k = key r then Some r else tbl_find key k rows)"
      unfolding rows' tbl_find_append tbl_find_single by (auto split: option.split)
  qed
qed (rule tbl_find_update)

lemma tbl_upsert_find:
  assumes merge: "\<And>old r. key (merge old r) = key old"
  shows "tbl_find key k (tbl_upsert key merge r rows) = (if k = key r
      then Some (case tbl_find key k rows of None \<Rightarrow> r | Some old \<Rightarrow> merge old r) else tbl_find key k rows)"
proof (cases "tbl_insert key r rows")
  case None
  then obtain old where "tbl_find key (key r) rows = Some old"
    using keyed_table.insert_dup [OF tbl_keyed, of key r rows] by auto
  with None show ?thesis by (simp add: tbl_upsert_def tbl_find_update merge)
next
  case (Some rows')
  then have "tbl_find key (key r) rows = None"
    using keyed_table.insert_dup [OF tbl_keyed, of key r rows] by (metis option.distinct(1))
  with Some keyed_table.find_insert [OF tbl_keyed Some] show ?thesis
    by (simp add: tbl_upsert_def)
qed

section \<open>Rows\<close>

record run_row =
  rr_id :: string
  rr_job_name :: string
  rr_script :: string
  rr_image :: string
  rr_provider :: string
  rr_state :: run_state
  rr_started_at :: string
  rr_ended_at :: "string option"
  rr_exit_code :: int
  rr_error :: string

record attempt_row =
  ar_id :: string
  ar_run_id :: string
  ar_provider :: string
  ar_state :: attempt_state
  ar_started_at :: string
  ar_ended_at :: "string option"
  ar_exit_code :: int
  ar_exit_reason :: string
  ar_provider_ref :: string
  ar_resume_uri :: string
  ar_resume_step :: "int option"
  ar_hourly_usd :: "rat option"
  ar_currency :: string

record resource_row =
  sr_id :: string
  sr_run_id :: string
  sr_attempt_id :: string
  sr_provider :: string
  sr_kind :: resource_kind
  sr_external_id :: string
  sr_provider_ref :: string
  sr_region :: string
  sr_project :: string
  sr_state :: resource_state
  sr_created_by :: int
  sr_cleanup :: cleanup_policy
  sr_metadata :: "string smap"
  sr_created_at :: string
  sr_updated_at :: string
  sr_observed_at :: "string option"

record store =
  st_runs :: "run_row list"
  st_attempts :: "attempt_row list"
  st_resources :: "resource_row list"
  st_decisions :: "routing_decision list"
  st_ops :: nat
  st_fault :: "nat \<Rightarrow> gerror option"

definition mustParseTime :: "string \<Rightarrow> gotime" where
  "mustParseTime s = (case parse_time s of Some t \<Rightarrow> t | None \<Rightarrow> zero_time)"

definition optionalTimeString :: "gotime option \<Rightarrow> string option" where
  "optionalTimeString t = (case t of None \<Rightarrow> None
     | Some x \<Rightarrow> if is_zero_time x then None else Some (rfc3339_nano x))"

definition boolInt :: "bool \<Rightarrow> int" where
  "boolInt b = (if b then 1 else 0)"

text \<open>\<open>ON CONFLICT(id) DO UPDATE SET\<close> of \<open>provider_resources\<close> lists every column but \<open>created_at\<close>.\<close>

definition resource_merge :: "resource_row \<Rightarrow> resource_row \<Rightarrow> resource_row" where
  "resource_merge old new = new\<lparr>sr_id := sr_id old, sr_created_at := sr_created_at old\<rparr>"

definition decision_merge :: "routing_decision \<Rightarrow> routing_decision \<Rightarrow> routing_decision" where
  "decision_merge old new = new\<lparr>rd_run_id := rd_run_id old\<rparr>"

interpretation runs: keyed_table rr_id "tbl_find rr_id" "tbl_insert rr_id" "tbl_update rr_id"
  by (rule tbl_keyed)

interpretation attempts: keyed_table ar_id "tbl_find ar_id" "tbl_insert ar_id" "tbl_update ar_id"
  by (rule tbl_keyed)

interpretation resources: upsert_table sr_id "tbl_find sr_id" "tbl_insert sr_id" "tbl_update sr_id"
    resource_merge "tbl_upsert sr_id resource_merge"
  by (intro upsert_table.intro tbl_keyed upsert_table_axioms.intro tbl_upsert_find)
     (simp add: resource_merge_def)

interpretation decisions: upsert_table rd_run_id "tbl_find rd_run_id" "tbl_insert rd_run_id" "tbl_update rd_run_id"
    decision_merge "tbl_upsert rd_run_id decision_merge"
  by (intro upsert_table.intro tbl_keyed upsert_table_axioms.intro tbl_upsert_find)
     (simp add: decision_merge_def)

section \<open>Statements\<close>

text \<open>One statement: the oracle may fail it, otherwise it runs.\<close>

definition exec :: "(store \<Rightarrow> store \<times> gerror option) \<Rightarrow> store \<Rightarrow> store \<times> gerror option" where
  "exec stmt s =
     (let s' = s\<lparr>st_ops := Suc (st_ops s)\<rparr> in
      case st_fault s (st_ops s) of Some e \<Rightarrow> (s', Some e) | None \<Rightarrow> stmt s')"

definition query :: "(store \<Rightarrow> gerror + 'a) \<Rightarrow> store \<Rightarrow> store \<times> (gerror + 'a)" where
  "query q s =
     (let s' = s\<lparr>st_ops := Suc (st_ops s)\<rparr> in
      case st_fault s (st_ops s) of Some e \<Rightarrow> (s', Inl e) | None \<Rightarrow> (s', q s'))"

definition unique_violation :: "string \<Rightarrow> gerror" where
  "unique_violation column = ErrText (''constraint failed: UNIQUE constraint failed: '' @ column)"

definition run_row_of :: "run \<Rightarrow> run_row" where
  "run_row_of r = \<lparr>rr_id = run_id r, rr_job_name = run_job_name r, rr_script = run_script r,
     rr_image = run_image r, rr_provider = run_provider r, rr_state = run_state r,
     rr_started_at = rfc3339_nano (run_started_at r), rr_ended_at = None,
     rr_exit_code = run_exit_code r, rr_error = run_error r\<rparr>"

definition CreateRun :: "run \<Rightarrow> store \<Rightarrow> store \<times> gerror option" where
  "CreateRun r = exec (\<lambda>s. case tbl_insert rr_id (run_row_of r) (st_runs s) of
     None \<Rightarrow> (s, Some (unique_violation ''runs.id''))
   | Some rows \<Rightarrow> (s\<lparr>st_runs := rows\<rparr>, None))"

definition update_run :: "string \<Rightarrow> (run_row \<Rightarrow> run_row) \<Rightarrow> store \<Rightarrow> store \<times> gerror option" where
  "update_run k f = exec (\<lambda>s. (s\<lparr>st_runs := tbl_update rr_id k f (st_runs s)\<rparr>, None))"

definition RestartRun :: "run \<Rightarrow> store \<Rightarrow> store \<times> gerror option" where
  "RestartRun r = update_run (run_id r) (\<lambda>row. row\<lparr>rr_job_name := run_job_name r, rr_script := run_script r,
     rr_image := run_image r, rr_provider := run_provider r, rr_state := run_state r,
     rr_started_at := rfc3339_nano (run_started_at r), rr_ended_at := None, rr_exit_code := 0, rr_error := []\<rparr>)"

definition FinishRun :: "string \<Rightarrow> run_state \<Rightarrow> int \<Rightarrow> string \<Rightarrow> gotime \<Rightarrow> store \<Rightarrow> store \<times> gerror option" where
  "FinishRun runID state exitCode message endedAt = update_run runID (\<lambda>row. row\<lparr>rr_state := state,
     rr_exit_code := exitCode, rr_error := message, rr_ended_at := Some (rfc3339_nano endedAt)\<rparr>)"

definition attempt_row_of :: "attempt \<Rightarrow> attempt_row" where
  "attempt_row_of a = \<lparr>ar_id = at_id a, ar_run_id = at_run_id a, ar_provider = at_provider a,
     ar_state = at_state a, ar_started_at = rfc3339_nano (at_started_at a), ar_ended_at = None,
     ar_exit_code = at_exit_code a, ar_exit_reason = at_exit_reason a, ar_provider_ref = at_provider_ref a,
     ar_resume_uri = at_resume_uri a, ar_resume_step = at_resume_step a, ar_hourly_usd = at_hourly_usd a,
     ar_currency = at_currency a\<rparr>"

definition CreateAttempt :: "attempt \<Rightarrow> store \<Rightarrow> store \<times> gerror option" where
  "CreateAttempt a = exec (\<lambda>s. case tbl_insert ar_id (attempt_row_of a) (st_attempts s) of
     None \<Rightarrow> (s, Some (unique_violation ''attempts.id''))
   | Some rows \<Rightarrow> (s\<lparr>st_attempts := rows\<rparr>, None))"

definition update_attempt :: "string \<Rightarrow> (attempt_row \<Rightarrow> attempt_row) \<Rightarrow> store \<Rightarrow> store \<times> gerror option" where
  "update_attempt k f = exec (\<lambda>s. (s\<lparr>st_attempts := tbl_update ar_id k f (st_attempts s)\<rparr>, None))"

definition FinishAttempt ::
  "string \<Rightarrow> attempt_state \<Rightarrow> int \<Rightarrow> string \<Rightarrow> string \<Rightarrow> gotime \<Rightarrow> store \<Rightarrow> store \<times> gerror option" where
  "FinishAttempt attemptID state exitCode exitReason providerRef endedAt = update_attempt attemptID
     (\<lambda>row. row\<lparr>ar_state := state, ar_exit_code := exitCode, ar_exit_reason := exitReason,
        ar_provider_ref := providerRef, ar_ended_at := Some (rfc3339_nano endedAt)\<rparr>)"

definition UpdateAttemptProviderRef :: "string \<Rightarrow> string \<Rightarrow> store \<Rightarrow> store \<times> gerror option" where
  "UpdateAttemptProviderRef attemptID ref = update_attempt attemptID (\<lambda>row. row\<lparr>ar_provider_ref := ref\<rparr>)"

definition UpdateAttemptEstimate :: "string \<Rightarrow> cost_estimate \<Rightarrow> store \<Rightarrow> store \<times> gerror option" where
  "UpdateAttemptEstimate attemptID est = update_attempt attemptID
     (\<lambda>row. row\<lparr>ar_hourly_usd := Some (est_hourly_usd est), ar_currency := est_currency est\<rparr>)"

section \<open>Provider resources and routing decisions\<close>

text \<open>The defaults that \<open>SaveProviderResource\<close> fills in, from the clock and a fresh identifier.\<close>

definition resource_defaults :: "gotime \<Rightarrow> string \<Rightarrow> provider_resource \<Rightarrow> provider_resource" where
  "resource_defaults now new_id r =
     (let r = (if res_id r = [] then r\<lparr>res_id := new_id\<rparr> else r);
          r = (if is_zero_time (res_created_at r) then r\<lparr>res_created_at := now\<rparr> else r);
          r = (if is_zero_time (res_updated_at r) then r\<lparr>res_updated_at := now\<rparr> else r)
      in r)"

definition resource_row_of :: "provider_resource \<Rightarrow> resource_row" where
  "resource_row_of r = \<lparr>sr_id = res_id r, sr_run_id = res_run_id r, sr_attempt_id = res_attempt_id r,
     sr_provider = res_provider r, sr_kind = res_kind r, sr_external_id = res_external_id r,
     sr_provider_ref = res_provider_ref r, sr_region = res_region r, sr_project = res_project r,
     sr_state = res_state r, sr_created_by = boolInt (res_created_by_switchboard r),
     sr_cleanup = res_cleanup r, sr_metadata = res_metadata r,
     sr_created_at = rfc3339_nano (res_created_at r), sr_updated_at = rfc3339_nano (res_updated_at r),
     sr_observed_at = optionalTimeString (res_observed_at r)\<rparr>"

definition SaveProviderResource ::
  "gotime \<Rightarrow> string \<Rightarrow> provider_resource \<Rightarrow> store \<Rightarrow> store \<times> (gerror + provider_resource)" where
  "SaveProviderResource now new_id r0 s =
     (let r = resource_defaults now new_id r0;
          (s', err) = exec (\<lambda>s. (s\<lparr>st_resources := tbl_upsert sr_id resource_merge (resource_row_of r) (st_resources s)\<rparr>, None)) s
      in (s', case err of Some e \<Rightarrow> Inl e | None \<Rightarrow> Inr r))"

definition scanProviderResource :: "resource_row \<Rightarrow> provider_resource" where
  "scanProviderResource row = \<lparr>res_id = sr_id row, res_run_id = sr_run_id row,
     res_attempt_id = sr_attempt_id row, res_provider = sr_provider row, res_kind = sr_kind row,
     res_external_id = sr_external_id row, res_provider_ref = sr_provider_ref row,
     res_region = sr_region row, res_project = sr_project row, res_state = sr_state row,
     res_created_by_switchboard = (sr_created_by row \<noteq> 0), res_cleanup = sr_cleanup row,
     res_metadata = sr_metadata row, res_created_at = mustParseTime (sr_created_at row),
     res_updated_at = mustParseTime (sr_updated_at row),
     res_observed_at = (case sr_observed_at row of None \<Rightarrow> None
       | Some t \<Rightarrow> if t = [] then None else Some (mustParseTime t))\<rparr>"

record resource_filter =
  rf_run_id :: string
  rf_provider :: string

definition ProviderResources :: "resource_filter \<Rightarrow> store \<Rightarrow> store \<times> (gerror + provider_resource list)" where
  "ProviderResources flt = query (\<lambda>s. Inr (map scanProviderResource
     (sort_stable (key_less (\<lambda>row. (sr_created_at row, sr_id row)))
       (filter (\<lambda>row. (rf_run_id flt \<noteq> [] \<longrightarrow> sr_run_id row = rf_run_id flt)
           \<and> (rf_provider flt \<noteq> [] \<longrightarrow> sr_provider row = rf_provider flt)) (st_resources s)))))"

definition SaveRoutingDecision :: "routing_decision \<Rightarrow> store \<Rightarrow> store \<times> gerror option" where
  "SaveRoutingDecision d =
     exec (\<lambda>s. (s\<lparr>st_decisions := tbl_upsert rd_run_id decision_merge d (st_decisions s)\<rparr>, None))"

definition GetRoutingDecision :: "string \<Rightarrow> store \<Rightarrow> store \<times> (gerror + routing_decision)" where
  "GetRoutingDecision runID = query (\<lambda>s. case tbl_find rd_run_id runID (st_decisions s) of
     None \<Rightarrow> Inl (ErrText (''routing decision for run '' @ quote runID @ '' not found''))
   | Some d \<Rightarrow> Inr d)"

section \<open>Reading runs and attempts\<close>

definition scan_run :: "run_row \<Rightarrow> run" where
  "scan_run row = \<lparr>run_id = rr_id row, run_job_name = rr_job_name row, run_script = rr_script row,
     run_image = rr_image row, run_provider = rr_provider row, run_state = rr_state row,
     run_started_at = mustParseTime (rr_started_at row),
     run_ended_at = (case rr_ended_at row of None \<Rightarrow> zero_time | Some t \<Rightarrow> if t = [] then zero_time else mustParseTime t),
     run_exit_code = rr_exit_code row, run_error = rr_error row\<rparr>"

definition GetRun :: "string \<Rightarrow> store \<Rightarrow> store \<times> (gerror + run)" where
  "GetRun runID = query (\<lambda>s. case tbl_find rr_id runID (st_runs s) of
     None \<Rightarrow> Inl (ErrText (''run '' @ quote runID @ '' not found''))
   | Some row \<Rightarrow> Inr (scan_run row))"

definition scan_attempt :: "attempt_row \<Rightarrow> attempt" where
  "scan_attempt row = \<lparr>at_id = ar_id row, at_run_id = ar_run_id row, at_provider = ar_provider row,
     at_state = ar_state row, at_started_at = mustParseTime (ar_started_at row),
     at_ended_at = (case ar_ended_at row of None \<Rightarrow> zero_time | Some t \<Rightarrow> if t = [] then zero_time else mustParseTime t),
     at_exit_code = ar_exit_code row, at_exit_reason = ar_exit_reason row,
     at_provider_ref = ar_provider_ref row, at_resume_uri = ar_resume_uri row,
     at_resume_step = ar_resume_step row, at_hourly_usd = ar_hourly_usd row, at_currency = ar_currency row\<rparr>"

text \<open>The rows of a run in the order of the text of their start.\<close>

definition attempt_rows :: "string \<Rightarrow> store \<Rightarrow> attempt_row list" where
  "attempt_rows runID s = sort_stable (key_less ar_started_at) (filter (\<lambda>row. ar_run_id row = runID) (st_attempts s))"

definition AttemptsByRun :: "string \<Rightarrow> store \<Rightarrow> store \<times> (gerror + attempt list)" where
  "AttemptsByRun runID = query (\<lambda>s. Inr (map scan_attempt (attempt_rows runID s)))"

section \<open>What the statements leave alone\<close>

definition healthy :: "store \<Rightarrow> bool" where
  "healthy s \<longleftrightarrow> (\<forall>n. st_fault s n = None)"

definition same_tables :: "store \<Rightarrow> store \<Rightarrow> bool" where
  "same_tables s t \<longleftrightarrow> st_runs t = st_runs s \<and> st_attempts t = st_attempts s
     \<and> st_resources t = st_resources s \<and> st_decisions t = st_decisions s \<and> st_fault t = st_fault s"

lemma exec_healthy: "healthy s \<Longrightarrow> exec stmt s = stmt (s\<lparr>st_ops := Suc (st_ops s)\<rparr>)"
  by (simp add: exec_def healthy_def)

lemma query_tables: "query q s = (s', r) \<Longrightarrow> same_tables s s'"
  by (auto simp: query_def Let_def same_tables_def split: option.splits)

lemma query_healthy: "healthy s \<Longrightarrow> query q s = (s\<lparr>st_ops := Suc (st_ops s)\<rparr>, q (s\<lparr>st_ops := Suc (st_ops s)\<rparr>))"
  by (simp add: query_def healthy_def Let_def)

lemma update_run_frame [frame_simps]:
  "st_attempts (fst (update_run k f s)) = st_attempts s"
  "st_resources (fst (update_run k f s)) = st_resources s"
  "st_decisions (fst (update_run k f s)) = st_decisions s"
  "st_fault (fst (update_run k f s)) = st_fault s"
  by (simp_all add: update_run_def exec_def Let_def split: option.split)

lemma update_run_runs [store_simps]:
  "st_runs (fst (update_run k f s)) =
     (if snd (update_run k f s) = None then tbl_update rr_id k f (st_runs s) else st_runs s)"
  by (simp add: update_run_def exec_def Let_def split: option.split)

lemma update_attempt_frame [frame_simps]:
  "st_runs (fst (update_attempt k g s)) = st_runs s"
  "st_resources (fst (update_attempt k g s)) = st_resources s"
  "st_decisions (fst (update_attempt k g s)) = st_decisions s"
  "st_fault (fst (update_attempt k g s)) = st_fault s"
  by (simp_all add: update_attempt_def exec_def Let_def split: option.split)

lemma update_attempt_attempts [store_simps]:
  "st_attempts (fst (update_attempt k g s)) =
     (if snd (update_attempt k g s) = None then tbl_update ar_id k g (st_attempts s) else st_attempts s)"
  by (simp add: update_attempt_def exec_def Let_def split: option.split)

lemma create_run_frame [frame_simps]:
  "st_attempts (fst (CreateRun r s)) = st_attempts s" "st_resources (fst (CreateRun r s)) = st_resources s"
  "st_decisions (fst (CreateRun r s)) = st_decisions s" "st_fault (fst (CreateRun r s)) = st_fault s"
  by (simp_all add: CreateRun_def exec_def Let_def split: option.split)

lemma create_attempt_frame [frame_simps]:
  "st_runs (fst (CreateAttempt a s)) = st_runs s" "st_resources (fst (CreateAttempt a s)) = st_resources s"
  "st_decisions (fst (CreateAttempt a s)) = st_decisions s" "st_fault (fst (CreateAttempt a s)) = st_fault s"
  by (simp_all add: CreateAttempt_def exec_def Let_def split: option.split)

lemma create_attempt_attempts [store_simps]:
  "st_attempts (fst (CreateAttempt a s)) =
     (if snd (CreateAttempt a s) = None then st_attempts s @ [attempt_row_of a] else st_attempts s)"
  by (simp add: CreateAttempt_def exec_def Let_def tbl_insert_def split: option.split)

lemma save_resource_frame [frame_simps]:
  "st_runs (fst (SaveProviderResource now i r s)) = st_runs s"
  "st_attempts (fst (SaveProviderResource now i r s)) = st_attempts s"
  "st_decisions (fst (SaveProviderResource now i r s)) = st_decisions s"
  "st_fault (fst (SaveProviderResource now i r s)) = st_fault s"
  by (simp_all add: SaveProviderResource_def exec_def Let_def split: option.split)

lemma save_decision_frame [frame_simps]:
  "st_runs (fst (SaveRoutingDecision d s)) = st_runs s" "st_attempts (fst (SaveRoutingDecision d s)) = st_attempts s"
  "st_resources (fst (SaveRoutingDecision d s)) = st_resources s" "st_fault (fst (SaveRoutingDecision d s)) = st_fault s"
  by (simp_all add: SaveRoutingDecision_def exec_def Let_def split: option.split)

lemma query_frame [frame_simps]:
  "st_runs (fst (query q s)) = st_runs s" "st_attempts (fst (query q s)) = st_attempts s"
  "st_resources (fst (query q s)) = st_resources s" "st_decisions (fst (query q s)) = st_decisions s"
  "st_fault (fst (query q s)) = st_fault s"
  by (simp_all add: query_def Let_def split: option.split)

lemmas store_op_defs = FinishRun_def RestartRun_def FinishAttempt_def UpdateAttemptProviderRef_def
  UpdateAttemptEstimate_def GetRun_def AttemptsByRun_def GetRoutingDecision_def ProviderResources_def

lemma healthy_fault: "healthy s \<Longrightarrow> st_fault t = st_fault s \<Longrightarrow> healthy t"
  by (simp add: healthy_def)

lemma update_run_ok: "healthy s \<Longrightarrow> snd (update_run k f s) = None"
  by (simp add: update_run_def exec_healthy)

lemma update_attempt_ok: "healthy s \<Longrightarrow> snd (update_attempt k g s) = None"
  by (simp add: update_attempt_def exec_healthy)

section \<open>The invariant of the tables\<close>

text \<open>One row per primary key.\<close>

definition store_wf :: "store \<Rightarrow> bool" where
  "store_wf s \<longleftrightarrow> distinct (map rr_id (st_runs s)) \<and> distinct (map ar_id (st_attempts s))
     \<and> distinct (map sr_id (st_resources s)) \<and> distinct (map rd_run_id (st_decisions s))"

lemma tbl_insert_distinct:
  "tbl_insert key r rows = Some rows' \<Longrightarrow> distinct (map key rows) \<Longrightarrow> distinct (map key rows')"
  by (auto simp: tbl_insert_def list_ex_iff image_iff split: if_splits) metis

lemma tbl_update_keys: "(\<And>r. key (f r) = key r) \<Longrightarrow> map key (tbl_update key k f rows) = map key rows"
  by (auto simp: tbl_update_def)

lemma tbl_upsert_distinct:
  "(\<And>old r. key (merge old r) = key old) \<Longrightarrow> distinct (map key rows) \<Longrightarrow> distinct (map key (tbl_upsert key merge r rows))"
  by (auto simp: tbl_upsert_def tbl_update_keys intro: tbl_insert_distinct split: option.split)

lemma update_run_wf: "(\<And>r. rr_id (f r) = rr_id r) \<Longrightarrow> store_wf s \<Longrightarrow> store_wf (fst (update_run k f s))"
  by (simp add: store_wf_def frame_simps store_simps tbl_update_keys)

lemma update_attempt_wf: "(\<And>r. ar_id (g r) = ar_id r) \<Longrightarrow> store_wf s \<Longrightarrow> store_wf (fst (update_attempt k g s))"
  by (simp add: store_wf_def frame_simps store_simps tbl_update_keys)


definition empty_store :: store where
  "empty_store = \<lparr>st_runs = [], st_attempts = [], st_resources = [], st_decisions = [], st_ops = 0, st_fault = (\<lambda>_. None)\<rparr>"

definition sample_run :: run where
  "sample_run = \<lparr>run_id = ''r_1'', run_job_name = ''demo'', run_script = ''train.py'', run_image = [],
     run_provider = ''local'', run_state = RunRunning, run_started_at = sample_time, run_ended_at = zero_time,
     run_exit_code = 0, run_error = []\<rparr>"


section \<open>What is read back\<close>

lemma mustParse_rfc3339 [simp]: "valid_time t \<Longrightarrow> mustParseTime (rfc3339_nano t) = t"
  by (simp add: mustParseTime_def parse_rfc3339_nano)

lemma rfc3339_ne [simp]: "rfc3339_nano t \<noteq> []"
  by (simp add: rfc3339_nano_def)

lemma get_run_healthy:
  "healthy s \<Longrightarrow> snd (GetRun k s) = (case tbl_find rr_id k (st_runs s) of
     None \<Rightarrow> Inl (ErrText (''run '' @ quote k @ '' not found'')) | Some row \<Rightarrow> Inr (scan_run row))"
  by (simp add: GetRun_def query_healthy)

text \<open>A run that was created can be read back field by field, its start to the nanosecond; a
  second run of the same identifier is refused and changes nothing.\<close>

theorem create_run_roundtrip:
  assumes "healthy s" and "valid_time (run_started_at r)"
  shows "(snd (CreateRun r s) = None \<longleftrightarrow> tbl_find rr_id (run_id r) (st_runs s) = None)
    \<and> (snd (CreateRun r s) = None \<longrightarrow> snd (GetRun (run_id r) (fst (CreateRun r s))) = Inr (r\<lparr>run_ended_at := zero_time\<rparr>))
    \<and> (snd (CreateRun r s) \<noteq> None \<longrightarrow> same_tables s (fst (CreateRun r s)))"
proof -
  have key: "rr_id (run_row_of r) = run_id r" by (simp add: run_row_of_def)
  have same: "scan_run (run_row_of r) = r\<lparr>run_ended_at := zero_time\<rparr>"
    using assms(2) by (cases r) (simp add: scan_run_def run_row_of_def)
  show ?thesis
  proof (cases "tbl_insert rr_id (run_row_of r) (st_runs s)")
    case None
    then have "tbl_find rr_id (run_id r) (st_runs s) \<noteq> None"
      using runs.insert_dup [of "run_row_of r" "st_runs s"] key by simp
    with None assms(1) show ?thesis
      by (simp add: CreateRun_def exec_healthy same_tables_def)
  next
    case (Some rows)
    then have "tbl_find rr_id (run_id r) (st_runs s) = None"
      using runs.insert_dup [of "run_row_of r" "st_runs s"] key by (metis option.distinct(1))
    moreover have "CreateRun r s = (s\<lparr>st_ops := Suc (st_ops s), st_runs := rows\<rparr>, None)"
      using Some assms(1) by (simp add: CreateRun_def exec_healthy)
    moreover have "healthy (s\<lparr>st_ops := Suc (st_ops s), st_runs := rows\<rparr>)"
      using assms(1) by (simp add: healthy_def)
    ultimately show ?thesis
      using runs.find_after_insert [OF Some] key same by (simp add: get_run_healthy)
  qed
qed

lemma create_run_roundtrip_witness:
  "snd (GetRun ''r_1'' (fst (CreateRun sample_run empty_store))) = Inr sample_run"
proof -
  have "healthy empty_store" "valid_time (run_started_at sample_run)"
    by (simp_all add: healthy_def empty_store_def sample_run_def sample_time_def valid_time_def days_in_month_def)
  from create_run_roundtrip [OF this] show ?thesis
    by (simp add: sample_run_def empty_store_def tbl_find_def)
qed

text \<open>Finishing a run sets the state, exit code, message and end of that run, leaves its other
  fields and every other run, and touches no other table.\<close>

theorem finish_run_exact:
  assumes "healthy s" and "valid_time t" and "tbl_find rr_id k (st_runs s) = Some row"
  shows "snd (FinishRun k st c m t s) = None
    \<and> snd (GetRun k (fst (FinishRun k st c m t s))) =
        Inr ((scan_run row)\<lparr>run_state := st, run_exit_code := c, run_error := m, run_ended_at := t\<rparr>)
    \<and> (\<forall>k'. k' \<noteq> k \<longrightarrow> snd (GetRun k' (fst (FinishRun k st c m t s))) = snd (GetRun k' s))
    \<and> st_attempts (fst (FinishRun k st c m t s)) = st_attempts s
    \<and> st_resources (fst (FinishRun k st c m t s)) = st_resources s
    \<and> st_decisions (fst (FinishRun k st c m t s)) = st_decisions s"
proof -
  define f where "f = (\<lambda>row :: run_row. row\<lparr>rr_state := st, rr_exit_code := c, rr_error := m, rr_ended_at := Some (rfc3339_nano t)\<rparr>)"
  have f: "rr_id (f x) = rr_id x" for x :: run_row by (simp add: f_def)
  have fin: "FinishRun k st c m t = update_run k f" by (simp add: FinishRun_def f_def)
  have none: "snd (update_run k f s) = None" using assms(1) by (rule update_run_ok)
  have "healthy (fst (update_run k f s))"
    using assms(1) by (rule healthy_fault) (simp add: frame_simps)
  then have get: "snd (GetRun k' (fst (update_run k f s))) =
      (case (if k' = k then Some (f row) else tbl_find rr_id k' (st_runs s)) of
     None \<Rightarrow> Inl (ErrText (''run '' @ quote k' @ '' not found'')) | Some row \<Rightarrow> Inr (scan_run row))" for k'
    using none assms(3) by (simp add: get_run_healthy store_simps runs.find_update f)
  have "scan_run (f row) = (scan_run row)\<lparr>run_state := st, run_exit_code := c, run_error := m, run_ended_at := t\<rparr>"
    using assms(2) by (simp add: scan_run_def f_def)
  then show ?thesis
    unfolding fin using none get assms(1) by (simp add: frame_simps get_run_healthy)
qed

lemma finish_run_exact_witness:
  "snd (GetRun ''r_1'' (fst (FinishRun ''r_1'' RunSucceeded 0 [] sample_time (fst (CreateRun sample_run empty_store)))))
     = Inr (sample_run\<lparr>run_state := RunSucceeded, run_ended_at := sample_time\<rparr>)"
proof -
  have h: "healthy (fst (CreateRun sample_run empty_store))"
    by (rule healthy_fault [of empty_store]) (simp_all add: frame_simps healthy_def empty_store_def)
  have v: "valid_time sample_time"
    by (simp add: sample_time_def valid_time_def days_in_month_def)
  have f: "tbl_find rr_id ''r_1'' (st_runs (fst (CreateRun sample_run empty_store))) = Some (run_row_of sample_run)"
    by (simp add: CreateRun_def exec_def empty_store_def tbl_insert_def tbl_find_def run_row_of_def sample_run_def)
  from finish_run_exact [OF h v f] show ?thesis
    using v by (simp add: scan_run_def run_row_of_def sample_run_def)
qed

section \<open>Tracking resources\<close>

lemma resource_defaults_id: "res_id (resource_defaults now i r) = (if res_id r = [] then i else res_id r)"
  by (simp add: resource_defaults_def Let_def)

lemma save_resource_healthy:
  "healthy s \<Longrightarrow> SaveProviderResource now i r s =
     (s\<lparr>st_ops := Suc (st_ops s), st_resources := tbl_upsert sr_id resource_merge
        (resource_row_of (resource_defaults now i r)) (st_resources s)\<rparr>, Inr (resource_defaults now i r))"
  by (simp add: SaveProviderResource_def exec_healthy Let_def)

text \<open>Saving a resource again under its identifier replaces every column but the time of its
  creation, which stays that of the first save; a resource of a new identifier is added as it is;
  the rows of all other resources are unchanged.\<close>

theorem save_resource_upsert:
  assumes "healthy s"
  shows "\<exists>saved. snd (SaveProviderResource now i r s) = Inr saved
    \<and> res_id saved = (if res_id r = [] then i else res_id r)
    \<and> (\<forall>k. tbl_find sr_id k (st_resources (fst (SaveProviderResource now i r s))) =
        (if k = res_id saved
         then Some (case tbl_find sr_id k (st_resources s) of
             None \<Rightarrow> resource_row_of saved
           | Some old \<Rightarrow> (resource_row_of saved)\<lparr>sr_created_at := sr_created_at old\<rparr>)
         else tbl_find sr_id k (st_resources s)))"
proof -
  let ?r = "resource_defaults now i r"
  have key: "sr_id (resource_row_of ?r) = res_id ?r" by (simp add: resource_row_of_def)
  have "resource_merge old (resource_row_of ?r) = (resource_row_of ?r)\<lparr>sr_created_at := sr_created_at old\<rparr>"
    if "tbl_find sr_id (res_id ?r) (st_resources s) = Some old" for old
    using resources.find_key [OF that] key by (cases "resource_row_of ?r") (simp add: resource_merge_def)
  then have "\<forall>k. tbl_find sr_id k (st_resources (fst (SaveProviderResource now i r s))) =
        (if k = res_id ?r
         then Some (case tbl_find sr_id k (st_resources s) of
             None \<Rightarrow> resource_row_of ?r
           | Some old \<Rightarrow> (resource_row_of ?r)\<lparr>sr_created_at := sr_created_at old\<rparr>)
         else tbl_find sr_id k (st_resources s))"
    using assms by (auto simp: save_resource_healthy resources.find_upsert key split: option.split)
  then show ?thesis
    using assms resource_defaults_id [of now i r] by (intro exI [of _ ?r]) (simp add: save_resource_healthy)
qed

definition sample_resource :: provider_resource where
  "sample_resource = \<lparr>res_id = [], res_run_id = ''r_1'', res_attempt_id = ''a_1'', res_provider = ''lambda'',
     res_kind = KindInstance, res_external_id = ''i-1'', res_provider_ref = ''lambda:i-1'', res_region = [],
     res_project = [], res_state = ResRunning, res_created_by_switchboard = True, res_cleanup = CleanupAlways,
     res_metadata = [], res_created_at = zero_time, res_updated_at = zero_time, res_observed_at = None\<rparr>"

lemma save_resource_upsert_witness:
  "\<exists>saved. snd (SaveProviderResource sample_time ''res_1'' sample_resource empty_store) = Inr saved
     \<and> res_id saved = ''res_1''"
proof -
  have "healthy empty_store" by (simp add: healthy_def empty_store_def)
  from save_resource_upsert [OF this, of sample_time "''res_1''" sample_resource] show ?thesis
    by (auto simp: sample_resource_def)
qed

section \<open>The order of attempts\<close>

text \<open>Two texts of one length compare like the numbers they write.\<close>

lemma same_length_less:
  "length xs = length ys \<Longrightarrow> xs @ us < ys @ vs \<longleftrightarrow> xs < ys \<or> (xs = ys \<and> us < vs)"
  for xs ys us vs :: "'c::linorder list"
  by (induction xs ys rule: list_induct2) auto

lemma pad_less: "n < m \<Longrightarrow> m < 10 ^ k \<Longrightarrow> pad k n < pad k m"
proof (induction k arbitrary: n m)
  case 0
  then show ?case by simp
next
  case (Suc k)
  show ?case
  proof (cases "n div 10 = m div 10")
    case True
    with Suc.prems have "n mod 10 < m mod 10" by (metis div_mult_mod_eq nat_add_left_cancel_less)
    then have "char_of (48 + n mod 10) < (char_of (48 + m mod 10) :: char)"
      by (simp add: less_char_def byte_char_of)
    with True show ?thesis by (simp add: list_less_def lexord_append_leftI)
  next
    case False
    with Suc.prems have "n div 10 < m div 10" by (simp add: div_le_mono le_neq_implies_less)
    moreover have "m div 10 < 10 ^ k" using Suc.prems(2) by (simp add: less_mult_imp_div_less mult.commute)
    ultimately have "pad k (n div 10) < pad k (m div 10)" by (rule Suc.IH)
    then show ?thesis by (simp add: same_length_less)
  qed
qed

lemma pad_less_iff: "n < 10 ^ k \<Longrightarrow> m < 10 ^ k \<Longrightarrow> pad k n < pad k m \<longleftrightarrow> n < m"
  by (metis less_asym linorder_neqE_nat order_less_irrefl pad_less)

lemma pad_eq_iff: "n < 10 ^ k \<Longrightarrow> m < 10 ^ k \<Longrightarrow> pad k n = pad k m \<longleftrightarrow> n = m"
  by (metis digits_value_pad mod_less)

lemma fraction_text_full:
  assumes "ns mod 10 \<noteq> 0"
  shows "fraction_text ns = CHR ''.'' # pad 9 ns"
proof -
  have nine: "(9::nat) = Suc 8" by simp
  have "pad 9 ns = pad 8 (ns div 10) @ [char_of (48 + ns mod 10)]" by (simp only: nine pad.simps)
  moreover have "char_of (48 + ns mod 10) \<noteq> CHR ''0''"
  proof
    assume "char_of (48 + ns mod 10) = CHR ''0''"
    then have "byte (char_of (48 + ns mod 10)) = byte (CHR ''0'')" by (rule arg_cong)
    with assms show False by (simp add: byte_char_of)
  qed
  ultimately have "trim_right (\<lambda>c. c = CHR ''0'') (pad 9 ns) = pad 9 ns"
    by (simp add: trim_right_def)
  moreover have "pad 9 ns \<noteq> []" by (metis length_pad list.size(3) zero_neq_numeral)
  ultimately show ?thesis by (simp add: fraction_text_def)
qed

text \<open>The database orders attempts by the text of their start. Where no trailing zero of the
  fraction of a second is dropped, that is their chronological order.\<close>

theorem text_order_chronological:
  assumes "valid_time s" and "valid_time t" and "t_nano s mod 10 \<noteq> 0" and "t_nano t mod 10 \<noteq> 0"
  shows "rfc3339_nano s < rfc3339_nano t \<longleftrightarrow> s < t"
proof -
  have days_in_month: "days_in_month y m \<le> 31" for y m by (simp add: days_in_month_def)
  have b: "t_year x < 10000 \<and> t_month x < 100 \<and> t_day x < 100 \<and> t_hour x < 100
      \<and> t_min x < 100 \<and> t_sec x < 100 \<and> t_nano x < 1000000000" if "valid_time x" for x
    using that days_in_month [of "t_year x" "t_month x"] unfolding valid_time_def by auto
  note bs = b [OF assms(1)] b [OF assms(2)]
  show ?thesis
    unfolding rfc3339_nano_def fraction_text_full [OF assms(3)] fraction_text_full [OF assms(4)] less_gotime_def
      time_key_def
    by (simp add: same_length_less pad_less_iff pad_eq_iff bs less_prod_def' del: pad.simps)
qed

lemma text_order_chronological_witness:
  "rfc3339_nano (GoTime 2026 1 2 3 4 5 1) < rfc3339_nano (GoTime 2026 1 2 3 4 6 1)"
proof -
  have v: "valid_time (GoTime 2026 1 2 3 4 5 1)" "valid_time (GoTime 2026 1 2 3 4 6 1)"
    by (simp_all add: valid_time_def days_in_month_def)
  show ?thesis
    by (subst text_order_chronological [OF v]) (simp_all add: less_gotime_def time_key_def)
qed

lemma char_48: "char_of (48 :: nat) = CHR ''0''"
  by code_simp

lemma char_49: "char_of (49 :: nat) = CHR ''1''"
  by code_simp

lemma fraction_tenth: "fraction_text 100000000 = ''.1''"
proof -
  have nine: "(9::nat) = Suc (Suc (Suc (Suc (Suc (Suc (Suc (Suc (Suc 0))))))))" by simp
  have "pad 9 100000000 = ''100000000''" by (simp only: nine pad.simps) (simp add: char_48 char_49)
  then show ?thesis by (simp add: fraction_text_def trim_right_def)
qed

lemma fraction_zero: "fraction_text 0 = []"
proof -
  have nine: "(9::nat) = Suc (Suc (Suc (Suc (Suc (Suc (Suc (Suc (Suc 0))))))))" by simp
  have "pad 9 0 = ''000000000''" by (simp only: nine pad.simps) (simp add: char_48 char_49)
  then show ?thesis by (simp add: fraction_text_def trim_right_def)
qed

lemma tenth_before_whole:
  "rfc3339_nano (GoTime y m d h i s 100000000) < rfc3339_nano (GoTime y m d h i s 0)"
  by (simp add: rfc3339_nano_def fraction_tenth fraction_zero same_length_less)

definition sample_attempt :: "string \<Rightarrow> gotime \<Rightarrow> attempt" where
  "sample_attempt i t = \<lparr>at_id = i, at_run_id = ''r_1'', at_provider = ''gcp'', at_state = AttemptFailed,
     at_started_at = t, at_ended_at = zero_time, at_exit_code = 1, at_exit_reason = [], at_provider_ref = [],
     at_resume_uri = [], at_resume_step = None, at_hourly_usd = None, at_currency = []\<rparr>"

text \<open>In general it is not: an attempt that starts on a whole second comes after one that
  starts a tenth of a second later, so the last attempt of the list is not the latest one.\<close>

theorem attempts_out_of_order:
  "\<exists>s first second. first < second \<and> valid_time first \<and> valid_time second
     \<and> (\<exists>as. snd (AttemptsByRun ''r_1'' s) = Inr as \<and> map at_started_at as = [second, first])"
proof -
  let ?t = "GoTime 2026 1 2 3 4 5 0" and ?u = "GoTime 2026 1 2 3 4 5 100000000"
  let ?s = "empty_store\<lparr>st_attempts := [attempt_row_of (sample_attempt ''a_1'' ?t), attempt_row_of (sample_attempt ''a_2'' ?u)]\<rparr>"
  have lt: "?t < ?u" by (simp add: less_gotime_def time_key_def)
  have v: "valid_time ?t" "valid_time ?u" by (simp_all add: valid_time_def days_in_month_def)
  have "snd (AttemptsByRun ''r_1'' ?s) = Inr (map scan_attempt
      [attempt_row_of (sample_attempt ''a_2'' ?u), attempt_row_of (sample_attempt ''a_1'' ?t)])"
    by (simp add: AttemptsByRun_def query_def empty_store_def attempt_rows_def attempt_row_of_def
        sample_attempt_def key_less_def tenth_before_whole)
  moreover have "map at_started_at (map scan_attempt
      [attempt_row_of (sample_attempt ''a_2'' ?u), attempt_row_of (sample_attempt ''a_1'' ?t)]) = [?u, ?t]"
    using v by (simp add: scan_attempt_def attempt_row_of_def sample_attempt_def)
  ultimately show ?thesis
    using lt v by (intro exI [of _ ?s] exI [of _ ?t] exI [of _ ?u] conjI exI) assumption+
qed

section \<open>Opening a database\<close>

text \<open>
  \<open>migrate\<close> on the schema: the column names of each table. \<open>CREATE TABLE IF NOT EXISTS\<close> leaves an
  existing table as it is, so a database of an earlier version gets its new columns one by one.
\<close>

record schema =
  sc_tables :: "string list smap"
  sc_ops :: nat
  sc_fault :: "nat \<Rightarrow> gerror option"

definition sc_exec :: "(string list smap \<Rightarrow> string list smap) \<Rightarrow> schema \<Rightarrow> schema \<times> gerror option" where
  "sc_exec f s =
     (let s' = s\<lparr>sc_ops := Suc (sc_ops s)\<rparr> in
      case sc_fault s (sc_ops s) of Some e \<Rightarrow> (s', Some e) | None \<Rightarrow> (s'\<lparr>sc_tables := f (sc_tables s)\<rparr>, None))"

definition create_table :: "string \<times> string list \<Rightarrow> string list smap \<Rightarrow> string list smap" where
  "create_table t tables = (if map_of tables (fst t) = None then tables @ [t] else tables)"

definition base_tables :: "string list smap" where
  "base_tables =
     [(''runs'', [''id'', ''job_name'', ''script'', ''image'', ''provider'', ''state'', ''started_at'', ''ended_at'',
        ''exit_code'', ''error'']),
      (''attempts'', [''id'', ''run_id'', ''provider'', ''state'', ''started_at'', ''ended_at'', ''exit_code'',
        ''exit_reason'', ''provider_ref'']),
      (''routing_decisions'', [''run_id'', ''selected_provider'', ''objective'', ''selection_reason'',
        ''eligible_json'', ''rejected_json'', ''selected_hardware_json'', ''eligible_hardware_json'',
        ''rejected_hardware_json'', ''estimated_required_vram_gb'', ''estimated_runtime_sec'',
        ''estimated_total_cost_usd'', ''confidence'']),
      (''provider_resources'', [''id'', ''run_id'', ''attempt_id'', ''provider'', ''kind'', ''external_id'',
        ''provider_ref'', ''region'', ''project_or_account'', ''state'', ''created_by_switchboard'',
        ''cleanup_policy'', ''metadata_json'', ''created_at'', ''updated_at'', ''last_observed_at''])]"

text \<open>\<open>PRAGMA table_info\<close> lists the columns; \<open>ALTER TABLE\<close> adds the one that none of them equals
  up to case.\<close>

definition addColumnIfMissing :: "string \<Rightarrow> string \<Rightarrow> schema \<Rightarrow> schema \<times> gerror option" where
  "addColumnIfMissing table column s = then_ok (sc_exec id s) (\<lambda>s'.
     if list_ex (\<lambda>name. equal_fold name column) (lookup_default [] (sc_tables s') table) then (s', None)
     else sc_exec (\<lambda>ts. AList.update table (lookup_default [] ts table @ [column]) ts) s')"

fun add_columns :: "string \<Rightarrow> string list \<Rightarrow> schema \<Rightarrow> schema \<times> gerror option" where
  "add_columns table [] s = (s, None)"
| "add_columns table (c # cs) s = then_ok (addColumnIfMissing table c s) (add_columns table cs)"

definition attempt_columns :: "string list" where
  "attempt_columns = [''resume_from_uri'', ''resume_from_step'', ''estimated_hourly_usd'', ''estimate_currency'']"

definition decision_columns :: "string list" where
  "decision_columns = [''selected_hardware_json'', ''eligible_hardware_json'', ''rejected_hardware_json'',
     ''estimated_required_vram_gb'', ''estimated_runtime_sec'', ''estimated_total_cost_usd'', ''confidence'']"

definition migrate :: "schema \<Rightarrow> schema \<times> gerror option" where
  "migrate s =
     then_ok (then_ok (then_ok (sc_exec (fold create_table base_tables) s)
       (addColumnIfMissing ''runs'' ''image''))
       (add_columns ''attempts'' attempt_columns))
       (add_columns ''routing_decisions'' decision_columns)"

definition has_column :: "string list smap \<Rightarrow> string \<Rightarrow> string \<Rightarrow> bool" where
  "has_column tables table c \<longleftrightarrow> (\<exists>name \<in> set (lookup_default [] tables table). equal_fold name c)"

definition keeps_columns :: "string list smap \<Rightarrow> string list smap \<Rightarrow> bool" where
  "keeps_columns old new \<longleftrightarrow> (\<forall>t. prefix (lookup_default [] old t) (lookup_default [] new t))"

lemma keeps_columns_refl [simp]: "keeps_columns ts ts"
  by (simp add: keeps_columns_def)

lemma keeps_columns_trans: "keeps_columns a b \<Longrightarrow> keeps_columns b c \<Longrightarrow> keeps_columns a c"
  by (meson keeps_columns_def prefix_order.trans)

lemma keeps_has: "keeps_columns a b \<Longrightarrow> has_column a t c \<Longrightarrow> has_column b t c"
  by (meson has_column_def keeps_columns_def set_mono_prefix subsetD)

lemma sc_exec_keeps:
  "(\<And>ts. keeps_columns ts (f ts)) \<Longrightarrow> keeps_columns (sc_tables s) (sc_tables (fst (sc_exec f s)))
     \<and> sc_fault (fst (sc_exec f s)) = sc_fault s"
  by (simp add: sc_exec_def Let_def split: option.split)

lemma addColumn_keeps:
  "keeps_columns (sc_tables s) (sc_tables (fst (addColumnIfMissing t c s)))
     \<and> sc_fault (fst (addColumnIfMissing t c s)) = sc_fault s
     \<and> (snd (addColumnIfMissing t c s) = None \<longrightarrow> has_column (sc_tables (fst (addColumnIfMissing t c s))) t c)"
proof -
  have k: "keeps_columns ts (AList.update t (lookup_default [] ts t @ [c]) ts)" for ts
    by (simp add: keeps_columns_def lookup_update)
  have h: "has_column (AList.update t (lookup_default [] ts t @ [c]) ts) t c" for ts
    by (simp add: has_column_def lookup_update equal_fold_def)
  show ?thesis
    using k h
    by (auto simp: addColumnIfMissing_def then_ok_def sc_exec_def Let_def has_column_def list_ex_iff
        split: option.splits prod.splits if_splits)
qed

lemma add_columns_keeps:
  "keeps_columns (sc_tables s) (sc_tables (fst (add_columns t cs s)))
     \<and> sc_fault (fst (add_columns t cs s)) = sc_fault s
     \<and> (snd (add_columns t cs s) = None \<longrightarrow> (\<forall>c \<in> set cs. has_column (sc_tables (fst (add_columns t cs s))) t c))"
proof (induction cs arbitrary: s)
  case Nil
  then show ?case by simp
next
  case (Cons c cs)
  show ?case
    using addColumn_keeps [of s t c] Cons.IH [of "fst (addColumnIfMissing t c s)"]
    by (cases rule: then_ok_cases [of "addColumnIfMissing t c s" "add_columns t cs"])
       (auto intro: keeps_columns_trans keeps_has)
qed

lemma create_table_keeps: "keeps_columns ts (fold create_table bs ts)"
proof (induction bs arbitrary: ts)
  case Nil
  then show ?case by simp
next
  case (Cons b bs)
  have "keeps_columns ts (create_table b ts)"
    by (auto simp: keeps_columns_def create_table_def lookup_default_def map_add_def split: option.split)
  with Cons show ?case by (auto intro: keeps_columns_trans)
qed

text \<open>A step of the migration keeps columns, keeps the oracle and establishes \<open>Q\<close> on success.\<close>

definition migration_step :: "(schema \<Rightarrow> schema \<times> gerror option) \<Rightarrow> (string list smap \<Rightarrow> bool) \<Rightarrow> bool" where
  "migration_step f Q \<longleftrightarrow> (\<forall>s. keeps_columns (sc_tables s) (sc_tables (fst (f s)))
     \<and> sc_fault (fst (f s)) = sc_fault s
     \<and> (snd (f s) = None \<longrightarrow> Q (sc_tables (fst (f s))))
     \<and> ((\<forall>n. sc_fault s n = None) \<longrightarrow> snd (f s) = None))"

lemma migration_then:
  assumes "migration_step f P" and "migration_step g Q"
    and "\<And>a b. keeps_columns a b \<Longrightarrow> P a \<Longrightarrow> P b"
  shows "migration_step (\<lambda>s. then_ok (f s) g) (\<lambda>ts. P ts \<and> Q ts)"
  unfolding migration_step_def
proof (intro allI)
  fix s
  have f: "keeps_columns (sc_tables s) (sc_tables (fst (f s)))" "sc_fault (fst (f s)) = sc_fault s"
    "snd (f s) = None \<longrightarrow> P (sc_tables (fst (f s)))" "(\<forall>n. sc_fault s n = None) \<longrightarrow> snd (f s) = None"
    using assms(1) by (auto simp: migration_step_def)
  have g: "keeps_columns (sc_tables t) (sc_tables (fst (g t)))" "sc_fault (fst (g t)) = sc_fault t"
    "snd (g t) = None \<longrightarrow> Q (sc_tables (fst (g t)))" "(\<forall>n. sc_fault t n = None) \<longrightarrow> snd (g t) = None" for t
    using assms(2) by (auto simp: migration_step_def)
  show "keeps_columns (sc_tables s) (sc_tables (fst (then_ok (f s) g)))
     \<and> sc_fault (fst (then_ok (f s) g)) = sc_fault s
     \<and> (snd (then_ok (f s) g) = None \<longrightarrow> P (sc_tables (fst (then_ok (f s) g))) \<and> Q (sc_tables (fst (then_ok (f s) g))))
     \<and> ((\<forall>n. sc_fault s n = None) \<longrightarrow> snd (then_ok (f s) g) = None)"
  proof (cases rule: then_ok_cases [of "f s" g])
    case (fails e)
    with f show ?thesis by simp
  next
    case goes
    with f g [of "fst (f s)"] assms(3) show ?thesis by (auto intro: keeps_columns_trans)
  qed
qed

lemma addColumn_step: "migration_step (addColumnIfMissing t c) (\<lambda>ts. has_column ts t c)"
  using addColumn_keeps
  by (auto simp: migration_step_def) (simp add: addColumnIfMissing_def then_ok_def sc_exec_def Let_def)

lemma add_columns_step: "migration_step (add_columns t cs) (\<lambda>ts. \<forall>c \<in> set cs. has_column ts t c)"
proof (induction cs)
  case Nil
  then show ?case by (simp add: migration_step_def)
next
  case (Cons c cs)
  from migration_then [OF addColumn_step Cons] show ?case
    by (simp add: keeps_has)
qed

lemma create_step: "migration_step (sc_exec (fold create_table bs)) (\<lambda>_. True)"
  using create_table_keeps by (auto simp: migration_step_def sc_exec_def Let_def split: option.split)

text \<open>Opening a database of any earlier version succeeds when no statement fails, loses no
  column, and leaves every column that later statements name; when a statement fails, no column
  is lost either, so that opening the database again goes on.\<close>

theorem migrate_adds_columns:
  "keeps_columns (sc_tables s) (sc_tables (fst (migrate s)))
   \<and> (snd (migrate s) = None \<longrightarrow>
        has_column (sc_tables (fst (migrate s))) ''runs'' ''image''
        \<and> (\<forall>c \<in> set attempt_columns. has_column (sc_tables (fst (migrate s))) ''attempts'' c)
        \<and> (\<forall>c \<in> set decision_columns. has_column (sc_tables (fst (migrate s))) ''routing_decisions'' c))
   \<and> ((\<forall>n. sc_fault s n = None) \<longrightarrow> snd (migrate s) = None)"
proof -
  have "migration_step migrate (\<lambda>ts. ((True \<and> has_column ts ''runs'' ''image'')
      \<and> (\<forall>c \<in> set attempt_columns. has_column ts ''attempts'' c))
      \<and> (\<forall>c \<in> set decision_columns. has_column ts ''routing_decisions'' c))"
    unfolding migrate_def
    by (intro migration_then create_step addColumn_step add_columns_step) (auto intro: keeps_has)
  then show ?thesis unfolding migration_step_def by simp
qed

text \<open>A database that an early version of the program created, and a healthy engine.\<close>

lemma migrate_adds_columns_witness:
  "has_column (sc_tables (fst (migrate \<lparr>sc_tables = [(''runs'', [''id''])], sc_ops = 0, sc_fault = (\<lambda>_. None)\<rparr>)))
     ''runs'' ''image''"
  using migrate_adds_columns [of "\<lparr>sc_tables = [(''runs'', [''id''])], sc_ops = 0, sc_fault = (\<lambda>_. None)\<rparr>"] by simp

end
