(* ===== verification/Artifact.thy ===== *)
theory Artifact
  imports GoPath
begin

text \<open>
  \<open>internal/artifact/artifact.go\<close>: where the files of a run live, and the checks that keep them
  below the home of the program. The working directory and which files exist are parameters.
\<close>

record paths =
  p_home :: string
  p_db :: string
  p_run_dir :: string
  p_workspace :: string
  p_events :: string
  p_logs :: string
  p_summary :: string
  p_checkpoints :: string

text \<open>\<open>^[A-Za-z0-9][A-Za-z0-9_-]*$\<close>\<close>

definition valid_run_id :: "string \<Rightarrow> bool" where
  "valid_run_id s = (case s of [] \<Rightarrow> False
     | c # cs \<Rightarrow> is_alnum c \<and> list_all (\<lambda>d. is_alnum d \<or> d = CHR ''_'' \<or> d = CHR ''-'') cs)"

definition ValidateRunID :: "string \<Rightarrow> gerror option" where
  "ValidateRunID runID =
     (if \<not> valid_run_id runID then Some (ErrText (''invalid run id '' @ quote runID)) else None)"

definition DBPath :: "(string \<Rightarrow> bool) \<Rightarrow> string \<Rightarrow> string" where
  "DBPath exists home =
     (let current = path_join [home, ''switchboard.db'']; legacy = path_join [home, ''orchestrator.db''] in
      if exists current then current else if exists legacy then legacy else current)"

definition ensureContained :: "string \<Rightarrow> string \<Rightarrow> string \<Rightarrow> gerror option" where
  "ensureContained cwd base child =
     (case path_rel (path_abs cwd base) (path_abs cwd child) of
        Inl e \<Rightarrow> Some e
      | Inr rel \<Rightarrow>
          if rel = ''.'' \<or> rel = [] then None
          else if prefix ''../'' rel \<or> rel = ''..'' \<or> rooted rel
          then Some (ErrText (child @ '' is outside '' @ base)) else None)"

fun contain_all :: "string \<Rightarrow> string \<Rightarrow> string list \<Rightarrow> gerror option" where
  "contain_all cwd dir [] = None"
| "contain_all cwd dir (p # ps) =
     (case ensureContained cwd dir p of
        Some e \<Rightarrow> Some (ErrWrap (''artifact path '' @ quote p @ '' escapes run directory: '') e)
      | None \<Rightarrow> contain_all cwd dir ps)"

definition validatePaths :: "string \<Rightarrow> paths \<Rightarrow> gerror option" where
  "validatePaths cwd p =
     (case ValidateRunID (path_base (p_run_dir p)) of Some e \<Rightarrow> Some e
      | None \<Rightarrow>
          (case ensureContained cwd (path_join [p_home p, ''runs'']) (p_run_dir p) of
             Some e \<Rightarrow> Some (ErrWrap ''run directory escapes runs root: '' e)
           | None \<Rightarrow> contain_all cwd (p_run_dir p)
               [p_workspace p, p_events p, p_logs p, p_summary p, p_checkpoints p]))"

definition run_paths :: "(string \<Rightarrow> bool) \<Rightarrow> string \<Rightarrow> string \<Rightarrow> paths" where
  "run_paths exists home runID =
     (let runDir = path_join [home, ''runs'', runID] in
      \<lparr>p_home = home, p_db = DBPath exists home, p_run_dir = runDir,
       p_workspace = path_join [runDir, ''workspace''], p_events = path_join [runDir, ''events.jsonl''],
       p_logs = path_join [runDir, ''logs.txt''], p_summary = path_join [runDir, ''summary.json''],
       p_checkpoints = path_join [runDir, ''checkpoints'']\<rparr>)"

text \<open>\<open>ForRun\<close> panics on an error of its checks; the panic is the error.\<close>

definition ForRun :: "string \<Rightarrow> (string \<Rightarrow> bool) \<Rightarrow> string \<Rightarrow> string \<Rightarrow> gerror + paths" where
  "ForRun cwd exists home runID =
     (case ValidateRunID runID of Some e \<Rightarrow> Inl e
      | None \<Rightarrow> (case validatePaths cwd (run_paths exists home runID) of
          Some e \<Rightarrow> Inl e | None \<Rightarrow> Inr (run_paths exists home runID)))"

section \<open>A run's files stay below its directory\<close>

lemma alnum_not_special: "is_alnum c \<Longrightarrow> c \<noteq> CHR ''/'' \<and> c \<noteq> CHR ''.''"
  by (auto simp: is_alnum_def is_upper_def is_lower_def is_digit_def)

lemma valid_run_id_plain: "valid_run_id s \<Longrightarrow> plain_element s"
  using alnum_not_special
  by (auto simp: valid_run_id_def plain_element_def list_all_iff split: list.splits)

lemma contained_below:
  assumes "rooted cwd" and "good_stack rt st" and "\<forall>e \<in> set es. plain_element e" and "length es \<le> 1"
  shows "ensureContained cwd (stack_path rt st) (stack_path rt (st @ es)) = None"
proof -
  have base: "path_stack (path_abs cwd (stack_path rt st)) = abs_stack cwd rt st"
    "rooted (path_abs cwd (stack_path rt st))"
    using path_stack_abs [OF assms(1,2)] by auto
  have child: "path_stack (path_abs cwd (stack_path rt (st @ es))) = abs_stack cwd rt st @ es"
    "rooted (path_abs cwd (stack_path rt (st @ es)))"
    using path_stack_abs [OF assms(1) good_append [OF assms(2,3)]] abs_stack_append [OF assms(3)] by auto
  have rel: "path_rel (path_abs cwd (stack_path rt st)) (path_abs cwd (stack_path rt (st @ es)))
      = Inr (if es = [] then ''.'' else join ''/'' es)"
    using base child assms(3) by (intro path_rel_below) auto
  show ?thesis
  proof (cases es)
    case Nil
    with rel show ?thesis by (simp add: ensureContained_def)
  next
    case (Cons e es')
    with assms(3,4) have e: "es = [e]" "plain_element e" by auto
    then have "\<not> prefix ''../'' e" "e \<noteq> ''..''" "\<not> rooted e"
      by (auto simp: plain_element_def rooted_def prefix_def)
    with rel e show ?thesis by (simp add: ensureContained_def)
  qed
qed

definition path_below :: "string \<Rightarrow> string list \<Rightarrow> string \<Rightarrow> bool" where
  "path_below home es p \<longleftrightarrow> path_stack p = path_stack home @ es \<and> rooted p = rooted home"

text \<open>C28. For every valid run identifier \<open>ForRun\<close> succeeds, whatever the home, and the run's
  directory is the element \<open>runs/<id>\<close> below the home, with each artifact one element below it;
  for any other identifier it panics. So no identifier reaches a file outside the home.\<close>

theorem for_run_contained:
  assumes "rooted cwd"
  shows "case ForRun cwd exists home runID of
      Inl e \<Rightarrow> \<not> valid_run_id runID
    | Inr p \<Rightarrow> valid_run_id runID \<and> path_below home [''runs'', runID] (p_run_dir p)
        \<and> path_below home [''runs'', runID, ''workspace''] (p_workspace p)
        \<and> path_below home [''runs'', runID, ''events.jsonl''] (p_events p)
        \<and> path_below home [''runs'', runID, ''logs.txt''] (p_logs p)
        \<and> path_below home [''runs'', runID, ''summary.json''] (p_summary p)
        \<and> path_below home [''runs'', runID, ''checkpoints''] (p_checkpoints p)"
proof (cases "valid_run_id runID")
  case False
  then show ?thesis by (simp add: ForRun_def ValidateRunID_def)
next
  case True
  let ?h = "path_stack home" and ?rt = "rooted home" and ?p = "run_paths exists home runID"
  have id: "plain_element runID" using True by (rule valid_run_id_plain)
  have elems: "plain_element ''runs''" "plain_element ''workspace''" "plain_element ''events.jsonl''"
    "plain_element ''logs.txt''" "plain_element ''summary.json''" "plain_element ''checkpoints''"
    by (simp_all add: plain_element_def)
  have dir: "p_run_dir ?p = stack_path ?rt (?h @ [''runs'', runID])"
    using path_join_plain [of "[''runs'', runID]" home] elems id by (simp add: run_paths_def Let_def)
  have good: "good_stack ?rt (?h @ [''runs''])" "good_stack ?rt (?h @ [''runs'', runID])"
    using good_append [OF good_path_stack [of home]] elems id by auto
  have dir_stack: "path_stack (p_run_dir ?p) = ?h @ [''runs'', runID]" "rooted (p_run_dir ?p) = ?rt"
    using path_stack_stack_path [OF good(2)] dir by auto
  have runs: "path_join [home, ''runs''] = stack_path ?rt (?h @ [''runs''])"
    using path_join_plain [of "[''runs'']" home] elems by simp
  have art: "path_join [p_run_dir ?p, e] = stack_path ?rt ((?h @ [''runs'', runID]) @ [e])"
    if "plain_element e" for e
    using path_join_plain [of "[e]" "p_run_dir ?p"] that dir_stack by simp
  have art_below: "path_below home [''runs'', runID, e] (path_join [p_run_dir ?p, e])" if "plain_element e" for e
    using path_join_stack [of "[e]" "p_run_dir ?p"] that dir_stack by (simp add: path_below_def)
  have in_runs: "ensureContained cwd (path_join [home, ''runs'']) (p_run_dir ?p) = None"
    using contained_below [OF assms good(1), of "[runID]"] id by (simp add: runs dir)
  have in_dir: "ensureContained cwd (p_run_dir ?p) (path_join [p_run_dir ?p, e]) = None" if "plain_element e" for e
    using contained_below [OF assms good(2), of "[e]"] that art [OF that] dir by simp
  have fields: "p_home ?p = home" "p_workspace ?p = path_join [p_run_dir ?p, ''workspace'']"
    "p_events ?p = path_join [p_run_dir ?p, ''events.jsonl'']" "p_logs ?p = path_join [p_run_dir ?p, ''logs.txt'']"
    "p_summary ?p = path_join [p_run_dir ?p, ''summary.json'']"
    "p_checkpoints ?p = path_join [p_run_dir ?p, ''checkpoints'']"
    by (simp_all add: run_paths_def Let_def)
  have "path_base (p_run_dir ?p) = runID"
    using path_base_plain [OF id, of ?rt "?h @ [''runs'']"] by (simp add: dir)
  then have "validatePaths cwd ?p = None"
    using True in_runs in_dir elems by (simp add: validatePaths_def ValidateRunID_def fields)
  then have "ForRun cwd exists home runID = Inr ?p" using True by (simp add: ForRun_def ValidateRunID_def)
  moreover have "path_below home [''runs'', runID] (p_run_dir ?p)"
    using dir_stack by (simp add: path_below_def)
  ultimately show ?thesis using True art_below elems by (simp add: fields)
qed

lemma for_run_contained_witness:
  "case ForRun ''/work'' (\<lambda>_. False) ''../home'' ''r_1'' of
      Inl e \<Rightarrow> \<not> valid_run_id ''r_1'' | Inr p \<Rightarrow> path_below ''../home'' [''runs'', ''r_1''] (p_run_dir p)"
proof -
  have "rooted ''/work''" by (simp add: rooted_def)
  from for_run_contained [OF this, where exists = "\<lambda>_. False" and home = "''../home''" and runID = "''r_1''"] show ?thesis
    by (simp split: sum.splits)
qed

end
