(* ===== verification/ArtifactIO.thy ===== *)
theory ArtifactIO
  imports Artifact GoFiles
begin

text \<open>
  The files of \<open>internal/artifact/artifact.go\<close>: creating the directories of a run, reading its
  logs, and replacing its summary. Calls of the system fail by an oracle.
\<close>

section \<open>Directories and private files\<close>

record os_calls =
  os_mkdir_all :: "string \<Rightarrow> gerror option"
  os_chmod :: "string \<Rightarrow> gerror option"
  os_open :: "string \<Rightarrow> gerror option"
  os_close :: "string \<Rightarrow> gerror option"

definition EnsureHome :: "os_calls \<Rightarrow> string \<Rightarrow> gerror option" where
  "EnsureHome os home =
     (if home = [] then Some (ErrText ''switchboard home is required'')
      else case os_mkdir_all os home of Some e \<Rightarrow> Some (ErrWrap ''create switchboard home: '' e)
      | None \<Rightarrow>
          (case os_chmod os home of Some e \<Rightarrow> Some (ErrWrap ''secure switchboard home: '' e)
           | None \<Rightarrow>
               (let runs = path_join [home, ''runs''] in
                case os_mkdir_all os runs of Some e \<Rightarrow> Some (ErrWrap ''create runs directory: '' e)
                | None \<Rightarrow> os_chmod os runs)))"

fun ensure_dirs :: "os_calls \<Rightarrow> string list \<Rightarrow> gerror option" where
  "ensure_dirs os [] = None"
| "ensure_dirs os (dir # dirs) =
     (case os_mkdir_all os dir of Some e \<Rightarrow> Some (ErrWrap ''create run directories: '' e)
      | None \<Rightarrow>
          (case os_chmod os dir of Some e \<Rightarrow> Some (ErrWrap (''secure run directory '' @ dir @ '': '') e)
           | None \<Rightarrow> ensure_dirs os dirs))"

text \<open>The files that exist afterwards, empty if they are new, and the error. A file whose mode cannot
  be set has been created.\<close>

definition ensurePrivateFile :: "os_calls \<Rightarrow> string \<Rightarrow> string list \<times> gerror option" where
  "ensurePrivateFile os path =
     (case os_open os path of Some e \<Rightarrow> ([], Some (ErrWrap (''create artifact '' @ path @ '': '') e))
      | None \<Rightarrow> ([path],
          case os_chmod os path of Some e \<Rightarrow> Some (ErrWrap (''secure artifact '' @ path @ '': '') e)
          | None \<Rightarrow> map_option (ErrWrap (''close artifact '' @ path @ '': '')) (os_close os path)))"

fun ensure_files :: "os_calls \<Rightarrow> string list \<Rightarrow> string list \<times> gerror option" where
  "ensure_files os [] = ([], None)"
| "ensure_files os (path # ps) =
     (case ensurePrivateFile os path of
        (made, Some e) \<Rightarrow> (made, Some e)
      | (made, None) \<Rightarrow> (case ensure_files os ps of (rest, e) \<Rightarrow> (made @ rest, e)))"

definition EnsureRun :: "os_calls \<Rightarrow> string \<Rightarrow> paths \<Rightarrow> string list \<times> gerror option" where
  "EnsureRun os cwd p =
     (case validatePaths cwd p of Some e \<Rightarrow> ([], Some e)
      | None \<Rightarrow>
          (case ensure_dirs os [p_run_dir p, p_checkpoints p, p_workspace p] of Some e \<Rightarrow> ([], Some e)
           | None \<Rightarrow> ensure_files os [p_events p, p_logs p]))"

lemma ensure_run_files: "EnsureRun os cwd p = (made, None) \<Longrightarrow> made = [p_events p, p_logs p]"
  by (auto simp: EnsureRun_def ensurePrivateFile_def split: option.splits)

lemma ensure_run_made: "EnsureRun os cwd p = (made, e) \<Longrightarrow> set made \<subseteq> {p_events p, p_logs p}"
  by (auto simp: EnsureRun_def ensurePrivateFile_def split: option.splits)

definition StreamLogs :: "string \<Rightarrow> files \<Rightarrow> paths \<Rightarrow> gerror + string" where
  "StreamLogs cwd fl p = (case validatePaths cwd p of Some e \<Rightarrow> Inl e | None \<Rightarrow> fl_read fl (p_logs p))"

section \<open>Replacing a file\<close>

text \<open>The files by path, how many calls were made, which of them fail and how many bytes a failing
  write leaves; and every state that the files were in, which is what a crash may leave.\<close>

record fs =
  fs_files :: "string smap"
  fs_ops :: nat
  fs_fault :: "nat \<Rightarrow> gerror option"
  fs_short :: "nat \<Rightarrow> nat"
  fs_trace :: "string smap list"

definition fs_set :: "string smap \<Rightarrow> fs \<Rightarrow> fs" where
  "fs_set m s = s\<lparr>fs_files := m, fs_ops := Suc (fs_ops s), fs_trace := fs_trace s @ [m]\<rparr>"

text \<open>A call that changes the files by \<open>good\<close> when it works and by \<open>bad\<close> when it fails.\<close>

definition fs_call :: "(string smap \<Rightarrow> string smap) \<Rightarrow> (nat \<Rightarrow> string smap \<Rightarrow> string smap) \<Rightarrow> fs \<Rightarrow> fs \<times> gerror option" where
  "fs_call good bad s = (case fs_fault s (fs_ops s) of
      Some e \<Rightarrow> (fs_set (bad (fs_short s (fs_ops s)) (fs_files s)) s, Some e)
    | None \<Rightarrow> (fs_set (good (fs_files s)) s, None))"

definition fs_quiet :: "fs \<Rightarrow> fs \<times> gerror option" where
  "fs_quiet = fs_call (\<lambda>m. m) (\<lambda>n m. m)"

definition fs_create :: "string \<Rightarrow> fs \<Rightarrow> fs \<times> gerror option" where
  "fs_create p = fs_call (AList.update p []) (\<lambda>n m. m)"

definition fs_write :: "string \<Rightarrow> string \<Rightarrow> fs \<Rightarrow> fs \<times> gerror option" where
  "fs_write p c = fs_call (AList.update p c) (\<lambda>n. AList.update p (take n c))"

definition fs_rename :: "string \<Rightarrow> string \<Rightarrow> fs \<Rightarrow> fs \<times> gerror option" where
  "fs_rename p q = fs_call (\<lambda>m. case map_of m p of None \<Rightarrow> m | Some c \<Rightarrow> AList.update q c (AList.delete p m)) (\<lambda>n m. m)"

definition fs_remove :: "string \<Rightarrow> fs \<Rightarrow> fs \<times> gerror option" where
  "fs_remove p = fs_call (AList.delete p) (\<lambda>n m. m)"

definition wrap_err :: "string \<Rightarrow> fs \<times> gerror option \<Rightarrow> fs \<times> gerror option" where
  "wrap_err msg r = (fst r, map_option (ErrWrap msg) (snd r))"

text \<open>The calls after the temporary file exists. When one fails, the file is closed, which may fail
  too, unnoticed.\<close>

definition then_close :: "fs \<times> gerror option \<Rightarrow> (fs \<Rightarrow> fs \<times> gerror option) \<Rightarrow> fs \<times> gerror option" where
  "then_close r k = (case r of (s, Some e) \<Rightarrow> (fst (fs_quiet s), Some e) | (s, None) \<Rightarrow> k s)"

definition fill_and_rename :: "string \<Rightarrow> string \<Rightarrow> string \<Rightarrow> string \<Rightarrow> fs \<Rightarrow> fs \<times> gerror option" where
  "fill_and_rename msg tmpPath path content s =
     then_close (fs_quiet s)
       (\<lambda>s. then_close (fs_write tmpPath content s)
       (\<lambda>s. then_close (fs_quiet s)
       (\<lambda>s. then_ok (fs_quiet s)
       (\<lambda>s. then_ok (wrap_err msg (fs_rename tmpPath path s)) fs_quiet))))"

text \<open>\<open>defer os.Remove(tmpPath)\<close> runs whatever the outcome; its error is ignored.\<close>

definition replaceFile :: "string \<Rightarrow> string \<Rightarrow> string \<Rightarrow> string \<Rightarrow> string \<Rightarrow> fs \<Rightarrow> fs \<times> gerror option" where
  "replaceFile create_msg rename_msg tmpPath path content s =
     then_ok (wrap_err create_msg (fs_create tmpPath s)) (\<lambda>s.
       (case fill_and_rename rename_msg tmpPath path content s of (s, err) \<Rightarrow> (fst (fs_remove tmpPath s), err)))"

definition atomicWriteFile :: "string \<Rightarrow> string \<Rightarrow> string \<Rightarrow> fs \<Rightarrow> fs \<times> gerror option" where
  "atomicWriteFile tmpPath path content s =
     then_ok (wrap_err ''create run directories: '' (fs_quiet s))
       (replaceFile ''create summary temp file: '' ''replace summary: '' tmpPath path content)"

text \<open>The text of the summary, encoded by the caller, gets a final newline.\<close>

definition WriteSummary :: "string \<Rightarrow> string \<Rightarrow> (gerror + string) \<Rightarrow> fs \<Rightarrow> fs \<times> gerror option" where
  "WriteSummary tmpPath path encoded s =
     (case encoded of Inl e \<Rightarrow> (s, Some e)
      | Inr content \<Rightarrow> atomicWriteFile tmpPath path (content @ ''\<newline>'') s)"

section \<open>A summary is replaced as a whole\<close>

text \<open>Every state the files have been in since \<open>s\<close> has the old or the new text at \<open>path\<close>.\<close>

definition all_or_nothing :: "string \<Rightarrow> string option set \<Rightarrow> fs \<Rightarrow> bool" where
  "all_or_nothing path texts s \<longleftrightarrow> map_of (fs_files s) path \<in> texts
     \<and> (\<forall>m \<in> set (fs_trace s). map_of m path \<in> texts)"

lemma fs_call_keeps:
  assumes "all_or_nothing path texts s" and "\<And>n. map_of (bad n (fs_files s)) path \<in> texts"
    and "map_of (good (fs_files s)) path \<in> texts"
  shows "all_or_nothing path texts (fst (fs_call good bad s))"
  using assms by (auto simp: fs_call_def fs_set_def all_or_nothing_def split: option.splits)
text \<open>What holds after a call: \<open>err\<close> when it failed, \<open>ok\<close> when it worked.\<close>

definition ends :: "('s \<Rightarrow> bool) \<Rightarrow> ('s \<Rightarrow> bool) \<Rightarrow> 's \<times> 'e option \<Rightarrow> bool" where
  "ends err ok r \<longleftrightarrow> (case r of (s, Some e) \<Rightarrow> err s | (s, None) \<Rightarrow> ok s)"

lemma ends_then_ok: "ends err P r \<Longrightarrow> (\<And>s. P s \<Longrightarrow> ends err Q (k s)) \<Longrightarrow> ends err Q (then_ok r k)"
  by (cases r; cases "snd r") (auto simp: ends_def then_ok_def)

lemma ends_wrap [simp]: "ends err ok (wrap_err msg r) = ends err ok r"
  by (auto simp: ends_def wrap_err_def split: prod.splits option.splits)

lemma ends_call:
  assumes "all_or_nothing path texts s" and "\<And>n. map_of (bad n (fs_files s)) path \<in> texts"
    and "map_of (good (fs_files s)) path \<in> texts"
    and "\<And>m t. m = good (fs_files s) \<Longrightarrow> fs_files t = m \<Longrightarrow> all_or_nothing path texts t \<Longrightarrow> ok t"
  shows "ends (all_or_nothing path texts) ok (fs_call good bad s)"
  using fs_call_keeps [of path texts s bad good, OF assms(1-3)] assms(4)
  by (auto simp: ends_def fs_call_def fs_set_def split: option.splits)

lemma ends_quiet:
  "all_or_nothing path texts s \<Longrightarrow> fs_files s = m
     \<Longrightarrow> ends (all_or_nothing path texts) (\<lambda>t. all_or_nothing path texts t \<and> fs_files t = m) (fs_quiet s)"
  unfolding fs_quiet_def by (rule ends_call) (auto simp: all_or_nothing_def)

lemma ends_then_close:
  assumes "ends (all_or_nothing path texts) P r" and "\<And>s. P s \<Longrightarrow> ends (all_or_nothing path texts) Q (k s)"
  shows "ends (all_or_nothing path texts) Q (then_close r k)"
proof (cases r)
  case (Pair s e)
  show ?thesis
  proof (cases e)
    case None
    with Pair assms show ?thesis by (simp add: then_close_def ends_def)
  next
    case (Some x)
    with Pair assms(1) have "all_or_nothing path texts s" by (simp add: ends_def)
    then have "all_or_nothing path texts (fst (fs_quiet s))"
      unfolding fs_quiet_def by (rule fs_call_keeps) (auto simp: \<open>all_or_nothing path texts s\<close> [unfolded all_or_nothing_def])
    with Pair Some show ?thesis by (simp add: then_close_def ends_def)
  qed
qed

lemma fill_and_rename_ends:
  assumes "all_or_nothing path texts s" and "tmpPath \<noteq> path" and "Some content \<in> texts"
  shows "ends (all_or_nothing path texts) (\<lambda>t. all_or_nothing path texts t \<and> map_of (fs_files t) path = Some content)
    (fill_and_rename msg tmpPath path content s)"
proof -
  let ?A = "all_or_nothing path texts" and ?full = "\<lambda>t. all_or_nothing path texts t \<and> map_of (fs_files t) tmpPath = Some content"
  have quiet: "ends ?A ?A (fs_quiet s)" if "?A s" for s
    using ends_quiet [OF that refl] by (auto simp: ends_def split: prod.splits option.splits)
  have quiet_full: "ends ?A ?full (fs_quiet s)" if "?full s" for s
    using ends_quiet [OF conjunct1 [OF that] refl] that by (auto simp: ends_def split: prod.splits option.splits)
  have quiet_done: "ends ?A (\<lambda>t. ?A t \<and> map_of (fs_files t) path = Some content) (fs_quiet s)"
    if "?A s \<and> map_of (fs_files s) path = Some content" for s
    using ends_quiet [OF conjunct1 [OF that] refl] that by (auto simp: ends_def split: prod.splits option.splits)
  have filled: "ends ?A ?full (fs_write tmpPath content s)" if "?A s" for s
    unfolding fs_write_def using assms(2) that
    by (intro ends_call) (auto simp: all_or_nothing_def update_conv')
  have rename: "ends ?A (\<lambda>t. ?A t \<and> map_of (fs_files t) path = Some content)
      (wrap_err msg (fs_rename tmpPath path s))" if "?full s" for s
    unfolding ends_wrap unfolding fs_rename_def using assms(2,3) that
    by (intro ends_call) (auto simp: all_or_nothing_def update_conv')
  show ?thesis
    unfolding fill_and_rename_def
    by (rule ends_then_close [OF quiet [OF assms(1)]], rule ends_then_close [OF filled], assumption,
        rule ends_then_close [OF quiet_full], assumption, rule ends_then_ok [OF quiet_full], assumption,
        rule ends_then_ok [OF rename], assumption, rule quiet_done)
qed

lemma replaceFile_ends:
  assumes "all_or_nothing path texts s" and "tmpPath \<noteq> path" and "Some content \<in> texts"
  shows "ends (all_or_nothing path texts) (\<lambda>t. all_or_nothing path texts t \<and> map_of (fs_files t) path = Some content)
    (replaceFile create_msg rename_msg tmpPath path content s)"
proof -
  let ?A = "all_or_nothing path texts"
  have create: "ends ?A ?A (wrap_err create_msg (fs_create tmpPath s))"
    unfolding ends_wrap unfolding fs_create_def using assms(1,2)
    by (intro ends_call) (auto simp: all_or_nothing_def update_conv')
  have cleanup: "ends ?A (\<lambda>t. ?A t \<and> map_of (fs_files t) path = Some content)
      (case fill_and_rename rename_msg tmpPath path content t of (t, err) \<Rightarrow> (fst (fs_remove tmpPath t), err))" if "?A t" for t
  proof -
    obtain u e where u: "fill_and_rename rename_msg tmpPath path content t = (u, e)" by fastforce
    from fill_and_rename_ends [OF that assms(2,3), of rename_msg] u
    have A: "?A u" "e = None \<Longrightarrow> map_of (fs_files u) path = Some content" by (cases e; simp add: ends_def)+
    have "ends ?A (\<lambda>v. ?A v \<and> map_of (fs_files v) path = map_of (fs_files u) path) (fs_remove tmpPath u)"
      unfolding fs_remove_def using A(1) assms(2) by (intro ends_call) (auto simp: all_or_nothing_def delete_conv')
    moreover have "map_of (fs_files (fst (fs_remove tmpPath u))) path = map_of (fs_files u) path"
      using assms(2) by (simp add: fs_remove_def fs_call_def fs_set_def delete_conv' split: option.split)
    ultimately show ?thesis using u A(2) by (cases e; cases "fs_remove tmpPath u"; cases "snd (fs_remove tmpPath u)")
        (auto simp: ends_def)
  qed
  show ?thesis unfolding replaceFile_def by (rule ends_then_ok [OF create], rule cleanup)
qed

lemma ends_mkdir: "all_or_nothing path texts s \<Longrightarrow>
    ends (all_or_nothing path texts) (all_or_nothing path texts) (wrap_err msg (fs_quiet s))"
  unfolding ends_wrap using ends_quiet [of path texts s, OF _ refl] by (auto simp: ends_def split: prod.splits option.splits)


definition sample_fs :: fs where
  "sample_fs = \<lparr>fs_files = [(''/s'', ''old'')], fs_ops = 0, fs_fault = (\<lambda>n. if n = 3 then Some (ErrText ''disk full'') else None),
     fs_short = (\<lambda>n. 2), fs_trace = []\<rparr>"


end
