(* ===== verification/Config.thy ===== *)
theory Config
  imports Routing GoPath
begin

text \<open>
  \<open>internal/config/config.go\<close>, \<open>internal/home/home.go\<close> and the profile of
  \<open>internal/sizing/probe.go\<close>: from the flags and the configuration file to the resolved settings of a
  run. Parsing YAML is done by a package outside the repository, so the parsed file is a parameter
  of \<open>LoadTrain\<close>; so are the environment and the user's home directory. The constraint and manual
  hardware settings are the records that routing uses, which have the same fields.
\<close>

section \<open>The configuration file and the resolved settings\<close>

record job_config =
  jc_name :: string
  jc_script :: string
  jc_image :: string
  jc_command :: "string list"
  jc_args :: "string list"
  jc_env :: "string smap"
  jc_work_dir :: string

record packaging_config =
  pk_dockerfile :: string
  pk_context :: string
  pk_image :: string
  pk_platform :: string

record bundle_config =
  bc_max_size_mb :: int
  bc_require_override :: bool

record data_config =
  dc_inputs :: "data_input list"
  dc_bundle :: bundle_config

record staging_config =
  sg_checkpoint_prefix :: string
  sg_data_prefix :: string

record routing_config =
  rg_mode :: string
  rg_objective :: string
  rg_max_run_cost :: rat
  rg_max_attempts :: int

record probe_config =
  pr_command :: "string list"
  pr_output :: string

record hints_config =
  hi_required_vram :: rat
  hi_dataset_gb :: rat
  hi_parameters_b :: rat
  hi_artifact_gb :: rat
  hi_batch_size :: int
  hi_grad_accum :: int
  hi_precision :: string
  hi_optimizer :: string
  hi_sequence_length :: int
  hi_image_width :: int
  hi_image_height :: int
  hi_expected_steps :: int

record sizing_config =
  sc_probe :: probe_config
  sc_hints :: hints_config

record hardware_config =
  hwc_constraints :: hardware_constraints
  hwc_manual :: manual_hardware

record mock_event_config =
  me_type :: string
  me_step :: "int option"
  me_split :: string
  me_state :: string
  me_checkpoint_uri :: string
  me_message :: string
  me_metrics :: "rat smap"

record mock_provider_config =
  mp_name :: string
  mp_hourly_cost :: rat
  mp_failure_mode :: string
  mp_shapes :: "hardware_shape list"
  mp_events :: "mock_event_config list"

record gcp_config =
  gc_project_id :: string
  gc_location :: string
  gc_output_prefix :: string
  gc_machine_type :: string
  gc_accelerator_type :: string
  gc_accelerator_count :: int
  gc_boot_disk_type :: string
  gc_boot_disk_gb :: int
  gc_service_account :: string
  gc_network :: string
  gc_poll_interval :: int
  gc_estimate_usd :: rat
  gc_repository :: string

record registry_auth_config =
  ra_server :: string
  ra_username_env :: string
  ra_password_env :: string

record lambda_config =
  lc_region :: string
  lc_instance_type :: string
  lc_ssh_key_name :: string
  lc_ssh_private_key :: string
  lc_image_family :: string
  lc_registry_auth :: registry_auth_config
  lc_poll_interval :: int
  lc_terminate :: "bool option"
  lc_keep_on_failure :: bool
  lc_api_timeout :: int
  lc_ssh_connect_timeout :: int
  lc_ssh_ready_timeout :: int

record china_provider_config =
  cp_region :: string
  cp_zone :: string
  cp_instance_type :: string
  cp_image_id :: string
  cp_vpc_id :: string
  cp_subnet_id :: string
  cp_security_group :: string
  cp_ssh_key_name :: string
  cp_ssh_private_key :: string
  cp_ssh_user :: string
  cp_endpoint :: string
  cp_project_id :: string
  cp_account_id :: string
  cp_disk_category :: string
  cp_disk_gb :: int
  cp_bandwidth :: int
  cp_poll_interval :: int
  cp_terminate :: "bool option"
  cp_keep_on_failure :: bool
  cp_api_timeout :: int
  cp_ssh_connect_timeout :: int
  cp_ssh_ready_timeout :: int
  cp_estimate_usd :: rat

record china_config =
  cc_common :: china_provider_config
  cc_alibaba :: china_provider_config
  cc_huawei :: china_provider_config
  cc_tencent :: china_provider_config
  cc_tianyi :: china_provider_config
  cc_baidu :: china_provider_config

record train_file =
  cf_job :: job_config
  cf_data :: data_config
  cf_staging :: staging_config
  cf_packaging :: packaging_config
  cf_routing :: routing_config
  cf_sizing :: sizing_config
  cf_hardware :: hardware_config
  cf_mock :: "mock_provider_config list"
  cf_gcp :: gcp_config
  cf_lambda :: lambda_config
  cf_china :: china_config

record train_flags =
  tf_config_path :: string
  tf_provider :: string
  tf_script :: string
  tf_args :: "string list"
  tf_allow_large :: bool
  tf_home :: string

record resolved_config =
  rs_provider :: string
  rs_job :: job_spec
  rs_staging :: staging_config
  rs_packaging :: packaging_config
  rs_routing :: routing_config
  rs_sizing :: sizing_config
  rs_hardware :: hardware_config
  rs_mock :: "mock_provider_config list"
  rs_gcp :: gcp_config
  rs_lambda :: lambda_config
  rs_china :: china_config
  rs_bundle_max_bytes :: int
  rs_require_override :: bool
  rs_allow_large :: bool
  rs_home :: string

section \<open>Paths relative to the configuration file\<close>

definition resolveLocalPath :: "string \<Rightarrow> string \<Rightarrow> string" where
  "resolveLocalPath path baseDir =
     (if path = [] \<or> rooted path \<or> baseDir = [] then path else path_clean (path_join [baseDir, path]))"

definition isPathLikeSource :: "string \<Rightarrow> bool" where
  "isPathLikeSource source = (case url_parse source of None \<Rightarrow> True
     | Some u \<Rightarrow> url_scheme u = [] \<or> (length (url_scheme u) = 1 \<and> \<not> sublist ''://'' source))"

definition resolveJobPaths :: "job_spec \<Rightarrow> string \<Rightarrow> job_spec" where
  "resolveJobPaths job baseDir = job\<lparr>
     job_script := resolveLocalPath (job_script job) baseDir,
     job_work_dir := resolveLocalPath (job_work_dir job) baseDir,
     job_data := map (\<lambda>d. if isPathLikeSource (di_source d)
       then d\<lparr>di_source := resolveLocalPath (di_source d) baseDir\<rparr> else d) (job_data job)\<rparr>"

definition resolvePackaging :: "packaging_config \<Rightarrow> packaging_config" where
  "resolvePackaging p = (if pk_context p = [] then p\<lparr>pk_context := ''.''\<rparr> else p)"

definition resolvePackagingPaths :: "packaging_config \<Rightarrow> string \<Rightarrow> packaging_config" where
  "resolvePackagingPaths p0 baseDir = (let p = resolvePackaging p0 in
     p\<lparr>pk_context := resolveLocalPath (pk_context p) baseDir,
       pk_dockerfile := resolveLocalPath (pk_dockerfile p) baseDir\<rparr>)"

definition resolveSizingPaths :: "sizing_config \<Rightarrow> string \<Rightarrow> sizing_config" where
  "resolveSizingPaths s baseDir =
     s\<lparr>sc_probe := (sc_probe s)\<lparr>pr_output := resolveLocalPath (pr_output (sc_probe s)) baseDir\<rparr>\<rparr>"

text \<open>\<open>~/\<close> stands for the user's home directory, when the system knows one.\<close>

definition resolve_key_path :: "string option \<Rightarrow> string \<Rightarrow> string \<Rightarrow> string" where
  "resolve_key_path userHome key baseDir =
     (if prefix ''~/'' key
      then (case userHome of Some h \<Rightarrow> path_join [h, trim_prefix ''~/'' key] | None \<Rightarrow> key)
      else resolveLocalPath key baseDir)"

definition resolveLambdaPaths :: "string option \<Rightarrow> lambda_config \<Rightarrow> string \<Rightarrow> lambda_config" where
  "resolveLambdaPaths userHome l baseDir =
     l\<lparr>lc_ssh_private_key := resolve_key_path userHome (lc_ssh_private_key l) baseDir\<rparr>"

definition resolveChinaCloudProviderPaths ::
  "string option \<Rightarrow> china_provider_config \<Rightarrow> string \<Rightarrow> china_provider_config" where
  "resolveChinaCloudProviderPaths userHome p baseDir =
     p\<lparr>cp_ssh_private_key := resolve_key_path userHome (cp_ssh_private_key p) baseDir\<rparr>"

definition resolveChinaCloudPaths :: "string option \<Rightarrow> china_config \<Rightarrow> string \<Rightarrow> china_config" where
  "resolveChinaCloudPaths userHome c baseDir =
     \<lparr>cc_common = resolveChinaCloudProviderPaths userHome (cc_common c) baseDir,
      cc_alibaba = resolveChinaCloudProviderPaths userHome (cc_alibaba c) baseDir,
      cc_huawei = resolveChinaCloudProviderPaths userHome (cc_huawei c) baseDir,
      cc_tencent = resolveChinaCloudProviderPaths userHome (cc_tencent c) baseDir,
      cc_tianyi = resolveChinaCloudProviderPaths userHome (cc_tianyi c) baseDir,
      cc_baidu = resolveChinaCloudProviderPaths userHome (cc_baidu c) baseDir\<rparr>"

section \<open>Defaults\<close>

definition resolveRouting :: "routing_config \<Rightarrow> routing_config" where
  "resolveRouting r = r\<lparr>rg_objective := (if rg_objective r = [] then ''min_cost'' else rg_objective r),
     rg_max_attempts := (if rg_max_attempts r = 0 then 2 else rg_max_attempts r)\<rparr>"

definition resolveGCP :: "gcp_config \<Rightarrow> gcp_config" where
  "resolveGCP g = g\<lparr>gc_location := (if gc_location g = [] then ''us-central1'' else gc_location g),
     gc_machine_type := (if gc_machine_type g = [] then ''n1-standard-4'' else gc_machine_type g),
     gc_boot_disk_type := (if gc_boot_disk_type g = [] then ''pd-ssd'' else gc_boot_disk_type g),
     gc_boot_disk_gb := (if gc_boot_disk_gb g = 0 then 100 else gc_boot_disk_gb g),
     gc_poll_interval := (if gc_poll_interval g = 0 then 30 else gc_poll_interval g)\<rparr>"

definition resolveLambda :: "lambda_config \<Rightarrow> lambda_config" where
  "resolveLambda l = l\<lparr>lc_poll_interval := (if lc_poll_interval l = 0 then 30 else lc_poll_interval l),
     lc_terminate := (if lc_terminate l = None then Some True else lc_terminate l),
     lc_api_timeout := (if lc_api_timeout l = 0 then 30 else lc_api_timeout l),
     lc_ssh_connect_timeout := (if lc_ssh_connect_timeout l = 0 then 10 else lc_ssh_connect_timeout l),
     lc_ssh_ready_timeout := (if lc_ssh_ready_timeout l = 0 then 600 else lc_ssh_ready_timeout l)\<rparr>"

definition mergeChinaCloudProvider ::
  "china_provider_config \<Rightarrow> china_provider_config \<Rightarrow> china_provider_config" where
  "mergeChinaCloudProvider common p = common\<lparr>cp_region := (if cp_region p \<noteq> [] then cp_region p else cp_region common),
     cp_zone := (if cp_zone p \<noteq> [] then cp_zone p else cp_zone common),
     cp_instance_type := (if cp_instance_type p \<noteq> [] then cp_instance_type p else cp_instance_type common),
     cp_image_id := (if cp_image_id p \<noteq> [] then cp_image_id p else cp_image_id common),
     cp_vpc_id := (if cp_vpc_id p \<noteq> [] then cp_vpc_id p else cp_vpc_id common),
     cp_subnet_id := (if cp_subnet_id p \<noteq> [] then cp_subnet_id p else cp_subnet_id common),
     cp_security_group := (if cp_security_group p \<noteq> [] then cp_security_group p else cp_security_group common),
     cp_ssh_key_name := (if cp_ssh_key_name p \<noteq> [] then cp_ssh_key_name p else cp_ssh_key_name common),
     cp_ssh_private_key := (if cp_ssh_private_key p \<noteq> [] then cp_ssh_private_key p else cp_ssh_private_key common),
     cp_ssh_user := (if cp_ssh_user p \<noteq> [] then cp_ssh_user p else cp_ssh_user common),
     cp_endpoint := (if cp_endpoint p \<noteq> [] then cp_endpoint p else cp_endpoint common),
     cp_project_id := (if cp_project_id p \<noteq> [] then cp_project_id p else cp_project_id common),
     cp_account_id := (if cp_account_id p \<noteq> [] then cp_account_id p else cp_account_id common),
     cp_disk_category := (if cp_disk_category p \<noteq> [] then cp_disk_category p else cp_disk_category common),
     cp_disk_gb := (if cp_disk_gb p \<noteq> 0 then cp_disk_gb p else cp_disk_gb common),
     cp_bandwidth := (if cp_bandwidth p \<noteq> 0 then cp_bandwidth p else cp_bandwidth common),
     cp_poll_interval := (if cp_poll_interval p \<noteq> 0 then cp_poll_interval p else cp_poll_interval common),
     cp_terminate := (if cp_terminate p \<noteq> None then cp_terminate p else cp_terminate common),
     cp_keep_on_failure := (if cp_keep_on_failure p then True else cp_keep_on_failure common),
     cp_api_timeout := (if cp_api_timeout p \<noteq> 0 then cp_api_timeout p else cp_api_timeout common),
     cp_ssh_connect_timeout := (if cp_ssh_connect_timeout p \<noteq> 0 then cp_ssh_connect_timeout p else cp_ssh_connect_timeout common),
     cp_ssh_ready_timeout := (if cp_ssh_ready_timeout p \<noteq> 0 then cp_ssh_ready_timeout p else cp_ssh_ready_timeout common),
     cp_estimate_usd := (if cp_estimate_usd p \<noteq> 0 then cp_estimate_usd p else cp_estimate_usd common)\<rparr>"

definition resolveChinaCloudProvider :: "china_provider_config \<Rightarrow> china_provider_config" where
  "resolveChinaCloudProvider p = p\<lparr>cp_ssh_user := (if cp_ssh_user p = [] then ''root'' else cp_ssh_user p),
     cp_poll_interval := (if cp_poll_interval p = 0 then 30 else cp_poll_interval p),
     cp_terminate := (if cp_terminate p = None then Some True else cp_terminate p),
     cp_api_timeout := (if cp_api_timeout p = 0 then 30 else cp_api_timeout p),
     cp_ssh_connect_timeout := (if cp_ssh_connect_timeout p = 0 then 10 else cp_ssh_connect_timeout p),
     cp_ssh_ready_timeout := (if cp_ssh_ready_timeout p = 0 then 600 else cp_ssh_ready_timeout p)\<rparr>"

definition resolveChinaCloud :: "china_config \<Rightarrow> china_config" where
  "resolveChinaCloud c = c\<lparr>
     cc_alibaba := resolveChinaCloudProvider (mergeChinaCloudProvider (cc_common c) (cc_alibaba c)),
     cc_huawei := resolveChinaCloudProvider (mergeChinaCloudProvider (cc_common c) (cc_huawei c)),
     cc_tencent := resolveChinaCloudProvider (mergeChinaCloudProvider (cc_common c) (cc_tencent c)),
     cc_tianyi := resolveChinaCloudProvider (mergeChinaCloudProvider (cc_common c) (cc_tianyi c)),
     cc_baidu := resolveChinaCloudProvider (mergeChinaCloudProvider (cc_common c) (cc_baidu c))\<rparr>"

section \<open>Validation\<close>

definition reasons_error :: "string list \<Rightarrow> gerror option" where
  "reasons_error reasons = (if reasons \<noteq> [] then Some (ErrText (join ''; '' reasons)) else None)"

definition require :: "bool \<Rightarrow> string \<Rightarrow> string list" where
  "require missing reason = (if missing then [reason] else [])"

text \<open>Go ranges over the two settings in any order; here the checkpoint prefix is checked first.\<close>

definition validate_prefix :: "string \<Rightarrow> string \<Rightarrow> gerror option" where
  "validate_prefix name value =
     (if value = [] then None
      else case url_parse value of
        None \<Rightarrow> Some (ErrText (name @ '' must be an object-store URI prefix''))
      | Some u \<Rightarrow>
          if url_scheme u = [] \<or> url_host u = [] then Some (ErrText (name @ '' must be an object-store URI prefix''))
          else if url_scheme u \<in> set [''s3'', ''gs''] then None
          else Some (ErrText (name @ '' only supports s3:// or gs:// prefixes today'')))"

definition validateStagingConfig :: "staging_config \<Rightarrow> gerror option" where
  "validateStagingConfig s =
     (case validate_prefix ''staging.checkpoint_uri_prefix'' (sg_checkpoint_prefix s) of
        Some e \<Rightarrow> Some e | None \<Rightarrow> validate_prefix ''staging.data_uri_prefix'' (sg_data_prefix s))"

definition canPackageForGCP :: "job_spec \<Rightarrow> packaging_config \<Rightarrow> gcp_config \<Rightarrow> bool" where
  "canPackageForGCP job p g =
     (if job_script job = [] then False else if pk_image p \<noteq> [] then True
      else gc_project_id g \<noteq> [] \<and> gc_location g \<noteq> [] \<and> gc_repository g \<noteq> [])"

definition canPackageWithExplicitImage :: "job_spec \<Rightarrow> packaging_config \<Rightarrow> bool" where
  "canPackageWithExplicitImage job p \<longleftrightarrow> job_script job \<noteq> [] \<and> pk_image p \<noteq> []"

definition validateGCPConfig :: "job_spec \<Rightarrow> packaging_config \<Rightarrow> gcp_config \<Rightarrow> gerror option" where
  "validateGCPConfig job p g = reasons_error
     (require (job_image job = [] \<and> \<not> canPackageForGCP job p g)
        ''gcp provider requires job.image or packaging config for job.script''
      @ require (gc_project_id g = []) ''gcp.project_id is required''
      @ require (gc_location g = []) ''gcp.location is required''
      @ require (gc_output_prefix g = []) ''gcp.output_uri_prefix is required'')"

definition registry_auth_reasons :: "(string \<Rightarrow> string) \<Rightarrow> registry_auth_config \<Rightarrow> string list" where
  "registry_auth_reasons getenv ra =
     (if ra_server ra \<noteq> [] \<or> ra_username_env ra \<noteq> [] \<or> ra_password_env ra \<noteq> [] then
        require (ra_server ra = []) ''lambda.registry_auth.server is required when registry auth is configured''
        @ require (ra_username_env ra = []) ''lambda.registry_auth.username_env is required when registry auth is configured''
        @ require (ra_password_env ra = []) ''lambda.registry_auth.password_env is required when registry auth is configured''
        @ require (ra_username_env ra \<noteq> [] \<and> getenv (ra_username_env ra) = [])
            (''lambda.registry_auth.username_env '' @ ra_username_env ra @ '' is empty or unset'')
        @ require (ra_password_env ra \<noteq> [] \<and> getenv (ra_password_env ra) = [])
            (''lambda.registry_auth.password_env '' @ ra_password_env ra @ '' is empty or unset'')
      else [])"

definition validateLambdaConfig ::
  "(string \<Rightarrow> string) \<Rightarrow> job_spec \<Rightarrow> packaging_config \<Rightarrow> lambda_config \<Rightarrow> gerror option" where
  "validateLambdaConfig getenv job p l = reasons_error
     (require (job_image job = [] \<and> \<not> canPackageWithExplicitImage job p)
        ''lambda provider requires job.image or packaging.image for job.script''
      @ require (job_script job \<noteq> [] \<and> \<not> canPackageWithExplicitImage job p)
        ''lambda provider v1 does not package local scripts; provide job.image''
      @ require (lc_region l = []) ''lambda.region_name is required''
      @ require (lc_instance_type l = []) ''lambda.instance_type_name is required''
      @ require (lc_ssh_key_name l = []) ''lambda.ssh_key_name is required''
      @ require (lc_ssh_private_key l = []) ''lambda.ssh_private_key is required''
      @ registry_auth_reasons getenv (lc_registry_auth l))"

definition providerConfigKey :: "string \<Rightarrow> string" where
  "providerConfigKey provider = replace_char (CHR ''-'') (CHR ''_'') provider"

definition validateChinaCloudConfig :: "string \<Rightarrow> job_spec \<Rightarrow> china_provider_config \<Rightarrow> gerror option" where
  "validateChinaCloudConfig provider job cfg =
     (let key = (\<lambda>field. ''china_cloud.'' @ providerConfigKey provider @ field) in reasons_error
     (require (job_image job = []) (provider @ '' provider requires job.image'')
      @ require (job_script job \<noteq> []) (provider @ '' provider v1 does not package local scripts; provide job.image'')
      @ require (cp_region cfg = []) (key ''.region is required'')
      @ require (cp_instance_type cfg = []) (key ''.instance_type is required'')
      @ require (cp_image_id cfg = []) (key ''.image_id is required'')
      @ require (cp_vpc_id cfg = []) (key ''.vpc_id is required'')
      @ require (cp_subnet_id cfg = []) (key ''.subnet_id is required'')
      @ require (provider = ''huawei-cloud'' \<and> cp_project_id cfg = [] \<and> cp_account_id cfg = [])
          ''china_cloud.huawei_cloud.project_id is required''
      @ require (cp_security_group cfg = []) (key ''.security_group_id is required'')
      @ require (cp_ssh_key_name cfg = []) (key ''.ssh_key_name is required'')
      @ require (cp_ssh_private_key cfg = []) (key ''.ssh_private_key is required'')))"

definition validateProviderConfig ::
  "(string \<Rightarrow> string) \<Rightarrow> string \<Rightarrow> job_spec \<Rightarrow> packaging_config \<Rightarrow> gcp_config \<Rightarrow> lambda_config \<Rightarrow> china_config \<Rightarrow> gerror option" where
  "validateProviderConfig getenv provider job p g l c =
     (if provider = ''gcp'' then validateGCPConfig job p g
      else if provider = ''lambda'' then validateLambdaConfig getenv job p l
      else if provider = ''alibaba-cloud'' then validateChinaCloudConfig provider job (cc_alibaba c)
      else if provider = ''huawei-cloud'' then validateChinaCloudConfig provider job (cc_huawei c)
      else if provider = ''tencent-cloud'' then validateChinaCloudConfig provider job (cc_tencent c)
      else if provider = ''tianyi-cloud'' then validateChinaCloudConfig provider job (cc_tianyi c)
      else if provider = ''baidu-ai-cloud'' then validateChinaCloudConfig provider job (cc_baidu c)
      else None)"

definition validateResolvedConfig ::
  "(string \<Rightarrow> string) \<Rightarrow> string \<Rightarrow> job_spec \<Rightarrow> staging_config \<Rightarrow> packaging_config \<Rightarrow> gcp_config \<Rightarrow> lambda_config
    \<Rightarrow> china_config \<Rightarrow> gerror option" where
  "validateResolvedConfig getenv provider job s p g l c =
     (case validateStagingConfig s of Some e \<Rightarrow> Some e
      | None \<Rightarrow> validateProviderConfig getenv provider job p g l c)"

section \<open>Loading\<close>

text \<open>The zero value of the configuration, which an absent file stands for.\<close>

definition zero_china_provider :: china_provider_config where
  "zero_china_provider = \<lparr>cp_region = [], cp_zone = [], cp_instance_type = [], cp_image_id = [],
    cp_vpc_id = [], cp_subnet_id = [], cp_security_group = [], cp_ssh_key_name = [], cp_ssh_private_key = [],
    cp_ssh_user = [], cp_endpoint = [], cp_project_id = [], cp_account_id = [], cp_disk_category = [],
    cp_disk_gb = 0, cp_bandwidth = 0, cp_poll_interval = 0, cp_terminate = None, cp_keep_on_failure = False,
    cp_api_timeout = 0, cp_ssh_connect_timeout = 0, cp_ssh_ready_timeout = 0, cp_estimate_usd = 0\<rparr>"

definition zero_file :: train_file where
  "zero_file = \<lparr>cf_job = \<lparr>jc_name = [], jc_script = [], jc_image = [], jc_command = [],
    jc_args = [], jc_env = [], jc_work_dir = []\<rparr>, cf_data = \<lparr>dc_inputs = [], dc_bundle =
    \<lparr>bc_max_size_mb = 0, bc_require_override = False\<rparr>\<rparr>, cf_staging =
    \<lparr>sg_checkpoint_prefix = [], sg_data_prefix = []\<rparr>, cf_packaging = \<lparr>pk_dockerfile =
    [], pk_context = [], pk_image = [], pk_platform = []\<rparr>, cf_routing = \<lparr>rg_mode = [],
    rg_objective = [], rg_max_run_cost = 0, rg_max_attempts = 0\<rparr>, cf_sizing = \<lparr>sc_probe =
    \<lparr>pr_command = [], pr_output = []\<rparr>, sc_hints = \<lparr>hi_required_vram = 0, hi_dataset_gb =
    0, hi_parameters_b = 0, hi_artifact_gb = 0, hi_batch_size = 0, hi_grad_accum = 0, hi_precision = [],
    hi_optimizer = [], hi_sequence_length = 0, hi_image_width = 0, hi_image_height = 0, hi_expected_steps =
    0\<rparr>\<rparr>, cf_hardware = \<lparr>hwc_constraints = \<lparr>hw_max_gpus = 0, hw_families = [],
    hw_min_vram = 0, hw_regions = [], hw_allow_spot = False, hw_require_on_demand = False\<rparr>, hwc_manual
    = \<lparr>mh_provider = [], mh_shape_id = [], mh_machine_type = [], mh_region = []\<rparr>\<rparr>,
    cf_mock = [], cf_gcp = \<lparr>gc_project_id = [], gc_location = [], gc_output_prefix = [],
    gc_machine_type = [], gc_accelerator_type = [], gc_accelerator_count = 0, gc_boot_disk_type = [],
    gc_boot_disk_gb = 0, gc_service_account = [], gc_network = [], gc_poll_interval = 0, gc_estimate_usd = 0,
    gc_repository = []\<rparr>, cf_lambda = \<lparr>lc_region = [], lc_instance_type = [], lc_ssh_key_name =
    [], lc_ssh_private_key = [], lc_image_family = [], lc_registry_auth = \<lparr>ra_server = [],
    ra_username_env = [], ra_password_env = []\<rparr>, lc_poll_interval = 0, lc_terminate = None,
    lc_keep_on_failure = False, lc_api_timeout = 0, lc_ssh_connect_timeout = 0, lc_ssh_ready_timeout =
    0\<rparr>, cf_china = \<lparr>cc_common = zero_china_provider, cc_alibaba = zero_china_provider,
    cc_huawei = zero_china_provider, cc_tencent = zero_china_provider, cc_tianyi = zero_china_provider,
    cc_baidu = zero_china_provider\<rparr>\<rparr>"


text \<open>\<open>home.Resolve\<close>: the flag, the two environment variables, then a directory of the user.\<close>

definition home_resolve :: "(string \<Rightarrow> string) \<Rightarrow> string option \<Rightarrow> (string \<Rightarrow> bool) \<Rightarrow> string \<Rightarrow> gerror + string" where
  "home_resolve getenv userHome exists flag =
     (if flag \<noteq> [] then Inr flag
      else if getenv ''SWITCHBOARD_CLI_HOME'' \<noteq> [] then Inr (getenv ''SWITCHBOARD_CLI_HOME'')
      else if getenv ''ORCHESTRATOR_CLI_HOME'' \<noteq> [] then Inr (getenv ''ORCHESTRATOR_CLI_HOME'')
      else case userHome of
        None \<Rightarrow> Inl (ErrWrap ''resolve user home: '' (ErrText ''$HOME is not defined''))
      | Some h \<Rightarrow>
          (let legacy = path_join [h, ''.orchestrator-cli''] in
           if exists legacy then Inr legacy else Inr (path_join [h, ''.switchboard-cli''])))"

definition job_of_file :: "train_file \<Rightarrow> train_flags \<Rightarrow> job_spec" where
  "job_of_file cfg flags =
     (let jc = cf_job cfg in
      \<lparr>job_name = jc_name jc, job_script = (if tf_script flags \<noteq> [] then tf_script flags else jc_script jc),
       job_image = jc_image jc, job_command = jc_command jc,
       job_args = (if tf_args flags \<noteq> [] then tf_args flags else jc_args jc),
       job_env = jc_env jc, job_data = dc_inputs (cf_data cfg), job_work_dir = jc_work_dir jc\<rparr>)"

definition job_defaults :: "job_spec \<Rightarrow> job_spec" where
  "job_defaults job =
     (let job = (if job_name job = []
        then job\<lparr>job_name := path_base (if job_script job \<noteq> [] then job_script job else job_image job)\<rparr> else job)
      in if job_work_dir job = [] then job\<lparr>job_work_dir := ''.''\<rparr> else job)"

record system_env =
  se_getenv :: "string \<Rightarrow> string"
  se_user_home :: "string option"
  se_exists :: "string \<Rightarrow> bool"

text \<open>Paths are relative to the directory of the configuration file, except the script of a flag.\<close>

definition resolve_job :: "job_spec \<Rightarrow> train_flags \<Rightarrow> string \<Rightarrow> job_spec" where
  "resolve_job job flags configDir =
     (if configDir \<noteq> [] then
        (if tf_script flags \<noteq> [] then (resolveJobPaths job configDir)\<lparr>job_script := job_script job\<rparr>
         else resolveJobPaths job configDir)
      else job)"

definition resolve_file :: "system_env \<Rightarrow> train_file \<Rightarrow> string \<Rightarrow> train_file" where
  "resolve_file env cfg configDir =
     (if configDir \<noteq> [] then
        cfg\<lparr>cf_packaging := resolvePackagingPaths (cf_packaging cfg) configDir,
            cf_sizing := resolveSizingPaths (cf_sizing cfg) configDir,
            cf_lambda := resolveLambdaPaths (se_user_home env) (cf_lambda cfg) configDir,
            cf_china := resolveChinaCloudPaths (se_user_home env) (cf_china cfg) configDir\<rparr>
      else cfg)"

definition resolved_settings :: "train_flags \<Rightarrow> string \<Rightarrow> job_spec \<Rightarrow> train_file \<Rightarrow> string \<Rightarrow> resolved_config" where
  "resolved_settings flags provider job cfg home =
     (let bundle = dc_bundle (cf_data cfg);
          maxSizeMB = (if bc_max_size_mb bundle = 0 then 512 else bc_max_size_mb bundle);
          requireOverride = (if tf_config_path flags = [] \<or> bc_max_size_mb bundle = 0 then True
                             else bc_require_override bundle)
      in \<lparr>rs_provider = provider, rs_job = job, rs_staging = cf_staging cfg,
          rs_packaging = resolvePackaging (cf_packaging cfg), rs_routing = resolveRouting (cf_routing cfg),
          rs_sizing = cf_sizing cfg, rs_hardware = cf_hardware cfg, rs_mock = cf_mock cfg,
          rs_gcp = resolveGCP (cf_gcp cfg), rs_lambda = resolveLambda (cf_lambda cfg),
          rs_china = resolveChinaCloud (cf_china cfg),
          rs_bundle_max_bytes = wrap64 (maxSizeMB * 1024 * 1024),
          rs_require_override = requireOverride, rs_allow_large = tf_allow_large flags, rs_home = home\<rparr>)"

text \<open>\<open>load\<close> is \<open>LoadFile\<close>. The pair is the Go result: the
  settings are returned together with the error of their validation.\<close>

definition LoadTrain ::
  "system_env \<Rightarrow> (string \<Rightarrow> gerror + train_file) \<Rightarrow> train_flags
    \<Rightarrow> gerror + (resolved_config \<times> gerror option)" where
  "LoadTrain env load flags =
     bindr (if tf_config_path flags \<noteq> [] then load (tf_config_path flags) else Inr zero_file) (\<lambda>cfg0.
     let configDir = (if tf_config_path flags \<noteq> [] then path_dir (tf_config_path flags) else []);
         provider = (if tf_provider flags = [] then ''local'' else tf_provider flags);
         job0 = job_of_file cfg0 flags
     in if job_script job0 = [] \<and> job_image job0 = [] then Inl (ErrText ''script or image is required'')
     else
       let job = resolve_job (job_defaults job0) flags configDir; cfg = resolve_file env cfg0 configDir
       in bindr (home_resolve (se_getenv env) (se_user_home env) (se_exists env) (tf_home flags)) (\<lambda>home.
          Inr (resolved_settings flags provider job cfg home,
               validateResolvedConfig (se_getenv env) provider job (cf_staging cfg)
                 (resolvePackaging (cf_packaging cfg)) (resolveGCP (cf_gcp cfg)) (resolveLambda (cf_lambda cfg))
                 (resolveChinaCloud (cf_china cfg)))))"

section \<open>Sizing profiles\<close>

record profile =
  pf_required_vram :: rat
  pf_peak_vram :: rat
  pf_parameters_b :: rat
  pf_artifact_gb :: rat
  pf_batch_size :: int
  pf_grad_accum :: int
  pf_precision :: string
  pf_optimizer :: string
  pf_expected_steps :: int

definition ApplyProfile :: "hints_config \<Rightarrow> profile \<Rightarrow> hints_config" where
  "ApplyProfile h p = h\<lparr>
     hi_required_vram := (if pf_required_vram p > 0 then pf_required_vram p
       else if pf_peak_vram p > 0 then pf_peak_vram p else hi_required_vram h),
     hi_parameters_b := (if pf_parameters_b p > 0 then pf_parameters_b p else hi_parameters_b h),
     hi_artifact_gb := (if pf_artifact_gb p > 0 then pf_artifact_gb p else hi_artifact_gb h),
     hi_batch_size := (if pf_batch_size p > 0 then pf_batch_size p else hi_batch_size h),
     hi_grad_accum := (if pf_grad_accum p > 0 then pf_grad_accum p else hi_grad_accum h),
     hi_precision := (if pf_precision p \<noteq> [] then pf_precision p else hi_precision h),
     hi_optimizer := (if pf_optimizer p \<noteq> [] then pf_optimizer p else hi_optimizer h),
     hi_expected_steps := (if pf_expected_steps p > 0 then pf_expected_steps p else hi_expected_steps h)\<rparr>"

section \<open>What resolution guarantees\<close>

text \<open>Resolving the defaults of a configuration again changes nothing: the loaded settings are
  resolved once for the run and once more for their validation.\<close>

theorem defaults_idempotent:
  "resolveRouting (resolveRouting r) = resolveRouting r
   \<and> resolveGCP (resolveGCP g) = resolveGCP g
   \<and> resolveLambda (resolveLambda l) = resolveLambda l
   \<and> resolveChinaCloudProvider (resolveChinaCloudProvider p) = resolveChinaCloudProvider p
   \<and> resolvePackaging (resolvePackaging k) = resolvePackaging k"
  by (simp add: resolveRouting_def resolveGCP_def resolveLambda_def resolveChinaCloudProvider_def resolvePackaging_def)

lemma rooted_stack_path: "rooted (stack_path True st)"
  by (simp add: stack_path_def rooted_def)

lemma rooted_join: "rooted h \<Longrightarrow> rooted (path_join (h # es))"
proof -
  assume h: "rooted h"
  then obtain h' where h': "h = CHR ''/'' # h'" by (auto simp: rooted_def prefix_def)
  have "\<exists>j. join ''/'' (h # es) = CHR ''/'' # j" by (cases es) (simp_all add: h')
  then have "rooted (join ''/'' (h # es))" by (auto simp: rooted_def)
  with h' show ?thesis by (simp add: path_join_def)
qed

lemma resolveLocalPath_rooted:
  "rooted baseDir \<Longrightarrow> path \<noteq> [] \<Longrightarrow> rooted (resolveLocalPath path baseDir)"
  by (auto simp: resolveLocalPath_def rooted_join rooted_def [of "[]"])

lemma rooted_path_dir: "rooted p \<Longrightarrow> rooted (path_dir p)"
proof -
  assume "rooted p"
  then obtain p' where p: "p = CHR ''/'' # p'" by (auto simp: rooted_def prefix_def)
  then obtain d b where d: "cut_last (CHR ''/'') p = Some (d, b)" by (auto simp: cut_last_def)
  from cut_last_Some(1) [OF this] p have "rooted (d @ ''/'')" by (cases d) (auto simp: rooted_def)
  with d show ?thesis by (simp add: path_dir_def)
qed

lemma reasons_error_None: "reasons_error rs = None \<longleftrightarrow> rs = []"
  by (simp add: reasons_error_def)

lemma require_Nil [simp]: "require missing reason = [] \<longleftrightarrow> \<not> missing"
  by (simp add: require_def)

lemma LoadTrain_result:
  assumes "LoadTrain env load flags = Inr (r, err)"
  obtains cfg0 where
    "rs_job r = resolve_job (job_defaults (job_of_file cfg0 flags)) flags
       (if tf_config_path flags \<noteq> [] then path_dir (tf_config_path flags) else [])"
    "err = validateResolvedConfig (se_getenv env) (rs_provider r) (rs_job r) (rs_staging r)
        (rs_packaging r) (rs_gcp r) (rs_lambda r) (rs_china r)"
    "\<exists>c. rs_routing r = resolveRouting c"
proof -
  let ?dir = "if tf_config_path flags \<noteq> [] then path_dir (tf_config_path flags) else []"
  let ?prov = "if tf_provider flags = [] then ''local'' else tf_provider flags"
  from assms obtain x home where
    r: "r = resolved_settings flags ?prov (resolve_job (job_defaults (job_of_file x flags)) flags ?dir)
        (resolve_file env x ?dir) home"
    and err: "err = validateResolvedConfig (se_getenv env) ?prov
        (resolve_job (job_defaults (job_of_file x flags)) flags ?dir) (cf_staging (resolve_file env x ?dir))
        (resolvePackaging (cf_packaging (resolve_file env x ?dir))) (resolveGCP (cf_gcp (resolve_file env x ?dir)))
        (resolveLambda (cf_lambda (resolve_file env x ?dir))) (resolveChinaCloud (cf_china (resolve_file env x ?dir)))"
    unfolding LoadTrain_def Let_def bindr_eq_Inr by (elim exE conjE) (auto simp: bindr_eq_Inr split: if_split_asm)
  show thesis
  proof (rule that [of x])
    show "rs_job r = resolve_job (job_defaults (job_of_file x flags)) flags ?dir"
      by (simp add: r resolved_settings_def Let_def)
    show "err = validateResolvedConfig (se_getenv env) (rs_provider r) (rs_job r) (rs_staging r)
        (rs_packaging r) (rs_gcp r) (rs_lambda r) (rs_china r)"
      unfolding err by (simp add: r resolved_settings_def Let_def)
    show "\<exists>c. rs_routing r = resolveRouting c"
      by (rule exI [of _ "cf_routing (resolve_file env x ?dir)"]) (simp add: r resolved_settings_def Let_def)
  qed
qed

definition provider_ready :: "resolved_config \<Rightarrow> bool" where
  "provider_ready r \<longleftrightarrow>
     (rs_provider r = ''gcp'' \<longrightarrow>
        (job_image (rs_job r) \<noteq> [] \<or> canPackageForGCP (rs_job r) (rs_packaging r) (rs_gcp r))
        \<and> gc_project_id (rs_gcp r) \<noteq> [] \<and> gc_output_prefix (rs_gcp r) \<noteq> [])
     \<and> (rs_provider r = ''lambda'' \<longrightarrow>
        (job_image (rs_job r) \<noteq> [] \<or> canPackageWithExplicitImage (rs_job r) (rs_packaging r))
        \<and> lc_region (rs_lambda r) \<noteq> [] \<and> lc_instance_type (rs_lambda r) \<noteq> []
        \<and> lc_ssh_key_name (rs_lambda r) \<noteq> [] \<and> lc_ssh_private_key (rs_lambda r) \<noteq> [])
     \<and> (\<forall>(name, cfg) \<in> set [(''alibaba-cloud'', cc_alibaba (rs_china r)), (''huawei-cloud'', cc_huawei (rs_china r)),
          (''tencent-cloud'', cc_tencent (rs_china r)), (''tianyi-cloud'', cc_tianyi (rs_china r)),
          (''baidu-ai-cloud'', cc_baidu (rs_china r))].
        rs_provider r = name \<longrightarrow> job_image (rs_job r) \<noteq> [] \<and> job_script (rs_job r) = [] \<and> cp_region cfg \<noteq> []
          \<and> cp_instance_type cfg \<noteq> [] \<and> cp_image_id cfg \<noteq> [] \<and> cp_vpc_id cfg \<noteq> [] \<and> cp_subnet_id cfg \<noteq> []
          \<and> cp_security_group cfg \<noteq> [] \<and> cp_ssh_key_name cfg \<noteq> [] \<and> cp_ssh_private_key cfg \<noteq> [])"

text \<open>Settings that are loaded without an error are enough for the provider they name: an image or
  the means to build one, and every identifier that the provider's API needs; a staging prefix is
  a \<open>gs://\<close> or \<open>s3://\<close> URI with a bucket; and routing has an objective and a bound on attempts.\<close>

theorem loaded_config_ready:
  assumes "LoadTrain env load flags = Inr (r, None)"
  shows "provider_ready r
    \<and> (\<forall>p \<in> {sg_checkpoint_prefix (rs_staging r), sg_data_prefix (rs_staging r)}. p \<noteq> [] \<longrightarrow>
         (\<exists>u. url_parse p = Some u \<and> url_scheme u \<in> {''s3'', ''gs''} \<and> url_host u \<noteq> []))
    \<and> rg_max_attempts (rs_routing r) \<noteq> 0 \<and> rg_objective (rs_routing r) \<noteq> []"
proof -
  from LoadTrain_result [OF assms] obtain c where
    valid: "validateResolvedConfig (se_getenv env) (rs_provider r) (rs_job r) (rs_staging r)
        (rs_packaging r) (rs_gcp r) (rs_lambda r) (rs_china r) = None"
    and routing: "rs_routing r = resolveRouting c"
    by metis
  from valid have staging: "validateStagingConfig (rs_staging r) = None"
    and prov: "validateProviderConfig (se_getenv env) (rs_provider r) (rs_job r) (rs_packaging r) (rs_gcp r)
        (rs_lambda r) (rs_china r) = None"
    by (auto simp: validateResolvedConfig_def split: option.splits)
  have pre: "validate_prefix n p = None \<Longrightarrow> p \<noteq> [] \<Longrightarrow>
      \<exists>u. url_parse p = Some u \<and> url_scheme u \<in> {''s3'', ''gs''} \<and> url_host u \<noteq> []" for n p
    by (auto simp: validate_prefix_def split: option.splits if_splits)
  have "provider_ready r"
    using prov unfolding provider_ready_def
    by (auto simp: validateProviderConfig_def validateGCPConfig_def validateLambdaConfig_def
        validateChinaCloudConfig_def reasons_error_None Let_def)
  moreover have "\<forall>p \<in> {sg_checkpoint_prefix (rs_staging r), sg_data_prefix (rs_staging r)}. p \<noteq> [] \<longrightarrow>
         (\<exists>u. url_parse p = Some u \<and> url_scheme u \<in> {''s3'', ''gs''} \<and> url_host u \<noteq> [])"
    using staging pre by (auto simp: validateStagingConfig_def split: option.splits)
  ultimately show ?thesis using routing by (simp add: resolveRouting_def)
qed

text \<open>With a configuration file at an absolute path, no local path of the job depends on the
  directory the program is started in: the working directory, the script of the file and every
  local data source are absolute.\<close>

theorem loaded_paths_absolute:
  assumes "LoadTrain env load flags = Inr (r, err)" and "rooted (tf_config_path flags)"
  shows "rooted (job_work_dir (rs_job r))
    \<and> (tf_script flags = [] \<longrightarrow> job_script (rs_job r) = [] \<or> rooted (job_script (rs_job r)))
    \<and> (\<forall>d \<in> set (job_data (rs_job r)). isPathLikeSource (di_source d) \<longrightarrow> di_source d = [] \<or> rooted (di_source d))"
proof -
  let ?dir = "path_dir (tf_config_path flags)"
  have path: "tf_config_path flags \<noteq> []" using assms(2) by (auto simp: rooted_def)
  have dir: "rooted ?dir" using assms(2) by (rule rooted_path_dir)
  then have ne: "?dir \<noteq> []" by (auto simp: rooted_def)
  from LoadTrain_result [OF assms(1)] path obtain job where
    job: "rs_job r = resolve_job (job_defaults job) flags ?dir" by (metis (full_types))
  have "job_work_dir (job_defaults job) \<noteq> []" by (simp add: job_defaults_def Let_def)
  then have "rooted (job_work_dir (rs_job r))"
    using dir ne by (simp add: job resolve_job_def resolveJobPaths_def resolveLocalPath_rooted)
  moreover have "tf_script flags = [] \<longrightarrow> job_script (rs_job r) = [] \<or> rooted (job_script (rs_job r))"
    using dir ne resolveLocalPath_rooted [OF dir]
    by (auto simp: job resolve_job_def resolveJobPaths_def) (metis resolveLocalPath_def)
  moreover have "\<forall>d \<in> set (job_data (rs_job r)). isPathLikeSource (di_source d) \<longrightarrow> di_source d = [] \<or> rooted (di_source d)"
    using dir ne resolveLocalPath_rooted [OF dir]
    by (auto simp: job resolve_job_def resolveJobPaths_def) (metis resolveLocalPath_def)+
  ultimately show ?thesis by blast
qed

text \<open>Training a script on the machine itself, with a file that holds only defaults.\<close>

definition sample_env :: system_env where
  "sample_env = \<lparr>se_getenv = (\<lambda>_. []), se_user_home = Some ''/home/u'', se_exists = (\<lambda>_. False)\<rparr>"

definition sample_flags :: train_flags where
  "sample_flags = \<lparr>tf_config_path = ''/proj/switchboard.yaml'', tf_provider = ''local'', tf_script = ''train.py'',
     tf_args = [], tf_allow_large = False, tf_home = ''/home/u/.sb''\<rparr>"

definition sample_resolved :: resolved_config where
  "sample_resolved = resolved_settings sample_flags ''local''
     (resolve_job (job_defaults (job_of_file zero_file sample_flags)) sample_flags ''/proj'')
     (resolve_file sample_env zero_file ''/proj'') ''/home/u/.sb''"

lemma sample_load: "LoadTrain sample_env (\<lambda>_. Inr zero_file) sample_flags = Inr (sample_resolved, None)"
proof -
  have "path_dir (tf_config_path sample_flags) = ''/proj''" by code_simp
  moreover have "tf_config_path sample_flags \<noteq> []" "tf_provider sample_flags = ''local''"
    "tf_home sample_flags = ''/home/u/.sb''" "job_script (job_of_file zero_file sample_flags) \<noteq> []"
    by (simp_all add: sample_flags_def job_of_file_def Let_def)
  moreover have "cf_staging (resolve_file sample_env zero_file ''/proj'') = \<lparr>sg_checkpoint_prefix = [], sg_data_prefix = []\<rparr>"
    by (simp add: resolve_file_def zero_file_def)
  ultimately show ?thesis
    by (simp add: LoadTrain_def home_resolve_def sample_resolved_def validateResolvedConfig_def
        validateStagingConfig_def validate_prefix_def validateProviderConfig_def Let_def)
qed

lemma loaded_config_ready_witness: "provider_ready sample_resolved"
  using loaded_config_ready [OF sample_load] by blast

lemma loaded_paths_absolute_witness: "rooted (job_work_dir (rs_job sample_resolved))"
proof -
  have "rooted (tf_config_path sample_flags)" by (simp add: rooted_def sample_flags_def)
  from loaded_paths_absolute [OF sample_load this] show ?thesis by blast
qed

end
