(* ===== verification/Packaging.thy ===== *)
theory Packaging
  imports GoFiles
begin

text \<open>
  \<open>internal/packaging/docker.go\<close>: building and pushing the image of a job. Running a command is a
  parameter; the commands that were run are recorded in their order. An error of a command is not
  one of a provider, so wrapping it keeps its text. A missing executable is known by the text of
  \<open>exec.ErrNotFound\<close>, which every such error holds. Image names are read byte by byte: a rune
  outside ASCII would give one dash, not one for each of its bytes.
\<close>

record image_config =
  ic_dockerfile :: string
  ic_context :: string
  ic_image :: string
  ic_platform :: string

type_synonym command_runner = "string \<Rightarrow> string list \<Rightarrow> gerror option"

definition platform_byte :: "char \<Rightarrow> bool" where
  "platform_byte c \<longleftrightarrow> is_alnum c \<or> c \<in> set ''._-''"

definition validateDockerPlatform :: "string \<Rightarrow> gerror option" where
  "validateDockerPlatform platform =
     (if trim_space platform = [] then None
      else if list_ex (\<lambda>c. c \<in> set ([CHR '' '', CHR 0x09, CHR 0x0D, CHR 0x0A])) platform
      then Some (ErrText (''packaging platform '' @ quote platform @ '' must not contain whitespace''))
      else
        (let parts = split_char (CHR ''/'') platform in
         if length parts < 2 \<or> length parts > 3 \<or> parts ! 0 = [] \<or> parts ! 1 = []
         then Some (ErrText (''packaging platform '' @ quote platform
           @ '' must use os/arch or os/arch/variant format, such as linux/amd64''))
         else if list_ex (\<lambda>part. trim platform_byte part \<noteq> []) parts
         then Some (ErrText (''packaging platform '' @ quote platform @ '' contains unsupported characters''))
         else None))"

definition dockerBuildGuidance :: "gerror \<Rightarrow> string \<Rightarrow> string" where
  "dockerBuildGuidance err platform =
     (let lower = to_lower (error_string err); has = (\<lambda>s. sublist s lower) in
      if has ''executable file not found'' \<or> has ''no such file or directory''
      then ''Docker executable was not found; install Docker or make sure docker is on PATH''
      else if has ''cannot connect to the docker daemon'' \<or> has ''docker daemon'' \<or> has ''is the docker daemon running''
      then ''verify Docker Desktop or the Docker daemon is running''
      else if platform \<noteq> [] \<and> (has ''no match for platform'' \<or> has ''unsupported platform''
          \<or> (has ''platform'' \<and> has ''not found''))
      then ''verify platform '' @ platform @ '' is supported by the Docker builder and base image''
      else if platform \<noteq> []
      then ''verify Docker is installed, the daemon is running, and platform '' @ platform @ '' is supported''
      else ''verify Docker is installed and the daemon is running'')"

definition dockerPushGuidance :: "gerror \<Rightarrow> string" where
  "dockerPushGuidance err =
     (let lower = to_lower (error_string err); has = (\<lambda>s. sublist s lower) in
      if has ''executable file not found'' \<or> has ''no such file or directory''
      then ''Docker executable was not found; install Docker or make sure docker is on PATH''
      else if has ''denied'' \<or> has ''unauthorized'' \<or> has ''authentication''
      then ''verify registry credentials and repository write access''
      else ''verify registry credentials and repository write access; for Artifact Registry, run ''
        @ ''gcloud auth configure-docker <location>-docker.pkg.dev'')"

text \<open>The arguments of the build, or why there is none: every check before a command is run.\<close>

definition build_args :: "files \<Rightarrow> string \<Rightarrow> image_config \<Rightarrow> gerror + string list" where
  "build_args fl cwd cfg =
     (if ic_image cfg = [] then Inl (ErrText ''packaging image is required'')
      else case validateDockerPlatform (ic_platform cfg) of Some e \<Rightarrow> Inl e
      | None \<Rightarrow>
          (let ctx = (if ic_context cfg = [] then ''.'' else ic_context cfg); contextDir = path_abs cwd ctx in
           case fl_stat fl contextDir of
             Inl e \<Rightarrow> Inl (ErrWrap (''packaging context '' @ quote ctx @ '' is not readable: '') e)
           | Inr info \<Rightarrow>
               if \<not> is_dir info then Inl (ErrText (''packaging context '' @ quote ctx @ '' must be a directory''))
               else
                 (let args = ''build'' # (if ic_platform cfg \<noteq> [] then [''--platform'', ic_platform cfg] else []);
                      tail_args = [''-t'', ic_image cfg, contextDir]
                  in if ic_dockerfile cfg = [] then Inr (args @ tail_args)
                     else
                       (let dockerfile = (if rooted (ic_dockerfile cfg) then ic_dockerfile cfg
                              else path_join [contextDir, ic_dockerfile cfg])
                        in case fl_stat fl dockerfile of
                             Inl e \<Rightarrow> Inl (ErrWrap (''packaging dockerfile '' @ quote (ic_dockerfile cfg) @ '' is not readable: '') e)
                           | Inr _ \<Rightarrow> Inr (args @ [''-f'', dockerfile] @ tail_args)))))"

definition BuildAndPush ::
  "files \<Rightarrow> string \<Rightarrow> command_runner \<Rightarrow> image_config \<Rightarrow> (string \<times> string list) list \<times> (gerror + string)" where
  "BuildAndPush fl cwd run cfg =
     (case build_args fl cwd cfg of
        Inl e \<Rightarrow> ([], Inl e)
      | Inr args \<Rightarrow>
          let push = [''push'', ic_image cfg] in
          (case run ''docker'' args of
             Some e \<Rightarrow> ([(''docker'', args)], Inl (ErrText (''docker build failed for '' @ ic_image cfg @ '': ''
               @ error_string e @ ''; '' @ dockerBuildGuidance e (ic_platform cfg))))
           | None \<Rightarrow>
               (case run ''docker'' push of
                  Some e \<Rightarrow> ([(''docker'', args), (''docker'', push)], Inl (ErrText (''docker push failed for '' @ ic_image cfg
                    @ '': '' @ error_string e @ ''; '' @ dockerPushGuidance e)))
                | None \<Rightarrow> ([(''docker'', args), (''docker'', push)], Inr (ic_image cfg)))))"

definition image_part_byte :: "char \<Rightarrow> char" where
  "image_part_byte c = (if is_lower c \<or> is_digit c \<or> c \<in> set ''-_.'' then c else CHR ''-'')"

definition safeImagePart :: "string \<Rightarrow> string" where
  "safeImagePart value =
     (let out = trim (\<lambda>c. c \<in> set ''.-_'') (map image_part_byte (to_lower value)) in
      if out = [] then ''run'' else out)"

definition ArtifactRegistryImage :: "string \<Rightarrow> string \<Rightarrow> string \<Rightarrow> string \<Rightarrow> gerror + string" where
  "ArtifactRegistryImage location0 projectID0 repository0 runID0 =
     (let location = trim_space location0; projectID = trim_space projectID0;
          repository = trim (\<lambda>c. c = CHR ''/'') (trim_space repository0); runID = trim_space runID0
      in if location = [] \<or> projectID = [] \<or> repository = [] \<or> runID = []
         then Inl (ErrText ''location, project id, repository, and run id are required to derive Artifact Registry image'')
         else Inr (location @ ''-docker.pkg.dev/'' @ projectID @ ''/'' @ repository @ ''/switchboard-cli-''
           @ safeImagePart runID @ '':latest''))"

section \<open>What is pushed was built\<close>

lemma build_and_push_image: "snd (BuildAndPush fl cwd run cfg) = Inr im \<Longrightarrow> im = ic_image cfg"
  by (auto simp: BuildAndPush_def Let_def split: sum.splits option.splits)

text \<open>An image is pushed only after it was built under the same name without an error, nothing is
  run when a check fails, and the result is that name exactly when both commands succeeded.\<close>

theorem pushed_after_built:
  "case build_args fl cwd cfg of
     Inl e \<Rightarrow> BuildAndPush fl cwd run cfg = ([], Inl e)
   | Inr args \<Rightarrow> \<exists>more. set [''-t'', ic_image cfg] \<subseteq> set args
       \<and> fst (BuildAndPush fl cwd run cfg) = (''docker'', args) # more
       \<and> (more = [] \<longleftrightarrow> run ''docker'' args \<noteq> None)
       \<and> (more \<noteq> [] \<longrightarrow> more = [(''docker'', [''push'', ic_image cfg])])
       \<and> ((\<exists>im. snd (BuildAndPush fl cwd run cfg) = Inr im)
            \<longleftrightarrow> run ''docker'' args = None \<and> run ''docker'' [''push'', ic_image cfg] = None)"
proof (cases "build_args fl cwd cfg")
  case (Inl e)
  then show ?thesis by (simp add: BuildAndPush_def)
next
  case (Inr args)
  then have "set [''-t'', ic_image cfg] \<subseteq> set args"
    by (auto simp: build_args_def Let_def split: if_splits option.splits sum.splits)
  with Inr show ?thesis
    by (simp add: BuildAndPush_def Let_def split: option.splits)
qed

definition image_dir :: files where
  "image_dir = \<lparr>fl_lstat = (\<lambda>p. Inr (Dir None [])), fl_stat = (\<lambda>p. Inr (Dir None [])), fl_read = (\<lambda>p. Inr []),
     fl_is_not_exist = (\<lambda>e. True)\<rparr>"

definition sample_image :: image_config where
  "sample_image = \<lparr>ic_dockerfile = ''Dockerfile'', ic_context = ''app'', ic_image = ''reg/x:1'', ic_platform = ''linux/amd64''\<rparr>"

lemma pushed_after_built_witness:
  "length (fst (BuildAndPush image_dir ''/w'' (\<lambda>n args. if hd args = ''build'' then Some (ErrText ''boom'') else None) sample_image)) = 1"
proof -
  let ?run = "\<lambda>n args. if hd args = ''build'' then Some (ErrText ''boom'') else None"
  have "build_args image_dir ''/w'' sample_image = Inr [''build'', ''--platform'', ''linux/amd64'', ''-f'', ''/w/app/Dockerfile'',
      ''-t'', ''reg/x:1'', ''/w/app'']"
    by code_simp
  with pushed_after_built [of image_dir "''/w''" ?run sample_image] show ?thesis by auto
qed

end
