(* ===== verification/DataPrep.thy ===== *)
theory DataPrep
  imports GoFiles GoUrl
begin

text \<open>
  \<open>internal/data/preflight.go\<close>: the data inputs of a job are checked and completed before a run
  starts, and the size of those that are bundled is held against the limit.
\<close>

definition supportedURISchemes :: "string list" where
  "supportedURISchemes = [''http'', ''https'', ''s3'', ''gs'']"

record preflight_options =
  po_size_limit :: int
  po_require_override :: bool
  po_allow_large :: bool

fun mode_string :: "data_input_mode \<Rightarrow> string" where
  "mode_string ModeBundle = ''bundle''"
| "mode_string ModeUri = ''uri''"
| "mode_string (ModeOther s) = s"

definition isURI :: "string \<Rightarrow> bool" where
  "isURI source = (case url_parse source of None \<Rightarrow> False
     | Some u \<Rightarrow> url_scheme u \<noteq> [] \<and> to_lower (url_scheme u) \<in> set supportedURISchemes)"

definition validateURI :: "string \<Rightarrow> gerror option" where
  "validateURI source =
     (case url_parse source of None \<Rightarrow> Some (ErrText (''invalid data URI '' @ quote source))
      | Some u \<Rightarrow>
          if url_scheme u = [] then Some (ErrText (''invalid data URI '' @ quote source))
          else if to_lower (url_scheme u) \<notin> set supportedURISchemes
          then Some (ErrText (''unsupported data URI scheme '' @ quote (url_scheme u)))
          else None)"

definition normalizeInput :: "data_input \<Rightarrow> gerror + data_input" where
  "normalizeInput input =
     (if di_name input = [] then Inl (ErrText ''data input name is required'')
      else if di_source input = [] then Inl (ErrText (''data input '' @ quote (di_name input) @ '' source is required''))
      else
        (let input = (if di_mode input = ModeOther []
               then input\<lparr>di_mode := (if isURI (di_source input) then ModeUri else ModeBundle)\<rparr> else input);
             input = (if di_mount input = [] then input\<lparr>di_mount := ''/workspace/data/'' @ di_name input\<rparr> else input)
         in Inr input))"

definition symlink_error :: "string \<Rightarrow> gerror" where
  "symlink_error p = ErrText (''data input path '' @ quote p
     @ '' is a symlink; bundled data inputs must not contain symlinks'')"

definition irregular_error :: "string \<Rightarrow> gerror" where
  "irregular_error p = ErrText (''data input path '' @ quote p
     @ '' is not a regular file; bundled data inputs must contain only regular files and directories'')"

text \<open>The callback of \<open>localSize\<close> on the running total.\<close>

definition size_step :: "string \<Rightarrow> file_node \<Rightarrow> int \<Rightarrow> int \<times> gerror option" where
  "size_step p n acc =
     (if n = Symlink then (acc, Some (symlink_error p))
      else if is_dir n then (acc, None)
      else if \<not> is_regular n then (acc, Some (irregular_error p))
      else (wrap64 (acc + file_size n), None))"

definition localSize :: "files \<Rightarrow> string \<Rightarrow> gerror + int" where
  "localSize fl path =
     (case fl_lstat fl path of
        Inl e \<Rightarrow>
          if fl_is_not_exist fl e then Inl (ErrText (''data input path '' @ quote path @ '' does not exist''))
          else Inl (ErrWrap (''stat data input path '' @ quote path @ '': '') e)
      | Inr info \<Rightarrow>
          if info = Symlink then Inl (symlink_error path)
          else if \<not> is_dir info
          then (if \<not> is_regular info then Inl (irregular_error path) else Inr (file_size info))
          else (case WalkDir fl path size_step 0 of
              (acc, Some e) \<Rightarrow> Inl (ErrWrap (''walk data input path '' @ quote path @ '': '') e)
            | (acc, None) \<Rightarrow> Inr acc))"

text \<open>One input of \<open>Prepare\<close>: normalised, with the bytes that it adds to the bundle.\<close>

definition prepare_input :: "files \<Rightarrow> data_input \<Rightarrow> gerror + (data_input \<times> int)" where
  "prepare_input fl input =
     bindr (normalizeInput input) (\<lambda>normalized.
       case di_mode normalized of
         ModeBundle \<Rightarrow> bindr (localSize fl (di_source normalized)) (\<lambda>size. Inr (normalized, size))
       | ModeUri \<Rightarrow> (case validateURI (di_source normalized) of Some e \<Rightarrow> Inl e | None \<Rightarrow> Inr (normalized, 0))
       | ModeOther m \<Rightarrow> Inl (ErrText (''unsupported data input mode '' @ quote (mode_string (di_mode normalized))
             @ '' for '' @ quote (di_name normalized))))"

definition Prepare :: "files \<Rightarrow> job_spec \<Rightarrow> preflight_options \<Rightarrow> gerror + data_manifest" where
  "Prepare fl job opts =
     bindr (mapr (prepare_input fl) (job_data job)) (\<lambda>prepared.
       let inputs = map fst prepared;
           bytes = foldl (\<lambda>t s. wrap64 (t + s)) 0 (map snd prepared);
           requiresOverride = po_require_override opts \<and> po_size_limit opts > 0 \<and> bytes > po_size_limit opts
       in if requiresOverride \<and> \<not> po_allow_large opts
          then Inl (ErrText (''data bundle is '' @ string_of_int bytes @ '' bytes, above limit ''
             @ string_of_int (po_size_limit opts)
             @ '' bytes; use URI/object storage or pass --allow-large-data-bundle''))
          else Inr \<lparr>dm_inputs = inputs, dm_bundle_size_bytes = bytes, dm_requires_override = requiresOverride,
                   dm_size_limit_bytes = po_size_limit opts, dm_override_permitted = po_allow_large opts\<rparr>)"

section \<open>The size of a bundle\<close>

lemma size_step_node [simp]:
  "size_step p (RegFile c) t = (wrap64 (t + int (length c)), None)"
  "size_step p (Dir err es) t = (t, None)"
  "size_step p Symlink t = (t, Some (symlink_error p))"
  "size_step p Irregular t = (t, Some (irregular_error p))"
  by (simp_all add: size_step_def)

lemma size_walk:
  "0 \<le> t \<Longrightarrow> t + tree_size n < 2 ^ 63 \<Longrightarrow>
     (regular_tree n \<longrightarrow> walk_visits size_step (visits p n) t = (t + tree_size n, None))
     \<and> (\<not> regular_tree n \<longrightarrow> (\<exists>t' e. walk_visits size_step (visits p n) t = (t', Some e)))"
proof (induction n arbitrary: p t rule: tree_size.induct)
  case (1 c)
  then show ?case by (simp add: wrap64_id)
next
  case (2 err es)
  have "0 \<le> t \<Longrightarrow> t + sum_list (map (\<lambda>(n, c). tree_size c) xs) < 2 ^ 63 \<Longrightarrow> set xs \<subseteq> set es \<Longrightarrow>
      ((\<forall>(n, c) \<in> set xs. regular_tree c) \<longrightarrow>
         walk_visits size_step (concat (map (\<lambda>(n, c). visits (path_join [p, n]) c) xs)) t =
           (t + sum_list (map (\<lambda>(n, c). tree_size c) xs), None))
      \<and> (\<not> (\<forall>(n, c) \<in> set xs. regular_tree c) \<longrightarrow>
         (\<exists>t' e. walk_visits size_step (concat (map (\<lambda>(n, c). visits (path_join [p, n]) c) xs)) t = (t', Some e)))"
    for xs t
  proof (induction xs arbitrary: t)
    case Nil
    then show ?case by simp
  next
    case (Cons x xs)
    obtain m c where x: "x = (m, c)" by (cases x)
    have pos: "0 \<le> sum_list (map (\<lambda>(n, c). tree_size c) xs)"
      by (auto intro!: sum_list_nonneg simp: tree_size_nonneg)
    have c: "(m, c) \<in> set es" using Cons.prems x by simp
    have bound: "t + tree_size c < 2 ^ 63" using Cons.prems(2) pos x by simp
    note head = "2.IH" [OF c refl Cons.prems(1) bound, of "path_join [p, m]"]
    have "0 \<le> t + tree_size c" using Cons.prems(1) tree_size_nonneg [of c] by simp
    then have rest: "((\<forall>(n, c) \<in> set xs. regular_tree c) \<longrightarrow>
         walk_visits size_step (concat (map (\<lambda>(n, c). visits (path_join [p, n]) c) xs)) (t + tree_size c) =
           (t + tree_size c + sum_list (map (\<lambda>(n, c). tree_size c) xs), None))
      \<and> (\<not> (\<forall>(n, c) \<in> set xs. regular_tree c) \<longrightarrow>
         (\<exists>t' e. walk_visits size_step (concat (map (\<lambda>(n, c). visits (path_join [p, n]) c) xs)) (t + tree_size c) = (t', Some e)))"
      using Cons.prems x by (intro Cons.IH) (auto simp: add.assoc)
    show ?case
      using head rest by (auto simp: x walk_append add.assoc)
  qed
  note list = this [of t es]
  show ?case
  proof (cases err)
    case None
    with list "2.prems" show ?thesis by auto
  next
    case (Some e)
    then show ?thesis by simp
  qed
qed auto

text \<open>The size of a bundled input is the total of its files wherever it can be counted in 64
  bits; an input that holds a symbolic link, a special file or a directory that cannot be read,
  at any depth, is refused.\<close>

theorem local_size_spec:
  assumes "fl_lstat fl path = Inr n" and "tree_size n < 2 ^ 63"
  shows "(regular_tree n \<longrightarrow> localSize fl path = Inr (tree_size n))
    \<and> (\<not> regular_tree n \<longrightarrow> (\<exists>e. localSize fl path = Inl e))"
proof (cases "is_dir n")
  case True
  then show ?thesis
    using assms size_walk [of 0 n path] by (cases n) (auto simp: localSize_def WalkDir_def)
next
  case False
  with assms show ?thesis by (cases n) (auto simp: localSize_def)
qed

definition sample_tree :: file_node where
  "sample_tree = Dir None [(''a.txt'', RegFile ''abc''), (''sub'', Dir None [(''b.txt'', RegFile ''de'')])]"

definition sample_files :: files where
  "sample_files = \<lparr>fl_lstat = (\<lambda>p. Inr sample_tree), fl_stat = (\<lambda>p. Inr sample_tree),
     fl_read = (\<lambda>p. Inr ''abc''), fl_is_not_exist = (\<lambda>e. True)\<rparr>"

lemma local_size_spec_witness: "localSize sample_files ''/data/in'' = Inr 5"
proof -
  have "fl_lstat sample_files ''/data/in'' = Inr sample_tree" "tree_size sample_tree < 2 ^ 63" "regular_tree sample_tree"
    by (simp_all add: sample_files_def sample_tree_def)
  from local_size_spec [OF this(1,2)] this(3) show ?thesis by (simp add: sample_tree_def)
qed

section \<open>The manifest\<close>

definition input_ready :: "data_input \<Rightarrow> data_input \<Rightarrow> bool" where
  "input_ready given made \<longleftrightarrow> di_name made = di_name given \<and> di_source made = di_source given
     \<and> di_name made \<noteq> [] \<and> di_source made \<noteq> [] \<and> di_mount made \<noteq> []
     \<and> (di_mount given \<noteq> [] \<longrightarrow> di_mount made = di_mount given)
     \<and> (di_mode given \<noteq> ModeOther [] \<longrightarrow> di_mode made = di_mode given)
     \<and> (di_mode made = ModeUri \<and> isURI (di_source made) \<or> di_mode made = ModeBundle)"

lemma validateURI_ok: "validateURI s = None \<longleftrightarrow> isURI s"
  by (auto simp: validateURI_def isURI_def split: option.splits)

lemma normalize_cases:
  assumes "normalizeInput input = Inr made"
  shows "di_name made = di_name input \<and> di_source made = di_source input \<and> di_name made \<noteq> []
    \<and> di_source made \<noteq> [] \<and> di_mount made \<noteq> [] \<and> (di_mount input \<noteq> [] \<longrightarrow> di_mount made = di_mount input)
    \<and> (di_mode input \<noteq> ModeOther [] \<longrightarrow> di_mode made = di_mode input)"
  using assms by (auto simp: normalizeInput_def Let_def split: if_splits)

lemma prepare_input_ready: "prepare_input fl input = Inr (made, bytes) \<Longrightarrow> input_ready input made"
proof -
  assume p: "prepare_input fl input = Inr (made, bytes)"
  then obtain x where n: "normalizeInput input = Inr x"
    by (cases "normalizeInput input") (auto simp: prepare_input_def)
  then have "made = x \<and> (di_mode x = ModeUri \<and> isURI (di_source x) \<or> di_mode x = ModeBundle)"
    using p by (cases "di_mode x"; cases "validateURI (di_source x)")
      (auto simp: prepare_input_def bindr_eq_Inr validateURI_ok [symmetric])
  with normalize_cases [OF n] show ?thesis by (auto simp: input_ready_def)
qed

text \<open>A prepared manifest lists the job's inputs in their order, each with its name and source
  as given, a mount, and a mode that fits its source; and a bundle above the limit gets through
  only where the limit is off or the user allowed it.\<close>

theorem prepare_manifest:
  assumes "Prepare fl job opts = Inr m"
  shows "list_all2 input_ready (job_data job) (dm_inputs m)
    \<and> (po_require_override opts \<and> po_size_limit opts > 0 \<and> \<not> po_allow_large opts
         \<longrightarrow> dm_bundle_size_bytes m \<le> po_size_limit opts)
    \<and> (dm_requires_override m \<longrightarrow> po_allow_large opts)"
proof -
  from assms obtain prepared where p: "mapr (prepare_input fl) (job_data job) = Inr prepared"
    and m: "dm_inputs m = map fst prepared"
    and lim: "\<not> (po_require_override opts \<and> po_size_limit opts > 0 \<and> dm_bundle_size_bytes m > po_size_limit opts
        \<and> \<not> po_allow_large opts)" "dm_requires_override m \<longrightarrow> po_allow_large opts"
    by (auto simp: Prepare_def bindr_eq_Inr Let_def split: if_splits)
  have "list_all2 input_ready (job_data job) (map fst prepared)"
  proof (rule list_all2_all_nthI)
    show "length (job_data job) = length (map fst prepared)" using mapr_length [OF p] by simp
    fix i assume i: "i < length (job_data job)"
    then have "i < length prepared" using mapr_length [OF p] by simp
    with mapr_nth [OF p i] show "input_ready (job_data job ! i) (map fst prepared ! i)"
      by (cases "prepared ! i") (auto intro: prepare_input_ready)
  qed
  with m lim show ?thesis by auto
qed

definition data_job :: "data_input list \<Rightarrow> job_spec" where
  "data_job inputs = \<lparr>job_name = ''demo'', job_script = ''train.py'', job_image = [], job_command = [],
     job_args = [], job_env = [], job_data = inputs, job_work_dir = []\<rparr>"

lemma prepare_manifest_witness:
  "\<exists>m. Prepare sample_files
      (data_job [\<lparr>di_name = ''train'', di_source = ''/data/in'', di_mount = [], di_mode = ModeBundle\<rparr>])
      \<lparr>po_size_limit = 10, po_require_override = True, po_allow_large = False\<rparr> = Inr m
    \<and> dm_bundle_size_bytes m \<le> 10"
proof -
  let ?job = "data_job [\<lparr>di_name = ''train'', di_source = ''/data/in'', di_mount = [], di_mode = ModeBundle\<rparr>]"
  let ?opts = "\<lparr>po_size_limit = 10, po_require_override = True, po_allow_large = False\<rparr>"
  have "localSize sample_files ''/data/in'' = Inr 5"
    by (simp add: localSize_def sample_files_def sample_tree_def WalkDir_def wrap64_def)
  then obtain m where m: "Prepare sample_files ?job ?opts = Inr m"
    by (simp add: Prepare_def data_job_def prepare_input_def normalizeInput_def wrap64_def)
  from prepare_manifest [OF m] m show ?thesis by simp
qed

end
