(* ===== verification/Staging.thy ===== *)
theory Staging
  imports Config DataPrep
begin

text \<open>
  \<open>internal/staging\<close>: the environment that tells a job where its data and checkpoints are, and the
  upload of bundled inputs to an object store. The store's insert call and the \<open>aws\<close> command are
  parameters; the uploads that were made are recorded in their order.
\<close>

section \<open>Object-store locations\<close>

definition is_slash :: "char \<Rightarrow> bool" where
  "is_slash c \<longleftrightarrow> c = CHR ''/''"

text \<open>The first part loses only trailing slashes, and is skipped, like any other, if empty.\<close>

definition joinURI :: "string list \<Rightarrow> string" where
  "joinURI parts = (case parts of [] \<Rightarrow> []
     | p # ps \<Rightarrow> join ''/'' ((if p = [] then [] else [trim_right is_slash p])
         @ map (trim is_slash) (filter (\<lambda>q. q \<noteq> []) ps)))"

definition CheckpointPrefix :: "staging_config \<Rightarrow> string \<Rightarrow> string" where
  "CheckpointPrefix cfg runID = joinURI [sg_checkpoint_prefix cfg, runID, ''checkpoints'']"

definition DataPrefix :: "staging_config \<Rightarrow> string \<Rightarrow> string" where
  "DataPrefix cfg runID = joinURI [sg_data_prefix cfg, runID, ''data'']"

section \<open>The runtime environment\<close>

text \<open>The bytes of \<open>inputEnvKey\<close> so far, and whether the last one written was an underscore.\<close>

definition key_step :: "string \<times> bool \<Rightarrow> char \<Rightarrow> string \<times> bool" where
  "key_step st c = (case st of (out, last_underscore) \<Rightarrow>
     if is_alnum c \<or> 128 \<le> byte c then (out @ [upper_char c], False)
     else if \<not> last_underscore \<and> out \<noteq> [] then (out @ ''_'', True) else (out, last_underscore))"

definition inputEnvKey :: "string \<Rightarrow> string" where
  "inputEnvKey name = trim (\<lambda>c. c = CHR ''_'') (fst (foldl key_step ([], False) name))"

definition prefix_env :: "string \<Rightarrow> string \<Rightarrow> string smap \<Rightarrow> string smap" where
  "prefix_env suffix_name value env =
     AList.update (''ORCHESTRATOR_'' @ suffix_name) value (AList.update (''SWITCHBOARD_'' @ suffix_name) value env)"

definition input_env :: "string smap \<Rightarrow> data_input \<Rightarrow> string smap" where
  "input_env env input =
     (if di_mode input \<noteq> ModeUri \<or> di_source input = [] \<or> di_name input = [] then env
      else let key = inputEnvKey (di_name input) in
        if key = [] then env
        else
          (let env = AList.update (''SWITCHBOARD_DATA_'' @ key @ ''_URI'') (di_source input) env in
           if di_mount input \<noteq> [] then AList.update (''SWITCHBOARD_DATA_'' @ key @ ''_MOUNT'') (di_mount input) env
           else env))"

definition RuntimeEnv :: "staging_config \<Rightarrow> string \<Rightarrow> data_input list \<Rightarrow> string smap" where
  "RuntimeEnv cfg runID inputs =
     (let env = [];
          env = (if sg_checkpoint_prefix cfg \<noteq> [] then prefix_env ''CHECKPOINT_URI_PREFIX'' (CheckpointPrefix cfg runID) env else env);
          env = (if sg_data_prefix cfg \<noteq> [] then prefix_env ''DATA_URI_PREFIX'' (DataPrefix cfg runID) env else env)
      in foldl input_env env inputs)"

section \<open>Uploads\<close>

definition parseObjectURIPath :: "url \<Rightarrow> string \<Rightarrow> gerror + (string \<times> string)" where
  "parseObjectURIPath parsed value =
     (let object = trim_prefix ''/'' (escaped_path parsed) in
      if object = [] then Inl (ErrText (''managed staging destination '' @ quote value @ '' is missing an object path''))
      else case unescape EncodePathSegment object of
          None \<Rightarrow> Inl (ErrText (''decode object-store path '' @ quote object @ '': invalid URL escape''))
        | Some u \<Rightarrow> Inr (url_host parsed, u))"

definition parse_store_uri :: "string \<Rightarrow> string \<Rightarrow> string \<Rightarrow> string \<Rightarrow> gerror + (string \<times> string)" where
  "parse_store_uri article store scheme value =
     (case url_parse value of
        None \<Rightarrow> Inl (ErrText (''managed staging destination '' @ quote value @ '' must be '' @ article @ '' '' @ scheme @ '':// URI''))
      | Some u \<Rightarrow>
          if url_scheme u = [] \<or> url_host u = []
          then Inl (ErrText (''managed staging destination '' @ quote value @ '' must be '' @ article @ '' '' @ scheme @ '':// URI''))
          else if url_scheme u \<noteq> scheme
          then Inl (ErrText (''managed '' @ store @ '' staging destination '' @ quote value @ '' must use '' @ scheme @ ''://''))
          else parseObjectURIPath u value)"

definition parseGCSURI :: "string \<Rightarrow> gerror + (string \<times> string)" where
  "parseGCSURI value = parse_store_uri ''a'' ''GCS'' ''gs'' value"

definition parseS3URI :: "string \<Rightarrow> gerror + (string \<times> string)" where
  "parseS3URI value = parse_store_uri ''an'' ''S3'' ''s3'' value"

text \<open>Creating the storage client, its insert call (bucket, object, bytes) and running a command.\<close>

record object_stores =
  os_gcs_client :: "gerror option"
  os_gcs_insert :: "string \<Rightarrow> string \<Rightarrow> string \<Rightarrow> gerror option"
  os_run :: "string \<Rightarrow> string list \<Rightarrow> gerror option"

definition gcs_upload :: "files \<Rightarrow> object_stores \<Rightarrow> string \<Rightarrow> string \<Rightarrow> gerror option" where
  "gcs_upload fl st sourcePath destinationURI =
     (case parseGCSURI destinationURI of Inl e \<Rightarrow> Some e
      | Inr (bucket, object) \<Rightarrow>
          (case fl_read fl sourcePath of
             Inl e \<Rightarrow> Some (ErrWrap (''open staged source '' @ quote sourcePath @ '': '') e)
           | Inr content \<Rightarrow>
               (case os_gcs_client st of
                  Some e \<Rightarrow> Some (ErrWrap ''create GCS client: '' e)
                | None \<Rightarrow> map_option
                    (ErrWrap (''upload '' @ quote sourcePath @ '' to '' @ quote destinationURI @ '': ''))
                    (os_gcs_insert st bucket object content))))"

definition s3_upload :: "object_stores \<Rightarrow> string \<Rightarrow> string \<Rightarrow> gerror option" where
  "s3_upload st sourcePath destinationURI =
     (case parseS3URI destinationURI of Inl e \<Rightarrow> Some e
      | Inr _ \<Rightarrow> map_option
          (ErrWrap (''upload '' @ quote sourcePath @ '' to '' @ quote destinationURI @ '' with aws s3 cp: ''))
          (os_run st ''aws'' [''s3'', ''cp'', sourcePath, destinationURI]))"

definition scheme_upload :: "files \<Rightarrow> object_stores \<Rightarrow> string \<Rightarrow> string \<Rightarrow> gerror option" where
  "scheme_upload fl st sourcePath destinationURI =
     (case url_parse destinationURI of
        None \<Rightarrow> Some (ErrText (''managed staging destination '' @ quote destinationURI @ '' must be an object-store URI''))
      | Some u \<Rightarrow>
          if url_scheme u = []
          then Some (ErrText (''managed staging destination '' @ quote destinationURI @ '' must be an object-store URI''))
          else if url_scheme u = ''gs'' then gcs_upload fl st sourcePath destinationURI
          else if url_scheme u = ''s3'' then s3_upload st sourcePath destinationURI
          else Some (ErrText (''managed data staging only supports gs:// or s3:// upload prefixes; got ''
            @ quote (url_scheme u))))"

text \<open>An \<open>Uploader\<close>, and the uploads (from, to) that have been made with it.\<close>

type_synonym uploader = "string \<Rightarrow> string \<Rightarrow> gerror option"

definition upload_file :: "uploader \<Rightarrow> string \<Rightarrow> string \<Rightarrow> (string \<times> string) list \<Rightarrow> (string \<times> string) list \<times> gerror option" where
  "upload_file up from_path dest done_list =
     (case up from_path dest of Some e \<Rightarrow> (done_list, Some e) | None \<Rightarrow> (done_list @ [(from_path, dest)], None))"

text \<open>The callback of \<open>stageInput\<close> on the uploads so far.\<close>

definition stage_step ::
  "uploader \<Rightarrow> string \<Rightarrow> string \<Rightarrow> string \<Rightarrow> file_node \<Rightarrow> (string \<times> string) list \<Rightarrow> (string \<times> string) list \<times> gerror option" where
  "stage_step up source inputPrefix p n done_list =
     (if is_dir n then (done_list, None)
      else if \<not> is_regular n then (done_list, Some (ErrText (''staged input path '' @ quote p @ '' is not a regular file'')))
      else case path_rel source p of Inl e \<Rightarrow> (done_list, Some e)
        | Inr rel \<Rightarrow> upload_file up p (joinURI [inputPrefix, rel]) done_list)"

definition stageInput ::
  "files \<Rightarrow> uploader \<Rightarrow> staging_config \<Rightarrow> string \<Rightarrow> data_input \<Rightarrow> gerror + (data_input \<times> (string \<times> string) list)" where
  "stageInput fl up cfg runID input =
     (case fl_stat fl (di_source input) of
        Inl e \<Rightarrow> Inl (ErrWrap (''stat staged input '' @ quote (di_source input) @ '': '') e)
      | Inr info \<Rightarrow>
          let inputPrefix = joinURI [DataPrefix cfg runID, di_name input] in
          if \<not> is_dir info
          then (let destination = joinURI [inputPrefix, path_base (di_source input)] in
                case up (di_source input) destination of Some e \<Rightarrow> Inl e
                | None \<Rightarrow> Inr (input\<lparr>di_source := destination, di_mode := ModeUri\<rparr>, [(di_source input, destination)]))
          else (case WalkDir fl (di_source input) (stage_step up (di_source input) inputPrefix) [] of
              (ups, Some e) \<Rightarrow> Inl (ErrWrap (''stage data input '' @ quote (di_name input) @ '': '') e)
            | (ups, None) \<Rightarrow> Inr (input\<lparr>di_source := inputPrefix, di_mode := ModeUri\<rparr>, ups)))"

definition stage_one ::
  "files \<Rightarrow> uploader \<Rightarrow> staging_config \<Rightarrow> string \<Rightarrow> data_input \<Rightarrow> gerror + (data_input \<times> (string \<times> string) list)" where
  "stage_one fl up cfg runID input =
     (if di_mode input \<noteq> ModeBundle then Inr (input, []) else stageInput fl up cfg runID input)"

record managed_result =
  mr_job :: job_spec
  mr_manifest :: data_manifest
  mr_uploaded :: "string list"

definition StageBundledInputs ::
  "files \<Rightarrow> uploader \<Rightarrow> staging_config \<Rightarrow> string \<Rightarrow> job_spec \<Rightarrow> data_manifest \<Rightarrow> gerror + managed_result" where
  "StageBundledInputs fl up cfg runID job manifest =
     (if sg_data_prefix cfg = [] then Inr \<lparr>mr_job = job, mr_manifest = manifest, mr_uploaded = []\<rparr>
      else bindr (mapr (stage_one fl up cfg runID) (job_data job)) (\<lambda>staged.
        let inputs = map fst staged in
        Inr \<lparr>mr_job = job\<lparr>job_data := inputs\<rparr>,
             mr_manifest = manifest\<lparr>dm_inputs := inputs, dm_bundle_size_bytes := 0, dm_requires_override := False\<rparr>,
             mr_uploaded = concat (map (\<lambda>x. map snd (snd x)) staged)\<rparr>))"
section \<open>Staged inputs live below the run's data prefix\<close>

definition data_base :: "staging_config \<Rightarrow> string \<Rightarrow> string" where
  "data_base cfg runID = trim_right is_slash (DataPrefix cfg runID)"

lemma trim_right_append:
  "trim_right P (a @ b) = (if \<forall>c \<in> set b. P c then trim_right P a else a @ trim_right P b)"
  by (auto simp: trim_right_def dropWhile_append)

lemma trim_right_idem: "trim_right P (trim_right P a) = trim_right P a"
  by (simp add: trim_right_def)

lemma trim_right_keeps: "prefix (trim_right P a) (trim_right P (trim_right P a @ b))"
  by (simp add: trim_right_append trim_right_idem)

lemma joinURI_two: "a \<noteq> [] \<Longrightarrow> joinURI [a, b] =
   (if b = [] then trim_right is_slash a else trim_right is_slash a @ ''/'' @ trim is_slash b)"
  by (simp add: joinURI_def)

lemma joinURI_below: "a \<noteq> [] \<Longrightarrow> prefix (trim_right is_slash a) (joinURI [a, b])"
  by (simp add: joinURI_two)

lemma join_ne: "ps \<noteq> [] \<Longrightarrow> last ps \<noteq> [] \<Longrightarrow> join sep ps \<noteq> []"
  by (induction sep ps rule: join.induct) auto

lemma DataPrefix_ne: "DataPrefix cfg runID \<noteq> []"
  unfolding DataPrefix_def joinURI_def
  by (simp del: join.simps add: join_ne trim_def trim_left_def trim_right_def is_slash_def)

lemma input_prefix_below: "prefix (data_base cfg runID) (joinURI [DataPrefix cfg runID, name])"
  by (simp add: data_base_def joinURI_below DataPrefix_ne)

lemma input_dest_below: "prefix (data_base cfg runID) (joinURI [joinURI [DataPrefix cfg runID, name], x])"
proof (cases "joinURI [DataPrefix cfg runID, name] = []")
  case True
  with input_prefix_below [of cfg runID name] show ?thesis by simp
next
  case False
  obtain r where "joinURI [DataPrefix cfg runID, name] = data_base cfg runID @ r"
    using input_prefix_below [of cfg runID name] by (auto simp: prefix_def)
  then have "prefix (data_base cfg runID) (trim_right is_slash (joinURI [DataPrefix cfg runID, name]))"
    by (simp add: data_base_def trim_right_keeps)
  with joinURI_below [OF False] show ?thesis by (meson prefix_order.trans)
qed

text \<open>Uploads that were made: each succeeded, and went below the run's data prefix.\<close>

definition uploads_ok :: "uploader \<Rightarrow> staging_config \<Rightarrow> string \<Rightarrow> (string \<times> string) list \<Rightarrow> bool" where
  "uploads_ok up cfg runID ups \<longleftrightarrow>
     (\<forall>(p, d) \<in> set ups. up p d = None \<and> prefix (data_base cfg runID) d)"

lemma stage_step_ok:
  "uploads_ok up cfg runID ups \<Longrightarrow>
     uploads_ok up cfg runID (fst (stage_step up source (joinURI [DataPrefix cfg runID, name]) p n ups))"
  by (auto simp: stage_step_def upload_file_def uploads_ok_def input_dest_below split: sum.split option.split)

definition staged_input :: "staging_config \<Rightarrow> string \<Rightarrow> data_input \<Rightarrow> data_input \<Rightarrow> bool" where
  "staged_input cfg runID given made \<longleftrightarrow>
     (if di_mode given \<noteq> ModeBundle then made = given
      else di_name made = di_name given \<and> di_mount made = di_mount given \<and> di_mode made = ModeUri
        \<and> prefix (data_base cfg runID) (di_source made))"

lemma stageInput_ok:
  assumes "stageInput fl up cfg runID input = Inr (made, ups)" and "di_mode input = ModeBundle"
  shows "staged_input cfg runID input made \<and> uploads_ok up cfg runID ups"
proof -
  let ?p = "joinURI [DataPrefix cfg runID, di_name input]"
  have walk: "uploads_ok up cfg runID (fst (WalkDir fl (di_source input) (stage_step up (di_source input) ?p) []))"
  proof (cases "fl_lstat fl (di_source input)")
    case (Inl e)
    then show ?thesis by (simp add: WalkDir_def uploads_ok_def)
  next
    case (Inr n)
    have "uploads_ok up cfg runID (fst (walk_visits (stage_step up (di_source input) ?p) (visits (di_source input) n) []))"
      by (rule walk_inv) (auto simp: stage_step_ok, simp add: uploads_ok_def)
    with Inr show ?thesis by (simp add: WalkDir_def)
  qed
  obtain info where info: "fl_stat fl (di_source input) = Inr info"
    using assms(1) by (auto simp: stageInput_def split: sum.splits)
  show ?thesis
  proof (cases "is_dir info")
    case True
    then have "WalkDir fl (di_source input) (stage_step up (di_source input) ?p) [] = (ups, None)
        \<and> made = input\<lparr>di_source := ?p, di_mode := ModeUri\<rparr>"
      using assms(1) info by (auto simp: stageInput_def Let_def split: prod.splits option.splits)
    with walk assms(2) show ?thesis by (simp add: staged_input_def input_prefix_below)
  next
    case False
    with assms info show ?thesis
      by (auto simp: stageInput_def Let_def staged_input_def uploads_ok_def input_dest_below split: option.splits)
  qed
qed

lemma stage_one_ok:
  "stage_one fl up cfg runID input = Inr (made, ups) \<Longrightarrow>
     staged_input cfg runID input made \<and> uploads_ok up cfg runID ups"
  using stageInput_ok by (auto simp: stage_one_def staged_input_def uploads_ok_def split: if_splits)

text \<open>C34. When staging succeeds no bundled input is left: each has become a URI below the data prefix
  of the run, under its name and mount; every other input is as it was; and every object that is
  reported was uploaded without an error, below that prefix.\<close>

theorem staging_complete:
  assumes "StageBundledInputs fl up cfg runID job manifest = Inr r" and "sg_data_prefix cfg \<noteq> []"
  shows "list_all2 (staged_input cfg runID) (job_data job) (job_data (mr_job r))
    \<and> (\<forall>input \<in> set (job_data (mr_job r)). di_mode input \<noteq> ModeBundle)
    \<and> dm_inputs (mr_manifest r) = job_data (mr_job r) \<and> dm_bundle_size_bytes (mr_manifest r) = 0
    \<and> (\<forall>d \<in> set (mr_uploaded r). prefix (data_base cfg runID) d \<and> (\<exists>p. up p d = None))"
proof -
  from assms obtain staged where m: "mapr (stage_one fl up cfg runID) (job_data job) = Inr staged"
    and r: "job_data (mr_job r) = map fst staged" "dm_inputs (mr_manifest r) = map fst staged"
      "dm_bundle_size_bytes (mr_manifest r) = 0" "mr_uploaded r = concat (map (\<lambda>x. map snd (snd x)) staged)"
    by (auto simp: StageBundledInputs_def bindr_eq_Inr Let_def)
  have one: "staged_input cfg runID (job_data job ! i) (fst (staged ! i)) \<and> uploads_ok up cfg runID (snd (staged ! i))"
    if "i < length staged" for i
    using mapr_nth [OF m, of i] mapr_length [OF m] that stage_one_ok by (cases "staged ! i") force
  have "list_all2 (staged_input cfg runID) (job_data job) (map fst staged)"
    using one mapr_length [OF m] by (simp add: list_all2_conv_all_nth)
  moreover have "di_mode input \<noteq> ModeBundle" if "input \<in> set (map fst staged)" for input
  proof -
    from that obtain i where "i < length staged" "input = fst (staged ! i)" by (auto simp: in_set_conv_nth)
    with one [of i] show ?thesis by (auto simp: staged_input_def split: if_splits)
  qed
  moreover have "prefix (data_base cfg runID) d \<and> (\<exists>p. up p d = None)"
    if "d \<in> set (concat (map (\<lambda>x. map snd (snd x)) staged))" for d
  proof -
    from that obtain x p where "x \<in> set staged" "(p, d) \<in> set (snd x)" by auto
    then obtain i where "i < length staged" "(p, d) \<in> set (snd (staged ! i))"
      by (auto simp: in_set_conv_nth)
    with one [of i] show ?thesis by (auto simp: uploads_ok_def)
  qed
  ultimately show ?thesis using r by simp
qed

definition one_file :: files where
  "one_file = sample_files\<lparr>fl_stat := (\<lambda>p. Inr (RegFile ''abc''))\<rparr>"

lemma staging_complete_witness:
  "\<exists>r. StageBundledInputs one_file (\<lambda>p d. None) \<lparr>sg_checkpoint_prefix = [], sg_data_prefix = ''gs://b''\<rparr> ''r1''
       (data_job [\<lparr>di_name = ''train'', di_source = ''in'', di_mount = [], di_mode = ModeBundle\<rparr>])
       \<lparr>dm_inputs = [], dm_bundle_size_bytes = 5, dm_requires_override = False, dm_size_limit_bytes = 0,
        dm_override_permitted = False\<rparr> = Inr r
     \<and> (\<forall>input \<in> set (job_data (mr_job r)). di_mode input \<noteq> ModeBundle)"
proof -
  let ?cfg = "\<lparr>sg_checkpoint_prefix = [], sg_data_prefix = ''gs://b''\<rparr>"
  let ?m = "\<lparr>dm_inputs = [], dm_bundle_size_bytes = 5, dm_requires_override = False, dm_size_limit_bytes = 0,
        dm_override_permitted = False\<rparr>"
  have "case StageBundledInputs one_file (\<lambda>p d. None) ?cfg ''r1''
       (data_job [\<lparr>di_name = ''train'', di_source = ''in'', di_mount = [], di_mode = ModeBundle\<rparr>]) ?m of
       Inl e \<Rightarrow> False | Inr r \<Rightarrow> True"
    by code_simp
  then obtain r where r: "StageBundledInputs one_file (\<lambda>p d. None) ?cfg ''r1''
       (data_job [\<lparr>di_name = ''train'', di_source = ''in'', di_mount = [], di_mode = ModeBundle\<rparr>]) ?m = Inr r"
    by (auto split: sum.splits)
  from staging_complete [OF r] r show ?thesis by auto
qed

section \<open>Names of inputs in the environment\<close>

definition key_char :: "char \<Rightarrow> bool" where
  "key_char c \<longleftrightarrow> is_upper c \<or> is_digit c \<or> 128 \<le> byte c"

lemma upper_key_char: "is_alnum c \<or> 128 \<le> byte c \<Longrightarrow> key_char (upper_char c)"
  by (auto simp: key_char_def is_alnum_def upper_char_def is_lower_def is_upper_def is_digit_def byte_char_of)

lemma underscore_not_key: "\<not> key_char (CHR ''_'')"
  by code_simp

definition key_shape :: "string \<Rightarrow> bool" where
  "key_shape s \<longleftrightarrow> (\<forall>c \<in> set s. key_char c \<or> c = CHR ''_'') \<and> \<not> sublist ''__'' s"

lemma no_double_snoc:
  "\<not> sublist ''__'' s \<Longrightarrow> c \<noteq> CHR ''_'' \<or> s = [] \<or> last s \<noteq> CHR ''_'' \<Longrightarrow> \<not> sublist ''__'' (s @ [c])"
proof -
  assume s: "\<not> sublist ''__'' s" and c: "c \<noteq> CHR ''_'' \<or> s = [] \<or> last s \<noteq> CHR ''_''"
  have "\<not> suffix ''__'' (s @ [c])"
  proof
    assume "suffix ''__'' (s @ [c])"
    then obtain zs where "s @ [c] = (zs @ ''_'') @ ''_''" by (auto simp: suffix_def)
    then have "s = zs @ ''_''" "c = CHR ''_''" by (simp_all only: append1_eq_conv)
    with c show False by simp
  qed
  with s show ?thesis by (simp only: sublist_snoc simp_thms)
qed

lemma key_step_shape:
  assumes "key_shape out" and "last_underscore \<longleftrightarrow> out \<noteq> [] \<and> last out = CHR ''_''"
    and "key_step (out, last_underscore) c = (out', l)"
  shows "key_shape out' \<and> (l \<longleftrightarrow> out' \<noteq> [] \<and> last out' = CHR ''_'')"
proof (cases "is_alnum c \<or> 128 \<le> byte c")
  case True
  then have u: "key_char (upper_char c)" by (rule upper_key_char)
  with underscore_not_key have "upper_char c \<noteq> CHR ''_''" by metis
  then have "\<not> sublist ''__'' (out @ [upper_char c])"
    using assms(1) by (intro no_double_snoc) (auto simp: key_shape_def)
  with \<open>upper_char c \<noteq> CHR ''_''\<close> assms u True show ?thesis
    by (auto simp: key_step_def key_shape_def)
next
  case False
  have "\<not> last_underscore \<Longrightarrow> \<not> sublist ''__'' (out @ ''_'')"
    using assms(1,2) by (intro no_double_snoc) (auto simp: key_shape_def)
  with assms False show ?thesis
    by (auto simp: key_step_def key_shape_def split: if_splits)
qed

lemma key_steps_shape:
  assumes "key_shape out" and "last_underscore \<longleftrightarrow> out \<noteq> [] \<and> last out = CHR ''_''"
  shows "key_shape (fst (foldl key_step (out, last_underscore) cs))"
  using assms
proof (induction cs arbitrary: out last_underscore)
  case Nil
  then show ?case by simp
next
  case (Cons c cs)
  obtain out' l where s: "key_step (out, last_underscore) c = (out', l)" by fastforce
  from Cons.IH key_step_shape [OF Cons.prems s] show ?case by (simp add: s)
qed

lemma trim_sublist: "sublist (trim P s) s"
proof -
  have "suffix (dropWhile P s) s" by (rule suffix_dropWhile)
  moreover have "prefix (trim_right P t) t" for t
    unfolding trim_right_def by (metis rev_rev_ident suffix_dropWhile suffix_to_prefix)
  ultimately show ?thesis
    unfolding trim_def trim_left_def
    by (meson prefix_imp_sublist sublist_order.order_trans suffix_imp_sublist)
qed

lemma trim_ends: "trim P s \<noteq> [] \<Longrightarrow> \<not> P (hd (trim P s)) \<and> \<not> P (last (trim P s))"
proof -
  assume ne: "trim P s \<noteq> []"
  let ?d = "dropWhile P s"
  have t: "trim P s = rev (dropWhile P (rev ?d))" by (simp add: trim_def trim_left_def trim_right_def)
  have "last (trim P s) = hd (dropWhile P (rev ?d))" using ne unfolding t by (simp only: last_rev)
  moreover have "dropWhile P (rev ?d) \<noteq> []" using ne t by (metis rev.simps(1))
  then have "\<not> P (hd (dropWhile P (rev ?d)))" by (rule hd_dropWhile)
  moreover have "hd (trim P s) = hd ?d"
  proof -
    have "prefix (trim P s) ?d" unfolding t by (metis rev_rev_ident suffix_dropWhile suffix_to_prefix)
    with ne show ?thesis by (auto simp: prefix_def)
  qed
  moreover have "?d \<noteq> []" using ne t by (metis dropWhile.simps(1) rev.simps(1))
  then have "\<not> P (hd ?d)" by (rule hd_dropWhile)
  ultimately show ?thesis by simp
qed

text \<open>The name of an input in the environment is made of capitals, digits and single underscores
  (and bytes outside ASCII), and neither begins nor ends with an underscore.\<close>

theorem input_env_key_shape:
  "key_shape (inputEnvKey name)
   \<and> (inputEnvKey name = [] \<or> hd (inputEnvKey name) \<noteq> CHR ''_'' \<and> last (inputEnvKey name) \<noteq> CHR ''_'')"
proof -
  have "key_shape (fst (foldl key_step ([], False) name))"
    by (rule key_steps_shape) (auto simp: key_shape_def)
  moreover have "sublist (inputEnvKey name) (fst (foldl key_step ([], False) name))"
    unfolding inputEnvKey_def by (rule trim_sublist)
  ultimately have "key_shape (inputEnvKey name)"
    unfolding key_shape_def by (meson set_mono_sublist sublist_order.order_trans subsetD)
  moreover have "inputEnvKey name = [] \<or> hd (inputEnvKey name) \<noteq> CHR ''_'' \<and> last (inputEnvKey name) \<noteq> CHR ''_''"
    using trim_ends [of "\<lambda>c. c = CHR ''_''" "fst (foldl key_step ([], False) name)"]
    unfolding inputEnvKey_def by blast
  ultimately show ?thesis ..
qed

end
