(* ===== verification/JobPrep.thy ===== *)
theory JobPrep
  imports Config DataPrep Staging Packaging
begin

text \<open>
  The job of a run as \<open>internal/cli/root.go\<close> prepares it: its data is checked, bundles are staged to
  the object store where the provider needs it, and its script is packaged into an image. The same
  preparation for \<open>plan\<close>, which uploads and builds nothing. What the commands print comes first in
  a result; the object store and a builder other than Docker are parameters.
\<close>

type_synonym image_builder = "image_config \<Rightarrow> string \<Rightarrow> gerror + string"

record host =
  ho_files :: files
  ho_cwd :: string
  ho_upload :: uploader
  ho_factory :: "image_builder option"
  ho_docker :: command_runner

definition imageBuilder :: "host \<Rightarrow> image_builder" where
  "imageBuilder h = (case ho_factory h of Some b \<Rightarrow> b
     | None \<Rightarrow> (\<lambda>cfg runID. snd (BuildAndPush (ho_files h) (ho_cwd h) (ho_docker h) cfg)))"

definition preflight :: "resolved_config \<Rightarrow> preflight_options" where
  "preflight resolved = \<lparr>po_size_limit = rs_bundle_max_bytes resolved,
     po_require_override = rs_require_override resolved, po_allow_large = rs_allow_large resolved\<rparr>"

section \<open>Staging\<close>

definition shouldStageBundledInputs :: "resolved_config \<Rightarrow> data_manifest \<Rightarrow> bool" where
  "shouldStageBundledInputs resolved manifest =
     (if sg_data_prefix (rs_staging resolved) = [] \<or> rs_provider resolved = provider_local then False
      else list_ex (\<lambda>input. di_mode input = ModeBundle) (dm_inputs manifest))"

definition objectStoreScheme :: "string \<Rightarrow> string" where
  "objectStoreScheme uri = (case cut ''://'' uri of None \<Rightarrow> [] | Some (before, _) \<Rightarrow> to_lower before)"

definition validateStagingDataPrefixForProvider :: "resolved_config \<Rightarrow> gerror option" where
  "validateStagingDataPrefixForProvider resolved =
     (if rs_provider resolved = provider_auto then None
      else
        (let scheme = objectStoreScheme (sg_data_prefix (rs_staging resolved)) in
         if rs_provider resolved = ''gcp''
         then (if scheme \<noteq> ''gs''
           then Some (ErrText (''provider gcp cannot read staged data prefix scheme '' @ quote scheme
             @ ''; use a gs:// staging.data_uri_prefix'')) else None)
         else if rs_provider resolved = ''lambda''
         then (if scheme \<noteq> ''s3'' \<and> scheme \<noteq> ''gs''
           then Some (ErrText (''provider lambda cannot read staged data prefix scheme '' @ quote scheme
             @ ''; use an s3:// or gs:// staging.data_uri_prefix'')) else None)
         else None))"

section \<open>Packaging\<close>

definition shouldPackageForProvider :: "resolved_config \<Rightarrow> job_spec \<Rightarrow> bool" where
  "shouldPackageForProvider resolved job =
     (if job_image job \<noteq> [] \<or> job_script job = [] then False
      else if rs_provider resolved = provider_local then False
      else if pk_image (rs_packaging resolved) \<noteq> [] then True
      else rs_provider resolved = ''gcp''
        \<and> (pk_dockerfile (rs_packaging resolved) \<noteq> [] \<or> gc_repository (rs_gcp resolved) \<noteq> []))"

definition containerScriptPath :: "string \<Rightarrow> string \<Rightarrow> string \<Rightarrow> gerror + string" where
  "containerScriptPath cwd script contextDir0 =
     (let contextDir = (if contextDir0 = [] then ''.'' else contextDir0) in
      if rooted script
      then (case path_rel (path_abs cwd contextDir) script of
          Inl e \<Rightarrow> Inl (ErrWrap ''resolve script relative to packaging context: '' e)
        | Inr rel \<Rightarrow> if prefix ''../'' rel \<or> rel = ''..''
            then Inl (ErrText (''script '' @ quote script @ '' must be inside packaging context '' @ quote contextDir))
            else Inr rel)
      else Inr script)"

definition package_image :: "resolved_config \<Rightarrow> string \<Rightarrow> gerror + string" where
  "package_image resolved runID =
     (let img = pk_image (rs_packaging resolved); g = rs_gcp resolved in
      if img = [] then ArtifactRegistryImage (gc_location g) (gc_project_id g) (gc_repository g) runID
      else Inr img)"

text \<open>The job with its image, the command that runs its script there, and without its script.\<close>

definition packaged_job :: "string \<Rightarrow> resolved_config \<Rightarrow> job_spec \<Rightarrow> string \<Rightarrow> gerror + job_spec" where
  "packaged_job cwd resolved job img =
     (if job_command job = []
      then bindr (containerScriptPath cwd (job_script job) (pk_context (rs_packaging resolved))) (\<lambda>scriptPath.
        Inr (job\<lparr>job_image := img, job_command := [''python3'', scriptPath], job_script := []\<rparr>))
      else Inr (job\<lparr>job_image := img, job_script := []\<rparr>))"

definition packageJob :: "host \<Rightarrow> resolved_config \<Rightarrow> job_spec \<Rightarrow> string \<Rightarrow> string list \<times> (gerror + job_spec)" where
  "packageJob h resolved job runID =
     (case package_image resolved runID of
        Inl e \<Rightarrow> ([], Inl e)
      | Inr img \<Rightarrow>
          let p = rs_packaging resolved;
              cfg = \<lparr>ic_dockerfile = pk_dockerfile p, ic_context = pk_context p, ic_image = img, ic_platform = pk_platform p\<rparr>
          in ([''Packaging '' @ job_script job @ '' as '' @ img],
              bindr (imageBuilder h cfg runID) (\<lambda>built. packaged_job (ho_cwd h) resolved job built)))"

definition planPackagedJob :: "string \<Rightarrow> resolved_config \<Rightarrow> job_spec \<Rightarrow> string \<Rightarrow> gerror + job_spec" where
  "planPackagedJob cwd resolved job runID =
     bindr (package_image resolved runID) (\<lambda>img. packaged_job cwd resolved job img)"

section \<open>The job of a run\<close>

text \<open>The manifest's inputs replace the job's. The script is that of the job before it is packaged.\<close>

definition prepareRunJob ::
  "host \<Rightarrow> resolved_config \<Rightarrow> string \<Rightarrow> string list \<times> (gerror + job_spec \<times> data_manifest \<times> string)" where
  "prepareRunJob h resolved runID =
     (case Prepare (ho_files h) (rs_job resolved) (preflight resolved) of
        Inl e \<Rightarrow> ([], Inl e)
      | Inr manifest0 \<Rightarrow>
          let job0 = (rs_job resolved)\<lparr>job_data := dm_inputs manifest0\<rparr>;
              staged = (if shouldStageBundledInputs resolved manifest0
                then (case validateStagingDataPrefixForProvider resolved of
                    Some e \<Rightarrow> Inl e
                  | None \<Rightarrow> StageBundledInputs (ho_files h) (ho_upload h) (rs_staging resolved) runID job0 manifest0)
                else Inr \<lparr>mr_job = job0, mr_manifest = manifest0, mr_uploaded = []\<rparr>)
          in case staged of
               Inl e \<Rightarrow> ([], Inl e)
             | Inr s \<Rightarrow>
                 let job = mr_job s; out = map (\<lambda>uri. ''Staged data: '' @ uri) (mr_uploaded s) in
                 if shouldPackageForProvider resolved job
                 then (case packageJob h resolved job runID of
                     (line, Inl e) \<Rightarrow> (out @ line, Inl e)
                   | (line, Inr packaged) \<Rightarrow> (out @ line, Inr (packaged, mr_manifest s, job_script job)))
                 else (out, Inr (job, mr_manifest s, job_script job)))"

record plan_staging_report =
  ps_would_upload :: bool
  ps_data_prefix :: string
  ps_planned_uploads :: "string list"
  ps_resolved_inputs :: "data_input list"
  ps_no_upload_started :: bool

record plan_packaging_report =
  pp_would_package :: bool
  pp_image :: string
  pp_command :: "string list"
  pp_no_build_or_push :: bool

text \<open>\<open>planningUploader\<close> notes the destination and succeeds. Its notes are read only when all inputs
  were staged, and then they are the destinations of the uploads, in their order.\<close>

definition planningUploader :: uploader where
  "planningUploader sourcePath destinationURI = None"

definition preparePlanJob ::
  "host \<Rightarrow> resolved_config \<Rightarrow> string
     \<Rightarrow> gerror + job_spec \<times> data_manifest \<times> plan_staging_report \<times> plan_packaging_report" where
  "preparePlanJob h resolved runID =
     bindr (Prepare (ho_files h) (rs_job resolved) (preflight resolved)) (\<lambda>manifest0.
       let job0 = (rs_job resolved)\<lparr>job_data := dm_inputs manifest0\<rparr>;
           report = \<lparr>ps_would_upload = False, ps_data_prefix = sg_data_prefix (rs_staging resolved),
             ps_planned_uploads = [], ps_resolved_inputs = job_data job0, ps_no_upload_started = True\<rparr>
       in bindr (if shouldStageBundledInputs resolved manifest0
           then (case validateStagingDataPrefixForProvider resolved of
               Some e \<Rightarrow> Inl e
             | None \<Rightarrow>
                 bindr (StageBundledInputs (ho_files h) planningUploader (rs_staging resolved) runID job0 manifest0) (\<lambda>s.
                   Inr (mr_job s, mr_manifest s, report\<lparr>ps_would_upload := (mr_uploaded s \<noteq> []),
                     ps_planned_uploads := mr_uploaded s, ps_resolved_inputs := job_data (mr_job s)\<rparr>)))
           else Inr (job0, manifest0, report)) (\<lambda>(job, manifest, stagingReport).
         let none = \<lparr>pp_would_package = False, pp_image = [], pp_command = [], pp_no_build_or_push = True\<rparr> in
         if shouldPackageForProvider resolved job
         then bindr (planPackagedJob (ho_cwd h) resolved job runID) (\<lambda>packaged.
           Inr (packaged, manifest, stagingReport, none\<lparr>pp_would_package := True, pp_image := job_image packaged,
             pp_command := job_command packaged\<rparr>))
         else Inr (job, manifest, stagingReport, none)))"

section \<open>A plan prepares the job that a run submits\<close>

lemma walk_same:
  assumes "\<And>p n s s'. fn p n s = (s', None) \<Longrightarrow> fn' p n s = (s', None)"
    and "walk_visits fn vs s = (s', None)"
  shows "walk_visits fn' vs s = (s', None)"
  using assms
proof (induction fn vs s arbitrary: s' rule: walk_visits.induct)
  case (3 fn p n vs s)
  obtain s1 r where s1: "fn p n s = (s1, r)" by fastforce
  with 3(3) have r: "r = None" by (auto simp: then_ok_def split: option.splits)
  from 3(3) s1 r have rest: "walk_visits fn vs (fst (fn p n s)) = (s', None)" by (simp add: then_ok_def)
  have "walk_visits fn' vs (fst (fn p n s)) = (s', None)" by (rule "3.IH" [OF _ rest]) (rule 3(2))
  with 3(2) [of p n s s1] s1 r show ?case by (simp add: then_ok_def)
qed auto

lemma WalkDir_same:
  assumes "\<And>p n s s'. fn p n s = (s', None) \<Longrightarrow> fn' p n s = (s', None)" and "WalkDir fl base fn s = (s', None)"
  shows "WalkDir fl base fn' s = (s', None)"
  using assms(2) by (auto simp: WalkDir_def intro: walk_same [OF assms(1)] split: sum.splits)

lemma stage_step_plan:
  "stage_step up source pre p n s = (s', None) \<Longrightarrow> stage_step planningUploader source pre p n s = (s', None)"
  by (auto simp: stage_step_def upload_file_def planningUploader_def split: if_splits sum.splits option.splits)

lemma stage_one_plan:
  assumes "stage_one fl up cfg runID input = Inr x" shows "stage_one fl planningUploader cfg runID input = Inr x"
proof (cases "di_mode input \<noteq> ModeBundle")
  case True
  with assms show ?thesis by (simp add: stage_one_def)
next
  case False
  then have in_dir: "stageInput fl up cfg runID input = Inr x" using assms by (simp add: stage_one_def)
  let ?pre = "joinURI [DataPrefix cfg runID, di_name input]" and ?src = "di_source input"
  obtain info where info: "fl_stat fl ?src = Inr info" using in_dir by (auto simp: stageInput_def split: sum.splits)
  have "stageInput fl planningUploader cfg runID input = Inr x"
  proof (cases "is_dir info")
    case True
    obtain ups r where walk: "WalkDir fl ?src (stage_step up ?src ?pre) [] = (ups, r)" by fastforce
    with in_dir info True have r: "r = None" by (auto simp: stageInput_def Let_def split: option.splits)
    have "WalkDir fl ?src (stage_step planningUploader ?src ?pre) [] = (ups, None)"
      using walk r by (intro WalkDir_same [OF stage_step_plan]) simp_all
    with in_dir info True walk r show ?thesis by (simp add: stageInput_def Let_def)
  next
    case no_dir: False
    with in_dir info show ?thesis
      by (auto simp: stageInput_def Let_def planningUploader_def split: option.splits)
  qed
  with False show ?thesis by (simp add: stage_one_def)
qed

lemma mapr_mono: "(\<And>x y. f x = Inr y \<Longrightarrow> g x = Inr y) \<Longrightarrow> mapr f xs = Inr ys \<Longrightarrow> mapr g xs = Inr ys"
  by (induction xs arbitrary: ys) (auto simp: result_simps)

lemma stage_plan:
  assumes "StageBundledInputs fl up cfg runID job m = Inr s"
  shows "StageBundledInputs fl planningUploader cfg runID job m = Inr s"
  using assms mapr_mono [of "stage_one fl up cfg runID" "stage_one fl planningUploader cfg runID", OF stage_one_plan]
  by (fastforce simp: StageBundledInputs_def result_simps split: if_splits)

lemma package_plan:
  assumes "packageJob h resolved job runID = (line, Inr packaged)" and "ho_factory h = None"
  shows "planPackagedJob (ho_cwd h) resolved job runID = Inr packaged
    \<and> line = [''Packaging '' @ job_script job @ '' as '' @ job_image packaged]"
proof -
  obtain img where img: "package_image resolved runID = Inr img"
    using assms(1) by (cases "package_image resolved runID") (auto simp: packageJob_def)
  with assms obtain built where built: "packaged_job (ho_cwd h) resolved job built = Inr packaged" "built = img"
    "line = [''Packaging '' @ job_script job @ '' as '' @ img]"
    by (auto simp: packageJob_def Let_def imageBuilder_def result_simps dest: build_and_push_image)
  then have "job_image packaged = img" by (auto simp: packaged_job_def result_simps split: if_splits)
  with img built show ?thesis by (simp add: planPackagedJob_def)
qed


section \<open>A concrete plan\<close>

definition sample_host :: host where
  "sample_host = \<lparr>ho_files = sample_files, ho_cwd = ''/w'', ho_upload = (\<lambda>p q. None), ho_factory = None,
     ho_docker = (\<lambda>n args. None)\<rparr>"

definition remote_config :: resolved_config where
  "remote_config = sample_resolved\<lparr>rs_provider := ''gcp'',
     rs_job := (rs_job sample_resolved)\<lparr>job_image := [], job_script := ''train.py'', job_command := [],
       job_data := [\<lparr>di_name = ''in'', di_source = ''/data/in'', di_mount = ''/data'', di_mode = ModeBundle\<rparr>]\<rparr>,
     rs_staging := \<lparr>sg_checkpoint_prefix = [], sg_data_prefix = ''gs://b/d''\<rparr>,
     rs_packaging := \<lparr>pk_dockerfile = [], pk_context = ''/data/in'', pk_image = ''reg/x:1'', pk_platform = []\<rparr>\<rparr>"


end
