(* ===== verification/RuntimePrep.thy ===== *)
theory RuntimePrep
  imports DataPrep
begin

text \<open>
  \<open>internal/runtimeprep/local.go\<close>: a job that runs locally gets its data copied into the run's
  workspace, and the container paths in its arguments, environment and working directory
  rewritten to where they are on the host. The working directory of the process is a parameter.
\<close>

definition WorkspacePrefix :: string where "WorkspacePrefix = ''/workspace''"

record prepared_job =
  pj_job :: job_spec
  pj_mounts :: "string smap"
  pj_workspace :: string

definition under_workspace :: "string \<Rightarrow> bool" where
  "under_workspace clean \<longleftrightarrow> clean = path_clean WorkspacePrefix \<or> prefix (path_clean WorkspacePrefix @ ''/'') clean"

definition HostPathForMount :: "string \<Rightarrow> string \<Rightarrow> gerror + string" where
  "HostPathForMount workspace mount =
     (if mount = [] then Inl (ErrText ''mount path is required'')
      else let clean = path_clean mount in
        if \<not> under_workspace clean
        then Inl (ErrText (''mount '' @ quote mount @ '' must be under '' @ WorkspacePrefix))
        else case path_rel (path_clean WorkspacePrefix) clean of
            Inl e \<Rightarrow> Inl e
          | Inr rel \<Rightarrow>
              if rel = ''.'' then Inr workspace
              else if prefix ''..'' rel
              then Inl (ErrText (''mount '' @ quote mount @ '' must be under '' @ WorkspacePrefix))
              else Inr (path_join [workspace, rel]))"

section \<open>Rewriting paths\<close>

definition isPathBoundary :: "char \<Rightarrow> bool" where
  "isPathBoundary ch \<longleftrightarrow> ch \<in> set (''/:;, )]}?&#='' @ [CHR 0x5C, CHR 0x09, CHR 0x0A, CHR 0x0D, CHR 0x22, CHR 0x27])"

definition pathTokenBoundary :: "string \<Rightarrow> nat \<Rightarrow> nat \<Rightarrow> bool" where
  "pathTokenBoundary value start end_ix \<longleftrightarrow>
     (start > 0 \<longrightarrow> isPathBoundary (value ! (start - 1))) \<and> (end_ix < length value \<longrightarrow> isPathBoundary (value ! end_ix))"

text \<open>The loop of \<open>replacePathToken\<close>: \<open>searchStart\<close> is the end of what has been written.\<close>

function replace_tokens :: "string \<Rightarrow> string \<Rightarrow> string \<Rightarrow> nat \<Rightarrow> string" where
  "replace_tokens value needle replacement searchStart =
     (if needle = [] then drop searchStart value
      else case cut needle (drop searchStart value) of
        None \<Rightarrow> drop searchStart value
      | Some (before, after) \<Rightarrow>
          (let index = searchStart + length before; end_ix = index + length needle in
           (if pathTokenBoundary value index end_ix then before @ replacement else before @ needle)
             @ replace_tokens value needle replacement end_ix))"
  by pat_completeness auto

lemma cut_needle_length: "cut sep s = Some (b, a) \<Longrightarrow> length s = length b + length sep + length a"
  using cut_Some by fastforce

termination replace_tokens
proof (relation "measure (\<lambda>(value, needle, replacement, start). length value - start)")
  show "wf (measure (\<lambda>(value :: string, needle :: string, replacement :: string, start). length value - start))" by simp
next
  fix v needle replacement :: string and start :: nat and r before after index end_ix
  assume "needle \<noteq> []" "cut needle (drop start v) = Some r" "(before, after) = r"
    "index = start + length before" "end_ix = index + length needle"
  then show "((v, needle, replacement, end_ix), (v, needle, replacement, start))
      \<in> measure (\<lambda>(value, needle, replacement, start). length value - start)"
    using cut_needle_length [of needle "drop start v" before after] by (cases needle) auto
qed

declare replace_tokens.simps [simp del]

definition replacePathToken :: "string \<Rightarrow> string \<Rightarrow> string \<Rightarrow> string" where
  "replacePathToken value needle replacement =
     (if value = [] \<or> needle = [] then value else replace_tokens value needle replacement 0)"

text \<open>The exchange sort of the mounts, longest first: one pass of the inner loop, and all of them.\<close>

fun exchange_pass :: "string \<Rightarrow> string list \<Rightarrow> string \<times> string list" where
  "exchange_pass k [] = (k, [])"
| "exchange_pass k (x # xs) =
     (if length x > length k then (case exchange_pass x xs of (m, r) \<Rightarrow> (m, k # r))
      else (case exchange_pass k xs of (m, r) \<Rightarrow> (m, x # r)))"

lemma exchange_pass_length: "exchange_pass k xs = (m, r) \<Longrightarrow> length r = length xs"
  by (induction k xs arbitrary: m r rule: exchange_pass.induct) (auto split: if_splits prod.splits)

function exchange_sort :: "string list \<Rightarrow> string list" where
  "exchange_sort [] = []"
| "exchange_sort (k # ks) = (case exchange_pass k ks of (m, r) \<Rightarrow> m # exchange_sort r)"
  by pat_completeness auto

termination exchange_sort
  by (relation "measure length") (auto dest: exchange_pass_length [OF sym])

definition RewriteValue :: "string \<Rightarrow> string smap \<Rightarrow> string" where
  "RewriteValue value mounts =
     foldl (\<lambda>out mount. replacePathToken out mount (lookup_default [] mounts mount)) value
       (exchange_sort (map fst mounts))"

definition rewriteStrings :: "string list \<Rightarrow> string smap \<Rightarrow> string list" where
  "rewriteStrings vs mounts = map (\<lambda>v. RewriteValue v mounts) vs"

definition rewriteEnv :: "string smap \<Rightarrow> string smap \<Rightarrow> string smap" where
  "rewriteEnv env mounts = map (\<lambda>(k, v). (k, RewriteValue v mounts)) env"

section \<open>Copying bundles\<close>

definition copyFile :: "string \<Rightarrow> string \<Rightarrow> disk \<Rightarrow> disk \<times> gerror option" where
  "copyFile content dest d = then_ok (MkdirAll (path_dir dest) d) (write_file dest content)"

definition bundle_symlink :: "string \<Rightarrow> gerror" where
  "bundle_symlink p = ErrText (''bundle source '' @ quote p
     @ '' is a symlink; bundled data inputs must not contain symlinks'')"

definition bundle_irregular :: "string \<Rightarrow> gerror" where
  "bundle_irregular p = ErrText (''bundle source '' @ quote p
     @ '' is not a regular file; bundled data inputs must contain only regular files and directories'')"

text \<open>The callback of \<open>copyDir\<close>.\<close>

definition copy_step :: "string \<Rightarrow> string \<Rightarrow> string \<Rightarrow> file_node \<Rightarrow> disk \<Rightarrow> disk \<times> gerror option" where
  "copy_step source dest p n d =
     (case n of
        Symlink \<Rightarrow> (d, Some (bundle_symlink p))
      | _ \<Rightarrow> (case path_rel source p of Inl e \<Rightarrow> (d, Some e)
          | Inr rel \<Rightarrow>
              let target = path_join [dest, rel] in
              (case n of
                 Dir err es \<Rightarrow> MkdirAll target d
               | RegFile content \<Rightarrow> copyFile content target d
               | _ \<Rightarrow> (d, Some (bundle_irregular p)))))"

definition materializeBundle :: "files \<Rightarrow> string \<Rightarrow> string \<Rightarrow> disk \<Rightarrow> disk \<times> gerror option" where
  "materializeBundle fl source dest d =
     (case fl_lstat fl source of
        Inl e \<Rightarrow> (d, Some e)
      | Inr info \<Rightarrow>
          (case info of
             Symlink \<Rightarrow> (d, Some (bundle_symlink source))
           | Dir err es \<Rightarrow> WalkDir fl source (copy_step source dest) d
           | Irregular \<Rightarrow> (d, Some (bundle_irregular source))
           | RegFile content \<Rightarrow> then_ok (MkdirAll (path_dir dest) d) (copyFile content dest)))"

section \<open>Preparing a job\<close>

definition absPath :: "string \<Rightarrow> string \<Rightarrow> string" where
  "absPath cwd p = (if p = [] \<or> rooted p then p else path_abs cwd p)"

definition prepareWorkDir :: "string \<Rightarrow> string \<Rightarrow> string" where
  "prepareWorkDir workDir workspace =
     (if workDir = [] \<or> workDir = ''.'' then workspace
      else if under_workspace (path_clean workDir)
      then (case HostPathForMount workspace workDir of Inr p \<Rightarrow> p | Inl e \<Rightarrow> workDir)
      else workDir)"

fun prepare_mounts ::
  "files \<Rightarrow> string \<Rightarrow> data_input list \<Rightarrow> string smap \<Rightarrow> disk \<Rightarrow> disk \<times> (gerror + string smap)" where
  "prepare_mounts fl workspace [] mounts d = (d, Inr mounts)"
| "prepare_mounts fl workspace (input # inputs) mounts d =
     (case HostPathForMount workspace (di_mount input) of
        Inl e \<Rightarrow> (d, Inl e)
      | Inr hostMount \<Rightarrow>
          (case (if di_mode input = ModeBundle then materializeBundle fl (di_source input) hostMount d else (d, None)) of
             (d', Some e) \<Rightarrow> (d', Inl e)
           | (d', None) \<Rightarrow> prepare_mounts fl workspace inputs (AList.update (di_mount input) hostMount mounts) d'))"

definition PrepareLocal ::
  "string \<Rightarrow> files \<Rightarrow> job_spec \<Rightarrow> data_manifest \<Rightarrow> string \<Rightarrow> disk \<Rightarrow> disk \<times> (gerror + prepared_job)" where
  "PrepareLocal cwd fl job manifest workspace d =
     (if workspace = [] then (d, Inl (ErrText ''workspace is required''))
      else case prepare_mounts fl workspace (dm_inputs manifest) [] d of
          (d', Inl e) \<Rightarrow> (d', Inl e)
        | (d', Inr mounts) \<Rightarrow>
            (d', Inr \<lparr>pj_job = job\<lparr>job_work_dir := RewriteValue (prepareWorkDir (job_work_dir job) workspace) mounts,
                job_script := absPath cwd (job_script job), job_data := dm_inputs manifest,
                job_args := rewriteStrings (job_args job) mounts, job_env := rewriteEnv (job_env job) mounts\<rparr>,
              pj_mounts = mounts, pj_workspace = workspace\<rparr>))"
section \<open>Mounts stay in the workspace\<close>

lemma path_join_rel:
  assumes "h \<noteq> []" and "es \<noteq> []"
  shows "path_join [h, join ''/'' es] = path_join (h # es)"
  using assms by (cases es) (simp_all add: path_join_def)

lemma clean_workspace: "path_clean WorkspacePrefix = ''/workspace''" "path_stack ''/workspace'' = [''workspace'']"
  "rooted ''/workspace''" "CHR ''/'' \<notin> set ''workspace''"
  by code_simp+

lemma good_rooted_plain: "good_stack True st \<Longrightarrow> \<forall>e \<in> set st. plain_element e"
  by (auto simp: good_stack_def)

lemma under_workspace_stack:
  assumes "under_workspace (path_clean mount)"
  shows "\<exists>es. path_stack mount = ''workspace'' # es \<and> rooted mount \<and> (\<forall>e \<in> set es. plain_element e)"
proof -
  let ?st = "path_stack mount"
  have "rooted (path_clean mount)"
    using assms unfolding under_workspace_def clean_workspace(1) rooted_def by (auto simp: prefix_def)
  then have r: "rooted mount" by simp
  have good: "good_stack True ?st" using good_path_stack [of mount] r by simp
  have clean: "path_clean mount = ''/'' @ join ''/'' ?st" using r by (simp add: path_clean_def stack_path_def)
  then have j: "join ''/'' ?st = ''workspace'' \<or> (\<exists>x. join ''/'' ?st = ''workspace'' @ CHR ''/'' # x)"
    using assms unfolding under_workspace_def clean_workspace(1) by (auto simp: prefix_def)
  then have "?st \<noteq> []" by auto
  then have parts: "split_char (CHR ''/'') (join ''/'' ?st) = ?st"
    using good_rooted_plain [OF good] by (rule split_join_plain)
  have "\<exists>es. ?st = ''workspace'' # es"
    using j parts split_char_append [OF clean_workspace(4)] split_char_single [OF clean_workspace(4)] by metis
  with r good_rooted_plain [OF good] show ?thesis by auto
qed

lemma HostPathForMount_result:
  assumes "HostPathForMount workspace mount = Inr p" and "workspace \<noteq> []"
  shows "\<exists>es. path_stack mount = ''workspace'' # es \<and> rooted mount \<and> (\<forall>e \<in> set es. plain_element e)
    \<and> path_stack p = path_stack workspace @ es \<and> rooted p = rooted workspace"
proof -
  have "under_workspace (path_clean mount)"
    using assms by (auto simp: HostPathForMount_def Let_def split: if_splits)
  then obtain es where es: "path_stack mount = ''workspace'' # es" "rooted mount" "\<forall>e \<in> set es. plain_element e"
    using under_workspace_stack by blast
  have rel: "path_rel ''/workspace'' (path_clean mount) = Inr (if es = [] then ''.'' else join ''/'' es)"
    using es by (intro path_rel_below) (simp_all add: clean_workspace)
  have "path_stack p = path_stack workspace @ es \<and> rooted p = rooted workspace"
  proof (cases "es = []")
    case True
    with rel assms(1) show ?thesis
      by (auto simp: HostPathForMount_def Let_def clean_workspace(1) split: if_splits)
  next
    case False
    have "join ''/'' es \<noteq> ''.''"
    proof
      assume "join ''/'' es = ''.''"
      with split_join_plain [OF False es(3)] have "es = [''.'']" by simp
      with es(3) show False by (simp add: plain_element_def)
    qed
    with False rel assms(1) have "p = path_join [workspace, join ''/'' es]"
      by (auto simp: HostPathForMount_def Let_def clean_workspace(1) split: if_splits)
    with path_join_rel [OF assms(2) False] path_join_stack [OF False es(3)] show ?thesis by simp
  qed
  with es show ?thesis by blast
qed

text \<open>A mount is placed at its own path below the workspace of the run: whatever dots and slashes
  it is written with, a mount that would lie outside is refused.\<close>

theorem mount_contained:
  assumes "workspace \<noteq> []"
  shows "case HostPathForMount workspace mount of
      Inl e \<Rightarrow> True
    | Inr p \<Rightarrow> rooted mount \<and> rooted p = rooted workspace
        \<and> (\<exists>es. path_stack mount = ''workspace'' # es \<and> path_stack p = path_stack workspace @ es
             \<and> (\<forall>e \<in> set es. plain_element e))"
proof (cases "HostPathForMount workspace mount")
  case (Inr p)
  from HostPathForMount_result [OF Inr assms] Inr show ?thesis by auto
qed simp

lemma mount_contained_witness:
  "case HostPathForMount ''/home/runs/r1/workspace'' ''/workspace/data/../data/train'' of
     Inl e \<Rightarrow> False | Inr p \<Rightarrow> path_stack p = [''home'', ''runs'', ''r1'', ''workspace'', ''data'', ''train'']"
proof -
  have p: "HostPathForMount ''/home/runs/r1/workspace'' ''/workspace/data/../data/train''
      = Inr ''/home/runs/r1/workspace/data/train''"
    "path_stack ''/workspace/data/../data/train'' = [''workspace'', ''data'', ''train'']"
    "path_stack ''/home/runs/r1/workspace'' = [''home'', ''runs'', ''r1'', ''workspace'']"
    by code_simp+
  have "''/home/runs/r1/workspace'' \<noteq> []" by simp
  from mount_contained [OF this, of "''/workspace/data/../data/train''"]
  show ?thesis unfolding p sum.case by (simp only: list.inject) (elim conjE exE, simp)
qed

section \<open>Rewriting is by whole path\<close>

lemma cut_prefix: "sep \<noteq> [] \<Longrightarrow> cut sep (sep @ s) = Some ([], s)"
  by (cases sep) auto

lemma cut_none: "\<not> sublist sep s \<Longrightarrow> cut sep s = None"
  using cut_Some [of sep s] by (cases "cut sep s") (auto simp: sublist_def)

text \<open>A mount at the front of a value is replaced by its host path where the value ends or a path
  goes on after it, and is left alone in front of a longer name, such as \<open>/workspace/data2\<close> for
  the mount \<open>/workspace/data\<close>; a value without the mount is not changed.\<close>

theorem replace_path_token:
  assumes "needle \<noteq> []" and "\<not> sublist needle s"
  shows "replacePathToken s needle host = s
    \<and> replacePathToken (needle @ s) needle host =
        (if s = [] \<or> isPathBoundary (hd s) then host @ s else needle @ s)"
proof -
  have rest: "replace_tokens v needle host n = drop n v" if "drop n v = s" for v n
    using that assms cut_none [OF assms(2)] by (subst replace_tokens.simps) simp
  have "pathTokenBoundary (needle @ s) 0 (length needle) \<longleftrightarrow> s = [] \<or> isPathBoundary (hd s)"
    by (cases s) (auto simp: pathTokenBoundary_def nth_append)
  moreover have "replace_tokens (needle @ s) needle host (length needle) = s"
    by (subst rest) simp_all
  ultimately have "replace_tokens (needle @ s) needle host 0 =
      (if s = [] \<or> isPathBoundary (hd s) then host @ s else needle @ s)"
    using assms(1) by (subst replace_tokens.simps) (simp add: cut_prefix)
  with assms rest [of 0 s] show ?thesis by (simp add: replacePathToken_def)
qed

lemma replace_path_token_witness:
  "replacePathToken ''/workspace/data2'' ''/workspace/data'' ''/host'' = ''/workspace/data2''
   \<and> replacePathToken ''/workspace/data/x'' ''/workspace/data'' ''/host'' = ''/host/x''"
proof -
  have n: "\<not> sublist ''/workspace/data'' ''2''" "\<not> sublist ''/workspace/data'' ''/x''" "\<not> isPathBoundary (CHR ''2'')"
    "isPathBoundary (CHR ''/'')"
    by code_simp+
  from replace_path_token [OF _ n(1), of "''/host''"] replace_path_token [OF _ n(2), of "''/host''"] n(3,4)
  show ?thesis by simp
qed
section \<open>A bundle is copied file by file\<close>

definition no_faults :: "disk \<Rightarrow> bool" where
  "no_faults d \<longleftrightarrow> (\<forall>p. dk_fault d p = None)"

text \<open>The disk after the files were written in their order, and nothing else.\<close>

definition written :: "disk \<Rightarrow> (string \<times> string) list \<Rightarrow> disk \<Rightarrow> bool" where
  "written d fs d' \<longleftrightarrow> dk_files d' = foldl (\<lambda>m (p, c). AList.update p c m) (dk_files d) fs \<and> dk_fault d' = dk_fault d"

fun plain_names :: "file_node \<Rightarrow> bool" where
  "plain_names (Dir err es) = (\<forall>(n, c) \<in> set es. plain_element n \<and> plain_names c)"
| "plain_names (RegFile content) = True"
| "plain_names Symlink = True"
| "plain_names Irregular = True"

definition copy_outcome :: "bool \<Rightarrow> (string \<times> string) list \<Rightarrow> disk \<Rightarrow> disk \<times> gerror option \<Rightarrow> bool" where
  "copy_outcome ok fs d r \<longleftrightarrow>
     (if ok then snd r = None \<and> written d fs (fst r) else snd r \<noteq> None) \<and> dk_fault (fst r) = dk_fault d"

lemma written_trans: "written a xs b \<Longrightarrow> written b ys c \<Longrightarrow> written a (xs @ ys) c"
  by (simp add: written_def)

lemma mkdir_written: "no_faults d \<Longrightarrow> snd (MkdirAll p d) = None \<and> written d [] (fst (MkdirAll p d))"
  by (simp add: MkdirAll_def no_faults_def written_def)

lemma copyFile_written: "no_faults d \<Longrightarrow> snd (copyFile c p d) = None \<and> written d [(p, c)] (fst (copyFile c p d))"
  by (simp add: copyFile_def MkdirAll_def write_file_def no_faults_def written_def)

lemma then_outcome:
  assumes "copy_outcome ok1 xs d r" and "\<And>d'. dk_fault d' = dk_fault d \<Longrightarrow> copy_outcome ok2 ys d' (k d')"
  shows "copy_outcome (ok1 \<and> ok2) (xs @ ys) d (then_ok r k)"
proof (cases rule: then_ok_cases [of r k])
  case (fails e)
  with assms(1) show ?thesis by (auto simp: copy_outcome_def split: if_splits)
next
  case goes
  have f: "dk_fault (fst r) = dk_fault d" using assms(1) by (simp add: copy_outcome_def)
  with goes assms(1) assms(2) [OF f] show ?thesis
    by (auto simp: copy_outcome_def split: if_splits intro: written_trans)
qed

lemma copy_list:
  assumes "\<And>n c d. (n, c) \<in> set xs \<Longrightarrow> no_faults d \<Longrightarrow>
      copy_outcome (regular_tree c) (tree_files (path_join [q, n]) c) d (walk_visits fn (visits (path_join [p, n]) c) d)"
    and "no_faults d"
  shows "copy_outcome (\<forall>(n, c) \<in> set xs. regular_tree c) (concat (map (\<lambda>(n, c). tree_files (path_join [q, n]) c) xs)) d
    (walk_visits fn (concat (map (\<lambda>(n, c). visits (path_join [p, n]) c) xs)) d)"
  using assms
proof (induction xs arbitrary: d)
  case Nil
  then show ?case by (simp add: copy_outcome_def written_def)
next
  case (Cons x xs)
  obtain n c where x: "x = (n, c)" by (cases x)
  have "copy_outcome (regular_tree c \<and> (\<forall>(n, c) \<in> set xs. regular_tree c))
      (tree_files (path_join [q, n]) c @ concat (map (\<lambda>(n, c). tree_files (path_join [q, n]) c) xs)) d
      (then_ok (walk_visits fn (visits (path_join [p, n]) c) d)
        (walk_visits fn (concat (map (\<lambda>(n, c). visits (path_join [p, n]) c) xs))))"
  proof (rule then_outcome)
    show "copy_outcome (regular_tree c) (tree_files (path_join [q, n]) c) d
        (walk_visits fn (visits (path_join [p, n]) c) d)"
      using Cons.prems x by simp
    fix d' :: disk assume "dk_fault d' = dk_fault d"
    then have "no_faults d'" using Cons.prems(2) by (simp add: no_faults_def)
    then show "copy_outcome (\<forall>(n, c) \<in> set xs. regular_tree c)
        (concat (map (\<lambda>(n, c). tree_files (path_join [q, n]) c) xs)) d'
        (walk_visits fn (concat (map (\<lambda>(n, c). visits (path_join [p, n]) c) xs)) d')"
      using Cons.prems(1) by (intro Cons.IH) auto
  qed
  then show ?case by (simp add: x walk_append)
qed

lemma child_path:
  assumes "good_stack rt st" and "plain_element n"
  shows "path_join [stack_path rt st, n] = stack_path rt (st @ [n])"
  using path_join_plain [of "[n]" "stack_path rt st"] path_stack_stack_path [OF assms(1)] assms(2) by simp

lemma rel_child:
  assumes "rooted source" and "es \<noteq> []" and "\<forall>e \<in> set es. plain_element e"
  shows "path_rel source (stack_path True (path_stack source @ es)) = Inr (join ''/'' es)"
proof -
  have "good_stack True (path_stack source @ es)"
    using good_append [OF good_path_stack assms(3), of source] assms(1) by simp
  note st = path_stack_stack_path [OF this]
  have "path_rel source (stack_path True (path_stack source @ es)) = Inr (if es = [] then ''.'' else join ''/'' es)"
    using st assms by (intro path_rel_below) auto
  with assms(2) show ?thesis by simp
qed

lemma copy_node:
  assumes "rooted source" and "dest \<noteq> []"
  shows "plain_names c \<Longrightarrow> es \<noteq> [] \<Longrightarrow> \<forall>e \<in> set es. plain_element e \<Longrightarrow> no_faults d \<Longrightarrow>
    copy_outcome (regular_tree c) (tree_files (stack_path (rooted dest) (path_stack dest @ es)) c) d
      (walk_visits (copy_step source dest) (visits (stack_path True (path_stack source @ es)) c) d)"
proof (induction c arbitrary: es d rule: plain_names.induct)
  case (1 err nodes)
  let ?p = "stack_path True (path_stack source @ es)" and ?q = "stack_path (rooted dest) (path_stack dest @ es)"
  have target: "path_join [dest, join ''/'' es] = ?q"
    using path_join_rel [OF assms(2) "1.prems"(2)] path_join_plain [OF "1.prems"(2,3)] by simp
  have step: "copy_step source dest ?p (Dir err nodes) d' = MkdirAll ?q d'" for d'
    using rel_child [OF assms(1) "1.prems"(2,3)] target by (simp add: copy_step_def)
  have goodp: "good_stack True (path_stack source @ es)" and goodq: "good_stack (rooted dest) (path_stack dest @ es)"
    using good_append [OF good_path_stack "1.prems"(3)] assms(1) by (metis, metis)
  have kids: "copy_outcome (regular_tree c) (tree_files (path_join [?q, n]) c) d'
      (walk_visits (copy_step source dest) (visits (path_join [?p, n]) c) d')"
    if "(n, c) \<in> set nodes" "no_faults d'" for n c d'
  proof -
    have n: "plain_element n" "plain_names c" using "1.prems"(1) that(1) by auto
    have "copy_outcome (regular_tree c) (tree_files (stack_path (rooted dest) (path_stack dest @ (es @ [n]))) c) d'
      (walk_visits (copy_step source dest) (visits (stack_path True (path_stack source @ (es @ [n]))) c) d')"
      using that n "1.prems"(3) by (intro "1.IH") auto
    then show ?thesis using child_path [OF goodp n(1)] child_path [OF goodq n(1)] by simp
  qed
  show ?case
  proof (cases err)
    case (Some e)
    have "dk_fault (fst (MkdirAll ?q d)) = dk_fault d" by (simp add: MkdirAll_def split: option.split)
    with Some step show ?thesis
      by (auto simp: copy_outcome_def then_ok_def split: prod.splits option.splits)
  next
    case None
    have "copy_outcome (True \<and> (\<forall>(n, c) \<in> set nodes. regular_tree c))
        ([] @ concat (map (\<lambda>(n, c). tree_files (path_join [?q, n]) c) nodes)) d
        (then_ok (MkdirAll ?q d) (walk_visits (copy_step source dest)
          (concat (map (\<lambda>(n, c). visits (path_join [?p, n]) c) nodes))))"
    proof (rule then_outcome)
      show "copy_outcome True [] d (MkdirAll ?q d)"
        using mkdir_written [OF "1.prems"(4)] by (simp add: copy_outcome_def written_def)
    next
      fix d' :: disk assume "dk_fault d' = dk_fault d"
      then have "no_faults d'" using "1.prems"(4) by (simp add: no_faults_def)
      then show "copy_outcome (\<forall>(n, c) \<in> set nodes. regular_tree c)
        (concat (map (\<lambda>(n, c). tree_files (path_join [?q, n]) c) nodes)) d'
        (walk_visits (copy_step source dest) (concat (map (\<lambda>(n, c). visits (path_join [?p, n]) c) nodes)) d')"
        using kids by (intro copy_list) auto
    qed
    with None step show ?thesis by simp
  qed
next
  case (2 content)
  have target: "path_join [dest, join ''/'' es] = stack_path (rooted dest) (path_stack dest @ es)"
    using path_join_rel [OF assms(2) "2.prems"(2)] path_join_plain [OF "2.prems"(2,3)] by simp
  let ?q = "stack_path (rooted dest) (path_stack dest @ es)"
  obtain d' where "copyFile content ?q d = (d', None)" and w: "written d [(?q, content)] d'"
    using copyFile_written [OF "2.prems"(4), of content ?q] by (cases "copyFile content ?q d") simp
  with target rel_child [OF assms(1) "2.prems"(2,3)]
  have "walk_visits (copy_step source dest) (visits (stack_path True (path_stack source @ es)) (RegFile content)) d = (d', None)"
    by (simp add: copy_step_def)
  with w show ?case by (simp add: copy_outcome_def written_def)
next
  case 3
  then show ?case by (simp add: copy_step_def copy_outcome_def)
next
  case 4
  with rel_child [OF assms(1)] show ?case by (simp add: copy_step_def copy_outcome_def Let_def)
qed

text \<open>Where the disk takes every write, a bundle of regular files and directories is copied file
  by file to the mount's host path, each file below it by its path in the bundle and with its
  bytes; and a bundle that holds a link, a special file or an unreadable directory is refused.\<close>

theorem bundle_copied:
  assumes "rooted source" and "dest \<noteq> []" and "fl_lstat fl source = Inr (Dir err nodes)"
    and "plain_names (Dir err nodes)" and "no_faults d"
  shows "copy_outcome (regular_tree (Dir err nodes)) (tree_files dest (Dir err nodes)) d (materializeBundle fl source dest d)"
proof -
  have rel: "path_rel source source = Inr ''.''" by (simp add: path_rel_def)
  have kids: "copy_outcome (regular_tree c) (tree_files (path_join [dest, n]) c) d'
      (walk_visits (copy_step source dest) (visits (path_join [source, n]) c) d')"
    if "(n, c) \<in> set nodes" "no_faults d'" for n c d'
  proof -
    have n: "plain_element n" "plain_names c" using assms(4) that(1) by auto
    have "copy_outcome (regular_tree c) (tree_files (stack_path (rooted dest) (path_stack dest @ [n])) c) d'
      (walk_visits (copy_step source dest) (visits (stack_path True (path_stack source @ [n])) c) d')"
      using n that by (intro copy_node [OF assms(1,2)]) auto
    then show ?thesis using path_join_plain [of "[n]"] n(1) assms(1) by simp
  qed
  have walk: "copy_outcome (\<forall>(n, c) \<in> set nodes. regular_tree c)
      (concat (map (\<lambda>(n, c). tree_files (path_join [dest, n]) c) nodes)) d'
      (walk_visits (copy_step source dest) (concat (map (\<lambda>(n, c). visits (path_join [source, n]) c) nodes)) d')"
    if "no_faults d'" for d'
    using kids that by (intro copy_list) auto
  have mk: "copy_outcome True [] d (MkdirAll p d)" for p
    using mkdir_written [OF assms(5)] by (simp add: copy_outcome_def written_def)
  show ?thesis
  proof (cases err)
    case (Some e)
    with mk [of "path_join [dest, ''.'']"] assms(3) rel show ?thesis
      by (auto simp: materializeBundle_def WalkDir_def copy_step_def copy_outcome_def then_ok_def
          split: prod.splits option.splits)
  next
    case None
    have "copy_outcome (True \<and> (\<forall>(n, c) \<in> set nodes. regular_tree c))
        ([] @ concat (map (\<lambda>(n, c). tree_files (path_join [dest, n]) c) nodes)) d
        (then_ok (MkdirAll (path_join [dest, ''.'']) d) (walk_visits (copy_step source dest)
          (concat (map (\<lambda>(n, c). visits (path_join [source, n]) c) nodes))))"
      using mk walk assms(5) by (intro then_outcome) (auto simp: no_faults_def)
    with None assms(3) rel show ?thesis
      by (simp add: materializeBundle_def WalkDir_def copy_step_def)
  qed
qed

lemma bundle_copied_witness:
  "dk_files (fst (materializeBundle sample_files ''/data/in'' ''/ws/data'' \<lparr>dk_files = [], dk_dirs = [], dk_fault = (\<lambda>_. None)\<rparr>))
     = [(''/ws/data/a.txt'', ''abc''), (''/ws/data/sub/b.txt'', ''de'')]"
proof -
  have t: "fl_lstat sample_files ''/data/in'' = Inr (Dir None [(''a.txt'', RegFile ''abc''), (''sub'', Dir None [(''b.txt'', RegFile ''de'')])])"
    by (simp add: sample_files_def sample_tree_def)
  have f: "tree_files ''/ws/data'' (Dir None [(''a.txt'', RegFile ''abc''), (''sub'', Dir None [(''b.txt'', RegFile ''de'')])])
      = [(''/ws/data/a.txt'', ''abc''), (''/ws/data/sub/b.txt'', ''de'')]"
    by code_simp
  have p: "plain_names (Dir None [(''a.txt'', RegFile ''abc''), (''sub'', Dir None [(''b.txt'', RegFile ''de'')])])"
    "rooted ''/data/in''"
    by code_simp+
  have "no_faults \<lparr>dk_files = [], dk_dirs = [], dk_fault = (\<lambda>_. None)\<rparr>" by (simp add: no_faults_def)
  from bundle_copied [OF p(2) _ t p(1) this, of "''/ws/data''"] f show ?thesis
    by (simp add: copy_outcome_def written_def)
qed

end
