(* ===== verification/Runs.thy ===== *)
theory Runs
  imports Routing Summary Store Artifact Staging RuntimePrep
begin

text \<open>
  The run loop of \<open>internal/cli/root.go\<close>: attempts of a run on the providers that routing selects,
  until one ends the run. The world holds the database, the run's \<open>events.jsonl\<close> and
  \<open>summary.json\<close>, the workspace on the disk, and what was printed; the clock, fresh identifiers,
  failures of writing the summary, and whether another process cancels the run at a point where
  the loop waits for the provider, are oracles read at the number of the tick.
\<close>

section \<open>The world of a run\<close>

record world =
  w_store :: store
  w_events :: "string list option"
  w_disk :: disk
  w_summary :: "summary option"
  w_out :: "string list"
  w_tick :: nat
  w_clock :: "nat \<Rightarrow> gotime"
  w_fresh :: "nat \<Rightarrow> string"
  w_summary_fault :: "nat \<Rightarrow> gerror option"
  w_cancel :: "nat \<Rightarrow> bool"

text \<open>What stays fixed during a run: the process environment and directory, the files it reads, the
  paths of the run, and its identifier.\<close>

record run_ctx =
  rx_environ :: "string list"
  rx_cwd :: string
  rx_files :: files
  rx_paths :: paths
  rx_run_id :: string

definition exitCodeInternal :: int where "exitCodeInternal = 1"
definition exitCodeInvalidSpec :: int where "exitCodeInvalidSpec = 10"
definition exitCodeRouting :: int where "exitCodeRouting = 30"
definition exitCodeMissingResume :: int where "exitCodeMissingResume = 40"
definition exitCodeCanceled :: int where "exitCodeCanceled = 130"

lemmas exit_codes = exitCodeInternal_def exitCodeInvalidSpec_def exitCodeRouting_def
  exitCodeMissingResume_def exitCodeCanceled_def

definition on_store :: "(store \<Rightarrow> store \<times> 'a) \<Rightarrow> world \<Rightarrow> world \<times> 'a" where
  "on_store f w = (case f (w_store w) of (s, r) \<Rightarrow> (w\<lparr>w_store := s\<rparr>, r))"

definition now :: "world \<Rightarrow> gotime" where "now w = w_clock w (w_tick w)"

definition fresh :: "world \<Rightarrow> string" where "fresh w = w_fresh w (w_tick w)"

definition tick :: "world \<Rightarrow> world" where "tick w = w\<lparr>w_tick := Suc (w_tick w)\<rparr>"

definition print_line :: "string \<Rightarrow> world \<Rightarrow> world" where
  "print_line l w = w\<lparr>w_out := w_out w @ [l]\<rparr>"

section \<open>Ending a run\<close>

definition finishFailed :: "string \<Rightarrow> string \<Rightarrow> int \<Rightarrow> string \<Rightarrow> string \<Rightarrow> world \<Rightarrow> world" where
  "finishFailed runID attemptID code reason providerRef w =
     (let endedAt = now w; w = tick w;
          w = fst (on_store (FinishAttempt attemptID AttemptFailed code reason providerRef endedAt) w)
      in fst (on_store (FinishRun runID RunFailed code reason endedAt) w))"

definition finishRunOnly :: "string \<Rightarrow> int \<Rightarrow> string \<Rightarrow> world \<Rightarrow> world" where
  "finishRunOnly runID code reason w = fst (on_store (FinishRun runID RunFailed code reason (now w)) (tick w))"

definition write_summary_file :: "summary \<Rightarrow> world \<Rightarrow> world \<times> gerror option" where
  "write_summary_file sm w =
     (case w_summary_fault w (w_tick w) of
        Some e \<Rightarrow> (tick w, Some e) | None \<Rightarrow> ((tick w)\<lparr>w_summary := Some sm\<rparr>, None))"

definition writeSummary :: "run_ctx \<Rightarrow> world \<Rightarrow> world \<times> gerror option" where
  "writeSummary rx w =
     (case on_store (GetRun (rx_run_id rx)) w of
        (w, Inl e) \<Rightarrow> (w, Some e)
      | (w, Inr r) \<Rightarrow>
          (case on_store (AttemptsByRun (rx_run_id rx)) w of
             (w, Inl e) \<Rightarrow> (w, Some e)
           | (w, Inr attempts) \<Rightarrow>
               (case ReadJSONL (w_events w) of
                  Inl e \<Rightarrow> (w, Some e)
                | Inr events \<Rightarrow>
                    (case on_store (GetRoutingDecision (rx_run_id rx)) w of
                       (w, decision) \<Rightarrow>
                         write_summary_file
                           (redact_summary (FromEnvironment (rx_environ rx) [])
                             (Build r attempts events (case decision of Inr d \<Rightarrow> Some d | Inl e \<Rightarrow> None))) w))))"

section \<open>Cancelling, as another process does\<close>

text \<open>The attempt that \<open>cancelRun\<close> ends: \<open>Inr None\<close> when the run is not running any more.\<close>

definition last_running :: "attempt list \<Rightarrow> attempt option" where
  "last_running attempts = foldl (\<lambda>r a. if at_state a = AttemptRunning then Some a else r) None attempts"

definition cancel_target :: "string \<Rightarrow> store \<Rightarrow> store \<times> (gerror + attempt option)" where
  "cancel_target runID s =
     (case GetRun runID s of
        (s, Inl e) \<Rightarrow> (s, Inl e)
      | (s, Inr r) \<Rightarrow>
          if run_state r \<noteq> RunRunning then (s, Inr None)
          else
            (case AttemptsByRun runID s of
               (s, Inl e) \<Rightarrow> (s, Inl e)
             | (s, Inr attempts) \<Rightarrow>
                 (case last_running attempts of
                    None \<Rightarrow> (s, Inl (ErrText (''run '' @ runID @ '' has no running attempt'')))
                  | Some a \<Rightarrow>
                      if at_provider_ref a = []
                      then (s, Inl (ErrText (''run '' @ runID @ '' has no provider process reference yet'')))
                      else (s, Inr (Some a)))))"

definition cancel_commit :: "string \<Rightarrow> attempt \<Rightarrow> gotime \<Rightarrow> store \<Rightarrow> store \<times> gerror option" where
  "cancel_commit runID a endedAt s =
     then_ok (FinishAttempt (at_id a) AttemptCanceled exitCodeCanceled ''canceled'' (at_provider_ref a) endedAt s)
       (FinishRun runID RunCanceled exitCodeCanceled ''canceled'' endedAt)"

definition meddle :: "string \<Rightarrow> world \<Rightarrow> world" where
  "meddle runID w =
     (if w_cancel w (w_tick w)
      then (case on_store (cancel_target runID) (tick w) of
          (w', Inr (Some a)) \<Rightarrow> fst (on_store (cancel_commit runID a (now w)) w')
        | (w', _) \<Rightarrow> w')
      else tick w)"

section \<open>Resources of an attempt\<close>

definition redactProviderResource :: "provider_resource \<Rightarrow> redactor \<Rightarrow> provider_resource" where
  "redactProviderResource r red =
     r\<lparr>res_external_id := redact_string red (res_external_id r),
       res_provider_ref := redact_string red (res_provider_ref r),
       res_project := redact_string red (res_project r),
       res_metadata := map (\<lambda>(k, v). (k, redact_string red v)) (res_metadata r)\<rparr>"

definition providerResourceKey :: "provider_resource \<Rightarrow> string" where
  "providerResourceKey r =
     (let externalID = (if res_external_id r = [] then res_provider_ref r else res_external_id r) in
      if res_provider r = [] \<or> resource_kind_string (res_kind r) = [] \<or> externalID = [] then []
      else res_provider r @ ''|'' @ resource_kind_string (res_kind r) @ ''|'' @ externalID)"

definition persistProviderResource ::
  "redactor \<Rightarrow> provider_resource \<Rightarrow> string smap \<Rightarrow> world \<Rightarrow> world \<times> string smap \<times> gerror option" where
  "persistProviderResource red r0 ids w =
     (let r = redactProviderResource r0 red;
          key = providerResourceKey r;
          r = (if key \<noteq> [] \<and> lookup_default [] ids key \<noteq> [] then r\<lparr>res_id := lookup_default [] ids key\<rparr> else r)
      in case on_store (SaveProviderResource (now w) (fresh w) r) (tick w) of
           (w, Inl e) \<Rightarrow> (w, ids, Some e)
         | (w, Inr saved) \<Rightarrow> (w, if key \<noteq> [] then AList.update key (res_id saved) ids else ids, None))"

section \<open>Submitting to a provider\<close>

text \<open>The provider's call, with the callbacks of \<open>runAttempt\<close> answered as the run loop does.\<close>

primrec run_submit ::
  "string \<Rightarrow> string \<Rightarrow> redactor \<Rightarrow> submit_prog \<Rightarrow> string smap \<Rightarrow> world \<Rightarrow> world \<times> submit_result \<times> gerror option" where
  "run_submit runID attemptID red (Done r e) = (\<lambda>ids w. (w, r, e))"
| "run_submit runID attemptID red (Started ref k) = (\<lambda>ids w.
     (case on_store (UpdateAttemptProviderRef attemptID (redact_string red ref)) w of
        (w, err) \<Rightarrow> run_submit runID attemptID red (k err) ids w))"
| "run_submit runID attemptID red (ResourceSaved r k) = (\<lambda>ids w.
     (case persistProviderResource red r ids w of
        (w, ids, err) \<Rightarrow> run_submit runID attemptID red (k err) ids w))"
| "run_submit runID attemptID red (EventWritten ev p) = (\<lambda>ids w.
     run_submit runID attemptID red p ids
       (w\<lparr>w_events := Some (WriteJSONL ev (case w_events w of None \<Rightarrow> [] | Some ls \<Rightarrow> ls))\<rparr>))"
| "run_submit runID attemptID red (Act a p) = run_submit runID attemptID red p"
| "run_submit runID attemptID red (Meanwhile p) = (\<lambda>ids w. run_submit runID attemptID red p ids (meddle runID w))"

section \<open>One attempt\<close>

definition china_cloud_names :: "string list" where
  "china_cloud_names = [''alibaba-cloud'', ''huawei-cloud'', ''tencent-cloud'', ''tianyi-cloud'', ''baidu-ai-cloud'']"

definition isChinaCloudProvider :: "string \<Rightarrow> bool" where
  "isChinaCloudProvider name \<longleftrightarrow> name \<in> set china_cloud_names"

definition runtimeEnvForProvider ::
  "string \<Rightarrow> string \<Rightarrow> string \<Rightarrow> string \<Rightarrow> paths \<Rightarrow> staging_config \<Rightarrow> data_input list \<Rightarrow> string smap" where
  "runtimeEnvForProvider selectedProvider runID attemptID resumeValue p stagingConfig inputs =
     (let remote = selectedProvider = ''gcp'' \<or> selectedProvider = ''lambda'' \<or> isChinaCloudProvider selectedProvider;
          checkpointDir = (if remote then ''/tmp/switchboard/checkpoints'' else p_checkpoints p);
          eventsPath = (if remote then ''/tmp/switchboard/events.jsonl'' else p_events p);
          env = [(''SWITCHBOARD_RUN_ID'', runID), (''SWITCHBOARD_ATTEMPT_ID'', attemptID),
                 (''SWITCHBOARD_CHECKPOINT_DIR'', checkpointDir), (''SWITCHBOARD_RESUME_FROM'', resumeValue),
                 (''SWITCHBOARD_EVENTS_PATH'', eventsPath), (''ORCHESTRATOR_RUN_ID'', runID),
                 (''ORCHESTRATOR_ATTEMPT_ID'', attemptID), (''ORCHESTRATOR_CHECKPOINT_DIR'', checkpointDir),
                 (''ORCHESTRATOR_RESUME_FROM'', resumeValue), (''ORCHESTRATOR_EVENTS_PATH'', eventsPath)];
          skipped = (\<lambda>key. selectedProvider = ''gcp'' \<and>
            (key = ''SWITCHBOARD_CHECKPOINT_URI_PREFIX'' \<or> key = ''ORCHESTRATOR_CHECKPOINT_URI_PREFIX''))
      in map_merge env (filter (\<lambda>(key, value). \<not> skipped key) (RuntimeEnv stagingConfig runID inputs)))"

text \<open>The row of an attempt that starts, and what the loop hands to one attempt.\<close>

record attempt_ctx =
  ac_run :: run_ctx
  ac_registry :: registry
  ac_provider :: string
  ac_job :: job_spec
  ac_manifest :: data_manifest
  ac_staging :: staging_config
  ac_resume :: "checkpoint_ref option"
  ac_hardware :: "hardware_selection option"

definition new_attempt :: "attempt_ctx \<Rightarrow> string \<Rightarrow> gotime \<Rightarrow> attempt" where
  "new_attempt ac attemptID t = \<lparr>at_id = attemptID, at_run_id = rx_run_id (ac_run ac), at_provider = ac_provider ac,
     at_state = AttemptRunning, at_started_at = t, at_ended_at = zero_time, at_exit_code = 0, at_exit_reason = [],
     at_provider_ref = [], at_resume_uri = (case ac_resume ac of None \<Rightarrow> [] | Some c \<Rightarrow> ck_uri c),
     at_resume_step = map_option ck_step (ac_resume ac), at_hourly_usd = None, at_currency = []\<rparr>"

definition prepare_on_disk :: "attempt_ctx \<Rightarrow> world \<Rightarrow> world \<times> (gerror + job_spec)" where
  "prepare_on_disk ac w =
     (if ac_provider ac = provider_local
      then (case PrepareLocal (rx_cwd (ac_run ac)) (rx_files (ac_run ac)) (ac_job ac) (ac_manifest ac)
              (p_workspace (rx_paths (ac_run ac))) (w_disk w) of
          (d, Inl e) \<Rightarrow> (w\<lparr>w_disk := d\<rparr>, Inl e)
        | (d, Inr prepared) \<Rightarrow> (w\<lparr>w_disk := d\<rparr>, Inr (pj_job prepared)))
      else (w, Inr (ac_job ac)))"

definition attempt_estimate :: "attempt_ctx \<Rightarrow> adapter \<Rightarrow> job_spec \<Rightarrow> gerror + cost_estimate" where
  "attempt_estimate ac adapter attemptJob =
     (case ac_hardware ac of
        Some h \<Rightarrow> if hs_hourly_usd h > 0 then Inr \<lparr>est_hourly_usd = hs_hourly_usd h, est_currency = ''USD''\<rparr>
                 else ad_estimate adapter attemptJob
      | None \<Rightarrow> ad_estimate adapter attemptJob)"

text \<open>A run that another process cancelled: its summary is written and its exit code is 130.\<close>

definition settle_canceled :: "run_ctx \<Rightarrow> world \<Rightarrow> world \<times> int \<times> bool \<times> gerror option" where
  "settle_canceled rx w =
     (case writeSummary rx w of
        (w, Some e) \<Rightarrow> (w, exitCodeInternal, False, Some e)
      | (w, None) \<Rightarrow> (print_line (''Run '' @ rx_run_id rx @ '' canceled'') w, exitCodeCanceled, False, None))"

text \<open>After \<open>Submit\<close> returned an error.\<close>

definition settle_failed ::
  "run_ctx \<Rightarrow> string \<Rightarrow> redactor \<Rightarrow> submit_result \<Rightarrow> gerror \<Rightarrow> world \<Rightarrow> world \<times> int \<times> bool \<times> gerror option" where
  "settle_failed rx attemptID red result err w =
     (case on_store (GetRun (rx_run_id rx)) w of
        (w, Inl e) \<Rightarrow> (w, exitCodeInternal, False, Some e)
      | (w, Inr currentRun) \<Rightarrow>
          if run_state currentRun = RunCanceled then settle_canceled rx w
          else
            (let retryable = is_retryable_provider_error err; endedAt = now w; w = tick w;
                 reason = (if sr_exit_reason result \<noteq> [] then redact_string red (sr_exit_reason result)
                   else redact_string red (error_string err));
                 providerRef = redact_string red (sr_job_ref result)
             in case on_store (FinishAttempt attemptID AttemptFailed (sr_exit_code result) reason providerRef endedAt) w of
                  (w, Some e) \<Rightarrow> (w, exitCodeInternal, False, Some e)
                | (w, None) \<Rightarrow>
                    if retryable then (w, sr_exit_code result, retryable, Some err)
                    else (case on_store (FinishRun (rx_run_id rx) RunFailed (sr_exit_code result) reason endedAt) w of
                        (w, Some e) \<Rightarrow> (w, exitCodeInternal, False, Some e)
                      | (w, None) \<Rightarrow> (w, sr_exit_code result, retryable, Some err))))"

text \<open>After \<open>Submit\<close> returned a result.\<close>

definition settle_done ::
  "run_ctx \<Rightarrow> string \<Rightarrow> redactor \<Rightarrow> submit_result \<Rightarrow> world \<Rightarrow> world \<times> int \<times> bool \<times> gerror option" where
  "settle_done rx attemptID red result w =
     (case on_store (GetRun (rx_run_id rx)) w of
        (w, Inl e) \<Rightarrow> (w, exitCodeInternal, False, Some e)
      | (w, Inr currentRun) \<Rightarrow>
          if run_state currentRun = RunCanceled then settle_canceled rx w
          else
            (let endedAt = now w; w = tick w;
                 runState = (if sr_exit_code result \<noteq> 0 then RunFailed else RunSucceeded);
                 attemptState = (if sr_exit_code result \<noteq> 0 then AttemptFailed else AttemptSucceeded);
                 exitReason = redact_string red (sr_exit_reason result);
                 providerRef = redact_string red (sr_job_ref result)
             in case on_store (FinishAttempt attemptID attemptState (sr_exit_code result) exitReason providerRef endedAt) w of
                  (w, Some e) \<Rightarrow> (w, exitCodeInternal, False, Some e)
                | (w, None) \<Rightarrow>
                    (case on_store (FinishRun (rx_run_id rx) runState (sr_exit_code result) exitReason endedAt) w of
                       (w, Some e) \<Rightarrow> (w, exitCodeInternal, False, Some e)
                     | (w, None) \<Rightarrow>
                         (case writeSummary rx w of
                            (w, Some e) \<Rightarrow> (w, exitCodeInternal, False, Some e)
                          | (w, None) \<Rightarrow>
                              (print_line (''Run '' @ rx_run_id rx @ '' '' @ run_state_string runState) w,
                               sr_exit_code result, False, None)))))"

text \<open>An attempt that ends before it is submitted: both rows fail with one reason.\<close>

definition refuse :: "run_ctx \<Rightarrow> string \<Rightarrow> int \<Rightarrow> string \<Rightarrow> world \<Rightarrow> world" where
  "refuse rx attemptID code reason w =
     fst (writeSummary rx (finishFailed (rx_run_id rx) attemptID code reason [] w))"

text \<open>From the estimate on: the price is stored, the job submitted, and the outcome settled.\<close>

definition submit_attempt ::
  "attempt_ctx \<Rightarrow> adapter \<Rightarrow> string \<Rightarrow> job_spec \<Rightarrow> world \<Rightarrow> world \<times> int \<times> bool \<times> gerror option" where
  "submit_attempt ac adapter attemptID attemptJob w =
     (let rx = ac_run ac;
          resumeValue = (case ac_resume ac of None \<Rightarrow> [] | Some c \<Rightarrow> ck_uri c);
          runtimeEnv = runtimeEnvForProvider (ac_provider ac) (rx_run_id rx) attemptID resumeValue (rx_paths rx)
            (ac_staging ac) (job_data attemptJob);
          red = FromEnvironment (rx_environ rx) [job_env attemptJob, runtimeEnv]
      in case attempt_estimate ac adapter attemptJob of
           Inl e \<Rightarrow> (refuse rx attemptID exitCodeRouting (redact_string red (error_string e)) w, exitCodeRouting, False, Some e)
         | Inr estimate \<Rightarrow>
             (case on_store (UpdateAttemptEstimate attemptID estimate) w of
                (w, Some e) \<Rightarrow> (w, exitCodeInternal, False, Some e)
              | (w, None) \<Rightarrow>
                  (case run_submit (rx_run_id rx) attemptID red
                      (ad_submit adapter \<lparr>rq_job = attemptJob, rq_run_id = rx_run_id rx, rq_attempt_id = attemptID,
                         rq_resume = ac_resume ac, rq_hardware = ac_hardware ac, rq_env = runtimeEnv,
                         rq_run_dir = p_run_dir (rx_paths rx)\<rparr>) [] w of
                     (w, result, Some err) \<Rightarrow> settle_failed rx attemptID red result err w
                   | (w, result, None) \<Rightarrow> settle_done rx attemptID red result w)))"

definition runAttempt :: "attempt_ctx \<Rightarrow> world \<Rightarrow> world \<times> int \<times> bool \<times> gerror option" where
  "runAttempt ac w =
     (let rx = ac_run ac; baseRedactor = FromEnvironment (rx_environ rx) [job_env (ac_job ac)];
          attemptID = fresh w; startedAt = now w
      in case on_store (CreateAttempt (new_attempt ac attemptID startedAt)) (tick w) of
           (w, Some e) \<Rightarrow> (w, exitCodeInternal, False, Some e)
         | (w, None) \<Rightarrow>
             (case registry_get (ac_registry ac) (ac_provider ac) of
                Inl e \<Rightarrow> (finishFailed (rx_run_id rx) attemptID exitCodeInternal
                    (redact_string baseRedactor (error_string e)) [] w, exitCodeInternal, False, Some e)
              | Inr adapter \<Rightarrow>
                  (case prepare_on_disk ac w of
                     (w, Inl e) \<Rightarrow> (refuse rx attemptID exitCodeInvalidSpec (redact_string baseRedactor (error_string e)) w,
                         exitCodeInvalidSpec, False, Some e)
                   | (w, Inr attemptJob) \<Rightarrow>
                       (let report = ad_validate adapter attemptJob in
                        if \<not> sup_supported report
                        then (let reason = (case sup_reasons report of [] \<Rightarrow> ''job is not supported'' | r # _ \<Rightarrow> r) in
                              (refuse rx attemptID exitCodeInvalidSpec (redact_string baseRedactor reason) w,
                               exitCodeInvalidSpec, False, Some (ErrText reason)))
                        else submit_attempt ac adapter attemptID attemptJob w))))"

section \<open>The attempts of a run\<close>

definition checkpoint_scheme :: "string \<Rightarrow> string" where
  "checkpoint_scheme uri =
     (case cut ''://'' uri of None \<Rightarrow> ''file'' | Some (before, _) \<Rightarrow> if before \<noteq> [] then to_lower before else ''file'')"

definition ensureProviderSupportsCheckpoint :: "registry \<Rightarrow> string \<Rightarrow> checkpoint_ref \<Rightarrow> gerror option" where
  "ensureProviderSupportsCheckpoint reg selectedProvider resumeFrom =
     (case registry_get reg selectedProvider of
        Inl e \<Rightarrow> Some e
      | Inr adapter \<Rightarrow>
          (case ad_capabilities adapter of
             (capabilities, Some e) \<Rightarrow> Some e
           | (capabilities, None) \<Rightarrow>
               let scheme = checkpoint_scheme (ck_uri resumeFrom) in
               if list_ex (\<lambda>supported. equal_fold supported scheme) (cap_checkpoint_schemes capabilities) then None
               else Some (ErrText (''provider '' @ selectedProvider @ '' does not support '' @ quote scheme
                 @ '' checkpoint resume URI '' @ quote (ck_uri resumeFrom)))))"

definition routingOptions :: "resolved_config \<Rightarrow> bool smap \<Rightarrow> checkpoint_ref option \<Rightarrow> routing_options" where
  "routingOptions resolved excluded resumeFrom =
     (let h = sc_hints (rs_sizing resolved) in
      \<lparr>ro_mode = rg_mode (rs_routing resolved), ro_objective = rg_objective (rs_routing resolved),
       ro_exclude = excluded, ro_budget = rg_max_run_cost (rs_routing resolved),
       ro_sizing = \<lparr>sz_required_vram = hi_required_vram h, sz_parameters_b = hi_parameters_b h,
         sz_artifact_gb = hi_artifact_gb h, sz_batch_size = hi_batch_size h, sz_grad_accum = hi_grad_accum h,
         sz_precision = hi_precision h, sz_optimizer = hi_optimizer h, sz_expected_steps = hi_expected_steps h\<rparr>,
       ro_hardware = hwc_constraints (rs_hardware resolved), ro_manual = hwc_manual (rs_hardware resolved),
       ro_resume = resumeFrom\<rparr>)"

text \<open>What \<open>runAttempts\<close> is called with.\<close>

record loop_ctx =
  lc_run :: run_ctx
  lc_resolved :: resolved_config
  lc_registry :: registry
  lc_job :: job_spec
  lc_manifest :: data_manifest

definition lc_redactor :: "loop_ctx \<Rightarrow> redactor" where
  "lc_redactor lc = FromEnvironment (rx_environ (lc_run lc)) [job_env (lc_job lc)]"

text \<open>The end of a run whose loop gives up: the run fails with the reason, and the summary is written
  if it can be.\<close>

definition give_up :: "loop_ctx \<Rightarrow> int \<Rightarrow> string \<Rightarrow> world \<Rightarrow> world" where
  "give_up lc code reason w =
     fst (writeSummary (lc_run lc) (finishRunOnly (rx_run_id (lc_run lc)) code reason w))"

text \<open>The provider and hardware of the next attempt, or the end of the run.\<close>

definition choose_provider ::
  "loop_ctx \<Rightarrow> bool smap \<Rightarrow> checkpoint_ref option \<Rightarrow> world
     \<Rightarrow> world \<times> (int \<times> gerror + string \<times> hardware_selection option)" where
  "choose_provider lc excluded resumeFrom w =
     (let resolved = lc_resolved lc; runID = rx_run_id (lc_run lc) in
      if rs_provider resolved = provider_auto
      then
        (case Select (lc_registry lc) (lc_job lc) (routingOptions resolved excluded resumeFrom) of
           (decision, err) \<Rightarrow>
             let decision = decision\<lparr>rd_run_id := runID\<rparr>;
                 w = (if rd_run_id decision \<noteq> [] then fst (on_store (SaveRoutingDecision decision) w) else w)
             in case err of
                  Some e \<Rightarrow>
                    (case resumeFrom of
                       Some c \<Rightarrow>
                         let message = ''retryable provider failure but checkpoint '' @ quote (ck_uri c)
                           @ '' is not reachable by any remaining provider''
                         in (give_up lc exitCodeMissingResume (redact_string (lc_redactor lc) message) w,
                             Inl (exitCodeMissingResume, ErrText message))
                     | None \<Rightarrow> (give_up lc exitCodeRouting (redact_string (lc_redactor lc) (error_string e)) w,
                           Inl (exitCodeRouting, e)))
                | None \<Rightarrow>
                    (print_line (''Selected '' @ rd_selected_provider decision @ '': '' @ rd_selection_reason decision) w,
                     Inr (rd_selected_provider decision, rd_selected_hardware decision)))
      else
        (case resumeFrom of
           None \<Rightarrow> (w, Inr (rs_provider resolved, None))
         | Some c \<Rightarrow>
             (case ensureProviderSupportsCheckpoint (lc_registry lc) (rs_provider resolved) c of
                None \<Rightarrow> (w, Inr (rs_provider resolved, None))
              | Some e \<Rightarrow> (give_up lc exitCodeMissingResume (redact_string (lc_redactor lc) (error_string e)) w,
                    Inl (exitCodeMissingResume, e)))))"

definition attempt_of :: "loop_ctx \<Rightarrow> checkpoint_ref option \<Rightarrow> string \<Rightarrow> hardware_selection option \<Rightarrow> attempt_ctx" where
  "attempt_of lc resumeFrom selectedProvider selectedHardware =
     \<lparr>ac_run = lc_run lc, ac_registry = lc_registry lc, ac_provider = selectedProvider, ac_job = lc_job lc,
      ac_manifest = lc_manifest lc, ac_staging = rs_staging (lc_resolved lc), ac_resume = resumeFrom,
      ac_hardware = selectedHardware\<rparr>"

text \<open>The loop, by the number of attempts that are left: it is the last one at \<open>1\<close>.\<close>

fun attempts_loop ::
  "loop_ctx \<Rightarrow> nat \<Rightarrow> bool smap \<Rightarrow> checkpoint_ref option \<Rightarrow> world \<Rightarrow> world \<times> int \<times> gerror option" where
  "attempts_loop lc 0 excluded resumeFrom w = (w, exitCodeInternal, Some (ErrText ''run did not complete''))"
| "attempts_loop lc (Suc left) excluded resumeFrom w =
     (case choose_provider lc excluded resumeFrom w of
        (w, Inl (code, e)) \<Rightarrow> (w, code, Some e)
      | (w, Inr (selectedProvider, selectedHardware)) \<Rightarrow>
          (case runAttempt (attempt_of lc resumeFrom selectedProvider selectedHardware) w of
             (w, code, retryable, None) \<Rightarrow> (w, code, None)
           | (w, code, retryable, Some err) \<Rightarrow>
               if \<not> retryable \<or> rs_provider (lc_resolved lc) \<noteq> provider_auto \<or> left = 0
               then
                 (let w = (if retryable then finishRunOnly (rx_run_id (lc_run lc)) code
                         (redact_string (lc_redactor lc) (error_string err)) w else w)
                  in (fst (writeSummary (lc_run lc) w), code, Some err))
               else
                 (case Latest (w_events w) of
                    Inr (Some checkpointRef) \<Rightarrow>
                      attempts_loop lc left (AList.update selectedProvider True excluded) (Some checkpointRef)
                        (print_line (''Found checkpoint: step '' @ string_of_int (ck_step checkpointRef)) w)
                  | _ \<Rightarrow>
                      (let message = ''retryable provider failure but no checkpoint was found'' in
                       (give_up lc exitCodeMissingResume message w, exitCodeMissingResume, Some (ErrText message))))))"

definition runAttempts :: "loop_ctx \<Rightarrow> checkpoint_ref option \<Rightarrow> world \<Rightarrow> world \<times> int \<times> gerror option" where
  "runAttempts lc initialResumeFrom w =
     (let maxAttempts = rg_max_attempts (rs_routing (lc_resolved lc));
          maxAttempts = (if maxAttempts < 1 then 1 else maxAttempts)
      in attempts_loop lc (nat maxAttempts) [] initialResumeFrom w)"
section \<open>What every step of a run keeps\<close>

text \<open>The columns of an attempt that no later statement changes.\<close>

type_synonym attempt_head = "string \<times> string \<times> string \<times> string \<times> int option"

definition attempt_head :: "attempt_row \<Rightarrow> attempt_head" where
  "attempt_head r = (ar_id r, ar_run_id r, ar_provider r, ar_resume_uri r, ar_resume_step r)"

definition heads :: "world \<Rightarrow> attempt_head list" where
  "heads w = map attempt_head (st_attempts (w_store w))"

definition run_row :: "string \<Rightarrow> world \<Rightarrow> run_row option" where
  "run_row runID w = tbl_find rr_id runID (st_runs (w_store w))"

text \<open>A step keeps the oracles, adds the attempts \<open>new\<close>, and neither adds nor removes a run.\<close>

definition step_adds :: "attempt_head list \<Rightarrow> world \<Rightarrow> world \<Rightarrow> bool" where
  "step_adds new w w' \<longleftrightarrow> st_fault (w_store w') = st_fault (w_store w) \<and> w_fresh w' = w_fresh w
     \<and> w_tick w \<le> w_tick w' \<and> heads w' = heads w @ new
     \<and> (\<forall>k. run_row k w' = None \<longleftrightarrow> run_row k w = None)"

abbreviation keeps :: "world \<Rightarrow> world \<Rightarrow> bool" where
  "keeps \<equiv> step_adds []"

named_theorems keeps_intros \<open>steps of a run that add no attempt\<close>

lemma keeps_refl [simp, keeps_intros]: "keeps w w"
  by (simp add: step_adds_def)

lemma adds_trans: "step_adds xs a b \<Longrightarrow> step_adds ys b c \<Longrightarrow> step_adds (xs @ ys) a c"
  by (simp add: step_adds_def)

lemma keeps_trans: "keeps a b \<Longrightarrow> step_adds xs b c \<Longrightarrow> step_adds xs a c"
  using adds_trans [of "[]"] by simp

lemma adds_keeps: "step_adds xs a b \<Longrightarrow> keeps b c \<Longrightarrow> step_adds xs a c"
  using adds_trans [of xs a b "[]"] by simp

lemma keeps_tick [simp, keeps_intros]: "keeps w (tick w)"
  by (simp add: step_adds_def tick_def heads_def run_row_def)

lemma keeps_print [simp, keeps_intros]: "keeps w (print_line l w)"
  by (simp add: step_adds_def print_line_def heads_def run_row_def)

lemma keeps_disk [simp, keeps_intros]: "keeps w (w\<lparr>w_disk := d\<rparr>)"
  by (simp add: step_adds_def heads_def run_row_def)

lemma keeps_events [simp, keeps_intros]: "keeps w (w\<lparr>w_events := d\<rparr>)"
  by (simp add: step_adds_def heads_def run_row_def)

lemma on_store_fst: "fst (on_store f w) = w\<lparr>w_store := fst (f (w_store w))\<rparr>" "snd (on_store f w) = snd (f (w_store w))"
  by (simp_all add: on_store_def split: prod.split)

lemma keeps_query: "keeps w (fst (on_store (query q) w))"
  by (simp add: step_adds_def on_store_fst heads_def run_row_def frame_simps)

lemma heads_update:
  "(\<And>r. attempt_head (g r) = attempt_head r) \<Longrightarrow> map attempt_head (tbl_update ar_id k g rows) = map attempt_head rows"
  by (simp add: tbl_update_def)

lemma keeps_update_attempt:
  "(\<And>r. attempt_head (g r) = attempt_head r) \<Longrightarrow> keeps w (fst (on_store (update_attempt k g) w))"
  by (simp add: step_adds_def on_store_fst heads_def run_row_def frame_simps store_simps heads_update)

lemma keeps_update_run:
  "(\<And>r. rr_id (f r) = rr_id r) \<Longrightarrow> keeps w (fst (on_store (update_run k f) w))"
  by (simp add: step_adds_def on_store_fst heads_def run_row_def frame_simps store_simps runs.find_update)

lemma keeps_statements [simp, keeps_intros]:
  "keeps w (fst (on_store (GetRun k) w))" "keeps w (fst (on_store (AttemptsByRun k) w))"
  "keeps w (fst (on_store (GetRoutingDecision k) w))"
  "keeps w (fst (on_store (FinishRun k st c m t) w))" "keeps w (fst (on_store (FinishAttempt i ast c m p t) w))"
  "keeps w (fst (on_store (UpdateAttemptProviderRef i p) w))" "keeps w (fst (on_store (UpdateAttemptEstimate i e) w))"
  unfolding store_op_defs
  by (rule keeps_query keeps_update_run keeps_update_attempt; simp add: attempt_head_def)+

lemma keeps_saves [simp, keeps_intros]:
  "keeps w (fst (on_store (SaveProviderResource t i r) w))" "keeps w (fst (on_store (SaveRoutingDecision d) w))"
  by (simp_all add: step_adds_def on_store_fst heads_def run_row_def frame_simps)

text \<open>The same for a call whose results are named.\<close>

lemma keeps_pair: "f w = (w', r) \<Longrightarrow> keeps w (fst (f w)) \<Longrightarrow> keeps w w'"
  by simp

lemma keeps_finishFailed [simp, keeps_intros]: "keeps w (finishFailed runID attemptID code reason ref w)"
  unfolding finishFailed_def Let_def
  by (rule keeps_trans [OF keeps_tick], rule keeps_trans [OF keeps_statements(5)], rule keeps_statements)

lemma keeps_finishRunOnly [simp, keeps_intros]: "keeps w (finishRunOnly runID code reason w)"
  unfolding finishRunOnly_def by (rule keeps_trans [OF keeps_tick], rule keeps_statements)

lemma keeps_summary_file [simp, keeps_intros]: "keeps w (fst (write_summary_file sm w))"
  by (simp add: write_summary_file_def step_adds_def tick_def heads_def run_row_def split: option.split)

lemma keeps_bind:
  "keeps w (fst (f w)) \<Longrightarrow> (\<And>w' r. f w = (w', r) \<Longrightarrow> keeps w' (fst (k w' r))) \<Longrightarrow>
     keeps w (fst (case f w of (w', r) \<Rightarrow> k w' r))"
  by (cases "f w") (auto intro: keeps_trans)

lemma keeps_writeSummary [simp, keeps_intros]: "keeps w (fst (writeSummary rx w))"
  unfolding writeSummary_def
  by (rule keeps_bind keeps_statements)+
     (auto simp: keeps_bind split: sum.split intro!: keeps_bind keeps_statements keeps_summary_file)

lemma keeps_cancel_target: "keeps w (fst (on_store (cancel_target runID) w))"
proof -
  have *: "fst (cancel_target runID s) = (let s1 = fst (GetRun runID s) in
      if (case snd (GetRun runID s) of Inl e \<Rightarrow> True | Inr r \<Rightarrow> run_state r \<noteq> RunRunning) then s1
      else fst (AttemptsByRun runID s1))" for s
    by (auto simp: cancel_target_def Let_def split: prod.split sum.split option.split)
  show ?thesis
    unfolding on_store_fst * Let_def
    using keeps_statements(1) [of w runID] keeps_trans [OF keeps_statements(1) [of w runID] keeps_statements(2)]
    by (auto simp: on_store_fst)
qed

lemma keeps_cancel_commit: "keeps w (fst (on_store (cancel_commit runID a t) w))"
proof -
  have "fst (cancel_commit runID a t s) =
      (if snd (FinishAttempt (at_id a) AttemptCanceled exitCodeCanceled ''canceled'' (at_provider_ref a) t s) = None
       then fst (FinishRun runID RunCanceled exitCodeCanceled ''canceled'' t
         (fst (FinishAttempt (at_id a) AttemptCanceled exitCodeCanceled ''canceled'' (at_provider_ref a) t s)))
       else fst (FinishAttempt (at_id a) AttemptCanceled exitCodeCanceled ''canceled'' (at_provider_ref a) t s))" for s
    unfolding cancel_commit_def
    by (cases rule: then_ok_cases [of "FinishAttempt (at_id a) AttemptCanceled exitCodeCanceled ''canceled'' (at_provider_ref a) t s"
          "FinishRun runID RunCanceled exitCodeCanceled ''canceled'' t"]) auto
  then show ?thesis
    using keeps_statements(5) [of w "at_id a" AttemptCanceled exitCodeCanceled "''canceled''" "at_provider_ref a" t]
      keeps_trans [OF keeps_statements(5) [of w "at_id a" AttemptCanceled exitCodeCanceled "''canceled''" "at_provider_ref a" t]
        keeps_statements(4)]
    by (auto simp: on_store_fst)
qed

lemma keeps_meddle [simp, keeps_intros]: "keeps w (meddle runID w)"
proof (cases "w_cancel w (w_tick w)")
  case True
  obtain w' r where r: "on_store (cancel_target runID) (tick w) = (w', r)" by fastforce
  have "keeps w w'"
    using keeps_trans [OF keeps_tick keeps_cancel_target] r by (metis fst_conv)
  then show ?thesis
    using True r keeps_cancel_commit [of w'] by (auto simp: meddle_def intro: keeps_trans split: sum.split option.split)
qed (simp add: meddle_def)

lemma keeps_persist: "keeps w (fst (persistProviderResource red r ids w))"
proof -
  have "keeps w (fst (on_store (SaveProviderResource t i x) (tick w)))" for t i x
    by (rule keeps_trans [OF keeps_tick keeps_saves(1)])
  then show ?thesis
    by (auto simp: persistProviderResource_def Let_def split: prod.split sum.split) (metis fst_conv)+
qed

lemma keeps_run_submit: "keeps w (fst (run_submit runID attemptID red p ids w))"
proof (induction p arbitrary: ids w)
  case (Started ref k)
  obtain w' err where w': "on_store (UpdateAttemptProviderRef attemptID (redact_string red ref)) w = (w', err)" by fastforce
  have "keeps w w'" using keeps_statements(6) w' by (metis fst_conv)
  moreover have "keeps w' (fst (run_submit runID attemptID red (k err) ids w'))" by (rule Started.IH) simp
  ultimately show ?case using w' by (auto intro: keeps_trans)
next
  case (ResourceSaved r k)
  obtain w' ids' err where w': "persistProviderResource red r ids w = (w', ids', err)" by (metis prod_cases3)
  have "keeps w w'" using keeps_persist w' by (metis fst_conv)
  moreover have "keeps w' (fst (run_submit runID attemptID red (k err) ids' w'))" by (rule ResourceSaved.IH) simp
  ultimately show ?case using w' by (auto intro: keeps_trans)
next
  case (EventWritten ev p)
  then show ?case by (auto intro: keeps_trans [OF keeps_events])
next
  case (Meanwhile p)
  then show ?case by (auto intro: keeps_trans [OF keeps_meddle])
qed simp_all

section \<open>How a run ends\<close>

definition db_ok :: "string \<Rightarrow> world \<Rightarrow> bool" where
  "db_ok runID w \<longleftrightarrow> healthy (w_store w) \<and> run_row runID w \<noteq> None"

lemma db_ok_adds: "step_adds xs w w' \<Longrightarrow> db_ok runID w \<Longrightarrow> db_ok runID w'"
  by (simp add: db_ok_def step_adds_def healthy_def)

definition set_outcome :: "run_state \<Rightarrow> int \<Rightarrow> string \<Rightarrow> gotime \<Rightarrow> run_row \<Rightarrow> run_row" where
  "set_outcome st c m t row = row\<lparr>rr_state := st, rr_exit_code := c, rr_error := m, rr_ended_at := Some (rfc3339_nano t)\<rparr>"

lemma on_store_run_rows [simp]:
  "run_row k (fst (on_store (query q) w)) = run_row k w"
  "run_row k (fst (on_store (update_attempt i g) w)) = run_row k w"
  "run_row k (tick w) = run_row k w" "run_row k (print_line l w) = run_row k w"
  "run_row k (w\<lparr>w_disk := d\<rparr>) = run_row k w" "run_row k (w\<lparr>w_events := evs\<rparr>) = run_row k w"
  by (simp_all add: run_row_def on_store_fst frame_simps tick_def print_line_def)

lemma finish_run_row:
  assumes "db_ok runID w" and "on_store (FinishRun runID st c m t) w = (w', e)"
  shows "e = None \<and> (\<exists>row. run_row runID w = Some row \<and> run_row runID w' = Some (set_outcome st c m t row))"
proof -
  obtain row where row: "tbl_find rr_id runID (st_runs (w_store w)) = Some row"
    using assms(1) by (auto simp: db_ok_def run_row_def)
  have h: "healthy (w_store w)" using assms(1) by (simp add: db_ok_def)
  have e: "e = None" "w' = w\<lparr>w_store := fst (FinishRun runID st c m t (w_store w))\<rparr>"
    using assms(2) on_store_fst [of "FinishRun runID st c m t" w] h by (simp_all add: FinishRun_def update_run_ok)
  have "tbl_find rr_id runID (st_runs (fst (FinishRun runID st c m t (w_store w)))) = Some (set_outcome st c m t row)"
    using row update_run_ok [OF h]
    by (simp add: FinishRun_def store_simps runs.find_update set_outcome_def)
  with row e show ?thesis by (simp add: run_row_def)
qed

lemma finish_attempt_row:
  assumes "db_ok runID w" and "on_store (FinishAttempt i st c m p t) w = (w', e)"
  shows "e = None \<and> run_row k w' = run_row k w \<and> db_ok runID w'"
proof -
  have "e = None" "w' = fst (on_store (FinishAttempt i st c m p t) w)"
    using assms on_store_fst [of "FinishAttempt i st c m p t" w] by (simp_all add: FinishAttempt_def update_attempt_ok db_ok_def)
  moreover have "keeps w w'" using assms(2) keeps_statements(5) by (metis fst_conv)
  ultimately show ?thesis
    using assms(1) db_ok_adds by (auto simp: FinishAttempt_def)
qed

lemma get_run_row:
  assumes "db_ok runID w" and "on_store (GetRun runID) w = (w', r)"
  shows "\<exists>row. run_row runID w = Some row \<and> run_row runID w' = Some row \<and> r = Inr (scan_run row) \<and> db_ok runID w'"
proof -
  obtain row where row: "tbl_find rr_id runID (st_runs (w_store w)) = Some row"
    using assms(1) by (auto simp: db_ok_def run_row_def)
  have "r = Inr (scan_run row)"
    using assms row on_store_fst(2) [of "GetRun runID" w] by (simp add: db_ok_def get_run_healthy)
  moreover have "run_row runID w' = run_row runID w"
    using assms(2) on_store_run_rows(1) unfolding GetRun_def by (metis fst_conv)
  moreover have "keeps w w'" using assms(2) keeps_statements(1) by (metis fst_conv)
  ultimately show ?thesis using row assms(1) db_ok_adds by (auto simp: run_row_def)
qed

lemma summary_file_row [simp]: "run_row k (fst (write_summary_file sm w)) = run_row k w"
  by (simp add: write_summary_file_def run_row_def tick_def split: option.split)

lemma row_bind:
  "run_row k (fst (f w)) = run_row k w \<Longrightarrow> (\<And>w' r. run_row k (fst (g w' r)) = run_row k w') \<Longrightarrow>
     run_row k (fst (case f w of (w', r) \<Rightarrow> g w' r)) = run_row k w"
  by (cases "f w") auto

lemma writeSummary_row [simp]: "run_row k (fst (writeSummary rx w)) = run_row k w"
  unfolding writeSummary_def GetRun_def AttemptsByRun_def GetRoutingDecision_def
  by (rule row_bind on_store_run_rows)+ (auto split: sum.split intro!: row_bind)

lemma writeSummary_pair: "writeSummary rx w = (w', e) \<Longrightarrow> run_row k w' = run_row k w"
  using writeSummary_row [of k rx w] by simp

text \<open>The run has ended, and the exit code says how: without an error, 130 for a cancelled run, else
  0 exactly for a successful one; with an error, the code of the failed run, or that of an internal
  error when the summary of a run that has ended could not be written.\<close>

definition ended :: "string \<Rightarrow> world \<Rightarrow> int \<Rightarrow> gerror option \<Rightarrow> bool" where
  "ended runID w code err \<longleftrightarrow> (\<exists>row. run_row runID w = Some row \<and>
     (case err of
        None \<Rightarrow> rr_state row = RunCanceled \<and> code = exitCodeCanceled
          \<or> rr_state row = (if code = 0 then RunSucceeded else RunFailed) \<and> rr_exit_code row = code
      | Some e \<Rightarrow> rr_state row = RunFailed \<and> rr_exit_code row = code
          \<or> rr_state row \<noteq> RunRunning \<and> code = exitCodeInternal))"

lemma ended_row: "run_row runID w' = run_row runID w \<Longrightarrow> ended runID w' code err = ended runID w code err"
  by (simp add: ended_def)

lemma ended_finishRunOnly: "db_ok runID w \<Longrightarrow> ended runID (finishRunOnly runID code reason w) code (Some e)"
proof -
  assume ok: "db_ok runID w"
  obtain w' r where w': "on_store (FinishRun runID RunFailed code reason (now w)) (tick w) = (w', r)" by fastforce
  have "db_ok runID (tick w)" using ok db_ok_adds [OF keeps_tick] by blast
  from finish_run_row [OF this w'] w' show ?thesis
    by (auto simp: finishRunOnly_def ended_def set_outcome_def)
qed

lemma ended_finishFailed: "db_ok runID w \<Longrightarrow> ended runID (finishFailed runID i code reason ref w) code (Some e)"
proof -
  assume ok: "db_ok runID w"
  let ?t = "now w"
  obtain w1 r1 where w1: "on_store (FinishAttempt i AttemptFailed code reason ref ?t) (tick w) = (w1, r1)" by fastforce
  obtain w2 r2 where w2: "on_store (FinishRun runID RunFailed code reason ?t) w1 = (w2, r2)" by fastforce
  have "db_ok runID (tick w)" using ok db_ok_adds [OF keeps_tick] by blast
  from finish_attempt_row [OF this w1] have "db_ok runID w1" by blast
  from finish_run_row [OF this w2] w1 w2 show ?thesis
    by (auto simp: finishFailed_def ended_def set_outcome_def)
qed

lemma ended_refuse: "db_ok (rx_run_id rx) w \<Longrightarrow> ended (rx_run_id rx) (refuse rx i code reason w) code (Some e)"
  using ended_finishFailed [of "rx_run_id rx" w i code reason "[]" e]
  by (simp add: refuse_def ended_def)

lemma ended_give_up: "db_ok (rx_run_id (lc_run lc)) w \<Longrightarrow>
   ended (rx_run_id (lc_run lc)) (give_up lc code reason w) code (Some e)"
  using ended_finishRunOnly [of "rx_run_id (lc_run lc)" w code reason e]
  by (simp add: give_up_def ended_def)

lemma ended_canceled:
  assumes "run_row (rx_run_id rx) w = Some row" and "rr_state row = RunCanceled"
    and "settle_canceled rx w = (w', code, retryable, err)"
  shows "\<not> retryable \<and> ended (rx_run_id rx) w' code err"
proof -
  obtain w1 e where w1: "writeSummary rx w = (w1, e)" by fastforce
  have "run_row (rx_run_id rx) w1 = Some row" using writeSummary_pair [OF w1] assms(1) by simp
  with assms w1 show ?thesis
    by (cases e) (auto simp: settle_canceled_def ended_def)
qed

lemma settle_failed_ended:
  assumes "db_ok (rx_run_id rx) w" and "settle_failed rx i red result e0 w = (w', code, retryable, err)"
  shows "(retryable \<longrightarrow> err \<noteq> None) \<and> (\<not> retryable \<longrightarrow> ended (rx_run_id rx) w' code err)"
proof -
  let ?id = "rx_run_id rx"
  obtain w1 r1 where w1: "on_store (GetRun ?id) w = (w1, r1)" by fastforce
  from get_run_row [OF assms(1) w1] obtain row where row: "run_row ?id w1 = Some row" "r1 = Inr (scan_run row)" "db_ok ?id w1"
    by blast
  show ?thesis
  proof (cases "run_state (scan_run row) = RunCanceled")
    case True
    then have "rr_state row = RunCanceled" by (simp add: scan_run_def)
    moreover have "settle_canceled rx w1 = (w', code, retryable, err)"
      using assms(2) w1 row True by (simp add: settle_failed_def)
    ultimately show ?thesis using ended_canceled row(1) by blast
  next
    case False
    define reason where "reason = (if sr_exit_reason result \<noteq> [] then redact_string red (sr_exit_reason result)
        else redact_string red (error_string e0))"
    obtain w2 r2 where w2: "on_store (FinishAttempt i AttemptFailed (sr_exit_code result) reason
        (redact_string red (sr_job_ref result)) (now w1)) (tick w1) = (w2, r2)" by fastforce
    have "db_ok ?id (tick w1)" using row(3) db_ok_adds [OF keeps_tick] by blast
    from finish_attempt_row [OF this w2] have ok2: "r2 = None" "db_ok ?id w2" by auto
    obtain w3 r3 where w3: "on_store (FinishRun ?id RunFailed (sr_exit_code result) reason (now w1)) w2 = (w3, r3)"
      by fastforce
    from finish_run_row [OF ok2(2) w3] have "r3 = None" "ended ?id w3 (sr_exit_code result) (Some e0)"
      by (auto simp: ended_def set_outcome_def)
    moreover have "settle_failed rx i red result e0 w =
        (if is_retryable_provider_error e0 then (w2, sr_exit_code result, True, Some e0)
         else (case r3 of Some e \<Rightarrow> (w3, exitCodeInternal, False, Some e)
           | None \<Rightarrow> (w3, sr_exit_code result, False, Some e0)))"
      using w1 row(2) False w2 ok2(1) w3
      by (simp add: settle_failed_def Let_def reason_def [symmetric])
    ultimately show ?thesis using assms(2) by (auto split: if_splits)
  qed
qed
lemma settle_done_ended:
  assumes "db_ok (rx_run_id rx) w" and "settle_done rx i red result w = (w', code, retryable, err)"
  shows "\<not> retryable \<and> ended (rx_run_id rx) w' code err"
proof -
  let ?id = "rx_run_id rx"
  obtain w1 r1 where w1: "on_store (GetRun ?id) w = (w1, r1)" by fastforce
  from get_run_row [OF assms(1) w1] obtain row where row: "run_row ?id w1 = Some row" "r1 = Inr (scan_run row)" "db_ok ?id w1"
    by blast
  show ?thesis
  proof (cases "run_state (scan_run row) = RunCanceled")
    case True
    then have "rr_state row = RunCanceled" by (simp add: scan_run_def)
    moreover have "settle_canceled rx w1 = (w', code, retryable, err)"
      using assms(2) w1 row True by (simp add: settle_done_def)
    ultimately show ?thesis using ended_canceled row(1) by blast
  next
    case False
    define rst where "rst = (if sr_exit_code result \<noteq> 0 then RunFailed else RunSucceeded)"
    define ast where "ast = (if sr_exit_code result \<noteq> 0 then AttemptFailed else AttemptSucceeded)"
    obtain w2 r2 where w2: "on_store (FinishAttempt i ast (sr_exit_code result) (redact_string red (sr_exit_reason result))
        (redact_string red (sr_job_ref result)) (now w1)) (tick w1) = (w2, r2)" by fastforce
    have "db_ok ?id (tick w1)" using row(3) db_ok_adds [OF keeps_tick] by blast
    from finish_attempt_row [OF this w2] have ok2: "r2 = None" "db_ok ?id w2" by auto
    obtain w3 r3 where w3: "on_store (FinishRun ?id rst (sr_exit_code result) (redact_string red (sr_exit_reason result))
        (now w1)) w2 = (w3, r3)" by fastforce
    from finish_run_row [OF ok2(2) w3] obtain row3 where row3: "r3 = None" "run_row ?id w3 = Some row3"
      "rr_state row3 = rst" "rr_exit_code row3 = sr_exit_code result"
      by (auto simp: set_outcome_def)
    obtain w4 r4 where w4: "writeSummary rx w3 = (w4, r4)" by fastforce
    have row4: "run_row ?id w4 = Some row3" using writeSummary_pair [OF w4] row3(2) by simp
    have "settle_done rx i red result w =
        (case r4 of Some e \<Rightarrow> (w4, exitCodeInternal, False, Some e)
           | None \<Rightarrow> (print_line (''Run '' @ rx_run_id rx @ '' '' @ run_state_string rst) w4, sr_exit_code result, False, None))"
      using w1 row(2) False w2 ok2(1) w3 row3(1) w4
      by (cases r4) (simp_all add: settle_done_def Let_def rst_def [symmetric] ast_def [symmetric])
    then show ?thesis
      using assms(2) row4 row3(3,4) by (auto simp: ended_def rst_def split: option.splits if_splits)
  qed
qed

lemma update_estimate_ok:
  assumes "db_ok runID w" and "on_store (UpdateAttemptEstimate i est) w = (w', e)"
  shows "e = None \<and> db_ok runID w'"
proof -
  have "keeps w w'" using assms(2) keeps_statements(7) by (metis fst_conv)
  moreover have "e = None"
    using assms on_store_fst(2) [of "UpdateAttemptEstimate i est" w]
    by (simp add: UpdateAttemptEstimate_def update_attempt_ok db_ok_def)
  ultimately show ?thesis using assms(1) db_ok_adds by blast
qed

lemma submit_attempt_ended:
  assumes "db_ok (rx_run_id (ac_run ac)) w" and "submit_attempt ac adapter i job w = (w', code, retryable, err)"
  shows "(retryable \<longrightarrow> err \<noteq> None) \<and> (\<not> retryable \<longrightarrow> ended (rx_run_id (ac_run ac)) w' code err)"
proof -
  let ?rx = "ac_run ac"
  define env where "env = runtimeEnvForProvider (ac_provider ac) (rx_run_id ?rx) i
      (case ac_resume ac of None \<Rightarrow> [] | Some c \<Rightarrow> ck_uri c) (rx_paths ?rx) (ac_staging ac) (job_data job)"
  define red where "red = FromEnvironment (rx_environ ?rx) [job_env job, env]"
  define prog where "prog = ad_submit adapter \<lparr>rq_job = job, rq_run_id = rx_run_id ?rx, rq_attempt_id = i,
      rq_resume = ac_resume ac, rq_hardware = ac_hardware ac, rq_env = env, rq_run_dir = p_run_dir (rx_paths ?rx)\<rparr>"
  note defs = env_def [symmetric] red_def [symmetric] prog_def [symmetric]
  show ?thesis
  proof (cases "attempt_estimate ac adapter job")
    case (Inl e)
    then have "submit_attempt ac adapter i job w = (refuse ?rx i exitCodeRouting (redact_string red (error_string e)) w,
        exitCodeRouting, False, Some e)"
      by (simp add: submit_attempt_def Let_def defs)
    with assms ended_refuse show ?thesis by auto
  next
    case (Inr est)
    obtain w1 r1 where w1: "on_store (UpdateAttemptEstimate i est) w = (w1, r1)" by fastforce
    from update_estimate_ok [OF assms(1) w1] have ok1: "r1 = None" "db_ok (rx_run_id ?rx) w1" by auto
    obtain w2 res e2 where w2: "run_submit (rx_run_id ?rx) i red prog [] w1 = (w2, res, e2)" by (metis prod_cases3)
    have "keeps w1 w2" using keeps_run_submit w2 by (metis fst_conv)
    then have ok2: "db_ok (rx_run_id ?rx) w2" using ok1(2) db_ok_adds by blast
    have "submit_attempt ac adapter i job w =
        (case e2 of Some e \<Rightarrow> settle_failed ?rx i red res e w2 | None \<Rightarrow> settle_done ?rx i red res w2)"
      using Inr w1 ok1(1) w2 by (simp add: submit_attempt_def Let_def defs split: option.splits)
    with assms(2) ok2 settle_failed_ended settle_done_ended show ?thesis
      by (cases e2) (auto, blast+)
  qed
qed

text \<open>Identifiers that are still to come are those of no attempt, and no two of them are equal.\<close>

definition ids_unused :: "world \<Rightarrow> bool" where
  "ids_unused w \<longleftrightarrow> inj (w_fresh w) \<and> (\<forall>n \<ge> w_tick w. w_fresh w n \<notin> fst ` set (heads w))"

lemma ids_unused_keeps: "keeps w w' \<Longrightarrow> ids_unused w \<Longrightarrow> ids_unused w'"
  by (auto simp: ids_unused_def step_adds_def)

lemma create_attempt_row:
  assumes "db_ok runID w" and "ids_unused w"
    and "on_store (CreateAttempt (new_attempt ac (fresh w) t)) (tick w) = (w', e)"
  shows "e = None \<and> db_ok runID w' \<and> ids_unused w'
    \<and> step_adds [attempt_head (attempt_row_of (new_attempt ac (fresh w) t))] w w'"
proof -
  let ?a = "new_attempt ac (fresh w) t"
  have "fresh w \<notin> fst ` set (heads w)" using assms(2) by (simp add: ids_unused_def fresh_def)
  then have "\<forall>r \<in> set (st_attempts (w_store w)). ar_id r \<noteq> fresh w"
    by (auto simp: heads_def attempt_head_def image_iff)
  then have new: "\<not> list_ex (\<lambda>x. ar_id x = ar_id (attempt_row_of ?a)) (st_attempts (w_store w))"
    by (simp add: list_ex_iff attempt_row_of_def new_attempt_def)
  have e: "e = None"
    using assms(1,3) new on_store_fst(2) [of "CreateAttempt ?a" "tick w"]
    by (simp add: CreateAttempt_def exec_healthy db_ok_def tbl_insert_def tick_def)
  have w': "w' = (tick w)\<lparr>w_store := fst (CreateAttempt ?a (w_store w))\<rparr>"
    using assms(3) on_store_fst(1) [of "CreateAttempt ?a" "tick w"] by (simp add: tick_def)
  have "snd (CreateAttempt ?a (w_store w)) = None"
    using assms(3) e on_store_fst(2) [of "CreateAttempt ?a" "tick w"] by (simp add: tick_def)
  then have adds: "step_adds [attempt_head (attempt_row_of ?a)] w w'"
    unfolding w' by (simp add: step_adds_def heads_def run_row_def frame_simps store_simps tick_def)
  have "fst (attempt_head (attempt_row_of ?a)) = w_fresh w (w_tick w)"
    by (simp add: attempt_head_def attempt_row_of_def new_attempt_def fresh_def)
  moreover have "w_tick w' = Suc (w_tick w)" unfolding w' by (simp add: tick_def)
  ultimately have "ids_unused w'"
    using assms(2) adds by (auto simp: ids_unused_def step_adds_def inj_eq)
  with e adds assms(1) db_ok_adds show ?thesis by blast
qed

lemma prepare_on_disk_keeps: "prepare_on_disk ac w = (w', r) \<Longrightarrow> keeps w w'"
  by (auto simp: prepare_on_disk_def split: if_splits prod.splits sum.splits)

lemma runAttempt_ended:
  assumes "db_ok (rx_run_id (ac_run ac)) w" and "ids_unused w" and "runAttempt ac w = (w', code, retryable, err)"
  shows "(retryable \<longrightarrow> err \<noteq> None) \<and> (\<not> retryable \<longrightarrow> ended (rx_run_id (ac_run ac)) w' code err)"
proof -
  let ?rx = "ac_run ac" and ?i = "fresh w"
  define red where "red = FromEnvironment (rx_environ ?rx) [job_env (ac_job ac)]"
  obtain w1 e1 where w1: "on_store (CreateAttempt (new_attempt ac ?i (now w))) (tick w) = (w1, e1)" by fastforce
  from create_attempt_row [OF assms(1,2) w1] have ok1: "e1 = None" "db_ok (rx_run_id ?rx) w1" by auto
  show ?thesis
  proof (cases "registry_get (ac_registry ac) (ac_provider ac)")
    case (Inl e)
    then have "runAttempt ac w = (finishFailed (rx_run_id ?rx) ?i exitCodeInternal (redact_string red (error_string e)) [] w1,
        exitCodeInternal, False, Some e)"
      using w1 ok1(1) by (simp add: runAttempt_def Let_def red_def)
    with assms(3) ended_finishFailed [OF ok1(2)] show ?thesis by auto
  next
    case (Inr adapter)
    obtain w2 r2 where w2: "prepare_on_disk ac w1 = (w2, r2)" by fastforce
    have ok2: "db_ok (rx_run_id ?rx) w2" using prepare_on_disk_keeps [OF w2] ok1(2) db_ok_adds by blast
    show ?thesis
    proof (cases r2)
      case (Inl e)
      with Inr w1 ok1(1) w2 have "runAttempt ac w =
          (refuse ?rx ?i exitCodeInvalidSpec (redact_string red (error_string e)) w2, exitCodeInvalidSpec, False, Some e)"
        by (simp add: runAttempt_def Let_def red_def)
      with assms(3) ended_refuse [OF ok2] show ?thesis by auto
    next
      case job: (Inr job)
      show ?thesis
      proof (cases "sup_supported (ad_validate adapter job)")
        case True
        with Inr job w1 ok1(1) w2 have "runAttempt ac w = submit_attempt ac adapter ?i job w2"
          by (simp add: runAttempt_def Let_def)
        with assms(3) submit_attempt_ended [OF ok2] show ?thesis by simp
      next
        case False
        with Inr job w1 ok1(1) w2 obtain reason where "runAttempt ac w =
          (refuse ?rx ?i exitCodeInvalidSpec (redact_string red reason) w2, exitCodeInvalidSpec, False, Some (ErrText reason))"
          by (simp add: runAttempt_def Let_def red_def)
        with assms(3) ended_refuse [OF ok2] show ?thesis by auto
      qed
    qed
  qed
qed
section \<open>The attempts of a run\<close>

lemma keeps_settle_canceled [keeps_intros]: "keeps w (fst (settle_canceled rx w))"
proof -
  obtain w1 e where w1: "writeSummary rx w = (w1, e)" by fastforce
  have "keeps w w1" using keeps_writeSummary w1 by (metis fst_conv)
  with w1 show ?thesis by (cases e) (auto simp: settle_canceled_def intro: adds_keeps)
qed

lemma keeps_refuse [simp, keeps_intros]: "keeps w (refuse rx i code reason w)"
  unfolding refuse_def by (rule keeps_trans [OF keeps_finishFailed keeps_writeSummary])

lemma keeps_give_up [simp, keeps_intros]: "keeps w (give_up lc code reason w)"
  unfolding give_up_def by (rule keeps_trans [OF keeps_finishRunOnly keeps_writeSummary])

lemma keeps_after_tick: "keeps (tick w) w' \<Longrightarrow> keeps w w'"
  by (rule keeps_trans [OF keeps_tick])

lemma keeps_finish_pair:
  "on_store (FinishAttempt i st c m p t) (tick w) = (w', e) \<Longrightarrow> keeps w w'"
  "on_store (FinishRun k rst c m t) w = (w', e) \<Longrightarrow> keeps w w'"
  "on_store (GetRun k) w = (w', r) \<Longrightarrow> keeps w w'"
  "on_store (UpdateAttemptEstimate i est) w = (w', e) \<Longrightarrow> keeps w w'"
  "writeSummary rx w = (w', e) \<Longrightarrow> keeps w w'"
  using keeps_after_tick [OF keeps_statements(5)] keeps_statements(4) keeps_statements(1) keeps_statements(7)
    keeps_writeSummary by (metis fst_conv)+

lemma keeps_settle_failed [keeps_intros]: "keeps w (fst (settle_failed rx i red result e0 w))"
proof -
  obtain w1 r1 where w1: "on_store (GetRun (rx_run_id rx)) w = (w1, r1)" by fastforce
  define reason where "reason = (if sr_exit_reason result \<noteq> [] then redact_string red (sr_exit_reason result)
        else redact_string red (error_string e0))"
  obtain w2 r2 where w2: "on_store (FinishAttempt i AttemptFailed (sr_exit_code result) reason
        (redact_string red (sr_job_ref result)) (now w1)) (tick w1) = (w2, r2)" by fastforce
  obtain w3 r3 where w3: "on_store (FinishRun (rx_run_id rx) RunFailed (sr_exit_code result) reason (now w1)) w2 = (w3, r3)"
    by fastforce
  note k1 = keeps_finish_pair(3) [OF w1] and k2 = keeps_finish_pair(1) [OF w2] and k3 = keeps_finish_pair(2) [OF w3]
  have "fst (settle_failed rx i red result e0 w) \<in> {w1, fst (settle_canceled rx w1), w2, w3}"
    using w1 w2 w3
    by (cases r1; cases r2; cases r3) (simp_all add: settle_failed_def Let_def reason_def [symmetric])
  with keeps_trans [OF k1 keeps_settle_canceled] k1 keeps_trans [OF k1 k2] keeps_trans [OF k1 keeps_trans [OF k2 k3]]
  show ?thesis by auto
qed

lemma keeps_settle_done [keeps_intros]: "keeps w (fst (settle_done rx i red result w))"
proof -
  obtain w1 r1 where w1: "on_store (GetRun (rx_run_id rx)) w = (w1, r1)" by fastforce
  define rst where "rst = (if sr_exit_code result \<noteq> 0 then RunFailed else RunSucceeded)"
  define ast where "ast = (if sr_exit_code result \<noteq> 0 then AttemptFailed else AttemptSucceeded)"
  obtain w2 r2 where w2: "on_store (FinishAttempt i ast (sr_exit_code result) (redact_string red (sr_exit_reason result))
        (redact_string red (sr_job_ref result)) (now w1)) (tick w1) = (w2, r2)" by fastforce
  obtain w3 r3 where w3: "on_store (FinishRun (rx_run_id rx) rst (sr_exit_code result)
        (redact_string red (sr_exit_reason result)) (now w1)) w2 = (w3, r3)" by fastforce
  obtain w4 r4 where w4: "writeSummary rx w3 = (w4, r4)" by fastforce
  note k1 = keeps_finish_pair(3) [OF w1] and k2 = keeps_finish_pair(1) [OF w2] and k3 = keeps_finish_pair(2) [OF w3]
    and k4 = keeps_finish_pair(5) [OF w4]
  have "fst (settle_done rx i red result w) \<in> {w1, fst (settle_canceled rx w1), w2, w3, w4,
      print_line (''Run '' @ rx_run_id rx @ '' '' @ run_state_string rst) w4}"
    using w1 w2 w3 w4
    by (cases r1; cases r2; cases r3; cases r4)
       (simp_all add: settle_done_def Let_def rst_def [symmetric] ast_def [symmetric])
  with keeps_trans [OF k1 keeps_settle_canceled] k1 keeps_trans [OF k1 k2] keeps_trans [OF k1 keeps_trans [OF k2 k3]]
    keeps_trans [OF k1 keeps_trans [OF k2 keeps_trans [OF k3 k4]]]
    keeps_trans [OF k1 keeps_trans [OF k2 keeps_trans [OF k3 keeps_trans [OF k4 keeps_print]]]]
  show ?thesis by auto
qed

lemma keeps_submit_attempt [keeps_intros]: "keeps w (fst (submit_attempt ac adapter i job w))"
proof (cases "attempt_estimate ac adapter job")
  case (Inl e)
  then show ?thesis by (simp add: submit_attempt_def Let_def)
next
  case (Inr est)
  obtain w1 r1 where w1: "on_store (UpdateAttemptEstimate i est) w = (w1, r1)" by fastforce
  note k1 = keeps_finish_pair(4) [OF w1]
  show ?thesis
  proof (cases r1)
    case (Some e)
    with Inr w1 k1 show ?thesis by (simp add: submit_attempt_def Let_def)
  next
    case None
    have "keeps w1 (fst (case run_submit runID i red p [] w1 of
        (w, result, Some err) \<Rightarrow> settle_failed rx i red result err w | (w, result, None) \<Rightarrow> settle_done rx i red result w))"
      for runID red p rx
    proof -
      obtain w2 res e2 where w2: "run_submit runID i red p [] w1 = (w2, res, e2)" by (metis prod_cases3)
      have "keeps w1 w2" using keeps_run_submit w2 by (metis fst_conv)
      with w2 show ?thesis by (cases e2) (auto intro: keeps_trans keeps_settle_failed keeps_settle_done)
    qed
    with Inr w1 None show ?thesis by (auto simp: submit_attempt_def Let_def intro: keeps_trans [OF k1])
  qed
qed

lemma runAttempt_adds:
  assumes "db_ok (rx_run_id (ac_run ac)) w" and "ids_unused w" and "runAttempt ac w = (w', code, retryable, err)"
  shows "step_adds [attempt_head (attempt_row_of (new_attempt ac (fresh w) (now w)))] w w' \<and> ids_unused w'"
proof -
  obtain w1 e1 where w1: "on_store (CreateAttempt (new_attempt ac (fresh w) (now w))) (tick w) = (w1, e1)" by fastforce
  note made = create_attempt_row [OF assms(1,2) w1]
  obtain w2 r2 where w2: "prepare_on_disk ac w1 = (w2, r2)" by fastforce
  have k2: "keeps w1 w2" using prepare_on_disk_keeps [OF w2] .
  have "keeps w2 w' \<or> keeps w1 w'"
    using assms(3) w1 made w2 keeps_submit_attempt [of w2]
    by (auto simp: runAttempt_def Let_def split: sum.splits if_splits) (metis fst_conv)
  with k2 have "keeps w1 w'" by (auto intro: keeps_trans)
  with made show ?thesis by (auto intro: adds_keeps ids_unused_keeps)
qed
definition head_provider :: "attempt_head \<Rightarrow> string" where
  "head_provider h = fst (snd (snd h))"

definition head_resume :: "attempt_head \<Rightarrow> string \<times> int option" where
  "head_resume h = snd (snd (snd h))"

definition resume_columns :: "checkpoint_ref option \<Rightarrow> string \<times> int option" where
  "resume_columns c = (case c of None \<Rightarrow> ([], None) | Some r \<Rightarrow> (ck_uri r, Some (ck_step r)))"

lemma new_head:
  "head_provider (attempt_head (attempt_row_of (new_attempt ac i t))) = ac_provider ac"
  "head_resume (attempt_head (attempt_row_of (new_attempt ac i t))) = resume_columns (ac_resume ac)"
  "fst (snd (attempt_head (attempt_row_of (new_attempt ac i t)))) = rx_run_id (ac_run ac)"
  by (simp_all add: head_provider_def head_resume_def resume_columns_def attempt_head_def attempt_row_of_def
      new_attempt_def split: option.split)

lemma select_not_excluded:
  "Select reg spec opts = (d, None) \<Longrightarrow> \<not> lookup_default False (ro_exclude opts) (rd_selected_provider d)"
  using Select_in_eligible in_eligible_ok by (metis provider_eligible_def)

lemma choose_provider_spec:
  assumes "db_ok (rx_run_id (lc_run lc)) w" and "choose_provider lc excluded resumeFrom w = (w', r)"
  shows "keeps w w' \<and> (case r of
      Inl (code, e) \<Rightarrow> ended (rx_run_id (lc_run lc)) w' code (Some e)
    | Inr (p, h) \<Rightarrow> if rs_provider (lc_resolved lc) = provider_auto then \<not> lookup_default False excluded p
        else p = rs_provider (lc_resolved lc))"
proof (cases "rs_provider (lc_resolved lc) = provider_auto")
  case False
  with assms ended_give_up [OF assms(1)] show ?thesis
    by (auto simp: choose_provider_def Let_def split: option.splits)
next
  case True
  obtain d e where sel: "Select (lc_registry lc) (lc_job lc) (routingOptions (lc_resolved lc) excluded resumeFrom) = (d, e)"
    by fastforce
  define d' where "d' = d\<lparr>rd_run_id := rx_run_id (lc_run lc)\<rparr>"
  define w1 where "w1 = (if rx_run_id (lc_run lc) \<noteq> [] then fst (on_store (SaveRoutingDecision d') w) else w)"
  have k: "keeps w w1" by (simp add: w1_def)
  then have ok: "db_ok (rx_run_id (lc_run lc)) w1" using assms(1) db_ok_adds by blast
  show ?thesis
  proof (cases e)
    case None
    have "\<not> lookup_default False excluded (rd_selected_provider d)"
      using select_not_excluded sel None by (fastforce simp: routingOptions_def Let_def)
    moreover have "w' = print_line (''Selected '' @ rd_selected_provider d @ '': '' @ rd_selection_reason d) w1"
      "r = Inr (rd_selected_provider d, rd_selected_hardware d)"
      using assms(2) True sel None
      by (cases "rx_run_id (lc_run lc) = []"; simp add: choose_provider_def Let_def w1_def d'_def)+
    ultimately show ?thesis using True keeps_trans [OF k keeps_print] by simp
  next
    case (Some err)
    have "\<exists>code reason f. w' = give_up lc code reason w1 \<and> r = Inl (code, f)"
      using assms(2) True sel Some
      by (cases resumeFrom) (auto simp: choose_provider_def Let_def w1_def d'_def)
    with ended_give_up [OF ok] keeps_trans [OF k keeps_give_up] show ?thesis by fastforce
  qed
qed

text \<open>What the loop does from a state with \<open>n\<close> attempts left.\<close>

definition attempts_ok :: "loop_ctx \<Rightarrow> nat \<Rightarrow> bool smap \<Rightarrow> checkpoint_ref option \<Rightarrow> attempt_head list \<Rightarrow> bool" where
  "attempts_ok lc n excluded resumeFrom new \<longleftrightarrow> length new \<le> n
     \<and> (\<forall>h \<in> set new. fst (snd h) = rx_run_id (lc_run lc))
     \<and> (new \<noteq> [] \<longrightarrow> head_resume (hd new) = resume_columns resumeFrom)
     \<and> (\<forall>h \<in> set (tl new). snd (head_resume h) \<noteq> None)
     \<and> (if rs_provider (lc_resolved lc) = provider_auto
        then distinct (map head_provider new) \<and> (\<forall>h \<in> set new. \<not> lookup_default False excluded (head_provider h))
        else length new \<le> 1 \<and> (\<forall>h \<in> set new. head_provider h = rs_provider (lc_resolved lc)))"

lemma attempts_ok_Nil: "attempts_ok lc n excluded resumeFrom []"
  by (simp add: attempts_ok_def)

lemma attempts_ok_single:
  assumes "fst (snd h) = rx_run_id (lc_run lc)" and "head_resume h = resume_columns resumeFrom"
    and "if rs_provider (lc_resolved lc) = provider_auto then \<not> lookup_default False excluded (head_provider h)
      else head_provider h = rs_provider (lc_resolved lc)"
  shows "attempts_ok lc (Suc n) excluded resumeFrom [h]"
  using assms by (auto simp: attempts_ok_def)

lemma attempts_ok_Cons:
  assumes "attempts_ok lc (Suc n) excluded resumeFrom [h]"
    and "attempts_ok lc n (AList.update (head_provider h) True excluded) (Some c) new"
    and "rs_provider (lc_resolved lc) = provider_auto"
  shows "attempts_ok lc (Suc n) excluded resumeFrom (h # new)"
proof -
  have fresh_g: "head_provider g \<noteq> head_provider h \<and> \<not> lookup_default False excluded (head_provider g)"
    if "g \<in> set new" for g
    using assms(2,3) that by (force simp: attempts_ok_def lookup_update split: if_splits)
  then have "head_provider h \<notin> head_provider ` set new" by (metis imageE)
  moreover have "\<forall>g \<in> set new. snd (head_resume g) \<noteq> None"
    using assms(2) by (cases new) (auto simp: attempts_ok_def resume_columns_def)
  ultimately show ?thesis
    using assms fresh_g by (simp add: attempts_ok_def)
qed

lemma attempts_loop_spec:
  assumes "db_ok (rx_run_id (lc_run lc)) w" and "ids_unused w"
    and "attempts_loop lc n excluded resumeFrom w = (w', code, err)"
  shows "\<exists>new. step_adds new w w' \<and> attempts_ok lc n excluded resumeFrom new
    \<and> (0 < n \<longrightarrow> ended (rx_run_id (lc_run lc)) w' code err)"
  using assms
proof (induction n arbitrary: excluded resumeFrom w)
  case 0
  then have "w' = w" by simp
  then show ?case by (intro exI [of _ "[]"]) (simp add: attempts_ok_Nil)
next
  case (Suc n)
  let ?id = "rx_run_id (lc_run lc)"
  obtain w1 r1 where w1: "choose_provider lc excluded resumeFrom w = (w1, r1)" by fastforce
  note chosen = choose_provider_spec [OF Suc.prems(1) w1]
  have ok1: "db_ok ?id w1" "ids_unused w1" using chosen Suc.prems(1,2) db_ok_adds ids_unused_keeps by blast+
  show ?case
  proof (cases r1)
    case (Inl ce)
    obtain c e where ce: "ce = (c, e)" by (cases ce)
    with Inl w1 Suc.prems(3) have "w' = w1" "code = c" "err = Some e" by auto
    with chosen Inl ce attempts_ok_Nil show ?thesis by auto
  next
    case (Inr ph)
    obtain p h where ph: "ph = (p, h)" by (cases ph)
    let ?ac = "attempt_of lc resumeFrom p h"
    have ac: "ac_run ?ac = lc_run lc" "ac_provider ?ac = p" "ac_resume ?ac = resumeFrom"
      by (simp_all add: attempt_of_def)
    define hd1 where "hd1 = attempt_head (attempt_row_of (new_attempt ?ac (fresh w1) (now w1)))"
    obtain w2 c2 ret2 e2 where w2: "runAttempt ?ac w1 = (w2, c2, ret2, e2)" by (metis prod_cases4)
    have adds: "step_adds [hd1] w1 w2" "ids_unused w2"
      using runAttempt_adds [of ?ac, OF _ ok1(2) w2] ok1(1) ac by (auto simp: hd1_def)
    have settled: "(ret2 \<longrightarrow> e2 \<noteq> None) \<and> (\<not> ret2 \<longrightarrow> ended ?id w2 c2 e2)"
      using runAttempt_ended [of ?ac, OF _ ok1(2) w2] ok1(1) ac by simp
    have ok2: "db_ok ?id w2" using adds(1) ok1(1) db_ok_adds by blast
    have single: "attempts_ok lc (Suc n) excluded resumeFrom [hd1]"
      using chosen Inr ph by (intro attempts_ok_single) (simp_all add: hd1_def new_head attempt_of_def split: if_splits)
    have prov: "head_provider hd1 = p" by (simp add: hd1_def new_head ac)
    have from_w: "step_adds [hd1] w x" if "keeps w2 x" for x
      using keeps_trans [of w w1] chosen adds_keeps [OF adds(1) that] by blast
    have stop: ?thesis if "w' = x" "keeps w2 x" "ended ?id x code err" for x
      using that from_w single by blast
    note run = Suc.prems(3) [unfolded attempts_loop.simps w1 Inr ph prod.case sum.case w2]
    show ?thesis
    proof (cases e2)
      case None
      with run settled show ?thesis by (intro stop [of w2]) auto
    next
      case (Some e)
      show ?thesis
      proof (cases "\<not> ret2 \<or> rs_provider (lc_resolved lc) \<noteq> provider_auto \<or> n = 0")
        case True
        define x where "x = (if ret2 then finishRunOnly ?id c2 (redact_string (lc_redactor lc) (error_string e)) w2 else w2)"
        have out: "w' = fst (writeSummary (lc_run lc) x)" "code = c2" "err = Some e"
          using run Some True by (auto simp: Let_def x_def)
        have "ended ?id x c2 (Some e)"
          using settled Some ended_finishRunOnly [OF ok2] by (auto simp: x_def)
        then have "ended ?id w' c2 (Some e)" unfolding out(1) by (simp only: ended_row [OF writeSummary_row])
        moreover have "keeps w2 w'" unfolding out(1) x_def
          using keeps_trans [OF keeps_finishRunOnly keeps_writeSummary] by auto
        ultimately show ?thesis using out by (intro stop [of w']) auto
      next
        case False
        show ?thesis
        proof (cases "\<exists>c. Latest (w_events w2) = Inr (Some c)")
          case True
          then obtain c where c: "Latest (w_events w2) = Inr (Some c)" ..
          let ?w3 = "print_line (''Found checkpoint: step '' @ string_of_int (ck_step c)) w2"
          have "attempts_loop lc n (AList.update p True excluded) (Some c) ?w3 = (w', code, err)"
            using run Some False c by simp
          from Suc.IH [OF _ _ this] obtain new where new: "step_adds new ?w3 w'"
            "attempts_ok lc n (AList.update p True excluded) (Some c) new" "ended ?id w' code err"
            using ok2 adds(2) False db_ok_adds [OF keeps_print] ids_unused_keeps [OF keeps_print] by blast
          have "step_adds ([hd1] @ new) w w'" using adds_trans [OF from_w [OF keeps_print] new(1)] .
          moreover have "attempts_ok lc (Suc n) excluded resumeFrom (hd1 # new)"
            using False new(2) prov by (intro attempts_ok_Cons [OF single]) simp_all
          ultimately show ?thesis using new(3) by auto
        next
          case none: False
          have "\<exists>message. w' = give_up lc exitCodeMissingResume message w2 \<and> code = exitCodeMissingResume
              \<and> err = Some (ErrText message)"
            using run Some False none by (auto simp: Let_def split: sum.splits option.splits)
          with ended_give_up [OF ok2] keeps_give_up show ?thesis by (intro stop [of w']) auto
        qed
      qed
    qed
  qed
qed
section \<open>Properties of a run\<close>

definition max_attempts :: "loop_ctx \<Rightarrow> nat" where
  "max_attempts lc = (if rg_max_attempts (rs_routing (lc_resolved lc)) < 1 then 1
     else nat (rg_max_attempts (rs_routing (lc_resolved lc))))"

lemma runAttempts_loop: "runAttempts lc c w = attempts_loop lc (max_attempts lc) [] c w" "0 < max_attempts lc"
  by (simp_all add: runAttempts_def max_attempts_def Let_def)

lemma run_loop_result:
  assumes "db_ok (rx_run_id (lc_run lc)) w" and "ids_unused w" and "runAttempts lc c w = (w', code, err)"
  shows "ended (rx_run_id (lc_run lc)) w' code err"
    and "\<exists>new. heads w' = heads w @ new \<and> attempts_ok lc (max_attempts lc) [] c new"
  using attempts_loop_spec [OF assms(1,2), of "max_attempts lc" "[]" c] assms(3) runAttempts_loop
  by (auto simp: step_adds_def)

text \<open>C1. When the loop returns, the run has ended, whatever the providers do and whenever another
  process cancels it, as long as the database works: without an error it is cancelled (130),
  successful (0) or failed with the exit code that is returned, and with an error it is failed with
  that code, or ended in some other way when only its summary could not be written.\<close>

theorem run_attempts_end:
  assumes "db_ok (rx_run_id (lc_run lc)) w" and "ids_unused w" and "runAttempts lc c w = (w', code, err)"
  shows "ended (rx_run_id (lc_run lc)) w' code err"
  by (rule run_loop_result(1) [OF assms])

text \<open>C2. A run adds at most the configured number of attempts, and at least room for one; with
  automatic routing no provider is tried twice, otherwise there is one attempt at most; the first
  resumes where the caller said, and every later one from a checkpoint; older attempts are kept.\<close>

theorem run_attempts_bounded:
  assumes "db_ok (rx_run_id (lc_run lc)) w" and "ids_unused w" and "runAttempts lc c w = (w', code, err)"
  shows "\<exists>new. heads w' = heads w @ new \<and> attempts_ok lc (max_attempts lc) [] c new"
  by (rule run_loop_result(2) [OF assms])

lemma exec_fault: "st_fault s (st_ops s) = Some e \<Longrightarrow> exec stmt s = (s\<lparr>st_ops := Suc (st_ops s)\<rparr>, Some e)"
  by (simp add: exec_def)

text \<open>When the database fails as the attempt is recorded, the command ends with the code of an
  internal error and leaves the row of the run as it was: a run that was started stays running.\<close>

theorem attempt_insert_failure:
  assumes "rs_provider (lc_resolved lc) \<noteq> provider_auto" and "st_fault (w_store w) (st_ops (w_store w)) = Some e"
  shows "\<exists>w'. runAttempts lc None w = (w', exitCodeInternal, Some e) \<and> run_row k w' = run_row k w"
proof -
  have choose: "choose_provider lc [] None w = (w, Inr (rs_provider (lc_resolved lc), None))"
    using assms(1) by (simp add: choose_provider_def Let_def)
  let ?w1 = "(tick w)\<lparr>w_store := (w_store w)\<lparr>st_ops := Suc (st_ops (w_store w))\<rparr>\<rparr>"
  have attempt: "runAttempt (attempt_of lc None p h) w = (?w1, exitCodeInternal, False, Some e)" for p h
    by (simp add: runAttempt_def Let_def on_store_def CreateAttempt_def tick_def exec_fault [OF assms(2)])
  obtain n where n: "max_attempts lc = Suc n" using runAttempts_loop(2) [of lc] by (cases "max_attempts lc") auto
  have "runAttempts lc None w = (fst (writeSummary (lc_run lc) ?w1), exitCodeInternal, Some e)"
    by (simp add: runAttempts_loop(1) n choose attempt)
  moreover have "run_row k (fst (writeSummary (lc_run lc) ?w1)) = run_row k w"
    by simp (simp add: run_row_def tick_def)
  ultimately show ?thesis by blast
qed

lemma persist_result:
  assumes "healthy (w_store w)"
  shows "persistProviderResource red r ids w =
    (let x = redactProviderResource r red; key = providerResourceKey x;
         y = (if key \<noteq> [] \<and> lookup_default [] ids key \<noteq> [] then x\<lparr>res_id := lookup_default [] ids key\<rparr> else x);
         saved = resource_defaults (now w) (fresh w) y
     in ((tick w)\<lparr>w_store := (w_store w)\<lparr>st_ops := Suc (st_ops (w_store w)),
           st_resources := tbl_upsert sr_id resource_merge (resource_row_of saved) (st_resources (w_store w))\<rparr>\<rparr>,
         if key \<noteq> [] then AList.update key (res_id saved) ids else ids, None))"
  using assms
  by (simp add: persistProviderResource_def Let_def on_store_def save_resource_healthy tick_def)


section \<open>A concrete run\<close>

definition sample_ctx :: run_ctx where
  "sample_ctx = \<lparr>rx_environ = [], rx_cwd = ''/'', rx_files = sample_files,
     rx_paths = run_paths (\<lambda>_. False) ''/home'' ''r_1'', rx_run_id = ''r_1''\<rparr>"

definition sample_world :: world where
  "sample_world = \<lparr>w_store = fst (CreateRun sample_run empty_store), w_events = Some [],
     w_disk = \<lparr>dk_files = [], dk_dirs = [], dk_fault = (\<lambda>_. None)\<rparr>, w_summary = None, w_out = [], w_tick = 1,
     w_clock = (\<lambda>_. sample_time), w_fresh = (\<lambda>n. replicate n (CHR ''a'')), w_summary_fault = (\<lambda>_. None),
     w_cancel = (\<lambda>_. False)\<rparr>"

definition sample_loop :: loop_ctx where
  "sample_loop = \<lparr>lc_run = sample_ctx, lc_resolved = sample_resolved, lc_registry = sample_registry,
     lc_job = sample_job, lc_manifest = \<lparr>dm_inputs = [], dm_bundle_size_bytes = 0, dm_requires_override = False,
       dm_size_limit_bytes = 0, dm_override_permitted = False\<rparr>\<rparr>"

lemma sample_world_ok: "db_ok (rx_run_id (lc_run sample_loop)) sample_world" "ids_unused sample_world"
proof -
  have "st_runs (fst (CreateRun sample_run empty_store)) = [run_row_of sample_run]"
    by (simp add: CreateRun_def exec_def empty_store_def tbl_insert_def)
  moreover have "healthy (fst (CreateRun sample_run empty_store))"
    by (rule healthy_fault [of empty_store]) (simp_all add: frame_simps healthy_def empty_store_def)
  ultimately show "db_ok (rx_run_id (lc_run sample_loop)) sample_world"
    by (simp add: db_ok_def sample_world_def run_row_def sample_loop_def sample_ctx_def tbl_find_def run_row_of_def
        sample_run_def)
  have "inj (\<lambda>n. replicate n (CHR ''a''))" by (rule injI) (metis length_replicate)
  then show "ids_unused sample_world"
    by (simp add: ids_unused_def sample_world_def heads_def frame_simps empty_store_def)
qed

lemma run_attempts_end_witness:
  "ended ''r_1'' (fst (runAttempts sample_loop None sample_world))
     (fst (snd (runAttempts sample_loop None sample_world))) (snd (snd (runAttempts sample_loop None sample_world)))"
proof -
  obtain w' code err where r: "runAttempts sample_loop None sample_world = (w', code, err)" by (metis prod_cases3)
  have "rx_run_id (lc_run sample_loop) = ''r_1''" by (simp add: sample_loop_def sample_ctx_def)
  with run_attempts_end [OF sample_world_ok r] r show ?thesis by simp
qed

lemma run_attempts_bounded_witness:
  "\<exists>new. heads (fst (runAttempts sample_loop None sample_world)) = new \<and> length new \<le> 2"
proof -
  obtain w' code err where r: "runAttempts sample_loop None sample_world = (w', code, err)" by (metis prod_cases3)
  have "heads sample_world = []" by (simp add: heads_def sample_world_def frame_simps empty_store_def)
  moreover have "max_attempts sample_loop = 2"
    by (simp add: max_attempts_def sample_loop_def sample_resolved_def resolved_settings_def resolve_file_def zero_file_def
        resolveRouting_def Let_def)
  ultimately show ?thesis
    using run_attempts_bounded [OF sample_world_ok r] r by (auto simp: attempts_ok_def)
qed

lemma attempt_insert_failure_witness:
  "\<exists>w'. runAttempts sample_loop None
       (sample_world\<lparr>w_store := (w_store sample_world)\<lparr>st_fault := (\<lambda>_. Some (ErrText ''database is locked''))\<rparr>\<rparr>)
     = (w', 1, Some (ErrText ''database is locked'')) \<and> map_option rr_state (run_row ''r_1'' w') = Some RunRunning"
proof -
  let ?w = "sample_world\<lparr>w_store := (w_store sample_world)\<lparr>st_fault := (\<lambda>_. Some (ErrText ''database is locked''))\<rparr>\<rparr>"
  have p: "rs_provider (lc_resolved sample_loop) \<noteq> provider_auto"
    by (simp add: sample_loop_def sample_resolved_def resolved_settings_def Let_def provider_auto_def)
  have f: "st_fault (w_store ?w) (st_ops (w_store ?w)) = Some (ErrText ''database is locked'')" by simp
  have "st_runs (fst (CreateRun sample_run empty_store)) = [run_row_of sample_run]"
    by (simp add: CreateRun_def exec_def empty_store_def tbl_insert_def)
  then have "map_option rr_state (run_row ''r_1'' ?w) = Some RunRunning"
    by (simp add: run_row_def sample_world_def tbl_find_def run_row_of_def sample_run_def)
  with attempt_insert_failure [OF p f, of "''r_1''"] show ?thesis by (auto simp: exitCodeInternal_def)
qed


end
