(* ===== verification/Resources.thy ===== *)
theory Resources
  imports Runs
begin

text \<open>
  The commands of \<open>internal/cli/root.go\<close> that act on what providers hold: \<open>cancel\<close> and the
  \<open>resources\<close> commands list, refresh and cleanup, after the database is open. Constructing an
  adapter from a configuration is a parameter; the calls of \<open>Cancel\<close> are recorded in their order.
  The credential store gives the same answer each time, so that it is opened once is not visible.
\<close>

record adapters_env =
  ae_gcp :: "gcp_config \<Rightarrow> adapter"
  ae_lambda_factory :: "(lambda_config \<Rightarrow> adapter) option"
  ae_lambda :: "lambda_config \<Rightarrow> adapter"
  ae_china :: "string \<Rightarrow> string \<Rightarrow> string \<Rightarrow> adapter"
  ae_resolver :: "gerror option"
  ae_registry :: registry

section \<open>Which resources are active\<close>

definition providerResourceStateActive :: "resource_state \<Rightarrow> bool" where
  "providerResourceStateActive st \<longleftrightarrow> st \<in> set [ResCreating, ResBooting, ResRunning, ResUnknown]"

definition filterActiveResources :: "provider_resource list \<Rightarrow> provider_resource list" where
  "filterActiveResources rs = filter (\<lambda>r. providerResourceStateActive (res_state r)) rs"

definition resourceCleanupEligible :: "provider_resource \<Rightarrow> bool" where
  "resourceCleanupEligible r =
     (if \<not> res_created_by_switchboard r \<or> res_provider_ref r = [] \<or> \<not> providerResourceStateActive (res_state r)
      then False else res_cleanup r \<noteq> CleanupNever)"

definition resourceRefreshSupported :: "provider_resource \<Rightarrow> bool" where
  "resourceRefreshSupported r \<longleftrightarrow> res_provider_ref r \<noteq> [] \<and> (res_provider r = ''gcp'' \<or> res_provider r = ''lambda'')"

fun providerResourceStateFromAttempt :: "attempt_state option \<Rightarrow> resource_state" where
  "providerResourceStateFromAttempt (Some AttemptRunning) = ResRunning"
| "providerResourceStateFromAttempt (Some AttemptSucceeded) = ResSucceeded"
| "providerResourceStateFromAttempt (Some AttemptFailed) = ResFailed"
| "providerResourceStateFromAttempt (Some AttemptCanceled) = ResCanceled"
| "providerResourceStateFromAttempt st = ResUnknown"

definition providerResourceStateFromStatus :: "job_status \<Rightarrow> resource_state" where
  "providerResourceStateFromStatus status =
     (if js_resource_state status \<noteq> ResNone then js_resource_state status
      else providerResourceStateFromAttempt (js_state status))"

definition cleanupRequestedState :: "provider_resource \<Rightarrow> resource_state" where
  "cleanupRequestedState r =
     (if res_provider r = ''lambda'' then ResTerminating
      else if res_provider r = ''gcp'' then ResCanceled
      else if isChinaCloudProvider (res_provider r) then ResTerminating else ResUnknown)"

definition mergeResourceMetadata :: "string smap \<Rightarrow> string smap \<Rightarrow> string smap" where
  "mergeResourceMetadata current extra = map_merge current extra"

section \<open>The adapter of a resource\<close>

definition gcp_at :: "string \<Rightarrow> string \<Rightarrow> gcp_config" where
  "gcp_at project region = (cf_gcp zero_file)\<lparr>gc_project_id := project, gc_location := region\<rparr>"

definition lambda_at :: "string \<Rightarrow> lambda_config" where
  "lambda_at region = (cf_lambda zero_file)\<lparr>lc_region := region\<rparr>"

definition cleanupAdapterForResource :: "adapters_env \<Rightarrow> provider_resource \<Rightarrow> gerror + adapter" where
  "cleanupAdapterForResource ae r =
     (if res_provider r = ''gcp'' then Inr (ae_gcp ae (gcp_at (res_project r) (res_region r)))
      else if res_provider r = ''lambda''
      then (case ae_lambda_factory ae of
          Some f \<Rightarrow> Inr (f (lambda_at (res_region r)))
        | None \<Rightarrow> (case ae_resolver ae of Some e \<Rightarrow> Inl e | None \<Rightarrow> Inr (ae_lambda ae (lambda_at (res_region r)))))
      else if isChinaCloudProvider (res_provider r)
      then (case ae_resolver ae of Some e \<Rightarrow> Inl e
        | None \<Rightarrow> Inr (ae_china ae (res_provider r) (res_region r) (res_project r)))
      else Inl (ErrText (''resource cleanup is not supported for provider '' @ quote (res_provider r))))"

definition refreshAdapterForResource :: "adapters_env \<Rightarrow> provider_resource \<Rightarrow> gerror + adapter" where
  "refreshAdapterForResource ae r =
     (if res_provider r = ''gcp'' \<or> res_provider r = ''lambda'' then cleanupAdapterForResource ae r
      else Inl (ErrText (''resource refresh is not supported for provider '' @ quote (res_provider r))))"

text \<open>What a command writes down about a resource: its state, when it was seen, and a note.\<close>

definition observed :: "provider_resource \<Rightarrow> resource_state \<Rightarrow> string \<Rightarrow> gotime \<Rightarrow> provider_resource" where
  "observed r st note t = r\<lparr>res_state := st, res_updated_at := t, res_observed_at := Some t,
     res_metadata := mergeResourceMetadata (res_metadata r) [(note, rfc3339_nano t)]\<rparr>"

definition save_observed ::
  "provider_resource \<Rightarrow> resource_state \<Rightarrow> string \<Rightarrow> world \<Rightarrow> world \<times> (gerror + provider_resource)" where
  "save_observed r st note w =
     on_store (SaveProviderResource (now (tick w)) (fresh (tick w)) (observed r st note (now w))) (tick (tick w))"

section \<open>Cleanup and refresh\<close>

definition tabbed :: "string list \<Rightarrow> string" where
  "tabbed parts = join [CHR 0x09] parts"

fun resource_state_string :: "resource_state \<Rightarrow> string" where
  "resource_state_string ResCreating = ''creating''"
| "resource_state_string ResBooting = ''booting''"
| "resource_state_string ResRunning = ''running''"
| "resource_state_string ResSucceeded = ''succeeded''"
| "resource_state_string ResFailed = ''failed''"
| "resource_state_string ResCanceled = ''canceled''"
| "resource_state_string ResTerminating = ''terminating''"
| "resource_state_string ResTerminated = ''terminated''"
| "resource_state_string ResUnknown = ''unknown''"
| "resource_state_string ResNone = []"

type_synonym cancel_calls = "(string \<times> string) list"

definition cleanup_one ::
  "adapters_env \<Rightarrow> bool \<Rightarrow> provider_resource \<Rightarrow> world \<Rightarrow> cancel_calls \<times> world \<times> gerror option" where
  "cleanup_one ae dryRun r w =
     (if dryRun
      then ([], print_line (tabbed [''would cleanup'', res_id r, res_provider r, res_provider_ref r]) w, None)
      else case cleanupAdapterForResource ae r of
        Inl e \<Rightarrow> ([], w, Some e)
      | Inr adapter \<Rightarrow>
          (let call = (res_provider r, res_provider_ref r) in
           case ad_cancel adapter (res_provider_ref r) of
             Some e \<Rightarrow> ([call], w, Some e)
           | None \<Rightarrow>
               (case save_observed r (cleanupRequestedState r) ''cleanup_requested_at'' w of
                  (w, Inl e) \<Rightarrow> ([call], w, Some e)
                | (w, Inr saved) \<Rightarrow>
                    ([call], print_line (tabbed [''cleanup requested'', res_id r, res_provider r, res_provider_ref r]) w, None))))"

fun cleanup_all :: "adapters_env \<Rightarrow> bool \<Rightarrow> provider_resource list \<Rightarrow> world \<Rightarrow> cancel_calls \<times> world \<times> gerror option" where
  "cleanup_all ae dryRun [] w = ([], w, None)"
| "cleanup_all ae dryRun (r # rs) w =
     (if \<not> resourceCleanupEligible r then cleanup_all ae dryRun rs w
      else case cleanup_one ae dryRun r w of
        (calls, w, Some e) \<Rightarrow> (calls, w, Some e)
      | (calls, w, None) \<Rightarrow> (case cleanup_all ae dryRun rs w of (others, w, err) \<Rightarrow> (calls @ others, w, err)))"

definition cleanup :: "adapters_env \<Rightarrow> resource_filter \<Rightarrow> bool \<Rightarrow> world \<Rightarrow> cancel_calls \<times> world \<times> gerror option" where
  "cleanup ae flt dryRun w =
     (case on_store (ProviderResources flt) w of
        (w, Inl e) \<Rightarrow> ([], w, Some e)
      | (w, Inr rs) \<Rightarrow>
          (case cleanup_all ae dryRun rs w of
             (calls, w, Some e) \<Rightarrow> (calls, w, Some e)
           | (calls, w, None) \<Rightarrow>
               (calls, if filter resourceCleanupEligible rs = []
                  then print_line ''No eligible provider resources found'' w else w, None)))"

definition refresh_one :: "adapters_env \<Rightarrow> provider_resource \<Rightarrow> world \<Rightarrow> world \<times> (gerror + provider_resource)" where
  "refresh_one ae r w =
     (case refreshAdapterForResource ae r of
        Inl e \<Rightarrow> (w, Inl e)
      | Inr adapter \<Rightarrow>
          (case ad_status adapter (res_provider_ref r) of
             Inl e \<Rightarrow> (w, Inl e)
           | Inr status \<Rightarrow> save_observed r (providerResourceStateFromStatus status) ''refreshed_at'' w))"

fun refresh_all ::
  "adapters_env \<Rightarrow> bool \<Rightarrow> provider_resource list \<Rightarrow> world \<Rightarrow> world \<times> (gerror + provider_resource list)" where
  "refresh_all ae asJSON [] w = (w, Inr [])"
| "refresh_all ae asJSON (r # rs) w =
     (if \<not> resourceRefreshSupported r then refresh_all ae asJSON rs w
      else case refresh_one ae r w of
        (w, Inl e) \<Rightarrow> (w, Inl e)
      | (w, Inr saved) \<Rightarrow>
          (let w = (if asJSON then w else print_line (tabbed [''refreshed'', res_id saved, res_provider saved,
                 resource_state_string (res_state saved), res_provider_ref saved]) w)
           in case refresh_all ae asJSON rs w of
                (w, Inl e) \<Rightarrow> (w, Inl e) | (w, Inr others) \<Rightarrow> (w, Inr (saved # others))))"

definition refresh :: "adapters_env \<Rightarrow> resource_filter \<Rightarrow> bool \<Rightarrow> world \<Rightarrow> world \<times> (gerror + provider_resource list)" where
  "refresh ae flt asJSON w =
     (case on_store (ProviderResources flt) w of
        (w, Inl e) \<Rightarrow> (w, Inl e)
      | (w, Inr rs) \<Rightarrow>
          (case refresh_all ae asJSON rs w of
             (w, Inl e) \<Rightarrow> (w, Inl e)
           | (w, Inr saved) \<Rightarrow>
               (if \<not> asJSON \<and> saved = [] then print_line ''No refreshable provider resources found'' w else w, Inr saved)))"

definition list_resources :: "resource_filter \<Rightarrow> bool \<Rightarrow> world \<Rightarrow> world \<times> (gerror + provider_resource list)" where
  "list_resources flt active w =
     (case on_store (ProviderResources flt) w of
        (w, Inl e) \<Rightarrow> (w, Inl e)
      | (w, Inr rs) \<Rightarrow> (w, Inr (if active then filterActiveResources rs else rs)))"

section \<open>Cancelling a run\<close>

definition cancelAdapterForAttempt :: "adapters_env \<Rightarrow> string \<Rightarrow> attempt \<Rightarrow> world \<Rightarrow> world \<times> (gerror + adapter)" where
  "cancelAdapterForAttempt ae runID a w =
     (case on_store (ProviderResources \<lparr>rf_run_id = runID, rf_provider = at_provider a\<rparr>) w of (w, rs) \<Rightarrow>
      let found = (case rs of Inl e \<Rightarrow> None
            | Inr rs \<Rightarrow> List.find (\<lambda>r. res_provider_ref r = at_provider_ref a \<or> res_external_id r \<noteq> []) rs)
      in case found of
           Some r \<Rightarrow> (w, cleanupAdapterForResource ae r)
         | None \<Rightarrow>
             if at_provider a = ''lambda'' \<or> isChinaCloudProvider (at_provider a)
             then (case ae_resolver ae of Some e \<Rightarrow> (w, Inl e) | None \<Rightarrow> (w, registry_get (ae_registry ae) (at_provider a)))
             else (w, registry_get (ae_registry ae) (at_provider a)))"

definition cancelRun :: "adapters_env \<Rightarrow> gerror option \<Rightarrow> run_ctx \<Rightarrow> world \<Rightarrow> cancel_calls \<times> world \<times> gerror option" where
  "cancelRun ae openErr rx w =
     (let runID = rx_run_id rx in
      case ValidateRunID runID of Some e \<Rightarrow> ([], w, Some e)
      | None \<Rightarrow>
      (case openErr of Some e \<Rightarrow> ([], w, Some e)
      | None \<Rightarrow>
      (case on_store (GetRun runID) w of
        (w, Inl e) \<Rightarrow> ([], w, Some e)
      | (w, Inr r) \<Rightarrow>
      (if run_state r \<noteq> RunRunning
       then ([], print_line (''Run '' @ runID @ '' already '' @ run_state_string (run_state r)) w, None)
       else (case on_store (AttemptsByRun runID) w of
        (w, Inl e) \<Rightarrow> ([], w, Some e)
      | (w, Inr attempts) \<Rightarrow>
      (case last_running attempts of
        None \<Rightarrow> ([], w, Some (ErrText (''run '' @ runID @ '' has no running attempt'')))
      | Some a \<Rightarrow>
      (if at_provider_ref a = []
       then ([], w, Some (ErrText (''run '' @ runID @ '' has no provider process reference yet'')))
       else (case cancelAdapterForAttempt ae runID a w of
        (w, Inl e) \<Rightarrow> ([], w, Some e)
      | (w, Inr adapter) \<Rightarrow>
      (let call = (at_provider a, at_provider_ref a) in
       case ad_cancel adapter (at_provider_ref a) of
        Some e \<Rightarrow> ([call], w, Some e)
      | None \<Rightarrow>
      (case on_store (cancel_commit runID a (now w)) (tick w) of
        (w, Some e) \<Rightarrow> ([call], w, Some e)
      | (w, None) \<Rightarrow>
      (case writeSummary rx w of
        (w, Some e) \<Rightarrow> ([call], w, Some e)
      | (w, None) \<Rightarrow> ([call], print_line (''Run '' @ runID @ '' canceled'') w, None))))))))))))"

section \<open>After a cleanup nothing is left to clean\<close>

definition row_matches :: "resource_filter \<Rightarrow> resource_row \<Rightarrow> bool" where
  "row_matches flt row \<longleftrightarrow> (rf_run_id flt \<noteq> [] \<longrightarrow> sr_run_id row = rf_run_id flt)
     \<and> (rf_provider flt \<noteq> [] \<longrightarrow> sr_provider row = rf_provider flt)"

definition resource_rows :: "world \<Rightarrow> resource_row list" where
  "resource_rows w = st_resources (w_store w)"

definition row_eligible :: "resource_row \<Rightarrow> bool" where
  "row_eligible row = resourceCleanupEligible (scanProviderResource row)"

lemma listed_resources:
  assumes "healthy (w_store w)" and "on_store (ProviderResources flt) w = (w', r)"
  shows "\<exists>rs. r = Inr rs \<and> set rs = scanProviderResource ` {row \<in> set (resource_rows w). row_matches flt row}
    \<and> resource_rows w' = resource_rows w \<and> healthy (w_store w')"
  using assms on_store_fst [of "ProviderResources flt" w]
  by (auto simp: ProviderResources_def query_healthy row_matches_def resource_rows_def healthy_def)

lemma save_observed_rows:
  assumes "healthy (w_store w)" and "res_id r \<noteq> []" and "save_observed r st note w = (w', res)"
  shows "\<exists>saved. res = Inr saved \<and> healthy (w_store w') \<and> res_id saved = res_id r \<and> res_state saved = st
    \<and> resource_rows w' = tbl_upsert sr_id resource_merge (resource_row_of saved) (resource_rows w)"
proof -
  let ?saved = "resource_defaults (now (tick w)) (fresh (tick w)) (observed r st note (now w))"
  have "healthy (w_store (tick (tick w)))" using assms(1) by (simp add: tick_def)
  then have "w' = (tick (tick w))\<lparr>w_store := (w_store w)\<lparr>st_ops := Suc (st_ops (w_store w)),
      st_resources := tbl_upsert sr_id resource_merge (resource_row_of ?saved) (st_resources (w_store w))\<rparr>\<rparr>" "res = Inr ?saved"
    using assms(3) by (auto simp: save_observed_def on_store_def save_resource_healthy tick_def)
  moreover have "res_id ?saved = res_id r" "res_state ?saved = st"
    using assms(2) by (simp_all add: resource_defaults_def Let_def observed_def)
  ultimately show ?thesis using assms(1) by (auto simp: resource_rows_def healthy_def)
qed

text \<open>What an upsert leaves: the saved row under its identifier, all other rows as they were.\<close>

lemma upsert_rows:
  "row \<in> set (tbl_upsert sr_id resource_merge new rows) \<Longrightarrow>
     sr_id row = sr_id new \<and> (sr_state row = sr_state new) \<or> row \<in> set rows \<and> sr_id row \<noteq> sr_id new"
  by (auto simp: tbl_upsert_def tbl_insert_def tbl_update_def list_ex_iff resource_merge_def split: if_splits)

lemma requested_inactive:
  "cleanupAdapterForResource ae r = Inr adapter \<Longrightarrow> \<not> providerResourceStateActive (cleanupRequestedState r)"
  by (auto simp: cleanupAdapterForResource_def cleanupRequestedState_def providerResourceStateActive_def split: if_splits)

lemma cleanup_one_rows:
  assumes "healthy (w_store w)" and "res_id r \<noteq> []" and "cleanup_one ae False r w = (calls, w', None)"
  shows "healthy (w_store w') \<and> calls = [(res_provider r, res_provider_ref r)]
    \<and> (\<forall>row \<in> set (resource_rows w'). row_eligible row \<longrightarrow> row \<in> set (resource_rows w) \<and> sr_id row \<noteq> res_id r)
    \<and> (\<forall>k. k \<noteq> res_id r \<longrightarrow> tbl_find sr_id k (resource_rows w') = tbl_find sr_id k (resource_rows w))"
proof -
  obtain adapter where adapter: "cleanupAdapterForResource ae r = Inr adapter"
    using assms(3) by (cases "cleanupAdapterForResource ae r") (auto simp: cleanup_one_def)
  obtain w1 res where save: "save_observed r (cleanupRequestedState r) ''cleanup_requested_at'' w = (w1, res)" by fastforce
  from save_observed_rows [OF assms(1,2) save] obtain saved where saved: "res = Inr saved" "healthy (w_store w1)"
    "res_id saved = res_id r" "res_state saved = cleanupRequestedState r"
    "resource_rows w1 = tbl_upsert sr_id resource_merge (resource_row_of saved) (resource_rows w)" by blast
  have w': "resource_rows w' = resource_rows w1" "w_store w' = w_store w1" "calls = [(res_provider r, res_provider_ref r)]"
    using assms(3) adapter save saved(1)
    by (auto simp: cleanup_one_def Let_def resource_rows_def print_line_def split: option.splits)
  have row: "sr_id (resource_row_of saved) = res_id r" "sr_state (resource_row_of saved) = cleanupRequestedState r"
    using saved(3,4) by (simp_all add: resource_row_of_def)
  have "row \<in> set (resource_rows w) \<and> sr_id row \<noteq> res_id r" if "row \<in> set (resource_rows w')" "row_eligible row" for row
  proof -
    have "providerResourceStateActive (sr_state row)"
      using that(2) by (auto simp: row_eligible_def resourceCleanupEligible_def scanProviderResource_def split: if_splits)
    with upsert_rows that(1) requested_inactive [OF adapter] row show ?thesis
      unfolding w'(1) saved(5) by metis
  qed
  then show ?thesis
    using saved(2) w' row(1) by (auto simp: saved(5) resources.find_upsert)
qed

lemma cleanup_all_rows:
  assumes "healthy (w_store w)" and "\<forall>r \<in> set rs. res_id r \<noteq> []" and "cleanup_all ae False rs w = (calls, w', None)"
  shows "healthy (w_store w')
    \<and> calls = map (\<lambda>r. (res_provider r, res_provider_ref r)) (filter resourceCleanupEligible rs)
    \<and> (\<forall>row \<in> set (resource_rows w'). row_eligible row \<longrightarrow>
         row \<in> set (resource_rows w) \<and> sr_id row \<notin> res_id ` set (filter resourceCleanupEligible rs))
    \<and> (\<forall>k. k \<notin> res_id ` set (filter resourceCleanupEligible rs) \<longrightarrow>
         tbl_find sr_id k (resource_rows w') = tbl_find sr_id k (resource_rows w))"
  using assms
proof (induction rs arbitrary: w calls)
  case Nil
  then show ?case by simp
next
  case (Cons r rs)
  show ?case
  proof (cases "resourceCleanupEligible r")
    case False
    with Cons show ?thesis by simp
  next
    case True
    obtain c1 w1 e1 where one: "cleanup_one ae False r w = (c1, w1, e1)" by (metis prod_cases3)
    with True Cons.prems(3) have e1: "e1 = None" by (auto split: option.splits)
    obtain c2 w2 e2 where rest: "cleanup_all ae False rs w1 = (c2, w2, e2)" by (metis prod_cases3)
    with True Cons.prems(3) one e1 have r2: "e2 = None" "w2 = w'" "calls = c1 @ c2" by auto
    have first: "healthy (w_store w1)" "c1 = [(res_provider r, res_provider_ref r)]"
      "\<And>row. row \<in> set (resource_rows w1) \<Longrightarrow> row_eligible row \<Longrightarrow> row \<in> set (resource_rows w) \<and> sr_id row \<noteq> res_id r"
      "\<And>k. k \<noteq> res_id r \<Longrightarrow> tbl_find sr_id k (resource_rows w1) = tbl_find sr_id k (resource_rows w)"
      using cleanup_one_rows [OF Cons.prems(1) _ one [unfolded e1]] Cons.prems(2) by auto
    have ids: "\<forall>r \<in> set rs. res_id r \<noteq> []" using Cons.prems(2) by simp
    from Cons.IH [OF first(1) ids rest [unfolded r2(1,2)]] first r2(3) True show ?thesis by auto
  qed
qed

text \<open>C17. When \<open>resources cleanup\<close> returns without an error, it has asked the provider of every eligible
  resource that it listed, once and in the order of the list, to cancel it, and no other; no resource
  that its filter matches is left eligible, and the rows of all others are as they were.\<close>

theorem cleanup_complete:
  assumes "healthy (w_store w)" and "\<forall>row \<in> set (resource_rows w). sr_id row \<noteq> []"
    and "cleanup ae flt False w = (calls, w', None)"
  shows "\<exists>rs. snd (ProviderResources flt (w_store w)) = Inr rs
    \<and> calls = map (\<lambda>r. (res_provider r, res_provider_ref r)) (filter resourceCleanupEligible rs)
    \<and> (\<forall>row \<in> set (resource_rows w'). row_matches flt row \<longrightarrow> \<not> row_eligible row)
    \<and> (\<forall>k. (\<forall>r \<in> set rs. resourceCleanupEligible r \<longrightarrow> res_id r \<noteq> k)
         \<longrightarrow> tbl_find sr_id k (resource_rows w') = tbl_find sr_id k (resource_rows w))"
proof -
  obtain w1 res where listed: "on_store (ProviderResources flt) w = (w1, res)" by fastforce
  from listed_resources [OF assms(1) listed] obtain rs where rs: "res = Inr rs"
    "set rs = scanProviderResource ` {row \<in> set (resource_rows w). row_matches flt row}"
    "resource_rows w1 = resource_rows w" "healthy (w_store w1)" by blast
  obtain c w2 e where all: "cleanup_all ae False rs w1 = (c, w2, e)" by (metis prod_cases3)
  with assms(3) listed rs(1) have e: "e = None" "c = calls" "resource_rows w' = resource_rows w2"
    by (auto simp: cleanup_def resource_rows_def print_line_def split: option.splits if_splits)
  have ids: "\<forall>r \<in> set rs. res_id r \<noteq> []" using rs(2) assms(2) by (auto simp: scanProviderResource_def)
  note cleaned = cleanup_all_rows [OF rs(4) ids all [unfolded e(1)]]
  have "\<not> row_eligible row" if "row \<in> set (resource_rows w')" "row_matches flt row" for row
  proof
    assume el: "row_eligible row"
    with that(1) e(3) cleaned have old: "row \<in> set (resource_rows w)"
      "sr_id row \<notin> res_id ` set (filter resourceCleanupEligible rs)" by (auto simp: rs(3))
    with that(2) rs(2) have "scanProviderResource row \<in> set rs" by blast
    with el old(2) have "sr_id row \<noteq> res_id (scanProviderResource row)" by (auto simp: row_eligible_def)
    then show False by (simp add: scanProviderResource_def)
  qed
  moreover have "snd (ProviderResources flt (w_store w)) = Inr rs"
    using listed rs(1) on_store_fst(2) [of "ProviderResources flt" w] by simp
  moreover have "tbl_find sr_id k (resource_rows w') = tbl_find sr_id k (resource_rows w)"
    if "\<forall>r \<in> set rs. resourceCleanupEligible r \<longrightarrow> res_id r \<noteq> k" for k
  proof -
    have "k \<notin> res_id ` set (filter resourceCleanupEligible rs)" using that by auto
    with cleaned e(3) rs(3) show ?thesis by metis
  qed
  ultimately show ?thesis using cleaned e(2) by blast
qed

section \<open>A run is cancelled only after its provider was\<close>

lemma query_step:
  "on_store (query q) v = (v', r) \<Longrightarrow> v' = v\<lparr>w_store := (w_store v)\<lparr>st_ops := Suc (st_ops (w_store v))\<rparr>\<rparr>"
  by (auto simp: on_store_def query_def Let_def split: option.splits)

lemmas query_steps = query_step [of "\<lambda>s. case tbl_find rr_id k (st_runs s) of
     None \<Rightarrow> Inl (ErrText (''run '' @ quote k @ '' not found'')) | Some row \<Rightarrow> Inr (scan_run row)" for k, folded GetRun_def]
  query_step [of "\<lambda>s. Inr (map scan_attempt (attempt_rows k s))" for k, folded AttemptsByRun_def]

lemma last_running_in: "last_running attempts = Some a \<Longrightarrow> a \<in> set attempts \<and> at_state a = AttemptRunning"
  by (induction attempts rule: rev_induct) (auto simp: last_running_def split: if_splits)

lemma writeSummary_attempts: "st_attempts (w_store (fst (writeSummary rx w))) = st_attempts (w_store w)"
proof -
  have bind: "st_attempts (w_store (fst (f w))) = st_attempts (w_store w) \<Longrightarrow>
      (\<And>w' r. st_attempts (w_store (fst (g w' r))) = st_attempts (w_store w')) \<Longrightarrow>
      st_attempts (w_store (fst (case f w of (w', r) \<Rightarrow> g w' r))) = st_attempts (w_store w)"
    for f :: "world \<Rightarrow> world \<times> 'b" and g :: "world \<Rightarrow> 'b \<Rightarrow> world \<times> 'c" and w
    by (cases "f w") auto
  have query: "st_attempts (w_store (fst (on_store (query q) w))) = st_attempts (w_store w)" for q :: "store \<Rightarrow> gerror + 'd" and w
    by (simp add: on_store_fst frame_simps)
  have written: "st_attempts (w_store (fst (write_summary_file sm w))) = st_attempts (w_store w)" for sm w
    by (simp add: write_summary_file_def tick_def split: option.split)
  show ?thesis
    unfolding writeSummary_def GetRun_def AttemptsByRun_def GetRoutingDecision_def
    by (rule bind query)+ (auto split: sum.split intro!: bind simp: query written)
qed

lemma cancel_commit_rows:
  assumes "healthy (w_store w)" and "run_row runID w = Some row"
    and "tbl_find ar_id (at_id a) (st_attempts (w_store w)) = Some arow"
    and "on_store (cancel_commit runID a t) w = (w', e)"
  shows "e = None \<and> run_row runID w' = Some (set_outcome RunCanceled exitCodeCanceled ''canceled'' t row)
    \<and> (\<exists>r. tbl_find ar_id (at_id a) (st_attempts (w_store w')) = Some r \<and> ar_state r = AttemptCanceled)"
proof -
  obtain w1 e1 where w1: "on_store (FinishAttempt (at_id a) AttemptCanceled exitCodeCanceled ''canceled'' (at_provider_ref a) t) w
      = (w1, e1)" by fastforce
  obtain w2 e2 where w2: "on_store (FinishRun runID RunCanceled exitCodeCanceled ''canceled'' t) w1 = (w2, e2)" by fastforce
  have ok: "db_ok runID w" using assms(1,2) by (simp add: db_ok_def)
  note a1 = finish_attempt_row [OF ok w1, of runID]
  from finish_run_row [of runID w1, OF _ w2] a1 assms(2)
  have r2: "e2 = None" "run_row runID w2 = Some (set_outcome RunCanceled exitCodeCanceled ''canceled'' t row)" by auto
  have "on_store (cancel_commit runID a t) w = (w2, e2)"
    using w1 w2 a1 by (auto simp: cancel_commit_def on_store_def then_ok_def split: prod.splits)
  then have w': "w' = w2" "e = None" using assms(4) r2(1) by auto
  have "st_attempts (w_store w2) = st_attempts (w_store w1)"
    using w2 on_store_fst(1) [of "FinishRun runID RunCanceled exitCodeCanceled ''canceled'' t" w1]
    by (auto simp: FinishRun_def frame_simps)
  moreover have "tbl_find ar_id (at_id a) (st_attempts (w_store w1)) = Some (arow\<lparr>ar_state := AttemptCanceled,
      ar_exit_code := exitCodeCanceled, ar_exit_reason := ''canceled'', ar_provider_ref := at_provider_ref a,
      ar_ended_at := Some (rfc3339_nano t)\<rparr>)"
    using w1 on_store_fst(1) [of "FinishAttempt (at_id a) AttemptCanceled exitCodeCanceled ''canceled'' (at_provider_ref a) t" w]
      assms(1,3)
    by (auto simp: FinishAttempt_def store_simps attempts.find_update update_attempt_ok)
  ultimately show ?thesis using w' r2(2) by simp
qed

text \<open>The same books: tables of runs, attempts and resources as in \<open>w\<close>.\<close>

definition same_books :: "world \<Rightarrow> world \<Rightarrow> bool" where
  "same_books w v \<longleftrightarrow> st_runs (w_store v) = st_runs (w_store w) \<and> st_attempts (w_store v) = st_attempts (w_store w)
     \<and> st_resources (w_store v) = st_resources (w_store w) \<and> healthy (w_store v)"

lemma same_books_query:
  "on_store (query q) v = (v', r) \<Longrightarrow> same_books w v \<Longrightarrow> same_books w v'" for q :: "store \<Rightarrow> gerror + 'd"
  by (drule query_step) (simp add: same_books_def healthy_def)

lemma cancel_adapter_same:
  assumes "cancelAdapterForAttempt ae k a v = (v', r)" and "same_books w v" and "healthy (w_store w)"
  shows "same_books w v' \<and> r = snd (cancelAdapterForAttempt ae k a w)"
proof
  show "same_books w v'"
    using assms(1) same_books_query [OF _ assms(2)]
    by (auto simp: cancelAdapterForAttempt_def Let_def ProviderResources_def split: prod.splits option.splits if_splits)
  show "r = snd (cancelAdapterForAttempt ae k a w)"
    using assms
    by (auto simp: cancelAdapterForAttempt_def Let_def ProviderResources_def on_store_def query_healthy same_books_def
        split: option.splits if_splits)
qed

lemma running_attempt_row:
  assumes "a \<in> set (map scan_attempt (attempt_rows k (w_store w)))" and "same_books w v"
  shows "\<exists>row. tbl_find ar_id (at_id a) (st_attempts (w_store v)) = Some row"
proof -
  obtain r where "r \<in> set (st_attempts (w_store w))" "a = scan_attempt r" using assms(1) by (auto simp: attempt_rows_def)
  then have "tbl_find ar_id (at_id a) (st_attempts (w_store v)) \<noteq> None"
    using assms(2) by (auto simp: tbl_find_def find_None_iff scan_attempt_def same_books_def)
  then show ?thesis by auto
qed

text \<open>What a cancel leaves: the books as they were, or the run and an attempt cancelled.\<close>

definition cancel_outcome :: "adapters_env \<Rightarrow> string \<Rightarrow> world \<Rightarrow> cancel_calls \<Rightarrow> world \<Rightarrow> gerror option \<Rightarrow> bool" where
  "cancel_outcome ae runID w calls w' err \<longleftrightarrow>
     st_runs (w_store w') = st_runs (w_store w) \<and> st_attempts (w_store w') = st_attempts (w_store w)
      \<and> (err = None \<longrightarrow> (\<exists>row. run_row runID w = Some row \<and> rr_state row \<noteq> RunRunning))
    \<or> (\<exists>a adapter row r. a \<in> set (map scan_attempt (attempt_rows runID (w_store w))) \<and> at_state a = AttemptRunning
      \<and> calls = [(at_provider a, at_provider_ref a)] \<and> ad_cancel adapter (at_provider_ref a) = None
      \<and> snd (cancelAdapterForAttempt ae runID a w) = Inr adapter
      \<and> run_row runID w' = Some row \<and> rr_state row = RunCanceled \<and> rr_exit_code row = exitCodeCanceled
      \<and> tbl_find ar_id (at_id a) (st_attempts (w_store w')) = Some r \<and> ar_state r = AttemptCanceled)"

lemma outcome_refused: "same_books w v \<Longrightarrow> cancel_outcome ae k w c v (Some e)"
  by (simp add: cancel_outcome_def same_books_def)

lemma outcome_canceled:
  assumes "same_books w v" and "run_row (rx_run_id rx) w = Some row"
    and "a \<in> set (map scan_attempt (attempt_rows (rx_run_id rx) (w_store w)))" and "at_state a = AttemptRunning"
    and "snd (cancelAdapterForAttempt ae (rx_run_id rx) a w) = Inr adapter" and "ad_cancel adapter (at_provider_ref a) = None"
    and "on_store (cancel_commit (rx_run_id rx) a (now v)) (tick v) = (v1, e)" and "writeSummary rx v1 = (v2, err)"
  shows "e = None \<and> cancel_outcome ae (rx_run_id rx) w [(at_provider a, at_provider_ref a)] v2 err"
proof -
  have same: "same_books w (tick v)" using assms(1) by (simp add: same_books_def tick_def)
  then have now_v: "healthy (w_store (tick v))" "run_row (rx_run_id rx) (tick v) = Some row"
    using assms(2) by (auto simp: same_books_def run_row_def)
  obtain arow where arow: "tbl_find ar_id (at_id a) (st_attempts (w_store (tick v))) = Some arow"
    using running_attempt_row [OF assms(3) same] by blast
  obtain r where r: "e = None" "tbl_find ar_id (at_id a) (st_attempts (w_store v1)) = Some r" "ar_state r = AttemptCanceled"
    "run_row (rx_run_id rx) v1 = Some (set_outcome RunCanceled exitCodeCanceled ''canceled'' (now v) row)"
    using cancel_commit_rows [OF now_v arow assms(7)] by blast
  moreover have "run_row (rx_run_id rx) v2 = run_row (rx_run_id rx) v1" "st_attempts (w_store v2) = st_attempts (w_store v1)"
    using writeSummary_pair [OF assms(8)] writeSummary_attempts [of rx v1] assms(8) by auto
  ultimately show ?thesis using assms(3-6) by (auto simp: cancel_outcome_def set_outcome_def)
qed

lemma outcome_print: "cancel_outcome ae k w c (print_line l v) e = cancel_outcome ae k w c v e"
  by (simp add: cancel_outcome_def print_line_def run_row_def)

lemma cancel_after_target:
  assumes "healthy (w_store w)" and "run_row (rx_run_id rx) w = Some row" and "same_books w v"
    and "last_running (map scan_attempt (attempt_rows (rx_run_id rx) (w_store w))) = Some a"
  shows "case (case cancelAdapterForAttempt ae (rx_run_id rx) a v of
        (w, Inl e) \<Rightarrow> ([], w, Some e)
      | (w, Inr adapter) \<Rightarrow>
        (case ad_cancel adapter (at_provider_ref a) of
          Some e \<Rightarrow> ([(at_provider a, at_provider_ref a)], w, Some e)
        | None \<Rightarrow>
          (case on_store (cancel_commit (rx_run_id rx) a (now w)) (tick w) of
            (w, Some e) \<Rightarrow> ([(at_provider a, at_provider_ref a)], w, Some e)
          | (w, None) \<Rightarrow>
            (case writeSummary rx w of
              (w, Some e) \<Rightarrow> ([(at_provider a, at_provider_ref a)], w, Some e)
            | (w, None) \<Rightarrow> ([(at_provider a, at_provider_ref a)], print_line (''Run '' @ rx_run_id rx @ '' canceled'') w, None)))))
     of (calls, w', err) \<Rightarrow> cancel_outcome ae (rx_run_id rx) w calls w' err"
proof -
  obtain v1 r1 where v1: "cancelAdapterForAttempt ae (rx_run_id rx) a v = (v1, r1)" by fastforce
  note s1 = cancel_adapter_same [OF v1 assms(3,1)] and a = last_running_in [OF assms(4)]
  show ?thesis
  proof (cases r1)
    case (Inl e)
    with v1 conjunct1 [OF s1] show ?thesis by (simp add: outcome_refused)
  next
    case (Inr adapter)
    obtain v2 e2 where v2: "on_store (cancel_commit (rx_run_id rx) a (now v1)) (tick v1) = (v2, e2)" by fastforce
    obtain v3 e3 where v3: "writeSummary rx v2 = (v3, e3)" by fastforce
    have adapter: "snd (cancelAdapterForAttempt ae (rx_run_id rx) a w) = Inr adapter" using s1 Inr by simp
    show ?thesis
    proof (cases "ad_cancel adapter (at_provider_ref a)")
      case (Some e)
      with v1 Inr conjunct1 [OF s1] show ?thesis by (simp add: outcome_refused)
    next
      case None
      from outcome_canceled [OF _ assms(2) _ _ adapter None v2 v3] s1 a
      have "e2 = None" "cancel_outcome ae (rx_run_id rx) w [(at_provider a, at_provider_ref a)] v3 e3" by auto
      with None v1 Inr v2 v3 show ?thesis by (cases e3) (simp_all add: outcome_print)
    qed
  qed
qed

text \<open>C5. With a database that works, \<open>cancel\<close> leaves the runs and the attempts as they were, and then
  reports success only for a run that had ended; or it has called the provider of a running attempt
  once, with its reference and without an error, and the run and that attempt are cancelled, the run
  with the code 130. So no run is marked as cancelled while its provider refuses.\<close>

theorem cancel_only_after_provider:
  assumes "healthy (w_store w)" and "cancelRun ae openErr rx w = (calls, w', err)"
  shows "cancel_outcome ae (rx_run_id rx) w calls w' err"
proof -
  let ?id = "rx_run_id rx" and ?P = "cancel_outcome ae (rx_run_id rx) w"
  have s0: "same_books w w" using assms(1) by (simp add: same_books_def)
  obtain w1 r1 where w1: "on_store (GetRun ?id) w = (w1, r1)" by fastforce
  have s1: "same_books w w1" using w1 s0 unfolding GetRun_def by (rule same_books_query)
  have r1: "r1 = snd (GetRun ?id (w_store w))" using w1 on_store_fst(2) [of "GetRun ?id" w] by simp
  obtain w2 r2 where w2: "on_store (AttemptsByRun ?id) w1 = (w2, r2)" by fastforce
  have s2: "same_books w w2" using w2 s1 unfolding AttemptsByRun_def by (rule same_books_query)
  have r2: "r2 = Inr (map scan_attempt (attempt_rows ?id (w_store w)))"
    using w2 on_store_fst(2) [of "AttemptsByRun ?id" w1] s1
    by (auto simp: AttemptsByRun_def query_healthy same_books_def attempt_rows_def)
  consider (closed) "\<not> (ValidateRunID ?id = None \<and> openErr = None)" | (unknown) e where "r1 = Inl e"
    | (known) row where "ValidateRunID ?id = None" "openErr = None" "r1 = Inr (scan_run row)" "run_row ?id w = Some row"
    using r1 assms(1) by (auto simp: get_run_healthy run_row_def split: option.splits)
  then have "case cancelRun ae openErr rx w of (calls, w', err) \<Rightarrow> ?P calls w' err"
  proof cases
    case closed
    with s0 show ?thesis by (auto simp: cancelRun_def Let_def outcome_refused split: option.splits)
  next
    case unknown
    with w1 s0 s1 show ?thesis by (auto simp: cancelRun_def Let_def outcome_refused split: option.splits)
  next
    case (known row)
    show ?thesis
    proof (cases "rr_state row = RunRunning \<and> (\<exists>a. last_running (map scan_attempt (attempt_rows ?id (w_store w))) = Some a
        \<and> at_provider_ref a \<noteq> [])")
      case True
      then obtain a where "last_running (map scan_attempt (attempt_rows ?id (w_store w))) = Some a" "at_provider_ref a \<noteq> []"
        by blast
      with cancel_after_target [OF assms(1) known(4) s2 this(1)] True known w1 w2 r2 show ?thesis
        by (simp add: cancelRun_def Let_def scan_run_def)
    next
      case False
      with known w1 w2 r2 s1 s2 show ?thesis
        by (cases "rr_state row = RunRunning")
          (auto simp: cancelRun_def Let_def scan_run_def outcome_refused outcome_print split: option.split,
           simp add: cancel_outcome_def same_books_def)
    qed
  qed
  with assms(2) show ?thesis by simp
qed

section \<open>Concrete commands\<close>

definition sample_adapters :: adapters_env where
  "sample_adapters = \<lparr>ae_gcp = (\<lambda>c. sample_adapter ''gcp'' 1), ae_lambda_factory = Some (\<lambda>c. sample_adapter ''lambda'' 2),
     ae_lambda = (\<lambda>c. sample_adapter ''lambda'' 2), ae_china = (\<lambda>n r p. sample_adapter n 3), ae_resolver = None,
     ae_registry = sample_registry\<rparr>"

definition tracked_world :: world where
  "tracked_world = sample_world\<lparr>w_store := fst (SaveProviderResource sample_time ''res_1'' sample_resource empty_store)\<rparr>"

lemma cleanup_complete_witness:
  "fst (cleanup sample_adapters \<lparr>rf_run_id = [], rf_provider = []\<rparr> False tracked_world) = [(''lambda'', ''lambda:i-1'')]"
proof -
  let ?flt = "\<lparr>rf_run_id = [], rf_provider = []\<rparr>"
  have rows: "resource_rows tracked_world = [resource_row_of (resource_defaults sample_time ''res_1'' sample_resource)]"
    by (simp add: resource_rows_def tracked_world_def SaveProviderResource_def exec_def empty_store_def tbl_upsert_def
        tbl_insert_def Let_def)
  have h: "healthy (w_store tracked_world)"
    by (rule healthy_fault [of empty_store]) (simp_all add: tracked_world_def frame_simps healthy_def empty_store_def)
  have ids: "\<forall>row \<in> set (resource_rows tracked_world). sr_id row \<noteq> []"
    by (simp add: rows resource_row_of_def resource_defaults_def sample_resource_def Let_def)
  let ?r = "scanProviderResource (resource_row_of (resource_defaults sample_time ''res_1'' sample_resource))"
  have r: "res_id ?r = ''res_1''" "res_provider ?r = ''lambda''" "res_provider_ref ?r = ''lambda:i-1''" "resourceCleanupEligible ?r"
    by (simp_all add: scanProviderResource_def resource_row_of_def resource_defaults_def sample_resource_def Let_def
        resourceCleanupEligible_def providerResourceStateActive_def boolInt_def)
  obtain w1 where w1: "on_store (ProviderResources ?flt) tracked_world = (w1, Inr [?r])" "healthy (w_store w1)"
    using h rows by (simp add: on_store_def ProviderResources_def query_healthy resource_rows_def healthy_def)
  obtain w2 res where w2: "save_observed ?r (cleanupRequestedState ?r) ''cleanup_requested_at'' w1 = (w2, res)" by fastforce
  from save_observed_rows [OF w1(2) _ w2] r(1) obtain saved where "res = Inr saved" by auto
  with w1 w2 r have "\<exists>w'. cleanup sample_adapters ?flt False tracked_world = ([(''lambda'', ''lambda:i-1'')], w', None)"
    by (simp add: cleanup_def cleanup_one_def cleanupAdapterForResource_def sample_adapters_def sample_adapter_def Let_def)
  then obtain calls w' where c: "cleanup sample_adapters ?flt False tracked_world = (calls, w', None)" by blast
  have "snd (ProviderResources ?flt (w_store tracked_world)) = Inr [?r]"
    using w1(1) on_store_fst(2) [of "ProviderResources ?flt" tracked_world] by simp
  with cleanup_complete [OF h ids c] c r show ?thesis by auto
qed

lemma cancel_only_after_provider_witness:
  "case cancelRun sample_adapters None sample_ctx sample_world of (calls, w', err) \<Rightarrow>
     cancel_outcome sample_adapters ''r_1'' sample_world calls w' err"
proof -
  obtain calls w' err where c: "cancelRun sample_adapters None sample_ctx sample_world = (calls, w', err)" by (metis prod_cases3)
  have "healthy (w_store sample_world)" using sample_world_ok(1) by (simp add: db_ok_def)
  from cancel_only_after_provider [OF this c] c show ?thesis by (simp add: sample_ctx_def)
qed

end
