(* ===== verification/Commands.thy ===== *)
theory Commands
  imports Runs JobPrep ArtifactIO
begin

text \<open>
  The commands \<open>train\<close>, \<open>resume\<close> and \<open>plan\<close> of \<open>internal/cli/root.go\<close>, around the preparation of a
  job and the run loop. Parameters: the system calls, running the sizing probe, opening the database
  (its rows are in the world), the credential store, and the registry that a configuration gives. A
  Go panic ends the process with 2. The rendering of a plan's report is not modelled.
\<close>

record command_env =
  ce_host :: host
  ce_environ :: "string list"
  ce_os :: os_calls
  ce_exists :: "string \<Rightarrow> bool"
  ce_open :: "string \<Rightarrow> gerror option"
  ce_probe :: "string list \<Rightarrow> gerror option"
  ce_decode_profile :: "string \<Rightarrow> gerror + profile"
  ce_credentials :: "resolved_config \<Rightarrow> gerror option"
  ce_registry :: "resolved_config \<Rightarrow> registry"
  ce_plan_registry :: "resolved_config \<Rightarrow> registry"

definition exit_panic :: int where "exit_panic = 2"

definition print_lines :: "string list \<Rightarrow> world \<Rightarrow> world" where
  "print_lines ls w = w\<lparr>w_out := w_out w @ ls\<rparr>"

section \<open>The sizing probe\<close>

definition RunProbe :: "command_env \<Rightarrow> probe_config \<Rightarrow> gerror + profile" where
  "RunProbe ce probe =
     (if pr_output probe = []
      then Inl (ErrText ''sizing.probe.output is required when sizing.probe.command is set'')
      else case (if pr_command probe \<noteq> [] then ce_probe ce (pr_command probe) else None) of
        Some e \<Rightarrow> Inl (ErrWrap ''sizing probe command failed: '' e)
      | None \<Rightarrow>
          (case fl_read (ho_files (ce_host ce)) (pr_output probe) of
             Inl e \<Rightarrow> Inl (ErrWrap (''read sizing probe output '' @ quote (pr_output probe) @ '': '') e)
           | Inr content \<Rightarrow>
               (case ce_decode_profile ce content of
                  Inl e \<Rightarrow> Inl (ErrWrap (''parse sizing probe output '' @ quote (pr_output probe) @ '': '') e)
                | Inr p \<Rightarrow> Inr p)))"

definition applySizingProbe :: "command_env \<Rightarrow> resolved_config \<Rightarrow> string list \<times> (gerror + resolved_config)" where
  "applySizingProbe ce resolved =
     (let probe = sc_probe (rs_sizing resolved) in
      if pr_command probe = [] \<and> pr_output probe = [] then ([], Inr resolved)
      else case RunProbe ce probe of
        Inl e \<Rightarrow> ([], Inl e)
      | Inr p \<Rightarrow>
          let hints = ApplyProfile (sc_hints (rs_sizing resolved)) p;
              line = (if pf_required_vram p > 0 \<or> pf_peak_vram p > 0
                then ''Loaded sizing profile: required_vram_gb='' @ fmt_fixed 1 (hi_required_vram hints)
                else ''Loaded sizing profile'')
          in ([line], Inr (resolved\<lparr>rs_sizing := (rs_sizing resolved)\<lparr>sc_hints := hints\<rparr>\<rparr>)))"

section \<open>Training\<close>

text \<open>The directory of the run; its event file is created empty if it is new.\<close>

definition ensure_run :: "command_env \<Rightarrow> paths \<Rightarrow> world \<Rightarrow> world \<times> gerror option" where
  "ensure_run ce p w =
     (case EnsureRun (ce_os ce) (ho_cwd (ce_host ce)) p of
        (made, err) \<Rightarrow>
          (if p_events p \<in> set made
           then w\<lparr>w_events := Some (case w_events w of None \<Rightarrow> [] | Some ls \<Rightarrow> ls)\<rparr> else w, err))"

definition run_of :: "resolved_config \<Rightarrow> string \<Rightarrow> job_spec \<Rightarrow> string \<Rightarrow> gotime \<Rightarrow> run" where
  "run_of resolved runID job originalScript t = \<lparr>run_id = runID, run_job_name = job_name (rs_job resolved),
     run_script = originalScript, run_image = job_image job, run_provider = rs_provider resolved,
     run_state = RunRunning, run_started_at = t, run_ended_at = zero_time, run_exit_code = 0, run_error = []\<rparr>"

definition loop_of :: "command_env \<Rightarrow> resolved_config \<Rightarrow> paths \<Rightarrow> string \<Rightarrow> job_spec \<Rightarrow> data_manifest \<Rightarrow> loop_ctx" where
  "loop_of ce resolved p runID job manifest =
     \<lparr>lc_run = \<lparr>rx_environ = ce_environ ce, rx_cwd = ho_cwd (ce_host ce), rx_files = ho_files (ce_host ce),
        rx_paths = p, rx_run_id = runID\<rparr>,
      lc_resolved = resolved, lc_registry = ce_registry ce resolved, lc_job = job, lc_manifest = manifest\<rparr>"

definition run_paths_of :: "command_env \<Rightarrow> resolved_config \<Rightarrow> string \<Rightarrow> gerror + paths" where
  "run_paths_of ce resolved runID = ForRun (ho_cwd (ce_host ce)) (ce_exists ce) (rs_home resolved) runID"

definition runTrain :: "command_env \<Rightarrow> resolved_config \<Rightarrow> world \<Rightarrow> world \<times> int \<times> gerror option" where
  "runTrain ce resolved0 w =
     (case EnsureHome (ce_os ce) (rs_home resolved0) of
        Some e \<Rightarrow> (w, exitCodeInternal, Some e)
      | None \<Rightarrow>
      (case applySizingProbe ce resolved0 of
        (out, Inl e) \<Rightarrow> (print_lines out w, exitCodeInvalidSpec, Some e)
      | (out, Inr resolved) \<Rightarrow>
      (let w = print_lines out w in
       case ce_credentials ce resolved of
        Some e \<Rightarrow> (w, exitCodeInvalidSpec, Some e)
      | None \<Rightarrow>
      (let runID = fresh w; w = tick w in
       case prepareRunJob (ce_host ce) resolved runID of
        (out, Inl e) \<Rightarrow> (print_lines out w, exitCodeInvalidSpec, Some e)
      | (out, Inr (job, manifest, originalScript)) \<Rightarrow>
      (let w = print_lines out w in
       case run_paths_of ce resolved runID of
        Inl e \<Rightarrow> (w, exit_panic, Some e)
      | Inr p \<Rightarrow>
      (case ensure_run ce p w of
        (w, Some e) \<Rightarrow> (w, exitCodeInternal, Some e)
      | (w, None) \<Rightarrow>
      (case ce_open ce (p_db p) of
        Some e \<Rightarrow> (w, exitCodeInternal, Some e)
      | None \<Rightarrow>
      (case on_store (CreateRun (run_of resolved runID job originalScript (now w))) (tick w) of
        (w, Some e) \<Rightarrow> (w, exitCodeInternal, Some e)
      | (w, None) \<Rightarrow> runAttempts (loop_of ce resolved p runID job manifest) None w))))))))"

section \<open>Resuming\<close>

definition runResume :: "command_env \<Rightarrow> string \<Rightarrow> resolved_config \<Rightarrow> world \<Rightarrow> world \<times> int \<times> gerror option" where
  "runResume ce runID resolved0 w =
     (case ValidateRunID runID of
        Some e \<Rightarrow> (w, exitCodeInvalidSpec, Some e)
      | None \<Rightarrow>
      (case EnsureHome (ce_os ce) (rs_home resolved0) of
        Some e \<Rightarrow> (w, exitCodeInternal, Some e)
      | None \<Rightarrow>
      (case applySizingProbe ce resolved0 of
        (out, Inl e) \<Rightarrow> (print_lines out w, exitCodeInvalidSpec, Some e)
      | (out, Inr resolved) \<Rightarrow>
      (let w = print_lines out w in
       case run_paths_of ce resolved runID of
        Inl e \<Rightarrow> (w, exit_panic, Some e)
      | Inr p \<Rightarrow>
      (case ensure_run ce p w of
        (w, Some e) \<Rightarrow> (w, exitCodeInternal, Some e)
      | (w, None) \<Rightarrow>
      (case ce_open ce (p_db p) of
        Some e \<Rightarrow> (w, exitCodeInternal, Some e)
      | None \<Rightarrow>
      (case on_store (GetRun runID) w of
        (w, Inl e) \<Rightarrow> (w, exitCodeInvalidSpec, Some (ErrWrap (''run '' @ quote runID @ '' not found: '') e))
      | (w, Inr r) \<Rightarrow>
      (case Latest (w_events w) of
        Inl e \<Rightarrow> (w, exitCodeMissingResume, Some e)
      | Inr None \<Rightarrow> (w, exitCodeMissingResume,
          Some (ErrText (''run '' @ runID @ '' has no checkpoint events to resume from'')))
      | Inr (Some resumeFrom) \<Rightarrow>
      (case ce_credentials ce resolved of
        Some e \<Rightarrow> (w, exitCodeInvalidSpec, Some e)
      | None \<Rightarrow>
      (case prepareRunJob (ce_host ce) resolved runID of
        (out, Inl e) \<Rightarrow> (print_lines out w, exitCodeInvalidSpec, Some e)
      | (out, Inr (job, manifest, originalScript)) \<Rightarrow>
      (let w = print_lines out w in
       case on_store (RestartRun (run_of resolved runID job originalScript (now w))) (tick w) of
        (w, Some e) \<Rightarrow> (w, exitCodeInternal, Some e)
      | (w, None) \<Rightarrow>
          runAttempts (loop_of ce resolved p runID job manifest) (Some resumeFrom)
            (print_line (''Found checkpoint: step '' @ string_of_int (ck_step resumeFrom)) w))))))))))))"
section \<open>Exit codes\<close>

text \<open>How the process ends: a command that returns an error ends with 1, whatever its code.\<close>

definition process_exit :: "int \<Rightarrow> gerror option \<Rightarrow> int" where
  "process_exit code err = (case err of Some e \<Rightarrow> 1 | None \<Rightarrow> code mod 256)"

definition train_command ::
  "command_env \<Rightarrow> system_env \<Rightarrow> (string \<Rightarrow> gerror + train_file) \<Rightarrow> train_flags \<Rightarrow> world \<Rightarrow> world \<times> int" where
  "train_command ce env load flags w =
     (case LoadTrain env load flags of
        Inl e \<Rightarrow> (w, process_exit 0 (Some e))
      | Inr (resolved, Some e) \<Rightarrow> (w, process_exit 0 (Some e))
      | Inr (resolved, None) \<Rightarrow> (case runTrain ce resolved w of (w, code, err) \<Rightarrow> (w, process_exit code err)))"

definition resume_command ::
  "command_env \<Rightarrow> system_env \<Rightarrow> (string \<Rightarrow> gerror + train_file) \<Rightarrow> train_flags \<Rightarrow> string \<Rightarrow> world \<Rightarrow> world \<times> int" where
  "resume_command ce env load flags runID w =
     (case LoadTrain env load flags of
        Inl e \<Rightarrow> (w, process_exit 0 (Some e))
      | Inr (resolved, Some e) \<Rightarrow> (w, process_exit 0 (Some e))
      | Inr (resolved, None) \<Rightarrow> (case runResume ce runID resolved w of (w, code, err) \<Rightarrow> (w, process_exit code err)))"

section \<open>A command starts a run and ends it, or starts none\<close>

text \<open>Steps that leave the database and the oracles alone.\<close>

definition quiet :: "world \<Rightarrow> world \<Rightarrow> bool" where
  "quiet w w' \<longleftrightarrow> w_store w' = w_store w \<and> w_fresh w' = w_fresh w \<and> w_tick w \<le> w_tick w'"

lemma quiet_refl [simp]: "quiet w w" by (simp add: quiet_def)

lemma quiet_steps [simp]:
  "quiet w (print_lines ls v) = quiet w v" "quiet w v \<Longrightarrow> quiet w (tick v)"
  by (auto simp: quiet_def print_lines_def tick_def)

lemma quiet_ensure_run:
  "ensure_run ce p v = (v', e) \<Longrightarrow> w_store v' = w_store v \<and> w_fresh v' = w_fresh v \<and> w_tick v' = w_tick v"
  by (auto simp: ensure_run_def split: prod.splits if_splits)

lemma print_lines_frame [simp]:
  "fresh (print_lines ls w) = fresh w" "w_store (print_lines ls w) = w_store w"
  "w_fresh (print_lines ls w) = w_fresh w" "w_tick (print_lines ls w) = w_tick w"
  "w_events (print_lines ls w) = w_events w"
  by (simp_all add: print_lines_def fresh_def)

lemma tick_frame [simp]:
  "w_store (tick w) = w_store w" "w_fresh (tick w) = w_fresh w" "w_tick (tick w) = Suc (w_tick w)"
  "w_events (tick w) = w_events w"
  by (simp_all add: tick_def)

lemma quiet_rows: "quiet w v \<Longrightarrow> run_row k v = run_row k w"
  by (simp add: quiet_def run_row_def)

lemma quiet_ids: "quiet w v \<Longrightarrow> ids_unused w \<Longrightarrow> ids_unused v"
  by (auto simp: quiet_def ids_unused_def heads_def)

lemma create_run_started:
  assumes "healthy (w_store w)" and "run_row (run_id r) w = None" and "ids_unused w"
    and "on_store (CreateRun r) (tick w) = (w', e)"
  shows "e = None \<and> db_ok (run_id r) w' \<and> ids_unused w'"
proof -
  have absent: "tbl_find rr_id (run_id r) (st_runs (w_store w)) = None" using assms(2) by (simp add: run_row_def)
  have w': "w' = (tick w)\<lparr>w_store := fst (CreateRun r (w_store w))\<rparr>" "e = snd (CreateRun r (w_store w))"
    using assms(4) on_store_fst [of "CreateRun r" "tick w"] by (auto simp: tick_def)
  obtain rows where ins: "tbl_insert rr_id (run_row_of r) (st_runs (w_store w)) = Some rows"
    using runs.insert_new [of "run_row_of r" "st_runs (w_store w)"] absent by (auto simp: run_row_of_def)
  have made: "snd (CreateRun r (w_store w)) = None" "st_runs (fst (CreateRun r (w_store w))) = rows"
    using assms(1) ins by (simp_all add: CreateRun_def exec_healthy)
  have "run_row (run_id r) w' \<noteq> None"
    using runs.find_after_insert [OF ins] by (simp add: w' run_row_def made) (simp add: run_row_of_def)
  moreover have "healthy (w_store w')"
    using assms(1) by (simp add: w' healthy_def frame_simps)
  moreover have "ids_unused w'"
    using assms(3) by (auto simp: ids_unused_def w' heads_def frame_simps tick_def)
  ultimately show ?thesis by (simp add: db_ok_def w' made)
qed


section \<open>Resuming continues from the latest checkpoint\<close>

definition same_rows :: "world \<Rightarrow> world \<Rightarrow> bool" where
  "same_rows w w' \<longleftrightarrow> st_runs (w_store w') = st_runs (w_store w) \<and> st_attempts (w_store w') = st_attempts (w_store w)
     \<and> st_resources (w_store w') = st_resources (w_store w) \<and> st_decisions (w_store w') = st_decisions (w_store w)"

definition run_events :: "world \<Rightarrow> string list option" where
  "run_events w = Some (case w_events w of None \<Rightarrow> [] | Some ls \<Rightarrow> ls)"

lemma ensure_run_events: "ensure_run ce p v = (v', None) \<Longrightarrow> w_events v' = run_events v"
  by (auto simp: ensure_run_def run_events_def dest: ensure_run_files split: prod.splits)

lemma get_run_quiet:
  assumes "on_store (GetRun k) v = (v', r)"
  shows "same_rows v v' \<and> st_fault (w_store v') = st_fault (w_store v) \<and> w_fresh v' = w_fresh v \<and> w_tick v' = w_tick v
    \<and> w_events v' = w_events v"
  using assms on_store_fst(1) [of "GetRun k" v]
  by (auto simp: same_rows_def GetRun_def frame_simps)

lemma restart_run_started:
  assumes "db_ok (run_id r) w" and "ids_unused w" and "on_store (RestartRun r) (tick w) = (w', e)"
  shows "e = None \<and> db_ok (run_id r) w' \<and> ids_unused w' \<and> heads w' = heads w"
proof -
  have "keeps (tick w) (fst (on_store (RestartRun r) (tick w)))"
    unfolding RestartRun_def by (rule keeps_update_run) simp
  then have k: "keeps w w'" using assms(3) keeps_after_tick by simp
  have "e = None"
    using assms(1,3) on_store_fst(2) [of "RestartRun r" "tick w"]
    by (simp add: RestartRun_def update_run_ok db_ok_def)
  moreover have "heads w' = heads w" using k by (simp add: step_adds_def)
  ultimately show ?thesis using assms(1,2) db_ok_adds [OF k] ids_unused_keeps [OF k] by blast
qed

section \<open>Exit codes do not reach the shell\<close>

text \<open>Resuming a run without a checkpoint gives the code 40, which is documented for automation; the
  process ends with 1, since every error that comes with a code replaces it.\<close>

theorem resume_without_checkpoint:
  assumes "LoadTrain env load flags = Inr (resolved0, None)"
    and "valid_run_id runID" and "EnsureHome (ce_os ce) (rs_home resolved0) = None"
    and "applySizingProbe ce resolved0 = (out, Inr resolved)" and "run_paths_of ce resolved runID = Inr p"
    and "snd (EnsureRun (ce_os ce) (ho_cwd (ce_host ce)) p) = None" and "ce_open ce (p_db p) = None"
    and "db_ok runID w" and "Latest (run_events w) = Inr None"
  shows "fst (snd (runResume ce runID resolved0 w)) = exitCodeMissingResume
    \<and> snd (resume_command ce env load flags runID w) = 1
    \<and> same_rows w (fst (resume_command ce env load flags runID w))"
proof -
  let ?v = "print_lines out w"
  obtain v where v: "ensure_run ce p ?v = (v, None)"
    using assms(6) by (cases "EnsureRun (ce_os ce) (ho_cwd (ce_host ce)) p") (auto simp: ensure_run_def)
  obtain v1 r where get: "on_store (GetRun runID) v = (v1, r)" by fastforce
  note q = quiet_ensure_run [OF v] get_run_quiet [OF get]
  have "healthy (w_store v)" "run_row runID v = run_row runID w"
    using q assms(8) by (auto simp: db_ok_def healthy_def run_row_def)
  then have "\<exists>row. r = Inr row"
    using get on_store_fst(2) [of "GetRun runID" v] assms(8)
    by (auto simp: get_run_healthy run_row_def db_ok_def split: option.splits)
  moreover have "w_events v1 = run_events w" using q ensure_run_events [OF v] by (simp add: run_events_def)
  ultimately have res: "runResume ce runID resolved0 w =
      (v1, exitCodeMissingResume, Some (ErrText (''run '' @ runID @ '' has no checkpoint events to resume from'')))"
    using assms(2-7,9) v get by (auto simp: runResume_def Let_def ValidateRunID_def)
  moreover have "same_rows w v1" using q by (simp add: same_rows_def)
  ultimately show ?thesis using assms(1) by (simp add: resume_command_def process_exit_def)
qed

section \<open>Concrete commands\<close>

definition sample_command :: command_env where
  "sample_command = \<lparr>ce_host = sample_host, ce_environ = [],
     ce_os = \<lparr>os_mkdir_all = (\<lambda>p. None), os_chmod = (\<lambda>p. None), os_open = (\<lambda>p. None), os_close = (\<lambda>p. None)\<rparr>,
     ce_exists = (\<lambda>p. False), ce_open = (\<lambda>p. None), ce_probe = (\<lambda>c. None), ce_decode_profile = (\<lambda>s. Inl (ErrText s)),
     ce_credentials = (\<lambda>r. None), ce_registry = (\<lambda>r. sample_registry), ce_plan_registry = (\<lambda>r. sample_registry)\<rparr>"



lemma resume_without_checkpoint_witness:
  "snd (resume_command sample_command sample_env (\<lambda>_. Inr zero_file) sample_flags ''r_1'' sample_world) = 1"
proof -
  have probe: "applySizingProbe sample_command sample_resolved = ([], Inr sample_resolved)"
    by code_simp
  have id: "valid_run_id ''r_1''" by code_simp
  have home: "EnsureHome (ce_os sample_command) (rs_home sample_resolved) = None"
    by (simp add: EnsureHome_def sample_command_def sample_resolved_def resolved_settings_def Let_def)
  have "case run_paths_of sample_command sample_resolved ''r_1'' of Inl e \<Rightarrow> False | Inr p \<Rightarrow> True" by code_simp
  then obtain p where p: "run_paths_of sample_command sample_resolved ''r_1'' = Inr p" by (auto split: sum.splits)
  have valid: "validatePaths (ho_cwd (ce_host sample_command)) p = None"
    using p by (auto simp: run_paths_of_def ForRun_def split: option.splits)
  have dirs: "snd (EnsureRun (ce_os sample_command) (ho_cwd (ce_host sample_command)) p) = None"
    using valid by (simp add: EnsureRun_def sample_command_def ensurePrivateFile_def)
  have db: "db_ok ''r_1'' sample_world"
    using sample_world_ok(1) by (simp add: sample_loop_def sample_ctx_def)
  have "Latest (run_events sample_world) = Inr None"
    by (simp add: Latest_def run_events_def sample_world_def ReadJSONL_def latest_checkpoint_def)
  with resume_without_checkpoint [OF sample_load id home probe p dirs _ db] show ?thesis
    by (simp add: sample_command_def)
qed

end
