(* ===== verification/Plan.thy ===== *)
theory Plan
  imports Commands
begin

text \<open>
  The \<open>plan\<close> command of \<open>internal/cli/root.go\<close>: the job as a run would prepare it, the provider that
  routing would select or the checks of the provider that was named, and whether a checkpoint can be
  resumed there. The report is the value it renders.
\<close>

record plan_provider_report =
  pv_name :: string
  pv_supported :: bool
  pv_reasons :: "string list"
  pv_capabilities :: provider_capabilities
  pv_estimate :: cost_estimate

record plan_checkpoint_report =
  pc_resume_uri :: string
  pc_scheme :: string
  pc_supported_schemes :: "string list"
  pc_supported_by_selected :: bool
  pc_reason :: string

record plan_report =
  pl_run_id :: string
  pl_provider :: string
  pl_job :: job_spec
  pl_manifest :: "data_manifest option"
  pl_staging :: "plan_staging_report option"
  pl_packaging :: "plan_packaging_report option"
  pl_routing :: "routing_decision option"
  pl_provider_report :: "plan_provider_report option"
  pl_checkpoint :: plan_checkpoint_report

record plan_options =
  po_resume_uri :: string
  po_resume_step :: int

definition no_checkpoint :: plan_checkpoint_report where
  "no_checkpoint = \<lparr>pc_resume_uri = [], pc_scheme = [], pc_supported_schemes = [], pc_supported_by_selected = False,
     pc_reason = []\<rparr>"

definition no_estimate :: cost_estimate where
  "no_estimate = \<lparr>est_hourly_usd = 0, est_currency = []\<rparr>"

definition checkpointFromPlanFlags :: "plan_options \<Rightarrow> checkpoint_ref option" where
  "checkpointFromPlanFlags flags =
     (if trim_space (po_resume_uri flags) = [] then None
      else Some \<lparr>ck_uri = trim_space (po_resume_uri flags), ck_step = po_resume_step flags\<rparr>)"

definition checkpointCompatibilityForResume :: "checkpoint_ref option \<Rightarrow> plan_checkpoint_report" where
  "checkpointCompatibilityForResume resumeFrom = (case resumeFrom of
      None \<Rightarrow> no_checkpoint
    | Some c \<Rightarrow> no_checkpoint\<lparr>pc_resume_uri := ck_uri c, pc_scheme := checkpoint_scheme (ck_uri c)\<rparr>)"

definition checkpointCompatibility ::
  "string \<Rightarrow> provider_capabilities \<Rightarrow> checkpoint_ref option \<Rightarrow> plan_checkpoint_report" where
  "checkpointCompatibility providerName capabilities resumeFrom = (case resumeFrom of
      None \<Rightarrow> no_checkpoint\<lparr>pc_supported_schemes := cap_checkpoint_schemes capabilities\<rparr>
    | Some c \<Rightarrow>
        let scheme = checkpoint_scheme (ck_uri c);
            report = no_checkpoint\<lparr>pc_resume_uri := ck_uri c, pc_scheme := scheme,
              pc_supported_schemes := cap_checkpoint_schemes capabilities\<rparr>
        in if list_ex (\<lambda>supported. equal_fold supported scheme) (cap_checkpoint_schemes capabilities)
           then report\<lparr>pc_supported_by_selected := True\<rparr>
           else report\<lparr>pc_reason := ''provider '' @ providerName @ '' does not support '' @ quote scheme
             @ '' checkpoint resume URI '' @ quote (ck_uri c)\<rparr>)"

definition checkpointCompatibilityFromDecision ::
  "registry \<Rightarrow> string \<Rightarrow> checkpoint_ref option \<Rightarrow> plan_checkpoint_report" where
  "checkpointCompatibilityFromDecision reg selectedProvider resumeFrom = (case resumeFrom of
      None \<Rightarrow> checkpointCompatibilityForResume None
    | Some c \<Rightarrow>
        let failed = (\<lambda>e. no_checkpoint\<lparr>pc_resume_uri := ck_uri c, pc_scheme := checkpoint_scheme (ck_uri c),
              pc_reason := error_string e\<rparr>)
        in case registry_get reg selectedProvider of
             Inl e \<Rightarrow> failed e
           | Inr adapter \<Rightarrow>
               (case ad_capabilities adapter of
                  (capabilities, Some e) \<Rightarrow> failed e
                | (capabilities, None) \<Rightarrow> checkpointCompatibility (ad_name adapter) capabilities (Some c)))"

definition planExplicitProvider ::
  "registry \<Rightarrow> string \<Rightarrow> job_spec \<Rightarrow> checkpoint_ref option
     \<Rightarrow> plan_provider_report \<times> plan_checkpoint_report \<times> gerror option" where
  "planExplicitProvider reg providerName job resumeFrom =
     (let named = (\<lambda>n caps. \<lparr>pv_name = n, pv_supported = False, pv_reasons = [], pv_capabilities = caps,
            pv_estimate = no_estimate\<rparr>)
      in case registry_get reg providerName of
        Inl e \<Rightarrow> (named providerName empty_capabilities, checkpointCompatibilityForResume resumeFrom, Some e)
      | Inr adapter \<Rightarrow>
          (case ad_capabilities adapter of (capabilities, capErr) \<Rightarrow>
           let report = named (ad_name adapter) capabilities;
               checkpoint = checkpointCompatibility (ad_name adapter) capabilities resumeFrom
           in case capErr of
                Some e \<Rightarrow> (report\<lparr>pv_reasons := [error_string e]\<rparr>, checkpoint, Some e)
              | None \<Rightarrow>
                  let support = ad_validate adapter job;
                      report = report\<lparr>pv_supported := sup_supported support, pv_reasons := sup_reasons support\<rparr>
                  in if resumeFrom \<noteq> None \<and> \<not> pc_supported_by_selected checkpoint
                     then (report\<lparr>pv_supported := False, pv_reasons := pv_reasons report @ [pc_reason checkpoint]\<rparr>,
                       checkpoint, Some (ErrText (pc_reason checkpoint)))
                     else (case ad_estimate adapter job of
                         Inl e \<Rightarrow> (report\<lparr>pv_reasons := pv_reasons report @ [error_string e]\<rparr>, checkpoint, Some e)
                       | Inr estimate \<Rightarrow> (report\<lparr>pv_estimate := estimate\<rparr>, checkpoint, None))))"

definition runPlan :: "command_env \<Rightarrow> resolved_config \<Rightarrow> plan_options \<Rightarrow> string \<Rightarrow> plan_report \<times> int \<times> gerror option" where
  "runPlan ce resolved flags runID =
     (let resumeFrom = checkpointFromPlanFlags flags;
          report = \<lparr>pl_run_id = runID, pl_provider = rs_provider resolved, pl_job = rs_job resolved, pl_manifest = None,
            pl_staging = None, pl_packaging = None, pl_routing = None, pl_provider_report = None,
            pl_checkpoint = no_checkpoint\<rparr>
      in case preparePlanJob (ce_host ce) resolved runID of
           Inl e \<Rightarrow> (report, exitCodeInvalidSpec, Some e)
         | Inr (job, manifest, stagingReport, packagingReport) \<Rightarrow>
             let report = report\<lparr>pl_job := job, pl_manifest := Some manifest, pl_staging := Some stagingReport,
                   pl_packaging := Some packagingReport\<rparr>;
                 reg = ce_plan_registry ce resolved
             in if rs_provider resolved = provider_auto
                then (case Select reg job (routingOptions resolved [] resumeFrom) of (decision0, err) \<Rightarrow>
                  let decision = decision0\<lparr>rd_run_id := runID\<rparr>;
                      checkpoint = (if rd_selected_provider decision \<noteq> []
                        then checkpointCompatibilityFromDecision reg (rd_selected_provider decision) resumeFrom
                        else checkpointCompatibilityForResume resumeFrom);
                      report = report\<lparr>pl_routing := Some decision, pl_checkpoint := checkpoint\<rparr>
                  in case err of Some e \<Rightarrow> (report, exitCodeRouting, Some e) | None \<Rightarrow> (report, 0, None))
                else (case planExplicitProvider reg (rs_provider resolved) job resumeFrom of (pv, checkpoint, err) \<Rightarrow>
                  let report = report\<lparr>pl_provider_report := Some pv, pl_checkpoint := checkpoint\<rparr>
                  in case err of
                       Some e \<Rightarrow> (report, exitCodeRouting, Some e)
                     | None \<Rightarrow>
                         if \<not> pv_supported pv
                         then (report, exitCodeInvalidSpec, Some (ErrText (case pv_reasons pv of
                             [] \<Rightarrow> ''job is not supported'' | r # _ \<Rightarrow> r)))
                         else (report, 0, None)))"

section \<open>What a plan promises\<close>

text \<open>What an attempt asks of a provider before it submits the job, and where it resumes.\<close>

definition provider_accepts :: "registry \<Rightarrow> string \<Rightarrow> job_spec \<Rightarrow> checkpoint_ref option \<Rightarrow> bool" where
  "provider_accepts reg p job resumeFrom \<longleftrightarrow> (case registry_get reg p of Inl e \<Rightarrow> False
     | Inr adapter \<Rightarrow> sup_supported (ad_validate adapter job) \<and> (\<exists>est. ad_estimate adapter job = Inr est))
     \<and> (case resumeFrom of None \<Rightarrow> True | Some c \<Rightarrow> ensureProviderSupportsCheckpoint reg p c = None)"


definition plan_config :: resolved_config where
  "plan_config = sample_resolved\<lparr>rs_provider := provider_auto, rs_job := sample_job,
     rs_packaging := \<lparr>pk_dockerfile = [], pk_context = [], pk_image = [], pk_platform = []\<rparr>\<rparr>"

definition no_resume :: plan_options where
  "no_resume = \<lparr>po_resume_uri = [], po_resume_step = 0\<rparr>"


end
