(* ===== verification/JsonText.thy ===== *)
theory JsonText
  imports GoJson
begin

text \<open>
  Encoding and decoding of whole JSON texts. \<open>json.Marshal\<close> and \<open>json.MarshalIndent\<close> of a structure print its
  fields in the order of their declaration (a map is sorted by its keys before), with the line
  breaks of a layout; reading the text back gives the value, whatever the layout.
\<close>

section \<open>Layouts\<close>

record json_layout =
  jl_break :: "nat \<Rightarrow> string"
  jl_blank :: string

definition compact :: json_layout where
  "compact = \<lparr>jl_break = (\<lambda>d. []), jl_blank = []\<rparr>"

text \<open>\<open>json.MarshalIndent(v, "", "  ")\<close>\<close>

definition indented :: json_layout where
  "indented = \<lparr>jl_break = (\<lambda>d. CHR 0x0A # concat (replicate d ''  '')), jl_blank = '' ''\<rparr>"

function json_text :: "json_layout \<Rightarrow> nat \<Rightarrow> json \<Rightarrow> string" where
  "json_text l d JNull = ''null''"
| "json_text l d (JBool b) = (if b then ''true'' else ''false'')"
| "json_text l d (JNum r) = json_number r"
| "json_text l d (JStr s) = json_string s"
| "json_text l d (JArr xs) = (if xs = [] then ''[]'' else
     ''['' @ jl_break l (Suc d) @ join ('','' @ jl_break l (Suc d)) (map (\<lambda>x. json_text l (Suc d) x) xs)
       @ jl_break l d @ '']'')"
| "json_text l d (JObj m) = (if m = [] then ''{}'' else
     ''{'' @ jl_break l (Suc d) @ join ('','' @ jl_break l (Suc d))
       (map (\<lambda>(k, v). json_string k @ '':'' @ jl_blank l @ json_text l (Suc d) v) m) @ jl_break l d @ ''}'')"
  by pat_completeness auto
termination
proof (relation "measure (\<lambda>(l, d, j). size j)")
  fix l :: json_layout and d :: nat and m :: "(string \<times> json) list" and x k v
  assume "x \<in> set m" and "(k, v) = x"
  then have "size v \<le> size_list (size_prod (\<lambda>_. 0) size) m" by (induction m) auto
  then show "((l, Suc d, v), l, d, JObj m) \<in> measure (\<lambda>(l, d, j). size j)" by simp
qed (auto simp: less_Suc_eq_le size_list_estimation')

definition layout_ok :: "json_layout \<Rightarrow> bool" where
  "layout_ok l \<longleftrightarrow> (\<forall>d. list_all json_space (jl_break l d)) \<and> list_all json_space (jl_blank l)"

lemma layouts_ok [simp]: "layout_ok compact" "layout_ok indented"
  by (auto simp: layout_ok_def compact_def indented_def json_space_def list_all_iff)

text \<open>The values that are written: whole numbers, and objects without a repeated key.\<close>

inductive json_plain :: "json \<Rightarrow> bool" where
  plain_null: "json_plain JNull"
| plain_bool: "json_plain (JBool b)"
| plain_num: "json_plain (JNum (of_int i))"
| plain_str: "json_plain (JStr s)"
| plain_arr: "(\<And>x. x \<in> set xs \<Longrightarrow> json_plain x) \<Longrightarrow> json_plain (JArr xs)"
| plain_obj: "distinct (map fst m) \<Longrightarrow> (\<And>k v. (k, v) \<in> set m \<Longrightarrow> json_plain v) \<Longrightarrow> json_plain (JObj m)"

lemmas plain_leaf [simp] = plain_null plain_bool plain_num plain_str

section \<open>Strings\<close>

lemma hex_value_digit: "n < 16 \<Longrightarrow> hex_value (hex_digit n) = Some n"
proof -
  assume "n < 16"
  then have "n \<in> set [0..<16]" by simp
  then show ?thesis
    by (auto simp: upt_rec hex_digit_def hex_value_def is_digit_def)
qed

lemma hex4_char: "byte c < 128 \<Longrightarrow>
    hex4 (CHR ''0'') (CHR ''0'') (hex_digit (byte c div 16)) (hex_digit (byte c mod 16)) = Some (byte c)"
  by (simp add: hex4_def hex_value_digit) (simp add: hex_value_def is_digit_def)

lemma byte_inject: "byte c = byte d \<longleftrightarrow> c = d"
  by simp

lemma parse_json_char:
  "parse_string (Suc n) (json_char c @ rest) = prepend [c] (parse_string n rest)"
proof (cases "byte c < 32 \<or> c \<in> set ''<>&''")
  case True
  then have small: "byte c < 128" by auto
  then have u: "utf8 (byte c) = [c]" by (simp add: utf8_def)
  have "c = CHR 0x08" if "byte c = 8" using that by (simp flip: byte_inject)
  moreover have "c = CHR 0x09" if "byte c = 9" using that by (simp flip: byte_inject)
  moreover have "c = CHR 0x0A" if "byte c = 10" using that by (simp flip: byte_inject)
  moreover have "c = CHR 0x0C" if "byte c = 12" using that by (simp flip: byte_inject)
  moreover have "c = CHR 0x0D" if "byte c = 13" using that by (simp flip: byte_inject)
  moreover have "\<not> (0xD800 \<le> byte c)" "\<not> (0xDC00 \<le> byte c)" using small by simp_all
  ultimately show ?thesis using True u
    by (auto simp: json_char_def simple_escape_def hex4_char [OF small] split: if_splits)
next
  case False
  then show ?thesis by (auto simp: json_char_def simple_escape_def)
qed

lemma parse_json_string:
  "length s < n \<Longrightarrow> parse_string n (concat (map json_char s) @ CHR 0x22 # rest) = Some (s, rest)"
proof (induction s arbitrary: n)
  case Nil
  then show ?case by (cases n) auto
next
  case (Cons c s)
  then obtain n' where "n = Suc n'" "length s < n'" by (cases n) auto
  with Cons show ?case by (simp only: parse_json_char concat.simps list.map append_assoc) (simp add: prepend_def)
qed

lemma json_char_ne: "json_char c \<noteq> []"
  by (simp add: json_char_def)

lemma length_json_chars: "length s \<le> length (concat (map json_char s))"
proof (induction s)
  case (Cons c s)
  moreover have "0 < length (json_char c)" by (simp add: json_char_ne)
  ultimately show ?case unfolding list.map concat.simps length_append list.size by linarith
qed simp

lemma read_json_string:
  "cs = concat (map json_char s) @ CHR 0x22 # rest \<Longrightarrow> parse_string (length cs) cs = Some (s, rest)"
  using parse_json_string [of s "length cs" rest] length_json_chars [of s] by simp
section \<open>Numbers\<close>

text \<open>What follows a value does not continue a number.\<close>

definition stops :: "string \<Rightarrow> bool" where
  "stops rest \<longleftrightarrow> (case rest of [] \<Rightarrow> True | c # cs \<Rightarrow> \<not> is_digit c \<and> c \<notin> set ''.eE'')"

lemma nat_of_string_of_nat: "nat_of_digits (string_of_nat n) = n"
  unfolding nat_of_digits_def
proof (induction n rule: string_of_nat.induct)
  case (1 n)
  show ?case
  proof (cases "n < 10")
    case True
    then show ?thesis by (simp add: string_of_nat.simps [of n] byte_char_of)
  next
    case False
    with 1 show ?thesis by (simp add: string_of_nat.simps [of n] digits_value_append byte_char_of)
  qed
qed

lemma string_of_nat_hd: "0 < n \<Longrightarrow> hd (string_of_nat n) \<noteq> CHR ''0''"
proof (induction n rule: string_of_nat.induct)
  case (1 n)
  have "char_of (48 + n) \<noteq> CHR ''0''" if "0 < n" "n < 10"
    using byte_char_of [of "48 + n"] that by (simp flip: byte_inject)
  with 1 show ?case by (subst string_of_nat.simps) (auto simp: hd_append)
qed

lemma digits_of_append:
  assumes "list_all is_digit ds" and "stops rest"
  shows "digits_of (ds @ rest) = (ds, rest)"
  using assms by (cases rest) (auto simp: digits_of_def stops_def list_all_iff takeWhile_append dropWhile_append)

lemma fraction_digits_0 [simp]: "fraction_digits n 0 = []"
  by (cases n) auto

lemma json_number_int: "json_number (of_int i) = string_of_int i"
  by (auto simp: json_number_def string_of_int_def Let_def)

lemma parse_number_int:
  assumes "stops rest"
  shows "parse_number (string_of_int i @ rest) = Some (JNum (of_int i), rest)"
proof -
  let ?ds = "string_of_nat (nat \<bar>i\<bar>)"
  have digits: "list_all is_digit ?ds" using string_of_nat_digits by (auto simp: list_all_iff)
  have "\<not> prefix ''-'' (?ds @ rest)"
    using digits by (cases ?ds) (auto simp: is_digit_def)
  moreover have "\<not> (hd ?ds = CHR ''0'' \<and> 1 < length ?ds)"
    using string_of_nat_hd [of "nat \<bar>i\<bar>"] by (cases "i = 0") (auto simp: string_of_nat.simps [of 0])
  moreover have "\<not> prefix ''.'' rest" using assms by (cases rest) (auto simp: stops_def)
  moreover have "parse_exponent v rest = Some (JNum v, rest)" for v
    using assms by (auto simp: parse_exponent_def stops_def split: list.splits)
  ultimately show ?thesis
    using digits_of_append [OF digits assms] nat_of_string_of_nat [of "nat \<bar>i\<bar>"]
    by (cases "i < 0") (auto simp: parse_number_def string_of_int_def Let_def)
qed

lemma string_of_int_start: "\<exists>c cs. string_of_int i = c # cs \<and> (is_digit c \<or> c = CHR ''-'')"
proof -
  obtain d ds where "string_of_nat (nat \<bar>i\<bar>) = d # ds" by (cases "string_of_nat (nat \<bar>i\<bar>)") auto
  moreover from this have "is_digit d" using string_of_nat_digits [of d "nat \<bar>i\<bar>"] by simp
  ultimately show ?thesis by (auto simp: string_of_int_def)
qed

section \<open>Values\<close>

lemma skip_ws_append [simp]: "list_all json_space ws \<Longrightarrow> skip_ws (ws @ s) = skip_ws s"
  by (auto simp: skip_ws_def list_all_iff dropWhile_append)

lemma skip_ws_Cons [simp]: "\<not> json_space c \<Longrightarrow> skip_ws (c # cs) = c # cs"
  by (simp add: skip_ws_def)

lemma not_space [simp]: "\<not> json_space (CHR 0x22)" "\<not> json_space (CHR ''{'')" "\<not> json_space (CHR ''}'')"
  "\<not> json_space (CHR ''['')" "\<not> json_space (CHR '']'')" "\<not> json_space (CHR '','')" "\<not> json_space (CHR '':'')"
  "\<not> json_space (CHR ''n'')" "\<not> json_space (CHR ''t'')" "\<not> json_space (CHR ''f'')" "\<not> json_space (CHR ''-'')"
  by (simp_all add: json_space_def)

lemma digit_not_space: "is_digit c \<Longrightarrow> \<not> json_space c"
  by (auto simp: json_space_def is_digit_def)

lemma update_new: "k \<notin> fst ` set m \<Longrightarrow> AList.update k v m = m @ [(k, v)]"
  by (induction m) auto

text \<open>What reading a value back means: after blanks, with enough fuel, before any text that stops it.\<close>

definition reads :: "json_layout \<Rightarrow> json \<Rightarrow> bool" where
  "reads l j \<longleftrightarrow> (\<forall>d n ws rest. list_all json_space ws \<longrightarrow> stops rest \<longrightarrow> length (json_text l d j) \<le> n
     \<longrightarrow> parse_value n (ws @ json_text l d j @ rest) = Some (j, rest))"

lemma readsD:
  "reads l j \<Longrightarrow> list_all json_space ws \<Longrightarrow> stops rest \<Longrightarrow> length (json_text l d j) \<le> n
    \<Longrightarrow> parse_value n (ws @ json_text l d j @ rest) = Some (j, rest)"
  unfolding reads_def by blast

lemma json_text_ne: "json_text l d j \<noteq> []"
  by (cases j) (auto simp: json_string_def json_number_def Let_def string_of_int_def)

lemma reads_num: "reads l (JNum (of_int i))"
  unfolding reads_def
proof (intro allI impI)
  fix d n ws rest
  assume ws: "list_all json_space ws" and rest: "stops rest" and n: "length (json_text l d (JNum (of_int i))) \<le> n"
  obtain c cs where c: "string_of_int i = c # cs" "is_digit c \<or> c = CHR ''-''" using string_of_int_start by blast
  then obtain n' where n': "n = Suc n'" using n by (cases n) (simp_all add: json_number_int)
  have "\<not> json_space c" using c(2) digit_not_space by auto
  moreover have "c \<noteq> CHR ''{''" "c \<noteq> CHR ''[''" "c \<noteq> CHR 0x22" "c \<noteq> CHR ''t''" "c \<noteq> CHR ''f''" "c \<noteq> CHR ''n''"
    using c(2) by (auto simp: is_digit_def)
  ultimately show "parse_value n (ws @ json_text l d (JNum (of_int i)) @ rest) = Some (JNum (of_int i), rest)"
    using parse_number_int [OF rest, of i] c(1) ws by (simp add: n' json_number_int)
qed

lemma reads_str: "reads l (JStr s)"
  unfolding reads_def
proof (intro allI impI)
  fix d n ws rest
  assume ws: "list_all json_space ws" and n: "length (json_text l d (JStr s)) \<le> n"
  obtain n' where n': "n = Suc n'" using n by (cases n) (simp_all add: json_string_def)
  show "parse_value n (ws @ json_text l d (JStr s) @ rest) = Some (JStr s, rest)"
    using read_json_string [of _ s rest] ws by (simp add: n' json_string_def)
qed

lemma reads_const: "reads l JNull" "reads l (JBool b)"
proof -
  have "reads l j" if "j \<in> {JNull, JBool True, JBool False}" for j
    unfolding reads_def
  proof (intro allI impI)
    fix d n ws rest
    assume ws: "list_all json_space ws" and n: "length (json_text l d j) \<le> n"
    obtain n' where "n = Suc n'" using n json_text_ne [of l d j] by (cases n) auto
    with ws that show "parse_value n (ws @ json_text l d j @ rest) = Some (j, rest)" by auto
  qed
  then show "reads l JNull" "reads l (JBool b)" by (cases b; simp)+
qed

lemma space_stops: "json_space c \<Longrightarrow> stops (c # cs)"
  by (auto simp: stops_def json_space_def is_digit_def)

lemma mark_stops: "c \<in> set '',]}'' \<Longrightarrow> stops (c # cs)"
  by (auto simp: stops_def is_digit_def)

lemma stops_after:
  assumes "layout_ok l" and "c \<in> set '',]}''"
  shows "stops (jl_break l d @ c # cs)"
proof (cases "jl_break l d")
  case Nil
  with mark_stops [OF assms(2)] show ?thesis by simp
next
  case (Cons a ws)
  moreover have "list_all json_space (jl_break l d)" using assms(1) by (simp add: layout_ok_def)
  ultimately show ?thesis by (simp add: space_stops)
qed

lemma stops_comma [simp]: "stops (CHR '','' # cs)"
  by (simp add: stops_def is_digit_def)

lemma reads_elements:
  assumes "layout_ok l" and "\<And>x. x \<in> set xs \<Longrightarrow> reads l x" and "xs \<noteq> []" and "list_all json_space ws"
    and "length (join ('','' @ jl_break l e) (map (json_text l e) xs)) \<le> n"
  shows "parse_elements (Suc n) (ws @ join ('','' @ jl_break l e) (map (json_text l e) xs) @ jl_break l d @ CHR '']'' # rest)
    = Some (xs, rest)"
  using assms(2-5)
proof (induction xs arbitrary: ws n)
  case (Cons x xs)
  have brk: "list_all json_space (jl_break l d)" "list_all json_space (jl_break l e)"
    using assms(1) by (auto simp: layout_ok_def)
  show ?case
  proof (cases "xs = []")
    case True
    with Cons.prems brk readsD [of l x ws "jl_break l d @ CHR '']'' # rest" e n] stops_after [OF assms(1), of "CHR '']''"]
    show ?thesis by simp
  next
    case False
    let ?more = "join ('','' @ jl_break l e) (map (json_text l e) xs)"
    have len: "length (json_text l e x) + 1 + length ?more \<le> n"
      using Cons.prems(4) False by (simp add: join_Cons)
    then obtain n' where n': "n = Suc n'" "length ?more \<le> n'" by (cases n) auto
    have "parse_value n (ws @ json_text l e x @ (CHR '','' # jl_break l e @ ?more @ jl_break l d @ CHR '']'' # rest))
        = Some (x, CHR '','' # jl_break l e @ ?more @ jl_break l d @ CHR '']'' # rest)"
      using Cons.prems len by (intro readsD) auto
    with Cons.IH [of "jl_break l e" n'] Cons.prems n' False brk show ?thesis
      by (simp add: join_Cons)
  qed
qed simp

definition member_text :: "json_layout \<Rightarrow> nat \<Rightarrow> string \<times> json \<Rightarrow> string" where
  "member_text l d = (\<lambda>(k, v). json_string k @ '':'' @ jl_blank l @ json_text l d v)"

lemma json_text_obj: "m \<noteq> [] \<Longrightarrow> json_text l d (JObj m) = ''{'' @ jl_break l (Suc d)
    @ join ('','' @ jl_break l (Suc d)) (map (member_text l (Suc d)) m) @ jl_break l d @ ''}''"
  by (simp add: member_text_def)

lemma parse_member:
  "skip_ws s = CHR 0x22 # cs \<Longrightarrow> parse_string (length cs) cs = Some (k, CHR '':'' # r2) \<Longrightarrow>
    parse_members (Suc n) m s = (case parse_value n r2 of None \<Rightarrow> None
       | Some (v, r3) \<Rightarrow>
           (case skip_ws r3 of
              c # r4 \<Rightarrow>
                if c = CHR '','' then parse_members n (AList.update k v m) r4
                else if c = CHR ''}'' then Some (AList.update k v m, r4) else None
            | [] \<Rightarrow> None))"
  by simp

lemma reads_members:
  assumes "layout_ok l" and "\<And>k v. (k, v) \<in> set m \<Longrightarrow> reads l v" and "m \<noteq> []" and "list_all json_space ws"
    and "length (join ('','' @ jl_break l e) (map (member_text l e) m)) \<le> n" and "distinct (map fst (acc @ m))"
  shows "parse_members (Suc n) acc (ws @ join ('','' @ jl_break l e) (map (member_text l e) m) @ jl_break l d @ CHR ''}'' # rest)
    = Some (acc @ m, rest)"
  using assms(2-6)
proof (induction m arbitrary: ws n acc)
  case (Cons kv m)
  obtain k v where kv: "kv = (k, v)" by fastforce
  have brk: "list_all json_space (jl_break l d)" "list_all json_space (jl_break l e)" "list_all json_space (jl_blank l)"
    using assms(1) by (auto simp: layout_ok_def)
  have upd: "AList.update k v acc = acc @ [(k, v)]" using Cons.prems(5) kv by (intro update_new) auto
  from brk Cons.prems(3) have step: "parse_members (Suc n) acc (ws @ member_text l e kv @ after)
      = (case parse_value n (jl_blank l @ json_text l e v @ after) of None \<Rightarrow> None
         | Some (v, r3) \<Rightarrow> (case skip_ws r3 of
             c # r4 \<Rightarrow> if c = CHR '','' then parse_members n (AList.update k v acc) r4
                       else if c = CHR ''}'' then Some (AList.update k v acc, r4) else None
           | [] \<Rightarrow> None))" for after
    by (subst parse_member [OF _ read_json_string [OF refl], of _ k])
       (simp_all add: member_text_def kv json_string_def)
  show ?case
  proof (cases "m = []")
    case True
    with Cons.prems(4) kv have "length (json_text l e v) \<le> n" by (simp add: member_text_def)
    with True step upd Cons.prems brk kv stops_after [OF assms(1), of "CHR ''}''" d rest]
      readsD [of l v "jl_blank l" "jl_break l d @ CHR ''}'' # rest" e n]
    show ?thesis by simp
  next
    case False
    let ?more = "join ('','' @ jl_break l e) (map (member_text l e) m)"
    let ?after = "CHR '','' # jl_break l e @ ?more @ jl_break l d @ CHR ''}'' # rest"
    have len: "length (json_text l e v) + 1 + length ?more \<le> n"
      using Cons.prems(4) False kv by (simp add: join_Cons member_text_def)
    then obtain n' where n': "n = Suc n'" "length ?more \<le> n'" by (cases n) auto
    have "parse_value n (jl_blank l @ json_text l e v @ ?after) = Some (v, ?after)"
      using Cons.prems len kv brk by (intro readsD) auto
    moreover have "parse_members n (acc @ [(k, v)]) (jl_break l e @ ?more @ jl_break l d @ CHR ''}'' # rest)
        = Some ((acc @ [(k, v)]) @ m, rest)"
      unfolding n' using Cons.prems n' False brk kv by (intro Cons.IH) auto
    ultimately show ?thesis
      using Cons.prems False step upd kv by (simp add: join_Cons del: parse_members.simps parse_value.simps)
  qed
qed simp

lemma json_text_start:
  assumes "json_plain j"
  shows "\<exists>c cs. json_text l d j = c # cs \<and> \<not> json_space c \<and> c \<noteq> CHR '']''"
  using assms
proof cases
  case (plain_num i)
  obtain c cs where "string_of_int i = c # cs" "is_digit c \<or> c = CHR ''-''" using string_of_int_start by blast
  moreover from this have "\<not> json_space c" "c \<noteq> CHR '']''" using digit_not_space by (auto simp: is_digit_def)
  ultimately show ?thesis using plain_num by (simp add: json_number_int)
qed (auto simp: json_string_def)

lemma reads_text:
  assumes "layout_ok l"
  shows "json_plain j \<Longrightarrow> reads l j"
proof (induction rule: json_plain.induct)
  case (plain_arr xs)
  have brk: "list_all json_space (jl_break l d)" for d using assms by (simp add: layout_ok_def)
  show ?case
    unfolding reads_def
  proof (intro allI impI)
    fix d n ws rest
    assume ws: "list_all json_space ws" and n: "length (json_text l d (JArr xs)) \<le> n"
    obtain n' where n': "n = Suc n'" using n json_text_ne [of l d "JArr xs"] by (cases n) auto
    show "parse_value n (ws @ json_text l d (JArr xs) @ rest) = Some (JArr xs, rest)"
    proof (cases "xs = []")
      case True
      with ws n' show ?thesis by simp
    next
      case False
      let ?body = "join ('','' @ jl_break l (Suc d)) (map (json_text l (Suc d)) xs)"
      have len: "length ?body + 1 \<le> n'" using n n' False by simp
      then obtain n'' where n'': "n' = Suc n''" "length ?body \<le> n''" by (cases n') auto
      have "parse_elements n' (jl_break l (Suc d) @ ?body @ jl_break l d @ CHR '']'' # rest) = Some (xs, rest)"
        unfolding n'' using assms plain_arr False brk n'' by (intro reads_elements) auto
      moreover have "\<not> prefix '']'' (skip_ws (jl_break l (Suc d) @ ?body @ jl_break l d @ CHR '']'' # rest))"
      proof -
        obtain x ys where xs: "xs = x # ys" using False by (cases xs) auto
        obtain c cs where "json_text l (Suc d) x = c # cs" "\<not> json_space c" "c \<noteq> CHR '']''"
          using json_text_start [of x l "Suc d"] plain_arr(1) [of x] xs by auto
        with xs brk show ?thesis by (cases ys) auto
      qed
      ultimately show ?thesis using False ws n' by simp
    qed
  qed
next
  case (plain_obj m)
  have brk: "list_all json_space (jl_break l d)" for d using assms by (simp add: layout_ok_def)
  show ?case
    unfolding reads_def
  proof (intro allI impI)
    fix d n ws rest
    assume ws: "list_all json_space ws" and n: "length (json_text l d (JObj m)) \<le> n"
    obtain n' where n': "n = Suc n'" using n json_text_ne [of l d "JObj m"] by (cases n) auto
    show "parse_value n (ws @ json_text l d (JObj m) @ rest) = Some (JObj m, rest)"
    proof (cases "m = []")
      case True
      with ws n' show ?thesis by simp
    next
      case False
      let ?body = "join ('','' @ jl_break l (Suc d)) (map (member_text l (Suc d)) m)"
      have len: "length ?body + 1 \<le> n'" using n n' False by (simp add: json_text_obj del: json_text.simps)
      then obtain n'' where n'': "n' = Suc n''" "length ?body \<le> n''" by (cases n') auto
      have "parse_members n' [] (jl_break l (Suc d) @ ?body @ jl_break l d @ CHR ''}'' # rest) = Some ([] @ m, rest)"
        unfolding n'' using assms plain_obj False brk n'' by (intro reads_members) auto
      moreover have "\<not> prefix ''}'' (skip_ws (jl_break l (Suc d) @ ?body @ jl_break l d @ CHR ''}'' # rest))"
      proof -
        obtain a v ms where "m = (a, v) # ms" using False by (cases m) auto
        with brk show ?thesis by (cases ms) (auto simp: member_text_def json_string_def)
      qed
      ultimately show ?thesis using False ws n' by (simp add: json_text_obj del: json_text.simps)
    qed
  qed
qed (simp_all add: reads_const reads_num reads_str)

text \<open>Reading a text that was written gives the value back.\<close>

lemma json_parse_text:
  assumes "layout_ok l" and "json_plain j"
  shows "json_parse (json_text l d j) = Some j"
  using readsD [OF reads_text [OF assms], of "[]" "[]" d "2 * length (json_text l d j) + 2"]
  by (simp add: json_parse_def stops_def skip_ws_def)

section \<open>Structures\<close>

text \<open>\<open>json.Unmarshal\<close> into a struct matches a field in any case, lets \<open>null\<close> be, and refuses a value
  of another type. \<open>None\<close> is its error.\<close>

definition field_values :: "string \<Rightarrow> (string \<times> json) list \<Rightarrow> json list" where
  "field_values name m = filter (\<lambda>v. v \<noteq> JNull) (map snd (filter (\<lambda>(k, v). equal_fold k name) m))"

fun json_int :: "json \<Rightarrow> int option" where
  "json_int (JNum r) = (if r = of_int \<lfloor>r\<rfloor> \<and> - (2 ^ 63) \<le> \<lfloor>r\<rfloor> \<and> \<lfloor>r\<rfloor> < 2 ^ 63 then Some \<lfloor>r\<rfloor> else None)"
| "json_int _ = None"

fun json_str :: "json \<Rightarrow> string option" where
  "json_str (JStr s) = Some s"
| "json_str _ = None"

definition last_field :: "(json \<Rightarrow> 'a option) \<Rightarrow> 'a \<Rightarrow> json list \<Rightarrow> 'a option" where
  "last_field conv zero vs =
     (if list_all (\<lambda>v. conv v \<noteq> None) vs then (if vs = [] then Some zero else conv (last vs)) else None)"

end
