(* ===== verification/Base64.thy ===== *)
theory Base64
  imports GoStrings
begin

text \<open>
  \<open>base64.StdEncoding\<close>: three bytes in four symbols, padded to whole groups. Decoding skips line
  breaks, takes padding at the end only and does not look at the bits that padding leaves over.
\<close>

definition b64_alphabet :: string where
  "b64_alphabet = ''ABCDEFGHIJKLMNOPQRSTUVWXYZabcdefghijklmnopqrstuvwxyz0123456789+/''"

definition b64_symbol :: "nat \<Rightarrow> char" where
  "b64_symbol n = b64_alphabet ! n"

definition b64_value :: "char \<Rightarrow> nat option" where
  "b64_value c =
     (if 65 \<le> byte c \<and> byte c \<le> 90 then Some (byte c - 65)
      else if 97 \<le> byte c \<and> byte c \<le> 122 then Some (byte c - 71)
      else if 48 \<le> byte c \<and> byte c \<le> 57 then Some (byte c + 4)
      else if c = CHR ''+'' then Some 62 else if c = CHR ''/'' then Some 63 else None)"

fun b64_encode :: "string \<Rightarrow> string" where
  "b64_encode [] = []"
| "b64_encode [a] = [b64_symbol (byte a div 4), b64_symbol (byte a mod 4 * 16), CHR ''='', CHR ''='']"
| "b64_encode [a, b] = [b64_symbol (byte a div 4), b64_symbol (byte a mod 4 * 16 + byte b div 16),
     b64_symbol (byte b mod 16 * 4), CHR ''='']"
| "b64_encode (a # b # c # rest) = b64_symbol (byte a div 4) # b64_symbol (byte a mod 4 * 16 + byte b div 16)
     # b64_symbol (byte b mod 16 * 4 + byte c div 64) # b64_symbol (byte c mod 64) # b64_encode rest"

fun b64_groups :: "string \<Rightarrow> string option" where
  "b64_groups [] = Some []"
| "b64_groups (a # b # c # d # rest) =
     (case (b64_value a, b64_value b) of
        (Some x, Some y) \<Rightarrow>
          if d = CHR ''='' then
            (if rest \<noteq> [] then None
             else if c = CHR ''='' then Some [char_of (x * 4 + y div 16)]
             else map_option (\<lambda>z. [char_of (x * 4 + y div 16), char_of (y mod 16 * 16 + z div 4)]) (b64_value c))
          else (case (b64_value c, b64_value d, b64_groups rest) of
              (Some z, Some w, Some bytes) \<Rightarrow>
                Some (char_of (x * 4 + y div 16) # char_of (y mod 16 * 16 + z div 4) # char_of (z mod 4 * 64 + w) # bytes)
            | _ \<Rightarrow> None)
      | _ \<Rightarrow> None)"
| "b64_groups _ = None"

definition b64_decode :: "string \<Rightarrow> string option" where
  "b64_decode s = b64_groups (filter (\<lambda>c. c \<noteq> CHR 0x0A \<and> c \<noteq> CHR 0x0D) s)"

lemma b64_alphabet_values: "map b64_value b64_alphabet = map Some [0..<64]"
  by (simp add: b64_alphabet_def b64_value_def upt_rec)

lemma b64_symbol_value:
  assumes "n < 64"
  shows "b64_value (b64_symbol n) = Some n"
proof -
  have "length b64_alphabet = 64" using arg_cong [OF b64_alphabet_values, of length] by simp
  then have "map b64_value b64_alphabet ! n = b64_value (b64_symbol n)" using assms by (simp add: b64_symbol_def)
  then show ?thesis using assms by (simp add: b64_alphabet_values)
qed

lemma b64_symbol_plain: "n < 64 \<Longrightarrow> b64_symbol n \<notin> set [CHR ''='', CHR 0x0A, CHR 0x0D]"
  using b64_symbol_value [of n] by (auto simp: b64_value_def)

lemma byte_bound: "byte c < 256"
  using mod_less_divisor [of 256 "byte c"] by (simp only: of_char_mod_256)

lemma byte_quotients: "byte c div 4 < 64" "byte c div 16 < 16" "byte c div 64 < 4"
  using byte_bound [of c] by (auto simp: less_mult_imp_div_less)

lemma byte_shifts [simp]:
  "byte c div 16 div 16 = 0" "byte c div 16 mod 16 = byte c div 16"
  "byte c div 64 div 4 = 0" "byte c div 64 mod 4 = byte c div 64"
  using byte_quotients [of c] by auto

lemma b64_parts:
  "byte a div 4 < 64" "byte a mod 4 * 16 < 64" "byte a mod 4 * 16 + byte b div 16 < 64"
  "byte b mod 16 * 4 < 64" "byte b mod 16 * 4 + byte c div 64 < 64" "byte c mod 64 < 64"
proof -
  have m: "byte a mod 4 \<le> 3" "byte b mod 16 \<le> 15" by (simp_all add: less_Suc_eq_le [symmetric])
  have q: "byte b div 16 < 16" "byte c div 64 < 4" using byte_quotients by blast+
  have s: "byte a mod 4 * 16 \<le> 48" "byte b mod 16 * 4 \<le> 60"
    using mult_le_mono1 [OF m(1), of 16] mult_le_mono1 [OF m(2), of 4] by simp_all
  show "byte a div 4 < 64" by (rule byte_quotients)
  show "byte a mod 4 * 16 < 64" using s(1) by simp
  show "byte b mod 16 * 4 < 64" using s(2) by simp
  show "byte a mod 4 * 16 + byte b div 16 < 64" using add_le_less_mono [OF s(1) q(1)] by simp
  show "byte b mod 16 * 4 + byte c div 64 < 64" using add_le_less_mono [OF s(2) q(2)] by simp
  show "byte c mod 64 < 64" by simp
qed

lemma b64_groups_encode: "b64_groups (b64_encode s) = Some s"
  by (induction s rule: b64_encode.induct)
     (use b64_symbol_plain [OF b64_parts(6)] b64_symbol_plain [OF b64_parts(4)] in
       \<open>auto simp: b64_symbol_value b64_parts\<close>)

lemma b64_encode_plain: "c \<in> set (b64_encode s) \<Longrightarrow> c \<noteq> CHR 0x0A \<and> c \<noteq> CHR 0x0D"
  by (induction s rule: b64_encode.induct) (use b64_symbol_plain b64_parts in auto)

lemma b64_roundtrip [simp]: "b64_decode (b64_encode s) = Some s"
proof -
  have "filter (\<lambda>c. c \<noteq> CHR 0x0A \<and> c \<noteq> CHR 0x0D) (b64_encode s) = b64_encode s"
    using b64_encode_plain by (auto simp: filter_id_conv)
  then show ?thesis by (simp add: b64_decode_def b64_groups_encode)
qed

end
