(* ===== verification/Credentials.thy ===== *)
theory Credentials
  imports JsonText GoTime
begin

text \<open>
  The names and stores of credentials: \<open>credentials/model.go\<close>, \<open>memory.go\<close> and \<open>resolver.go\<close>. What the
  program relies on when it uses a store is the interface \<open>credential_store\<close>; the store in memory
  is one, the encrypted file another.
\<close>

section \<open>Keys\<close>

definition normalizeComponent :: "string \<Rightarrow> string" where
  "normalizeComponent v = replace_char (CHR ''-'') (CHR ''_'') (trim_space (to_lower v))"

text \<open>\<open>^[a-z0-9][a-z0-9_]*$\<close>\<close>

definition validKeyComponent :: "string \<Rightarrow> bool" where
  "validKeyComponent v = (case v of [] \<Rightarrow> False
     | c # cs \<Rightarrow> (is_lower c \<or> is_digit c) \<and> list_all (\<lambda>c. is_lower c \<or> is_digit c \<or> c = CHR ''_'') cs)"

definition invalid_key :: "string \<Rightarrow> gerror" where
  "invalid_key shown = ErrText (''invalid credential key: '' @ shown)"

definition Key :: "string \<Rightarrow> string \<Rightarrow> gerror + string" where
  "Key provider name =
     (let p = normalizeComponent provider; n = normalizeComponent name in
      if \<not> validKeyComponent p \<or> \<not> validKeyComponent n then Inl (invalid_key (quote p @ ''/'' @ quote n))
      else Inr (p @ ''/'' @ n))"

definition SplitKey :: "string \<Rightarrow> gerror + string \<times> string" where
  "SplitKey key = (case cut ''/'' key of None \<Rightarrow> Inl (invalid_key (quote key))
     | Some (provider, name) \<Rightarrow>
         bindr (Key provider name) (\<lambda>canonical.
           if canonical \<noteq> key then Inl (invalid_key (quote key)) else Inr (provider, name)))"

definition canonical_key :: "string \<Rightarrow> bool" where
  "canonical_key key \<longleftrightarrow> (\<exists>p n. key = p @ ''/'' @ n \<and> validKeyComponent p \<and> validKeyComponent n)"

lemma component_chars: "validKeyComponent v \<Longrightarrow> c \<in> set v \<Longrightarrow> is_lower c \<or> is_digit c \<or> c = CHR ''_''"
  by (auto simp: validKeyComponent_def list_all_iff split: list.splits)

lemma component_char_plain:
  "is_lower c \<or> is_digit c \<or> c = CHR ''_'' \<Longrightarrow> lower_char c = c \<and> \<not> is_space c \<and> c \<noteq> CHR ''-'' \<and> c \<noteq> CHR ''/''"
  by (auto simp: lower_char_def is_upper_def is_lower_def is_digit_def is_space_def)

lemma normalize_component: "validKeyComponent v \<Longrightarrow> normalizeComponent v = v"
proof -
  assume v: "validKeyComponent v"
  note plain = component_char_plain [OF component_chars [OF v]]
  have "to_lower v = v" using plain by (auto simp: to_lower_def map_idI)
  moreover have drop: "dropWhile is_space w = w" if "set w \<subseteq> set v" for w
    using plain that by (cases w) auto
  have "trim_space v = v"
    unfolding trim_space_def trim_def trim_left_def trim_right_def using drop [of v] drop [of "rev v"] by simp
  moreover have "replace_char (CHR ''-'') (CHR ''_'') v = v" using plain by (auto simp: replace_char_def map_idI)
  ultimately show ?thesis by (simp add: normalizeComponent_def)
qed

lemma key_of_components:
  "validKeyComponent p \<Longrightarrow> validKeyComponent n \<Longrightarrow> Key p n = Inr (p @ ''/'' @ n)"
  by (simp add: Key_def Let_def normalize_component)

lemma split_of_components:
  assumes "validKeyComponent p" "validKeyComponent n"
  shows "SplitKey (p @ ''/'' @ n) = Inr (p, n)"
proof -
  have "CHR ''/'' \<notin> set p" using component_char_plain [OF component_chars [OF assms(1)]] by auto
  then have "cut ''/'' (p @ ''/'' @ n) = Some (p, n)"
    by (induction p) auto
  then show ?thesis by (simp add: SplitKey_def key_of_components [OF assms])
qed

lemma SplitKey_Inr: "SplitKey key = Inr (p, n) \<longleftrightarrow> key = p @ ''/'' @ n \<and> validKeyComponent p \<and> validKeyComponent n"
proof
  assume *: "SplitKey key = Inr (p, n)"
  then have key: "Key p n = Inr key" "key = p @ ''/'' @ n"
    by (auto simp: SplitKey_def result_simps split: option.splits if_splits dest: cut_Some)
  then have "normalizeComponent p @ ''/'' @ normalizeComponent n = p @ ''/'' @ n"
    "validKeyComponent (normalizeComponent p)" "validKeyComponent (normalizeComponent n)"
    by (auto simp: Key_def Let_def split: if_splits)
  moreover from this have "SplitKey (p @ ''/'' @ n) = Inr (normalizeComponent p, normalizeComponent n)"
    using split_of_components by metis
  ultimately show "key = p @ ''/'' @ n \<and> validKeyComponent p \<and> validKeyComponent n" using * key(2) by simp
qed (use split_of_components in auto)

lemma canonical_split: "canonical_key key \<longleftrightarrow> (\<exists>pn. SplitKey key = Inr pn)"
  by (auto simp: canonical_key_def SplitKey_Inr)

lemma Key_canonical: "Key p n = Inr key \<Longrightarrow> canonical_key key"
  by (auto simp: Key_def Let_def canonical_key_def split: if_splits)

section \<open>Secrets and stores\<close>

record secret =
  sc_key :: string
  sc_secret :: string
  sc_created :: gotime
  sc_updated :: gotime

record credential_metadata =
  md_key :: string
  md_provider :: string
  md_name :: string
  md_created :: gotime
  md_updated :: gotime

record credential_item =
  ci_value :: string
  ci_created :: gotime
  ci_updated :: gotime

definition ErrNotFound :: gerror where
  "ErrNotFound = ErrText ''credential not found''"

text \<open>\<open>Get\<close>, the new item of \<open>Set\<close>, and \<open>List\<close> are the same for both stores.\<close>

definition get_item :: "credential_item smap \<Rightarrow> string \<Rightarrow> gerror + secret" where
  "get_item items key = bindr (SplitKey key) (\<lambda>pn.
     (case map_of items key of None \<Rightarrow> Inl ErrNotFound
      | Some i \<Rightarrow> Inr \<lparr>sc_key = key, sc_secret = ci_value i, sc_created = ci_created i, sc_updated = ci_updated i\<rparr>))"

definition stamped_item :: "gotime \<Rightarrow> string \<Rightarrow> credential_item option \<Rightarrow> credential_item" where
  "stamped_item now v old =
     (let created = (case old of None \<Rightarrow> zero_time | Some i \<Rightarrow> ci_created i)
      in \<lparr>ci_value = v, ci_created = (if is_zero_time created then now else created), ci_updated = now\<rparr>)"

definition set_item :: "gotime \<Rightarrow> string \<Rightarrow> string \<Rightarrow> credential_item smap \<Rightarrow> credential_item smap" where
  "set_item now key v items = AList.update key (stamped_item now v (map_of items key)) items"

definition metadata_of :: "string \<times> credential_item \<Rightarrow> gerror + credential_metadata" where
  "metadata_of ki = (case ki of (key, i) \<Rightarrow> bindr (SplitKey key) (\<lambda>(provider, name).
     Inr \<lparr>md_key = key, md_provider = provider, md_name = name, md_created = ci_created i, md_updated = ci_updated i\<rparr>))"

definition list_items :: "credential_item smap \<Rightarrow> gerror + credential_metadata list" where
  "list_items items = bindr (mapr metadata_of items) (\<lambda>out. Inr (sort_stable (key_less md_key) out))"

text \<open>What every map of items that the program builds satisfies: one item for a key, and keys of
  the two components only.\<close>

definition items_ok :: "credential_item smap \<Rightarrow> bool" where
  "items_ok items \<longleftrightarrow> distinct (map fst items) \<and> (\<forall>k \<in> fst ` set items. canonical_key k)"

lemma get_item_canonical:
  "canonical_key key \<Longrightarrow> get_item items key = (case map_of items key of None \<Rightarrow> Inl ErrNotFound
     | Some i \<Rightarrow> Inr \<lparr>sc_key = key, sc_secret = ci_value i, sc_created = ci_created i, sc_updated = ci_updated i\<rparr>)"
  by (auto simp: get_item_def canonical_split)

lemma map_of_set_item: "map_of (set_item now key v items) = (map_of items)(key \<mapsto> stamped_item now v (map_of items key))"
  by (simp add: set_item_def update_conv')

lemma items_ok_set: "items_ok items \<Longrightarrow> canonical_key key \<Longrightarrow> items_ok (set_item now key v items)"
  by (auto simp: items_ok_def set_item_def distinct_update dom_update)

lemma items_ok_delete: "items_ok items \<Longrightarrow> items_ok (AList.delete key items)"
  by (auto simp: items_ok_def distinct_delete) (auto simp: delete_conv' AList.delete_eq)

lemma list_items_ok:
  assumes "items_ok items"
  shows "\<exists>ms. list_items items = Inr ms \<and> sorted (map md_key ms) \<and> distinct (map md_key ms)
    \<and> set (map md_key ms) = set (map fst items)"
proof -
  have "\<exists>out. mapr metadata_of xs = Inr out \<and> map md_key out = map fst xs" if "\<forall>k \<in> fst ` set xs. canonical_key k" for xs
    using that
  proof (induction xs)
    case (Cons x xs)
    obtain key i where x: "x = (key, i)" by fastforce
    with Cons.prems obtain p n where "SplitKey key = Inr (p, n)" by (auto simp: canonical_split)
    with Cons x show ?case by (auto simp: metadata_of_def)
  qed simp
  with assms obtain out where out: "mapr metadata_of items = Inr out" "map md_key out = map fst items"
    unfolding items_ok_def by blast
  have "mset (map md_key (sort_stable (key_less md_key) out)) = mset (map fst items)"
    using out(2) by (metis mset_map mset_sort_stable)
  moreover have "sorted (map md_key (sort_stable (key_less md_key) out))"
    using by_key.sorted_sort_stable [of md_key out] by (simp add: sorted_map key_less_def sorted_wrt_iff_nth_less not_less)
  moreover note mset_eq_setD [OF calculation(1)] mset_eq_imp_distinct_iff [OF calculation(1)]
  ultimately show ?thesis
    using out(1) assms unfolding list_items_def items_ok_def by (simp del: set_map)
qed

section \<open>The interface of a store\<close>

text \<open>
  A store holds a partial map of items by key. \<open>seen\<close> is that map, \<open>good\<close> what its states satisfy. A
  refused change leaves the map or, where the change was made and could not be saved, has it.
\<close>

locale credential_store =
  fixes good :: "'s \<Rightarrow> bool"
    and seen :: "'s \<Rightarrow> string \<Rightarrow> credential_item option"
    and get :: "'s \<Rightarrow> string \<Rightarrow> gerror + secret"
    and put :: "gotime \<Rightarrow> string \<Rightarrow> string \<Rightarrow> 's \<Rightarrow> 's \<times> gerror option"
    and del :: "string \<Rightarrow> 's \<Rightarrow> 's \<times> gerror option"
    and listing :: "'s \<Rightarrow> gerror + credential_metadata list"
  assumes get_canonical: "canonical_key k \<Longrightarrow> get s k = (case seen s k of None \<Rightarrow> Inl ErrNotFound
      | Some i \<Rightarrow> Inr \<lparr>sc_key = k, sc_secret = ci_value i, sc_created = ci_created i, sc_updated = ci_updated i\<rparr>)"
    and get_other: "\<not> canonical_key k \<Longrightarrow> \<exists>e. get s k = Inl e"
    and seen_canonical: "good s \<Longrightarrow> seen s k = Some i \<Longrightarrow> canonical_key k"
    and put_spec: "good s \<Longrightarrow> case put now k v s of (s', err) \<Rightarrow> good s'
      \<and> (seen s' = (seen s)(k \<mapsto> stamped_item now v (seen s k)) \<and> canonical_key k \<or> err \<noteq> None \<and> seen s' = seen s)"
    and del_spec: "good s \<Longrightarrow> case del k s of (s', err) \<Rightarrow> good s'
      \<and> (seen s' = (seen s)(k := None) \<and> canonical_key k \<or> err \<noteq> None \<and> seen s' = seen s)"
    and listing_spec: "good s \<Longrightarrow> \<exists>ms. listing s = Inr ms \<and> sorted (map md_key ms) \<and> distinct (map md_key ms)
      \<and> set (map md_key ms) = dom (seen s)"
begin

lemma put_then_get:
  assumes "good s" and "put now k v s = (s', None)"
  shows "get s' k = Inr \<lparr>sc_key = k, sc_secret = v, sc_created = ci_created (stamped_item now v (seen s k)), sc_updated = now\<rparr>"
  using put_spec [OF assms(1), where now = now and k = k and v = v] assms(2) by (auto simp: get_canonical stamped_item_def Let_def)

lemma put_other:
  assumes "good s" and "put now k v s = (s', err)" and "k' \<noteq> k"
  shows "seen s' k' = seen s k'"
  using put_spec [OF assms(1), where now = now and k = k and v = v] assms(2,3) by auto

lemma del_then_get:
  assumes "good s" and "del k s = (s', None)"
  shows "get s' k = Inl ErrNotFound"
  using del_spec [OF assms(1), of k] assms(2) by (auto simp: get_canonical)

lemma listed_is_stored:
  assumes "good s" and "listing s = Inr ms"
  shows "k \<in> set (map md_key ms) \<longleftrightarrow> (\<exists>x. get s k = Inr x)"
proof -
  have k: "k \<in> set (map md_key ms) \<longleftrightarrow> seen s k \<noteq> None" using listing_spec [OF assms(1)] assms(2) by auto
  show ?thesis
  proof (cases "canonical_key k")
    case True
    then show ?thesis unfolding k by (auto simp: get_canonical split: option.splits)
  next
    case False
    then show ?thesis unfolding k using get_other [OF False, of s] seen_canonical [OF assms(1), of k] by auto
  qed
qed

end

section \<open>The store in memory\<close>

record memory_store =
  ms_items :: "credential_item smap"

definition NewMemoryStore :: memory_store where
  "NewMemoryStore = \<lparr>ms_items = []\<rparr>"

definition mem_get :: "memory_store \<Rightarrow> string \<Rightarrow> gerror + secret" where
  "mem_get s key = get_item (ms_items s) key"

definition mem_set :: "gotime \<Rightarrow> string \<Rightarrow> string \<Rightarrow> memory_store \<Rightarrow> memory_store \<times> gerror option" where
  "mem_set now key v s = (case SplitKey key of Inl e \<Rightarrow> (s, Some e)
     | Inr _ \<Rightarrow> (s\<lparr>ms_items := set_item now key v (ms_items s)\<rparr>, None))"

definition mem_delete :: "string \<Rightarrow> memory_store \<Rightarrow> memory_store \<times> gerror option" where
  "mem_delete key s = (case SplitKey key of Inl e \<Rightarrow> (s, Some e)
     | Inr _ \<Rightarrow> if map_of (ms_items s) key = None then (s, Some ErrNotFound)
         else (s\<lparr>ms_items := AList.delete key (ms_items s)\<rparr>, None))"

definition mem_list :: "memory_store \<Rightarrow> gerror + credential_metadata list" where
  "mem_list s = list_items (ms_items s)"

lemma get_item_other: "\<not> canonical_key k \<Longrightarrow> \<exists>e. get_item items k = Inl e"
  by (cases "SplitKey k") (auto simp: get_item_def canonical_split)

lemma items_ok_canonical: "items_ok items \<Longrightarrow> map_of items k = Some i \<Longrightarrow> canonical_key k"
  by (force simp: items_ok_def dest: map_of_SomeD)

interpretation memory: credential_store "\<lambda>s. items_ok (ms_items s)" "\<lambda>s. map_of (ms_items s)" mem_get mem_set mem_delete mem_list
proof
  fix k s now v
  show "canonical_key k \<Longrightarrow> mem_get s k = (case map_of (ms_items s) k of None \<Rightarrow> Inl ErrNotFound
      | Some i \<Rightarrow> Inr \<lparr>sc_key = k, sc_secret = ci_value i, sc_created = ci_created i, sc_updated = ci_updated i\<rparr>)"
    by (simp add: mem_get_def get_item_canonical)
  show "\<not> canonical_key k \<Longrightarrow> \<exists>e. mem_get s k = Inl e" by (simp add: mem_get_def get_item_other)
  show "items_ok (ms_items s) \<Longrightarrow> map_of (ms_items s) k = Some i \<Longrightarrow> canonical_key k" for i
    by (rule items_ok_canonical)
  assume "items_ok (ms_items s)"
  then show "case mem_set now k v s of (s', err) \<Rightarrow> items_ok (ms_items s')
      \<and> (map_of (ms_items s') = (map_of (ms_items s))(k \<mapsto> stamped_item now v (map_of (ms_items s) k)) \<and> canonical_key k
         \<or> err \<noteq> None \<and> map_of (ms_items s') = map_of (ms_items s))"
    by (auto simp: mem_set_def map_of_set_item items_ok_set canonical_split split: sum.split)
  show "case mem_delete k s of (s', err) \<Rightarrow> items_ok (ms_items s')
      \<and> (map_of (ms_items s') = (map_of (ms_items s))(k := None) \<and> canonical_key k
         \<or> err \<noteq> None \<and> map_of (ms_items s') = map_of (ms_items s))"
    using \<open>items_ok (ms_items s)\<close>
    by (auto simp: mem_delete_def delete_conv' items_ok_delete canonical_split split: sum.split)
  show "\<exists>ms. mem_list s = Inr ms \<and> sorted (map md_key ms) \<and> distinct (map md_key ms)
      \<and> set (map md_key ms) = dom (map_of (ms_items s))"
    using list_items_ok [OF \<open>items_ok (ms_items s)\<close>] by (simp add: mem_list_def dom_map_of_conv_image_fst)
qed

section \<open>The resolver\<close>

record credential_query =
  cq_provider :: string
  cq_name :: string
  cq_env :: "string list"

text \<open>The store is given by its \<open>Get\<close>; a resolver may have none.\<close>

definition resolve_stored :: "(string \<Rightarrow> gerror + secret) option \<Rightarrow> string \<Rightarrow> gerror + secret" where
  "resolve_stored store key =
     (let missing = Inl (ErrText (''credential not found: '' @ key)) in
      case store of None \<Rightarrow> missing
      | Some get \<Rightarrow> (case get key of Inr secret \<Rightarrow> Inr secret
          | Inl e \<Rightarrow> if e \<noteq> ErrNotFound then Inl e else missing))"

definition Resolve :: "(string \<Rightarrow> gerror + secret) option \<Rightarrow> (string \<Rightarrow> string) \<Rightarrow> credential_query \<Rightarrow> gerror + secret" where
  "Resolve store getenv q = bindr (Key (cq_provider q) (cq_name q)) (\<lambda>key.
     (case filter (\<lambda>v. v \<noteq> []) (map getenv (cq_env q)) of
        v # _ \<Rightarrow> Inr \<lparr>sc_key = key, sc_secret = v, sc_created = zero_time, sc_updated = zero_time\<rparr>
      | [] \<Rightarrow> resolve_stored store key))"

context credential_store
begin

lemma put_then_resolve:
  assumes "good s" and "put now k v s = (s', None)" and "Key p n = Inr k" and "list_all (\<lambda>e. getenv e = []) env"
  shows "Resolve (Some (get s')) getenv \<lparr>cq_provider = p, cq_name = n, cq_env = env\<rparr>
    = Inr \<lparr>sc_key = k, sc_secret = v, sc_created = ci_created (stamped_item now v (seen s k)), sc_updated = now\<rparr>"
proof -
  have "filter (\<lambda>v. v \<noteq> []) (map getenv env) = []" using assms(4) by (auto simp: filter_empty_conv list_all_iff)
  then show ?thesis
    using assms(3) put_then_get [OF assms(1,2)] by (simp add: Resolve_def resolve_stored_def Let_def)
qed

lemma resolve_cases:
  assumes "good s" and "Key p n = Inr k"
  shows "Resolve (Some (get s)) getenv \<lparr>cq_provider = p, cq_name = n, cq_env = env\<rparr>
    = (case find (\<lambda>v. v \<noteq> []) (map getenv env) of
         Some v \<Rightarrow> Inr \<lparr>sc_key = k, sc_secret = v, sc_created = zero_time, sc_updated = zero_time\<rparr>
       | None \<Rightarrow> (case seen s k of
           Some i \<Rightarrow> Inr \<lparr>sc_key = k, sc_secret = ci_value i, sc_created = ci_created i, sc_updated = ci_updated i\<rparr>
         | None \<Rightarrow> Inl (ErrText (''credential not found: '' @ k))))"
proof -
  have "find (\<lambda>v. v \<noteq> []) vs = (case filter (\<lambda>v. v \<noteq> []) vs of [] \<Rightarrow> None | v # _ \<Rightarrow> Some v)" for vs :: "string list"
    by (induction vs) auto
  then show ?thesis
    using assms(2) get_canonical [OF Key_canonical [OF assms(2)], of s]
    by (auto simp: Resolve_def resolve_stored_def Let_def split: list.split option.split)
qed

end

section \<open>A store after any operations\<close>

datatype cred_op = SetOp gotime string string | DeleteOp string

definition run_ops :: "(gotime \<Rightarrow> string \<Rightarrow> string \<Rightarrow> 's \<Rightarrow> 's \<times> gerror option) \<Rightarrow> (string \<Rightarrow> 's \<Rightarrow> 's \<times> gerror option)
    \<Rightarrow> cred_op list \<Rightarrow> 's \<Rightarrow> 's" where
  "run_ops put del ops s = foldl (\<lambda>s op. case op of SetOp now k v \<Rightarrow> fst (put now k v s) | DeleteOp k \<Rightarrow> fst (del k s)) s ops"

context credential_store
begin

lemma run_ops_good: "good s \<Longrightarrow> good (run_ops put del ops s)"
proof (induction ops arbitrary: s)
  case (Cons op ops)
  have "good (fst (put now k v s))" "good (fst (del k s))" for now k v
    using put_spec [OF Cons.prems, where now = now and k = k and v = v] del_spec [OF Cons.prems, of k] by (auto split: prod.splits)
  then have "good (case op of SetOp now k v \<Rightarrow> fst (put now k v s) | DeleteOp k \<Rightarrow> fst (del k s))"
    by (simp split: cred_op.split)
  from Cons.IH [OF this] show ?case by (simp add: run_ops_def)
qed (simp add: run_ops_def)

lemma listed_after_ops:
  assumes "good s"
  shows "\<exists>ms. listing (run_ops put del ops s) = Inr ms \<and> sorted (map md_key ms) \<and> distinct (map md_key ms)
    \<and> (\<forall>k. k \<in> set (map md_key ms) \<longleftrightarrow> (\<exists>x. get (run_ops put del ops s) k = Inr x))"
proof -
  note g = run_ops_good [OF assms, of ops]
  obtain ms where "listing (run_ops put del ops s) = Inr ms" "sorted (map md_key ms)" "distinct (map md_key ms)"
    using listing_spec [OF g] by blast
  then show ?thesis using listed_is_stored [OF g] by blast
qed

end

lemma list_items_typed:
  assumes "list_items items = Inr ms" and "m \<in> set ms"
  shows "Key (md_provider m) (md_name m) = Inr (md_key m)"
proof -
  obtain out where "mapr metadata_of items = Inr out" "m \<in> set out"
    using assms by (auto simp: list_items_def result_simps)
  then obtain ki where "metadata_of ki = Inr m" using mapr_set by metis
  then have "SplitKey (md_key m) = Inr (md_provider m, md_name m)"
    by (cases ki) (auto simp: metadata_of_def result_simps)
  then show ?thesis by (simp add: SplitKey_Inr key_of_components)
qed

end
