(* ===== verification/CredentialFile.thy ===== *)
theory CredentialFile
  imports Credentials Base64 ArtifactIO
begin

text \<open>
  The encrypted store of \<open>credentials/encrypted_file.go\<close>: a document of items, encoded as JSON, sealed
  under a key derived from the passphrase, in an envelope that is JSON again, in a file that is
  replaced as a whole. The key derivation and the cipher are parameters, with their law; so are
  the random bytes and the texts of decoding errors.
\<close>

section \<open>Documents and envelopes\<close>

record document =
  dc_version :: int
  dc_items :: "credential_item smap"

record kdf_params =
  kp_time :: nat
  kp_memory :: nat
  kp_threads :: nat
  kp_key_len :: nat

record envelope =
  en_version :: int
  en_kdf :: string
  en_params :: kdf_params
  en_cipher :: string
  en_salt :: string
  en_nonce :: string
  en_ciphertext :: string

definition envelopeVersion :: int where "envelopeVersion = 1"
definition documentVersion :: int where "documentVersion = 1"
definition kdfName :: string where "kdfName = ''argon2id''"
definition cipherName :: string where "cipherName = ''aes-256-gcm''"

text \<open>\<open>argon2.IDKey\<close> with its passphrase, salt and parameters; \<open>Seal\<close> and \<open>Open\<close> of the cipher in GCM mode
  under a key and a nonce; the errors of \<open>json.Unmarshal\<close> and of \<open>DecodeString\<close> on a text.\<close>

record crypto =
  cr_kdf :: "string \<Rightarrow> string \<Rightarrow> nat \<Rightarrow> nat \<Rightarrow> nat \<Rightarrow> nat \<Rightarrow> string"
  cr_seal :: "string \<Rightarrow> string \<Rightarrow> string \<Rightarrow> string"
  cr_open :: "string \<Rightarrow> string \<Rightarrow> string \<Rightarrow> string option"
  cr_json_error :: "string \<Rightarrow> gerror"
  cr_base64_error :: "string \<Rightarrow> gerror"

text \<open>What is documented of them: a derived key has the length that was asked for, and what was sealed
  under a key of a size of AES with a nonce of the standard size is opened with the same two.\<close>

definition crypto_ok :: "crypto \<Rightarrow> bool" where
  "crypto_ok cr \<longleftrightarrow> (\<forall>p s t m h n. length (cr_kdf cr p s t m h n) = n)
     \<and> (\<forall>k n p. length k \<in> {16, 24, 32} \<longrightarrow> length n = 12 \<longrightarrow> cr_open cr k n (cr_seal cr k n p) = Some p)"

definition deriveKey :: "crypto \<Rightarrow> string \<Rightarrow> string \<Rightarrow> kdf_params \<Rightarrow> string" where
  "deriveKey cr pass salt p = cr_kdf cr pass salt
     (if kp_time p = 0 then 3 else kp_time p) (if kp_memory p = 0 then 65536 else kp_memory p)
     (if kp_threads p = 0 then 4 else kp_threads p) (if kp_key_len p = 0 then 32 else kp_key_len p)"

text \<open>\<open>aes.NewCipher\<close>\<close>

definition new_cipher :: "string \<Rightarrow> gerror option" where
  "new_cipher key = (if length key \<in> {16, 24, 32} then None
     else Some (ErrText (''crypto/aes: invalid key size '' @ string_of_nat (length key))))"

section \<open>JSON of a document\<close>

definition item_json :: "credential_item \<Rightarrow> json" where
  "item_json i = JObj [(''value'', JStr (ci_value i)), (''created_at'', JStr (rfc3339_nano (ci_created i))),
     (''updated_at'', JStr (rfc3339_nano (ci_updated i)))]"

definition document_json :: "document \<Rightarrow> json" where
  "document_json d = JObj [(''version'', JNum (of_int (dc_version d))),
     (''items'', JObj (map (\<lambda>(k, i). (k, item_json i)) (sort_stable (key_less fst) (dc_items d))))]"

definition params_json :: "kdf_params \<Rightarrow> json" where
  "params_json p = JObj [(''time'', JNum (of_int (int (kp_time p)))), (''memory_kib'', JNum (of_int (int (kp_memory p)))),
     (''threads'', JNum (of_int (int (kp_threads p)))), (''key_len'', JNum (of_int (int (kp_key_len p))))]"

definition envelope_json :: "envelope \<Rightarrow> json" where
  "envelope_json e = JObj [(''version'', JNum (of_int (en_version e))), (''kdf'', JStr (en_kdf e)),
     (''kdf_params'', params_json (en_params e)), (''cipher'', JStr (en_cipher e)), (''salt'', JStr (en_salt e)),
     (''nonce'', JStr (en_nonce e)), (''ciphertext'', JStr (en_ciphertext e))]"

text \<open>Decoding. A repeated field is decoded again into what is there: the fields of a structure are
  overwritten, the members of a map added, and \<open>null\<close> clears a map.\<close>

fun json_uint :: "nat \<Rightarrow> json \<Rightarrow> nat option" where
  "json_uint bits (JNum r) = (if r = of_int \<lfloor>r\<rfloor> \<and> 0 \<le> \<lfloor>r\<rfloor> \<and> \<lfloor>r\<rfloor> < 2 ^ bits then Some (nat \<lfloor>r\<rfloor>) else None)"
| "json_uint bits _ = None"

fun json_object :: "json \<Rightarrow> (string \<times> json) list option" where
  "json_object (JObj m) = Some m"
| "json_object JNull = Some []"
| "json_object _ = None"

fun json_time :: "json \<Rightarrow> gotime option" where
  "json_time (JStr s) = parse_time s"
| "json_time _ = None"

definition struct_members :: "json list \<Rightarrow> (string \<times> json) list option" where
  "struct_members vs = (if list_all (\<lambda>v. json_object v \<noteq> None) vs then Some (concat (map (the \<circ> json_object) vs)) else None)"

definition decode_item :: "json \<Rightarrow> credential_item option" where
  "decode_item j = Option.bind (json_object j) (\<lambda>m.
     Option.bind (last_field json_str [] (field_values ''value'' m)) (\<lambda>v.
     Option.bind (last_field json_time zero_time (field_values ''created_at'' m)) (\<lambda>c.
     Option.bind (last_field json_time zero_time (field_values ''updated_at'' m)) (\<lambda>u.
     Some \<lparr>ci_value = v, ci_created = c, ci_updated = u\<rparr>))))"

fun decode_items :: "credential_item smap \<Rightarrow> (string \<times> json) list \<Rightarrow> credential_item smap option" where
  "decode_items acc [] = Some acc"
| "decode_items acc ((k, j) # m) = Option.bind (decode_item j) (\<lambda>i. decode_items (AList.update k i acc) m)"

fun decode_item_maps :: "credential_item smap \<Rightarrow> json list \<Rightarrow> credential_item smap option" where
  "decode_item_maps acc [] = Some acc"
| "decode_item_maps acc (JNull # vs) = decode_item_maps [] vs"
| "decode_item_maps acc (JObj m # vs) = Option.bind (decode_items acc m) (\<lambda>acc. decode_item_maps acc vs)"
| "decode_item_maps acc (v # vs) = None"

definition decode_document :: "json \<Rightarrow> document option" where
  "decode_document j = Option.bind (json_object j) (\<lambda>m.
     Option.bind (last_field json_int 0 (field_values ''version'' m)) (\<lambda>v.
     Option.bind (decode_item_maps [] (map snd (filter (\<lambda>(k, v). equal_fold k ''items'') m))) (\<lambda>items.
     Some \<lparr>dc_version = v, dc_items = items\<rparr>)))"

definition decode_envelope :: "json \<Rightarrow> envelope option" where
  "decode_envelope j = Option.bind (json_object j) (\<lambda>m.
     Option.bind (struct_members (field_values ''kdf_params'' m)) (\<lambda>p.
     Option.bind (last_field (json_uint 32) 0 (field_values ''time'' p)) (\<lambda>t.
     Option.bind (last_field (json_uint 32) 0 (field_values ''memory_kib'' p)) (\<lambda>mem.
     Option.bind (last_field (json_uint 8) 0 (field_values ''threads'' p)) (\<lambda>th.
     Option.bind (last_field (json_uint 32) 0 (field_values ''key_len'' p)) (\<lambda>len.
     Option.bind (last_field json_int 0 (field_values ''version'' m)) (\<lambda>v.
     Option.bind (last_field json_str [] (field_values ''kdf'' m)) (\<lambda>kdf.
     Option.bind (last_field json_str [] (field_values ''cipher'' m)) (\<lambda>ci.
     Option.bind (last_field json_str [] (field_values ''salt'' m)) (\<lambda>salt.
     Option.bind (last_field json_str [] (field_values ''nonce'' m)) (\<lambda>nonce.
     Option.bind (last_field json_str [] (field_values ''ciphertext'' m)) (\<lambda>text.
     Some \<lparr>en_version = v, en_kdf = kdf, en_params = \<lparr>kp_time = t, kp_memory = mem, kp_threads = th, kp_key_len = len\<rparr>,
       en_cipher = ci, en_salt = salt, en_nonce = nonce, en_ciphertext = text\<rparr>))))))))))))"

section \<open>Encryption\<close>

text \<open>Random bytes may fail to come.\<close>

record randomness =
  rn_salt :: "gerror + string"
  rn_nonce :: "gerror + string"

definition defaultParams :: kdf_params where
  "defaultParams = \<lparr>kp_time = 3, kp_memory = 65536, kp_threads = 4, kp_key_len = 32\<rparr>"

definition passphrase_required :: gerror where
  "passphrase_required = ErrText ''credentials passphrase is required''"

definition marshal_document :: "document \<Rightarrow> gerror + string" where
  "marshal_document d =
     (if list_all (\<lambda>(k, i). t_year (ci_created i) \<le> 9999 \<and> t_year (ci_updated i) \<le> 9999) (dc_items d)
      then Inr (json_text compact 0 (document_json d))
      else Inl (ErrText ''json: error calling MarshalJSON for type time.Time: Time.MarshalJSON: year outside of range [0,9999]''))"

definition sealed_envelope :: "crypto \<Rightarrow> string \<Rightarrow> string \<Rightarrow> string \<Rightarrow> string \<Rightarrow> envelope" where
  "sealed_envelope cr plain key salt nonce =
     \<lparr>en_version = envelopeVersion, en_kdf = kdfName, en_params = defaultParams, en_cipher = cipherName,
      en_salt = b64_encode salt, en_nonce = b64_encode nonce, en_ciphertext = b64_encode (cr_seal cr key nonce plain)\<rparr>"

definition encryptDocument :: "crypto \<Rightarrow> randomness \<Rightarrow> document \<Rightarrow> string \<Rightarrow> gerror + string" where
  "encryptDocument cr rn d pass =
     (if pass = [] then Inl passphrase_required
      else bindr (marshal_document d) (\<lambda>plain.
        bindr (rn_salt rn) (\<lambda>salt.
          let key = deriveKey cr pass salt defaultParams in
          case new_cipher key of Some e \<Rightarrow> Inl e
          | None \<Rightarrow> bindr (rn_nonce rn) (\<lambda>nonce.
              Inr (json_text indented 0 (envelope_json (sealed_envelope cr plain key salt nonce)))))))"

text \<open>A value that is decoded, or the wrapped error of decoding.\<close>

definition decoded :: "string \<Rightarrow> gerror \<Rightarrow> 'a option \<Rightarrow> gerror + 'a" where
  "decoded msg e r = (case r of None \<Rightarrow> Inl (ErrWrap msg e) | Some x \<Rightarrow> Inr x)"

text \<open>\<open>aead.Open\<close> panics on a nonce of another size than the standard one; the panic is an error here.\<close>

definition open_sealed :: "crypto \<Rightarrow> string \<Rightarrow> string \<Rightarrow> string \<Rightarrow> gerror + string" where
  "open_sealed cr key nonce text =
     (case new_cipher key of Some e \<Rightarrow> Inl e
      | None \<Rightarrow>
          if length nonce \<noteq> 12 then Inl (ErrText ''panic: crypto/cipher: incorrect nonce length given to GCM'')
          else (case cr_open cr key nonce text of
              None \<Rightarrow> Inl (ErrText ''decrypt credentials store: invalid passphrase or corrupted store'')
            | Some plain \<Rightarrow> Inr plain))"

definition decryptDocument :: "crypto \<Rightarrow> string \<Rightarrow> string \<Rightarrow> gerror + document" where
  "decryptDocument cr content pass =
     (if pass = [] then Inl passphrase_required
      else bindr (decoded ''parse credentials store: '' (cr_json_error cr content)
          (Option.bind (json_parse content) decode_envelope)) (\<lambda>en.
        if en_version en \<noteq> envelopeVersion \<or> en_kdf en \<noteq> kdfName \<or> en_cipher en \<noteq> cipherName
        then Inl (ErrText ''unsupported credentials store format'')
        else bindr (decoded ''decode credentials salt: '' (cr_base64_error cr (en_salt en)) (b64_decode (en_salt en))) (\<lambda>salt.
          bindr (decoded ''decode credentials nonce: '' (cr_base64_error cr (en_nonce en)) (b64_decode (en_nonce en))) (\<lambda>nonce.
          bindr (decoded ''decode credentials ciphertext: '' (cr_base64_error cr (en_ciphertext en))
            (b64_decode (en_ciphertext en))) (\<lambda>text.
          bindr (open_sealed cr (deriveKey cr pass salt (en_params en)) nonce text) (\<lambda>plain.
          bindr (decoded ''parse decrypted credentials: '' (cr_json_error cr plain)
            (Option.bind (json_parse plain) decode_document)) (\<lambda>d.
          if dc_version d \<noteq> documentVersion then Inl (ErrText ''unsupported credentials document version'')
          else Inr d)))))))"

section \<open>Encoding and decoding agree\<close>

lemma equal_fold_fields [simp]: "equal_fold a b \<longleftrightarrow> to_lower a = to_lower b"
  by (simp add: equal_fold_def)

lemma json_uint_nat: "n < 2 ^ bits \<Longrightarrow> json_uint bits (JNum (of_int (int n))) = Some n"
proof -
  assume "n < 2 ^ bits"
  then have "int n < 2 ^ bits" by (metis of_nat_less_iff of_nat_numeral of_nat_power)
  then show ?thesis by simp
qed

lemma plain_nat [simp]: "json_plain (JNum (of_nat n))"
  using plain_num [of "int n"] by simp

lemma distinct_map_sort: "distinct (map f (sort_stable lt xs)) \<longleftrightarrow> distinct (map f xs)"
  by (rule mset_eq_imp_distinct_iff) simp

definition doc_ok :: "document \<Rightarrow> bool" where
  "doc_ok d \<longleftrightarrow> dc_version d = documentVersion \<and> distinct (map fst (dc_items d))
     \<and> list_all (\<lambda>(k, i). valid_time (ci_created i) \<and> valid_time (ci_updated i)) (dc_items d)"

lemma plain_list: "json_plain (JObj m) \<longleftrightarrow> distinct (map fst m) \<and> list_all (\<lambda>(k, v). json_plain v) m"
  by (subst json_plain.simps) (auto simp: list_all_iff)

lemma document_plain: "doc_ok d \<Longrightarrow> json_plain (document_json d)"
  by (auto simp: document_json_def plain_list doc_ok_def list_all_iff item_json_def comp_def case_prod_beta
      distinct_map_sort [of fst, simplified comp_def])

lemma envelope_plain: "json_plain (envelope_json e)"
  by (simp add: envelope_json_def params_json_def plain_list)

lemma decode_item_json: "valid_time (ci_created i) \<Longrightarrow> valid_time (ci_updated i) \<Longrightarrow> decode_item (item_json i) = Some i"
  by (simp add: decode_item_def item_json_def field_values_def last_field_def parse_rfc3339_nano to_lower_def lower_char_def is_upper_def)

lemma decode_items_json:
  assumes "list_all (\<lambda>(k, i). valid_time (ci_created i) \<and> valid_time (ci_updated i)) m" and "distinct (map fst (acc @ m))"
  shows "decode_items acc (map (\<lambda>(k, i). (k, item_json i)) m) = Some (acc @ m)"
  using assms
proof (induction m arbitrary: acc)
  case (Cons ki m)
  obtain k i where ki: "ki = (k, i)" by fastforce
  with Cons.prems have "AList.update k i acc = acc @ [(k, i)]" by (intro update_new) auto
  with Cons ki show ?case by (simp add: decode_item_json)
qed simp

lemma decode_envelope_json:
  "kp_time (en_params e) < 2 ^ 32 \<Longrightarrow> kp_memory (en_params e) < 2 ^ 32 \<Longrightarrow> kp_threads (en_params e) < 2 ^ 8
    \<Longrightarrow> kp_key_len (en_params e) < 2 ^ 32 \<Longrightarrow> en_version e = 1 \<Longrightarrow> decode_envelope (envelope_json e) = Some e"
  by (cases "en_params e")
     (simp add: decode_envelope_def envelope_json_def params_json_def struct_members_def field_values_def last_field_def
      json_uint_nat to_lower_def lower_char_def is_upper_def)

lemma decode_document_json:
  assumes "doc_ok d"
  shows "decode_document (document_json d) = Some (d\<lparr>dc_items := sort_stable (key_less fst) (dc_items d)\<rparr>)"
proof -
  let ?items = "sort_stable (key_less fst) (dc_items d)"
  have "list_all (\<lambda>(k, i). valid_time (ci_created i) \<and> valid_time (ci_updated i)) ?items" "distinct (map fst ?items)"
    using assms by (auto simp: doc_ok_def list_all_iff distinct_map_sort)
  with decode_items_json [of ?items "[]"] assms show ?thesis
    by (simp add: decode_document_def document_json_def field_values_def last_field_def doc_ok_def documentVersion_def
        to_lower_def lower_char_def is_upper_def)
qed

lemma new_cipher_derived: "crypto_ok cr \<Longrightarrow> new_cipher (deriveKey cr pass salt defaultParams) = None"
  by (simp add: new_cipher_def deriveKey_def defaultParams_def crypto_ok_def)

text \<open>What was encrypted is decrypted with the same passphrase, its items sorted by key.\<close>

lemma decrypt_encrypted:
  assumes "crypto_ok cr" and "doc_ok d" and "encryptDocument cr rn d pass = Inr content"
    and "\<And>nonce. rn_nonce rn = Inr nonce \<Longrightarrow> length nonce = 12"
  shows "decryptDocument cr content pass = Inr (d\<lparr>dc_items := sort_stable (key_less fst) (dc_items d)\<rparr>)"
proof -
  let ?plain = "json_text compact 0 (document_json d)"
  obtain salt nonce where rn: "rn_salt rn = Inr salt" "rn_nonce rn = Inr nonce" and pass: "pass \<noteq> []"
    and content: "content = json_text indented 0
        (envelope_json (sealed_envelope cr ?plain (deriveKey cr pass salt defaultParams) salt nonce))"
    using assms(3) by (auto simp: encryptDocument_def marshal_document_def Let_def result_simps split: if_splits option.splits)
  let ?key = "deriveKey cr pass salt defaultParams"
  let ?en = "sealed_envelope cr ?plain ?key salt nonce"
  have "json_parse content = Some (envelope_json ?en)" unfolding content by (rule json_parse_text) (simp_all add: envelope_plain)
  moreover have "decode_envelope (envelope_json ?en) = Some ?en"
    by (rule decode_envelope_json) (simp_all add: sealed_envelope_def defaultParams_def envelopeVersion_def)
  moreover have "json_parse ?plain = Some (document_json d)"
    by (rule json_parse_text) (simp_all add: document_plain [OF assms(2)])
  moreover have "cr_open cr ?key nonce (cr_seal cr ?key nonce ?plain) = Some ?plain"
    using assms(1) assms(4) [OF rn(2)] by (auto simp: crypto_ok_def deriveKey_def defaultParams_def)
  ultimately show ?thesis
    using pass assms(2,4) rn(2) new_cipher_derived [OF assms(1)] decode_document_json [OF assms(2)]
    by (simp add: decryptDocument_def decoded_def sealed_envelope_def open_sealed_def doc_ok_def)
qed

end
