(* ===== verification/CredentialStore.thy ===== *)
theory CredentialStore
  imports CredentialFile Config
begin

text \<open>
  The operations on the encrypted store, on its document and its file together, and the credential
  commands of \<open>cli/root.go\<close>. System calls fail as in \<open>ArtifactIO\<close>; random bytes are read by the number
  of calls made before.
\<close>

section \<open>The store\<close>

record file_store =
  ef_path :: string
  ef_passphrase :: string
  ef_doc :: document

definition DefaultPath :: "string \<Rightarrow> string" where
  "DefaultPath home = path_join [home, ''credentials.enc'']"

text \<open>The content is what \<open>os.ReadFile\<close> gives: \<open>None\<close> if there is no file.\<close>

definition OpenEncryptedFile :: "crypto \<Rightarrow> string \<Rightarrow> string \<Rightarrow> (gerror + string option) \<Rightarrow> gerror + file_store" where
  "OpenEncryptedFile cr path pass content =
     (let store = \<lparr>ef_path = path, ef_passphrase = pass, ef_doc = \<lparr>dc_version = documentVersion, dc_items = []\<rparr>\<rparr> in
      case content of
        Inl e \<Rightarrow> Inl (ErrWrap ''read credentials store: '' e)
      | Inr None \<Rightarrow> Inr store
      | Inr (Some text) \<Rightarrow>
          if text = [] then Inr store
          else bindr (decryptDocument cr text pass) (\<lambda>doc. Inr (store\<lparr>ef_doc := doc\<rparr>)))"

definition ef_save :: "crypto \<Rightarrow> (nat \<Rightarrow> randomness) \<Rightarrow> string \<Rightarrow> file_store \<Rightarrow> fs \<Rightarrow> fs \<times> gerror option" where
  "ef_save cr rn tmpPath st s =
     then_ok (wrap_err ''create credentials directory: '' (fs_quiet s)) (\<lambda>s.
       (case encryptDocument cr (rn (fs_ops s)) (ef_doc st) (ef_passphrase st) of
          Inl e \<Rightarrow> (s, Some e)
        | Inr content \<Rightarrow>
            replaceFile ''create credentials temp file: '' ''replace credentials store: '' tmpPath (ef_path st) content s))"

text \<open>\<open>os.Stat\<close> says whether there is a file, or fails.\<close>

definition ef_init :: "crypto \<Rightarrow> (nat \<Rightarrow> randomness) \<Rightarrow> string \<Rightarrow> bool \<Rightarrow> (gerror + bool) \<Rightarrow> file_store \<Rightarrow> fs
    \<Rightarrow> fs \<times> gerror option" where
  "ef_init cr rn tmpPath force stat st s =
     (if force then ef_save cr rn tmpPath st s
      else (case stat of
          Inr True \<Rightarrow> (s, Some (ErrText (''credentials store already exists: '' @ ef_path st)))
        | Inl e \<Rightarrow> (s, Some e)
        | Inr False \<Rightarrow> ef_save cr rn tmpPath st s))"

type_synonym stored = "file_store \<times> fs"

definition ef_get :: "stored \<Rightarrow> string \<Rightarrow> gerror + secret" where
  "ef_get x key = get_item (dc_items (ef_doc (fst x))) key"

definition with_items :: "credential_item smap \<Rightarrow> file_store \<Rightarrow> file_store" where
  "with_items items st = st\<lparr>ef_doc := (ef_doc st)\<lparr>dc_items := items\<rparr>\<rparr>"

text \<open>A change of the document is made in memory, then saved; it stays when it cannot be saved.\<close>

definition ef_commit :: "crypto \<Rightarrow> (nat \<Rightarrow> randomness) \<Rightarrow> string \<Rightarrow> credential_item smap \<Rightarrow> stored \<Rightarrow> stored \<times> gerror option" where
  "ef_commit cr rn tmpPath items x =
     (case x of (st, s) \<Rightarrow>
        let st' = with_items items st in case ef_save cr rn tmpPath st' s of (s', err) \<Rightarrow> ((st', s'), err))"

definition ef_set :: "crypto \<Rightarrow> (nat \<Rightarrow> randomness) \<Rightarrow> string \<Rightarrow> gotime \<Rightarrow> string \<Rightarrow> string \<Rightarrow> stored \<Rightarrow> stored \<times> gerror option" where
  "ef_set cr rn tmpPath now key v x =
     (case SplitKey key of Inl e \<Rightarrow> (x, Some e)
      | Inr _ \<Rightarrow>
          if v = [] then (x, Some (ErrText ''credential value must not be empty''))
          else ef_commit cr rn tmpPath (set_item now key v (dc_items (ef_doc (fst x)))) x)"

definition ef_delete :: "crypto \<Rightarrow> (nat \<Rightarrow> randomness) \<Rightarrow> string \<Rightarrow> string \<Rightarrow> stored \<Rightarrow> stored \<times> gerror option" where
  "ef_delete cr rn tmpPath key x =
     (case SplitKey key of Inl e \<Rightarrow> (x, Some e)
      | Inr _ \<Rightarrow>
          if map_of (dc_items (ef_doc (fst x))) key = None then (x, Some ErrNotFound)
          else ef_commit cr rn tmpPath (AList.delete key (dc_items (ef_doc (fst x)))) x)"

definition ef_list :: "stored \<Rightarrow> gerror + credential_metadata list" where
  "ef_list x = list_items (dc_items (ef_doc (fst x)))"

lemma ef_commit_doc: "ef_commit cr rn tmpPath items x = (x', err) \<Longrightarrow> fst x' = with_items items (fst x)"
  by (auto simp: ef_commit_def Let_def split: prod.splits)

lemma with_items_doc [simp]: "dc_items (ef_doc (with_items items st)) = items"
  by (simp add: with_items_def)

interpretation encrypted: credential_store "\<lambda>x. items_ok (dc_items (ef_doc (fst x)))" "\<lambda>x. map_of (dc_items (ef_doc (fst x)))"
  ef_get "ef_set cr rn tmpPath" "ef_delete cr rn tmpPath" ef_list for cr rn tmpPath
proof
  fix k x now v
  let ?items = "\<lambda>x :: stored. dc_items (ef_doc (fst x))"
  show "canonical_key k \<Longrightarrow> ef_get x k = (case map_of (?items x) k of None \<Rightarrow> Inl ErrNotFound
      | Some i \<Rightarrow> Inr \<lparr>sc_key = k, sc_secret = ci_value i, sc_created = ci_created i, sc_updated = ci_updated i\<rparr>)"
    by (simp add: ef_get_def get_item_canonical)
  show "\<not> canonical_key k \<Longrightarrow> \<exists>e. ef_get x k = Inl e" by (simp add: ef_get_def get_item_other)
  show "items_ok (?items x) \<Longrightarrow> map_of (?items x) k = Some i \<Longrightarrow> canonical_key k" for i by (rule items_ok_canonical)
  assume ok: "items_ok (?items x)"
  show "case ef_set cr rn tmpPath now k v x of (x', err) \<Rightarrow> items_ok (?items x')
      \<and> (map_of (?items x') = (map_of (?items x))(k \<mapsto> stamped_item now v (map_of (?items x) k)) \<and> canonical_key k
         \<or> err \<noteq> None \<and> map_of (?items x') = map_of (?items x))"
    using ok by (auto simp: ef_set_def map_of_set_item items_ok_set canonical_split split: sum.split dest!: ef_commit_doc)
  show "case ef_delete cr rn tmpPath k x of (x', err) \<Rightarrow> items_ok (?items x')
      \<and> (map_of (?items x') = (map_of (?items x))(k := None) \<and> canonical_key k
         \<or> err \<noteq> None \<and> map_of (?items x') = map_of (?items x))"
    using ok by (auto simp: ef_delete_def delete_conv' items_ok_delete canonical_split split: sum.split dest!: ef_commit_doc)
  show "\<exists>ms. ef_list x = Inr ms \<and> sorted (map md_key ms) \<and> distinct (map md_key ms) \<and> set (map md_key ms) = dom (map_of (?items x))"
    using list_items_ok [OF ok] by (simp add: ef_list_def dom_map_of_conv_image_fst)
qed

section \<open>The file survives\<close>

text \<open>The items that a process finds which opens the files \<open>m\<close> with the passphrase of the store.\<close>

definition found_items :: "crypto \<Rightarrow> file_store \<Rightarrow> string smap \<Rightarrow> (string \<Rightarrow> credential_item option) option" where
  "found_items cr st m = (case OpenEncryptedFile cr (ef_path st) (ef_passphrase st) (Inr (map_of m (ef_path st))) of
      Inl e \<Rightarrow> None | Inr st' \<Rightarrow> Some (map_of (dc_items (ef_doc st'))))"

definition nonces_ok :: "(nat \<Rightarrow> randomness) \<Rightarrow> bool" where
  "nonces_ok rn \<longleftrightarrow> (\<forall>i nonce. rn_nonce (rn i) = Inr nonce \<longrightarrow> length nonce = 12)"

text \<open>The texts that the file may have while a document is saved: the old one, or an encryption.\<close>

definition encryptions :: "crypto \<Rightarrow> (nat \<Rightarrow> randomness) \<Rightarrow> file_store \<Rightarrow> string option set" where
  "encryptions cr rn st = {Some c | c i. encryptDocument cr (rn i) (ef_doc st) (ef_passphrase st) = Inr c}"

lemma found_encryption:
  assumes "crypto_ok cr" and "nonces_ok rn" and "doc_ok (ef_doc st)"
    and "map_of m (ef_path st) \<in> encryptions cr rn st"
  shows "found_items cr st m = Some (map_of (dc_items (ef_doc st)))"
proof -
  obtain c i where c: "map_of m (ef_path st) = Some c" "encryptDocument cr (rn i) (ef_doc st) (ef_passphrase st) = Inr c"
    using assms(4) by (auto simp: encryptions_def)
  have "c \<noteq> []" using c(2) json_text_ne
    by (auto simp: encryptDocument_def Let_def result_simps split: if_splits option.splits)
  moreover have "decryptDocument cr c (ef_passphrase st)
      = Inr ((ef_doc st)\<lparr>dc_items := sort_stable (key_less fst) (dc_items (ef_doc st))\<rparr>)"
    using assms(2) by (intro decrypt_encrypted [OF assms(1,3) c(2)]) (simp add: nonces_ok_def)
  moreover have "map_of (sort_stable (key_less fst) (dc_items (ef_doc st))) = map_of (dc_items (ef_doc st))"
    using assms(3) by (intro map_of_inject_set [THEN iffD2]) (simp_all add: doc_ok_def distinct_map_sort)
  ultimately show ?thesis using c(1) by (simp add: found_items_def OpenEncryptedFile_def Let_def)
qed

lemma ef_save_ends:
  fixes cr rn st s
  assumes "fs_trace s = []" and "tmpPath \<noteq> ef_path st"
  defines "A \<equiv> all_or_nothing (ef_path st) (insert (map_of (fs_files s) (ef_path st)) (encryptions cr rn st))"
  shows "ends A (\<lambda>t. A t \<and> map_of (fs_files t) (ef_path st) \<in> encryptions cr rn st) (ef_save cr rn tmpPath st s)"
proof -
  have "A s" using assms(1) by (simp add: A_def all_or_nothing_def)
  show ?thesis
    unfolding ef_save_def
  proof (rule ends_then_ok)
    show "ends A A (wrap_err ''create credentials directory: '' (fs_quiet s))"
      using \<open>A s\<close> unfolding A_def by (rule ends_mkdir)
    fix t
    assume "A t"
    show "ends A (\<lambda>t. A t \<and> map_of (fs_files t) (ef_path st) \<in> encryptions cr rn st)
       (case encryptDocument cr (rn (fs_ops t)) (ef_doc st) (ef_passphrase st) of Inl e \<Rightarrow> (t, Some e)
        | Inr content \<Rightarrow> replaceFile ''create credentials temp file: '' ''replace credentials store: '' tmpPath (ef_path st) content t)"
    proof (cases "encryptDocument cr (rn (fs_ops t)) (ef_doc st) (ef_passphrase st)")
      case (Inl e)
      with \<open>A t\<close> show ?thesis by (simp add: ends_def)
    next
      case (Inr content)
      then have "Some content \<in> encryptions cr rn st" by (auto simp: encryptions_def)
      with Inr \<open>A t\<close> assms(2) show ?thesis
        unfolding A_def
        by (cases "replaceFile ''create credentials temp file: '' ''replace credentials store: '' tmpPath (ef_path st) content t";
            cases "snd (replaceFile ''create credentials temp file: '' ''replace credentials store: '' tmpPath (ef_path st) content t)")
           (use replaceFile_ends [OF \<open>A t\<close> [unfolded A_def] assms(2), of content "''create credentials temp file: ''"
               "''replace credentials store: ''"] in \<open>auto simp: ends_def\<close>)
    qed
  qed
qed

lemma ef_commit_found:
  assumes "crypto_ok cr" and "nonces_ok rn" and "tmpPath \<noteq> ef_path st" and "fs_trace s = []"
    and "doc_ok (ef_doc (with_items items st))"
    and "ef_commit cr rn tmpPath items (st, s) = ((st', s'), err)"
  shows "(\<forall>m \<in> set (fs_trace s'). found_items cr st m \<in> {found_items cr st (fs_files s), Some (map_of items)})
    \<and> (err = None \<longrightarrow> found_items cr st (fs_files s') = Some (map_of items))"
proof -
  let ?st = "with_items items st" and ?p = "ef_path st"
  have same: "ef_path ?st = ?p" "\<And>m. found_items cr ?st m = found_items cr st m"
    by (simp_all add: with_items_def found_items_def)
  obtain "st' = ?st" and save: "ef_save cr rn tmpPath ?st s = (s', err)"
    using assms(6) by (auto simp: ef_commit_def Let_def split: prod.splits)
  from ef_save_ends [OF assms(4), of tmpPath ?st cr rn] assms(3) save same(1)
  have texts: "all_or_nothing ?p (insert (map_of (fs_files s) ?p) (encryptions cr rn ?st)) s'"
    and ok: "err = None \<Longrightarrow> map_of (fs_files s') ?p \<in> encryptions cr rn ?st"
    by (cases err; simp add: ends_def)+
  have new: "found_items cr st m = Some (map_of items)" if "map_of m ?p \<in> encryptions cr rn ?st" for m
    using found_encryption [OF assms(1,2,5), of m] that by (simp add: same)
  have old: "found_items cr st m = found_items cr st (fs_files s)" if "map_of m ?p = map_of (fs_files s) ?p" for m
    using that by (simp add: found_items_def)
  have "found_items cr st m \<in> {found_items cr st (fs_files s), Some (map_of items)}" if "m \<in> set (fs_trace s')" for m
    using texts that old [of m] new [of m] unfolding all_or_nothing_def by blast
  with ok new show ?thesis by blast
qed

lemma doc_ok_set:
  assumes "doc_ok (ef_doc st)" and "valid_time now"
  shows "doc_ok (ef_doc (with_items (set_item now k v (dc_items (ef_doc st))) st))"
proof -
  let ?items = "dc_items (ef_doc st)"
  define i where "i = stamped_item now v (map_of ?items k)"
  have "valid_time (ci_created i)" "valid_time (ci_updated i)"
    using assms by (auto simp: i_def stamped_item_def Let_def doc_ok_def list_all_iff is_zero_time_def
        split: option.split dest: map_of_SomeD)
  moreover have "x \<in> insert (k, i) (set ?items)" if "x \<in> set (AList.update k i ?items)" for x
    using that set_update_subset [of k i ?items] by blast
  ultimately have "list_all (\<lambda>(k, i). valid_time (ci_created i) \<and> valid_time (ci_updated i)) (AList.update k i ?items)"
    using assms(1) by (fastforce simp: doc_ok_def list_all_iff)
  with assms(1) show ?thesis by (simp add: doc_ok_def with_items_def set_item_def distinct_update i_def)
qed

lemma credential_set_found:
  assumes "crypto_ok cr" and "nonces_ok rn" and "tmpPath \<noteq> ef_path st" and "fs_trace s = []"
    and "doc_ok (ef_doc st)" and "valid_time now"
    and "found_items cr st (fs_files s) = Some (map_of (dc_items (ef_doc st)))"
    and "ef_set cr rn tmpPath now k v (st, s) = ((st', s'), err)"
  defines "old \<equiv> map_of (dc_items (ef_doc st))"
  defines "new \<equiv> old(k \<mapsto> stamped_item now v (old k))"
  shows "(\<forall>m \<in> set (fs_trace s'). found_items cr st m \<in> {Some old, Some new})
    \<and> (err = None \<longrightarrow> found_items cr st (fs_files s') = Some new)"
proof (cases "(\<exists>e. SplitKey k = Inl e) \<or> v = []")
  case True
  with assms(4,7,8) show ?thesis by (auto simp: ef_set_def split: sum.splits)
next
  case False
  then have "ef_commit cr rn tmpPath (set_item now k v (dc_items (ef_doc st))) (st, s) = ((st', s'), err)"
    using assms(8) by (auto simp: ef_set_def split: sum.splits)
  from ef_commit_found [OF assms(1-4) doc_ok_set [OF assms(5,6)] this] assms(7)
  show ?thesis by (simp add: map_of_set_item new_def old_def)
qed


text \<open>A cipher that satisfies the law, for examples.\<close>

definition plain_crypto :: crypto where
  "plain_crypto = \<lparr>cr_kdf = (\<lambda>p s t m h n. replicate n (CHR ''k'')), cr_seal = (\<lambda>k n p. p), cr_open = (\<lambda>k n c. Some c),
     cr_json_error = (\<lambda>t. ErrText ''json''), cr_base64_error = (\<lambda>t. ErrText ''base64'')\<rparr>"

definition sample_random :: "nat \<Rightarrow> randomness" where
  "sample_random i = \<lparr>rn_salt = Inr ''salt'', rn_nonce = Inr ''nonce_nonce_''\<rparr>"

definition sample_store :: file_store where
  "sample_store = \<lparr>ef_path = ''/h/c'', ef_passphrase = ''pw'', ef_doc = \<lparr>dc_version = 1, dc_items = []\<rparr>\<rparr>"

definition empty_fs :: fs where
  "empty_fs = \<lparr>fs_files = [], fs_ops = 0, fs_fault = (\<lambda>n. None), fs_short = (\<lambda>n. 0), fs_trace = []\<rparr>"

lemma sample_crypto_ok: "crypto_ok plain_crypto" "nonces_ok sample_random"
  by (simp_all add: crypto_ok_def plain_crypto_def nonces_ok_def sample_random_def)


section \<open>The commands\<close>

text \<open>What a process of the command finds: its environment, the answers at the terminal and on standard
  input, errors of reading and of looking for the store, the time, and the name of the temporary
  file it would get.\<close>

record cred_process =
  cv_getenv :: "string \<Rightarrow> string"
  cv_user_home :: "string option"
  cv_exists :: "string \<Rightarrow> bool"
  cv_terminal :: bool
  cv_passphrase :: "gerror + string"
  cv_secret :: "gerror + string"
  cv_stdin :: "gerror + string"
  cv_read_error :: "gerror option"
  cv_stat_error :: "gerror option"
  cv_now :: gotime
  cv_crypto :: crypto
  cv_random :: "nat \<Rightarrow> randomness"
  cv_tmp :: string

definition PassphraseFromEnvOrPrompt :: "cred_process \<Rightarrow> gerror + string" where
  "PassphraseFromEnvOrPrompt p =
     (let v = cv_getenv p ''SWITCHBOARD_CREDENTIALS_PASSPHRASE'' in
      if v \<noteq> [] then Inr v
      else if \<not> cv_terminal p
      then Inl (ErrText ''SWITCHBOARD_CREDENTIALS_PASSPHRASE is required in non-interactive mode'')
      else bindr (cv_passphrase p) (\<lambda>content.
        if trim_space content = [] then Inl (ErrText ''credentials passphrase must not be empty'')
        else Inr (trim_space content)))"

definition SecretFromPrompt :: "cred_process \<Rightarrow> gerror + string" where
  "SecretFromPrompt p =
     (if \<not> cv_terminal p then Inl (ErrText ''secret value source is required in non-interactive mode'')
      else bindr (cv_secret p) (\<lambda>content.
        if trim_space content = [] then Inl (ErrText ''secret value must not be empty'') else Inr (trim_space content)))"

definition openCredentialStoreAtHome :: "cred_process \<Rightarrow> string \<Rightarrow> fs \<Rightarrow> gerror + file_store" where
  "openCredentialStoreAtHome p home s = bindr (PassphraseFromEnvOrPrompt p) (\<lambda>pass.
     OpenEncryptedFile (cv_crypto p) (DefaultPath home) pass
       (case cv_read_error p of Some e \<Rightarrow> Inl e | None \<Rightarrow> Inr (map_of (fs_files s) (DefaultPath home))))"

definition openCredentialStore :: "cred_process \<Rightarrow> string \<Rightarrow> fs \<Rightarrow> gerror + file_store" where
  "openCredentialStore p flag s =
     bindr (home_resolve (cv_getenv p) (cv_user_home p) (cv_exists p) flag) (\<lambda>home. openCredentialStoreAtHome p home s)"

definition stat_store :: "cred_process \<Rightarrow> string \<Rightarrow> fs \<Rightarrow> gerror + bool" where
  "stat_store p path s = (case cv_stat_error p of Some e \<Rightarrow> Inl e | None \<Rightarrow> Inr (map_of (fs_files s) path \<noteq> None))"

text \<open>A resolver without a store is one that was not asked for a passphrase because there is nothing to open.\<close>

definition optionalCredentialResolverAtHome :: "cred_process \<Rightarrow> string \<Rightarrow> fs \<Rightarrow> gerror + file_store option" where
  "optionalCredentialResolverAtHome p home s =
     (let opened = bindr (openCredentialStoreAtHome p home s) (\<lambda>st. Inr (Some st)) in
      if trim_space (cv_getenv p ''SWITCHBOARD_CREDENTIALS_PASSPHRASE'') = []
      then (case stat_store p (DefaultPath home) s of Inl e \<Rightarrow> Inl e | Inr False \<Rightarrow> Inr None | Inr True \<Rightarrow> opened)
      else opened)"

definition credentialValue :: "cred_process \<Rightarrow> string \<Rightarrow> string \<Rightarrow> bool \<Rightarrow> gerror + string" where
  "credentialValue p key fromEnv valueStdin =
     (if fromEnv \<noteq> [] \<and> valueStdin then Inl (ErrText ''--from-env and --value-stdin are mutually exclusive'')
      else if fromEnv \<noteq> [] then
        (if cv_getenv p fromEnv = [] then Inl (ErrText (''environment variable '' @ fromEnv @ '' is empty or unset''))
         else Inr (cv_getenv p fromEnv))
      else if valueStdin then bindr (cv_stdin p) (\<lambda>content.
        let v = trim_right (\<lambda>c. c = CHR 0x0D \<or> c = CHR 0x0A) content in
        if v = [] then Inl (ErrText (''stdin value for '' @ key @ '' is empty'')) else Inr v)
      else SecretFromPrompt p)"

text \<open>A command leaves the files, what it printed, and its error.\<close>

type_synonym cred_outcome = "fs \<times> string \<times> gerror option"

definition line :: "string \<Rightarrow> string" where
  "line s = s @ [CHR 0x0A]"

definition failed_cred :: "fs \<Rightarrow> gerror \<Rightarrow> cred_outcome" where
  "failed_cred s e = (s, [], Some e)"

definition with_store :: "cred_process \<Rightarrow> string \<Rightarrow> fs \<Rightarrow> (file_store \<Rightarrow> cred_outcome) \<Rightarrow> cred_outcome" where
  "with_store p flag s k = (case openCredentialStore p flag s of Inl e \<Rightarrow> failed_cred s e | Inr st \<Rightarrow> k st)"

text \<open>After a change: its message, or its error.\<close>

definition reported :: "string \<Rightarrow> fs \<times> gerror option \<Rightarrow> cred_outcome" where
  "reported msg r = (case r of (s, Some e) \<Rightarrow> failed_cred s e | (s, None) \<Rightarrow> (s, line msg, None))"

definition credentials_init :: "cred_process \<Rightarrow> string \<Rightarrow> bool \<Rightarrow> fs \<Rightarrow> cred_outcome" where
  "credentials_init p flag force s = with_store p flag s (\<lambda>st.
     reported (''Initialized credentials store: '' @ ef_path st)
       (ef_init (cv_crypto p) (cv_random p) (cv_tmp p) force (stat_store p (ef_path st) s) st s))"

definition credentials_set :: "cred_process \<Rightarrow> string \<Rightarrow> string \<Rightarrow> string \<Rightarrow> string \<Rightarrow> bool \<Rightarrow> fs \<Rightarrow> cred_outcome" where
  "credentials_set p flag provider name fromEnv valueStdin s =
     (case Key provider name of Inl e \<Rightarrow> failed_cred s e
      | Inr key \<Rightarrow> (case credentialValue p key fromEnv valueStdin of Inl e \<Rightarrow> failed_cred s e
          | Inr v \<Rightarrow> with_store p flag s (\<lambda>st.
              case ef_set (cv_crypto p) (cv_random p) (cv_tmp p) (cv_now p) key v (st, s) of
                (x, err) \<Rightarrow> reported (''Stored credential: '' @ key) (snd x, err))))"

definition credentials_get :: "cred_process \<Rightarrow> string \<Rightarrow> string \<Rightarrow> string \<Rightarrow> bool \<Rightarrow> fs \<Rightarrow> cred_outcome" where
  "credentials_get p flag provider name shown s =
     (case Key provider name of Inl e \<Rightarrow> failed_cred s e
      | Inr key \<Rightarrow> with_store p flag s (\<lambda>st.
          case ef_get (st, s) key of Inl e \<Rightarrow> failed_cred s e
          | Inr secret \<Rightarrow> (s, line (if shown then sc_secret secret else ''Credential exists: '' @ key), None)))"

definition credentials_delete :: "cred_process \<Rightarrow> string \<Rightarrow> string \<Rightarrow> string \<Rightarrow> fs \<Rightarrow> cred_outcome" where
  "credentials_delete p flag provider name s =
     (case Key provider name of Inl e \<Rightarrow> failed_cred s e
      | Inr key \<Rightarrow> with_store p flag s (\<lambda>st.
          case ef_delete (cv_crypto p) (cv_random p) (cv_tmp p) key (st, s) of
            (x, err) \<Rightarrow> reported (''Deleted credential: '' @ key) (snd x, err)))"

text \<open>\<open>time.RFC3339\<close> has no fraction.\<close>

definition rfc3339 :: "gotime \<Rightarrow> string" where
  "rfc3339 t = rfc3339_nano (GoTime (t_year t) (t_month t) (t_day t) (t_hour t) (t_min t) (t_sec t) 0)"

definition metadata_json :: "credential_metadata \<Rightarrow> json" where
  "metadata_json m = JObj [(''key'', JStr (md_key m)), (''provider'', JStr (md_provider m)), (''name'', JStr (md_name m)),
     (''created_at'', JStr (rfc3339_nano (md_created m))), (''updated_at'', JStr (rfc3339_nano (md_updated m)))]"

definition credentials_list :: "cred_process \<Rightarrow> string \<Rightarrow> bool \<Rightarrow> fs \<Rightarrow> cred_outcome" where
  "credentials_list p flag as_json s = with_store p flag s (\<lambda>st.
     case ef_list (st, s) of Inl e \<Rightarrow> failed_cred s e
     | Inr items \<Rightarrow>
         if as_json then (s, line (json_text compact 0 (JArr (map metadata_json items))), None)
         else (s, concat (map (\<lambda>m. line (md_key m @ [CHR 0x09] @ ''updated='' @ rfc3339 (md_updated m))) items), None))"

definition credentials_status :: "cred_process \<Rightarrow> string \<Rightarrow> string \<Rightarrow> fs \<Rightarrow> cred_outcome" where
  "credentials_status p flag arg s =
     (let provider = replace_char (CHR ''-'') (CHR ''_'') (to_lower arg) in
      with_store p flag s (\<lambda>st.
        case ef_list (st, s) of Inl e \<Rightarrow> failed_cred s e
        | Inr items \<Rightarrow>
            let mine = filter (\<lambda>m. md_provider m = provider) items in
            (s, if mine = [] then line (''No stored credentials for provider: '' @ provider)
                else concat (map (\<lambda>m. line (md_key m @ [CHR 0x09] @ ''present'' @ [CHR 0x09] @ ''updated='' @ rfc3339 (md_updated m))) mine),
             None)))"

section \<open>One process after another\<close>

text \<open>A process that gets the passphrase \<open>pass\<close> and the home \<open>home\<close>, and can read the file.\<close>

definition uses :: "cred_process \<Rightarrow> string \<Rightarrow> string \<Rightarrow> string \<Rightarrow> bool" where
  "uses p flag home pass \<longleftrightarrow> home_resolve (cv_getenv p) (cv_user_home p) (cv_exists p) flag = Inr home
     \<and> PassphraseFromEnvOrPrompt p = Inr pass \<and> cv_read_error p = None"

lemma open_uses:
  "uses p flag home pass \<Longrightarrow> openCredentialStore p flag s
    = OpenEncryptedFile (cv_crypto p) (DefaultPath home) pass (Inr (map_of (fs_files s) (DefaultPath home)))"
  by (simp add: uses_def openCredentialStore_def openCredentialStoreAtHome_def)

lemma last_field_Some: "last_field conv zero vs = Some x \<Longrightarrow> x = zero \<or> (\<exists>v. conv v = Some x)"
  by (auto simp: last_field_def split: if_splits)

lemma json_time_valid: "json_time v = Some t \<Longrightarrow> valid_time t"
  by (cases v) (auto simp: parse_time_def Let_def split: if_splits option.splits)

abbreviation times_valid :: "credential_item smap \<Rightarrow> bool" where
  "times_valid \<equiv> list_all (\<lambda>(k, i). valid_time (ci_created i) \<and> valid_time (ci_updated i))"

lemma decode_item_valid:
  assumes "decode_item j = Some i"
  shows "valid_time (ci_created i) \<and> valid_time (ci_updated i)"
proof -
  have z: "valid_time zero_time" by (simp add: zero_time_def valid_time_def days_in_month_def)
  from assms have "\<exists>vs. last_field json_time zero_time vs = Some (ci_created i)"
    "\<exists>vs. last_field json_time zero_time vs = Some (ci_updated i)"
    by (auto simp: decode_item_def bind_eq_Some_conv)
  then show ?thesis using last_field_Some [of json_time zero_time] json_time_valid z by metis
qed

lemma decode_items_ok:
  "decode_items acc m = Some r \<Longrightarrow> distinct (map fst acc) \<Longrightarrow> times_valid acc \<Longrightarrow> distinct (map fst r) \<and> times_valid r"
proof (induction acc m rule: decode_items.induct)
  case (2 acc k j m)
  then obtain i where i: "decode_item j = Some i" "decode_items (AList.update k i acc) m = Some r"
    by (auto simp: bind_eq_Some_conv)
  have "x \<in> insert (k, i) (set acc)" if "x \<in> set (AList.update k i acc)" for x
    using that set_update_subset [of k i acc] by blast
  then have "times_valid (AList.update k i acc)"
    using 2(4) decode_item_valid [OF i(1)] by (fastforce simp: list_all_iff)
  with 2(1) [OF i] 2(3) show ?case by (simp add: distinct_update)
qed simp

lemma decode_item_maps_ok:
  "decode_item_maps acc vs = Some r \<Longrightarrow> distinct (map fst acc) \<Longrightarrow> times_valid acc \<Longrightarrow> distinct (map fst r) \<and> times_valid r"
  by (induction acc vs rule: decode_item_maps.induct) (auto simp: bind_eq_Some_conv dest: decode_items_ok)

lemma decode_document_ok: "decode_document j = Some d \<Longrightarrow> distinct (map fst (dc_items d)) \<and> times_valid (dc_items d)"
  by (auto simp: decode_document_def bind_eq_Some_conv dest!: decode_item_maps_ok)

lemma decrypted_ok: "decryptDocument cr c pass = Inr d \<Longrightarrow> doc_ok d"
proof -
  assume *: "decryptDocument cr c pass = Inr d"
  then have "dc_version d = documentVersion" by (auto simp: decryptDocument_def result_simps split: if_splits)
  moreover obtain msg e plain where "decoded msg e (Option.bind (json_parse plain) decode_document) = Inr d"
    using * by (auto simp: decryptDocument_def result_simps split: if_splits)
  then have "\<exists>j. decode_document j = Some d" by (auto simp: decoded_def bind_eq_Some_conv split: option.splits)
  ultimately show ?thesis using decode_document_ok by (auto simp: doc_ok_def)
qed

lemma opened_store: "OpenEncryptedFile cr path pass content = Inr st \<Longrightarrow>
    ef_path st = path \<and> ef_passphrase st = pass \<and> doc_ok (ef_doc st)"
  by (auto simp: OpenEncryptedFile_def Let_def result_simps decrypted_ok
      split: sum.splits option.splits if_splits) (auto simp: doc_ok_def)

lemma found_opened:
  "OpenEncryptedFile cr path pass (Inr (map_of m path)) = Inr st \<Longrightarrow>
    found_items cr st m = Some (map_of (dc_items (ef_doc st)))"
  using opened_store [of cr path pass "Inr (map_of m path)" st] by (simp add: found_items_def)

lemma found_inverse:
  "found_items cr st m = Some f \<Longrightarrow> ef_path st = path \<Longrightarrow> ef_passphrase st = pass \<Longrightarrow>
    \<exists>st'. OpenEncryptedFile cr path pass (Inr (map_of m path)) = Inr st' \<and> map_of (dc_items (ef_doc st')) = f"
  by (auto simp: found_items_def split: sum.splits)

text \<open>C30. After \<open>credentials set\<close> has reported success, \<open>credentials get --show\<close> prints the value, in another
  process that has the same home and passphrase, wherever either process takes them from, and
  changes no file. The two processes share the cipher, and the store has been left by this program.\<close>

theorem credential_set_then_get:
  assumes "crypto_ok (cv_crypto p)" and "nonces_ok (cv_random p)" and "valid_time (cv_now p)"
    and "cv_tmp p \<noteq> DefaultPath home" and "fs_trace s = []"
    and "uses p flag home pass" and "uses q flag' home pass" and "cv_crypto q = cv_crypto p"
    and "Key provider name = Inr key" and "credentialValue p key fromEnv valueStdin = Inr v"
    and "credentials_set p flag provider name fromEnv valueStdin s = (s', printed, None)"
  shows "credentials_get q flag' provider name True s' = (s', line v, None)"
proof -
  let ?cr = "cv_crypto p" and ?path = "DefaultPath home"
  obtain st st1 where st: "OpenEncryptedFile ?cr ?path pass (Inr (map_of (fs_files s) ?path)) = Inr st"
    and set: "ef_set ?cr (cv_random p) (cv_tmp p) (cv_now p) key v (st, s) = ((st1, s'), None)"
    using assms(9-11) open_uses [OF assms(6), of s]
    by (auto simp: credentials_set_def with_store_def failed_cred_def reported_def split: sum.splits prod.splits option.splits)
  note st' = opened_store [OF st]
  define new where "new = (map_of (dc_items (ef_doc st)))(key \<mapsto> stamped_item (cv_now p) v (map_of (dc_items (ef_doc st)) key))"
  have "found_items ?cr st (fs_files s') = Some new"
    using credential_set_found [OF assms(1,2) _ assms(5) _ assms(3) _ set] st' assms(4) found_opened [OF st]
    by (simp add: new_def)
  then obtain st2 where "OpenEncryptedFile ?cr ?path pass (Inr (map_of (fs_files s') ?path)) = Inr st2"
    "map_of (dc_items (ef_doc st2)) = new"
    using found_inverse [of ?cr st "fs_files s'" new ?path pass] st' by blast
  with open_uses [OF assms(7), of s'] assms(8,9) get_item_canonical [OF Key_canonical [OF assms(9)]]
  show ?thesis
    by (simp add: credentials_get_def with_store_def ef_get_def new_def stamped_item_def Let_def)
qed

definition sample_process :: cred_process where
  "sample_process = \<lparr>cv_getenv = (\<lambda>n. if n = ''SWITCHBOARD_CREDENTIALS_PASSPHRASE'' then ''pw'' else if n = ''K'' then ''s3cret'' else []),
     cv_user_home = None, cv_exists = (\<lambda>f. False), cv_terminal = False, cv_passphrase = Inr [], cv_secret = Inr [],
     cv_stdin = Inr [], cv_read_error = None, cv_stat_error = None, cv_now = sample_time, cv_crypto = plain_crypto,
     cv_random = sample_random, cv_tmp = ''/h/t''\<rparr>"

lemma sample_key: "Key ''lambda'' ''api-key'' = Inr ''lambda/api_key''" "SplitKey ''lambda/api_key'' = Inr (''lambda'', ''api_key'')"
  "DefaultPath ''/h'' = ''/h/credentials.enc''"
  by code_simp+

lemma sample_uses: "uses sample_process ''/h'' ''/h'' ''pw''"
  by (simp add: uses_def sample_process_def home_resolve_def PassphraseFromEnvOrPrompt_def)

lemma sample_encrypts: "\<exists>c. encryptDocument plain_crypto (sample_random i) \<lparr>dc_version = n, dc_items = set_item sample_time k v []\<rparr> ''pw'' = Inr c"
  using new_cipher_derived [OF sample_crypto_ok(1)]
  by (simp add: encryptDocument_def marshal_document_def with_items_def set_item_def stamped_item_def sample_time_def
      sample_random_def Let_def zero_time_def)

lemma saved_without_fault:
  assumes "fs_fault s = (\<lambda>n. None)" and "\<And>i. \<exists>c. encryptDocument cr (rn i) (ef_doc st) (ef_passphrase st) = Inr c"
  shows "snd (ef_save cr rn tmpPath st s) = None"
proof -
  have call: "fs_call good bad t = (fs_set (good (fs_files t)) t, None)" if "fs_fault t = (\<lambda>n. None)" for good bad t
    using that by (simp add: fs_call_def)
  have fault: "fs_fault (fs_set m t) = fs_fault t" "fs_ops (fs_set m t) = Suc (fs_ops t)" for m t by (simp_all add: fs_set_def)
  obtain c where "encryptDocument cr (rn (Suc (fs_ops s))) (ef_doc st) (ef_passphrase st) = Inr c" using assms(2) by blast
  then show ?thesis
    using assms(1)
    by (simp add: ef_save_def replaceFile_def fill_and_rename_def then_close_def wrap_err_def fs_quiet_def fs_create_def
        fs_write_def fs_rename_def fs_remove_def call fault)
qed

lemma sample_set_works:
  "snd (snd (credentials_set sample_process ''/h'' ''lambda'' ''api-key'' ''K'' False empty_fs)) = None"
proof -
  let ?st = "\<lparr>ef_path = ''/h/credentials.enc'', ef_passphrase = ''pw'', ef_doc = \<lparr>dc_version = documentVersion, dc_items = []\<rparr>\<rparr>"
  have "snd (ef_save plain_crypto sample_random ''/h/t'' (with_items (set_item sample_time ''lambda/api_key'' ''s3cret'' []) ?st) empty_fs) = None"
    using sample_encrypts by (intro saved_without_fault) (simp_all add: empty_fs_def with_items_def)
  then obtain t where "ef_save plain_crypto sample_random ''/h/t'' (with_items (set_item sample_time ''lambda/api_key'' ''s3cret'' []) ?st) empty_fs = (t, None)"
    by (metis prod.collapse)
  moreover have "openCredentialStore sample_process ''/h'' empty_fs
      = Inr ?st"
    by (simp add: open_uses [OF sample_uses] OpenEncryptedFile_def Let_def empty_fs_def sample_key)
  moreover have "credentialValue sample_process k ''K'' False = Inr ''s3cret''" for k
    by (simp add: credentialValue_def sample_process_def)
  moreover have "cv_crypto sample_process = plain_crypto" "cv_random sample_process = sample_random"
    "cv_tmp sample_process = ''/h/t''" "cv_now sample_process = sample_time"
    by (simp_all add: sample_process_def)
  ultimately show ?thesis
    by (auto simp: credentials_set_def sample_key with_store_def ef_set_def ef_commit_def reported_def Let_def
        split: prod.split option.split)
qed

lemma credential_set_then_get_witness:
  "case credentials_set sample_process ''/h'' ''lambda'' ''api-key'' ''K'' False empty_fs of
     (s', printed, err) \<Rightarrow> credentials_get sample_process ''/h'' ''lambda'' ''api-key'' True s' = (s', line ''s3cret'', None)"
proof -
  obtain s' printed where r: "credentials_set sample_process ''/h'' ''lambda'' ''api-key'' ''K'' False empty_fs = (s', printed, None)"
    using sample_set_works by (metis prod.collapse)
  have "crypto_ok (cv_crypto sample_process)" "nonces_ok (cv_random sample_process)" "valid_time (cv_now sample_process)"
    "cv_tmp sample_process \<noteq> DefaultPath ''/h''" "fs_trace empty_fs = []"
    using sample_crypto_ok by (simp_all add: sample_process_def sample_time_def valid_time_def days_in_month_def empty_fs_def
        sample_key)
  note facts = this
  have "credentialValue sample_process ''lambda/api_key'' ''K'' False = Inr ''s3cret''"
    by (simp add: credentialValue_def sample_process_def)
  then show ?thesis
    using credential_set_then_get [OF facts sample_uses sample_uses refl sample_key(1) _ r] r by simp
qed

text \<open>\<open>credentials init --force\<close>, which is documented to overwrite an existing store, keeps its items; and
  where the store cannot be decrypted, it is refused and the file stays.\<close>

theorem credential_init_keeps:
  assumes "crypto_ok (cv_crypto p)" and "nonces_ok (cv_random p)" and "cv_tmp p \<noteq> DefaultPath home" and "fs_trace s = []"
    and "uses p flag home pass" and "map_of (fs_files s) (DefaultPath home) = Some text" and "text \<noteq> []"
  shows "case decryptDocument (cv_crypto p) text pass of
      Inl e \<Rightarrow> credentials_init p flag True s = (s, [], Some e)
    | Inr d \<Rightarrow> (case credentials_init p flag True s of (s', printed, err) \<Rightarrow>
        (case openCredentialStore p flag s' of Inl e \<Rightarrow> False
         | Inr st \<Rightarrow> map_of (dc_items (ef_doc st)) = map_of (dc_items d)))"
proof (cases "decryptDocument (cv_crypto p) text pass")
  case (Inl e)
  with open_uses [OF assms(5), of s] assms(6,7) show ?thesis
    by (simp add: credentials_init_def with_store_def OpenEncryptedFile_def Let_def failed_cred_def)
next
  case (Inr d)
  let ?cr = "cv_crypto p" and ?path = "DefaultPath home"
  define st where "st = \<lparr>ef_path = ?path, ef_passphrase = pass, ef_doc = d\<rparr>"
  have opened: "openCredentialStore p flag s = Inr st" "OpenEncryptedFile ?cr ?path pass (Inr (map_of (fs_files s) ?path)) = Inr st"
    using open_uses [OF assms(5), of s] assms(6,7) Inr by (simp_all add: OpenEncryptedFile_def Let_def st_def)
  obtain s' err where save: "ef_save ?cr (cv_random p) (cv_tmp p) st s = (s', err)" by fastforce
  from ef_save_ends [OF assms(4), of "cv_tmp p" st ?cr "cv_random p"] assms(3) save
  have "map_of (fs_files s') ?path \<in> insert (map_of (fs_files s) ?path) (encryptions ?cr (cv_random p) st)"
    by (cases err) (auto simp: ends_def all_or_nothing_def st_def)
  then have "found_items ?cr st (fs_files s') = Some (map_of (dc_items d))"
    using found_encryption [OF assms(1,2), of st "fs_files s'"] found_opened [OF opened(2)] opened_store [OF opened(2)]
    by (auto simp: st_def found_items_def)
  then obtain st2 where "OpenEncryptedFile ?cr ?path pass (Inr (map_of (fs_files s') ?path)) = Inr st2"
    "map_of (dc_items (ef_doc st2)) = map_of (dc_items d)"
    using found_inverse [of ?cr st "fs_files s'" "map_of (dc_items d)" ?path pass] unfolding st_def by auto
  moreover have "fst (credentials_init p flag True s) = s'"
    using opened(1) save by (auto simp: credentials_init_def with_store_def ef_init_def reported_def failed_cred_def split: option.split)
  ultimately show ?thesis
    using Inr open_uses [OF assms(5), of s'] by (auto split: prod.split)
qed

lemma credential_init_keeps_witness:
  "case credentials_init sample_process ''/h'' True (empty_fs\<lparr>fs_files := [(''/h/credentials.enc'', ''{}'')]\<rparr>) of
     (s', printed, err) \<Rightarrow> err = Some (ErrText ''unsupported credentials store format'') \<and> fs_files s' = [(''/h/credentials.enc'', ''{}'')]"
proof -
  let ?s = "empty_fs\<lparr>fs_files := [(''/h/credentials.enc'', ''{}'')]\<rparr>"
  have "json_parse ''{}'' = Some (JObj [])" by code_simp
  then have "decryptDocument (cv_crypto sample_process) ''{}'' ''pw'' = Inl (ErrText ''unsupported credentials store format'')"
    by (simp add: decryptDocument_def decode_envelope_def struct_members_def field_values_def last_field_def decoded_def
        envelopeVersion_def)
  moreover have "crypto_ok (cv_crypto sample_process)" "nonces_ok (cv_random sample_process)" "cv_tmp sample_process = ''/h/t''"
    "fs_trace ?s = []"
    using sample_crypto_ok by (simp_all add: sample_process_def empty_fs_def)
  ultimately show ?thesis
    using credential_init_keeps [of sample_process "''/h''" ?s "''/h''" "''pw''" "''{}''"] sample_uses sample_key by simp
qed

section \<open>What a store lists\<close>

text \<open>C31. After any settings and deletions, whichever of them fail, a store that began empty lists the keys that
  \<open>Get\<close> finds, each once and in order, and each listed key is the one that \<open>Key\<close> makes of the
  provider and the name that are listed with it.\<close>

theorem credential_list_typed:
  "case ef_list (run_ops (ef_set cr rn tmpPath) (ef_delete cr rn tmpPath) ops
      (\<lparr>ef_path = path, ef_passphrase = pass, ef_doc = \<lparr>dc_version = documentVersion, dc_items = []\<rparr>\<rparr>, s)) of
     Inl e \<Rightarrow> False
   | Inr ms \<Rightarrow> sorted (map md_key ms) \<and> distinct (map md_key ms)
       \<and> list_all (\<lambda>m. Key (md_provider m) (md_name m) = Inr (md_key m)) ms
       \<and> (\<forall>k. k \<in> set (map md_key ms) \<longleftrightarrow> (\<exists>x. ef_get (run_ops (ef_set cr rn tmpPath) (ef_delete cr rn tmpPath) ops
            (\<lparr>ef_path = path, ef_passphrase = pass, ef_doc = \<lparr>dc_version = documentVersion, dc_items = []\<rparr>\<rparr>, s)) k = Inr x))"
  (is "case ef_list ?x of Inl e \<Rightarrow> False | Inr ms \<Rightarrow> ?ok ms")
proof -
  obtain ms where ms: "ef_list ?x = Inr ms" "sorted (map md_key ms) \<and> distinct (map md_key ms)
      \<and> (\<forall>k. k \<in> set (map md_key ms) \<longleftrightarrow> (\<exists>y. ef_get ?x k = Inr y))"
    using encrypted.listed_after_ops [of "(\<lparr>ef_path = path, ef_passphrase = pass,
        ef_doc = \<lparr>dc_version = documentVersion, dc_items = []\<rparr>\<rparr>, s)" cr rn tmpPath ops]
    by (auto simp: items_ok_def simp del: set_map)
  then have "list_all (\<lambda>m. Key (md_provider m) (md_name m) = Inr (md_key m)) ms"
    using list_items_typed [of _ ms] unfolding ef_list_def by (auto simp: list_all_iff)
  with ms show ?thesis by simp
qed

end
