(* ===== verification/CloudInit.thy ===== *)
theory CloudInit
  imports Types
begin

text \<open>
  What a virtual machine runs at its first boot: \<open>lambda/cloudinit.go\<close> and the runner script of
  \<open>chinacloud/vm_runtime.go\<close>, with the quoting of the values they put into shell commands. The words
  a shell reads are those of POSIX for the characters the scripts use outside quotes.
\<close>

section \<open>Quoting\<close>

definition sq :: char where "sq = CHR 0x27"
definition dq :: char where "dq = CHR 0x22"
definition eol :: char where "eol = CHR 0x0A"

text \<open>\<open>shellQuote\<close> and \<open>vmShellQuote\<close>, \<open>shellCommand\<close> and \<open>vmShellCommand\<close> are the same functions.\<close>

definition shellQuote :: "string \<Rightarrow> string" where
  "shellQuote v = (if v = [] then [sq, sq]
     else [sq] @ replace_all [sq] [sq, dq, sq, dq, sq] v @ [sq])"

definition shellCommand :: "string list \<Rightarrow> string" where
  "shellCommand args = join '' '' (map shellQuote args)"

definition envFileScript :: "string list \<Rightarrow> string smap \<Rightarrow> string \<Rightarrow> string" where
  "envFileScript keys env path =
     join [eol] (map (\<lambda>key. ''printf '' @ [sq] @ ''%s'' @ [CHR 0x5C] @ ''n'' @ [sq] @ '' ''
       @ shellQuote (key @ ''='' @ lookup_default [] env key) @ '' >> '' @ shellQuote path) keys)"

section \<open>The paths on the machine\<close>

definition remoteSwitchboardDir :: string where
  "remoteSwitchboardDir = ''/tmp/switchboard''"

definition remoteLogsPath :: string where
  "remoteLogsPath = remoteSwitchboardDir @ ''/logs.txt''"

definition remoteEventsPath :: string where
  "remoteEventsPath = remoteSwitchboardDir @ ''/events.jsonl''"

definition remoteExitPath :: string where
  "remoteExitPath = remoteSwitchboardDir @ ''/exit.json''"

definition remoteCheckpointsDir :: string where
  "remoteCheckpointsDir = remoteSwitchboardDir @ ''/checkpoints''"

definition remoteEnvPath :: string where
  "remoteEnvPath = remoteSwitchboardDir @ ''/container.env''"

definition remoteRegistryPasswordPath :: string where
  "remoteRegistryPasswordPath = remoteSwitchboardDir @ ''/registry-password''"

section \<open>The runner script\<close>

record registry_auth =
  ra_server :: string
  ra_username :: string
  ra_password :: string

text \<open>The environment of the container: that of the job, that of the run, and the paths of the machine.\<close>

definition container_env :: "string smap \<Rightarrow> string smap \<Rightarrow> string smap" where
  "container_env jobEnv runtimeEnv =
     map_merge (map_merge (map_merge [] jobEnv) runtimeEnv)
       [(''SWITCHBOARD_EVENTS_PATH'', remoteEventsPath), (''ORCHESTRATOR_EVENTS_PATH'', remoteEventsPath),
        (''SWITCHBOARD_CHECKPOINT_DIR'', remoteCheckpointsDir),
        (''ORCHESTRATOR_CHECKPOINT_DIR'', remoteCheckpointsDir)]"

definition docker_args :: "string \<Rightarrow> string \<Rightarrow> string list \<Rightarrow> string list \<Rightarrow> string list" where
  "docker_args workDir img command args =
     [''docker'', ''run'', ''--rm'', ''--gpus'', ''all'', ''--env-file'', remoteEnvPath]
     @ [''-v'', remoteSwitchboardDir @ '':'' @ remoteSwitchboardDir]
     @ (if workDir \<noteq> [] \<and> workDir \<noteq> ''.'' then [''-w'', workDir] else [])
     @ [img] @ command @ args"

definition reason_line :: string where
  "reason_line = ''  if [ '' @ [dq] @ ''$code'' @ [dq] @ '' -eq 0 ]; then reason='' @ [sq] @ ''completed'' @ [sq]
     @ ''; else reason='' @ [dq] @ ''container exited with code $code'' @ [dq] @ ''; fi''"

definition exit_line :: string where
  "exit_line = ''  printf '' @ [sq] @ ''{'' @ [dq] @ ''exit_code'' @ [dq] @ '':%d,'' @ [dq] @ ''exit_reason'' @ [dq]
     @ '':'' @ [dq] @ ''%s'' @ [dq] @ ''}'' @ [CHR 0x5C] @ ''n'' @ [sq] @ '' '' @ [dq] @ ''$code'' @ [dq]
     @ '' '' @ [dq] @ ''$reason'' @ [dq] @ '' > '' @ shellQuote remoteExitPath"

definition lambdaRunnerScript :: "submit_request \<Rightarrow> registry_auth \<Rightarrow> string" where
  "lambdaRunnerScript req auth =
     (let job = rq_job req;
          env = container_env (job_env job) (rq_env req);
          keys = sort_strings (map fst env);
          dockerArgs = docker_args (job_work_dir job) (job_image job) (job_command job) (job_args job)
      in join [eol]
       ([''#!/usr/bin/env bash'', ''set +e'',
         ''mkdir -p '' @ shellQuote remoteCheckpointsDir,
         ''touch '' @ shellQuote remoteEventsPath,
         ''rm -f '' @ shellQuote remoteExitPath,
         ''rm -f '' @ shellQuote remoteEnvPath,
         ''rm -f '' @ shellQuote remoteRegistryPasswordPath,
         envFileScript keys env remoteEnvPath,
         ''chmod 0600 '' @ shellQuote remoteEnvPath]
        @ (if ra_server auth \<noteq> [] then
             [''printf '' @ [sq] @ ''%s'' @ [sq] @ '' '' @ shellQuote (ra_password auth) @ '' > ''
                @ shellQuote remoteRegistryPasswordPath,
              ''chmod 0600 '' @ shellQuote remoteRegistryPasswordPath] else [])
        @ [''{'']
        @ (if ra_server auth \<noteq> [] then
             [''  docker login '' @ shellQuote (ra_server auth) @ '' --username '' @ shellQuote (ra_username auth)
                @ '' --password-stdin < '' @ shellQuote remoteRegistryPasswordPath] else [])
        @ [''  echo '' @ [sq] @ ''lambda switchboard job starting'' @ [sq],
           ''  docker pull '' @ shellQuote (job_image job),
           ''  '' @ shellCommand dockerArgs,
           ''  code=$?'', reason_line, exit_line,
           ''  rm -f '' @ shellQuote remoteRegistryPasswordPath,
           ''  exit '' @ [dq] @ ''$code'' @ [dq],
           ''} >> '' @ shellQuote remoteLogsPath @ '' 2>&1'']))"

text \<open>The script for the clouds of China, from the fields of \<open>VMCreateRequest\<close> it reads.\<close>

definition vmRunnerScript :: "string \<Rightarrow> string list \<Rightarrow> string list \<Rightarrow> string smap \<Rightarrow> string \<Rightarrow> string" where
  "vmRunnerScript img command args env workDir =
     (let keys = sort_strings (map fst env);
          dockerArgs = docker_args workDir img command args
      in join [eol]
       [''#!/usr/bin/env bash'', ''set +e'',
        ''mkdir -p '' @ shellQuote remoteCheckpointsDir,
        ''touch '' @ shellQuote remoteEventsPath,
        ''rm -f '' @ shellQuote remoteExitPath,
        ''rm -f '' @ shellQuote remoteEnvPath,
        envFileScript keys env remoteEnvPath,
        ''chmod 0600 '' @ shellQuote remoteEnvPath,
        ''{'',
        ''  echo '' @ [sq] @ ''switchboard VM job starting; switchboard china vm job starting'' @ [sq],
        ''  docker pull '' @ shellQuote img,
        ''  '' @ shellCommand dockerArgs,
        ''  code=$?'', reason_line, exit_line,
        ''  exit '' @ [dq] @ ''$code'' @ [dq],
        ''} >> '' @ shellQuote remoteLogsPath @ '' 2>&1''])"

record vm_runtime_job =
  vj_image :: string
  vj_command :: "string list"
  vj_args :: "string list"
  vj_env :: "string smap"
  vj_work_dir :: string

definition BuildVMUserData :: "vm_runtime_job \<Rightarrow> gerror + string" where
  "BuildVMUserData job =
     (if trim_space (vj_image job) = []
      then Inl (ErrProvider ErrInvalidSpec ''China VM runtime requires job.image'' None)
      else Inr (vmRunnerScript (vj_image job) (vj_command job) (vj_args job)
        (container_env (vj_env job) []) (vj_work_dir job)))"

text \<open>\<open>cloudInitUserData\<close> and \<open>vmCloudInitUserData\<close>: the script as an indented block of a YAML text.\<close>

definition cloud_config :: "string \<Rightarrow> string" where
  "cloud_config script =
     ''#cloud-config'' @ [eol] @ ''write_files:'' @ [eol] @ ''  - path: /tmp/switchboard-run.sh'' @ [eol]
     @ ''    permissions: '' @ [sq] @ ''0755'' @ [sq] @ [eol] @ ''    content: |'' @ [eol]
     @ concat (map (\<lambda>line. ''      '' @ line @ [eol]) (split_char eol script))
     @ ''runcmd:'' @ [eol] @ ''  - [ bash, /tmp/switchboard-run.sh ]'' @ [eol]"

definition cloudInitUserData :: "submit_request \<Rightarrow> registry_auth \<Rightarrow> string" where
  "cloudInitUserData req auth = cloud_config (lambdaRunnerScript req auth)"

section \<open>What a shell reads\<close>

text \<open>
  The commands of a text, each the list of its words, by the rules of POSIX: a single-quoted part is
  literal, a double-quoted one as well when it has none of dollar, backquote and backslash, blanks
  separate words and newlines commands. A redirection operator is kept as a word. Other characters
  with a meaning to the shell are outside this reader: it returns \<open>None\<close>.
\<close>

datatype sh_mode = Blank | Bare | Single | Double

definition sh_plain :: "char \<Rightarrow> bool" where
  "sh_plain c \<longleftrightarrow> is_alnum c \<or> c \<in> set ''/._-:,+@%>''"

definition add_command :: "string list \<Rightarrow> string list list option \<Rightarrow> string list list option" where
  "add_command ws r = map_option (\<lambda>cs. if ws = [] then cs else ws # cs) r"

fun sh_read :: "sh_mode \<Rightarrow> string \<Rightarrow> string list \<Rightarrow> string \<Rightarrow> string list list option" where
  "sh_read Blank w ws [] = add_command ws (Some [])"
| "sh_read Bare w ws [] = add_command (ws @ [w]) (Some [])"
| "sh_read Single w ws [] = None"
| "sh_read Double w ws [] = None"
| "sh_read Blank w ws (c # cs) =
     (if c = CHR '' '' then sh_read Blank [] ws cs
      else if c = eol then add_command ws (sh_read Blank [] [] cs)
      else if c = sq then sh_read Single [] ws cs
      else if c = dq then sh_read Double [] ws cs
      else if sh_plain c then sh_read Bare [c] ws cs else None)"
| "sh_read Bare w ws (c # cs) =
     (if c = CHR '' '' then sh_read Blank [] (ws @ [w]) cs
      else if c = eol then add_command (ws @ [w]) (sh_read Blank [] [] cs)
      else if c = sq then sh_read Single w ws cs
      else if c = dq then sh_read Double w ws cs
      else if sh_plain c then sh_read Bare (w @ [c]) ws cs else None)"
| "sh_read Single w ws (c # cs) =
     (if c = sq then sh_read Bare w ws cs else sh_read Single (w @ [c]) ws cs)"
| "sh_read Double w ws (c # cs) =
     (if c = dq then sh_read Bare w ws cs
      else if c \<in> set [CHR ''$'', CHR 0x60, CHR 0x5C] then None else sh_read Double (w @ [c]) ws cs)"

definition sh_commands :: "string \<Rightarrow> string list list option" where
  "sh_commands s = sh_read Blank [] [] s"

lemma sq_neq [simp]: "sq \<noteq> CHR '' ''" "sq \<noteq> eol" "sq \<noteq> dq" "dq \<noteq> sq" "dq \<noteq> CHR '' ''" "dq \<noteq> eol" "eol \<noteq> sq"
  "eol \<noteq> CHR '' ''" "sq \<noteq> CHR ''$''" "sq \<noteq> CHR 0x60" "sq \<noteq> CHR 0x5C"
  by (simp_all add: sq_def dq_def eol_def)

lemma replace_all_char: "replace_all [a] r s = concat (map (\<lambda>c. if c = a then r else [c]) s)"
  by (induction s) auto

lemma read_single:
  "sh_read Single w ws (concat (map (\<lambda>c. if c = sq then [sq, dq, sq, dq, sq] else [c]) v) @ sq # rest)
    = sh_read Bare (w @ v) ws rest"
  by (induction v arbitrary: w) auto

lemma read_quoted: "sh_read Blank w ws (shellQuote v @ rest) = sh_read Bare v ws rest"
  using read_single [of "[]" ws v rest] by (simp add: shellQuote_def replace_all_char)

lemma read_words:
  "args \<noteq> [] \<Longrightarrow> sh_read Blank w ws (join '' '' (map shellQuote args) @ rest)
    = sh_read Bare (last args) (ws @ butlast args) rest"
proof (induction args arbitrary: w ws)
  case (Cons a args)
  then show ?case by (cases args) (simp_all add: read_quoted)
qed simp

lemma sh_read_plain:
  "list_all sh_plain p \<Longrightarrow> p \<noteq> [] \<Longrightarrow> sq \<notin> set p \<and> dq \<notin> set p \<Longrightarrow>
    sh_read Blank w ws (p @ CHR '' '' # rest) = sh_read Blank [] (ws @ [p]) rest"
proof -
  have bare: "list_all sh_plain q \<Longrightarrow> sq \<notin> set q \<and> dq \<notin> set q \<Longrightarrow>
      sh_read Bare u ws (q @ CHR '' '' # rest) = sh_read Blank [] (ws @ [u @ q]) rest" for q u
    by (induction q arbitrary: u) (auto simp: sh_plain_def eol_def is_alnum_def is_digit_def is_upper_def is_lower_def)
  assume "list_all sh_plain p" "p \<noteq> []" "sq \<notin> set p \<and> dq \<notin> set p"
  then show ?thesis
    by (cases p) (auto simp: bare sh_plain_def eol_def is_alnum_def is_digit_def is_upper_def is_lower_def)
qed

lemma sh_command_words: "args \<noteq> [] \<Longrightarrow> sh_commands (shellCommand args) = Some [args]"
  using read_words [of args "[]" "[]" "[]"] by (simp add: sh_commands_def shellCommand_def add_command_def)
definition env_words :: "string smap \<Rightarrow> string \<Rightarrow> string \<Rightarrow> string list" where
  "env_words env path key =
     [''printf'', ''%s'' @ [CHR 0x5C] @ ''n'', key @ ''='' @ lookup_default [] env key, ''>>'', path]"

definition env_line :: "string smap \<Rightarrow> string \<Rightarrow> string \<Rightarrow> string" where
  "env_line env path key = ''printf '' @ [sq] @ ''%s'' @ [CHR 0x5C] @ ''n'' @ [sq] @ '' ''
     @ shellQuote (key @ ''='' @ lookup_default [] env key) @ '' >> '' @ shellQuote path"

lemma read_quoted_space: "sh_read Blank w ws (shellQuote v @ CHR '' '' # rest) = sh_read Blank [] (ws @ [v]) rest"
  by (simp add: read_quoted)

definition sh_bare :: "string \<Rightarrow> bool" where
  "sh_bare p \<longleftrightarrow> list_all sh_plain p \<and> p \<noteq> [] \<and> sq \<notin> set p \<and> dq \<notin> set p"

lemma read_command:
  "sh_bare p \<Longrightarrow> sh_bare q \<Longrightarrow>
    sh_read Blank w ws (p @ CHR '' '' # shellQuote f @ CHR '' '' # shellQuote v @ CHR '' '' # q @ CHR '' '' # shellQuote path @ rest)
    = sh_read Bare path (ws @ [p, f, v, q]) rest"
  by (simp add: sh_bare_def sh_read_plain read_quoted_space read_quoted)

lemma read_env_line:
  "sh_read Blank w [] (env_line env path key @ rest) = sh_read Bare path (butlast (env_words env path key)) rest"
proof -
  have fmt: "[sq] @ ''%s'' @ [CHR 0x5C] @ ''n'' @ [sq] = shellQuote (''%s'' @ [CHR 0x5C] @ ''n'')"
    by (simp add: shellQuote_def replace_all_char sq_def)
  have line: "env_line env path key @ rest = ''printf'' @ CHR '' '' # shellQuote (''%s'' @ [CHR 0x5C] @ ''n'') @ CHR '' ''
      # shellQuote (key @ ''='' @ lookup_default [] env key) @ CHR '' '' # ''>>'' @ CHR '' '' # shellQuote path @ rest"
    unfolding fmt [symmetric] by (simp add: env_line_def)
  have "sh_bare ''printf''" "sh_bare ''>>''"
    by (simp_all add: sh_bare_def sh_plain_def sq_def dq_def is_alnum_def is_lower_def is_upper_def is_digit_def)
  from read_command [OF this] show ?thesis unfolding line by (simp only:) (simp add: env_words_def)
qed

lemma read_env_script: "keys \<noteq> [] \<Longrightarrow>
    sh_read Blank w [] (join [eol] (map (env_line env path) keys)) = Some (map (env_words env path) keys)"
proof (induction keys arbitrary: w)
  case (Cons key keys)
  have last: "butlast (env_words env path key) @ [path] = env_words env path key" by (simp add: env_words_def)
  show ?case
  proof (cases keys)
    case Nil
    then show ?thesis using last read_env_line [of w env path key "[]"] by (simp add: add_command_def env_words_def)
  next
    case (Cons k ks)
    then show ?thesis using last Cons.IH
      by (simp add: join_Cons read_env_line add_command_def) (simp add: env_words_def)
  qed
qed simp


section \<open>The block of a cloud configuration\<close>

text \<open>The content of the literal block of a YAML text: its lines, as far as they are indented by six
  blanks, without them.\<close>

definition block_lines :: "string list \<Rightarrow> string list" where
  "block_lines ls = map (drop 6) (takeWhile (prefix ''      '') ls)"

lemma split_char_concat: "list_all (\<lambda>p. eol \<notin> set p) ps \<Longrightarrow>
    split_char eol (concat (map (\<lambda>p. ''      '' @ p @ [eol]) ps) @ rest) = map (\<lambda>p. ''      '' @ p) ps @ split_char eol rest"
proof (induction ps)
  case (Cons p ps)
  then have "eol \<notin> set (''      '' @ p)" by (simp add: eol_def)
  from split_char_append [OF this] Cons show ?case by simp
qed simp

lemma cloud_config_block:
  "drop 5 (split_char eol (cloud_config script))
     = map (\<lambda>line. ''      '' @ line) (split_char eol script) @ [''runcmd:'', ''  - [ bash, /tmp/switchboard-run.sh ]'', []]"
proof -
  let ?rest = "concat (map (\<lambda>line. ''      '' @ line @ [eol]) (split_char eol script))
     @ ''runcmd:'' @ [eol] @ ''  - [ bash, /tmp/switchboard-run.sh ]'' @ [eol]"
  have "list_all (\<lambda>p. eol \<notin> set p) (split_char eol script)" by (auto simp: list_all_iff dest: split_char_no_sep)
  from split_char_concat [OF this] have "split_char eol ?rest
      = map (\<lambda>line. ''      '' @ line) (split_char eol script) @ [''runcmd:'', ''  - [ bash, /tmp/switchboard-run.sh ]'', []]"
    by (simp add: eol_def)
  moreover have "drop 5 (split_char eol (cloud_config script)) = split_char eol ?rest"
  proof -
    have *: "split_char eol (p @ eol # s) = p # split_char eol s" if "eol \<notin> set p" for p s
      by (rule split_char_append [OF that])
    have "cloud_config script = ''#cloud-config'' @ eol # ''write_files:'' @ eol # ''  - path: /tmp/switchboard-run.sh''
       @ eol # (''    permissions: '' @ [sq] @ ''0755'' @ [sq]) @ eol # ''    content: |'' @ eol # ?rest"
      by (simp add: cloud_config_def)
    then show ?thesis
      by (simp only: split_char_append) (simp add: * eol_def sq_def)
  qed
  ultimately show ?thesis by simp
qed

text \<open>The block of the first boot is the runner script, line by line: no value of the job, not even
  one with newlines, ends the block or adds a key to the configuration.\<close>

theorem cloud_init_is_script:
  "join [eol] (block_lines (drop 5 (split_char eol (cloudInitUserData req auth)))) = lambdaRunnerScript req auth"
proof -
  have "takeWhile (prefix ''      '') (map (\<lambda>line. ''      '' @ line) ls @ [''runcmd:'', x, y])
      = map (\<lambda>line. ''      '' @ line) ls" for ls x y
    by (induction ls) auto
  then show ?thesis
    by (simp add: cloudInitUserData_def cloud_config_block block_lines_def comp_def join_split_char)
qed

end
