(* ===== verification/GoHttp.thy ===== *)
theory GoHttp
  imports GoUrl GoTime JsonText Base64 CloudInit
begin

text \<open>
  What the clients of the clouds use of Go's library: \<open>http.Request\<close> and its answer, the layouts of a
  time, \<open>hex\<close>, and \<open>json.Unmarshal\<close> into a structure, which keeps what it could decode when it
  reports an error. The hash functions, the clock, the random bytes and the transport are parameters.
\<close>

section \<open>Requests and answers\<close>

record http_request =
  hr_method :: string
  hr_url :: url
  hr_host :: string
  hr_headers :: "string smap"
  hr_body :: string

record http_response =
  hp_status :: int
  hp_body :: string
  hp_read_error :: "gerror option"

text \<open>What a client finds outside: \<open>we_nonce\<close> is the first of the two readings of the clock that one
  cloud makes, and \<open>we_random\<close> has the bytes of each reading of random numbers; the texts of errors of \<open>url.Parse\<close> and \<open>json.Unmarshal\<close> are open.\<close>

record web =
  we_sha256 :: "string \<Rightarrow> string"
  we_hmac_sha256 :: "string \<Rightarrow> string \<Rightarrow> string"
  we_hmac_sha1 :: "string \<Rightarrow> string \<Rightarrow> string"
  we_nonce :: gotime
  we_now :: gotime
  we_random :: "nat \<Rightarrow> string option"
  we_url_error :: "string \<Rightarrow> gerror"
  we_json_error :: "string \<Rightarrow> gerror"
  we_send :: "http_request \<Rightarrow> gerror + http_response"

text \<open>\<open>http.NewRequest\<close> for a valid method: the address is parsed again, and a colon without a port
  is cut off the host.\<close>

definition new_request :: "web \<Rightarrow> string \<Rightarrow> string \<Rightarrow> string \<Rightarrow> gerror + http_request" where
  "new_request w m address body = (case url_parse address of None \<Rightarrow> Inl (we_url_error w address)
     | Some u \<Rightarrow> let h = trim_suffix '':'' (url_host u) in
         Inr \<lparr>hr_method = m, hr_url = u\<lparr>url_host := h\<rparr>, hr_host = h, hr_headers = [], hr_body = body\<rparr>)"

text \<open>\<open>Header.Set\<close> writes its key with capitals after the hyphens.\<close>

fun canonical_from :: "bool \<Rightarrow> string \<Rightarrow> string" where
  "canonical_from up [] = []"
| "canonical_from up (c # cs) = (if up then upper_char c else lower_char c) # canonical_from (c = CHR ''-'') cs"

definition canonical_header :: "string \<Rightarrow> string" where
  "canonical_header k = canonical_from True k"

definition set_header :: "string \<Rightarrow> string \<Rightarrow> http_request \<Rightarrow> http_request" where
  "set_header k v rq = rq\<lparr>hr_headers := AList.update (canonical_header k) v (hr_headers rq)\<rparr>"

definition set_headers :: "string smap \<Rightarrow> http_request \<Rightarrow> http_request" where
  "set_headers hs rq = fold (\<lambda>(k, v). set_header k v) hs rq"

lemma set_headers_fields [simp]:
  "hr_method (set_headers hs rq) = hr_method rq" "hr_url (set_headers hs rq) = hr_url rq"
  "hr_host (set_headers hs rq) = hr_host rq" "hr_body (set_headers hs rq) = hr_body rq"
  by (induction hs arbitrary: rq) (auto simp: set_headers_def set_header_def)

text \<open>\<open>io.ReadAll\<close> of an \<open>io.LimitReader\<close>: what is past the limit is not looked at.\<close>

definition read_limited :: "nat \<Rightarrow> http_response \<Rightarrow> string \<times> gerror option" where
  "read_limited n rp = (take n (hp_body rp), if n \<le> length (hp_body rp) then None else hp_read_error rp)"

section \<open>Hex digits and the layouts of a time\<close>

definition hex_encode :: "string \<Rightarrow> string" where
  "hex_encode s = concat (map (\<lambda>c. [hex_digit (byte c div 16), hex_digit (byte c mod 16)]) s)"

definition date_text :: "gotime \<Rightarrow> string" where
  "date_text t = pad 4 (t_year t) @ ''-'' @ pad 2 (t_month t) @ ''-'' @ pad 2 (t_day t)"

definition time_text :: "gotime \<Rightarrow> string" where
  "time_text t = date_text t @ ''T'' @ pad 2 (t_hour t) @ '':'' @ pad 2 (t_min t) @ '':'' @ pad 2 (t_sec t) @ ''Z''"

definition compact_date :: "gotime \<Rightarrow> string" where
  "compact_date t = pad 4 (t_year t) @ pad 2 (t_month t) @ pad 2 (t_day t)"

definition compact_time :: "gotime \<Rightarrow> string" where
  "compact_time t = compact_date t @ ''T'' @ pad 2 (t_hour t) @ pad 2 (t_min t) @ pad 2 (t_sec t) @ ''Z''"

definition unix_epoch :: gotime where
  "unix_epoch = GoTime 1970 1 1 0 0 0 0"

definition unix_nano :: "gotime \<Rightarrow> int" where
  "unix_nano t = wrap64 (time_nanos t - time_nanos unix_epoch)"

definition unix_seconds :: "gotime \<Rightarrow> int" where
  "unix_seconds t = (time_nanos t - time_nanos unix_epoch) div 1000000000"

section \<open>Decoding into a structure\<close>

text \<open>A decoder sets what it can and says whether the value was of another type, which
  \<open>json.Unmarshal\<close> reports in the end. A value of \<open>interface{}\<close> is \<open>JNull\<close> when it is \<open>nil\<close>. When a
  key is repeated in a text, only its last value is decoded.\<close>

type_synonym 'a decoder = "json \<Rightarrow> 'a \<Rightarrow> 'a \<times> bool"

fun dec_str :: "string decoder" where
  "dec_str (JStr s) v = (s, False)"
| "dec_str JNull v = (v, False)"
| "dec_str _ v = (v, True)"

definition dec_whole :: "int decoder" where
  "dec_whole j v = (if j = JNull then (v, False) else case json_int j of Some i \<Rightarrow> (i, False) | None \<Rightarrow> (v, True))"

definition dec_any :: "json decoder" where
  "dec_any j v = (j, False)"

fun dec_slice :: "'a decoder \<Rightarrow> 'a \<Rightarrow> 'a list decoder" where
  "dec_slice d zero (JArr xs) v = (map (\<lambda>x. fst (d x zero)) xs, list_ex (\<lambda>x. snd (d x zero)) xs)"
| "dec_slice d zero JNull v = ([], False)"
| "dec_slice d zero _ v = (v, True)"

fun dec_ptr :: "'a decoder \<Rightarrow> 'a \<Rightarrow> 'a option decoder" where
  "dec_ptr d zero JNull v = (None, False)"
| "dec_ptr d zero j v = (case d j (case v of None \<Rightarrow> zero | Some x \<Rightarrow> x) of (x, e) \<Rightarrow> (Some x, e))"

fun dec_map :: "'a decoder \<Rightarrow> 'a \<Rightarrow> 'a smap decoder" where
  "dec_map d zero (JObj m) v =
     (fold (\<lambda>(k, j) out. AList.update k (fst (d j zero)) out) m v, list_ex (\<lambda>(k, j). snd (d j zero)) m)"
| "dec_map d zero JNull v = ([], False)"
| "dec_map d zero _ v = (v, True)"

text \<open>The field that a key names, in any case.\<close>

definition dec_field :: "('s \<Rightarrow> 'a) \<Rightarrow> (('a \<Rightarrow> 'a) \<Rightarrow> 's \<Rightarrow> 's) \<Rightarrow> 'a decoder \<Rightarrow> 's decoder" where
  "dec_field get upd d j s = (case d j (get s) of (v, e) \<Rightarrow> (upd (\<lambda>_. v) s, e))"

definition named_field :: "(string \<times> 's decoder) list \<Rightarrow> string \<Rightarrow> 's decoder option" where
  "named_field fs k = (case map_of fs k of Some d \<Rightarrow> Some d
     | None \<Rightarrow> map_option snd (find (\<lambda>(n, d). equal_fold k n) fs))"

definition dec_member :: "(string \<times> 's decoder) list \<Rightarrow> string \<times> json \<Rightarrow> 's \<times> bool \<Rightarrow> 's \<times> bool" where
  "dec_member fs kj acc = (case named_field fs (fst kj) of None \<Rightarrow> acc
     | Some d \<Rightarrow> (case d (snd kj) (fst acc) of (s, e) \<Rightarrow> (s, snd acc \<or> e)))"

fun dec_struct :: "(string \<times> 's decoder) list \<Rightarrow> 's decoder" where
  "dec_struct fs (JObj m) s = fold (dec_member fs) m (s, False)"
| "dec_struct fs JNull s = (s, False)"
| "dec_struct fs _ s = (s, True)"

definition unmarshal :: "'s decoder \<Rightarrow> string \<Rightarrow> 's \<Rightarrow> 's \<times> bool" where
  "unmarshal d body s = (case json_parse body of None \<Rightarrow> (s, True) | Some j \<Rightarrow> d j s)"

text \<open>\<open>json.Marshal\<close> of a map.\<close>

definition json_map :: "(string \<times> json) list \<Rightarrow> json" where
  "json_map m = JObj (sort_stable (key_less fst) m)"

definition json_strings :: "string list \<Rightarrow> json" where
  "json_strings xs = JArr (map JStr xs)"

definition json_whole :: "int \<Rightarrow> json" where
  "json_whole i = JNum (of_int i)"

definition marshal :: "json \<Rightarrow> string" where
  "marshal j = json_text compact 0 j"

lemma distinct_sorted_by: "distinct (map f (sort_stable lt xs)) \<longleftrightarrow> distinct (map f xs)"
  by (metis mset_map mset_sort_stable mset_eq_imp_distinct_iff)

lemma plain_map: "distinct (map fst m) \<Longrightarrow> list_all (\<lambda>(k, v). json_plain v) m \<Longrightarrow> json_plain (json_map m)"
  unfolding json_map_def by (rule plain_obj) (auto simp: distinct_sorted_by list_all_iff)

lemma plain_strings [simp]: "json_plain (json_strings xs)"
  unfolding json_strings_def by (rule plain_arr) auto

lemma plain_whole [simp]: "json_plain (json_whole i)"
  by (simp add: json_whole_def)

lemma parse_marshal: "json_plain j \<Longrightarrow> json_parse (marshal j) = Some j"
  by (simp add: marshal_def json_parse_text)

lemma map_of_sorted: "distinct (map fst m) \<Longrightarrow> map_of (sort_stable (key_less fst) m) = map_of m"
  by (rule map_of_inject_set [THEN iffD2]) (simp_all add: distinct_sorted_by)

end
