(* ===== verification/Queries.thy ===== *)
theory Queries
  imports GoHttp
begin

text \<open>
  Query strings that are printed and read back: \<open>Values.Encode\<close> with \<open>URL.Query\<close>, and an address
  whose query was replaced, which \<open>http.NewRequest\<close> parses again.
\<close>

section \<open>Escaped components\<close>

lemma upper_hex_alnum: "is_alnum (upper_hex n)"
proof -
  have "list_all (\<lambda>k. is_alnum (upper_hex k)) [0..<16]" by code_simp
  then have "is_alnum (upper_hex (n mod 16))" by (simp add: list_all_iff)
  then show ?thesis by (simp add: upper_hex_def)
qed

lemma escape_chars:
  assumes "c \<in> set (escape mode s)"
  shows "is_alnum c \<or> c \<in> set ''%+'' \<or> \<not> should_escape mode c"
proof -
  from assms obtain d where "c \<in> set (escape_char mode d)" by (auto simp: escape_def)
  then show ?thesis
    by (cases "should_escape mode d") (auto simp: escape_char_def upper_hex_alnum simp del: char.inject split: if_splits)
qed

lemma query_marks: "list_all (should_escape EncodeQueryComponent) ''&=;?#/:*''"
  by code_simp

lemma marks_not_alnum: "list_all (\<lambda>c. \<not> is_alnum c) ''%+&=;?#/:*~''"
  by code_simp

lemma query_escape_plain:
  assumes "c \<in> set ''&=;?#/:*''"
  shows "c \<notin> set (query_escape s)"
proof
  assume "c \<in> set (query_escape s)"
  then have "is_alnum c \<or> c \<in> set ''%+'' \<or> \<not> should_escape EncodeQueryComponent c"
    unfolding query_escape_def by (rule escape_chars)
  then show False using assms query_marks marks_not_alnum by (auto simp: list_all_iff)
qed

lemma unescape_query [simp]: "unescape EncodeQueryComponent (query_escape s) = Some s"
  by (simp add: query_escape_def unescape_escape)

section \<open>Encoding and parsing\<close>

definition query_pair :: "string \<times> string \<Rightarrow> string" where
  "query_pair kv = query_escape (fst kv) @ ''='' @ query_escape (snd kv)"

definition query_pairs :: "url_values \<Rightarrow> (string \<times> string) list" where
  "query_pairs m = concat (map (\<lambda>k. map (Pair k) (lookup_default [] m k)) (sort_strings (map fst m)))"

lemma encode_query_pairs: "encode_query m = join ''&'' (map query_pair (query_pairs m))"
  by (simp add: encode_query_def query_pairs_def query_pair_def map_concat comp_def)

lemma query_pair_plain: "c \<in> set ''&;?#/:*'' \<Longrightarrow> c \<notin> set (query_pair kv)"
  using query_escape_plain [of c] by (auto simp: query_pair_def)

lemma join_chars: "c \<in> set (join sep ps) \<Longrightarrow> c \<in> set sep \<or> (\<exists>p \<in> set ps. c \<in> set p)"
  by (induction sep ps rule: join.induct) auto

lemma encode_query_plain: "c \<in> set '';?#/:*'' \<Longrightarrow> c \<notin> set (encode_query m)"
  using query_pair_plain [of c] by (auto simp: encode_query_pairs dest!: join_chars)

lemma cut_at_append: "d \<notin> set p \<Longrightarrow> cut_at d (p @ d # s) = (p, s)"
  by (induction p) (auto simp: cut_at_def)

lemma add_query_pair: "add_query_pair m (query_pair (k, v)) = AList.update k (lookup_default [] m k @ [v]) m"
proof -
  have "cut_at (CHR ''='') (query_pair (k, v)) = (query_escape k, query_escape v)"
    using query_escape_plain [of "CHR ''=''" k] by (simp add: query_pair_def cut_at_append)
  moreover have "CHR '';'' \<notin> set (query_pair (k, v))" by (rule query_pair_plain) simp
  moreover have "query_pair (k, v) \<noteq> []" by (simp add: query_pair_def)
  ultimately show ?thesis by (simp add: add_query_pair_def)
qed

text \<open>Any way of printing a pair that is read back serves.\<close>

definition prints_pairs :: "(string \<times> string \<Rightarrow> string) \<Rightarrow> bool" where
  "prints_pairs pr \<longleftrightarrow> (\<forall>kv. CHR ''&'' \<notin> set (pr kv))
     \<and> (\<forall>kv m. add_query_pair m (pr kv) = AList.update (fst kv) (lookup_default [] m (fst kv) @ [snd kv]) m)"

lemma lookup_add_pairs:
  assumes "prints_pairs pr"
  shows "lookup_default [] (foldl add_query_pair m (map pr kvs)) k
    = lookup_default [] m k @ map snd (filter (\<lambda>kv. fst kv = k) kvs)"
proof (induction kvs arbitrary: m)
  case (Cons kv kvs)
  have "add_query_pair m (pr kv) = AList.update (fst kv) (lookup_default [] m (fst kv) @ [snd kv]) m"
    using assms unfolding prints_pairs_def by blast
  then show ?case using Cons by (simp add: lookup_update)
qed simp

lemma parse_pairs:
  assumes "prints_pairs pr"
  shows "lookup_default [] (parse_query (join ''&'' (map pr kvs))) k = map snd (filter (\<lambda>kv. fst kv = k) kvs)"
proof (cases "kvs = []")
  case True
  then show ?thesis by (simp add: parse_query_def add_query_pair_def lookup_default_def)
next
  case False
  then have "split_char (CHR ''&'') (join ''&'' (map pr kvs)) = map pr kvs"
    using assms by (intro split_char_join) (auto simp: prints_pairs_def)
  then show ?thesis by (simp add: parse_query_def lookup_add_pairs [OF assms]) (simp add: lookup_default_def)
qed

lemma prints_query_pair: "prints_pairs query_pair"
  using query_pair_plain [of "CHR ''&''"] add_query_pair by (auto simp: prints_pairs_def)

lemma pairs_of_key:
  "distinct ks \<Longrightarrow> map snd (filter (\<lambda>kv. fst kv = k) (concat (map (\<lambda>k. map (Pair k) (f k)) ks)))
    = (if k \<in> set ks then f k else [])"
proof (induction ks)
  case (Cons a ks)
  then show ?case by (cases "a = k") (auto simp: filter_map comp_def)
qed simp

lemma parse_encode:
  assumes "distinct (map fst m)"
  shows "lookup_default [] (parse_query (encode_query m)) k = lookup_default [] m k"
proof -
  have pairs: "map snd (filter (\<lambda>kv. fst kv = k) (query_pairs m)) = lookup_default [] m k"
    using pairs_of_key [of "sort_strings (map fst m)" k "lookup_default [] m"] assms
    by (simp add: query_pairs_def lookup_default_def) (metis map_of_eq_None_iff option.simps(4) list.set_map)
  then show ?thesis by (simp add: encode_query_pairs parse_pairs [OF prints_query_pair])
qed

section \<open>An address keeps its query\<close>

text \<open>The two marks that end the path and the query.\<close>

abbreviation ends_part :: "char \<Rightarrow> bool" where
  "ends_part c \<equiv> c = CHR ''?'' \<or> c = CHR ''#''"

lemma marks_escaped: "ends_part c \<Longrightarrow> mode \<noteq> EncodeFragment \<Longrightarrow> should_escape mode c"
proof -
  have "list_all (\<lambda>m. should_escape m (CHR ''?'') \<and> should_escape m (CHR ''#''))
    [EncodePath, EncodePathSegment, EncodeHost, EncodeUserPassword, EncodeQueryComponent]"
    by code_simp
  then show "ends_part c \<Longrightarrow> mode \<noteq> EncodeFragment \<Longrightarrow> should_escape mode c" by (cases mode) auto
qed

lemma marks_no_alnum: "is_alnum c \<Longrightarrow> \<not> ends_part c"
  using marks_not_alnum by (auto simp: list_all_iff)

lemma escape_unmarked: "mode \<noteq> EncodeFragment \<Longrightarrow> ends_part c \<Longrightarrow> c \<notin> set (escape mode s)"
proof
  assume "mode \<noteq> EncodeFragment" and mark: "ends_part c"
  then have "should_escape mode c" "\<not> is_alnum c" using marks_escaped marks_no_alnum by blast+
  moreover have "c \<notin> set ''%+''" using mark by auto
  moreover assume "c \<in> set (escape mode s)"
  ultimately show False using escape_chars by blast
qed

lemma path_marks: "list_all (\<lambda>c. \<not> ends_part c) (''!$&()*+,;=:@[]%'' @ [CHR 0x27])"
  by code_simp

lemma valid_unmarked:
  assumes "valid_encoded EncodePath s" and "ends_part c"
  shows "c \<notin> set s"
proof
  assume "c \<in> set s"
  then have "c \<in> set (''!$&()*+,;=:@[]%'' @ [CHR 0x27]) \<or> \<not> should_escape EncodePath c"
    using assms(1) unfolding valid_encoded_def by blast
  moreover have "should_escape EncodePath c" using assms(2) by (rule marks_escaped) simp
  ultimately show False using path_marks assms(2) unfolding list_all_iff by blast
qed

lemma escaped_path_unmarked:
  assumes "ends_part c"
  shows "c \<notin> set (escaped_path u)"
proof -
  have "c \<noteq> CHR ''*''" using assms by auto
  then show ?thesis
    using valid_unmarked [OF _ assms] escape_unmarked [OF _ assms, of EncodePath] by (simp add: escaped_path_def)
qed

lemma userinfo_unmarked: "ends_part c \<Longrightarrow> c \<notin> set (userinfo_string ui)"
  using escape_unmarked [of EncodeUserPassword c]
  by (auto simp: userinfo_string_def split: prod.splits option.splits)

lemma scheme_chars:
  "get_scheme_from raw seen s = Some (sc, rest) \<Longrightarrow>
    set sc \<subseteq> set seen \<union> {c. is_upper c \<or> is_lower c \<or> is_digit c \<or> c \<in> set ''+-.''} \<and> set rest \<subseteq> set raw \<union> set s"
proof (induction raw seen s rule: get_scheme_from.induct)
  case (2 raw seen c cs)
  then show ?case by (auto split: if_splits)
qed auto

lemma scheme_before:
  "CHR ''?'' \<notin> set A \<Longrightarrow> get_scheme_from raw seen (A @ CHR ''?'' # q) = Some (sc, rest) \<Longrightarrow>
    rest = raw \<or> (\<exists>B. rest = B @ CHR ''?'' # q \<and> CHR ''?'' \<notin> set B)"
proof (induction A arbitrary: seen)
  case Nil
  then show ?case by (auto simp: is_upper_def is_lower_def is_digit_def)
next
  case (Cons c A)
  then show ?case by (auto split: if_splits)
qed

lemma set_path_parts:
  "set_path p u = Some v \<Longrightarrow> url_raw_query v = url_raw_query u \<and> url_scheme v = url_scheme u
    \<and> url_fragment v = url_fragment u \<and> url_opaque v = url_opaque u"
  by (auto simp: set_path_def)

lemma if_elim: "(if b then x else y) = Some v \<Longrightarrow> (b \<Longrightarrow> x = Some v \<Longrightarrow> P) \<Longrightarrow> (\<not> b \<Longrightarrow> y = Some v \<Longrightarrow> P) \<Longrightarrow> P"
  by (simp split: if_split_asm)

lemma option_case_Some_elim:
  "(case z of None \<Rightarrow> None | Some x \<Rightarrow> f x) = Some v \<Longrightarrow> (\<And>x. z = Some x \<Longrightarrow> f x = Some v \<Longrightarrow> P) \<Longrightarrow> P"
  by (simp split: option.split_asm)

lemma parse_rest_parts:
  assumes "parse_rest u rest = Some v"
  shows "url_raw_query v = url_raw_query u \<and> url_scheme v = url_scheme u
    \<and> url_fragment v = url_fragment u \<and> (url_opaque v = url_opaque u \<or> url_opaque v = rest)"
proof -
  let ?a = "dropWhile (\<lambda>c. c \<noteq> CHR ''/'') (drop 2 rest)"
  have "v = u\<lparr>url_opaque := rest\<rparr> \<or> (\<exists>user host. set_path ?a (u\<lparr>url_user := user, url_host := host\<rparr>) = Some v)
    \<or> set_path rest (u\<lparr>url_omit_host := True\<rparr>) = Some v \<or> set_path rest u = Some v"
    using assms unfolding parse_rest_def Let_def prod.case
    by (elim option_case_Some_elim if_elim) auto
  then show ?thesis by (auto dest: set_path_parts)
qed

lemma lower_unmarked:
  assumes "ends_part (lower_char c)"
  shows "ends_part c"
proof (cases "is_upper c")
  case True
  then have "byte (lower_char c) = byte c + 32" by (simp add: lower_char_def is_upper_def byte_char_of)
  moreover have "byte (lower_char c) = 63 \<or> byte (lower_char c) = 35" using assms by auto
  ultimately show ?thesis using True by (auto simp: is_upper_def)
qed (use assms in \<open>simp add: lower_char_def\<close>)

lemma parsed_unmarked:
  assumes "url_parse raw = Some u" and "ends_part c"
  shows "c \<notin> set (url_scheme u)" "c \<notin> set (url_opaque u)"
proof -
  let ?s = "fst (cut_at (CHR ''#'') raw)"
  have s: "CHR ''#'' \<notin> set ?s" by (auto simp: cut_at_def dest: set_takeWhileD)
  obtain w where w: "parse_no_fragment ?s = Some w" and u: "url_scheme u = url_scheme w" "url_opaque u = url_opaque w"
    using assms(1) by (auto simp: url_parse_def split: prod.splits option.splits if_splits)
  have "c \<notin> set (url_scheme w) \<and> c \<notin> set (url_opaque w)"
  proof (cases "?s = ''*''")
    case True
    then show ?thesis using w by (auto simp: parse_no_fragment_def empty_url_def split: if_splits)
  next
    case False
    then obtain sc rest where sr: "get_scheme ?s = Some (sc, rest)"
      using w by (auto simp: parse_no_fragment_def split: if_splits option.splits)
    have sc: "set sc \<subseteq> {c. is_upper c \<or> is_lower c \<or> is_digit c \<or> c \<in> set ''+-.''}" "set rest \<subseteq> set ?s"
      using scheme_chars [OF sr [unfolded get_scheme_def]] by auto
    have "d \<in> set sc \<Longrightarrow> \<not> ends_part d" for d
      using sc(1) by (auto simp: is_upper_def is_lower_def is_digit_def)
    then have lower: "c \<notin> set (to_lower sc)"
      using assms(2) lower_unmarked by (fastforce simp: to_lower_def)
    from w False sr consider "suffix ''?'' rest" "length (filter (\<lambda>c. c = CHR ''?'') rest) = 1"
        "parse_rest (empty_url\<lparr>url_scheme := to_lower sc, url_force_query := True\<rparr>) (butlast rest) = Some w"
      | "parse_rest (empty_url\<lparr>url_scheme := to_lower sc, url_raw_query := snd (cut_at (CHR ''?'') rest)\<rparr>)
          (fst (cut_at (CHR ''?'') rest)) = Some w"
      by (auto simp: parse_no_fragment_def Let_def split: if_splits prod.splits)
    then show ?thesis
    proof cases
      case 1
      then obtain r where r: "rest = r @ ''?''" by (auto simp: suffix_def)
      then have "CHR ''?'' \<notin> set r" using 1(2) by (auto simp: filter_empty_conv)
      moreover have "CHR ''#'' \<notin> set r" using r sc(2) s by auto
      ultimately have "c \<notin> set (butlast rest)" using r assms(2) by auto
      then show ?thesis using parse_rest_parts [OF 1(3)] lower by (auto simp: empty_url_def)
    next
      case 2
      have "c \<notin> set (fst (cut_at (CHR ''?'') rest))"
        using sc(2) s assms(2) by (auto simp: cut_at_def dest: set_takeWhileD)
      then show ?thesis using parse_rest_parts [OF 2] lower by (auto simp: empty_url_def)
    qed
  qed
  then show "c \<notin> set (url_scheme u)" "c \<notin> set (url_opaque u)" by (simp_all add: u)
qed

lemma all_unmarked: "(\<And>c. ends_part c \<Longrightarrow> c \<notin> set s) \<Longrightarrow> list_all (\<lambda>c. \<not> ends_part c) s"
  unfolding list_all_iff by blast

lemma all_parts:
  "list_all P x \<Longrightarrow> list_all P y \<Longrightarrow> list_all P (if b then x else y)"
  "list_all P x \<Longrightarrow> list_all P y \<Longrightarrow> list_all P (x @ y)"
  "list_all P x \<Longrightarrow> (\<And>i. list_all P (f i)) \<Longrightarrow> list_all P (case z of None \<Rightarrow> x | Some i \<Rightarrow> f i)"
  by (simp_all split: option.split)

lemma url_string_parts:
  assumes "url_parse raw = Some u" and "q \<noteq> []"
  obtains A F where "url_string (u\<lparr>url_raw_query := q\<rparr>) = A @ CHR ''?'' # q @ F"
    and "list_all (\<lambda>c. \<not> ends_part c) A" and "F = [] \<or> hd F = CHR ''#''"
proof -
  let ?u = "u\<lparr>url_raw_query := q\<rparr>" and ?s = "url_string (u\<lparr>url_raw_query := q\<rparr>)"
  let ?F = "if url_fragment u \<noteq> [] then CHR ''#'' # escaped_fragment ?u else []"
  let ?path = "escaped_path ?u" and ?scheme = "if url_scheme u \<noteq> [] then url_scheme u @ '':'' else []"
  have plain: "list_all (\<lambda>c. \<not> ends_part c) (url_scheme u)" "list_all (\<lambda>c. \<not> ends_part c) (url_opaque u)"
    "list_all (\<lambda>c. \<not> ends_part c) ?path" "list_all (\<lambda>c. \<not> ends_part c) (escape EncodeHost (url_host u))"
    "list_all (\<lambda>c. \<not> ends_part c) (userinfo_string ui)" for ui
    by (rule all_unmarked, erule parsed_unmarked(1) [OF assms(1)])
      (rule all_unmarked, erule parsed_unmarked(2) [OF assms(1)],
       rule all_unmarked, erule escaped_path_unmarked,
       rule all_unmarked, rule escape_unmarked, simp, assumption,
       rule all_unmarked, erule userinfo_unmarked)
  define A where "A = ?scheme @ (if url_opaque u \<noteq> [] then url_opaque u
     else let authority = (if (url_scheme u \<noteq> [] \<or> url_host u \<noteq> [] \<or> url_user u \<noteq> None)
               \<and> \<not> (url_omit_host u \<and> url_host u = [] \<and> url_user u = None)
             then (if url_host u \<noteq> [] \<or> url_path u \<noteq> [] \<or> url_user u \<noteq> None then ''//'' else [])
               @ (case url_user u of None \<Rightarrow> [] | Some ui \<Rightarrow> userinfo_string ui @ ''@'') @ escape EncodeHost (url_host u)
             else []);
           slash = (if ?path \<noteq> [] \<and> hd ?path \<noteq> CHR ''/'' \<and> url_host u \<noteq> [] then ''/'' else []);
           dot = (if ?scheme @ authority @ slash = [] \<and> CHR '':'' \<in> set (fst (cut_at (CHR ''/'') ?path)) then ''./'' else [])
         in authority @ slash @ dot @ ?path)"
  have "url_string ?u = A @ CHR ''?'' # q @ ?F"
    using assms(2) unfolding url_string_def A_def Let_def by simp
  moreover have "list_all (\<lambda>c. \<not> ends_part c) A"
    unfolding A_def Let_def by (intro all_parts plain) simp_all
  ultimately show thesis using that [of A ?F] by simp
qed

lemma parsed_query:
  assumes "url_parse (A @ CHR ''?'' # q @ F) = Some v" and "list_all (\<lambda>c. \<not> ends_part c) A"
    and "F = [] \<or> hd F = CHR ''#''" and "q \<noteq> []" and "\<And>c. ends_part c \<Longrightarrow> c \<notin> set q"
  shows "url_raw_query v = q"
proof -
  have A: "CHR ''?'' \<notin> set A" "CHR ''#'' \<notin> set A" using assms(2) by (auto simp: list_all_iff)
  have "takeWhile (\<lambda>c. c \<noteq> CHR ''#'') F = []" using assms(3) by (cases F) auto
  moreover have "\<forall>c \<in> set (A @ CHR ''?'' # q). c \<noteq> CHR ''#''" using A(2) assms(5) by auto
  ultimately have "fst (cut_at (CHR ''#'') (A @ CHR ''?'' # q @ F)) = A @ CHR ''?'' # q"
    using takeWhile_append2 [of "A @ CHR ''?'' # q" "\<lambda>c. c \<noteq> CHR ''#''" F] by (simp add: cut_at_def)
  then obtain w where w: "parse_no_fragment (A @ CHR ''?'' # q) = Some w" "url_raw_query v = url_raw_query w"
    using assms(1) by (auto simp: url_parse_def split: prod.splits option.splits if_splits)
  have star: "A @ CHR ''?'' # q \<noteq> ''*''" by (cases A) auto
  from w(1) star obtain sc rest where sr: "get_scheme (A @ CHR ''?'' # q) = Some (sc, rest)"
    by (auto simp: parse_no_fragment_def split: if_splits option.splits)
  then obtain B where rest: "rest = B @ CHR ''?'' # q" and B: "CHR ''?'' \<notin> set B"
    using scheme_before [OF A(1), of "A @ CHR ''?'' # q" "[]" q sc rest] A(1) by (auto simp: get_scheme_def)
  have "last q \<noteq> CHR ''?''" using assms(4,5) last_in_set by blast
  then have "last rest \<noteq> CHR ''?''" using assms(4) by (simp add: rest)
  then have "\<not> suffix ''?'' rest" by (auto simp: suffix_def)
  then have "parse_rest (empty_url\<lparr>url_scheme := to_lower sc, url_raw_query := q\<rparr>) B = Some w"
    using w(1) star sr B by (auto simp: parse_no_fragment_def Let_def rest cut_at_append split: if_splits)
  then show ?thesis using parse_rest_parts w(2) by fastforce
qed

text \<open>What \<open>http.NewRequest\<close> keeps of an address whose query was replaced.\<close>

lemma request_query:
  assumes "url_parse raw = Some u" and "q \<noteq> []" and "\<And>c. ends_part c \<Longrightarrow> c \<notin> set q"
    and "new_request w m (url_string (u\<lparr>url_raw_query := q\<rparr>)) body = Inr rq"
  shows "url_raw_query (hr_url rq) = q \<and> hr_method rq = m \<and> hr_body rq = body"
proof -
  obtain v where v: "url_parse (url_string (u\<lparr>url_raw_query := q\<rparr>)) = Some v" "url_raw_query (hr_url rq) = url_raw_query v"
    "hr_method rq = m" "hr_body rq = body"
    using assms(4) by (auto simp: new_request_def Let_def split: option.splits)
  obtain A F where "url_string (u\<lparr>url_raw_query := q\<rparr>) = A @ CHR ''?'' # q @ F"
    and "list_all (\<lambda>c. \<not> ends_part c) A" and "F = [] \<or> hd F = CHR ''#''"
    by (rule url_string_parts [OF assms(1,2)])
  then show ?thesis using parsed_query [of A q F v] assms(2,3) v by simp
qed

end
