(* ===== verification/Signing.thy ===== *)
theory Signing
  imports Queries
begin

text \<open>
  How requests to the five clouds are signed: the canonical queries of \<open>chinacloud.go\<close> and the signed
  requests of its checks and of the clients in \<open>alibaba_client.go\<close>, \<open>huawei_client.go\<close>, \<open>tencent_vm.go\<close>,
  \<open>tianyi_vm.go\<close> and \<open>baidu_vm.go\<close>.
\<close>

section \<open>Digests and canonical forms\<close>

definition nl :: string where
  "nl = [CHR 0x0A]"

definition sha256Hex :: "web \<Rightarrow> string \<Rightarrow> string" where
  "sha256Hex w data = hex_encode (we_sha256 w data)"

definition alibabaPercentEncode :: "string \<Rightarrow> string" where
  "alibabaPercentEncode v =
     replace_all ''%7E'' ''~'' (replace_all ''*'' ''%2A'' (replace_all ''+'' ''%20'' (query_escape v)))"

definition alibabaCanonicalQuery :: "string smap \<Rightarrow> string" where
  "alibabaCanonicalQuery m = join ''&'' (map
     (\<lambda>k. alibabaPercentEncode k @ ''='' @ alibabaPercentEncode (lookup_default [] m k)) (sort_strings (map fst m)))"

definition canonicalQueryString :: "url_values \<Rightarrow> string" where
  "canonicalQueryString m = join ''&'' (concat (map
     (\<lambda>k. map (\<lambda>v. query_escape k @ ''='' @ query_escape v) (sort_strings (lookup_default [] m k)))
     (sort_strings (map fst m))))"

definition canonicalPath :: "string \<Rightarrow> string" where
  "canonicalPath p = (if p = [] then ''/'' else p)"

text \<open>\<open>requestID\<close>: sixteen random bytes in hex, or the time when there are none.\<close>

definition requestID :: "web \<Rightarrow> nat \<Rightarrow> string" where
  "requestID w n = (case we_random w n of
     None \<Rightarrow> string_of_int (unix_nano (we_now w))
   | Some d \<Rightarrow> hex_encode (take 4 d) @ ''-'' @ hex_encode (take 2 (drop 4 d)) @ ''-'' @ hex_encode (take 2 (drop 6 d))
       @ ''-'' @ hex_encode (take 2 (drop 8 d)) @ ''-'' @ hex_encode (take 6 (drop 10 d)))"

definition invalid_address :: "web \<Rightarrow> string \<Rightarrow> string \<Rightarrow> gerror" where
  "invalid_address w cloud address =
     ErrProvider ErrInvalidSpec (cloud @ '' endpoint is invalid: '' @ error_string (we_url_error w address))
       (Some (we_url_error w address))"

definition wrap_request :: "string \<Rightarrow> gerror + http_request \<Rightarrow> gerror + http_request" where
  "wrap_request cloud r = (case r of Inr rq \<Rightarrow> Inr rq
     | Inl e \<Rightarrow> Inl (ErrProvider ErrInvalidSpec (''create '' @ cloud @ '' request: '' @ error_string e) (Some e)))"

definition set_query :: "string \<Rightarrow> string \<Rightarrow> url_values \<Rightarrow> url_values" where
  "set_query k v m = AList.update k [v] m"

definition rooted_url :: "url \<Rightarrow> url" where
  "rooted_url u = (if url_path u = [] then u\<lparr>url_path := ''/''\<rparr> else u)"

section \<open>Alibaba Cloud\<close>

definition alibaba_string_to_sign :: "string smap \<Rightarrow> string" where
  "alibaba_string_to_sign m = ''GET&%2F&'' @ alibabaPercentEncode (alibabaCanonicalQuery m)"

definition alibaba_signature :: "web \<Rightarrow> string \<Rightarrow> string smap \<Rightarrow> string" where
  "alibaba_signature w secret m = b64_encode (we_hmac_sha1 w (secret @ ''&'') (alibaba_string_to_sign m))"

definition alibaba_base :: "web \<Rightarrow> string \<Rightarrow> string smap" where
  "alibaba_base w keyID =
     [(''AccessKeyId'', keyID), (''Format'', ''JSON''), (''SignatureMethod'', ''HMAC-SHA1''),
      (''SignatureNonce'', string_of_int (unix_nano (we_nonce w))), (''SignatureVersion'', ''1.0''),
      (''Timestamp'', time_text (we_now w))]"

text \<open>The signed values join the query of the endpoint, which is not signed.\<close>

definition alibaba_query :: "web \<Rightarrow> string \<Rightarrow> string smap \<Rightarrow> url_values \<Rightarrow> url_values" where
  "alibaba_query w secret signed q =
     set_query ''Signature'' (alibaba_signature w secret signed) (fold (\<lambda>(k, v). set_query k v) signed q)"

definition alibaba_request :: "web \<Rightarrow> string \<Rightarrow> string \<Rightarrow> string smap \<Rightarrow> gerror + http_request" where
  "alibaba_request w endpoint secret signed = (case url_parse endpoint of
      None \<Rightarrow> Inl (invalid_address w ''Alibaba Cloud'' endpoint)
    | Some u \<Rightarrow> wrap_request ''Alibaba Cloud'' (new_request w ''GET''
        (url_string (u\<lparr>url_raw_query := encode_query (alibaba_query w secret signed (parse_query (url_raw_query u)))\<rparr>)) []))"

text \<open>\<open>newAlibabaSignedRequest\<close> leaves blank values out.\<close>

definition alibaba_values :: "web \<Rightarrow> string \<Rightarrow> string smap \<Rightarrow> string smap" where
  "alibaba_values w keyID m =
     fold (\<lambda>(k, v) out. if trim_space v = [] then out else AList.update k v out) m (alibaba_base w keyID)"

definition newAlibabaSignedRequest ::
  "web \<Rightarrow> string \<Rightarrow> string \<Rightarrow> string \<Rightarrow> string smap \<Rightarrow> gerror + http_request" where
  "newAlibabaSignedRequest w endpoint keyID secret m = alibaba_request w endpoint secret (alibaba_values w keyID m)"

section \<open>Huawei Cloud\<close>

definition huawei_signed_headers :: string where
  "huawei_signed_headers = ''content-type;host;x-sdk-date''"

definition huawei_canonical :: "web \<Rightarrow> string \<Rightarrow> url \<Rightarrow> string \<Rightarrow> string" where
  "huawei_canonical w m u body = join nl
     [m, canonicalPath (escaped_path u), canonicalQueryString (parse_query (url_raw_query u)),
      ''content-type:application/json'' @ nl @ ''host:'' @ url_host u @ nl @ ''x-sdk-date:'' @ compact_time (we_now w) @ nl,
      huawei_signed_headers, sha256Hex w body]"

definition huawei_authorization :: "web \<Rightarrow> string \<Rightarrow> url \<Rightarrow> string \<Rightarrow> string \<Rightarrow> string \<Rightarrow> string" where
  "huawei_authorization w m u ak sk body =
     (let stringToSign = join nl [''SDK-HMAC-SHA256'', compact_time (we_now w), sha256Hex w (huawei_canonical w m u body)]
      in ''SDK-HMAC-SHA256 Access='' @ ak @ '', SignedHeaders='' @ huawei_signed_headers @ '', Signature=''
         @ hex_encode (we_hmac_sha256 w sk stringToSign))"

definition huawei_request :: "web \<Rightarrow> string \<Rightarrow> url \<Rightarrow> string \<Rightarrow> string \<Rightarrow> string \<Rightarrow> gerror + http_request" where
  "huawei_request w m u ak sk body =
     bindr (wrap_request ''Huawei Cloud'' (new_request w m (url_string u) body)) (\<lambda>rq.
       Inr (set_headers [(''Authorization'', huawei_authorization w m u ak sk body), (''Content-Type'', ''application/json''),
         (''X-Sdk-Date'', compact_time (we_now w))] (rq\<lparr>hr_host := url_host u\<rparr>)))"

definition newHuaweiSignedRequest ::
  "web \<Rightarrow> string \<Rightarrow> string \<Rightarrow> string \<Rightarrow> url_values option \<Rightarrow> string \<Rightarrow> string \<Rightarrow> string \<Rightarrow> gerror + http_request" where
  "newHuaweiSignedRequest w endpoint m path query body ak sk =
     (let p = (if prefix ''/'' path then path else ''/'' @ path);
          address = trim_right (\<lambda>c. c = CHR ''/'') endpoint @ p
      in case url_parse address of None \<Rightarrow> Inl (invalid_address w ''Huawei Cloud'' address)
       | Some u \<Rightarrow> huawei_request w m (case query of None \<Rightarrow> u | Some q \<Rightarrow> u\<lparr>url_raw_query := encode_query q\<rparr>) ak sk body)"

section \<open>Tencent Cloud\<close>

definition tencent_signed_headers :: string where
  "tencent_signed_headers = ''content-type;host;x-tc-action''"

definition tencent_scope :: "web \<Rightarrow> string" where
  "tencent_scope w = date_text (we_now w) @ ''/cvm/tc3_request''"

definition tencent_canonical :: "web \<Rightarrow> url \<Rightarrow> string \<Rightarrow> string \<Rightarrow> string" where
  "tencent_canonical w u action body = join nl
     [''POST'', ''/'', [],
      ''content-type:application/json; charset=utf-8'' @ nl @ ''host:'' @ url_host u @ nl @ ''x-tc-action:'' @ to_lower action @ nl,
      tencent_signed_headers, sha256Hex w body]"

definition tencent_key :: "web \<Rightarrow> string \<Rightarrow> string" where
  "tencent_key w sk = we_hmac_sha256 w (we_hmac_sha256 w (we_hmac_sha256 w (''TC3'' @ sk) (date_text (we_now w))) ''cvm'')
     ''tc3_request''"

definition tencent_authorization :: "web \<Rightarrow> url \<Rightarrow> string \<Rightarrow> string \<Rightarrow> string \<Rightarrow> string \<Rightarrow> string" where
  "tencent_authorization w u action si sk body =
     (let stringToSign = join nl [''TC3-HMAC-SHA256'', string_of_int (unix_seconds (we_now w)), tencent_scope w,
            sha256Hex w (tencent_canonical w u action body)]
      in ''TC3-HMAC-SHA256 Credential='' @ si @ ''/'' @ tencent_scope w @ '', SignedHeaders='' @ tencent_signed_headers
         @ '', Signature='' @ hex_encode (we_hmac_sha256 w (tencent_key w sk) stringToSign))"

definition tencent_headers :: "web \<Rightarrow> url \<Rightarrow> string \<Rightarrow> string \<Rightarrow> string \<Rightarrow> string \<Rightarrow> string \<Rightarrow> string smap" where
  "tencent_headers w u action region si sk body =
     [(''Authorization'', tencent_authorization w u action si sk body), (''Content-Type'', ''application/json; charset=utf-8''),
      (''X-TC-Action'', action), (''X-TC-Timestamp'', string_of_int (unix_seconds (we_now w))),
      (''X-TC-Version'', ''2017-03-12''), (''X-TC-Region'', region)]"

definition tencent_request :: "web \<Rightarrow> url \<Rightarrow> string \<Rightarrow> string \<Rightarrow> string \<Rightarrow> string \<Rightarrow> string \<Rightarrow> gerror + http_request" where
  "tencent_request w u action region si sk body =
     bindr (new_request w ''POST'' (url_string (rooted_url u)) body) (\<lambda>rq.
       Inr (set_headers (tencent_headers w u action region si sk body) (rq\<lparr>hr_host := url_host u\<rparr>)))"

section \<open>Tianyi Cloud\<close>

definition tianyi_signed :: "web \<Rightarrow> url \<Rightarrow> string \<Rightarrow> string \<Rightarrow> string" where
  "tianyi_signed w u rid body =
     ''ctyun-eop-request-id:'' @ rid @ nl @ ''eop-date:'' @ compact_time (we_now w) @ nl @ nl
     @ canonicalQueryString (parse_query (url_raw_query u)) @ nl @ sha256Hex w body"

definition tianyi_key :: "web \<Rightarrow> string \<Rightarrow> string \<Rightarrow> string" where
  "tianyi_key w ak sk = we_hmac_sha256 w (we_hmac_sha256 w (we_hmac_sha256 w sk (compact_time (we_now w))) ak)
     (hd (split_char CHR ''T'' (compact_time (we_now w))))"

definition tianyi_authorization :: "web \<Rightarrow> url \<Rightarrow> string \<Rightarrow> string \<Rightarrow> string \<Rightarrow> string \<Rightarrow> string" where
  "tianyi_authorization w u rid ak sk body =
     ak @ '' Headers=ctyun-eop-request-id;eop-date Signature=''
     @ b64_encode (we_hmac_sha256 w (tianyi_key w ak sk) (tianyi_signed w u rid body))"

definition tianyi_request :: "web \<Rightarrow> string \<Rightarrow> url \<Rightarrow> string \<Rightarrow> string \<Rightarrow> string \<Rightarrow> string \<Rightarrow> gerror + http_request" where
  "tianyi_request w m u rid ak sk body =
     bindr (new_request w m (url_string u) body) (\<lambda>rq.
       Inr (set_headers [(''Content-Type'', ''application/json''), (''ctyun-eop-request-id'', rid),
         (''Eop-Authorization'', tianyi_authorization w u rid ak sk body), (''Eop-date'', compact_time (we_now w))]
         (rq\<lparr>hr_host := url_host u\<rparr>)))"

section \<open>Baidu AI Cloud\<close>

definition baidu_prefix :: "web \<Rightarrow> string \<Rightarrow> string" where
  "baidu_prefix w ak = ''bce-auth-v1/'' @ ak @ ''/'' @ time_text (we_now w) @ ''/1800''"

text \<open>The headers that are signed, and the canonical request, are those of the caller.\<close>

definition baidu_authorization :: "web \<Rightarrow> string \<Rightarrow> string \<Rightarrow> string \<Rightarrow> string \<Rightarrow> string" where
  "baidu_authorization w ak sk signedHeaders canonical =
     (let signingKey = hex_encode (we_hmac_sha256 w sk (baidu_prefix w ak))
      in baidu_prefix w ak @ ''/'' @ signedHeaders @ ''/'' @ hex_encode (we_hmac_sha256 w signingKey canonical))"

definition baidu_canonical :: "web \<Rightarrow> string \<Rightarrow> url \<Rightarrow> string" where
  "baidu_canonical w m u = join nl [m, canonicalPath (escaped_path u), canonicalQueryString (parse_query (url_raw_query u)),
     ''content-type:application/json'' @ nl @ ''host:'' @ url_host u @ nl @ ''x-bce-date:'' @ time_text (we_now w)]"

definition baidu_request :: "web \<Rightarrow> string \<Rightarrow> url \<Rightarrow> string \<Rightarrow> string \<Rightarrow> string \<Rightarrow> gerror + http_request" where
  "baidu_request w m u ak sk body =
     bindr (new_request w m (url_string u) body) (\<lambda>rq.
       Inr (set_headers [(''Authorization'', baidu_authorization w ak sk ''content-type;host;x-bce-date'' (baidu_canonical w m u)),
         (''Content-Type'', ''application/json''), (''x-bce-date'', time_text (we_now w))] (rq\<lparr>hr_host := url_host u\<rparr>)))"

section \<open>What Alibaba Cloud signs\<close>

definition percent_char :: "char \<Rightarrow> string" where
  "percent_char c = (if c = CHR '' '' then ''%20'' else escape_char EncodeQueryComponent c)"

lemma percent_cases:
  obtains "percent_char c = ''%20''" "c = CHR '' ''"
  | "percent_char c = [c]" "\<not> should_escape EncodeQueryComponent c"
  | "percent_char c = [CHR ''%'', upper_hex (byte c div 16), upper_hex (byte c mod 16)]"
      "should_escape EncodeQueryComponent c" "c \<noteq> CHR '' ''"
  by (cases "c = CHR '' ''"; cases "should_escape EncodeQueryComponent c")
    (simp_all add: percent_char_def escape_char_def)

lemma plain_marks:
  assumes "\<not> should_escape EncodeQueryComponent c"
  shows "c \<noteq> CHR ''%'' \<and> c \<noteq> CHR ''+'' \<and> c \<noteq> CHR ''*'' \<and> c \<noteq> CHR '' ''"
proof -
  have "list_all (should_escape EncodeQueryComponent) ''%+* ''" by code_simp
  then show ?thesis using assms by auto
qed

lemma concat_pieces: "(\<And>c. concat (map f (g c)) = h c) \<Longrightarrow> concat (map f (concat (map g s))) = concat (map h s)"
  by (induction s) auto

lemma hex_not_mark: "upper_hex n \<noteq> CHR ''+'' \<and> upper_hex n \<noteq> CHR ''*'' \<and> upper_hex n \<noteq> CHR ''%''"
  using upper_hex_alnum [of n] marks_not_alnum by (auto simp: list_all_iff)

lemma tilde_hex:
  assumes "upper_hex (byte c div 16) = CHR ''7''" and "upper_hex (byte c mod 16) = CHR ''E''"
  shows "c = CHR ''~''"
proof -
  have "byte c < 256" by (rule byte_bound)
  then have "unhex (upper_hex (byte c div 16)) = byte c div 16" "unhex (upper_hex (byte c mod 16)) = byte c mod 16"
    by (simp_all add: upper_hex_digit less_mult_imp_div_less)
  moreover have "unhex (CHR ''7'') = 7" "unhex (CHR ''E'') = 14" by (code_simp, code_simp)
  ultimately have "byte c div 16 = 7" "byte c mod 16 = 14" using assms by simp_all
  then have "byte c = 126" using div_mult_mod_eq [of "byte c" 16] by simp
  moreover have "char_of (126::nat) = CHR ''~''" by code_simp
  ultimately show ?thesis by (metis char_of_char)
qed

lemma no_tilde: "\<not> sublist ''%7E'' (concat (map percent_char v))"
proof (induction v)
  case (Cons c v)
  let ?r = "concat (map percent_char v)"
  show ?case
  proof (cases rule: percent_cases [of c])
    case 1
    then show ?thesis using Cons by (simp add: sublist_Cons_right)
  next
    case 2
    then show ?thesis using Cons plain_marks [OF 2(2)] by (auto simp: sublist_Cons_right)
  next
    case 3
    have "\<not> should_escape EncodeQueryComponent (CHR ''~'')" by code_simp
    then have "c \<noteq> CHR ''~''" using 3(2) by blast
    then have "\<not> (upper_hex (byte c div 16) = CHR ''7'' \<and> upper_hex (byte c mod 16) = CHR ''E'')" using tilde_hex by blast
    moreover have "CHR ''%'' \<noteq> upper_hex n" for n using hex_not_mark [of n] by metis
    ultimately show ?thesis using Cons 3(1) by (auto simp: sublist_Cons_right)
  qed
qed simp

lemma percent_encode: "alibabaPercentEncode v = concat (map percent_char v)"
proof -
  have plus: "concat (map (\<lambda>c. if c = CHR ''+'' then ''%20'' else [c]) (escape_char EncodeQueryComponent c)) = percent_char c" for c
    by (cases rule: percent_cases [of c])
      (use plain_marks [of c] hex_not_mark in \<open>auto simp: percent_char_def escape_char_def split: if_splits\<close>)
  have star: "concat (map (\<lambda>c. if c = CHR ''*'' then ''%2A'' else [c]) (percent_char c)) = percent_char c" for c
    by (cases rule: percent_cases [of c]) (use plain_marks [of c] hex_not_mark in auto)
  show ?thesis
    unfolding alibabaPercentEncode_def query_escape_def escape_def replace_all_char
      concat_pieces [of _ "escape_char EncodeQueryComponent", OF plus] concat_pieces [of _ percent_char, OF star]
    by (rule replace_all_id [OF no_tilde])
qed

lemma unescape_percent [simp]: "unescape EncodeQueryComponent (alibabaPercentEncode v) = Some v"
proof -
  have space: "char_of (32::nat) = CHR '' ''" by code_simp
  have piece: "unescape EncodeQueryComponent (percent_char c @ s) = map_option (\<lambda>r. c # r) (unescape EncodeQueryComponent s)" for c s
    using unescape_escape_char [of EncodeQueryComponent c s]
      unescape_hex [of EncodeQueryComponent "CHR ''2''" "CHR ''0''" s]
    by (cases "c = CHR '' ''") (simp_all add: percent_char_def is_hex_def is_digit_def unhex_def space del: unescape.simps)
  show ?thesis
  proof (induction v)
    case Nil
    show ?case by (simp add: percent_encode)
  next
    case (Cons c v)
    then show ?case by (simp add: percent_encode piece del: unescape.simps)
  qed
qed

lemma percent_inject: "alibabaPercentEncode v = alibabaPercentEncode v' \<Longrightarrow> v = v'"
  by (metis option.inject unescape_percent)

lemma percent_plain: "c \<in> set ''&=;?#/:*+'' \<Longrightarrow> c \<notin> set (alibabaPercentEncode v)"
proof -
  assume c: "c \<in> set ''&=;?#/:*+''"
  have "list_all (\<lambda>c. should_escape EncodeQueryComponent c \<and> \<not> is_alnum c \<and> c \<noteq> CHR ''%'') ''&=;?#/:*+''" by code_simp
  with c have marks: "should_escape EncodeQueryComponent c" "\<not> is_alnum c" "c \<noteq> CHR ''%''" by (auto simp: list_all_iff)
  have "\<not> is_alnum c \<Longrightarrow> c \<noteq> CHR ''2'' \<and> c \<noteq> CHR ''0''" by (auto simp: is_alnum_def is_digit_def)
  then have "c \<notin> set (percent_char d)" for d
    by (cases rule: percent_cases [of d]) (use marks upper_hex_alnum in auto)
  then show ?thesis by (auto simp: percent_encode)
qed

definition percent_pair :: "string \<times> string \<Rightarrow> string" where
  "percent_pair kv = alibabaPercentEncode (fst kv) @ ''='' @ alibabaPercentEncode (snd kv)"

lemma prints_percent_pair: "prints_pairs percent_pair"
proof -
  have pair: "add_query_pair m (percent_pair (k, v)) = AList.update k (lookup_default [] m k @ [v]) m" for m k v
  proof -
    have "cut_at (CHR ''='') (percent_pair (k, v)) = (alibabaPercentEncode k, alibabaPercentEncode v)"
      using percent_plain [of "CHR ''=''" k] by (simp add: percent_pair_def cut_at_append)
    moreover have "CHR '';'' \<notin> set (percent_pair (k, v))" "percent_pair (k, v) \<noteq> []"
      using percent_plain [of "CHR '';''"] by (simp_all add: percent_pair_def)
    ultimately show ?thesis by (simp add: add_query_pair_def)
  qed
  have "CHR ''&'' \<notin> set (percent_pair kv)" for kv
    using percent_plain [of "CHR ''&''"] by (simp add: percent_pair_def)
  with pair show ?thesis by (simp add: prints_pairs_def)
qed

lemma canonical_pairs:
  "alibabaCanonicalQuery m = join ''&'' (map percent_pair (map (\<lambda>k. (k, lookup_default [] m k)) (sort_strings (map fst m))))"
  by (simp add: alibabaCanonicalQuery_def percent_pair_def comp_def)

lemma canonical_read:
  assumes "distinct (map fst m)"
  shows "lookup_default [] (parse_query (alibabaCanonicalQuery m)) k = (case map_of m k of None \<Rightarrow> [] | Some v \<Rightarrow> [v])"
proof -
  have "map snd (filter (\<lambda>kv. fst kv = k) (map (\<lambda>k. (k, lookup_default [] m k)) ks))
      = (if k \<in> set ks then [lookup_default [] m k] else [])" if "distinct ks" for ks
    using that by (induction ks) auto
  then have "lookup_default [] (parse_query (alibabaCanonicalQuery m)) k
      = (if k \<in> set (map fst m) then [lookup_default [] m k] else [])"
    using assms unfolding canonical_pairs parse_pairs [OF prints_percent_pair] by simp
  moreover have "k \<in> set (map fst m) \<longleftrightarrow> map_of m k \<noteq> None" by (simp add: map_of_eq_None_iff)
  ultimately show ?thesis by (auto simp: lookup_default_def)
qed

text \<open>Two sets of parameters with the same string to sign are the same.\<close>

lemma string_to_sign_inject:
  assumes "distinct (map fst m)" and "distinct (map fst m')" and "alibaba_string_to_sign m = alibaba_string_to_sign m'"
  shows "map_of m = map_of m'"
proof
  fix k
  have "alibabaCanonicalQuery m = alibabaCanonicalQuery m'"
    using assms(3) by (auto simp: alibaba_string_to_sign_def dest: percent_inject)
  then show "map_of m k = map_of m' k"
    using canonical_read [OF assms(1), of k] canonical_read [OF assms(2), of k] by (simp split: option.splits)
qed

section \<open>What Alibaba Cloud receives\<close>

text \<open>The check that the service makes: the parameters that arrive, without the signature, are signed
  again with the secret of the key.\<close>

definition alibaba_received :: "http_request \<Rightarrow> string smap" where
  "alibaba_received rq = List.map_filter (\<lambda>(k, vs). case vs of [] \<Rightarrow> None
     | v # _ \<Rightarrow> if k = ''Signature'' then None else Some (k, v)) (parse_query (url_raw_query (hr_url rq)))"

definition alibaba_verifies :: "web \<Rightarrow> string \<Rightarrow> http_request \<Rightarrow> bool" where
  "alibaba_verifies w secret rq \<longleftrightarrow> lookup_default [] (parse_query (url_raw_query (hr_url rq))) ''Signature''
     = [alibaba_signature w secret (alibaba_received rq)]"

lemma canonical_cong:
  assumes "distinct (map fst m)" and "distinct (map fst m')" and "map_of m = map_of m'"
  shows "alibabaCanonicalQuery m = alibabaCanonicalQuery m'"
proof -
  have "set (map fst m) = set (map fst m')"
    using assms(3) by (metis dom_map_of_conv_image_fst set_map)
  then have "sort_strings (map fst m) = sort_strings (map fst m')"
    using assms(1,2) by (intro sorted_distinct_set_unique) simp_all
  moreover have "lookup_default d m = lookup_default d m'" for d using assms(3) by (auto simp: lookup_default_def)
  ultimately show ?thesis by (simp add: alibabaCanonicalQuery_def)
qed

lemma distinct_set_query: "distinct (map fst q) \<Longrightarrow> distinct (map fst (fold (\<lambda>(k, v). set_query k v) m q))"
  by (induction m arbitrary: q) (auto simp: set_query_def distinct_update)

lemma lookup_set_query:
  "distinct (map fst m) \<Longrightarrow> lookup_default [] (fold (\<lambda>(k, v). set_query k v) m q) k
    = (case map_of m k of Some v \<Rightarrow> [v] | None \<Rightarrow> lookup_default [] q k)"
proof (induction m arbitrary: q)
  case (Cons kv m)
  obtain k' v where kv: "kv = (k', v)" by (cases kv)
  from Cons.prems have "map_of m k' = None" by (simp add: kv map_of_eq_None_iff)
  with Cons show ?case by (auto simp: kv set_query_def lookup_update split: option.split)
qed simp

lemma alibaba_query_lookup:
  assumes "distinct (map fst m)" and "map_of m ''Signature'' = None"
  shows "lookup_default [] (alibaba_query w secret m q) k = (if k = ''Signature'' then [alibaba_signature w secret m]
    else case map_of m k of Some v \<Rightarrow> [v] | None \<Rightarrow> lookup_default [] q k)"
  by (simp add: alibaba_query_def set_query_def [of "''Signature''"] lookup_update lookup_set_query [OF assms(1)])

lemma distinct_alibaba_query: "distinct (map fst q) \<Longrightarrow> distinct (map fst (alibaba_query w secret m q))"
  by (simp add: alibaba_query_def distinct_set_query set_query_def [of "''Signature''"] distinct_update)

lemma wrap_request_Inr [simp]: "wrap_request cloud r = Inr rq \<longleftrightarrow> r = Inr rq"
  by (simp add: wrap_request_def split: sum.split)

lemma alibaba_sent:
  assumes "alibaba_request w endpoint secret m = Inr rq" and "distinct (map fst m)" and "map_of m ''Signature'' = None"
    and "url_parse endpoint = Some u"
  shows "lookup_default [] (parse_query (url_raw_query (hr_url rq))) k = (if k = ''Signature'' then [alibaba_signature w secret m]
    else case map_of m k of Some v \<Rightarrow> [v] | None \<Rightarrow> lookup_default [] (parse_query (url_raw_query u)) k)"
proof -
  let ?q = "alibaba_query w secret m (parse_query (url_raw_query u))"
  have sent: "new_request w ''GET'' (url_string (u\<lparr>url_raw_query := encode_query ?q\<rparr>)) [] = Inr rq"
    using assms(1,4) by (simp add: alibaba_request_def)
  have read: "lookup_default [] (parse_query (encode_query ?q)) k = lookup_default [] ?q k" for k
    by (rule parse_encode [OF distinct_alibaba_query [OF distinct_parse_query]])
  have "encode_query ?q \<noteq> []"
  proof
    assume "encode_query ?q = []"
    then have "lookup_default [] (parse_query []) ''Signature'' = [alibaba_signature w secret m]"
      using read [of "''Signature''"] alibaba_query_lookup [OF assms(2,3)] by simp
    then show False by (simp add: parse_query_def add_query_pair_def lookup_default_def)
  qed
  moreover have "c \<notin> set (encode_query ?q)" if "ends_part c" for c
    using that encode_query_plain [of c ?q] by auto
  ultimately have "url_raw_query (hr_url rq) = encode_query ?q"
    using request_query [OF assms(4) _ _ sent] by blast
  then show ?thesis by (simp add: read alibaba_query_lookup [OF assms(2,3)])
qed

lemma map_of_map_filter_pairs:
  "distinct (map fst q) \<Longrightarrow> map_of (List.map_filter (\<lambda>(k, vs). case vs of [] \<Rightarrow> None
      | v # _ \<Rightarrow> if k = s then None else Some (k, v)) q) k
    = (if k = s then None else case lookup_default [] q k of [] \<Rightarrow> None | v # _ \<Rightarrow> Some v)"
proof (induction q)
  case (Cons kv q)
  obtain k' vs where kv: "kv = (k', vs)" by (cases kv)
  from Cons.prems have "map_of q k' = None" by (simp add: kv map_of_eq_None_iff)
  with Cons show ?case by (auto simp: kv map_filter_simps lookup_default_def split: list.split)
qed (simp add: map_filter_simps lookup_default_def)

lemma distinct_map_filter_pairs:
  "distinct (map fst q) \<Longrightarrow> distinct (map fst (List.map_filter (\<lambda>(k, vs). case vs of [] \<Rightarrow> None
      | v # _ \<Rightarrow> if k = s then None else Some (k, v)) q))"
proof (induction q)
  case (Cons kv q)
  have "fst ` set (List.map_filter (\<lambda>(k, vs). case vs of [] \<Rightarrow> None
      | v # _ \<Rightarrow> if k = s then None else Some (k, v)) q) \<subseteq> fst ` set q"
    by (force simp: map_filter_def split: list.split_asm if_split_asm)
  with Cons show ?case by (cases kv) (auto simp: map_filter_simps split: list.split)
qed (simp add: map_filter_simps)

lemma distinct_alibaba_values: "distinct (map fst (alibaba_values w keyID m))"
proof -
  have "distinct (map fst (fold (\<lambda>(k, v) out. if trim_space v = [] then out else AList.update k v out) m out))"
    if "distinct (map fst out)" for out
    using that by (induction m arbitrary: out) (auto simp: distinct_update)
  then show ?thesis by (simp add: alibaba_values_def alibaba_base_def)
qed

lemma alibaba_values_of:
  assumes "distinct (map fst m)"
  shows "map_of (alibaba_values w keyID m) k = (case map_of m k of
      None \<Rightarrow> map_of (alibaba_base w keyID) k
    | Some v \<Rightarrow> if trim_space v = [] then map_of (alibaba_base w keyID) k else Some v)"
proof -
  have "map_of (fold (\<lambda>(k, v) out. if trim_space v = [] then out else AList.update k v out) m out) k = (case map_of m k of
      None \<Rightarrow> map_of out k | Some v \<Rightarrow> if trim_space v = [] then map_of out k else Some v)"
    if "distinct (map fst m)" for out
    using that
  proof (induction m arbitrary: out)
    case (Cons kv m)
    obtain k' v where kv: "kv = (k', v)" by (cases kv)
    from Cons.prems have "map_of m k' = None" by (simp add: kv map_of_eq_None_iff)
    with Cons show ?case by (auto simp: kv update_conv' split: option.split)
  qed simp
  from this [OF assms] show ?thesis by (simp add: alibaba_values_def)
qed

text \<open>C15. What Alibaba Cloud receives is what was signed: for an endpoint without a query of its own, the
  parameters that the service reads out of the address are the ones of the call with the common ones,
  without the blank ones, and signing them again gives the signature that was sent.\<close>

theorem alibaba_request_verifies:
  assumes "newAlibabaSignedRequest w endpoint keyID secret m = Inr rq"
    and "url_parse endpoint = Some u" and "url_raw_query u = []"
    and "distinct (map fst m)" and "map_of m ''Signature'' = None"
  shows "alibaba_verifies w secret rq \<and> hr_method rq = ''GET''
    \<and> map_of (alibaba_received rq) = map_of (alibaba_values w keyID m)"
proof -
  let ?m = "alibaba_values w keyID m"
  have dist: "distinct (map fst ?m)" by (rule distinct_alibaba_values)
  have unsigned: "map_of ?m ''Signature'' = None"
    using alibaba_values_of [OF assms(4), of w keyID "''Signature''"] assms(5) by (simp add: alibaba_base_def)
  have rq: "alibaba_request w endpoint secret ?m = Inr rq" using assms(1) by (simp add: newAlibabaSignedRequest_def)
  have none: "lookup_default [] (parse_query []) k = []" for k
    by (simp add: parse_query_def add_query_pair_def lookup_default_def)
  have sent: "lookup_default [] (parse_query (url_raw_query (hr_url rq))) k = (if k = ''Signature''
      then [alibaba_signature w secret ?m] else case map_of ?m k of Some v \<Rightarrow> [v] | None \<Rightarrow> [])" for k
    using alibaba_sent [OF rq dist unsigned assms(2), of k, unfolded assms(3) none] .
  have same: "map_of (alibaba_received rq) = map_of ?m"
    unfolding alibaba_received_def map_of_map_filter_pairs [OF distinct_parse_query] sent fun_eq_iff
    using unsigned by (auto split: option.split)
  have "distinct (map fst (alibaba_received rq))"
    unfolding alibaba_received_def by (rule distinct_map_filter_pairs [OF distinct_parse_query])
  then have "alibaba_signature w secret (alibaba_received rq) = alibaba_signature w secret ?m"
    using canonical_cong [OF _ dist same] by (simp add: alibaba_signature_def alibaba_string_to_sign_def)
  then show ?thesis
    using same sent [of "''Signature''"] rq assms(2)
    by (auto simp: alibaba_verifies_def alibaba_request_def new_request_def Let_def split: option.splits)
qed

definition sample_web :: web where
  "sample_web = \<lparr>we_sha256 = (\<lambda>d. ''sum''), we_hmac_sha256 = (\<lambda>k d. ''mac''), we_hmac_sha1 = (\<lambda>k d. take 20 d),
     we_nonce = GoTime 1970 1 1 0 0 0 7, we_now = GoTime 1970 1 1 0 0 1 0, we_random = (\<lambda>n. None),
     we_url_error = (\<lambda>s. ErrText ''parse''), we_json_error = (\<lambda>s. ErrText ''json''),
     we_send = (\<lambda>rq. Inr \<lparr>hp_status = 200, hp_body = ''{}'', hp_read_error = None\<rparr>)\<rparr>"

lemma sample_endpoint: "url_parse ''https://a/'' = Some (empty_url\<lparr>url_scheme := ''https'', url_host := ''a'', url_path := ''/''\<rparr>)"
  by code_simp

lemma alibaba_request_verifies_witness:
  "\<exists>rq. newAlibabaSignedRequest sample_web ''https://a/'' ''id'' ''key'' [(''Action'', ''DescribeRegions'')] = Inr rq
    \<and> alibaba_verifies sample_web ''key'' rq"
proof -
  let ?r = "newAlibabaSignedRequest sample_web ''https://a/'' ''id'' ''key'' [(''Action'', ''DescribeRegions'')]"
  have "case ?r of Inr rq \<Rightarrow> True | Inl e \<Rightarrow> False" by code_simp
  then obtain rq where rq: "?r = Inr rq" by (cases ?r) auto
  show ?thesis using rq alibaba_request_verifies [OF rq sample_endpoint] by (simp add: empty_url_def)
qed

end
