(* ===== verification/RemoteLog.thy ===== *)
theory RemoteLog
  imports Events JsonText
begin

text \<open>
  Following the output of a job on a remote machine: the loops of \<open>lambda.go\<close> and
  \<open>chinacloud/vm_runtime.go\<close> read a file that grows, again and again, and take over what is new.
  One call returns the offset up to which the file is taken over, the event lines it has seen, the
  text it appends to the run's log (and shows on standard output) and the events it appends.
\<close>

section \<open>Lines of a text\<close>

definition nl :: char where
  "nl = CHR 0x0A"

definition ends_line :: "string \<Rightarrow> bool" where
  "ends_line s \<longleftrightarrow> s = [] \<or> last s = nl"

text \<open>
  \<open>bufio.Scanner\<close> with \<open>ScanLines\<close>: a line loses its newline and one carriage return before it, a
  last line needs no newline, and a line that does not fit the buffer ends the scan with an error.
\<close>

definition drop_cr :: "string \<Rightarrow> string" where
  "drop_cr line = (if line \<noteq> [] \<and> last line = CHR 0x0D then butlast line else line)"

definition scan_tokens :: "string \<Rightarrow> string list" where
  "scan_tokens s = (let ps = split_char nl s in if last ps = [] then butlast ps else ps)"

definition scan_limit :: nat where
  "scan_limit = 16777216"

definition scan_fits :: "string \<Rightarrow> bool" where
  "scan_fits line \<longleftrightarrow> length line < scan_limit"

lemma scan_fits_code [code]: "scan_fits line \<longleftrightarrow> int (length line) < 16777216"
  by (simp add: scan_fits_def scan_limit_def)

definition scan_lines :: "string \<Rightarrow> string list" where
  "scan_lines s = map drop_cr (takeWhile scan_fits (scan_tokens s))"

definition scan_failed :: "string \<Rightarrow> bool" where
  "scan_failed s \<longleftrightarrow> \<not> list_all scan_fits (scan_tokens s)"

section \<open>Lambda\<close>

text \<open>\<open>completeContent\<close>: what follows the offset up to the last newline, and the offset after it.\<close>

definition completeContent :: "string \<Rightarrow> nat \<Rightarrow> string \<times> nat" where
  "completeContent content offset =
     (if offset \<ge> length content then ([], offset)
      else (let next = drop offset content
            in if suffix [nl] next then (next, length content)
               else (case cut_last nl next of
                       None \<Rightarrow> ([], offset)
                     | Some (before, rest) \<Rightarrow>
                         let last_end = offset + length before + 1
                         in (take (last_end - offset) (drop offset content), last_end))))"

text \<open>\<open>strings.SplitAfter(content, "\n")\<close>\<close>

definition split_after :: "string \<Rightarrow> string list" where
  "split_after s = (let ps = split_char nl s in map (\<lambda>p. p @ [nl]) (butlast ps) @ [last ps])"

definition redactedLogContent :: "string \<Rightarrow> redactor \<Rightarrow> string" where
  "redactedLogContent content red =
     concat (map (\<lambda>part.
         if part = [] then []
         else if suffix [nl] part then redact_line red (trim_suffix [nl] part) @ [nl]
         else redact_line red part) (split_after content))"

record appended =
  ap_offset :: nat
  ap_seen :: "string set"
  ap_text :: string
  ap_events :: "event list"

text \<open>The loop over the scanned lines: an event whose line was seen before is left out.\<close>

fun take_events :: "redactor \<Rightarrow> string \<Rightarrow> string \<Rightarrow> gotime \<Rightarrow> string set \<Rightarrow> string list \<Rightarrow> string set \<times> event list" where
  "take_events red runID attemptID now seen [] = (seen, [])"
| "take_events red runID attemptID now seen (line # ls) =
     (let parsed = ParseLine line runID attemptID now
      in if pl_structured parsed then
           if line \<in> seen then take_events red runID attemptID now seen ls
           else (case take_events red runID attemptID now (insert line seen) ls of
                   (seen, evs) \<Rightarrow> (seen, redact_event red (pl_event parsed) # evs))
         else take_events red runID attemptID now seen ls)"

definition scan_error_line :: "redactor \<Rightarrow> string" where
  "scan_error_line red = ''log scanner error: '' @ redact_string red ''bufio.Scanner: token too long'' @ [nl]"

definition appendNewLogContent ::
  "redactor \<Rightarrow> string \<Rightarrow> string \<Rightarrow> gotime \<Rightarrow> string \<Rightarrow> nat \<Rightarrow> string set \<Rightarrow> appended" where
  "appendNewLogContent red runID attemptID now content offset0 seen =
     (let offset = (if offset0 > length content then 0 else offset0)
      in if offset = length content
         then \<lparr>ap_offset = offset, ap_seen = seen, ap_text = [], ap_events = []\<rparr>
         else (case completeContent content offset of (newContent, nextOffset) \<Rightarrow>
           if newContent = [] then \<lparr>ap_offset = offset, ap_seen = seen, ap_text = [], ap_events = []\<rparr>
           else (case take_events red runID attemptID now seen (scan_lines newContent) of (seen', evs) \<Rightarrow>
             \<lparr>ap_offset = nextOffset, ap_seen = seen',
              ap_text = redactedLogContent newContent red
                @ (if scan_failed newContent then scan_error_line red else []),
              ap_events = evs\<rparr>)))"

definition appendNewEventContent ::
  "redactor \<Rightarrow> string \<Rightarrow> string \<Rightarrow> gotime \<Rightarrow> string \<Rightarrow> nat \<Rightarrow> string set \<Rightarrow> appended" where
  "appendNewEventContent red runID attemptID now content offset0 seen =
     (let offset = (if offset0 > length content then 0 else offset0)
      in if offset = length content
         then \<lparr>ap_offset = offset, ap_seen = seen, ap_text = [], ap_events = []\<rparr>
         else (case completeContent content offset of (newContent, nextOffset) \<Rightarrow>
           if newContent = [] then \<lparr>ap_offset = offset, ap_seen = seen, ap_text = [], ap_events = []\<rparr>
           else (case take_events red runID attemptID now seen (scan_lines newContent) of (seen', evs) \<Rightarrow>
             \<lparr>ap_offset = nextOffset, ap_seen = seen', ap_text = [], ap_events = evs\<rparr>)))"

section \<open>The clouds of China\<close>

text \<open>These take over everything that is new, whole lines or not, and do not look for repetitions.\<close>

definition line_events :: "redactor \<Rightarrow> string \<Rightarrow> string \<Rightarrow> gotime \<Rightarrow> string list \<Rightarrow> event list" where
  "line_events red runID attemptID now ls =
     map (\<lambda>line. redact_event red (pl_event (ParseLine line runID attemptID now)))
       (filter (\<lambda>line. pl_structured (ParseLine line runID attemptID now)) ls)"

definition appendVMNewLogContent ::
  "redactor \<Rightarrow> string \<Rightarrow> string \<Rightarrow> gotime \<Rightarrow> string \<Rightarrow> nat \<Rightarrow> nat \<times> string \<times> event list" where
  "appendVMNewLogContent red runID attemptID now content offset0 =
     (let offset = (if offset0 > length content then 0 else offset0)
      in if offset = length content then (offset, [], [])
         else let newContent = drop offset content
              in (length content,
                  redact_string red newContent @ (if scan_failed newContent then scan_error_line red else []),
                  line_events red runID attemptID now (scan_lines newContent)))"

definition appendVMNewEventContent ::
  "redactor \<Rightarrow> string \<Rightarrow> string \<Rightarrow> gotime \<Rightarrow> string \<Rightarrow> nat \<Rightarrow> nat \<times> event list" where
  "appendVMNewEventContent red runID attemptID now content offset0 =
     (let offset = (if offset0 > length content then 0 else offset0)
      in if offset = length content then (offset, [])
         else (length content, line_events red runID attemptID now (scan_lines (drop offset content))))"
section \<open>The exit marker\<close>

definition exit_of_fields :: "(string \<times> json) list \<Rightarrow> (int \<times> string) option" where
  "exit_of_fields m =
     (case (last_field json_int 0 (field_values ''exit_code'' m), last_field json_str [] (field_values ''exit_reason'' m)) of
        (Some code, Some reason) \<Rightarrow>
          Some (code, if reason \<noteq> [] then reason
                      else if code \<noteq> 0 then ''container exited with code '' @ string_of_int code else ''completed'')
      | _ \<Rightarrow> None)"

definition parseExit :: "string \<Rightarrow> (int \<times> string) option" where
  "parseExit content = (case json_parse (trim_space content) of
      Some (JObj m) \<Rightarrow> exit_of_fields m | Some JNull \<Rightarrow> exit_of_fields [] | _ \<Rightarrow> None)"

section \<open>Whole lines\<close>

definition complete_part :: "string \<Rightarrow> string" where
  "complete_part s = rev (dropWhile (\<lambda>c. c \<noteq> nl) (rev s))"

lemma complete_part_split: "s = complete_part s @ rev (takeWhile (\<lambda>c. c \<noteq> nl) (rev s))"
  unfolding complete_part_def by (metis rev_append rev_rev_ident takeWhile_dropWhile_id)

lemma ends_line_complete [simp]: "ends_line (complete_part s)"
  unfolding ends_line_def complete_part_def
  by (metis (mono_tags, lifting) hd_dropWhile last_rev rev.simps(1) rev_rev_ident)

lemma complete_part_no_nl: "nl \<notin> set s \<Longrightarrow> complete_part s = []"
  by (auto simp: complete_part_def)

lemma complete_part_append: "ends_line x \<Longrightarrow> complete_part (x @ y) = x @ complete_part y"
  by (cases "nl \<in> set y"; cases x rule: rev_cases)
     (auto simp: complete_part_def ends_line_def dropWhile_append dropWhile_append3)

lemma prefix_complete: "prefix (complete_part s) s"
  using complete_part_split [of s] by (metis prefixI)

lemma prefix_complete_mono:
  assumes "prefix s t"
  shows "prefix (complete_part s) (complete_part t)"
proof -
  obtain u where "t = s @ u" using assms by (auto simp: prefix_def)
  then have "t = complete_part s @ (rev (takeWhile (\<lambda>c. c \<noteq> nl) (rev s)) @ u)"
    using complete_part_split [of s] by simp
  then have "complete_part t = complete_part s @ complete_part (rev (takeWhile (\<lambda>c. c \<noteq> nl) (rev s)) @ u)"
    using complete_part_append [OF ends_line_complete] by metis
  then show ?thesis by simp
qed

lemma completeContent_eq:
  assumes "offset < length content"
  shows "completeContent content offset =
    (complete_part (drop offset content), offset + length (complete_part (drop offset content)))"
proof (cases "suffix [nl] (drop offset content)")
  case True
  then have "complete_part (drop offset content) = drop offset content"
    using complete_part_append [of "drop offset content" "[]"] by (auto simp: ends_line_def suffix_def complete_part_def)
  with True assms show ?thesis by (simp add: completeContent_def)
next
  case False
  show ?thesis
  proof (cases "cut_last nl (drop offset content)")
    case None
    then show ?thesis using False assms complete_part_no_nl [of "drop offset content"]
      by (auto simp: completeContent_def cut_last_def split: if_splits)
  next
    case (Some p)
    obtain b r where p: "p = (b, r)" by force
    have s: "drop offset content = b @ nl # r" "nl \<notin> set r" using cut_last_Some Some p by auto
    then have "complete_part (drop offset content) = b @ [nl]"
      using complete_part_append [of "b @ [nl]" r] complete_part_no_nl [of r] by (simp add: ends_line_def)
    with s False assms Some p show ?thesis by (auto simp: completeContent_def)
  qed
qed

lemma split_char_mid: "split_char d (x @ d # y) = split_char d x @ split_char d y"
  by (induction x) (auto split: list.split simp: Cons_eq_append_conv)

lemma ends_line_cases:
  assumes "ends_line x"
  obtains "x = []" | x' where "x = x' @ [nl]"
  using assms by (cases x rule: rev_cases) (auto simp: ends_line_def)

lemma scan_tokens_append: "ends_line x \<Longrightarrow> scan_tokens (x @ y) = scan_tokens x @ scan_tokens y"
  by (erule ends_line_cases) (auto simp: scan_tokens_def Let_def split_char_mid butlast_append)

lemma scan_failed_append: "ends_line x \<Longrightarrow> scan_failed (x @ y) \<longleftrightarrow> scan_failed x \<or> scan_failed y"
  by (auto simp: scan_failed_def scan_tokens_append)

lemma scan_lines_append: "ends_line x \<Longrightarrow> \<not> scan_failed x \<Longrightarrow> scan_lines (x @ y) = scan_lines x @ scan_lines y"
  by (auto simp: scan_lines_def scan_failed_def scan_tokens_append list_all_iff takeWhile_append
      takeWhile_eq_all_conv [THEN iffD2])

lemma redactedLogContent_append:
  "ends_line x \<Longrightarrow> redactedLogContent (x @ y) red = redactedLogContent x red @ redactedLogContent y red"
  by (erule ends_line_cases) (auto simp: redactedLogContent_def split_after_def Let_def split_char_mid butlast_append)

lemma redactedLogContent_Nil [simp]: "redactedLogContent [] red = []"
  by (simp add: redactedLogContent_def split_after_def)

lemma take_events_append:
  "take_events red r a now seen (xs @ ys) =
     (case take_events red r a now seen xs of (seen', evs) \<Rightarrow>
        (case take_events red r a now seen' ys of (seen'', evs') \<Rightarrow> (seen'', evs @ evs')))"
  by (induction xs arbitrary: seen) (auto simp: Let_def split: prod.splits)

section \<open>Reading a growing file\<close>

text \<open>The log file as a loop of \<open>appendNewLogContent\<close> takes it over, one content per turn.\<close>

definition poll_log :: "redactor \<Rightarrow> string \<Rightarrow> string \<Rightarrow> gotime \<Rightarrow> appended \<Rightarrow> string \<Rightarrow> appended" where
  "poll_log red runID attemptID now acc content =
     (let ap = appendNewLogContent red runID attemptID now content (ap_offset acc) (ap_seen acc)
      in ap\<lparr>ap_text := ap_text acc @ ap_text ap, ap_events := ap_events acc @ ap_events ap\<rparr>)"

definition poll_start :: appended where
  "poll_start = \<lparr>ap_offset = 0, ap_seen = {}, ap_text = [], ap_events = []\<rparr>"

definition followed :: "redactor \<Rightarrow> string \<Rightarrow> string \<Rightarrow> gotime \<Rightarrow> string \<Rightarrow> appended" where
  "followed red runID attemptID now content =
     (case take_events red runID attemptID now {} (scan_lines (complete_part content)) of (seen, evs) \<Rightarrow>
       \<lparr>ap_offset = length (complete_part content), ap_seen = seen,
        ap_text = redactedLogContent (complete_part content) red, ap_events = evs\<rparr>)"

lemma poll_log_followed:
  assumes "prefix old content" and "\<not> scan_failed (complete_part content)"
  shows "poll_log red r a now (followed red r a now old) content = followed red r a now content"
proof -
  obtain seen evs where t: "take_events red r a now {} (scan_lines (complete_part old)) = (seen, evs)" by fastforce
  let ?o = "length (complete_part old)"
  obtain u where u: "complete_part content = complete_part old @ u"
    using prefix_complete_mono [OF assms(1)] by (auto simp: prefix_def)
  have pre: "prefix (complete_part old) content"
    using assms(1) prefix_complete [of old] by (metis prefix_order.trans)
  then obtain v where v: "content = complete_part old @ v" by (auto simp: prefix_def)
  have part: "complete_part v = u"
    using complete_part_append [OF ends_line_complete, of old v] u v by simp
  have ok: "\<not> scan_failed (complete_part old)" "\<not> scan_failed u"
    using assms(2) u scan_failed_append [OF ends_line_complete] by metis+
  have lns: "scan_lines (complete_part content) = scan_lines (complete_part old) @ scan_lines u"
    and body: "redactedLogContent (complete_part content) red =
      redactedLogContent (complete_part old) red @ redactedLogContent u red"
    unfolding u by (auto simp: scan_lines_append ok redactedLogContent_append)
  show ?thesis
  proof (cases "u = []")
    case True
    then have "followed red r a now content = followed red r a now old" using u by (simp add: followed_def)
    moreover have "?o = length content \<or> completeContent content ?o = ([], ?o)"
      using True part v completeContent_eq [of ?o content] by (cases "v = []") auto
    ultimately show ?thesis using t v by (auto simp: poll_log_def appendNewLogContent_def followed_def Let_def)
  next
    case False
    then have "v \<noteq> []" using part by (auto simp: complete_part_def)
    then have "completeContent content ?o = (u, ?o + length u)"
      using part v completeContent_eq [of ?o content] by simp
    then show ?thesis using t v \<open>v \<noteq> []\<close> False ok lns body u
      by (auto simp: poll_log_def appendNewLogContent_def followed_def Let_def take_events_append split: prod.split)
  qed
qed

lemma poll_start_followed: "poll_start = followed red r a now []"
  by (simp add: poll_start_def followed_def complete_part_def scan_lines_def scan_tokens_def)

lemma polls_followed:
  assumes "sorted_wrt prefix (old # cs)" and "\<forall>c \<in> set cs. \<not> scan_failed (complete_part c)"
  shows "foldl (poll_log red r a now) (followed red r a now old) cs = followed red r a now (last (old # cs))"
  using assms by (induction cs arbitrary: old) (auto simp: poll_log_followed)
text \<open>C35. Following a log that only grows loses nothing and repeats nothing: however its growth falls
  between the readings, what they append to the run's log is the redaction of its complete lines,
  each as a whole, their events are those of one reading of the last content, and the offset is
  the length of its complete lines. A last line without its newline is not taken over.\<close>

theorem polling_equals_reading:
  assumes "sorted_wrt prefix contents" and "contents \<noteq> []"
    and "\<not> scan_failed (complete_part (last contents))"
  shows "foldl (poll_log red runID attemptID now) poll_start contents
    = followed red runID attemptID now (last contents)"
proof -
  have "\<not> scan_failed (complete_part c)" if mem: "c \<in> set contents" for c
  proof -
    obtain xs ys where "contents = xs @ c # ys" using split_list [OF mem] by blast
    then have "prefix c (last contents)" using assms(1) by (auto simp: sorted_wrt_append)
    then obtain u where "complete_part (last contents) = complete_part c @ u"
      using prefix_complete_mono by (auto simp: prefix_def)
    then show ?thesis using assms(3) scan_failed_append [OF ends_line_complete] by metis
  qed
  then show ?thesis
    using assms(1, 2) polls_followed [of "[]" contents] by (simp add: poll_start_followed [of red runID attemptID now])
qed

definition metric_line :: string where
  "metric_line = ''{ \"type\" : \"status\" , \"state\" : \"up\" }''"

lemma polling_equals_reading_witness:
  "foldl (poll_log \<lparr>rd_values = []\<rparr> ''r'' ''a'' zero_time) poll_start
     [''st'', ''start'' @ [nl] @ take 9 metric_line, ''start'' @ [nl] @ metric_line @ [nl] @ ''e'']
   = followed \<lparr>rd_values = []\<rparr> ''r'' ''a'' zero_time (''start'' @ [nl] @ metric_line @ [nl] @ ''e'')"
  using polling_equals_reading [of "[''st'', ''start'' @ [nl] @ take 9 metric_line,
      ''start'' @ [nl] @ metric_line @ [nl] @ ''e'']" "\<lparr>rd_values = []\<rparr>" "''r''" "''a''" zero_time]
  by (simp add: metric_line_def nl_def scan_failed_def complete_part_def scan_tokens_def scan_fits_def scan_limit_def)

text \<open>The same loop over \<open>appendVMNewLogContent\<close>.\<close>

definition poll_vm_log ::
  "redactor \<Rightarrow> string \<Rightarrow> string \<Rightarrow> gotime \<Rightarrow> nat \<times> string \<times> event list \<Rightarrow> string \<Rightarrow> nat \<times> string \<times> event list" where
  "poll_vm_log red runID attemptID now acc content =
     (case acc of (offset, t, evs) \<Rightarrow>
       (case appendVMNewLogContent red runID attemptID now content offset of
          (offset', t', evs') \<Rightarrow> (offset', t @ t', evs @ evs')))"

text \<open>The loop for the clouds of China loses an event and reveals a secret, if a reading falls
  into the line: the same line read at once is one event, and its text is redacted.\<close>

theorem vm_polling_splits_lines:
  "foldl (poll_vm_log \<lparr>rd_values = [''hunter2'']\<rparr> ''r'' ''a'' zero_time) (0, [], [])
     [take 9 metric_line, metric_line @ [nl], metric_line @ [nl] @ ''key hun'',
      metric_line @ [nl] @ ''key hunter2'' @ [nl]]
   = (length metric_line + 13, metric_line @ [nl] @ ''key hunter2'' @ [nl], [])
   \<and> snd (poll_vm_log \<lparr>rd_values = [''hunter2'']\<rparr> ''r'' ''a'' zero_time (0, [], [])
         (metric_line @ [nl] @ ''key hunter2'' @ [nl]))
     = (metric_line @ [nl] @ ''key [REDACTED]'' @ [nl],
        [redact_event \<lparr>rd_values = [''hunter2'']\<rparr> (pl_event (ParseLine metric_line ''r'' ''a'' zero_time))])"
  by code_simp

end
