(* ===== verification/Submitting.thy ===== *)
theory Submitting
  imports Types
begin

text \<open>
  What a provider's \<open>Submit\<close> does, seen from outside: the sequence of its effects when the callbacks
  of the request answer as given, and how it ends. The providers of clouds are compared by it.
\<close>

datatype effect = Did act | Ref string | Recorded provider_resource | Emitted event

text \<open>\<open>answers n\<close> is what the \<open>n\<close>-th callback returns.\<close>

primrec effects :: "submit_prog \<Rightarrow> (nat \<Rightarrow> gerror option) \<Rightarrow> nat \<Rightarrow> effect list" where
  "effects (Done r e) answers n = []"
| "effects (Started ref k) answers n = Ref ref # effects (k (answers n)) answers (Suc n)"
| "effects (ResourceSaved r k) answers n = Recorded r # effects (k (answers n)) answers (Suc n)"
| "effects (EventWritten ev p) answers n = Emitted ev # effects p answers n"
| "effects (Act a p) answers n = Did a # effects p answers n"
| "effects (Meanwhile p) answers n = effects p answers n"

primrec ending :: "submit_prog \<Rightarrow> (nat \<Rightarrow> gerror option) \<Rightarrow> nat \<Rightarrow> submit_result \<times> gerror option" where
  "ending (Done r e) answers n = (r, e)"
| "ending (Started ref k) answers n = ending (k (answers n)) answers (Suc n)"
| "ending (ResourceSaved r k) answers n = ending (k (answers n)) answers (Suc n)"
| "ending (EventWritten ev p) answers n = ending p answers n"
| "ending (Act a p) answers n = ending p answers n"
| "ending (Meanwhile p) answers n = ending p answers n"

definition emit :: "event list \<Rightarrow> submit_prog \<Rightarrow> submit_prog" where
  "emit evs p = foldr EventWritten evs p"

text \<open>A line of the log, and \<open>writeLog\<close>: an empty line is not written.\<close>

definition log_text :: "string \<Rightarrow> submit_prog \<Rightarrow> submit_prog" where
  "log_text s p = (if s = [] then p else Act (Logged s) p)"

definition write_log :: "string \<Rightarrow> submit_prog \<Rightarrow> submit_prog" where
  "write_log line p = (if line = [] then p else Act (Logged (line @ [CHR 0x0A])) p)"

text \<open>What counts for a resource: the instances that came to exist and were released, and the records
  of it that reached the run loop.\<close>

fun acquired :: "effect list \<Rightarrow> string list" where
  "acquired [] = []"
| "acquired (Did (Acquired i) # es) = i # acquired es"
| "acquired (e # es) = acquired es"

fun released :: "effect list \<Rightarrow> string list" where
  "released [] = []"
| "released (Did (Released i) # es) = i # released es"
| "released (e # es) = released es"

fun recorded :: "effect list \<Rightarrow> provider_resource list" where
  "recorded [] = []"
| "recorded (Recorded r # es) = r # recorded es"
| "recorded (e # es) = recorded es"

named_theorems effect_simps

text \<open>Log lines, events and pauses leave all of that alone.\<close>

lemma effects_emit [effect_simps]:
  "acquired (effects (emit evs p) ans n) = acquired (effects p ans n)"
  "released (effects (emit evs p) ans n) = released (effects p ans n)"
  "recorded (effects (emit evs p) ans n) = recorded (effects p ans n)"
  "ending (emit evs p) ans n = ending p ans n"
  by (induction evs) (simp_all add: emit_def)

lemma effects_log [effect_simps]:
  "acquired (effects (log_text s p) ans n) = acquired (effects p ans n)"
  "released (effects (log_text s p) ans n) = released (effects p ans n)"
  "recorded (effects (log_text s p) ans n) = recorded (effects p ans n)"
  "ending (log_text s p) ans n = ending p ans n"
  "acquired (effects (write_log s p) ans n) = acquired (effects p ans n)"
  "released (effects (write_log s p) ans n) = released (effects p ans n)"
  "recorded (effects (write_log s p) ans n) = recorded (effects p ans n)"
  "ending (write_log s p) ans n = ending p ans n"
  by (simp_all add: log_text_def write_log_def)

text \<open>A part of \<open>Submit\<close> that goes on with one result, of which \<open>P\<close> holds, and touches neither
  resources nor callbacks.\<close>

definition quiet :: "('a \<Rightarrow> bool) \<Rightarrow> (('a \<Rightarrow> submit_prog) \<Rightarrow> submit_prog) \<Rightarrow> bool" where
  "quiet P m \<longleftrightarrow> (\<exists>x. P x \<and> (\<forall>k ans n. acquired (effects (m k) ans n) = acquired (effects (k x) ans n)
     \<and> released (effects (m k) ans n) = released (effects (k x) ans n)
     \<and> recorded (effects (m k) ans n) = recorded (effects (k x) ans n)
     \<and> ending (m k) ans n = ending (k x) ans n))"

named_theorems quiet_intros

lemma quiet_result [quiet_intros]: "P x \<Longrightarrow> quiet P (\<lambda>k. k x)"
  by (auto simp: quiet_def)

lemma quiet_log [quiet_intros]: "quiet P m \<Longrightarrow> quiet P (\<lambda>k. write_log s (m k))" "quiet P m \<Longrightarrow> quiet P (\<lambda>k. log_text s (m k))"
  "quiet P m \<Longrightarrow> quiet P (\<lambda>k. emit evs (m k))" "quiet P m \<Longrightarrow> quiet P (\<lambda>k. Meanwhile (m k))"
  by (simp_all add: quiet_def effect_simps)

lemma quiet_if [quiet_intros]: "(b \<Longrightarrow> quiet P m) \<Longrightarrow> (\<not> b \<Longrightarrow> quiet P m') \<Longrightarrow> quiet P (\<lambda>k. if b then m k else m' k)"
  by (cases b) simp_all

lemma quiet_elim:
  assumes "quiet P m"
  obtains x where "P x" and "\<And>k ans n. acquired (effects (m k) ans n) = acquired (effects (k x) ans n)"
    and "\<And>k ans n. released (effects (m k) ans n) = released (effects (k x) ans n)"
    and "\<And>k ans n. recorded (effects (m k) ans n) = recorded (effects (k x) ans n)"
    and "\<And>k ans n. ending (m k) ans n = ending (k x) ans n"
  using assms that unfolding quiet_def by blast

section \<open>What becomes of an instance\<close>

text \<open>
  What the service and the record say of an instance at the end: it was released and is recorded
  as terminating, or it is kept as configured, or its termination failed and the record says so.
  \<open>completion\<close> and \<open>keep\<close> are the options to terminate on completion and to keep on failure.
\<close>

definition settled :: "bool \<Rightarrow> bool \<Rightarrow> string \<Rightarrow> provider_resource list \<Rightarrow> string list \<Rightarrow> bool" where
  "settled completion keep i recs gone \<longleftrightarrow> recs \<noteq> [] \<and> res_external_id (last recs) = i \<and>
     (if res_state (last recs) = ResTerminating then gone = [i]
      else gone = [] \<and> res_state (last recs) \<in> set [ResSucceeded, ResFailed] \<and>
        (map_of (res_metadata (last recs)) ''cleanup_error'' \<noteq> None
         \<or> res_state (last recs) = ResSucceeded \<and> \<not> completion
         \<or> res_state (last recs) = ResFailed \<and> keep))"

text \<open>A part of \<open>Submit\<close> that settles an instance when the callbacks succeed.\<close>

definition settles :: "bool \<Rightarrow> bool \<Rightarrow> string \<Rightarrow> submit_prog \<Rightarrow> bool" where
  "settles completion keep i p \<longleftrightarrow> (\<forall>n. acquired (effects p (\<lambda>m. None) n) = [] \<and>
     settled completion keep i (recorded (effects p (\<lambda>m. None) n)) (released (effects p (\<lambda>m. None) n)))"

named_theorems settles_intros

lemma settles_quiet [settles_intros]:
  assumes "quiet P m" and "\<And>x. P x \<Longrightarrow> settles completion keep i (k x)"
  shows "settles completion keep i (m k)"
proof -
  obtain x where "P x" "\<And>ans n. acquired (effects (m k) ans n) = acquired (effects (k x) ans n)"
    "\<And>ans n. released (effects (m k) ans n) = released (effects (k x) ans n)"
    "\<And>ans n. recorded (effects (m k) ans n) = recorded (effects (k x) ans n)"
    using quiet_elim [OF assms(1)] by metis
  then show ?thesis using assms(2) [of x] by (simp add: settles_def)
qed

lemma settled_more: "settled completion keep i recs gone \<Longrightarrow> settled completion keep i (r # recs) gone"
  by (auto simp: settled_def)

lemma settles_recorded [settles_intros]:
  "settles completion keep i (k None) \<Longrightarrow> settles completion keep i (ResourceSaved r k)"
  by (auto simp: settles_def settled_more)

lemma settles_started [settles_intros]:
  "settles completion keep i (k None) \<Longrightarrow> settles completion keep i (Started ref k)"
  by (simp add: settles_def)

lemma settles_log [settles_intros]: "settles completion keep i p \<Longrightarrow> settles completion keep i (write_log s p)"
  by (simp add: settles_def effect_simps)

end
