(* ===== verification/ChinaVm.thy ===== *)
theory ChinaVm
  imports RemoteLog CloudInit Submitting
begin

text \<open>
  The providers of the clouds of China: the table of clouds of \<open>chinacloud.go\<close> and the runtime on
  virtual machines of \<open>vm_runtime.go\<close>. As for Lambda, the answers of the service and of the machine
  are data of a session, and the clients that sign the requests of each cloud are behind them.
\<close>

section \<open>The clouds\<close>

record env_requirement =
  er_label :: string
  er_names :: "string list"

record cloud_definition =
  cd_name :: string
  cd_display_name :: string
  cd_endpoint :: string
  cd_endpoint_env :: string
  cd_built_in_endpoint :: string
  cd_built_in_endpoint_env :: string
  cd_auth_command_env :: string
  cd_regions :: "string list"
  cd_uri_schemes :: "string list"
  cd_requirements :: "env_requirement list"
  cd_documentation :: string

definition requirement :: "string \<Rightarrow> string list \<Rightarrow> env_requirement" where
  "requirement label names = \<lparr>er_label = label, er_names = names\<rparr>"

definition Definitions :: "cloud_definition list" where
  "Definitions =
   [\<lparr>cd_name = ''alibaba-cloud'', cd_display_name = ''Alibaba Cloud'',
     cd_endpoint = ''https://ecs.cn-hangzhou.aliyuncs.com/'', cd_endpoint_env = ''SWITCHBOARD_ALIBABA_CLOUD_ENDPOINT'',
     cd_built_in_endpoint = [], cd_built_in_endpoint_env = [],
     cd_auth_command_env = ''SWITCHBOARD_ALIBABA_CLOUD_AUTH_COMMAND'',
     cd_regions = [''cn-hangzhou'', ''cn-shanghai'', ''cn-beijing'', ''cn-shenzhen''], cd_uri_schemes = [''oss''],
     cd_requirements = [requirement ''access key id'' [''ALIBABA_CLOUD_ACCESS_KEY_ID''],
       requirement ''access key secret'' [''ALIBABA_CLOUD_ACCESS_KEY_SECRET'']],
     cd_documentation = ''https://www.alibabacloud.com/help/doc-detail/2392167.html''\<rparr>,
    \<lparr>cd_name = ''huawei-cloud'', cd_display_name = ''Huawei Cloud'',
     cd_endpoint = ''https://ecs.cn-north-4.myhuaweicloud.com/'', cd_endpoint_env = ''SWITCHBOARD_HUAWEI_CLOUD_ENDPOINT'',
     cd_built_in_endpoint = ''https://iam.myhuaweicloud.com/v3/regions/cn-north-4'',
     cd_built_in_endpoint_env = ''SWITCHBOARD_HUAWEI_CLOUD_IAM_ENDPOINT'',
     cd_auth_command_env = ''SWITCHBOARD_HUAWEI_CLOUD_AUTH_COMMAND'',
     cd_regions = [''cn-north-4'', ''cn-east-3'', ''cn-south-1'', ''cn-southwest-2''], cd_uri_schemes = [''obs''],
     cd_requirements = [requirement ''access key'' [''HUAWEICLOUD_SDK_AK'', ''HUAWEI_CLOUD_ACCESS_KEY_ID''],
       requirement ''secret key'' [''HUAWEICLOUD_SDK_SK'', ''HUAWEI_CLOUD_SECRET_ACCESS_KEY'']],
     cd_documentation = ''https://support.huaweicloud.com/intl/en-us/devg-apisign/api-sign-provide01.html''\<rparr>,
    \<lparr>cd_name = ''tencent-cloud'', cd_display_name = ''Tencent Cloud'',
     cd_endpoint = ''https://cvm.tencentcloudapi.com/'', cd_endpoint_env = ''SWITCHBOARD_TENCENT_CLOUD_ENDPOINT'',
     cd_built_in_endpoint = [], cd_built_in_endpoint_env = [],
     cd_auth_command_env = ''SWITCHBOARD_TENCENT_CLOUD_AUTH_COMMAND'',
     cd_regions = [''ap-beijing'', ''ap-shanghai'', ''ap-guangzhou'', ''ap-chengdu''], cd_uri_schemes = [''cos''],
     cd_requirements = [requirement ''secret id'' [''TENCENTCLOUD_SECRET_ID''],
       requirement ''secret key'' [''TENCENTCLOUD_SECRET_KEY'']],
     cd_documentation = ''https://cloud.tencent.com/document/sdk/Go''\<rparr>,
    \<lparr>cd_name = ''tianyi-cloud'', cd_display_name = ''China Telecom Tianyi Cloud / eSurfing Cloud'',
     cd_endpoint = ''https://ecx-global.ctapi.ctyun.cn/'', cd_endpoint_env = ''SWITCHBOARD_TIANYI_CLOUD_ENDPOINT'',
     cd_built_in_endpoint = ''https://ecx-global.ctapi.ctyun.cn/v3/cluster/describeRegionClusters'',
     cd_built_in_endpoint_env = ''SWITCHBOARD_TIANYI_CLOUD_AUTH_ENDPOINT'',
     cd_auth_command_env = ''SWITCHBOARD_TIANYI_CLOUD_AUTH_COMMAND'',
     cd_regions = [''huadong1'', ''huabei2'', ''huanan1''], cd_uri_schemes = [''ctyun'', ''oos''],
     cd_requirements = [requirement ''access key'' [''CTYUN_ACCESS_KEY'', ''TIANYI_CLOUD_ACCESS_KEY''],
       requirement ''secret key'' [''CTYUN_SECRET_KEY'', ''TIANYI_CLOUD_SECRET_KEY'']],
     cd_documentation = ''https://www.ctyun.cn/document/10011497/10629581''\<rparr>,
    \<lparr>cd_name = ''baidu-ai-cloud'', cd_display_name = ''Baidu AI Cloud'',
     cd_endpoint = ''https://bj.bcebos.com/'', cd_endpoint_env = ''SWITCHBOARD_BAIDU_AI_CLOUD_ENDPOINT'',
     cd_built_in_endpoint = [], cd_built_in_endpoint_env = [],
     cd_auth_command_env = ''SWITCHBOARD_BAIDU_AI_CLOUD_AUTH_COMMAND'',
     cd_regions = [''bj'', ''gz'', ''su'', ''hkg''], cd_uri_schemes = [''bos'', ''bcebos''],
     cd_requirements = [requirement ''access key id'' [''BAIDU_CLOUD_ACCESS_KEY_ID'', ''BCE_ACCESS_KEY_ID''],
       requirement ''secret access key'' [''BAIDU_CLOUD_SECRET_ACCESS_KEY'', ''BCE_SECRET_ACCESS_KEY'']],
     cd_documentation = ''https://intl.cloud.baidu.com/en/doc/BOS/s/Tjwvyrw7a-intl-en''\<rparr>]"

definition Names :: "string list" where
  "Names = sort_strings (map cd_name Definitions)"

definition DefinitionFor :: "string \<Rightarrow> gerror + cloud_definition" where
  "DefinitionFor name = (case find (\<lambda>def. cd_name def = name) Definitions of
      Some def \<Rightarrow> Inr def | None \<Rightarrow> Inl (ErrText ''unknown China cloud provider''))"

section \<open>Machines\<close>

datatype vm_state = VmPending | VmRunning | VmTerminating | VmTerminated | VmFailed | VmUnknown | VmOther string

fun vm_state_string :: "vm_state \<Rightarrow> string" where
  "vm_state_string VmPending = ''pending''"
| "vm_state_string VmRunning = ''running''"
| "vm_state_string VmTerminating = ''terminating''"
| "vm_state_string VmTerminated = ''terminated''"
| "vm_state_string VmFailed = ''failed''"
| "vm_state_string VmUnknown = ''unknown''"
| "vm_state_string (VmOther s) = s"

record vm_config =
  vc_region :: string
  vc_zone :: string
  vc_instance_type :: string
  vc_image_id :: string
  vc_ssh_user :: string
  vc_ssh_private_key :: string
  vc_ssh_key_name :: string
  vc_network_id :: string
  vc_subnet_id :: string
  vc_vswitch_id :: string
  vc_security_group :: string
  vc_disk_type :: string
  vc_disk_size :: int
  vc_bandwidth :: int
  vc_poll_interval :: int
  vc_connect_timeout :: int
  vc_ready_timeout :: int
  vc_terminate :: bool
  vc_terminate_set :: bool
  vc_keep_on_failure :: bool
  vc_hourly_usd :: rat
  vc_project :: string
  vc_require_project :: bool
  vc_shapes :: "hardware_shape list"

definition vmRuntimeDefaults :: "vm_config \<Rightarrow> vm_config" where
  "vmRuntimeDefaults c0 =
     (let c1 = (if vc_ssh_user c0 = [] then c0\<lparr>vc_ssh_user := ''root''\<rparr> else c0);
          c2 = (if vc_poll_interval c1 = 0 then c1\<lparr>vc_poll_interval := 30\<rparr> else c1);
          c3 = (if vc_connect_timeout c2 = 0 then c2\<lparr>vc_connect_timeout := 10\<rparr> else c2);
          c4 = (if vc_ready_timeout c3 = 0 then c3\<lparr>vc_ready_timeout := 600\<rparr> else c3)
      in if \<not> vc_terminate_set c4 then c4\<lparr>vc_terminate := True\<rparr> else c4)"

record vm_instance =
  vi_id :: string
  vi_state :: vm_state
  vi_native_state :: string
  vi_public_ip :: string
  vi_private_ip :: string
  vi_region :: string
  vi_zone :: string

record vm_create_request =
  vq_run_id :: string
  vq_attempt_id :: string
  vq_name :: string
  vq_image :: string
  vq_command :: "string list"
  vq_args :: "string list"
  vq_env :: "string smap"
  vq_work_dir :: string
  vq_user_data :: string
  vq_region :: string
  vq_instance_type :: string
  vq_config :: vm_config

record vm_poll =
  vp_log :: "string option"
  vp_events :: "string option"
  vp_exit :: "string option"
  vp_log_time :: gotime
  vp_event_time :: gotime
  vp_decode_error :: gerror
  vp_instance :: "gerror + vm_instance"

text \<open>\<open>vs_client\<close> is whether the runtime has a client, \<open>vs_runtime\<close> whether the provider has a runtime.\<close>

record vm_session =
  vs_environ :: "string list"
  vs_runtime :: bool
  vs_client :: bool
  vs_auth :: "gerror option"
  vs_open_logs :: "gerror option"
  vs_open_events :: "gerror option"
  vs_create :: "vm_create_request \<Rightarrow> gerror + vm_instance"
  vs_get :: "string \<Rightarrow> gerror + vm_instance"
  vs_wait :: "gerror + vm_instance"
  vs_wait_more :: "(gerror + vm_instance) list"
  vs_wait_sleep :: gerror
  vs_ready :: "gerror option"
  vs_poll :: vm_poll
  vs_poll_more :: "vm_poll list"
  vs_poll_sleep :: gerror
  vs_terminate :: "string \<Rightarrow> gerror option"
  vs_time_created :: gotime
  vs_time_running :: gotime
  vs_time_final :: gotime

section \<open>Names and regions\<close>

definition dash :: "char \<Rightarrow> bool" where
  "dash c \<longleftrightarrow> c = CHR ''-''"

definition providerShapeID :: "string \<Rightarrow> string \<Rightarrow> string \<Rightarrow> string" where
  "providerShapeID provider region instanceType =
     (let v = trim dash (to_lower (replace_char CHR ''_'' CHR ''-'' (provider @ ''-'' @ region @ ''-'' @ instanceType)))
      in if v = [] then provider @ ''-configured'' else v)"

text \<open>\<open>safeVMName\<close>. A rune above 127 becomes one dash; its bytes do so each here.\<close>

definition safeVMName :: "string \<Rightarrow> string \<Rightarrow> string" where
  "safeVMName name runID =
     (let v = to_lower (if trim_space name = [] then runID else trim_space name);
          o1 = trim dash (map (\<lambda>c. if is_lower c \<or> is_digit c \<or> c = CHR ''-'' then c else CHR ''-'') v);
          o2 = (if o1 = [] then ''switchboard'' else o1)
      in if length o2 > 63 then trim_right dash (take 63 o2) else o2)"

definition nativeVMState :: "vm_instance \<Rightarrow> string" where
  "nativeVMState i = (if vi_native_state i \<noteq> [] then vi_native_state i else vm_state_string (vi_state i))"

definition providerRegions :: "cloud_definition \<Rightarrow> string \<Rightarrow> string list" where
  "providerRegions def configured =
     (let first = (if configured \<noteq> [] then [configured] else [])
      in rev (remdups (rev (first @ filter (\<lambda>r. r \<noteq> []) (cd_regions def)))))"

definition gpuFamiliesFromHardware :: "hardware_shape list \<Rightarrow> string list" where
  "gpuFamiliesFromHardware shapes =
     sort_strings (rev (remdups (rev (filter (\<lambda>f. f \<noteq> []) (map sh_gpu_family shapes)))))"

definition vmProviderRef :: "string \<Rightarrow> string \<Rightarrow> string" where
  "vmProviderRef provider i = provider @ '':'' @ i"

definition vmIDFromProviderRef :: "string \<Rightarrow> string \<Rightarrow> string" where
  "vmIDFromProviderRef provider ref = trim_prefix (provider @ '':'') ref"

fun attemptStateFromVMState :: "vm_state \<Rightarrow> attempt_state" where
  "attemptStateFromVMState VmRunning = AttemptRunning"
| "attemptStateFromVMState VmPending = AttemptRunning"
| "attemptStateFromVMState VmUnknown = AttemptRunning"
| "attemptStateFromVMState VmTerminated = AttemptCanceled"
| "attemptStateFromVMState VmTerminating = AttemptCanceled"
| "attemptStateFromVMState VmFailed = AttemptFailed"
| "attemptStateFromVMState (VmOther s) = AttemptFailed"

definition normalizeChinaCloudRuntimeError :: "gerror \<Rightarrow> gerror" where
  "normalizeChinaCloudRuntimeError e = (case as_provider_error e of Some k \<Rightarrow> e
     | None \<Rightarrow> ErrProvider ErrNetwork (error_string e) (Some e))"

definition chinaExitCodeForProviderError :: "gerror \<Rightarrow> int" where
  "chinaExitCodeForProviderError e = (case provider_error_kind_of e of
      ErrInvalidSpec \<Rightarrow> 10 | ErrAuth \<Rightarrow> 10
    | ErrCapacity \<Rightarrow> 40 | ErrQuota \<Rightarrow> 40 | ErrNetwork \<Rightarrow> 40 | ErrInternal \<Rightarrow> 40 | _ \<Rightarrow> 1)"

definition no_client :: "cloud_definition \<Rightarrow> gerror" where
  "no_client def = ErrProvider ErrInvalidSpec (cd_name def @ '' VM client is not configured'') None"

section \<open>Capabilities and checks\<close>

definition vm_capabilities :: "vm_config \<Rightarrow> cloud_definition \<Rightarrow> provider_capabilities" where
  "vm_capabilities c def =
     (let shapes = (if vc_shapes c = [] \<and> (vc_region c \<noteq> [] \<or> vc_instance_type c \<noteq> [])
        then [empty_shape\<lparr>sh_id := providerShapeID (cd_name def) (vc_region c) (vc_instance_type c),
                sh_provider := cd_name def, sh_region := vc_region c, sh_machine_type := vc_instance_type c,
                sh_supports_on_demand := True, sh_on_demand_usd := vc_hourly_usd c,
                sh_availability_hint := ''configured''\<rparr>]
        else vc_shapes c)
      in empty_capabilities\<lparr>cap_gpu_families := gpuFamiliesFromHardware shapes,
           cap_regions := providerRegions def (vc_region c), cap_shapes := shapes, cap_on_demand := True,
           cap_docker_image := True, cap_uri_schemes := cd_uri_schemes def,
           cap_checkpoint_schemes := cd_uri_schemes def\<rparr>)"

definition vm_validate :: "vm_config \<Rightarrow> bool \<Rightarrow> cloud_definition \<Rightarrow> job_spec \<Rightarrow> support_report" where
  "vm_validate c client def job =
     (let n = cd_name def;
          reasons =
        (if \<not> client then [n @ '' VM client is not configured''] else [])
        @ (if job_image job = [] then [n @ '' VM runtime requires job.image''] else [])
        @ (if job_script job \<noteq> [] then [n @ '' VM runtime v1 does not package local scripts; provide job.image''] else [])
        @ map (\<lambda>input. n @ '' VM runtime v1 does not support bundled data input '' @ quote (di_name input))
            (filter (\<lambda>input. di_mode input = ModeBundle) (job_data job))
        @ (if vc_region c = [] then [n @ '' region is required''] else [])
        @ (if vc_instance_type c = [] then [n @ '' instance type is required''] else [])
        @ (if vc_image_id c = [] then [n @ '' image id is required''] else [])
        @ (if vc_ssh_private_key c = [] then [n @ '' ssh private key is required''] else [])
        @ (if vc_require_project c \<and> vc_project c = [] then [n @ '' project/account id is required''] else [])
      in \<lparr>sup_supported = (reasons = []), sup_reasons = reasons\<rparr>)"

definition createRequest :: "vm_config \<Rightarrow> cloud_definition \<Rightarrow> submit_request \<Rightarrow> vm_create_request" where
  "createRequest c def req =
     (let job = rq_job req; env = container_env (job_env job) (rq_env req);
          chosen = (case rq_hardware req of Some hw \<Rightarrow> if hs_provider hw = cd_name def then Some hw else None | None \<Rightarrow> None);
          region = (case chosen of Some hw \<Rightarrow> if hs_region hw \<noteq> [] then hs_region hw else vc_region c | None \<Rightarrow> vc_region c);
          instanceType = (case chosen of
             Some hw \<Rightarrow> if hs_machine_type hw \<noteq> [] then hs_machine_type hw else vc_instance_type c | None \<Rightarrow> vc_instance_type c)
      in \<lparr>vq_run_id = rq_run_id req, vq_attempt_id = rq_attempt_id req, vq_name = safeVMName (job_name job) (rq_run_id req),
          vq_image = job_image job, vq_command = job_command job, vq_args = job_args job, vq_env = env,
          vq_work_dir = job_work_dir job,
          vq_user_data = cloud_config (vmRunnerScript (job_image job) (job_command job) (job_args job) env (job_work_dir job)),
          vq_region = region, vq_instance_type = instanceType, vq_config = c\<rparr>)"
section \<open>Waiting and monitoring\<close>

text \<open>A state outside the named ones is polled on.\<close>

definition wait_error :: "cloud_definition \<Rightarrow> vm_state \<Rightarrow> gerror option" where
  "wait_error def st =
     (if st \<in> set [VmTerminating, VmTerminated]
      then Some (ErrProvider ErrRuntime (cd_name def @ '' VM terminated before job startup'') None)
      else if st = VmFailed
      then Some (ErrProvider ErrRuntime (cd_name def @ '' VM entered failed state before job startup'') None)
      else None)"

fun waitForRunning ::
  "cloud_definition \<Rightarrow> redactor \<Rightarrow> gerror \<Rightarrow> gerror + vm_instance \<Rightarrow> (gerror + vm_instance) list
    \<Rightarrow> (gerror + vm_instance \<Rightarrow> submit_prog) \<Rightarrow> submit_prog" where
  "waitForRunning def red sleepErr (Inl e) later k = k (Inl (normalizeChinaCloudRuntimeError e))"
| "waitForRunning def red sleepErr (Inr i) later k =
     write_log (redact_string red (cd_name def @ '' VM state: '' @ nativeVMState i))
       (if vi_state i = VmRunning then
          if vi_public_ip i = []
          then k (Inl (ErrProvider ErrInternal (cd_name def @ '' VM is running but has no public IP'') None))
          else k (Inr i)
        else (case wait_error def (vi_state i) of
            Some e \<Rightarrow> k (Inl e)
          | None \<Rightarrow> (case later of [] \<Rightarrow> k (Inl sleepErr)
              | next # later \<Rightarrow> Meanwhile (waitForRunning def red sleepErr next later k))))"

definition run_error :: "cloud_definition \<Rightarrow> vm_state \<Rightarrow> gerror option" where
  "run_error def st =
     (if st \<in> set [VmTerminating, VmTerminated]
      then Some (ErrProvider ErrRuntime (cd_name def @ '' VM terminated before writing exit marker'') None)
      else if st = VmFailed
      then Some (ErrProvider ErrRuntime (cd_name def @ '' VM entered failed state'') None)
      else None)"

definition vm_take_over ::
  "redactor \<Rightarrow> submit_request \<Rightarrow> vm_poll \<Rightarrow> nat \<times> nat \<Rightarrow> (nat \<times> nat) \<times> string \<times> event list" where
  "vm_take_over red req po st =
     (let (logOffset, txt, evs1) = (case vp_log po of
            None \<Rightarrow> (fst st, [], [])
          | Some content \<Rightarrow>
              appendVMNewLogContent red (rq_run_id req) (rq_attempt_id req) (vp_log_time po) content (fst st));
          (eventOffset, evs2) = (case vp_events po of
            None \<Rightarrow> (snd st, [])
          | Some content \<Rightarrow>
              appendVMNewEventContent red (rq_run_id req) (rq_attempt_id req) (vp_event_time po) content (snd st))
      in ((logOffset, eventOffset), txt, evs1 @ evs2))"

definition vm_exit_marker :: "vm_poll \<Rightarrow> string option" where
  "vm_exit_marker po = (case vp_exit po of
      Some content \<Rightarrow> if trim_space content \<noteq> [] then Some content else None | None \<Rightarrow> None)"

text \<open>\<open>parseVMExit\<close> is \<open>parseExit\<close> again.\<close>

definition vm_marker_result :: "cloud_definition \<Rightarrow> vm_poll \<Rightarrow> string \<Rightarrow> gerror + int \<times> string" where
  "vm_marker_result def po content = (case parseExit content of
      None \<Rightarrow> Inl (ErrProvider ErrRuntime (cd_name def @ '' exit marker was invalid: '' @ error_string (vp_decode_error po))
        (Some (vp_decode_error po)))
    | Some r \<Rightarrow> Inr r)"

fun vm_monitor ::
  "cloud_definition \<Rightarrow> redactor \<Rightarrow> submit_request \<Rightarrow> gerror \<Rightarrow> nat \<times> nat \<Rightarrow> vm_poll list \<Rightarrow> vm_poll
    \<Rightarrow> (gerror + int \<times> string \<Rightarrow> submit_prog) \<Rightarrow> submit_prog" where
  "vm_monitor def red req sleepErr st later po k =
     (case vm_take_over red req po st of (st, txt, evs) \<Rightarrow>
        log_text txt (emit evs
          (case vm_exit_marker po of
             Some content \<Rightarrow> k (vm_marker_result def po content)
           | None \<Rightarrow>
               (case vp_instance po of
                  Inl e \<Rightarrow> k (Inl (normalizeChinaCloudRuntimeError e))
                | Inr i \<Rightarrow>
                    (case run_error def (vi_state i) of
                       Some e \<Rightarrow> k (Inl e)
                     | None \<Rightarrow>
                         (case later of [] \<Rightarrow> k (Inl sleepErr)
                          | next # later \<Rightarrow> Meanwhile (vm_monitor def red req sleepErr st later next k)))))))"

declare vm_monitor.simps [simp del]

section \<open>Submit\<close>

definition vm_cleanup_policy :: "vm_config \<Rightarrow> cleanup_policy" where
  "vm_cleanup_policy c =
     (if vc_terminate c \<and> \<not> vc_keep_on_failure c then CleanupAlways
      else if vc_terminate c \<and> vc_keep_on_failure c then CleanupOnSuccess
      else if \<not> vc_terminate c \<and> \<not> vc_keep_on_failure c then CleanupOnFailure
      else CleanupNever)"

definition vm_metadata :: "vm_config \<Rightarrow> vm_instance \<Rightarrow> string smap \<Rightarrow> string smap" where
  "vm_metadata c i extra =
     map_merge
       ([(''instance_type'', vc_instance_type c), (''image_id'', vc_image_id c)]
        @ (if vi_native_state i \<noteq> [] then [(''native_status'', vi_native_state i)] else [])
        @ (if vi_private_ip i \<noteq> [] then [(''private_ip'', vi_private_ip i)] else [])
        @ (if vi_zone i \<noteq> [] then [(''zone'', vi_zone i)] else []))
       extra"

definition vm_resource ::
  "vm_config \<Rightarrow> cloud_definition \<Rightarrow> submit_request \<Rightarrow> vm_instance \<Rightarrow> string \<Rightarrow> resource_state \<Rightarrow> string smap
    \<Rightarrow> gotime \<Rightarrow> provider_resource" where
  "vm_resource c def req i ref state metadata observedAt =
     \<lparr>res_id = [], res_run_id = rq_run_id req, res_attempt_id = rq_attempt_id req, res_provider = cd_name def,
      res_kind = KindInstance, res_external_id = vi_id i, res_provider_ref = ref,
      res_region = (if vi_region i \<noteq> [] then vi_region i else vc_region c), res_project = vc_project c,
      res_state = state, res_created_by_switchboard = True, res_cleanup = vm_cleanup_policy c,
      res_metadata = vm_metadata c i metadata, res_created_at = zero_time, res_updated_at = zero_time,
      res_observed_at = Some observedAt\<rparr>"

definition vm_should_terminate :: "vm_config \<Rightarrow> int \<Rightarrow> bool" where
  "vm_should_terminate c exitCode = (if exitCode = 0 then vc_terminate c else \<not> vc_keep_on_failure c)"

definition vm_failed_with :: "string \<Rightarrow> int \<Rightarrow> string \<Rightarrow> gerror \<Rightarrow> submit_prog" where
  "vm_failed_with ref code reason e = Done \<lparr>sr_job_ref = ref, sr_exit_code = code, sr_exit_reason = reason\<rparr> (Some e)"

definition terminate_vm :: "vm_session \<Rightarrow> string \<Rightarrow> (gerror option \<Rightarrow> submit_prog) \<Rightarrow> submit_prog" where
  "terminate_vm ses instanceID k = (case vs_terminate ses instanceID of
      None \<Rightarrow> Act (Released instanceID) (k None) | Some e \<Rightarrow> k (Some e))"

text \<open>\<open>failureResult\<close> knows of the machine only its identifier.\<close>

definition bare_instance :: "string \<Rightarrow> vm_instance" where
  "bare_instance instanceID = \<lparr>vi_id = instanceID, vi_state = VmFailed, vi_native_state = [], vi_public_ip = [],
     vi_private_ip = [], vi_region = [], vi_zone = []\<rparr>"

definition vm_failure ::
  "vm_config \<Rightarrow> cloud_definition \<Rightarrow> vm_session \<Rightarrow> submit_request \<Rightarrow> redactor \<Rightarrow> string \<Rightarrow> gerror \<Rightarrow> submit_prog" where
  "vm_failure c def ses req red instanceID e =
     (let wrapped = normalizeChinaCloudRuntimeError e; ref = vmProviderRef (cd_name def) instanceID;
          settle = (\<lambda>state metadata.
            ResourceSaved (vm_resource c def req (bare_instance instanceID) ref state metadata (vs_time_final ses)) (\<lambda>r. case r of
                Some resourceErr \<Rightarrow> vm_failed_with ref 1 (redact_string red (error_string resourceErr)) resourceErr
              | None \<Rightarrow> vm_failed_with ref (chinaExitCodeForProviderError wrapped)
                  (redact_string red (error_string wrapped)) wrapped))
      in if vc_keep_on_failure c then settle ResFailed [(''error'', error_string wrapped)]
         else terminate_vm ses instanceID (\<lambda>r. case r of
             Some te \<Rightarrow> settle ResFailed [(''error'', error_string wrapped),
               (''cleanup_error'', error_string (normalizeChinaCloudRuntimeError te))]
           | None \<Rightarrow> settle ResTerminating [(''error'', error_string wrapped)]))"

definition vm_finish ::
  "vm_config \<Rightarrow> cloud_definition \<Rightarrow> vm_session \<Rightarrow> submit_request \<Rightarrow> redactor \<Rightarrow> string \<Rightarrow> vm_instance
    \<Rightarrow> int \<Rightarrow> string \<Rightarrow> submit_prog" where
  "vm_finish c def ses req red instanceID active exitCode exitReason =
     (let finalState = (if exitCode \<noteq> 0 then ResFailed else ResSucceeded); ref = vmProviderRef (cd_name def) instanceID;
          settle = (\<lambda>state metadata.
            ResourceSaved (vm_resource c def req active ref state metadata (vs_time_final ses)) (\<lambda>r. case r of
                Some e \<Rightarrow> vm_failed_with ref 1 (error_string e) e
              | None \<Rightarrow> Done \<lparr>sr_job_ref = ref, sr_exit_code = exitCode,
                                sr_exit_reason = redact_string red exitReason\<rparr> None))
      in if vm_should_terminate c exitCode
         then terminate_vm ses instanceID (\<lambda>r. case r of
             Some te \<Rightarrow> settle finalState
               [(''exit_reason'', exitReason), (''cleanup_error'', error_string (normalizeChinaCloudRuntimeError te))]
           | None \<Rightarrow> write_log (redact_string red (cd_name def @ '' VM termination requested: '' @ instanceID))
               (settle ResTerminating [(''exit_reason'', exitReason)]))
         else settle finalState [(''exit_reason'', exitReason)])"

definition vm_run_on ::
  "vm_config \<Rightarrow> cloud_definition \<Rightarrow> vm_session \<Rightarrow> submit_request \<Rightarrow> redactor \<Rightarrow> string \<Rightarrow> vm_instance \<Rightarrow> submit_prog" where
  "vm_run_on c def ses req red instanceID active =
     (let ref = vmProviderRef (cd_name def) instanceID in
      ResourceSaved (vm_resource c def req active ref ResRunning [] (vs_time_running ses)) (\<lambda>r. case r of
         Some e \<Rightarrow> vm_failed_with ref 1 (error_string e) e
       | None \<Rightarrow>
           (case vs_ready ses of
              Some e \<Rightarrow> vm_failure c def ses req red instanceID
                (ErrProvider ErrNetwork (cd_name def @ '' ssh not ready: '' @ error_string e) (Some e))
            | None \<Rightarrow>
                vm_monitor def red req (vs_poll_sleep ses) (0, 0) (vs_poll_more ses) (vs_poll ses) (\<lambda>r. case r of
                    Inl e \<Rightarrow> vm_failure c def ses req red instanceID e
                  | Inr (exitCode, exitReason) \<Rightarrow> vm_finish c def ses req red instanceID active exitCode exitReason))))"

definition vm_created ::
  "vm_config \<Rightarrow> cloud_definition \<Rightarrow> vm_session \<Rightarrow> submit_request \<Rightarrow> redactor \<Rightarrow> vm_instance \<Rightarrow> submit_prog" where
  "vm_created c def ses req red inst =
     (let i = vi_id inst; ref = vmProviderRef (cd_name def) i in
      ResourceSaved (vm_resource c def req inst ref ResBooting [] (vs_time_created ses)) (\<lambda>r. case r of
         Some e \<Rightarrow> terminate_vm ses i (\<lambda>t. vm_failed_with ref 1 (error_string e) e)
       | None \<Rightarrow> Started ref (\<lambda>r. case r of
           Some e \<Rightarrow> terminate_vm ses i (\<lambda>t. vm_failed_with ref 1 (error_string e) e)
         | None \<Rightarrow>
             waitForRunning def red (vs_wait_sleep ses) (vs_wait ses) (vs_wait_more ses) (\<lambda>r. case r of
                  Inl e \<Rightarrow> vm_failure c def ses req red i e
                | Inr active \<Rightarrow> vm_run_on c def ses req red i active))))"

text \<open>A machine that was created without an identifier is one the program cannot name.\<close>

definition vm_submit :: "vm_config \<Rightarrow> cloud_definition \<Rightarrow> vm_session \<Rightarrow> submit_request \<Rightarrow> submit_prog" where
  "vm_submit c def ses req =
     (let red = FromEnvironment (vs_environ ses) [job_env (rq_job req), rq_env req];
          empty = \<lparr>sr_job_ref = [], sr_exit_code = 0, sr_exit_reason = []\<rparr> in
      case vs_open_logs ses of
        Some e \<Rightarrow> Done empty (Some (ErrWrap ''open logs artifact: '' e))
      | None \<Rightarrow>
      (case vs_open_events ses of
        Some e \<Rightarrow> Done empty (Some (ErrWrap ''open events artifact: '' e))
      | None \<Rightarrow>
      if \<not> vs_client ses
      then vm_failed_with [] (chinaExitCodeForProviderError (no_client def)) (error_string (no_client def)) (no_client def)
      else write_log (redact_string red (cd_name def @ '' VM create: '' @ job_name (rq_job req)))
        (case vs_create ses (createRequest c def req) of
           Inl e \<Rightarrow> let wrapped = normalizeChinaCloudRuntimeError e
             in vm_failed_with [] (chinaExitCodeForProviderError wrapped) (redact_string red (error_string wrapped)) wrapped
         | Inr inst \<Rightarrow> Act (Acquired (vi_id inst))
             (if vi_id inst = []
              then let wrapped = ErrProvider ErrInternal (cd_name def @ '' VM create returned no instance ID'') None
                in vm_failed_with [] (chinaExitCodeForProviderError wrapped) (error_string wrapped) wrapped
              else vm_created c def ses req red inst))))"

section \<open>The provider\<close>

definition readiness_only :: "cloud_definition \<Rightarrow> string \<Rightarrow> gerror" where
  "readiness_only def why = ErrProvider ErrInvalidSpec (cd_name def @ why) None"

definition china_submit :: "vm_config \<Rightarrow> cloud_definition \<Rightarrow> vm_session \<Rightarrow> submit_request \<Rightarrow> submit_prog" where
  "china_submit c def ses req =
     (if vs_runtime ses then vm_submit c def ses req
      else let e = readiness_only def '' does not implement job submission yet''
        in Done \<lparr>sr_job_ref = [], sr_exit_code = 10, sr_exit_reason = error_string e\<rparr> (Some e))"

definition china_status :: "cloud_definition \<Rightarrow> vm_session \<Rightarrow> string \<Rightarrow> gerror + job_status" where
  "china_status def ses ref =
     (if \<not> vs_runtime ses then Inl (readiness_only def '' does not create provider job refs yet'')
      else if \<not> vs_client ses then Inl (no_client def)
      else (case vs_get ses (vmIDFromProviderRef (cd_name def) ref) of
          Inl e \<Rightarrow> Inl (normalizeChinaCloudRuntimeError e)
        | Inr i \<Rightarrow> Inr \<lparr>js_state = Some (attemptStateFromVMState (vi_state i)), js_resource_state = ResNone\<rparr>))"

definition china_cancel :: "cloud_definition \<Rightarrow> vm_session \<Rightarrow> string \<Rightarrow> gerror option" where
  "china_cancel def ses ref =
     (if \<not> vs_runtime ses
      then Some (readiness_only def '' cancel is unavailable because job submission is not implemented'')
      else if \<not> vs_client ses then Some (no_client def)
      else map_option normalizeChinaCloudRuntimeError (vs_terminate ses (vmIDFromProviderRef (cd_name def) ref)))"

definition china_capabilities :: "vm_config \<Rightarrow> cloud_definition \<Rightarrow> bool \<Rightarrow> provider_capabilities" where
  "china_capabilities c def runtime =
     (if runtime then vm_capabilities c def
      else empty_capabilities\<lparr>cap_regions := cd_regions def, cap_uri_schemes := cd_uri_schemes def,
             cap_checkpoint_schemes := cd_uri_schemes def\<rparr>)"

definition china_validate :: "vm_config \<Rightarrow> cloud_definition \<Rightarrow> vm_session \<Rightarrow> job_spec \<Rightarrow> support_report" where
  "china_validate c def ses job =
     (if vs_runtime ses then vm_validate c (vs_client ses) def job
      else \<lparr>sup_supported = False,
             sup_reasons = [cd_name def @ '' is a readiness-only provider; job submission is not implemented yet'']\<rparr>)"

definition china_estimate :: "vm_config \<Rightarrow> bool \<Rightarrow> cost_estimate" where
  "china_estimate c runtime = \<lparr>est_hourly_usd = (if runtime then vc_hourly_usd c else 0), est_currency = ''USD''\<rparr>"

definition china_adapter :: "vm_config \<Rightarrow> cloud_definition \<Rightarrow> vm_session \<Rightarrow> adapter" where
  "china_adapter config def ses =
     (let c = vmRuntimeDefaults config in
      \<lparr>ad_name = cd_name def, ad_auth = vs_auth ses, ad_capabilities = (china_capabilities c def (vs_runtime ses), None),
       ad_validate = china_validate c def ses, ad_estimate = (\<lambda>job. Inr (china_estimate c (vs_runtime ses))),
       ad_submit = china_submit c def ses, ad_status = china_status def ses, ad_cancel = china_cancel def ses\<rparr>)"
section \<open>No machine is lost\<close>

lemma quiet_running:
  "list_all (\<lambda>a. case a of Inl e \<Rightarrow> True | Inr inst \<Rightarrow> vi_id inst = i) (first # later) \<Longrightarrow>
    quiet (\<lambda>r. case r of Inl e \<Rightarrow> True | Inr inst \<Rightarrow> vi_id inst = i) (waitForRunning def red sleepErr first later)"
proof (induction later arbitrary: first)
  case Nil
  then show ?case
    by (cases first; cases "wait_error def (vi_state (projr first))") (auto intro!: quiet_intros)
next
  case (Cons next_vm later)
  then show ?case
    by (cases first; cases "wait_error def (vi_state (projr first))") (auto intro!: quiet_intros)
qed

lemma vm_monitor_eq: "vm_monitor def red req sleepErr st later po = (\<lambda>k.
     (case vm_take_over red req po st of (st, txt, evs) \<Rightarrow>
        log_text txt (emit evs
          (case vm_exit_marker po of
             Some content \<Rightarrow> k (vm_marker_result def po content)
           | None \<Rightarrow>
               (case vp_instance po of
                  Inl e \<Rightarrow> k (Inl (normalizeChinaCloudRuntimeError e))
                | Inr i \<Rightarrow>
                    (case run_error def (vi_state i) of
                       Some e \<Rightarrow> k (Inl e)
                     | None \<Rightarrow>
                         (case later of [] \<Rightarrow> k (Inl sleepErr)
                          | next # later \<Rightarrow> Meanwhile (vm_monitor def red req sleepErr st later next k))))))))"
  by (rule ext, subst vm_monitor.simps) (rule refl)

lemma quiet_vm_monitor: "quiet (\<lambda>x. True) (vm_monitor def red req sleepErr st later po)"
proof (induction later arbitrary: st po)
  case Nil
  obtain st' body evs where "vm_take_over red req po st = (st', body, evs)" by (metis prod_cases3)
  then show ?case
    by (subst vm_monitor_eq; cases "vm_exit_marker po"; cases "vp_instance po";
        cases "run_error def (vi_state (projr (vp_instance po)))") (auto intro!: quiet_intros)
next
  case (Cons next_po later)
  obtain st' body evs where "vm_take_over red req po st = (st', body, evs)" by (metis prod_cases3)
  then show ?case
    by (subst vm_monitor_eq; cases "vm_exit_marker po"; cases "vp_instance po";
        cases "run_error def (vi_state (projr (vp_instance po)))") (auto intro!: quiet_intros Cons.IH)
qed

lemma effects_terminate_vm [effect_simps]:
  "acquired (effects (terminate_vm ses i k) ans n) = acquired (effects (k (vs_terminate ses i)) ans n)"
  "recorded (effects (terminate_vm ses i k) ans n) = recorded (effects (k (vs_terminate ses i)) ans n)"
  "released (effects (terminate_vm ses i k) ans n) =
     (if vs_terminate ses i = None then [i] else []) @ released (effects (k (vs_terminate ses i)) ans n)"
  "ending (terminate_vm ses i k) ans n = ending (k (vs_terminate ses i)) ans n"
  by (auto simp: terminate_vm_def split: option.split)

lemma vm_failed_effects [effect_simps]:
  "acquired (effects (vm_failed_with ref code reason e) ans n) = []"
  "released (effects (vm_failed_with ref code reason e) ans n) = []"
  "recorded (effects (vm_failed_with ref code reason e) ans n) = []"
  by (simp_all add: vm_failed_with_def)

lemma vm_metadata_cleanup [simp]:
  "map_of (vm_metadata c i [(''error'', a), (''cleanup_error'', b)]) ''cleanup_error'' = Some b"
  "map_of (vm_metadata c i [(''exit_reason'', a), (''cleanup_error'', b)]) ''cleanup_error'' = Some b"
  by (simp_all add: vm_metadata_def map_of_map_merge)

lemma vm_resource_fields [simp]:
  "res_external_id (vm_resource c def req i ref st m t) = vi_id i"
  "res_state (vm_resource c def req i ref st m t) = st"
  "res_metadata (vm_resource c def req i ref st m t) = vm_metadata c i m"
  by (simp_all add: vm_resource_def)

lemma settles_vm_failure: "settles (vc_terminate c) (vc_keep_on_failure c) i (vm_failure c def ses req red i e)"
  by (auto simp: settles_def settled_def vm_failure_def bare_instance_def Let_def effect_simps split: option.split)

lemma settles_vm_finish:
  "vi_id active = i \<Longrightarrow>
    settles (vc_terminate c) (vc_keep_on_failure c) i (vm_finish c def ses req red i active code reason)"
  by (auto simp: settles_def settled_def vm_finish_def vm_should_terminate_def Let_def effect_simps split: option.split)

lemma settles_vm_created:
  assumes "list_all (\<lambda>a. case a of Inl e \<Rightarrow> True | Inr j \<Rightarrow> vi_id j = vi_id inst) (vs_wait ses # vs_wait_more ses)"
  shows "settles (vc_terminate c) (vc_keep_on_failure c) (vi_id inst) (vm_created c def ses req red inst)"
proof -
  have "settles (vc_terminate c) (vc_keep_on_failure c) (vi_id inst) (vm_run_on c def ses req red (vi_id inst) active)"
    if "vi_id active = vi_id inst" for active
    unfolding vm_run_on_def Let_def using that
    by (auto intro!: settles_recorded settles_vm_failure settles_vm_finish settles_quiet [OF quiet_vm_monitor]
        split: option.split sum.split)
  then show ?thesis
    unfolding vm_created_def Let_def
    by (auto intro!: settles_recorded settles_started settles_vm_failure settles_quiet [OF quiet_running [OF assms]]
        split: option.split sum.splits)
qed

text \<open>C11. The runtime of the clouds of China loses no machine when the callbacks of the run loop succeed:
  nothing was created, or the service gave no identifier, or the last record of the machine says
  what became of it, and says terminating exactly when the service accepted its termination. The
  service is taken to answer a question for a machine with that machine.\<close>

theorem china_loses_no_machine:
  assumes "\<And>inst. vs_create ses (createRequest c def req) = Inr inst \<Longrightarrow>
    list_all (\<lambda>a. case a of Inl e \<Rightarrow> True | Inr j \<Rightarrow> vi_id j = vi_id inst) (vs_wait ses # vs_wait_more ses)"
  shows "let es = effects (china_submit c def ses req) (\<lambda>n. None) 0
    in acquired es \<in> set [[], [[]]] \<and> released es = [] \<or> (\<exists>i. acquired es = [i] \<and>
      settled (vc_terminate c) (vc_keep_on_failure c) i (recorded es) (released es))"
proof (cases "\<exists>inst. vs_runtime ses \<and> vs_create ses (createRequest c def req) = Inr inst \<and> vs_open_logs ses = None
    \<and> vs_open_events ses = None \<and> vs_client ses \<and> vi_id inst \<noteq> []")
  case True
  then obtain inst where *: "vs_runtime ses" "vs_create ses (createRequest c def req) = Inr inst"
    "vs_open_logs ses = None" "vs_open_events ses = None" "vs_client ses" "vi_id inst \<noteq> []" by blast
  then show ?thesis
    using settles_vm_created [OF assms [OF *(2)],
        of c def req "FromEnvironment (vs_environ ses) [job_env (rq_job req), rq_env req]"]
    by (auto simp: china_submit_def vm_submit_def Let_def effect_simps settles_def)
next
  case False
  then show ?thesis
    by (auto simp: china_submit_def vm_submit_def Let_def effect_simps split: option.split sum.split)
qed

definition sample_vm :: vm_instance where
  "sample_vm = \<lparr>vi_id = ''i-7'', vi_state = VmRunning, vi_native_state = ''Running'', vi_public_ip = ''1.2.3.4'',
     vi_private_ip = [], vi_region = [], vi_zone = []\<rparr>"

definition sample_vm_poll :: vm_poll where
  "sample_vm_poll = \<lparr>vp_log = Some ''half a li'', vp_events = None, vp_exit = Some ''{\"exit_code\":3}'',
     vp_log_time = zero_time, vp_event_time = zero_time, vp_decode_error = ErrText ''decode'', vp_instance = Inr sample_vm\<rparr>"

definition sample_vm_session :: vm_session where
  "sample_vm_session = \<lparr>vs_environ = [], vs_runtime = True, vs_client = True, vs_auth = None, vs_open_logs = None,
     vs_open_events = None, vs_create = (\<lambda>q. Inr (sample_vm\<lparr>vi_state := VmPending\<rparr>)), vs_get = (\<lambda>i. Inr sample_vm),
     vs_wait = Inr (sample_vm\<lparr>vi_state := VmUnknown\<rparr>), vs_wait_more = [Inr sample_vm],
     vs_wait_sleep = ErrText ''context canceled'', vs_ready = None, vs_poll = sample_vm_poll\<lparr>vp_exit := None\<rparr>,
     vs_poll_more = [sample_vm_poll], vs_poll_sleep = ErrText ''context canceled'', vs_terminate = (\<lambda>i. None),
     vs_time_created = zero_time, vs_time_running = zero_time, vs_time_final = zero_time\<rparr>"

definition sample_vm_config :: vm_config where
  "sample_vm_config = vmRuntimeDefaults \<lparr>vc_region = ''bj'', vc_zone = [], vc_instance_type = ''g1'', vc_image_id = ''m-1'',
     vc_ssh_user = [], vc_ssh_private_key = ''/k'', vc_ssh_key_name = [], vc_network_id = [], vc_subnet_id = [],
     vc_vswitch_id = [], vc_security_group = [], vc_disk_type = [], vc_disk_size = 0, vc_bandwidth = 0,
     vc_poll_interval = 0, vc_connect_timeout = 0, vc_ready_timeout = 0, vc_terminate = False, vc_terminate_set = False,
     vc_keep_on_failure = False, vc_hourly_usd = 1, vc_project = [], vc_require_project = False, vc_shapes = []\<rparr>"

definition sample_vm_request :: submit_request where
  "sample_vm_request = \<lparr>rq_job = \<lparr>job_name = ''train'', job_script = [], job_image = ''img'', job_command = [''python''],
       job_args = [], job_env = [], job_data = [], job_work_dir = []\<rparr>,
     rq_run_id = ''run_1'', rq_attempt_id = ''att_1'', rq_resume = None, rq_hardware = None, rq_env = [], rq_run_dir = ''/r''\<rparr>"

lemma china_loses_no_machine_witness:
  "let es = effects (china_submit sample_vm_config (Definitions ! 4) sample_vm_session sample_vm_request) (\<lambda>n. None) 0
    in acquired es \<in> set [[], [[]]] \<and> released es = [] \<or> (\<exists>i. acquired es = [i] \<and>
      settled (vc_terminate sample_vm_config) (vc_keep_on_failure sample_vm_config) i (recorded es) (released es))"
  using china_loses_no_machine [of sample_vm_session sample_vm_config "Definitions ! 4" sample_vm_request]
  by (simp add: sample_vm_session_def sample_vm_def)

end
