(* ===== verification/VmHttp.thy ===== *)
theory VmHttp
  imports Signing ChinaVm Credentials
begin

text \<open>
  What the clients of the five clouds share: \<open>vm_http.go\<close>, the way each finds its two credentials, and
  the requests that the interface \<open>VMClient\<close> makes. A client is asked with a pair of credentials for the
  request of an operation; the operation finds the credentials, sends the request and reads the answer.
\<close>

section \<open>Credentials\<close>

text \<open>The resolver is given by its \<open>Resolve\<close>; a value of the configuration comes first.\<close>

type_synonym resolver = "credential_query \<Rightarrow> gerror + secret"

definition resolved_value :: "resolver \<Rightarrow> string \<Rightarrow> credential_query \<Rightarrow> string" where
  "resolved_value resolve configured q =
     (if trim_space configured \<noteq> [] then trim_space configured
      else case resolve q of Inr s \<Rightarrow> sc_secret s | Inl e \<Rightarrow> [])"

definition credential_pair :: "string \<Rightarrow> string \<Rightarrow> string \<Rightarrow> gerror + string \<times> string" where
  "credential_pair message i s = (if i = [] \<or> s = [] then Inl (ErrProvider ErrAuth message None) else Inr (i, s))"

section \<open>Answers\<close>

definition request_failed :: "string \<Rightarrow> gerror + http_response \<Rightarrow> gerror + http_response" where
  "request_failed msg r = (case r of Inr rp \<Rightarrow> Inr rp
     | Inl e \<Rightarrow> Inl (ErrProvider ErrNetwork (msg @ error_string e) (Some e)))"

definition ok_status :: "int \<Rightarrow> bool" where
  "ok_status s \<longleftrightarrow> 200 \<le> s \<and> s < 300"

definition http_text :: "int \<Rightarrow> string" where
  "http_text s = ''HTTP '' @ string_of_int s"

definition providerHTTPError :: "string \<Rightarrow> int \<Rightarrow> string \<Rightarrow> gerror" where
  "providerHTTPError provider status body =
     (let kind = (if status = 401 \<or> status = 403 then ErrAuth else if status = 429 then ErrQuota
        else if status = 409 then ErrCapacity else if 400 \<le> status \<and> status < 500 then ErrInvalidSpec
        else if 500 \<le> status then ErrInternal else ErrUnknown);
          message = provider @ '' request returned '' @ http_text status
      in ErrProvider kind (if body \<noteq> [] then message @ '': '' @ body else message) None)"

text \<open>\<open>decodeProviderJSON\<close>, first without and then with a structure to fill.\<close>

definition provider_body :: "string \<Rightarrow> http_response \<Rightarrow> gerror + string" where
  "provider_body provider rp =
     (let (body, err) = read_limited (1024 * 1024) rp in
      case err of Some e \<Rightarrow> Inl (ErrProvider ErrNetwork (provider @ '' response read failed: '' @ error_string e) (Some e))
      | None \<Rightarrow> if \<not> ok_status (hp_status rp) then Inl (providerHTTPError provider (hp_status rp) body) else Inr body)"

definition decodeProviderJSON :: "web \<Rightarrow> string \<Rightarrow> http_response \<Rightarrow> 's decoder \<Rightarrow> 's \<Rightarrow> gerror + 's" where
  "decodeProviderJSON w provider rp d zero = bindr (provider_body provider rp) (\<lambda>body.
     if body = [] then Inr zero
     else (case unmarshal d body zero of (s, failed) \<Rightarrow>
       if failed then Inl (ErrProvider ErrInternal (provider @ '' response parse failed: '' @ error_string (we_json_error w body))
         (Some (we_json_error w body)))
       else Inr s))"

definition failure_of :: "gerror + 'a \<Rightarrow> gerror option" where
  "failure_of r = (case r of Inl e \<Rightarrow> Some e | Inr x \<Rightarrow> None)"

definition mentions :: "string \<Rightarrow> string \<Rightarrow> bool" where
  "mentions s t \<longleftrightarrow> sublist t s"

definition first_string :: "string list \<Rightarrow> string" where
  "first_string xs = (case xs of [] \<Rightarrow> [] | x # _ \<Rightarrow> x)"

section \<open>Payloads\<close>

text \<open>The map of a payload: some of its keys are only there on a condition.\<close>

definition present :: "(string \<times> json option) list \<Rightarrow> (string \<times> json) list" where
  "present xs = List.map_filter (\<lambda>(k, v). map_option (Pair k) v) xs"

definition given :: "bool \<Rightarrow> json \<Rightarrow> json option" where
  "given b j = (if b then Some j else None)"

definition payload :: "(string \<times> json option) list \<Rightarrow> json" where
  "payload xs = json_map (present xs)"

lemma present_keys: "set (map fst (present xs)) \<subseteq> set (map fst xs)"
  by (auto simp: present_def map_filter_def image_def) force

lemma distinct_present: "distinct (map fst xs) \<Longrightarrow> distinct (map fst (present xs))"
proof (induction xs)
  case (Cons x xs)
  then show ?case using present_keys [of xs] by (cases x; cases "snd x") (auto simp: present_def map_filter_simps)
qed (simp add: present_def map_filter_simps)

lemma map_of_present: "distinct (map fst xs) \<Longrightarrow> map_of (present xs) k = (case map_of xs k of Some v \<Rightarrow> v | None \<Rightarrow> None)"
proof (induction xs)
  case (Cons x xs)
  obtain k' v where x: "x = (k', v)" by (cases x)
  have "map_of (present xs) k' = None"
    using Cons.prems present_keys [of xs] by (auto simp: x map_of_eq_None_iff)
  with Cons show ?case by (cases v) (auto simp: x present_def map_filter_simps)
qed (simp add: present_def map_filter_simps)

lemma plain_payload:
  assumes "distinct (map fst xs)" and "list_all (\<lambda>(k, v). case v of None \<Rightarrow> True | Some j \<Rightarrow> json_plain j) xs"
  shows "json_plain (payload xs)"
  unfolding payload_def
proof (rule plain_map)
  show "distinct (map fst (present xs))" by (rule distinct_present [OF assms(1)])
  show "list_all (\<lambda>(k, v). json_plain v) (present xs)"
    using assms(2) by (auto simp: present_def map_filter_def list_all_iff split: option.splits)
qed

lemma plain_objects: "json_plain (JArr [json_map m]) \<longleftrightarrow> json_plain (json_map m)"
  by (auto intro: plain_arr elim: json_plain.cases)

text \<open>A member of an object in a text that was written.\<close>

definition member :: "string \<Rightarrow> json \<Rightarrow> json option" where
  "member k j = (case j of JObj m \<Rightarrow> map_of m k | _ \<Rightarrow> None)"

definition body_json :: "http_request \<Rightarrow> json" where
  "body_json rq = (case json_parse (hr_body rq) of Some j \<Rightarrow> j | None \<Rightarrow> JNull)"

lemma member_payload:
  assumes "distinct (map fst xs)"
  shows "member k (payload xs) = (case map_of xs k of Some v \<Rightarrow> v | None \<Rightarrow> None)"
  by (simp add: member_def payload_def json_map_def map_of_sorted distinct_present assms map_of_present)

lemma body_marshal: "hr_body rq = marshal j \<Longrightarrow> json_plain j \<Longrightarrow> body_json rq = j"
  by (simp add: body_json_def parse_marshal)

lemma given_plain: "(case given b j of None \<Rightarrow> True | Some x \<Rightarrow> json_plain x) \<longleftrightarrow> (b \<longrightarrow> json_plain j)"
  by (simp add: given_def)

end
