(* ===== verification/RemoteShell.thy ===== *)
theory RemoteShell
  imports CloudInit
begin

text \<open>
  The ssh runner of \<open>lambda/ssh.go\<close>, which \<open>chinacloud/vm_runtime.go\<close> repeats: the words of a call, the
  reading of a file, and the loop that waits until the machine answers. The loop has no bound of
  its own, so it is a function that may not return; what makes it return is the clock.
\<close>

section \<open>A call of ssh\<close>

record remote_target =
  rt_host :: string
  rt_user :: string
  rt_key :: string
  rt_connect_timeout :: int

definition second :: int where
  "second = 1000000000"

definition new_target :: "string \<Rightarrow> string \<Rightarrow> string \<Rightarrow> int \<Rightarrow> remote_target" where
  "new_target host user key seconds =
     \<lparr>rt_host = host, rt_user = user, rt_key = key, rt_connect_timeout = wrap64 (seconds * second)\<rparr>"

text \<open>\<open>int(d.Seconds())\<close> cuts towards zero.\<close>

definition whole_seconds :: "int \<Rightarrow> int" where
  "whole_seconds d = sgn d * (\<bar>d\<bar> div second)"

definition ssh_args :: "remote_target \<Rightarrow> string \<Rightarrow> string list" where
  "ssh_args t remoteCommand =
     [''-i'', rt_key t, ''-o'', ''BatchMode=yes'', ''-o'', ''StrictHostKeyChecking=accept-new'', ''-o'',
      ''ConnectTimeout='' @ string_of_int (whole_seconds (rt_connect_timeout t)),
      rt_user t @ ''@'' @ rt_host t, remoteCommand]"

text \<open>What the process of a call does with its words: its output, or its error and what it wrote to
  standard error.\<close>

type_synonym ssh_process = "string list \<Rightarrow> (gerror \<times> string) + string"

definition ssh_run :: "ssh_process \<Rightarrow> remote_target \<Rightarrow> string \<Rightarrow> gerror + string" where
  "ssh_run exec t remoteCommand = (case exec (ssh_args t remoteCommand) of
      Inl (e, stderr) \<Rightarrow> Inl (ErrWrap (''ssh '' @ rt_host t @ '': '') (ErrText (error_string e @ '': '' @ stderr)))
    | Inr stdout \<Rightarrow> Inr stdout)"

definition ReadFile :: "ssh_process \<Rightarrow> remote_target \<Rightarrow> string \<Rightarrow> gerror + string" where
  "ReadFile exec t path = ssh_run exec t (''cat '' @ shellQuote path)"

section \<open>Waiting for the machine\<close>

text \<open>What the loop meets at each of its turns: whether the context has ended, the clock, the process of
  the probe, and the end of the sleep; and the clock before the first turn.\<close>

record ready_world =
  rw_start :: int
  rw_ctx :: "nat \<Rightarrow> gerror option"
  rw_now :: "nat \<Rightarrow> int"
  rw_exec :: "nat \<Rightarrow> ssh_process"
  rw_sleep :: "nat \<Rightarrow> gerror option"

definition not_ready :: "gerror option \<Rightarrow> gerror" where
  "not_ready lastErr = (case lastErr of
      Some e \<Rightarrow> ErrWrap ''ssh did not become ready before timeout: '' e
    | None \<Rightarrow> ErrText ''ssh did not become ready before timeout'')"

text \<open>One result more than the errors: not to return at all.\<close>

partial_function (option) ready_loop :: "ready_world \<Rightarrow> remote_target \<Rightarrow> int \<Rightarrow> gerror option \<Rightarrow> nat \<Rightarrow> gerror option option" where
  "ready_loop w t deadline lastErr n =
     (case rw_ctx w n of Some e \<Rightarrow> Some (Some e)
      | None \<Rightarrow>
          if rw_now w n > deadline then Some (Some (not_ready lastErr))
          else (case ssh_run (rw_exec w n) t ''true'' of
              Inr _ \<Rightarrow> Some None
            | Inl e \<Rightarrow> (case rw_sleep w n of Some e' \<Rightarrow> Some (Some e')
                | None \<Rightarrow> ready_loop w t deadline (Some e) (Suc n))))"

definition WaitForReady :: "ready_world \<Rightarrow> remote_target \<Rightarrow> int \<Rightarrow> gerror option option" where
  "WaitForReady w t timeout = ready_loop w t (rw_start w + timeout) None 0"

text \<open>\<open>vm_runtime.go\<close> has a runner of its own with the same calls.\<close>

definition vmShellQuote :: "string \<Rightarrow> string" where
  "vmShellQuote v = (if v = [] then [sq, sq] else [sq] @ replace_all [sq] [sq, dq, sq, dq, sq] v @ [sq])"

definition vm_ssh_run :: "ssh_process \<Rightarrow> remote_target \<Rightarrow> string \<Rightarrow> gerror + string" where
  "vm_ssh_run exec t remoteCommand = ssh_run exec t remoteCommand"

definition VMReadFile :: "ssh_process \<Rightarrow> remote_target \<Rightarrow> string \<Rightarrow> gerror + string" where
  "VMReadFile exec t path = vm_ssh_run exec t (''cat '' @ vmShellQuote path)"

definition VMWaitForReady :: "ready_world \<Rightarrow> remote_target \<Rightarrow> int \<Rightarrow> gerror option option" where
  "VMWaitForReady w t timeout = ready_loop w t (rw_start w + timeout) None 0"

section \<open>Properties\<close>

text \<open>The clock moves on by the five seconds of the sleep whenever the sleep ends without an error.\<close>

definition clock_moves :: "ready_world \<Rightarrow> bool" where
  "clock_moves w \<longleftrightarrow> rw_start w \<le> rw_now w 0
     \<and> (\<forall>n. rw_sleep w n = None \<longrightarrow> rw_now w n + 5 * second \<le> rw_now w (Suc n))"

text \<open>What may end the loop at a turn, with its result.\<close>

definition ended_by :: "ready_world \<Rightarrow> remote_target \<Rightarrow> int \<Rightarrow> nat \<Rightarrow> gerror option \<Rightarrow> bool" where
  "ended_by w t deadline n r \<longleftrightarrow> (case r of
      None \<Rightarrow> rw_now w n \<le> deadline \<and> (case ssh_run (rw_exec w n) t ''true'' of Inl e \<Rightarrow> False | Inr out \<Rightarrow> True)
    | Some e \<Rightarrow> rw_ctx w n = Some e \<or> rw_sleep w n = Some e \<or> rw_now w n > deadline)"

lemma ready_loop_returns:
  assumes "clock_moves w" and "deadline < rw_now w n + 5 * second * int fuel"
  shows "\<exists>r k. ready_loop w t deadline lastErr n = Some r \<and> k \<le> fuel \<and> ended_by w t deadline (n + k) r"
  using assms(2)
proof (induction fuel arbitrary: n lastErr)
  case 0
  then show ?case
    by (subst ready_loop.simps) (auto simp: ended_by_def split: option.split intro!: exI [where x = 0])
next
  case (Suc fuel)
  show ?case
  proof (cases "rw_ctx w n = None \<and> rw_now w n \<le> deadline \<and> rw_sleep w n = None
      \<and> (\<exists>e. ssh_run (rw_exec w n) t ''true'' = Inl e)")
    case False
    then show ?thesis
      by (subst ready_loop.simps)
         (auto simp: ended_by_def split: option.split sum.split intro!: exI [where x = 0])
  next
    case True
    then obtain e where e: "ssh_run (rw_exec w n) t ''true'' = Inl e" by blast
    have "rw_now w n + 5 * second \<le> rw_now w (Suc n)" using assms(1) True by (simp add: clock_moves_def)
    with Suc.prems have "deadline < rw_now w (Suc n) + 5 * second * int fuel" by (simp add: algebra_simps)
    from Suc.IH [OF this, of "Some e"] obtain r k where
      "ready_loop w t deadline (Some e) (Suc n) = Some r" "k \<le> fuel" "ended_by w t deadline (Suc n + k) r" by blast
    with True e show ?thesis
      by (subst ready_loop.simps) (auto intro!: exI [where x = "Suc k"])
  qed
qed

text \<open>C32. The wait for a machine returns, although its loop has no bound: when a sleep of five seconds takes
  five seconds, after at most one turn for each five seconds of the timeout and one more; and its
  result is that of the turn it returns in: no error only if the probe of that turn succeeded
  before the deadline.\<close>

theorem wait_for_ready_returns:
  assumes "clock_moves w" and "0 \<le> timeout"
  shows "\<exists>r k. WaitForReady w t timeout = Some r \<and> k \<le> nat (timeout div (5 * second)) + 1
    \<and> ended_by w t (rw_start w + timeout) k r"
proof -
  let ?fuel = "nat (timeout div (5 * second)) + 1"
  have "timeout < 5 * second * (timeout div (5 * second) + 1)"
    using pos_mod_bound [of "5 * second" timeout] minus_div_mult_eq_mod [of timeout "5 * second"]
    by (simp add: second_def algebra_simps)
  moreover have fuel: "int ?fuel = timeout div (5 * second) + 1"
    using assms(2) by (simp add: second_def pos_imp_zdiv_nonneg_iff)
  moreover have "rw_start w \<le> rw_now w 0" using assms(1) by (simp add: clock_moves_def)
  ultimately have "rw_start w + timeout < rw_now w 0 + 5 * second * int ?fuel" unfolding fuel by linarith
  from ready_loop_returns [OF assms(1) this, of t None] show ?thesis by (simp add: WaitForReady_def)
qed

definition sample_ready :: ready_world where
  "sample_ready = \<lparr>rw_start = 0, rw_ctx = (\<lambda>n. None), rw_now = (\<lambda>n. 6 * second * int n),
     rw_exec = (\<lambda>n args. Inl (ErrText ''exit status 255'', ''refused'')), rw_sleep = (\<lambda>n. None)\<rparr>"

lemma wait_for_ready_returns_witness:
  "\<exists>r k. WaitForReady sample_ready (new_target ''h'' ''u'' ''k'' 10) (60 * second) = Some r \<and> k \<le> 13
    \<and> ended_by sample_ready (new_target ''h'' ''u'' ''k'' 10) (60 * second) k r"
proof -
  have "clock_moves sample_ready" by (simp add: clock_moves_def sample_ready_def second_def)
  moreover have "rw_start sample_ready = 0" by (simp add: sample_ready_def)
  ultimately show ?thesis
    using wait_for_ready_returns [of sample_ready "60 * second" "new_target ''h'' ''u'' ''k'' 10"] by (simp add: second_def)
qed

lemma vm_wait_same: "VMWaitForReady = WaitForReady" "vmShellQuote = shellQuote" "VMReadFile = ReadFile"
  by (simp_all add: fun_eq_iff VMWaitForReady_def WaitForReady_def vmShellQuote_def shellQuote_def VMReadFile_def
      ReadFile_def vm_ssh_run_def)

text \<open>The shell of the machine reads the command of \<open>ReadFile\<close> as \<open>cat\<close> and the path, whatever it holds.\<close>

lemma read_file_words: "sh_commands (''cat '' @ shellQuote path) = Some [[''cat'', path]]"
  using read_quoted [of "[]" "[''cat'']" path "[]"]
  by (simp add: sh_commands_def sh_plain_def is_alnum_def is_digit_def is_upper_def is_lower_def eol_def sq_def dq_def add_command_def)

end
