(* ===== verification/Lambda.thy ===== *)
theory Lambda
  imports RemoteLog CloudInit Submitting
begin

text \<open>
  The provider of Lambda Cloud, \<open>provider/lambda/lambda.go\<close>. The answers of its service and of the
  machine it starts are data of a session: a call is a field, and a loop that polls has the first
  answer, those that follow, and the error of the sleep that ends the loop when there is no further
  one. A polling loop has no bound of its own; an execution in which it never ends is not one of a session.
\<close>

section \<open>Configuration\<close>

record lambda_config =
  lm_region :: string
  lm_instance_type :: string
  lm_ssh_key_name :: string
  lm_ssh_private_key :: string
  lm_image_family :: string
  lm_registry :: registry_auth
  lm_poll_interval :: int
  lm_terminate :: bool
  lm_terminate_set :: bool
  lm_keep_on_failure :: bool
  lm_api_timeout :: int
  lm_connect_timeout :: int
  lm_ready_timeout :: int

definition withDefaults :: "lambda_config \<Rightarrow> lambda_config" where
  "withDefaults c0 =
     (let c1 = (if lm_poll_interval c0 = 0 then c0\<lparr>lm_poll_interval := 30\<rparr> else c0);
          c2 = (if lm_api_timeout c1 = 0 then c1\<lparr>lm_api_timeout := 30\<rparr> else c1);
          c3 = (if lm_connect_timeout c2 = 0 then c2\<lparr>lm_connect_timeout := 10\<rparr> else c2);
          c4 = (if lm_ready_timeout c3 = 0 then c3\<lparr>lm_ready_timeout := 600\<rparr> else c3)
      in if \<not> lm_terminate_set c4 then c4\<lparr>lm_terminate := True\<rparr> else c4)"

section \<open>The service\<close>

record instance_type =
  it_name :: string
  it_gpu_description :: string
  it_price_cents :: int
  it_gpus :: int

record instance_types_item =
  ii_type :: instance_type
  ii_regions :: "string list"

record lambda_instance =
  li_id :: string
  li_ip :: string
  li_status :: string

record launch_request =
  lr_region :: string
  lr_instance_type :: string
  lr_ssh_keys :: "string list"
  lr_hostname :: string
  lr_name :: string
  lr_image :: "string smap"
  lr_user_data :: string
  lr_tags :: "(string \<times> string) list"

text \<open>An error of the client: \<open>*apiError\<close> with status, code and message, or any other one.\<close>

datatype api_failure = ApiError int string string | OtherError gerror

text \<open>One turn of \<open>monitorRemote\<close>: the files it could read, when, and the state of the instance.\<close>

record lambda_poll =
  po_log :: "string option"
  po_events :: "string option"
  po_exit :: "string option"
  po_log_time :: gotime
  po_event_time :: gotime
  po_decode_error :: gerror
  po_instance :: "api_failure + lambda_instance"

record lambda_session =
  ls_environ :: "string list"
  ls_open_logs :: "gerror option"
  ls_open_events :: "gerror option"
  ls_client :: "api_failure option"
  ls_auth :: "api_failure option"
  ls_types :: "api_failure + (string \<times> instance_types_item) list"
  ls_launch :: "launch_request \<Rightarrow> api_failure + string list"
  ls_get :: "string \<Rightarrow> api_failure + lambda_instance"
  ls_wait :: "api_failure + lambda_instance"
  ls_wait_more :: "(api_failure + lambda_instance) list"
  ls_wait_sleep :: gerror
  ls_ready :: "gerror option"
  ls_poll :: lambda_poll
  ls_poll_more :: "lambda_poll list"
  ls_poll_sleep :: gerror
  ls_terminate :: "string \<Rightarrow> api_failure option"
  ls_time_created :: gotime
  ls_time_running :: gotime
  ls_time_final :: gotime

section \<open>Errors and states\<close>

definition api_message :: "string \<Rightarrow> string \<Rightarrow> string" where
  "api_message code message = (if message \<noteq> [] then message else if code \<noteq> [] then code else ''lambda api error'')"

definition api_error_kind :: "int \<Rightarrow> string \<Rightarrow> provider_error_kind" where
  "api_error_kind status code =
     (if status = 401 \<or> status = 403 \<or> sublist ''api-key'' code then ErrAuth
      else if sublist ''quota'' code then ErrQuota
      else if sublist ''capacity'' code \<or> sublist ''unavailable'' code \<or> prefix ''provider/'' code then ErrCapacity
      else if status = 400 \<or> sublist ''invalid'' code then ErrInvalidSpec
      else if status \<ge> 500 then ErrInternal else ErrUnknown)"

text \<open>\<open>normalizeError\<close> of an error that is no \<open>*apiError\<close>, and of one of the client.\<close>

definition normalize_plain :: "gerror \<Rightarrow> gerror" where
  "normalize_plain e = (case as_provider_error e of Some k \<Rightarrow> e
     | None \<Rightarrow> ErrProvider ErrNetwork (error_string e) (Some e))"

fun normalizeError :: "api_failure \<Rightarrow> gerror" where
  "normalizeError (ApiError status code message) =
     ErrProvider (api_error_kind status code) (''lambda api: '' @ api_message code message)
       (Some (ErrText (api_message code message)))"
| "normalizeError (OtherError e) = normalize_plain e"

definition exitCodeForProviderError :: "gerror \<Rightarrow> int" where
  "exitCodeForProviderError e = (case provider_error_kind_of e of
      ErrInvalidSpec \<Rightarrow> 10 | ErrAuth \<Rightarrow> 10
    | ErrCapacity \<Rightarrow> 40 | ErrQuota \<Rightarrow> 40 | ErrNetwork \<Rightarrow> 40 | ErrInternal \<Rightarrow> 40 | _ \<Rightarrow> 1)"

definition attemptStateFromInstanceStatus :: "string \<Rightarrow> attempt_state" where
  "attemptStateFromInstanceStatus status =
     (if status \<in> set [''booting'', ''active''] then AttemptRunning
      else if status \<in> set [''terminating'', ''terminated''] then AttemptCanceled else AttemptFailed)"

definition providerResourceStateFromInstanceStatus :: "string \<Rightarrow> resource_state" where
  "providerResourceStateFromInstanceStatus status =
     (if status = ''booting'' then ResBooting else if status = ''active'' then ResRunning
      else if status = ''terminating'' then ResTerminating else if status = ''terminated'' then ResTerminated
      else if status \<in> set [''unhealthy'', ''preempted''] then ResFailed else ResUnknown)"

definition lambda_ref :: "string \<Rightarrow> string" where
  "lambda_ref instanceID = ''lambda:'' @ instanceID"

definition instanceIDFromRef :: "string \<Rightarrow> string" where
  "instanceIDFromRef ref = trim_prefix ''lambda:'' ref"

text \<open>\<open>hostname\<close>: each run of other characters becomes one dash.\<close>

definition host_char :: "char \<Rightarrow> bool" where
  "host_char c \<longleftrightarrow> is_lower c \<or> is_digit c \<or> c = CHR ''-''"

fun collapse_other :: "bool \<Rightarrow> string \<Rightarrow> string" where
  "collapse_other in_run [] = []"
| "collapse_other in_run (c # cs) =
     (if host_char c then c # collapse_other False cs
      else if in_run then collapse_other True cs else CHR ''-'' # collapse_other True cs)"

definition hostname :: "string \<Rightarrow> string" where
  "hostname runID =
     (let v = trim (\<lambda>c. c = CHR ''-'') (collapse_other False (replace_char CHR ''_'' CHR ''-'' (to_lower runID)))
      in if v = [] then ''switchboard''
         else if length v > 52 then ''sw-'' @ take 52 v else ''sw-'' @ v)"

section \<open>Hardware and prices\<close>

definition gpuFamily :: "string \<Rightarrow> string" where
  "gpuFamily description =
     (case find (\<lambda>family. sublist family (to_upper description)) [''H100'', ''A100'', ''A10'', ''A6000'', ''RTX'', ''V100''] of
        Some family \<Rightarrow> family | None \<Rightarrow> [])"

text \<open>\<open>vramGBPerGPU\<close>: the first number that is followed by \<open>GB\<close>, in any case and after any blanks. A
  number that does not fit an \<open>int\<close> is not scanned, and leaves zero.\<close>

definition regex_space :: "char \<Rightarrow> bool" where
  "regex_space c \<longleftrightarrow> c \<in> set [CHR '' '', CHR 0x09, CHR 0x0A, CHR 0x0C, CHR 0x0D]"

fun gb_digits :: "string \<Rightarrow> string \<Rightarrow> string option" where
  "gb_digits run [] = None"
| "gb_digits run (c # cs) =
     (if is_digit c then gb_digits (run @ [c]) cs
      else if run \<noteq> [] \<and> equal_fold ''GB'' (take 2 (dropWhile regex_space (c # cs))) then Some run
      else gb_digits [] cs)"

definition vramGBPerGPU :: "string \<Rightarrow> int" where
  "vramGBPerGPU description = (case gb_digits [] description of
      None \<Rightarrow> 0 | Some ds \<Rightarrow> if digits_value 0 ds < 2 ^ 63 then int (digits_value 0 ds) else 0)"

definition lambda_shape_id :: "string \<Rightarrow> string \<Rightarrow> string" where
  "lambda_shape_id region machine = ''lambda-'' @ region @ ''-'' @ replace_char CHR ''_'' CHR ''-'' machine"

definition hardwareShape :: "instance_type \<Rightarrow> string \<Rightarrow> string \<Rightarrow> string \<Rightarrow> hardware_shape" where
  "hardwareShape t region hint why =
     (let vramPerGPU = vramGBPerGPU (it_gpu_description t);
          totalVRAM = wrap64 (vramPerGPU * it_gpus t)
      in empty_shape\<lparr>sh_id := lambda_shape_id region (it_name t), sh_provider := ''lambda'', sh_region := region,
           sh_machine_type := it_name t, sh_accelerator_type := it_gpu_description t,
           sh_accelerator_count := it_gpus t, sh_gpu_family := gpuFamily (it_gpu_description t),
           sh_vram_per_gpu := vramPerGPU, sh_total_vram := totalVRAM,
           sh_on_demand_usd := of_int (it_price_cents t) / 100, sh_supports_on_demand := True,
           sh_availability_hint := hint, sh_availability_reason := why\<rparr>)"

definition configuredHardwareShape :: "lambda_config \<Rightarrow> hardware_shape list" where
  "configuredHardwareShape c =
     [empty_shape\<lparr>sh_id := lambda_shape_id (lm_region c) (lm_instance_type c), sh_provider := ''lambda'',
        sh_region := lm_region c, sh_machine_type := lm_instance_type c, sh_supports_on_demand := True,
        sh_availability_hint := ''configured'',
        sh_availability_reason := ''configured from lambda.instance_type_name and lambda.region_name''\<rparr>]"

definition item_shapes :: "lambda_config \<Rightarrow> instance_types_item \<Rightarrow> hardware_shape list" where
  "item_shapes c item =
     map (\<lambda>region. hardwareShape (ii_type item) region ''available'' ''reported by Lambda instance-types API'') (ii_regions item)
     @ (if ii_regions item = [] \<and> it_name (ii_type item) = lm_instance_type c
        then [hardwareShape (ii_type item) (lm_region c) ''unavailable'' ''Lambda API reported no current regional capacity'']
        else [])"

text \<open>The order of the map of instance types is open, and so is that of shapes equal in region and id.\<close>

definition shape_less :: "hardware_shape \<Rightarrow> hardware_shape \<Rightarrow> bool" where
  "shape_less a b = (if sh_region a = sh_region b then sh_id a < sh_id b else sh_region a < sh_region b)"

definition hardwareShapes :: "lambda_config \<Rightarrow> lambda_session \<Rightarrow> hardware_shape list" where
  "hardwareShapes c ses =
     (if ls_client ses \<noteq> None then configuredHardwareShape c
      else (case ls_types ses of
         Inl e \<Rightarrow> configuredHardwareShape c
       | Inr items \<Rightarrow>
           let shapes = concat (map (\<lambda>(k, item). item_shapes c item) items)
           in if shapes = [] then configuredHardwareShape c else sort_stable shape_less shapes))"

definition distinct_nonempty :: "string list \<Rightarrow> string list" where
  "distinct_nonempty xs = sort_strings (rev (remdups (rev (filter (\<lambda>x. x \<noteq> []) xs))))"

definition gpuFamiliesFromShapes :: "hardware_shape list \<Rightarrow> string list" where
  "gpuFamiliesFromShapes shapes = distinct_nonempty (map sh_gpu_family shapes)"

definition regionsFromShapes :: "hardware_shape list \<Rightarrow> string list" where
  "regionsFromShapes shapes = distinct_nonempty (map sh_region shapes)"

definition lambda_capabilities :: "lambda_config \<Rightarrow> lambda_session \<Rightarrow> provider_capabilities" where
  "lambda_capabilities c ses =
     (let shapes = hardwareShapes c ses
      in empty_capabilities\<lparr>cap_gpu_families := gpuFamiliesFromShapes shapes, cap_regions := regionsFromShapes shapes,
           cap_shapes := shapes, cap_on_demand := True, cap_docker_image := True,
           cap_uri_schemes := [''http'', ''https'', ''s3'', ''gs''], cap_checkpoint_schemes := [''s3'', ''gs'']\<rparr>)"

definition lambda_estimate :: "lambda_config \<Rightarrow> lambda_session \<Rightarrow> cost_estimate" where
  "lambda_estimate c ses =
     (case find (\<lambda>sh. sh_machine_type sh = lm_instance_type c \<and> sh_region sh = lm_region c) (hardwareShapes c ses) of
        Some sh \<Rightarrow> \<lparr>est_hourly_usd = sh_on_demand_usd sh, est_currency = ''USD''\<rparr>
      | None \<Rightarrow> \<lparr>est_hourly_usd = 0, est_currency = ''USD''\<rparr>)"

definition lambda_validate :: "lambda_config \<Rightarrow> job_spec \<Rightarrow> support_report" where
  "lambda_validate c job =
     (let reasons =
        (if job_image job = [] then [''lambda provider requires job.image''] else [])
        @ (if job_script job \<noteq> [] then [''lambda provider v1 does not package local scripts; provide job.image''] else [])
        @ map (\<lambda>input. ''lambda provider v1 does not support bundled data input '' @ quote (di_name input))
            (filter (\<lambda>input. di_mode input = ModeBundle) (job_data job))
        @ (if lm_region c = [] then [''lambda.region_name is required''] else [])
        @ (if lm_instance_type c = [] then [''lambda.instance_type_name is required''] else [])
        @ (if lm_ssh_key_name c = [] then [''lambda.ssh_key_name is required''] else [])
        @ (if lm_ssh_private_key c = [] then [''lambda.ssh_private_key is required''] else [])
      in \<lparr>sup_supported = (reasons = []), sup_reasons = reasons\<rparr>)"
section \<open>Waiting and monitoring\<close>

fun waitForActive ::
  "redactor \<Rightarrow> gerror \<Rightarrow> api_failure + lambda_instance \<Rightarrow> (api_failure + lambda_instance) list
    \<Rightarrow> (gerror + lambda_instance \<Rightarrow> submit_prog) \<Rightarrow> submit_prog" where
  "waitForActive red sleepErr (Inl e) later k = k (Inl (normalizeError e))"
| "waitForActive red sleepErr (Inr i) later k =
     write_log (redact_string red (''lambda instance status: '' @ li_status i))
       (if li_status i = ''active'' then
          if li_ip i = []
          then k (Inl (ErrProvider ErrInternal ''lambda instance is active but has no public IP'' None))
          else k (Inr i)
        else if li_status i = ''booting'' then
          (case later of [] \<Rightarrow> k (Inl sleepErr)
           | next # later \<Rightarrow> Meanwhile (waitForActive red sleepErr next later k))
        else if li_status i = ''preempted'' then
          k (Inl (ErrProvider ErrCapacity ''lambda instance was preempted before job startup'' None))
        else if li_status i = ''unhealthy'' then
          k (Inl (ErrProvider ErrRuntime ''lambda instance became unhealthy before job startup'' None))
        else if li_status i \<in> set [''terminated'', ''terminating''] then
          k (Inl (ErrProvider ErrRuntime ''lambda instance terminated before job startup'' None))
        else k (Inl (ErrProvider ErrUnknown (''lambda instance entered unknown status '' @ quote (li_status i)) None)))"

record monitor_state =
  ms_log_offset :: nat
  ms_event_offset :: nat
  ms_seen :: "string set"

text \<open>One turn takes over the log and then the events, and gives the texts and events it appends.\<close>

definition take_over ::
  "redactor \<Rightarrow> submit_request \<Rightarrow> lambda_poll \<Rightarrow> monitor_state \<Rightarrow> monitor_state \<times> string \<times> event list" where
  "take_over red req po st =
     (let (st1, txt, evs1) = (case po_log po of
            None \<Rightarrow> (st, [], [])
          | Some content \<Rightarrow>
              let ap = appendNewLogContent red (rq_run_id req) (rq_attempt_id req) (po_log_time po) content
                    (ms_log_offset st) (ms_seen st)
              in (st\<lparr>ms_log_offset := ap_offset ap, ms_seen := ap_seen ap\<rparr>, ap_text ap, ap_events ap));
          (st2, evs2) = (case po_events po of
            None \<Rightarrow> (st1, [])
          | Some content \<Rightarrow>
              let ap = appendNewEventContent red (rq_run_id req) (rq_attempt_id req) (po_event_time po) content
                    (ms_event_offset st1) (ms_seen st1)
              in (st1\<lparr>ms_event_offset := ap_offset ap, ms_seen := ap_seen ap\<rparr>, ap_events ap))
      in (st2, txt, evs1 @ evs2))"

definition exit_marker :: "lambda_poll \<Rightarrow> string option" where
  "exit_marker po = (case po_exit po of
      Some content \<Rightarrow> if trim_space content \<noteq> [] then Some content else None | None \<Rightarrow> None)"

definition status_error :: "string \<Rightarrow> gerror option" where
  "status_error status =
     (if status \<in> set [''active'', ''booting''] then None
      else if status = ''preempted'' then Some (ErrProvider ErrCapacity ''lambda instance was preempted'' None)
      else if status = ''unhealthy'' then Some (ErrProvider ErrRuntime ''lambda instance became unhealthy'' None)
      else if status \<in> set [''terminated'', ''terminating''] then
        Some (ErrProvider ErrRuntime ''lambda instance terminated before writing exit marker'' None)
      else Some (ErrProvider ErrUnknown (''lambda instance entered unknown status '' @ quote status) None))"

definition marker_result :: "lambda_poll \<Rightarrow> string \<Rightarrow> gerror + int \<times> string" where
  "marker_result po content = (case parseExit content of
      None \<Rightarrow> Inl (ErrProvider ErrRuntime (''lambda exit marker was invalid: '' @ error_string (po_decode_error po))
        (Some (po_decode_error po)))
    | Some r \<Rightarrow> Inr r)"

fun monitorRemote ::
  "redactor \<Rightarrow> submit_request \<Rightarrow> gerror \<Rightarrow> monitor_state \<Rightarrow> lambda_poll list \<Rightarrow> lambda_poll
    \<Rightarrow> (gerror + int \<times> string \<Rightarrow> submit_prog) \<Rightarrow> submit_prog" where
  "monitorRemote red req sleepErr st later po k =
     (case take_over red req po st of (st, txt, evs) \<Rightarrow>
        log_text txt (emit evs
          (case exit_marker po of
             Some content \<Rightarrow> k (marker_result po content)
           | None \<Rightarrow>
               (case po_instance po of
                  Inl e \<Rightarrow> k (Inl (normalizeError e))
                | Inr i \<Rightarrow>
                    (case status_error (li_status i) of
                       Some e \<Rightarrow> k (Inl e)
                     | None \<Rightarrow>
                         (case later of [] \<Rightarrow> k (Inl sleepErr)
                          | next # later \<Rightarrow> Meanwhile (monitorRemote red req sleepErr st later next k)))))))"

declare monitorRemote.simps [simp del]

section \<open>Submit\<close>

definition launchRequest :: "lambda_config \<Rightarrow> submit_request \<Rightarrow> launch_request" where
  "launchRequest c req =
     \<lparr>lr_region = lm_region c, lr_instance_type = lm_instance_type c, lr_ssh_keys = [lm_ssh_key_name c],
      lr_hostname = hostname (rq_run_id req), lr_name = job_name (rq_job req),
      lr_image = (if lm_image_family c \<noteq> [] then [(''family'', lm_image_family c)] else []),
      lr_user_data = cloudInitUserData req (lm_registry c),
      lr_tags = [(''switchboard:run-id'', rq_run_id req), (''switchboard:attempt-id'', rq_attempt_id req)]\<rparr>"

definition lambda_cleanup_policy :: "lambda_config \<Rightarrow> cleanup_policy" where
  "lambda_cleanup_policy c =
     (if lm_terminate c \<and> \<not> lm_keep_on_failure c then CleanupAlways
      else if lm_terminate c \<and> lm_keep_on_failure c then CleanupOnSuccess
      else if \<not> lm_terminate c \<and> \<not> lm_keep_on_failure c then CleanupOnFailure
      else CleanupNever)"

definition lambda_metadata :: "lambda_config \<Rightarrow> string smap \<Rightarrow> string smap" where
  "lambda_metadata c extra =
     map_merge
       ([(''instance_type'', lm_instance_type c)]
        @ (if lm_image_family c \<noteq> [] then [(''image_family'', lm_image_family c)] else [])
        @ (if ra_server (lm_registry c) \<noteq> [] then [(''registry_auth_server'', ra_server (lm_registry c))] else []))
       extra"

definition lambda_resource ::
  "lambda_config \<Rightarrow> submit_request \<Rightarrow> string \<Rightarrow> resource_state \<Rightarrow> string smap \<Rightarrow> gotime \<Rightarrow> provider_resource" where
  "lambda_resource c req instanceID state metadata observedAt =
     \<lparr>res_id = [], res_run_id = rq_run_id req, res_attempt_id = rq_attempt_id req, res_provider = ''lambda'',
      res_kind = KindInstance, res_external_id = instanceID, res_provider_ref = lambda_ref instanceID,
      res_region = lm_region c, res_project = [], res_state = state, res_created_by_switchboard = True,
      res_cleanup = lambda_cleanup_policy c, res_metadata = lambda_metadata c metadata,
      res_created_at = zero_time, res_updated_at = zero_time, res_observed_at = Some observedAt\<rparr>"

definition shouldTerminate :: "lambda_config \<Rightarrow> int \<Rightarrow> bool" where
  "shouldTerminate c exitCode = (if exitCode = 0 then lm_terminate c else \<not> lm_keep_on_failure c)"

definition failed_with :: "string \<Rightarrow> int \<Rightarrow> string \<Rightarrow> gerror \<Rightarrow> submit_prog" where
  "failed_with ref code reason e = Done \<lparr>sr_job_ref = ref, sr_exit_code = code, sr_exit_reason = reason\<rparr> (Some e)"

text \<open>A request to terminate: the instance is released when the service accepts it.\<close>

definition terminate :: "lambda_session \<Rightarrow> string \<Rightarrow> (api_failure option \<Rightarrow> submit_prog) \<Rightarrow> submit_prog" where
  "terminate ses instanceID k = (case ls_terminate ses instanceID of
      None \<Rightarrow> Act (Released instanceID) (k None) | Some e \<Rightarrow> k (Some e))"

definition failureResult ::
  "lambda_config \<Rightarrow> lambda_session \<Rightarrow> submit_request \<Rightarrow> redactor \<Rightarrow> string \<Rightarrow> gerror \<Rightarrow> submit_prog" where
  "failureResult c ses req red instanceID e =
     (let wrapped = normalize_plain e;
          settle = (\<lambda>state metadata.
            ResourceSaved (lambda_resource c req instanceID state metadata (ls_time_final ses)) (\<lambda>r. case r of
                Some resourceErr \<Rightarrow> failed_with (lambda_ref instanceID) 1 (redact_string red (error_string resourceErr)) resourceErr
              | None \<Rightarrow> failed_with (lambda_ref instanceID) (exitCodeForProviderError wrapped)
                  (redact_string red (error_string wrapped)) wrapped))
      in if lm_keep_on_failure c then settle ResFailed [(''error'', error_string wrapped)]
         else terminate ses instanceID (\<lambda>r. case r of
             Some te \<Rightarrow> settle ResFailed [(''error'', error_string wrapped),
               (''cleanup_error'', error_string (normalizeError te))]
           | None \<Rightarrow> settle ResTerminating [(''error'', error_string wrapped)]))"

text \<open>After the monitor returned the exit of the container.\<close>

definition finish_submit ::
  "lambda_config \<Rightarrow> lambda_session \<Rightarrow> submit_request \<Rightarrow> redactor \<Rightarrow> string \<Rightarrow> int \<Rightarrow> string \<Rightarrow> submit_prog" where
  "finish_submit c ses req red instanceID exitCode exitReason =
     (let finalState = (if exitCode \<noteq> 0 then ResFailed else ResSucceeded);
          settle = (\<lambda>state metadata.
            ResourceSaved (lambda_resource c req instanceID state metadata (ls_time_final ses)) (\<lambda>r. case r of
                Some e \<Rightarrow> failed_with (lambda_ref instanceID) 1 (error_string e) e
              | None \<Rightarrow> Done \<lparr>sr_job_ref = lambda_ref instanceID, sr_exit_code = exitCode,
                                sr_exit_reason = redact_string red exitReason\<rparr> None))
      in if shouldTerminate c exitCode
         then terminate ses instanceID (\<lambda>r. case r of
             Some te \<Rightarrow> write_log (redact_string red (''lambda terminate failed: '' @ error_string (normalizeError te)))
               (settle finalState [(''exit_reason'', exitReason), (''cleanup_error'', error_string (normalizeError te))])
           | None \<Rightarrow> write_log (redact_string red (''lambda instance terminated: '' @ instanceID))
               (settle ResTerminating [(''exit_reason'', exitReason)]))
         else settle finalState [(''exit_reason'', exitReason)])"

text \<open>From the instance that is active on.\<close>

definition run_on_instance ::
  "lambda_config \<Rightarrow> lambda_session \<Rightarrow> submit_request \<Rightarrow> redactor \<Rightarrow> string \<Rightarrow> lambda_instance \<Rightarrow> submit_prog" where
  "run_on_instance c ses req red instanceID i =
     ResourceSaved (lambda_resource c req instanceID ResRunning [(''native_status'', li_status i)] (ls_time_running ses)) (\<lambda>r.
       case r of
         Some e \<Rightarrow> failed_with (lambda_ref instanceID) 1 (error_string e) e
       | None \<Rightarrow>
           (case ls_ready ses of
              Some e \<Rightarrow> failureResult c ses req red instanceID
                (ErrProvider ErrNetwork (''lambda ssh not ready: '' @ error_string e) (Some e))
            | None \<Rightarrow>
                monitorRemote red req (ls_poll_sleep ses)
                  \<lparr>ms_log_offset = 0, ms_event_offset = 0, ms_seen = {}\<rparr> (ls_poll_more ses) (ls_poll ses) (\<lambda>r.
                  case r of
                    Inl e \<Rightarrow> failureResult c ses req red instanceID e
                  | Inr (exitCode, exitReason) \<Rightarrow> finish_submit c ses req red instanceID exitCode exitReason)))"

definition lambda_redactor :: "lambda_config \<Rightarrow> lambda_session \<Rightarrow> submit_request \<Rightarrow> redactor" where
  "lambda_redactor c ses req =
     FromEnvironment (ls_environ ses) [job_env (rq_job req), rq_env req,
       (if ra_password (lm_registry c) = [] then []
        else [(''SWITCHBOARD_LAMBDA_REGISTRY_PASSWORD'', ra_password (lm_registry c))])]"

definition launched ::
  "lambda_config \<Rightarrow> lambda_session \<Rightarrow> submit_request \<Rightarrow> redactor \<Rightarrow> string \<Rightarrow> submit_prog" where
  "launched c ses req red instanceID =
     ResourceSaved (lambda_resource c req instanceID ResBooting [(''native_status'', ''booting'')] (ls_time_created ses)) (\<lambda>r.
       case r of
         Some e \<Rightarrow> terminate ses instanceID (\<lambda>t. failed_with (lambda_ref instanceID) 1 (error_string e) e)
       | None \<Rightarrow> Started (lambda_ref instanceID) (\<lambda>r. case r of
           Some e \<Rightarrow> terminate ses instanceID (\<lambda>t. failed_with (lambda_ref instanceID) 1 (error_string e) e)
         | None \<Rightarrow>
             write_log (redact_string red (''lambda instance started: '' @ instanceID))
               (waitForActive red (ls_wait_sleep ses) (ls_wait ses) (ls_wait_more ses) (\<lambda>r. case r of
                  Inl e \<Rightarrow> failureResult c ses req red instanceID e
                | Inr i \<Rightarrow> run_on_instance c ses req red instanceID i))))"

definition lambda_submit :: "lambda_config \<Rightarrow> lambda_session \<Rightarrow> submit_request \<Rightarrow> submit_prog" where
  "lambda_submit c ses req =
     (let red = lambda_redactor c ses req;
          empty = \<lparr>sr_job_ref = [], sr_exit_code = 0, sr_exit_reason = []\<rparr> in
      case ls_open_logs ses of
        Some e \<Rightarrow> Done empty (Some (ErrWrap ''open logs artifact: '' e))
      | None \<Rightarrow>
      (case ls_open_events ses of
        Some e \<Rightarrow> Done empty (Some (ErrWrap ''open events artifact: '' e))
      | None \<Rightarrow>
      (case ls_client ses of
        Some e \<Rightarrow> failed_with [] (exitCodeForProviderError (normalizeError e))
          (redact_string red (error_string (normalizeError e))) (normalizeError e)
      | None \<Rightarrow>
          write_log (redact_string red (''lambda instance launch: '' @ job_name (rq_job req)))
            (case ls_launch ses (launchRequest c req) of
               Inl e \<Rightarrow> failed_with [] (exitCodeForProviderError (normalizeError e))
                 (redact_string red (error_string (normalizeError e))) (normalizeError e)
             | Inr [] \<Rightarrow>
                 let wrapped = ErrProvider ErrInternal ''lambda launch returned no instance IDs'' None
                 in failed_with [] (exitCodeForProviderError wrapped) (error_string wrapped) wrapped
             | Inr (instanceID # others) \<Rightarrow>
                 foldr (\<lambda>i. Act (Acquired i)) (instanceID # others) (launched c ses req red instanceID)))))"

section \<open>The provider\<close>

definition lambda_status :: "lambda_session \<Rightarrow> string \<Rightarrow> gerror + job_status" where
  "lambda_status ses ref =
     (case ls_client ses of
        Some e \<Rightarrow> Inl (normalizeError e)
      | None \<Rightarrow> (case ls_get ses (instanceIDFromRef ref) of
          Inl e \<Rightarrow> Inl (normalizeError e)
        | Inr i \<Rightarrow> Inr \<lparr>js_state = Some (attemptStateFromInstanceStatus (li_status i)),
                       js_resource_state = providerResourceStateFromInstanceStatus (li_status i)\<rparr>))"

definition lambda_cancel :: "lambda_session \<Rightarrow> string \<Rightarrow> gerror option" where
  "lambda_cancel ses ref =
     (case ls_client ses of
        Some e \<Rightarrow> Some (normalizeError e)
      | None \<Rightarrow> map_option normalizeError (ls_terminate ses (instanceIDFromRef ref)))"

definition lambda_auth :: "lambda_session \<Rightarrow> gerror option" where
  "lambda_auth ses =
     (case ls_client ses of
        Some e \<Rightarrow> Some (normalizeError e)
      | None \<Rightarrow> map_option normalizeError (ls_auth ses))"

definition lambda_adapter :: "lambda_config \<Rightarrow> lambda_session \<Rightarrow> adapter" where
  "lambda_adapter config ses =
     (let c = withDefaults config in
      \<lparr>ad_name = ''lambda'', ad_auth = lambda_auth ses, ad_capabilities = (lambda_capabilities c ses, None),
       ad_validate = lambda_validate c, ad_estimate = (\<lambda>job. Inr (lambda_estimate c ses)),
       ad_submit = lambda_submit c ses, ad_status = lambda_status ses, ad_cancel = lambda_cancel ses\<rparr>)"
section \<open>No instance is lost\<close>

lemma quiet_wait: "quiet (\<lambda>x. True) (waitForActive red sleepErr now later)"
proof (induction later arbitrary: now)
  case Nil
  show ?case by (cases now) (auto intro!: quiet_intros)
next
  case (Cons later_now later)
  then show ?case by (cases now) (auto intro!: quiet_intros)
qed

lemma monitor_eq: "monitorRemote red req sleepErr st later po = (\<lambda>k.
     (case take_over red req po st of (st, txt, evs) \<Rightarrow>
        log_text txt (emit evs
          (case exit_marker po of
             Some content \<Rightarrow> k (marker_result po content)
           | None \<Rightarrow>
               (case po_instance po of
                  Inl e \<Rightarrow> k (Inl (normalizeError e))
                | Inr i \<Rightarrow>
                    (case status_error (li_status i) of
                       Some e \<Rightarrow> k (Inl e)
                     | None \<Rightarrow>
                         (case later of [] \<Rightarrow> k (Inl sleepErr)
                          | next # later \<Rightarrow> Meanwhile (monitorRemote red req sleepErr st later next k))))))))"
  by (rule ext, subst monitorRemote.simps) (rule refl)

lemma quiet_monitor: "quiet (\<lambda>x. True) (monitorRemote red req sleepErr st later po)"
proof (induction later arbitrary: st po)
  case Nil
  obtain st' body evs where "take_over red req po st = (st', body, evs)" by (metis prod_cases3)
  then show ?case
    by (subst monitor_eq; cases "exit_marker po"; cases "po_instance po";
        cases "status_error (li_status (projr (po_instance po)))") (auto intro!: quiet_intros)
next
  case (Cons next_po later)
  obtain st' body evs where "take_over red req po st = (st', body, evs)" by (metis prod_cases3)
  then show ?case
    by (subst monitor_eq; cases "exit_marker po"; cases "po_instance po";
        cases "status_error (li_status (projr (po_instance po)))") (auto intro!: quiet_intros Cons.IH)
qed

lemma effects_terminate [effect_simps]:
  "acquired (effects (terminate ses i k) ans n) = acquired (effects (k (ls_terminate ses i)) ans n)"
  "recorded (effects (terminate ses i k) ans n) = recorded (effects (k (ls_terminate ses i)) ans n)"
  "released (effects (terminate ses i k) ans n) =
     (if ls_terminate ses i = None then [i] else []) @ released (effects (k (ls_terminate ses i)) ans n)"
  "ending (terminate ses i k) ans n = ending (k (ls_terminate ses i)) ans n"
  by (auto simp: terminate_def split: option.split)

lemma acquired_none [effect_simps]:
  "acquired (effects (failed_with ref code reason e) ans n) = []"
  "released (effects (failed_with ref code reason e) ans n) = []"
  "recorded (effects (failed_with ref code reason e) ans n) = []"
  "ending (failed_with ref code reason e) ans n =
     (\<lparr>sr_job_ref = ref, sr_exit_code = code, sr_exit_reason = reason\<rparr>, Some e)"
  by (simp_all add: failed_with_def)

lemma metadata_cleanup [simp]:
  "map_of (lambda_metadata c [(''error'', a), (''cleanup_error'', b)]) ''cleanup_error'' = Some b"
  "map_of (lambda_metadata c [(''exit_reason'', a), (''cleanup_error'', b)]) ''cleanup_error'' = Some b"
  by (simp_all add: lambda_metadata_def map_of_map_merge)

lemma resource_fields [simp]:
  "res_external_id (lambda_resource c req i st m t) = i"
  "res_state (lambda_resource c req i st m t) = st"
  "res_metadata (lambda_resource c req i st m t) = lambda_metadata c m"
  by (simp_all add: lambda_resource_def)

lemma settles_failure [settles_intros]:
  "settles (lm_terminate c) (lm_keep_on_failure c) i (failureResult c ses req red i e)"
  by (auto simp: settles_def settled_def failureResult_def Let_def effect_simps split: option.split)

lemma settles_finish [settles_intros]:
  "settles (lm_terminate c) (lm_keep_on_failure c) i (finish_submit c ses req red i code reason)"
  by (auto simp: settles_def settled_def finish_submit_def shouldTerminate_def Let_def effect_simps split: option.split)

lemma settles_launched: "settles (lm_terminate c) (lm_keep_on_failure c) i (launched c ses req red i)"
proof -
  have *: "settles (lm_terminate c) (lm_keep_on_failure c) i (run_on_instance c ses req red i inst)" for inst
    unfolding run_on_instance_def
    by (auto intro!: settles_recorded settles_failure settles_finish settles_quiet [OF quiet_monitor]
        split: option.split sum.split)
  show ?thesis
    unfolding launched_def
    by (auto intro!: settles_recorded settles_started settles_log settles_failure * settles_quiet [OF quiet_wait]
        split: option.split sum.split)
qed

lemma lambda_settled:
  assumes "\<And>req ids. ls_launch ses req = Inr ids \<Longrightarrow> length ids \<le> 1"
  shows "let es = effects (lambda_submit c ses req) (\<lambda>n. None) 0
    in acquired es = [] \<and> released es = [] \<or> 
      (\<exists>i. acquired es = [i] \<and> settled (lm_terminate c) (lm_keep_on_failure c) i (recorded es) (released es))"
proof -
  let ?es = "effects (lambda_submit c ses req) (\<lambda>n. None) 0"
  have one: "others = []" if "ls_launch ses (launchRequest c req) = Inr (i # others)" for i others
    using assms [OF that] by simp
  have *: "acquired ?es = [] \<and> released ?es = []"
    if "\<not> (ls_open_logs ses = None \<and> ls_open_events ses = None \<and> ls_client ses = None
      \<and> (\<exists>i others. ls_launch ses (launchRequest c req) = Inr (i # others)))"
    using that by (auto simp: lambda_submit_def Let_def effect_simps split: option.split sum.split list.split)
  show ?thesis
  proof (cases "\<exists>i. ls_launch ses (launchRequest c req) = Inr [i] \<and> ls_open_logs ses = None
      \<and> ls_open_events ses = None \<and> ls_client ses = None")
    case False
    then show ?thesis unfolding Let_def using * one by blast
  next
    case True
    then obtain i where "ls_launch ses (launchRequest c req) = Inr [i]" "ls_open_logs ses = None"
      "ls_open_events ses = None" "ls_client ses = None" by blast
    then show ?thesis
      using settles_launched [of c i ses req "lambda_redactor c ses req"]
      by (auto simp: lambda_submit_def Let_def effect_simps settles_def)
  qed
qed
text \<open>C7. When the callbacks of the run loop succeed, Lambda's \<open>Submit\<close> loses no instance, however the
  service and the machine behave: nothing was launched, or the last record of the instance says
  what became of it. It is recorded as terminating exactly when the service accepted its
  termination; else it is kept as the configuration asks, or the record has the error of the
  termination. The service is taken to launch at most one instance for one request.\<close>

theorem lambda_loses_no_instance:
  assumes "\<And>req ids. ls_launch ses req = Inr ids \<Longrightarrow> length ids \<le> 1"
  shows "let es = effects (lambda_submit c ses req) (\<lambda>n. None) 0
    in acquired es = [] \<and> released es = [] \<or> 
      (\<exists>i. acquired es = [i] \<and> settled (lm_terminate c) (lm_keep_on_failure c) i (recorded es) (released es))"
  by (rule lambda_settled [OF assms])

definition sample_config :: lambda_config where
  "sample_config = withDefaults \<lparr>lm_region = ''us-east-1'', lm_instance_type = ''gpu_1x_a10'', lm_ssh_key_name = ''key'',
     lm_ssh_private_key = ''/k'', lm_image_family = [], lm_registry = \<lparr>ra_server = [], ra_username = [], ra_password = []\<rparr>,
     lm_poll_interval = 0, lm_terminate = False, lm_terminate_set = False, lm_keep_on_failure = False,
     lm_api_timeout = 0, lm_connect_timeout = 0, lm_ready_timeout = 0\<rparr>"

definition sample_poll :: lambda_poll where
  "sample_poll = \<lparr>po_log = Some (''hello'' @ [nl]), po_events = None, po_exit = None, po_log_time = zero_time,
     po_event_time = zero_time, po_decode_error = ErrText ''decode'',
     po_instance = Inr \<lparr>li_id = ''i-1'', li_ip = ''1.2.3.4'', li_status = ''active''\<rparr>\<rparr>"

definition sample_session :: lambda_session where
  "sample_session = \<lparr>ls_environ = [], ls_open_logs = None, ls_open_events = None, ls_client = None, ls_auth = None,
     ls_types = Inr [], ls_launch = (\<lambda>req. Inr [''i-1'']), ls_get = (\<lambda>i. Inl (OtherError (ErrText ''get''))),
     ls_wait = Inr \<lparr>li_id = ''i-1'', li_ip = [], li_status = ''booting''\<rparr>,
     ls_wait_more = [Inr \<lparr>li_id = ''i-1'', li_ip = ''1.2.3.4'', li_status = ''active''\<rparr>],
     ls_wait_sleep = ErrText ''context canceled'', ls_ready = None, ls_poll = sample_poll,
     ls_poll_more = [sample_poll\<lparr>po_exit := Some ''{\"exit_code\":0}''\<rparr>],
     ls_poll_sleep = ErrText ''context canceled'', ls_terminate = (\<lambda>i. None),
     ls_time_created = zero_time, ls_time_running = zero_time, ls_time_final = zero_time\<rparr>"

definition sample_request :: submit_request where
  "sample_request = \<lparr>rq_job = \<lparr>job_name = ''train'', job_script = [], job_image = ''img'', job_command = [''python''],
       job_args = [], job_env = [], job_data = [], job_work_dir = []\<rparr>,
     rq_run_id = ''run_1'', rq_attempt_id = ''att_1'', rq_resume = None, rq_hardware = None, rq_env = [], rq_run_dir = ''/r''\<rparr>"

lemma lambda_loses_no_instance_witness:
  "let es = effects (lambda_submit sample_config sample_session sample_request) (\<lambda>n. None) 0
    in acquired es = [] \<and> released es = [] \<or> (\<exists>i. acquired es = [i] \<and>
      settled (lm_terminate sample_config) (lm_keep_on_failure sample_config) i (recorded es) (released es))"
  using lambda_loses_no_instance [of sample_session sample_config sample_request] by (simp add: sample_session_def)

text \<open>When the instance is active and the run loop fails to record that, \<open>Submit\<close> returns the error and
  leaves the instance running: it asks for no termination, whatever the configuration says, though
  it does so when either of the two callbacks before fails.\<close>

theorem lambda_leaks_running_instance:
  assumes "ls_open_logs ses = None" "ls_open_events ses = None" "ls_client ses = None"
    and "ls_launch ses (launchRequest c req) = Inr [i]"
    and "ls_wait ses = Inr inst" "li_status inst = ''active''" "li_ip inst \<noteq> []"
    and "answers 0 = None" "answers 1 = None" "answers 2 = Some e"
  shows "acquired (effects (lambda_submit c ses req) answers 0) = [i]
    \<and> released (effects (lambda_submit c ses req) answers 0) = []
    \<and> res_state (last (recorded (effects (lambda_submit c ses req) answers 0))) = ResRunning
    \<and> ending (lambda_submit c ses req) answers 0
      = (\<lparr>sr_job_ref = lambda_ref i, sr_exit_code = 1, sr_exit_reason = error_string e\<rparr>, Some e)"
  using assms
  by (simp add: lambda_submit_def Let_def effect_simps launched_def run_on_instance_def numeral_2_eq_2)

definition active_session :: lambda_session where
  "active_session = sample_session\<lparr>ls_wait := Inr \<lparr>li_id = ''i-1'', li_ip = ''1.2.3.4'', li_status = ''active''\<rparr>\<rparr>"

lemma lambda_leaks_running_instance_witness:
  "lm_terminate sample_config \<and> \<not> lm_keep_on_failure sample_config \<and>
    released (effects (lambda_submit sample_config active_session sample_request)
      (\<lambda>n. if n = 2 then Some (ErrText ''disk full'') else None) 0) = []"
  using lambda_leaks_running_instance [of active_session sample_config sample_request "''i-1''"
      "\<lparr>li_id = ''i-1'', li_ip = ''1.2.3.4'', li_status = ''active''\<rparr>"
      "\<lambda>n. if n = 2 then Some (ErrText ''disk full'') else None" "ErrText ''disk full''"]
  by (simp add: active_session_def sample_session_def sample_config_def withDefaults_def)

end
