(* ===== verification/GcpHardware.thy ===== *)
theory GcpHardware
  imports Types
begin

text \<open>
  The hardware of \<open>provider/gcp/gcp.go\<close>: the catalogue of the program, and what the billing, machine,
  accelerator and quota services report, merged into the shapes that routing chooses from. The
  answers of the services are given; they have no nil entries, which the code skips.
\<close>

section \<open>Configuration\<close>

record gcp_settings =
  gs_project :: string
  gs_location :: string
  gs_output_prefix :: string
  gs_machine_type :: string
  gs_accelerator_type :: string
  gs_accelerator_count :: int
  gs_boot_disk_type :: string
  gs_boot_disk_gb :: int
  gs_service_account :: string
  gs_network :: string
  gs_poll_interval :: int
  gs_estimate_usd :: rat
  gs_repository :: string

definition gcp_defaults :: "gcp_settings \<Rightarrow> gcp_settings" where
  "gcp_defaults c = c\<lparr>
     gs_location := (if gs_location c = [] then ''us-central1'' else gs_location c),
     gs_machine_type := (if gs_machine_type c = [] then ''n1-standard-4'' else gs_machine_type c),
     gs_boot_disk_type := (if gs_boot_disk_type c = [] then ''pd-ssd'' else gs_boot_disk_type c),
     gs_boot_disk_gb := (if gs_boot_disk_gb c = 0 then 100 else gs_boot_disk_gb c),
     gs_poll_interval := (if gs_poll_interval c = 0 then 30 else gs_poll_interval c)\<rparr>"

section \<open>What the services report\<close>

text \<open>A price of a tier: its currency, units and billionths. A tier or a price that is missing is \<open>None\<close>.\<close>

record pricing =
  pr_unit :: string
  pr_tiers :: "(string \<times> int \<times> int) option list"

record sku =
  sku_description :: string
  sku_regions :: "string list"
  sku_pricing :: "pricing option list"

record machine_type =
  mt_name :: string
  mt_zone :: string
  mt_cpus :: int
  mt_memory_mb :: int

record accelerator_type =
  at_name :: string
  at_zone :: string
  at_max_cards :: int

record quota =
  qu_metric :: string
  qu_limit :: rat
  qu_usage :: rat

record inventory =
  iv_client :: "gerror option"
  iv_skus :: "gerror + sku list"
  iv_machines :: "gerror + machine_type list"
  iv_accelerators :: "gerror + accelerator_type list"
  iv_quotas :: "gerror + quota list"

section \<open>Names\<close>

definition dashed :: "string \<Rightarrow> string" where
  "dashed v = to_lower (replace_char CHR ''_'' CHR ''-'' v)"

definition gpuFamilies :: "string \<Rightarrow> string list" where
  "gpuFamilies v = (if v = [] then [] else [dashed v])"

definition firstGPUFamily :: "string \<Rightarrow> string" where
  "firstGPUFamily v = (case gpuFamilies v of [] \<Rightarrow> [] | f # _ \<Rightarrow> f)"

definition normalizeAcceleratorName :: "string \<Rightarrow> string" where
  "normalizeAcceleratorName value =
     (let v = dashed value in
      if v = ''tesla-t4'' then ''nvidia-tesla-t4'' else if v = ''tesla-a100'' then ''nvidia-tesla-a100''
      else if prefix ''nvidia-'' v then v else ''nvidia-'' @ v)"

definition normalizeDescription :: "string \<Rightarrow> string" where
  "normalizeDescription v =
     join '' '' (GoStrings.fields (replace_char CHR ''-'' CHR '' '' (to_lower (replace_char CHR ''_'' CHR '' '' v))))"

definition acceleratorPriceToken :: "string \<Rightarrow> string" where
  "acceleratorPriceToken v =
     (let name = normalizeAcceleratorName v in
      if name = ''nvidia-tesla-t4'' then ''t4'' else if name = ''nvidia-l4'' then ''l4''
      else if name = ''nvidia-tesla-a100'' then ''a100'' else if name = ''nvidia-a100-80gb'' then ''a100 80gb''
      else if name = ''nvidia-h100-80gb'' then ''h100''
      else trim_prefix ''nvidia '' (replace_char CHR ''-'' CHR '' '' name))"

definition before_dash :: "string \<Rightarrow> string" where
  "before_dash v = (case cut ''-'' v of Some (b, a) \<Rightarrow> if b \<noteq> [] then b else v | None \<Rightarrow> v)"

definition machineFamily :: "string \<Rightarrow> string" where
  "machineFamily machineType = to_lower (before_dash machineType)"

definition regionGroup :: "string \<Rightarrow> string" where
  "regionGroup region = before_dash region"

definition gpuQuotaMetric :: "string \<Rightarrow> string" where
  "gpuQuotaMetric v =
     (let name = normalizeAcceleratorName v in
      if name = ''nvidia-tesla-t4'' then ''NVIDIA_T4_GPUS'' else if name = ''nvidia-l4'' then ''NVIDIA_L4_GPUS''
      else if name = ''nvidia-tesla-a100'' then ''NVIDIA_A100_GPUS''
      else if name = ''nvidia-a100-80gb'' then ''NVIDIA_A100_80GB_GPUS''
      else if name = ''nvidia-h100-80gb'' then ''NVIDIA_H100_GPUS'' else [])"

definition cpuQuotaMetric :: "string \<Rightarrow> string" where
  "cpuQuotaMetric machineType =
     (let family = machineFamily machineType in
      if family \<in> set [''a2'', ''c2'', ''c2d'', ''c3'', ''e2'', ''m1'', ''m2'', ''m3'', ''n2'', ''n2d'', ''t2a'', ''t2d'']
      then to_upper family @ ''_CPUS'' else ''CPUS'')"

definition zoneName :: "string \<Rightarrow> string" where
  "zoneName v = (case cut_last (CHR ''/'') v of Some (before, rest) \<Rightarrow> rest | None \<Rightarrow> v)"

definition zoneInRegion :: "string \<Rightarrow> string \<Rightarrow> bool" where
  "zoneInRegion zone region \<longleftrightarrow> region = [] \<or> prefix (region @ ''-'') (zoneName zone)"

definition appendUnique :: "string list \<Rightarrow> string \<Rightarrow> string list" where
  "appendUnique vs v = (if v = [] \<or> v \<in> set vs then vs else vs @ [v])"

definition intersectStrings :: "string list \<Rightarrow> string list \<Rightarrow> string list" where
  "intersectStrings a b = foldl appendUnique [] (filter (\<lambda>v. v \<in> set a) b)"

definition gcp_vram :: "string \<Rightarrow> int" where
  "gcp_vram v =
     (let name = to_upper (replace_char CHR ''-'' CHR ''_'' v) in
      if name \<in> set [''NVIDIA_TESLA_T4'', ''TESLA_T4''] then 16
      else if name \<in> set [''NVIDIA_L4'', ''L4''] then 24
      else if name \<in> set [''NVIDIA_TESLA_A100'', ''TESLA_A100''] then 40
      else if name \<in> set [''NVIDIA_A100_80GB'', ''A100_80GB'', ''NVIDIA_H100_80GB'', ''H100_80GB''] then 80 else 0)"

section \<open>The catalogue\<close>

definition catalogShape :: "string \<Rightarrow> string \<Rightarrow> string \<Rightarrow> string \<Rightarrow> int \<Rightarrow> int \<Rightarrow> rat \<Rightarrow> hardware_shape" where
  "catalogShape location idSuffix machineType acceleratorType cards vramPerGPU hourlyUSD =
     empty_shape\<lparr>sh_id := ''gcp-'' @ location @ ''-'' @ idSuffix, sh_provider := ''gcp'', sh_region := location,
       sh_machine_type := machineType, sh_accelerator_type := acceleratorType, sh_accelerator_count := cards,
       sh_gpu_family := firstGPUFamily acceleratorType, sh_vram_per_gpu := vramPerGPU, sh_total_vram := vramPerGPU * cards,
       sh_on_demand_usd := hourlyUSD, sh_supports_on_demand := True, sh_availability_hint := ''static_estimate'',
       sh_availability_reason :=
         ''static Switchboard catalog estimate; validate quota and regional availability before large runs''\<rparr>"

definition catalogHardwareShapes :: "string \<Rightarrow> hardware_shape list" where
  "catalogHardwareShapes location0 =
     (let location = (if location0 = [] then ''us-central1'' else location0) in
      [catalogShape location ''n1-standard-4-t4-1'' ''n1-standard-4'' ''NVIDIA_TESLA_T4'' 1 16 (60 / 100),
       catalogShape location ''g2-standard-12-l4-1'' ''g2-standard-12'' ''NVIDIA_L4'' 1 24 (120 / 100),
       catalogShape location ''a2-highgpu-1g-a100-1'' ''a2-highgpu-1g'' ''NVIDIA_TESLA_A100'' 1 40 (370 / 100),
       catalogShape location ''a2-ultragpu-1g-a100-80gb-1'' ''a2-ultragpu-1g'' ''NVIDIA_A100_80GB'' 1 80 (550 / 100),
       catalogShape location ''a3-highgpu-8g-h100-8'' ''a3-highgpu-8g'' ''NVIDIA_H100_80GB'' 8 80 88])"

definition catalogHourlyUSD :: "string \<Rightarrow> string \<Rightarrow> string \<Rightarrow> int \<Rightarrow> rat" where
  "catalogHourlyUSD location machineType acceleratorType cards =
     (case find (\<lambda>s. sh_machine_type s = machineType \<and> equal_fold (sh_accelerator_type s) acceleratorType
          \<and> sh_accelerator_count s = cards) (catalogHardwareShapes location) of
        Some s \<Rightarrow> sh_on_demand_usd s | None \<Rightarrow> 0)"

definition gcp_configured_shape :: "gcp_settings \<Rightarrow> hardware_shape" where
  "gcp_configured_shape c =
     (let parts = [''gcp'', gs_location c, gs_machine_type c]
            @ (if gs_accelerator_type c \<noteq> []
               then [dashed (gs_accelerator_type c), string_of_int (gs_accelerator_count c) @ ''g''] else []);
          vramPerGPU = gcp_vram (gs_accelerator_type c);
          hourlyUSD = (if gs_estimate_usd c = 0
            then catalogHourlyUSD (gs_location c) (gs_machine_type c) (gs_accelerator_type c) (gs_accelerator_count c)
            else gs_estimate_usd c)
      in empty_shape\<lparr>sh_id := join ''-'' parts, sh_provider := ''gcp'', sh_region := gs_location c,
           sh_machine_type := gs_machine_type c, sh_accelerator_type := gs_accelerator_type c,
           sh_accelerator_count := gs_accelerator_count c, sh_gpu_family := firstGPUFamily (gs_accelerator_type c),
           sh_vram_per_gpu := vramPerGPU, sh_total_vram := vramPerGPU * gs_accelerator_count c,
           sh_on_demand_usd := hourlyUSD, sh_supports_on_demand := True, sh_availability_hint := ''configured'',
           sh_availability_reason := ''configured from gcp.machine_type and gcp.accelerator_type''\<rparr>)"

section \<open>Prices\<close>

definition containsAll :: "string \<Rightarrow> string list \<Rightarrow> bool" where
  "containsAll v needles \<longleftrightarrow> list_all (\<lambda>n. n = [] \<or> sublist (normalizeDescription n) v) needles"

definition onDemandSKU :: "string \<Rightarrow> bool" where
  "onDemandSKU description \<longleftrightarrow> list_all (\<lambda>w. \<not> sublist w description)
     [''preemptible'', ''spot'', ''commitment'', ''committed'', ''sole tenancy'', ''license'']"

definition skuAppliesToRegion :: "sku \<Rightarrow> string \<Rightarrow> bool" where
  "skuAppliesToRegion s region \<longleftrightarrow> sku_regions s = []
     \<or> list_ex (\<lambda>r. r = region \<or> r = regionGroup region) (sku_regions s)"

fun first_usd :: "(string \<times> int \<times> int) option list \<Rightarrow> rat" where
  "first_usd [] = 0"
| "first_usd (None # ts) = first_usd ts"
| "first_usd (Some (currency, units, nanos) # ts) =
     (if currency \<noteq> ''USD'' then first_usd ts else of_int units + of_int nanos / 1000000000)"

definition skuHourlyPriceUSD :: "sku \<Rightarrow> rat" where
  "skuHourlyPriceUSD s =
     (if sku_pricing s = [] then 0
      else (case last (sku_pricing s) of None \<Rightarrow> 0
        | Some p \<Rightarrow> if pr_unit p \<noteq> [] \<and> \<not> equal_fold (pr_unit p) ''h'' then 0 else first_usd (pr_tiers p)))"

definition sku_matches :: "string \<Rightarrow> (string \<Rightarrow> bool) \<Rightarrow> sku \<Rightarrow> bool" where
  "sku_matches region match s \<longleftrightarrow> skuAppliesToRegion s region \<and> match (normalizeDescription (sku_description s))
     \<and> skuHourlyPriceUSD s > 0"

definition firstSKUPrice :: "sku list \<Rightarrow> string \<Rightarrow> (string \<Rightarrow> bool) \<Rightarrow> rat" where
  "firstSKUPrice skus region match = (case find (sku_matches region match) skus of
      Some s \<Rightarrow> skuHourlyPriceUSD s | None \<Rightarrow> 0)"

definition on_demand_price :: "sku list \<Rightarrow> string \<Rightarrow> string list \<Rightarrow> rat" where
  "on_demand_price skus region needles = firstSKUPrice skus region (\<lambda>d. containsAll d needles \<and> onDemandSKU d)"

definition machine_price :: "sku list \<Rightarrow> hardware_shape \<Rightarrow> machine_type \<Rightarrow> rat" where
  "machine_price skus shape m =
     (let family = machineFamily (sh_machine_type shape);
          corePrice = on_demand_price skus (sh_region shape) [family, ''core''];
          ramPrice = on_demand_price skus (sh_region shape) [family, ''ram'']
      in (if corePrice > 0 then of_int (mt_cpus m) * corePrice else 0)
         + (if ramPrice > 0 then of_int (mt_memory_mb m) / 1024 * ramPrice else 0))"

definition accelerator_price :: "sku list \<Rightarrow> hardware_shape \<Rightarrow> rat" where
  "accelerator_price skus shape =
     (if sh_accelerator_type shape \<noteq> [] \<and> sh_accelerator_count shape > 0
      then let gpuPrice = on_demand_price skus (sh_region shape) [acceleratorPriceToken (sh_accelerator_type shape), ''gpu'']
        in if gpuPrice > 0 then of_int (sh_accelerator_count shape) * gpuPrice else 0
      else 0)"

definition priceFromSKUs :: "sku list \<Rightarrow> hardware_shape \<Rightarrow> machine_type option \<Rightarrow> rat" where
  "priceFromSKUs skus shape machineType =
     (if skus = [] then 0
      else (case machineType of None \<Rightarrow> 0 | Some m \<Rightarrow> machine_price skus shape m) + accelerator_price skus shape)"

section \<open>The inventory\<close>

record snapshot =
  sn_skus :: "sku list"
  sn_machines :: "machine_type smap"
  sn_machine_zones :: "string list smap"
  sn_accelerator_zones :: "string list smap"
  sn_accelerator_max :: "int smap"
  sn_quotas :: "quota smap"
  sn_errors :: "string list"

definition empty_snapshot :: snapshot where
  "empty_snapshot = \<lparr>sn_skus = [], sn_machines = [], sn_machine_zones = [], sn_accelerator_zones = [],
     sn_accelerator_max = [], sn_quotas = [], sn_errors = []\<rparr>"

definition failed_call :: "string \<Rightarrow> gerror \<Rightarrow> snapshot \<Rightarrow> snapshot" where
  "failed_call what e sn = sn\<lparr>sn_errors := sn_errors sn @ [what @ error_string e]\<rparr>"

definition add_zone :: "string \<Rightarrow> string \<Rightarrow> string list smap \<Rightarrow> string list smap" where
  "add_zone name zone m = AList.update name (appendUnique (lookup_default [] m name) (zoneName zone)) m"

definition add_machine :: "string \<Rightarrow> snapshot \<Rightarrow> machine_type \<Rightarrow> snapshot" where
  "add_machine region sn m =
     (if \<not> zoneInRegion (mt_zone m) region then sn
      else sn\<lparr>sn_machines := AList.update (mt_name m) m (sn_machines sn),
              sn_machine_zones := add_zone (mt_name m) (mt_zone m) (sn_machine_zones sn)\<rparr>)"

definition add_accelerator :: "string \<Rightarrow> snapshot \<Rightarrow> accelerator_type \<Rightarrow> snapshot" where
  "add_accelerator region sn a =
     (if \<not> zoneInRegion (at_zone a) region then sn
      else let name = normalizeAcceleratorName (at_name a) in
        sn\<lparr>sn_accelerator_zones := add_zone name (at_zone a) (sn_accelerator_zones sn),
           sn_accelerator_max := (if at_max_cards a > lookup_default 0 (sn_accelerator_max sn) name
             then AList.update name (at_max_cards a) (sn_accelerator_max sn) else sn_accelerator_max sn)\<rparr>)"

definition add_quota :: "snapshot \<Rightarrow> quota \<Rightarrow> snapshot" where
  "add_quota sn q = (if qu_metric q = [] then sn else sn\<lparr>sn_quotas := AList.update (qu_metric q) q (sn_quotas sn)\<rparr>)"

definition sortSnapshot :: "snapshot \<Rightarrow> snapshot" where
  "sortSnapshot sn = sn\<lparr>sn_machine_zones := map (\<lambda>(k, zs). (k, sort_strings zs)) (sn_machine_zones sn),
     sn_accelerator_zones := map (\<lambda>(k, zs). (k, sort_strings zs)) (sn_accelerator_zones sn)\<rparr>"

definition inventorySnapshot :: "gcp_settings \<Rightarrow> inventory \<Rightarrow> snapshot" where
  "inventorySnapshot c iv =
     (case iv_client iv of
        Some e \<Rightarrow> empty_snapshot\<lparr>sn_errors := [error_string e]\<rparr>
      | None \<Rightarrow>
          (let sn = (case iv_skus iv of Inr skus \<Rightarrow> empty_snapshot\<lparr>sn_skus := skus\<rparr>
                 | Inl e \<Rightarrow> failed_call ''pricing unavailable: '' e empty_snapshot)
           in if gs_project c = [] then sn
              else let sn = (case iv_machines iv of Inr ms \<Rightarrow> foldl (add_machine (gs_location c)) sn ms
                         | Inl e \<Rightarrow> failed_call ''machine inventory unavailable: '' e sn);
                       sn = (case iv_accelerators iv of Inr as \<Rightarrow> foldl (add_accelerator (gs_location c)) sn as
                         | Inl e \<Rightarrow> failed_call ''accelerator inventory unavailable: '' e sn);
                       sn = (case iv_quotas iv of Inr qs \<Rightarrow> foldl add_quota sn qs
                         | Inl e \<Rightarrow> failed_call ''region quota unavailable: '' e sn)
                in sortSnapshot sn))"

definition applyQuota :: "hardware_shape \<Rightarrow> snapshot \<Rightarrow> string \<Rightarrow> rat \<Rightarrow> hardware_shape" where
  "applyQuota shape0 sn metric required =
     (if metric = [] then shape0
      else let shape = shape0\<lparr>sh_quota_metric := metric\<rparr> in
        case map_of (sn_quotas sn) metric of
          None \<Rightarrow>
            if sn_quotas sn \<noteq> [] \<and> sh_availability_hint shape = []
            then shape\<lparr>sh_availability_hint := ''unknown_quota'', sh_availability_reason :=
              ''regional quota '' @ quote metric @ '' was not present in Compute Engine quota response''\<rparr>
            else shape
        | Some q \<Rightarrow>
            let shape = shape\<lparr>sh_quota_limit := qu_limit q, sh_quota_usage := qu_usage q,
                  sh_quota_available := qu_limit q - qu_usage q\<rparr>
            in if qu_limit q > 0 \<and> sh_quota_available shape < required
               then shape\<lparr>sh_availability_hint := ''no_quota'', sh_availability_reason :=
                 ''regional quota '' @ quote metric @ '' has '' @ fmt_fixed 0 (sh_quota_available shape)
                   @ '' available, requires '' @ fmt_fixed 0 required\<rparr>
               else shape)"

definition unavailable :: "string \<Rightarrow> hardware_shape \<Rightarrow> hardware_shape" where
  "unavailable why shape = shape\<lparr>sh_availability_hint := ''unavailable'', sh_availability_reason := why\<rparr>"

text \<open>The end of \<open>applyLiveAvailability\<close>: the common zones, and the hint that the shape is listed.\<close>

definition listed_in :: "string list \<Rightarrow> hardware_shape \<Rightarrow> hardware_shape" where
  "listed_in zones shape0 =
     (let shape = (if zones \<noteq> [] then shape0\<lparr>sh_zones := sort_strings zones\<rparr> else shape0) in
      if sh_availability_hint shape \<in> set [[], ''configured'', ''static_estimate'', ''live_pricing''] \<and> zones \<noteq> []
      then shape\<lparr>sh_availability_hint := ''live_inventory'', sh_availability_reason :=
        ''machine, accelerator, and regional quota facts came from Compute Engine APIs''\<rparr>
      else shape)"

definition common_zones :: "string list \<Rightarrow> string list \<Rightarrow> string list" where
  "common_zones machineZones acceleratorZones =
     (if machineZones \<noteq> [] \<and> acceleratorZones \<noteq> [] then intersectStrings machineZones acceleratorZones
      else if acceleratorZones \<noteq> [] then acceleratorZones else machineZones)"

definition applyLiveAvailability :: "hardware_shape \<Rightarrow> snapshot \<Rightarrow> hardware_shape" where
  "applyLiveAvailability shape sn =
     (if sn_machine_zones sn = [] \<and> sn_accelerator_zones sn = [] \<and> sn_quotas sn = [] then
        (if sn_errors sn \<noteq> [] \<and> sh_availability_reason shape \<noteq> []
         then shape\<lparr>sh_availability_reason := sh_availability_reason shape @ ''; '' @ join ''; '' (sn_errors sn)\<rparr>
         else shape)
      else let machineZones = lookup_default [] (sn_machine_zones sn) (sh_machine_type shape) in
      if sn_machine_zones sn \<noteq> [] \<and> machineZones = [] then
        unavailable (''machine type '' @ quote (sh_machine_type shape) @ '' was not listed in region '' @ quote (sh_region shape)) shape
      else if sh_accelerator_type shape \<noteq> [] \<and> sh_accelerator_count shape > 0 then
        (let name = normalizeAcceleratorName (sh_accelerator_type shape);
             acceleratorZones = lookup_default [] (sn_accelerator_zones sn) name;
             maxCards = lookup_default 0 (sn_accelerator_max sn) name
         in if sn_accelerator_zones sn \<noteq> [] \<and> acceleratorZones = [] then
              unavailable (''accelerator '' @ quote (sh_accelerator_type shape) @ '' was not listed in region ''
                @ quote (sh_region shape)) shape
            else if maxCards > 0 \<and> sh_accelerator_count shape > maxCards then
              unavailable (''accelerator '' @ quote (sh_accelerator_type shape) @ '' supports at most ''
                @ string_of_int maxCards @ '' cards per instance in listed zones'') shape
            else listed_in (common_zones machineZones acceleratorZones)
              (applyQuota shape sn (gpuQuotaMetric (sh_accelerator_type shape)) (of_int (sh_accelerator_count shape))))
      else listed_in machineZones
        (case map_of (sn_machines sn) (sh_machine_type shape) of
           None \<Rightarrow> shape
         | Some m \<Rightarrow> applyQuota shape sn (cpuQuotaMetric (sh_machine_type shape)) (of_int (mt_cpus m))))"

text \<open>The price of one shape, then its availability.\<close>

definition priced_shape :: "snapshot \<Rightarrow> hardware_shape \<Rightarrow> hardware_shape" where
  "priced_shape sn shape =
     (let price = priceFromSKUs (sn_skus sn) shape (map_of (sn_machines sn) (sh_machine_type shape)) in
      if price > 0 then
        (let shape = shape\<lparr>sh_on_demand_usd := price\<rparr> in
         if sh_availability_hint shape = ''static_estimate''
         then shape\<lparr>sh_availability_hint := ''live_pricing'', sh_availability_reason :=
           ''price from Cloud Billing Catalog API; regional capacity still estimated''\<rparr>
         else shape)
      else shape)"

definition enrichHardwareShapes :: "gcp_settings \<Rightarrow> inventory \<Rightarrow> hardware_shape list \<Rightarrow> hardware_shape list" where
  "enrichHardwareShapes c iv shapes =
     (let sn = inventorySnapshot c iv in map (\<lambda>s. applyLiveAvailability (priced_shape sn s) sn) shapes)"

fun add_unseen :: "string list \<Rightarrow> hardware_shape list \<Rightarrow> hardware_shape list" where
  "add_unseen seen [] = []"
| "add_unseen seen (s # ss) =
     (if sh_id s \<in> set seen then add_unseen seen ss else s # add_unseen (sh_id s # seen) ss)"

definition gcp_shapes :: "gcp_settings \<Rightarrow> inventory \<Rightarrow> hardware_shape list" where
  "gcp_shapes c iv =
     (let configured = gcp_configured_shape c in
      enrichHardwareShapes c iv (configured # add_unseen [sh_id configured] (catalogHardwareShapes (gs_location c))))"

definition estimateHourlyUSD :: "gcp_settings \<Rightarrow> inventory \<Rightarrow> rat" where
  "estimateHourlyUSD c iv =
     (let shape = empty_shape\<lparr>sh_region := gs_location c, sh_machine_type := gs_machine_type c,
            sh_accelerator_type := gs_accelerator_type c, sh_accelerator_count := gs_accelerator_count c\<rparr>;
          sn = inventorySnapshot c iv;
          price = priceFromSKUs (sn_skus sn) shape (map_of (sn_machines sn) (gs_machine_type c))
      in if price > 0 then price
         else catalogHourlyUSD (gs_location c) (gs_machine_type c) (gs_accelerator_type c) (gs_accelerator_count c))"

fun unseen_families :: "string list \<Rightarrow> hardware_shape list \<Rightarrow> string list" where
  "unseen_families seen [] = []"
| "unseen_families seen (s # ss) =
     (if sh_gpu_family s = [] \<or> sh_gpu_family s \<in> set seen then unseen_families seen ss
      else sh_gpu_family s # unseen_families (sh_gpu_family s # seen) ss)"

section \<open>What a listed shape means\<close>

text \<open>What the services list: a machine or an accelerator in a zone of the region, and the last quota
  of a metric.\<close>

definition machine_listed :: "machine_type list \<Rightarrow> string \<Rightarrow> string \<Rightarrow> string \<Rightarrow> bool" where
  "machine_listed ms region name z \<longleftrightarrow>
     list_ex (\<lambda>m. mt_name m = name \<and> zoneInRegion (mt_zone m) region \<and> zoneName (mt_zone m) = z) ms"

definition accelerator_listed :: "accelerator_type list \<Rightarrow> string \<Rightarrow> string \<Rightarrow> string \<Rightarrow> bool" where
  "accelerator_listed as region name z \<longleftrightarrow>
     list_ex (\<lambda>a. normalizeAcceleratorName (at_name a) = normalizeAcceleratorName name
       \<and> zoneInRegion (at_zone a) region \<and> zoneName (at_zone a) = z) as"

definition quota_of :: "quota list \<Rightarrow> string \<Rightarrow> quota option" where
  "quota_of qs metric = (if metric = [] then None else find (\<lambda>q. qu_metric q = metric) (rev qs))"

lemma set_appendUnique: "set (appendUnique vs v) = set vs \<union> {u. u = v \<and> v \<noteq> []}"
  by (auto simp: appendUnique_def)

lemma set_intersect: "z \<in> set (intersectStrings a b) \<Longrightarrow> z \<in> set a \<inter> set b"
proof -
  have "set (foldl appendUnique vs us) \<subseteq> set vs \<union> set us" for vs us
    by (induction us arbitrary: vs) (force simp: set_appendUnique)+
  from this [of "[]" "filter (\<lambda>v. v \<in> set a) b"] show "z \<in> set (intersectStrings a b) \<Longrightarrow> z \<in> set a \<inter> set b"
    by (auto simp: intersectStrings_def)
qed

lemma lookup_Nil [simp]: "lookup_default d [] k = d"
  by (simp add: lookup_default_def)

lemma lookup_add_zone:
  "lookup_default [] (add_zone name zone m) k =
     (if k = name then appendUnique (lookup_default [] m name) (zoneName zone) else lookup_default [] m k)"
  by (simp add: add_zone_def lookup_default_def update_conv')

lemma machines_fold:
  "z \<in> set (lookup_default [] (sn_machine_zones (foldl (add_machine region) sn ms)) name) \<longleftrightarrow>
    z \<in> set (lookup_default [] (sn_machine_zones sn) name) \<or> machine_listed ms region name z \<and> z \<noteq> []"
  by (induction ms arbitrary: sn)
    (auto simp: machine_listed_def add_machine_def lookup_add_zone set_appendUnique)

lemma accelerators_fold:
  "z \<in> set (lookup_default [] (sn_accelerator_zones (foldl (add_accelerator region) sn as)) (normalizeAcceleratorName name)) \<longleftrightarrow>
    z \<in> set (lookup_default [] (sn_accelerator_zones sn) (normalizeAcceleratorName name))
    \<or> accelerator_listed as region name z \<and> z \<noteq> []"
  by (induction as arbitrary: sn)
    (auto simp: accelerator_listed_def add_accelerator_def Let_def lookup_add_zone set_appendUnique)

lemma update_nonempty [simp]: "AList.update k v m \<noteq> []"
  by (cases m) auto

lemma machines_some:
  "sn_machine_zones (foldl (add_machine region) sn ms) = [] \<longleftrightarrow>
    sn_machine_zones sn = [] \<and> \<not> list_ex (\<lambda>m. zoneInRegion (mt_zone m) region) ms"
  by (induction ms arbitrary: sn) (auto simp: add_machine_def add_zone_def)

lemma accelerators_some:
  "sn_accelerator_zones (foldl (add_accelerator region) sn as) = [] \<longleftrightarrow>
    sn_accelerator_zones sn = [] \<and> \<not> list_ex (\<lambda>a. zoneInRegion (at_zone a) region) as"
  by (induction as arbitrary: sn) (auto simp: add_accelerator_def Let_def add_zone_def)

lemma quotas_fold:
  "map_of (sn_quotas (foldl add_quota sn qs)) metric =
    (case quota_of qs metric of Some q \<Rightarrow> Some q | None \<Rightarrow> map_of (sn_quotas sn) metric)"
proof (induction qs rule: rev_induct)
  case Nil
  show ?case by (simp add: quota_of_def)
next
  case (snoc q qs)
  then show ?case by (auto simp: add_quota_def quota_of_def update_conv' split: option.splits)
qed

lemma fold_frames [simp]:
  "sn_accelerator_zones (foldl (add_machine region) sn ms) = sn_accelerator_zones sn"
  "sn_quotas (foldl (add_machine region) sn ms) = sn_quotas sn"
  "sn_machine_zones (foldl (add_accelerator region) sn as) = sn_machine_zones sn"
  "sn_quotas (foldl (add_accelerator region) sn as) = sn_quotas sn"
  "sn_machine_zones (foldl add_quota sn qs) = sn_machine_zones sn"
  "sn_accelerator_zones (foldl add_quota sn qs) = sn_accelerator_zones sn"
proof -
  show "sn_accelerator_zones (foldl (add_machine region) sn ms) = sn_accelerator_zones sn"
    and "sn_quotas (foldl (add_machine region) sn ms) = sn_quotas sn"
    by (induction ms arbitrary: sn) (simp_all add: add_machine_def)
  show "sn_machine_zones (foldl (add_accelerator region) sn as) = sn_machine_zones sn"
    and "sn_quotas (foldl (add_accelerator region) sn as) = sn_quotas sn"
    by (induction as arbitrary: sn) (simp_all add: add_accelerator_def Let_def)
  show "sn_machine_zones (foldl add_quota sn qs) = sn_machine_zones sn"
    and "sn_accelerator_zones (foldl add_quota sn qs) = sn_accelerator_zones sn"
    by (induction qs arbitrary: sn) (simp_all add: add_quota_def)
qed

lemma lookup_sorted: "lookup_default [] (map (\<lambda>(k, zs). (k, sort_strings zs)) m) k = sort_strings (lookup_default [] m k)"
  by (induction m) (auto simp: lookup_default_def sort_strings_def)

lemma snapshot_frames [simp]:
  "sn_machine_zones (failed_call s e sn) = sn_machine_zones sn"
  "sn_accelerator_zones (failed_call s e sn) = sn_accelerator_zones sn" "sn_quotas (failed_call s e sn) = sn_quotas sn"
  "sn_machine_zones empty_snapshot = []" "sn_accelerator_zones empty_snapshot = []" "sn_quotas empty_snapshot = []"
  by (simp_all add: failed_call_def empty_snapshot_def)

text \<open>The snapshot says what the services list, when the project is named and the calls succeed.\<close>

lemma snapshot_lists:
  assumes "iv_client iv = None" "gs_project c \<noteq> []" "iv_machines iv = Inr ms" "iv_accelerators iv = Inr as"
    and "iv_quotas iv = Inr qs"
  shows "z \<in> set (lookup_default [] (sn_machine_zones (inventorySnapshot c iv)) name)
      \<longleftrightarrow> machine_listed ms (gs_location c) name z \<and> z \<noteq> []"
    and "z \<in> set (lookup_default [] (sn_accelerator_zones (inventorySnapshot c iv)) (normalizeAcceleratorName acc))
      \<longleftrightarrow> accelerator_listed as (gs_location c) acc z \<and> z \<noteq> []"
    and "sn_machine_zones (inventorySnapshot c iv) = [] \<longleftrightarrow> \<not> list_ex (\<lambda>m. zoneInRegion (mt_zone m) (gs_location c)) ms"
    and "sn_accelerator_zones (inventorySnapshot c iv) = [] \<longleftrightarrow> \<not> list_ex (\<lambda>a. zoneInRegion (at_zone a) (gs_location c)) as"
    and "map_of (sn_quotas (inventorySnapshot c iv)) metric = quota_of qs metric"
proof -
  define sn0 where "sn0 = (case iv_skus iv of Inr skus \<Rightarrow> empty_snapshot\<lparr>sn_skus := skus\<rparr>
      | Inl e \<Rightarrow> failed_call ''pricing unavailable: '' e empty_snapshot)"
  have sn: "inventorySnapshot c iv = sortSnapshot (foldl add_quota (foldl (add_accelerator (gs_location c))
      (foldl (add_machine (gs_location c)) sn0 ms) as) qs)"
    using assms by (simp add: inventorySnapshot_def Let_def sn0_def)
  have none [simp]: "sn_machine_zones sn0 = []" "sn_accelerator_zones sn0 = []" "sn_quotas sn0 = []"
    by (simp_all add: sn0_def split: sum.split)
  show "z \<in> set (lookup_default [] (sn_machine_zones (inventorySnapshot c iv)) name)
      \<longleftrightarrow> machine_listed ms (gs_location c) name z \<and> z \<noteq> []"
    and "z \<in> set (lookup_default [] (sn_accelerator_zones (inventorySnapshot c iv)) (normalizeAcceleratorName acc))
      \<longleftrightarrow> accelerator_listed as (gs_location c) acc z \<and> z \<noteq> []"
    and "sn_machine_zones (inventorySnapshot c iv) = [] \<longleftrightarrow> \<not> list_ex (\<lambda>m. zoneInRegion (mt_zone m) (gs_location c)) ms"
    and "sn_accelerator_zones (inventorySnapshot c iv) = [] \<longleftrightarrow> \<not> list_ex (\<lambda>a. zoneInRegion (at_zone a) (gs_location c)) as"
    and "map_of (sn_quotas (inventorySnapshot c iv)) metric = quota_of qs metric"
    by (simp_all add: sn sortSnapshot_def lookup_sorted machines_fold accelerators_fold machines_some accelerators_some
        quotas_fold split: option.split)
qed

definition accelerated :: "hardware_shape \<Rightarrow> bool" where
  "accelerated s \<longleftrightarrow> sh_accelerator_type s \<noteq> [] \<and> sh_accelerator_count s > 0"

text \<open>A quota that a shape needs: the code takes a limit that is not positive for no limit.\<close>

definition quota_allows :: "quota option \<Rightarrow> rat \<Rightarrow> bool" where
  "quota_allows q required = (case q of
      None \<Rightarrow> True | Some q \<Rightarrow> qu_limit q \<le> 0 \<or> required \<le> qu_limit q - qu_usage q)"

lemma quota_hint:
  assumes "sh_availability_hint (applyQuota s sn metric required) \<notin> {''no_quota'', ''unknown_quota''}"
  shows "sh_availability_hint (applyQuota s sn metric required) = sh_availability_hint s"
    and "metric \<noteq> [] \<Longrightarrow> quota_allows (map_of (sn_quotas sn) metric) required"
  using assms by (auto simp: applyQuota_def quota_allows_def Let_def split: option.splits if_splits)

lemma quota_unlisted: "sh_availability_hint s \<noteq> ''live_inventory'' \<Longrightarrow>
    sh_availability_hint (applyQuota s sn metric required) \<noteq> ''live_inventory''"
  by (simp add: applyQuota_def Let_def split: option.split)

lemma listed_hint:
  assumes "sh_availability_hint (listed_in zones s) = ''live_inventory''" "sh_availability_hint s \<noteq> ''live_inventory''"
  shows "zones \<noteq> []" "sh_zones (listed_in zones s) = sort_strings zones"
    "sh_availability_hint s \<notin> {''no_quota'', ''unknown_quota''}"
  using assms by (auto simp: listed_in_def Let_def split: if_splits)

lemma shape_steps [simp]:
  "sh_machine_type (unavailable why s) = sh_machine_type s" "sh_machine_type (listed_in zones s) = sh_machine_type s"
  "sh_machine_type (applyQuota s sn m r) = sh_machine_type s"
  "sh_accelerator_type (unavailable why s) = sh_accelerator_type s"
  "sh_accelerator_type (listed_in zones s) = sh_accelerator_type s"
  "sh_accelerator_type (applyQuota s sn m r) = sh_accelerator_type s"
  "sh_accelerator_count (unavailable why s) = sh_accelerator_count s"
  "sh_accelerator_count (listed_in zones s) = sh_accelerator_count s"
  "sh_accelerator_count (applyQuota s sn m r) = sh_accelerator_count s"
  "sh_region (unavailable why s) = sh_region s" "sh_region (listed_in zones s) = sh_region s"
  "sh_region (applyQuota s sn m r) = sh_region s"
  by (simp_all add: unavailable_def listed_in_def applyQuota_def Let_def split: option.split)

lemma live_keeps:
  "sh_machine_type (applyLiveAvailability s sn) = sh_machine_type s"
  "sh_accelerator_type (applyLiveAvailability s sn) = sh_accelerator_type s"
  "sh_accelerator_count (applyLiveAvailability s sn) = sh_accelerator_count s"
  "sh_region (applyLiveAvailability s sn) = sh_region s"
  by (simp_all add: applyLiveAvailability_def Let_def split: option.split)

lemma priced_keeps:
  "sh_machine_type (priced_shape sn s) = sh_machine_type s"
  "sh_accelerator_type (priced_shape sn s) = sh_accelerator_type s"
  "sh_accelerator_count (priced_shape sn s) = sh_accelerator_count s"
  "sh_region (priced_shape sn s) = sh_region s"
  by (simp_all add: priced_shape_def Let_def)

lemma set_add_unseen: "set (add_unseen seen ss) \<subseteq> set ss"
  by (induction seen ss rule: add_unseen.induct) auto

lemma gcp_shape_from:
  assumes "sh \<in> set (gcp_shapes c iv)"
  obtains s where "s \<in> set (gcp_configured_shape c # catalogHardwareShapes (gs_location c))"
    and "sh = applyLiveAvailability (priced_shape (inventorySnapshot c iv) s) (inventorySnapshot c iv)"
  using assms set_add_unseen by (fastforce simp: gcp_shapes_def enrichHardwareShapes_def Let_def)

lemma unlisted_hint: "s \<in> set (gcp_configured_shape c # catalogHardwareShapes region) \<Longrightarrow>
    sh_availability_hint (priced_shape sn s) \<noteq> ''live_inventory''"
  by (auto simp: priced_shape_def Let_def gcp_configured_shape_def catalogHardwareShapes_def catalogShape_def)

lemma live_inventory_cases:
  fixes sn defines "mz s \<equiv> lookup_default [] (sn_machine_zones sn) (sh_machine_type s)"
    and "az s \<equiv> lookup_default [] (sn_accelerator_zones sn) (normalizeAcceleratorName (sh_accelerator_type s))"
  assumes live: "sh_availability_hint (applyLiveAvailability s sn) = ''live_inventory''"
    and before: "sh_availability_hint s \<noteq> ''live_inventory''"
    and listed: "sn_machine_zones sn \<noteq> []" "sn_accelerator_zones sn \<noteq> []"
  shows "mz s \<noteq> []"
    and "accelerated s \<Longrightarrow> az s \<noteq> [] \<and> intersectStrings (mz s) (az s) \<noteq> []
      \<and> sh_zones (applyLiveAvailability s sn) = sort_strings (intersectStrings (mz s) (az s))
      \<and> (gpuQuotaMetric (sh_accelerator_type s) \<noteq> [] \<longrightarrow>
          quota_allows (map_of (sn_quotas sn) (gpuQuotaMetric (sh_accelerator_type s))) (of_int (sh_accelerator_count s)))"
    and "\<not> accelerated s \<Longrightarrow> sh_zones (applyLiveAvailability s sn) = sort_strings (mz s)"
proof -
  have un: "sh_availability_hint (unavailable why s) \<noteq> ''live_inventory''" for why by (simp add: unavailable_def)
  show mz: "mz s \<noteq> []"
    using live un listed by (cases "mz s = []") (simp_all add: applyLiveAvailability_def mz_def Let_def)
  show "az s \<noteq> [] \<and> intersectStrings (mz s) (az s) \<noteq> []
      \<and> sh_zones (applyLiveAvailability s sn) = sort_strings (intersectStrings (mz s) (az s))
      \<and> (gpuQuotaMetric (sh_accelerator_type s) \<noteq> [] \<longrightarrow>
          quota_allows (map_of (sn_quotas sn) (gpuQuotaMetric (sh_accelerator_type s))) (of_int (sh_accelerator_count s)))"
    if "accelerated s"
  proof -
    let ?q = "applyQuota s sn (gpuQuotaMetric (sh_accelerator_type s)) (of_int (sh_accelerator_count s))"
    have az: "az s \<noteq> []" using live un that mz listed
      by (cases "az s = []") (simp_all add: applyLiveAvailability_def accelerated_def mz_def az_def Let_def)
    let ?cards = "lookup_default 0 (sn_accelerator_max sn) (normalizeAcceleratorName (sh_accelerator_type s))"
    consider "0 < ?cards" "?cards < sh_accelerator_count s" | "?cards \<le> 0" | "sh_accelerator_count s \<le> ?cards" by linarith
    then have eq: "applyLiveAvailability s sn = listed_in (intersectStrings (mz s) (az s)) ?q"
      using live un that mz listed az
      by cases (simp_all add: applyLiveAvailability_def accelerated_def mz_def az_def Let_def common_zones_def)
    have "sh_availability_hint ?q \<noteq> ''live_inventory''" by (rule quota_unlisted [OF before])
    from listed_hint [OF live [unfolded eq] this] quota_hint(2) [of s sn "gpuQuotaMetric (sh_accelerator_type s)"]
    show ?thesis using az eq by simp
  qed
  show "sh_zones (applyLiveAvailability s sn) = sort_strings (mz s)" if plain: "\<not> accelerated s"
  proof -
    let ?q = "case map_of (sn_machines sn) (sh_machine_type s) of None \<Rightarrow> s
      | Some m \<Rightarrow> applyQuota s sn (cpuQuotaMetric (sh_machine_type s)) (of_int (mt_cpus m))"
    consider "sh_accelerator_type s = []" | "sh_accelerator_count s \<le> 0" using plain by (auto simp: accelerated_def)
    then have eq: "applyLiveAvailability s sn = listed_in (mz s) ?q"
      using mz listed by cases (simp_all add: applyLiveAvailability_def mz_def Let_def)
    have "sh_availability_hint ?q \<noteq> ''live_inventory''"
      using before quota_unlisted [OF before] by (simp split: option.split)
    from listed_hint(2) [OF live [unfolded eq] this] eq show ?thesis by simp
  qed
qed


definition sample_gcp_config :: gcp_settings where
  "sample_gcp_config = gcp_defaults \<lparr>gs_project = ''p'', gs_location = [], gs_output_prefix = ''gs://b'',
     gs_machine_type = [], gs_accelerator_type = ''NVIDIA_TESLA_T4'', gs_accelerator_count = 1, gs_boot_disk_type = [],
     gs_boot_disk_gb = 0, gs_service_account = [], gs_network = [], gs_poll_interval = 0,
     gs_estimate_usd = 0, gs_repository = []\<rparr>"

text \<open>A region with one zone, whose quota of T4 accelerators has the limit zero.\<close>

definition sample_inventory :: inventory where
  "sample_inventory = \<lparr>iv_client = None, iv_skus = Inr [],
     iv_machines = Inr [\<lparr>mt_name = ''n1-standard-4'', mt_zone = ''zones/us-central1-a'', mt_cpus = 4, mt_memory_mb = 15360\<rparr>],
     iv_accelerators = Inr [\<lparr>at_name = ''nvidia-tesla-t4'', at_zone = ''zones/us-central1-a'', at_max_cards = 4\<rparr>],
     iv_quotas = Inr [\<lparr>qu_metric = ''NVIDIA_T4_GPUS'', qu_limit = 0, qu_usage = 0\<rparr>]\<rparr>"

lemma sample_live:
  "sh_availability_hint (applyLiveAvailability
      (priced_shape (inventorySnapshot sample_gcp_config sample_inventory) (gcp_configured_shape sample_gcp_config))
      (inventorySnapshot sample_gcp_config sample_inventory)) = ''live_inventory''"
  by code_simp

lemma sample_region: "zoneInRegion ''zones/us-central1-a'' (gs_location sample_gcp_config)"
  by code_simp


end
