(* ===== verification/Gcp.thy ===== *)
theory Gcp
  imports GcpHardware Events Redact Submitting Routing
begin

text \<open>
  The provider of Google Cloud, \<open>provider/gcp/gcp.go\<close>: the request for a custom job, the loop that
  follows it, its logs, and the calls for status and cancellation. The answers of the services are
  data of a session, as for Lambda: a call is a field, a turn of the loop is a record, and the error
  of the sleep ends the loop when no further turn follows.
\<close>

section \<open>The services\<close>

text \<open>The codes of gRPC that the code names, and any other one.\<close>

datatype grpc_code = CodeOK | CodeUnauthenticated | CodePermissionDenied | CodeResourceExhausted
  | CodeUnavailable | CodeInvalidArgument | CodeFailedPrecondition | CodeNotFound
  | CodeDeadlineExceeded | CodeInternal | CodeOther

text \<open>An error of a client and its \<open>status.Code\<close>.\<close>

type_synonym grpc_error = "grpc_code \<times> gerror"

datatype job_state = JobSucceeded | JobPartiallySucceeded | JobFailed | JobExpired | JobCancelled | JobOther

record custom_job =
  cj_state :: job_state
  cj_state_text :: string
  cj_error :: "(grpc_code \<times> string) option"

text \<open>An entry of the log and the time at which it is taken over. A JSON payload is an object; of
  a payload of the protocol there is the text.\<close>

record log_entry =
  le_insert_id :: string
  le_timestamp :: gotime
  le_text :: string
  le_json :: "(string \<times> json) list option"
  le_proto :: "string option"
  le_read_at :: gotime

record log_query =
  lq_resources :: "string list"
  lq_filter :: string
  lq_order :: string
  lq_page_size :: int

record create_request =
  cr_parent :: string
  cr_display_name :: string
  cr_labels :: "string smap"
  cr_machine_type :: string
  cr_accelerator :: string
  cr_accelerator_count :: int
  cr_replicas :: int
  cr_disk_type :: string
  cr_disk_gb :: int
  cr_image :: string
  cr_command :: "string list"
  cr_args :: "string list"
  cr_env :: "(string \<times> string) list"
  cr_output_prefix :: string
  cr_service_account :: string
  cr_network :: string

text \<open>One turn of the loop: what the log holds, the job, and the log once more when it succeeded.\<close>

record gcp_poll =
  gp_logs :: "log_query \<Rightarrow> grpc_error + log_entry list"
  gp_job :: "string \<Rightarrow> grpc_error + custom_job"
  gp_last_logs :: "log_query \<Rightarrow> grpc_error + log_entry list"

record gcp_session =
  gn_environ :: "string list"
  gn_open_logs :: "gerror option"
  gn_open_events :: "gerror option"
  gn_connected :: bool
  gn_connect :: "string \<Rightarrow> string \<Rightarrow> grpc_error option"
  gn_auth :: "string \<Rightarrow> grpc_error option"
  gn_inventory :: inventory
  gn_create :: "create_request \<Rightarrow> grpc_error + string"
  gn_get :: "string \<Rightarrow> grpc_error + custom_job"
  gn_cancel :: "string \<Rightarrow> grpc_error option"
  gn_poll :: gcp_poll
  gn_poll_more :: "gcp_poll list"
  gn_poll_sleep :: gerror
  gn_time_created :: gotime
  gn_time_final :: gotime

section \<open>Errors and states\<close>

fun providerErrorKindForCode :: "grpc_code \<Rightarrow> provider_error_kind" where
  "providerErrorKindForCode CodeUnauthenticated = ErrAuth"
| "providerErrorKindForCode CodePermissionDenied = ErrAuth"
| "providerErrorKindForCode CodeResourceExhausted = ErrQuota"
| "providerErrorKindForCode CodeUnavailable = ErrCapacity"
| "providerErrorKindForCode CodeInvalidArgument = ErrInvalidSpec"
| "providerErrorKindForCode CodeFailedPrecondition = ErrInvalidSpec"
| "providerErrorKindForCode CodeNotFound = ErrInvalidSpec"
| "providerErrorKindForCode CodeDeadlineExceeded = ErrNetwork"
| "providerErrorKindForCode CodeInternal = ErrInternal"
| "providerErrorKindForCode _ = ErrUnknown"

definition gcp_error :: "grpc_error \<Rightarrow> gerror" where
  "gcp_error e = ErrProvider (providerErrorKindForCode (fst e)) (error_string (snd e)) (Some (snd e))"

definition gcp_exit_code :: "gerror \<Rightarrow> int" where
  "gcp_exit_code e = (case provider_error_kind_of e of
      ErrInvalidSpec \<Rightarrow> 10 | ErrAuth \<Rightarrow> 10
    | ErrQuota \<Rightarrow> 30 | ErrCapacity \<Rightarrow> 30 | ErrNetwork \<Rightarrow> 30 | _ \<Rightarrow> 1)"

definition jobErrorMessage :: "custom_job \<Rightarrow> string" where
  "jobErrorMessage job = (case cj_error job of
      Some (code, message) \<Rightarrow> if message \<noteq> [] then message
        else ''gcp custom job ended with state '' @ cj_state_text job
    | None \<Rightarrow> ''gcp custom job ended with state '' @ cj_state_text job)"

definition providerErrorFromJob :: "custom_job \<Rightarrow> provider_error_kind \<Rightarrow> gerror" where
  "providerErrorFromJob job fallback =
     ErrProvider (case cj_error job of
         Some (code, message) \<Rightarrow> if code \<noteq> CodeOK then providerErrorKindForCode code else fallback
       | None \<Rightarrow> fallback) (jobErrorMessage job) None"

fun attemptState :: "job_state \<Rightarrow> attempt_state" where
  "attemptState JobSucceeded = AttemptSucceeded"
| "attemptState JobPartiallySucceeded = AttemptSucceeded"
| "attemptState JobFailed = AttemptFailed"
| "attemptState JobExpired = AttemptFailed"
| "attemptState JobCancelled = AttemptCanceled"
| "attemptState JobOther = AttemptRunning"

section \<open>The request\<close>

definition gcp_parent :: "gcp_settings \<Rightarrow> string" where
  "gcp_parent c = ''projects/'' @ gs_project c @ ''/locations/'' @ gs_location c"

definition gcpOutputDir :: "gcp_settings \<Rightarrow> string \<Rightarrow> string" where
  "gcpOutputDir c runID = trim_right (\<lambda>x. x = CHR ''/'') (gs_output_prefix c) @ ''/'' @ runID"

definition gcpRuntimeEnv :: "gcp_settings \<Rightarrow> string \<Rightarrow> string smap" where
  "gcpRuntimeEnv c runID = (let outputDir = gcpOutputDir c runID in
     [(''SWITCHBOARD_GCS_OUTPUT_DIR'', outputDir),
      (''SWITCHBOARD_CHECKPOINT_URI_PREFIX'', outputDir @ ''/checkpoints''),
      (''ORCHESTRATOR_GCS_OUTPUT_DIR'', outputDir),
      (''ORCHESTRATOR_CHECKPOINT_URI_PREFIX'', outputDir @ ''/checkpoints'')])"

text \<open>The table \<open>AcceleratorType_value\<close> of the client library is the parameter \<open>known\<close>; its entries
  stand for themselves.\<close>

definition accelerator_unspecified :: string where
  "accelerator_unspecified = ''ACCELERATOR_TYPE_UNSPECIFIED''"

definition acceleratorTypeValue :: "(string \<Rightarrow> bool) \<Rightarrow> string \<Rightarrow> string \<times> bool" where
  "acceleratorTypeValue known v =
     (if v = [] then (accelerator_unspecified, True)
      else let key0 = to_upper (replace_char CHR ''-'' CHR ''_'' v);
               key = (if \<not> prefix ''NVIDIA'' key0 \<and> \<not> prefix ''ACCELERATOR'' key0 then ''NVIDIA_'' @ key0 else key0)
           in if known key then (key, True) else (accelerator_unspecified, False))"

definition wrap32 :: "int \<Rightarrow> int" where
  "wrap32 i = (i + 2 ^ 31) mod 2 ^ 32 - 2 ^ 31"

definition workerPoolHardware :: "gcp_settings \<Rightarrow> hardware_selection option \<Rightarrow> string \<times> string \<times> int" where
  "workerPoolHardware c selected = (case selected of
      Some s \<Rightarrow>
        if hs_provider s = ''gcp''
        then (if hs_machine_type s = [] then gs_machine_type c else hs_machine_type s,
              if hs_accelerator_type s = [] then gs_accelerator_type c else hs_accelerator_type s,
              if wrap32 (hs_accelerator_count s) = 0 then gs_accelerator_count c else wrap32 (hs_accelerator_count s))
        else (gs_machine_type c, gs_accelerator_type c, gs_accelerator_count c)
    | None \<Rightarrow> (gs_machine_type c, gs_accelerator_type c, gs_accelerator_count c))"

definition safeDisplayName :: "string \<Rightarrow> string \<Rightarrow> string" where
  "safeDisplayName name runID =
     (let v = trim_space name; v = (if v = [] then runID else v)
      in take 128 (replace_char CHR ''/'' CHR ''-'' v))"

definition labelValue :: "string \<Rightarrow> string" where
  "labelValue v = take 63 (replace_char CHR ''_'' CHR ''-'' (to_lower v))"

definition set_env :: "string smap \<Rightarrow> (string \<times> string) list" where
  "set_env env = filter (\<lambda>(k, v). v \<noteq> []) env"

definition createRequest :: "(string \<Rightarrow> bool) \<Rightarrow> gcp_settings \<Rightarrow> submit_request \<Rightarrow> create_request" where
  "createRequest known c req =
     (case workerPoolHardware c (rq_hardware req) of (machineType, accelerator, cards) \<Rightarrow>
       \<lparr>cr_parent = gcp_parent c,
        cr_display_name = safeDisplayName (job_name (rq_job req)) (rq_run_id req),
        cr_labels = [(''switchboard_run_id'', labelValue (rq_run_id req)),
                     (''switchboard_attempt_id'', labelValue (rq_attempt_id req))],
        cr_machine_type = machineType, cr_accelerator = fst (acceleratorTypeValue known accelerator),
        cr_accelerator_count = cards, cr_replicas = 1, cr_disk_type = gs_boot_disk_type c,
        cr_disk_gb = gs_boot_disk_gb c, cr_image = job_image (rq_job req), cr_command = job_command (rq_job req),
        cr_args = job_args (rq_job req),
        cr_env = set_env (job_env (rq_job req)) @ set_env (rq_env req) @ set_env (gcpRuntimeEnv c (rq_run_id req)),
        cr_output_prefix = gcpOutputDir c (rq_run_id req), cr_service_account = gs_service_account c,
        cr_network = gs_network c\<rparr>)"

section \<open>Logs\<close>

definition logFilter :: "string \<Rightarrow> string" where
  "logFilter ref =
     (let jobID = (case cut_last CHR ''/'' ref of Some (before, rest) \<Rightarrow> rest | None \<Rightarrow> ref)
      in ''resource.type='' @ [CHR 0x22] @ ''ml_job'' @ [CHR 0x22] @ '' AND resource.labels.job_id='' @ [CHR 0x22]
         @ jobID @ [CHR 0x22])"

definition log_request :: "gcp_settings \<Rightarrow> string \<Rightarrow> log_query" where
  "log_request c ref = \<lparr>lq_resources = [''projects/'' @ gs_project c], lq_filter = logFilter ref,
     lq_order = ''timestamp asc'', lq_page_size = 1000\<rparr>"

definition logPayload :: "log_entry \<Rightarrow> string" where
  "logPayload e =
     (if le_text e \<noteq> [] then le_text e
      else (case le_json e of Some m \<Rightarrow> json_print (JObj m)
        | None \<Rightarrow> (case le_proto e of Some s \<Rightarrow> s | None \<Rightarrow> [])))"

definition entry_key :: "log_entry \<Rightarrow> string" where
  "entry_key e = (if le_insert_id e \<noteq> [] then le_insert_id e
     else rfc3339_nano (le_timestamp e) @ '':'' @ logPayload e)"

text \<open>What one new entry appends: its line to the log, and its event when it is one.\<close>

definition entry_text :: "redactor \<Rightarrow> log_entry \<Rightarrow> string" where
  "entry_text red e = (if trim_space (logPayload e) = [] then [] else redact_line red (logPayload e) @ [CHR 0x0A])"

definition entry_events :: "redactor \<Rightarrow> submit_request \<Rightarrow> log_entry \<Rightarrow> event list" where
  "entry_events red req e =
     (if trim_space (logPayload e) = [] then []
      else let parsed = ParseLine (logPayload e) (rq_run_id req) (rq_attempt_id req) (le_read_at e)
        in if pl_structured parsed then [redact_event red (pl_event parsed)] else [])"

fun drain_entries ::
  "redactor \<Rightarrow> submit_request \<Rightarrow> string set \<Rightarrow> log_entry list \<Rightarrow> string set \<times> string \<times> event list" where
  "drain_entries red req seen [] = (seen, [], [])"
| "drain_entries red req seen (e # es) =
     (if entry_key e \<in> seen then drain_entries red req seen es
      else (case drain_entries red req (insert (entry_key e) seen) es of
        (seen', txt, evs) \<Rightarrow> (seen', entry_text red e @ txt, entry_events red req e @ evs)))"

definition drainLogs ::
  "redactor \<Rightarrow> submit_request \<Rightarrow> string set \<Rightarrow> grpc_error + log_entry list \<Rightarrow> string set \<times> string \<times> event list" where
  "drainLogs red req seen answer = (case answer of
      Inl e \<Rightarrow> (seen, redact_string red (''gcp log fetch failed: '' @ error_string (snd e)) @ [CHR 0x0A], [])
    | Inr entries \<Rightarrow> drain_entries red req seen entries)"

section \<open>Submit\<close>

definition gcp_resource ::
  "gcp_settings \<Rightarrow> submit_request \<Rightarrow> string \<Rightarrow> resource_state \<Rightarrow> gotime \<Rightarrow> provider_resource" where
  "gcp_resource c req ref state observedAt =
     \<lparr>res_id = [], res_run_id = rq_run_id req, res_attempt_id = rq_attempt_id req, res_provider = ''gcp'',
      res_kind = KindCustomJob, res_external_id = ref, res_provider_ref = ref, res_region = gs_location c,
      res_project = gs_project c, res_state = state, res_created_by_switchboard = True, res_cleanup = CleanupNever,
      res_metadata = [(''output_uri_prefix'', gcpOutputDir c (rq_run_id req))],
      res_created_at = zero_time, res_updated_at = zero_time, res_observed_at = Some observedAt\<rparr>"

definition gcp_result :: "string \<Rightarrow> int \<Rightarrow> string \<Rightarrow> submit_result" where
  "gcp_result ref code reason = \<lparr>sr_job_ref = ref, sr_exit_code = code, sr_exit_reason = reason\<rparr>"

text \<open>The last notification, and the result when the run loop took it.\<close>

definition settle ::
  "gcp_settings \<Rightarrow> gcp_session \<Rightarrow> submit_request \<Rightarrow> string \<Rightarrow> resource_state \<Rightarrow> submit_result \<Rightarrow> gerror option \<Rightarrow> submit_prog" where
  "settle c ses req ref state r e =
     ResourceSaved (gcp_resource c req ref state (gn_time_final ses)) (\<lambda>answer. case answer of
         Some notifyErr \<Rightarrow> Done (gcp_result ref 1 (error_string notifyErr)) (Some notifyErr)
       | None \<Rightarrow> Done r e)"

definition failed_job :: "gcp_settings \<Rightarrow> gcp_session \<Rightarrow> submit_request \<Rightarrow> redactor \<Rightarrow> string \<Rightarrow> custom_job \<Rightarrow> submit_prog" where
  "failed_job c ses req red ref job =
     (let wrapped = providerErrorFromJob job ErrRuntime in
      settle c ses req ref ResFailed
        (gcp_result ref (gcp_exit_code wrapped) (redact_string red (error_string wrapped))) (Some wrapped))"

definition cancelled_job :: "gcp_settings \<Rightarrow> gcp_session \<Rightarrow> submit_request \<Rightarrow> redactor \<Rightarrow> string \<Rightarrow> custom_job \<Rightarrow> submit_prog" where
  "cancelled_job c ses req red ref job =
     (let reason = (if jobErrorMessage job = [] then ''gcp custom job canceled'' else jobErrorMessage job) in
      settle c ses req ref ResCanceled (gcp_result ref 130 (redact_string red reason))
        (Some (ErrProvider ErrRuntime reason None)))"

definition succeeded_job ::
  "gcp_settings \<Rightarrow> gcp_session \<Rightarrow> submit_request \<Rightarrow> redactor \<Rightarrow> string \<Rightarrow> string set \<Rightarrow> grpc_error + log_entry list \<Rightarrow> submit_prog" where
  "succeeded_job c ses req red ref seen answer =
     (case drainLogs red req seen answer of (seen', txt, evs) \<Rightarrow>
       log_text txt (emit evs (write_log (redact_string red ''gcp custom job completed'')
         (settle c ses req ref ResSucceeded (gcp_result ref 0 ''completed'') None))))"

fun gcp_follow ::
  "gcp_settings \<Rightarrow> gcp_session \<Rightarrow> submit_request \<Rightarrow> redactor \<Rightarrow> string \<Rightarrow> string set \<Rightarrow> gcp_poll list \<Rightarrow> gcp_poll \<Rightarrow> submit_prog" where
  "gcp_follow c ses req red ref seen later po =
     (case drainLogs red req seen (gp_logs po (log_request c ref)) of (seen', txt, evs) \<Rightarrow>
       log_text txt (emit evs
         (case gp_job po ref of
            Inl e \<Rightarrow> Done (gcp_result ref (gcp_exit_code (gcp_error e)) (redact_string red (error_string (gcp_error e))))
              (Some (gcp_error e))
          | Inr job \<Rightarrow>
              (case cj_state job of
                 JobSucceeded \<Rightarrow> succeeded_job c ses req red ref seen' (gp_last_logs po (log_request c ref))
               | JobFailed \<Rightarrow> failed_job c ses req red ref job
               | JobExpired \<Rightarrow> failed_job c ses req red ref job
               | JobCancelled \<Rightarrow> cancelled_job c ses req red ref job
               | _ \<Rightarrow> (case later of
                   [] \<Rightarrow> Done (gcp_result ref 130 ''context canceled'') (Some (gn_poll_sleep ses))
                 | next # later \<Rightarrow> Meanwhile (gcp_follow c ses req red ref seen' later next))))))"

declare gcp_follow.simps [simp del]

definition cancel_job :: "gcp_session \<Rightarrow> string \<Rightarrow> submit_prog \<Rightarrow> submit_prog" where
  "cancel_job ses ref p = (case gn_cancel ses ref of None \<Rightarrow> Act (Released ref) p | Some e \<Rightarrow> p)"

definition gcp_started :: "gcp_settings \<Rightarrow> gcp_session \<Rightarrow> submit_request \<Rightarrow> redactor \<Rightarrow> string \<Rightarrow> submit_prog" where
  "gcp_started c ses req red ref =
     ResourceSaved (gcp_resource c req ref ResRunning (gn_time_created ses)) (\<lambda>r. case r of
         Some e \<Rightarrow> cancel_job ses ref (Done (gcp_result ref 1 (error_string e)) (Some e))
       | None \<Rightarrow> Started ref (\<lambda>r. case r of
           Some e \<Rightarrow> cancel_job ses ref (Done (gcp_result [] 0 []) (Some e))
         | None \<Rightarrow>
             write_log (redact_string red (''gcp custom job started: '' @ ref))
               (gcp_follow c ses req red ref {} (gn_poll_more ses) (gn_poll ses))))"

definition gcp_redactor :: "gcp_session \<Rightarrow> submit_request \<Rightarrow> redactor" where
  "gcp_redactor ses req = FromEnvironment (gn_environ ses) [job_env (rq_job req), rq_env req]"

definition job_ref :: "gcp_settings \<Rightarrow> submit_request \<Rightarrow> string \<Rightarrow> string" where
  "job_ref c req name = (if name = [] then gcp_parent c @ ''/customJobs/'' @ rq_attempt_id req else name)"

definition clientFor :: "gcp_session \<Rightarrow> string \<Rightarrow> string \<Rightarrow> grpc_error option" where
  "clientFor ses project location = (if gn_connected ses then None else gn_connect ses project location)"

definition gcp_submit :: "(string \<Rightarrow> bool) \<Rightarrow> gcp_settings \<Rightarrow> gcp_session \<Rightarrow> submit_request \<Rightarrow> submit_prog" where
  "gcp_submit known c ses req =
     (let red = gcp_redactor ses req in
      case gn_open_logs ses of
        Some e \<Rightarrow> Done (gcp_result [] 0 []) (Some (ErrWrap ''open logs artifact: '' e))
      | None \<Rightarrow>
      (case gn_open_events ses of
        Some e \<Rightarrow> Done (gcp_result [] 0 []) (Some (ErrWrap ''open events artifact: '' e))
      | None \<Rightarrow>
      (case clientFor ses (gs_project c) (gs_location c) of
        Some e \<Rightarrow> Done (gcp_result [] 0 []) (Some (gcp_error e))
      | None \<Rightarrow>
          write_log (redact_string red (''gcp custom job submit: '' @ job_name (rq_job req)))
            (case gn_create ses (createRequest known c req) of
               Inl e \<Rightarrow> Done (gcp_result [] (gcp_exit_code (gcp_error e)) (redact_string red (error_string (gcp_error e))))
                 (Some (gcp_error e))
             | Inr name \<Rightarrow> Act (Acquired (job_ref c req name)) (gcp_started c ses req red (job_ref c req name))))))"

section \<open>The provider\<close>

definition gcp_validate :: "(string \<Rightarrow> bool) \<Rightarrow> gcp_settings \<Rightarrow> job_spec \<Rightarrow> support_report" where
  "gcp_validate known c job =
     (let configured = (gs_accelerator_type c \<noteq> []);
          recognized = snd (acceleratorTypeValue known (gs_accelerator_type c));
          reasons =
        (if job_image job = [] then [''gcp provider requires job.image''] else [])
        @ (if job_script job \<noteq> [] then [''gcp provider v1 does not package local scripts; provide job.image''] else [])
        @ concat (map (\<lambda>input. case di_mode input of
              ModeBundle \<Rightarrow> [''gcp provider v1 does not support bundled data input '' @ quote (di_name input)]
            | ModeUri \<Rightarrow> if \<not> prefix ''gs://'' (to_lower (di_source input))
                then [''gcp provider v1 only supports gs:// URI data input '' @ quote (di_name input)] else []
            | ModeOther s \<Rightarrow> []) (job_data job))
        @ (if gs_project c = [] then [''gcp.project_id is required''] else [])
        @ (if gs_location c = [] then [''gcp.location is required''] else [])
        @ (if gs_output_prefix c = [] then [''gcp.output_uri_prefix is required''] else [])
        @ (if gs_machine_type c = [] then [''gcp.machine_type is required''] else [])
        @ (if configured \<and> \<not> recognized
           then [''gcp.accelerator_type '' @ quote (gs_accelerator_type c) @ '' is not recognized''] else [])
        @ (if gs_accelerator_count c < 0 then [''gcp.accelerator_count must be greater than or equal to 0''] else [])
        @ (if gs_accelerator_count c > 0 \<and> \<not> configured
           then [''gcp.accelerator_type is required when gcp.accelerator_count is greater than 0''] else [])
        @ (if configured \<and> recognized \<and> gs_accelerator_count c \<le> 0
           then [''gcp.accelerator_count must be greater than 0 when gcp.accelerator_type is set''] else [])
      in \<lparr>sup_supported = (reasons = []), sup_reasons = reasons\<rparr>)"

definition connected_inventory :: "gcp_settings \<Rightarrow> gcp_session \<Rightarrow> inventory" where
  "connected_inventory c ses =
     gn_inventory ses\<lparr>iv_client := map_option snd (clientFor ses (gs_project c) (gs_location c))\<rparr>"

definition gcp_capabilities :: "gcp_settings \<Rightarrow> gcp_session \<Rightarrow> provider_capabilities" where
  "gcp_capabilities c ses =
     (let shapes = gcp_shapes c (connected_inventory c ses)
      in empty_capabilities\<lparr>cap_gpu_families := unseen_families [] shapes, cap_regions := [gs_location c],
           cap_shapes := shapes, cap_on_demand := True, cap_docker_image := True, cap_uri_schemes := [''gs''],
           cap_checkpoint_schemes := [''gs''], cap_object_store_pull := True\<rparr>)"

definition gcp_estimate :: "gcp_settings \<Rightarrow> gcp_session \<Rightarrow> cost_estimate" where
  "gcp_estimate c ses =
     \<lparr>est_hourly_usd = (if gs_estimate_usd c = 0 then estimateHourlyUSD c (connected_inventory c ses) else gs_estimate_usd c),
      est_currency = ''USD''\<rparr>"

definition gcp_auth :: "gcp_settings \<Rightarrow> gcp_session \<Rightarrow> gerror option" where
  "gcp_auth c ses = (case clientFor ses (gs_project c) (gs_location c) of
      Some e \<Rightarrow> Some (gcp_error e) | None \<Rightarrow> map_option gcp_error (gn_auth ses (gcp_parent c)))"

definition gcp_status :: "gcp_settings \<Rightarrow> gcp_session \<Rightarrow> string \<Rightarrow> gerror + job_status" where
  "gcp_status c ses ref = (case clientFor ses (gs_project c) (gs_location c) of
      Some e \<Rightarrow> Inl (gcp_error e)
    | None \<Rightarrow> (case gn_get ses ref of
        Inl e \<Rightarrow> Inl (gcp_error e)
      | Inr job \<Rightarrow> Inr \<lparr>js_state = Some (attemptState (cj_state job)), js_resource_state = ResNone\<rparr>))"

fun ref_location :: "string list \<Rightarrow> (string \<times> string) option" where
  "ref_location (a # project # b # location # rest) =
     (if a = ''projects'' \<and> b = ''locations'' then Some (project, location)
      else ref_location (project # b # location # rest))"
| "ref_location _ = None"

definition projectLocationFromRef :: "string \<Rightarrow> (string \<times> string) option" where
  "projectLocationFromRef ref = ref_location (split_char CHR ''/'' ref)"

text \<open>A reference that names its project and location chooses the client that cancels.\<close>

definition gcp_cancel :: "gcp_settings \<Rightarrow> gcp_session \<Rightarrow> string \<Rightarrow> gerror option" where
  "gcp_cancel c ses ref =
     (case (case projectLocationFromRef ref of
          Some (project, location) \<Rightarrow> clientFor ses project location
        | None \<Rightarrow> clientFor ses (gs_project c) (gs_location c)) of
        Some e \<Rightarrow> Some (gcp_error e)
      | None \<Rightarrow> map_option gcp_error (gn_cancel ses ref))"

definition gcp_adapter :: "(string \<Rightarrow> bool) \<Rightarrow> gcp_settings \<Rightarrow> gcp_session \<Rightarrow> adapter" where
  "gcp_adapter known config ses =
     (let c = gcp_defaults config in
      \<lparr>ad_name = ''gcp'', ad_auth = gcp_auth c ses, ad_capabilities = (gcp_capabilities c ses, None),
       ad_validate = gcp_validate known c, ad_estimate = (\<lambda>job. Inr (gcp_estimate c ses)),
       ad_submit = gcp_submit known c ses, ad_status = gcp_status c ses, ad_cancel = gcp_cancel c ses\<rparr>)"

section \<open>The log is taken over once\<close>

text \<open>What the effects write to the run's log and its events.\<close>

fun written :: "effect list \<Rightarrow> string" where
  "written [] = []"
| "written (Did (Logged s) # es) = s @ written es"
| "written (e # es) = written es"

fun emitted :: "effect list \<Rightarrow> event list" where
  "emitted [] = []"
| "emitted (Emitted ev # es) = ev # emitted es"
| "emitted (e # es) = emitted es"

definition log_line :: "string \<Rightarrow> string" where
  "log_line s = (if s = [] then [] else s @ [CHR 0x0A])"

lemma written_emit [effect_simps]:
  "written (effects (emit evs p) ans n) = written (effects p ans n)"
  "emitted (effects (emit evs p) ans n) = evs @ emitted (effects p ans n)"
  by (induction evs) (simp_all add: emit_def)

lemma written_log [effect_simps]:
  "written (effects (log_text s p) ans n) = s @ written (effects p ans n)"
  "emitted (effects (log_text s p) ans n) = emitted (effects p ans n)"
  "written (effects (write_log s p) ans n) = log_line s @ written (effects p ans n)"
  "emitted (effects (write_log s p) ans n) = emitted (effects p ans n)"
  by (simp_all add: log_text_def write_log_def log_line_def)

text \<open>The entries whose key no entry before has.\<close>

definition first_entries :: "log_entry list \<Rightarrow> log_entry list" where
  "first_entries es = map (\<lambda>i. es ! i) (filter (\<lambda>i. entry_key (es ! i) \<notin> set (map entry_key (take i es))) [0..<length es])"

lemma first_entries_Nil [simp]: "first_entries [] = []"
  by (simp add: first_entries_def)

lemma first_entries_snoc:
  "first_entries (es @ [e]) = first_entries es @ (if entry_key e \<in> set (map entry_key es) then [] else [e])"
proof -
  have "filter (\<lambda>i. entry_key ((es @ [e]) ! i) \<notin> set (map entry_key (take i (es @ [e])))) [0..<length es]
    = filter (\<lambda>i. entry_key (es ! i) \<notin> set (map entry_key (take i es))) [0..<length es]"
    by (rule filter_cong) (auto simp: nth_append)
  then show ?thesis by (auto simp: first_entries_def nth_append)
qed

lemma drain_append:
  "drain_entries red req seen (es @ fs) =
     (case drain_entries red req seen es of (seen1, txt1, evs1) \<Rightarrow>
       case drain_entries red req seen1 fs of (seen2, txt2, evs2) \<Rightarrow> (seen2, txt1 @ txt2, evs1 @ evs2))"
  by (induction es arbitrary: seen) (auto split: prod.split)

definition drained :: "redactor \<Rightarrow> submit_request \<Rightarrow> log_entry list \<Rightarrow> string set \<times> string \<times> event list" where
  "drained red req es = (set (map entry_key es), concat (map (entry_text red) (first_entries es)),
     concat (map (entry_events red req) (first_entries es)))"

lemma drain_first: "drain_entries red req {} es = drained red req es"
proof (induction es rule: rev_induct)
  case Nil
  show ?case by (simp add: drained_def)
next
  case (snoc e es)
  then show ?case by (auto simp: drain_append drained_def first_entries_snoc)
qed

lemma drained_append:
  "drain_entries red req (set (map entry_key es)) fs = (seen, txt, evs) \<Longrightarrow>
    seen = set (map entry_key (es @ fs))
    \<and> concat (map (entry_text red) (first_entries (es @ fs))) = concat (map (entry_text red) (first_entries es)) @ txt
    \<and> concat (map (entry_events red req) (first_entries (es @ fs)))
      = concat (map (entry_events red req) (first_entries es)) @ evs"
  using drain_append [of red req "{}" es fs] drain_first [of red req es] drain_first [of red req "es @ fs"]
  by (simp add: drained_def)

text \<open>An answer with which the loop goes on.\<close>

definition still_running :: "grpc_error + custom_job \<Rightarrow> bool" where
  "still_running answer = (case answer of
      Inr job \<Rightarrow> cj_state job \<in> set [JobOther, JobPartiallySucceeded] | Inl e \<Rightarrow> False)"

definition job_succeeded :: "grpc_error + custom_job \<Rightarrow> bool" where
  "job_succeeded answer = (case answer of Inr job \<Rightarrow> cj_state job = JobSucceeded | Inl e \<Rightarrow> False)"

lemma follow_running:
  assumes "still_running (gp_job po ref)" and "gp_logs po (log_request c ref) = Inr b"
    and "drain_entries red req seen b = (seen', txt, evs)"
  shows "gcp_follow c ses req red ref seen later po = log_text txt (emit evs (case later of
      [] \<Rightarrow> Done (gcp_result ref 130 ''context canceled'') (Some (gn_poll_sleep ses))
    | next # later \<Rightarrow> Meanwhile (gcp_follow c ses req red ref seen' later next)))"
  using assms by (subst gcp_follow.simps) (auto simp: drainLogs_def still_running_def split: sum.splits)

lemma follow_succeeded:
  assumes "job_succeeded (gp_job po ref)" and "gp_logs po (log_request c ref) = Inr b1"
    and "gp_last_logs po (log_request c ref) = Inr b2"
    and "drain_entries red req seen b1 = (seen1, txt1, evs1)" and "drain_entries red req seen1 b2 = (seen2, txt2, evs2)"
  shows "gcp_follow c ses req red ref seen later po = log_text txt1 (emit evs1 (log_text txt2 (emit evs2
    (write_log (redact_string red ''gcp custom job completed'')
      (settle c ses req ref ResSucceeded (gcp_result ref 0 ''completed'') None)))))"
  using assms by (subst gcp_follow.simps) (auto simp: drainLogs_def job_succeeded_def succeeded_job_def split: sum.splits)

lemma settle_effects [effect_simps]:
  "written (effects (settle c ses req ref st r e) (\<lambda>n. None) n) = []"
  "emitted (effects (settle c ses req ref st r e) (\<lambda>n. None) n) = []"
  "ending (settle c ses req ref st r e) (\<lambda>n. None) n = (r, e)"
  "acquired (effects (settle c ses req ref st r e) ans n) = []"
  "released (effects (settle c ses req ref st r e) ans n) = []"
  "recorded (effects (settle c ses req ref st r e) ans n) = [gcp_resource c req ref st (gn_time_final ses)]"
  by (auto simp: settle_def split: option.split)

lemma follow_log:
  assumes "po # later = pending @ [final]" and "list_all (\<lambda>po. still_running (gp_job po ref)) pending"
    and "job_succeeded (gp_job final ref)"
    and "map (\<lambda>po. gp_logs po q) (pending @ [final]) @ [gp_last_logs final q] = map Inr batches"
    and q: "q = log_request c ref"
  shows "concat (map (entry_text red) (first_entries es))
      @ written (effects (gcp_follow c ses req red ref (set (map entry_key es)) later po) (\<lambda>n. None) n)
    = concat (map (entry_text red) (first_entries (es @ concat batches)))
      @ log_line (redact_string red ''gcp custom job completed'')
    \<and> concat (map (entry_events red req) (first_entries es))
      @ emitted (effects (gcp_follow c ses req red ref (set (map entry_key es)) later po) (\<lambda>n. None) n)
    = concat (map (entry_events red req) (first_entries (es @ concat batches)))
    \<and> ending (gcp_follow c ses req red ref (set (map entry_key es)) later po) (\<lambda>n. None) n
      = (gcp_result ref 0 ''completed'', None)"
  using assms(1-4)
proof (induction pending arbitrary: po later es batches)
  case Nil
  then obtain b1 b2 where b: "gp_logs po q = Inr b1" "gp_last_logs po q = Inr b2" "batches = [b1, b2]"
    by (cases batches) (auto simp: map_eq_Cons_conv)
  obtain seen1 txt1 evs1 where d1: "drain_entries red req (set (map entry_key es)) b1 = (seen1, txt1, evs1)"
    by (metis prod_cases3)
  note a1 = drained_append [OF d1]
  obtain seen2 txt2 evs2 where d2: "drain_entries red req (set (map entry_key (es @ b1))) b2 = (seen2, txt2, evs2)"
    by (metis prod_cases3)
  note a2 = drained_append [OF d2]
  have "job_succeeded (gp_job po ref)" using Nil by simp
  from follow_succeeded [OF this b(1) [unfolded q] b(2) [unfolded q] d1, of seen2 txt2 evs2] a1 d2
  show ?case using a1 a2 b(3) by (simp add: effect_simps)
next
  case (Cons p ps)
  from Cons.prems(1) have po: "p = po" "later \<noteq> []" "later = ps @ [final]" by auto
  obtain po2 later2 where l: "later = po2 # later2" using po(2) by (cases later) auto
  from Cons.prems(4) obtain b bs where b: "gp_logs po q = Inr b" "batches = b # bs"
    "map (\<lambda>po. gp_logs po q) (ps @ [final]) @ [gp_last_logs final q] = map Inr bs"
    by (cases batches) (auto simp: po)
  obtain seen1 txt1 evs1 where d: "drain_entries red req (set (map entry_key es)) b = (seen1, txt1, evs1)"
    by (metis prod_cases3)
  note a = drained_append [OF d]
  have "still_running (gp_job po ref)" using Cons.prems(2) po by simp
  from follow_running [OF this b(1) [unfolded q] d, of ses later] l
  have eq: "gcp_follow c ses req red ref (set (map entry_key es)) later po = log_text txt1 (emit evs1
    (Meanwhile (gcp_follow c ses req red ref (set (map entry_key (es @ b))) later2 po2)))" using a by simp
  have "po2 # later2 = ps @ [final]" "list_all (\<lambda>po. still_running (gp_job po ref)) ps"
    using Cons.prems(2) po l by auto
  from Cons.IH [OF this(1) this(2) Cons.prems(3) b(3), of "es @ b"] eq a b(2)
  show ?case by (simp add: effect_simps)
qed

text \<open>C10. When a custom job runs for any number of turns and then succeeds, and the log service answers
  each time, \<open>Submit\<close> writes every entry of the log once, however often the service repeats it:
  between its own lines the run's log has the redacted lines of the entries in the order of their
  first appearance, the events are theirs, and the run succeeds.\<close>

theorem gcp_log_once:
  assumes "gn_open_logs ses = None" "gn_open_events ses = None" "gn_connected ses"
    and "gn_create ses (createRequest known c req) = Inr name" and "ref = job_ref c req name"
    and "gn_poll ses # gn_poll_more ses = pending @ [final]"
    and "list_all (\<lambda>po. still_running (gp_job po ref)) pending" and "job_succeeded (gp_job final ref)"
    and "map (\<lambda>po. gp_logs po (log_request c ref)) (pending @ [final]) @ [gp_last_logs final (log_request c ref)]
      = map Inr batches"
  shows "(let red = gcp_redactor ses req; p = gcp_submit known c ses req; es = effects p (\<lambda>n. None) 0 in
    written es = log_line (redact_string red (''gcp custom job submit: '' @ job_name (rq_job req)))
      @ log_line (redact_string red (''gcp custom job started: '' @ ref))
      @ concat (map (entry_text red) (first_entries (concat batches)))
      @ log_line (redact_string red ''gcp custom job completed'')
    \<and> emitted es = concat (map (entry_events red req) (first_entries (concat batches)))
    \<and> ending p (\<lambda>n. None) 0 = (gcp_result ref 0 ''completed'', None))"
  using assms(1-5) follow_log [OF assms(6-9) refl, of "gcp_redactor ses req" "[]" ses req 2]
  by (simp add: gcp_submit_def Let_def clientFor_def gcp_started_def effect_simps numeral_2_eq_2)

definition sample_settings :: gcp_settings where
  "sample_settings = gcp_defaults \<lparr>gs_project = ''p'', gs_location = [], gs_output_prefix = ''gs://b'',
     gs_machine_type = [], gs_accelerator_type = [], gs_accelerator_count = 0, gs_boot_disk_type = [],
     gs_boot_disk_gb = 0, gs_service_account = [], gs_network = [], gs_poll_interval = 0,
     gs_estimate_usd = 0, gs_repository = []\<rparr>"

definition sample_entry :: "string \<Rightarrow> string \<Rightarrow> log_entry" where
  "sample_entry i s = \<lparr>le_insert_id = i, le_timestamp = zero_time, le_text = s, le_json = None,
     le_proto = None, le_read_at = zero_time\<rparr>"

definition sample_turn :: "log_entry list \<Rightarrow> job_state \<Rightarrow> gcp_poll" where
  "sample_turn es st = \<lparr>gp_logs = (\<lambda>q. Inr es),
     gp_job = (\<lambda>ref. Inr \<lparr>cj_state = st, cj_state_text = ''JOB_STATE_RUNNING'', cj_error = None\<rparr>),
     gp_last_logs = (\<lambda>q. Inr es)\<rparr>"

definition sample_gcp :: "gcp_poll \<Rightarrow> gcp_poll list \<Rightarrow> gcp_session" where
  "sample_gcp po later = \<lparr>gn_environ = [], gn_open_logs = None, gn_open_events = None, gn_connected = True,
     gn_connect = (\<lambda>project location. None), gn_auth = (\<lambda>parent. None),
     gn_inventory = \<lparr>iv_client = None, iv_skus = Inr [], iv_machines = Inr [], iv_accelerators = Inr [], iv_quotas = Inr []\<rparr>,
     gn_create = (\<lambda>r. Inr ''projects/p/locations/us-central1/customJobs/7''),
     gn_get = (\<lambda>ref. Inr \<lparr>cj_state = JobPartiallySucceeded, cj_state_text = [], cj_error = None\<rparr>),
     gn_cancel = (\<lambda>ref. None), gn_poll = po, gn_poll_more = later, gn_poll_sleep = ErrText ''context canceled'',
     gn_time_created = zero_time, gn_time_final = zero_time\<rparr>"

definition sample_submit :: submit_request where
  "sample_submit = \<lparr>rq_job = \<lparr>job_name = ''train'', job_script = [], job_image = ''img'', job_command = [''python''],
       job_args = [], job_env = [], job_data = [], job_work_dir = []\<rparr>,
     rq_run_id = ''run_1'', rq_attempt_id = ''att_1'', rq_resume = None, rq_hardware = None, rq_env = [], rq_run_dir = ''/r''\<rparr>"

lemma gcp_log_once_witness:
  "let a = sample_entry ''1'' ''hello''; b = sample_entry ''2'' ''bye'' in
    fst (ending (gcp_submit (\<lambda>k. False) sample_settings
      (sample_gcp (sample_turn [a] JobOther) [sample_turn [a, b] JobSucceeded]) sample_submit) (\<lambda>n. None) 0)
    = gcp_result ''projects/p/locations/us-central1/customJobs/7'' 0 ''completed''"
proof -
  let ?a = "sample_entry ''1'' ''hello''" and ?b = "sample_entry ''2'' ''bye''"
  show ?thesis
    using gcp_log_once [where ses = "sample_gcp (sample_turn [?a] JobOther) [sample_turn [?a, ?b] JobSucceeded]"
        and known = "\<lambda>k. False" and c = sample_settings and req = sample_submit
        and name = "''projects/p/locations/us-central1/customJobs/7''"
        and ref = "''projects/p/locations/us-central1/customJobs/7''"
        and pending = "[sample_turn [?a] JobOther]" and final = "sample_turn [?a, ?b] JobSucceeded"
        and batches = "[[?a], [?a, ?b], [?a, ?b]]"]
    by (simp add: sample_gcp_def sample_turn_def still_running_def job_succeeded_def job_ref_def Let_def)
qed

section \<open>What becomes of the job\<close>

text \<open>How a result goes with the last state that was recorded of the job.\<close>

fun accounted :: "resource_state \<Rightarrow> submit_result \<Rightarrow> gerror option \<Rightarrow> bool" where
  "accounted ResSucceeded r e \<longleftrightarrow> sr_exit_code r = 0 \<and> e = None"
| "accounted ResFailed r e \<longleftrightarrow> sr_exit_code r \<in> set [1, 10, 30] \<and> e \<noteq> None"
| "accounted ResCanceled r e \<longleftrightarrow> sr_exit_code r = 130 \<and> e \<noteq> None"
| "accounted ResRunning r e \<longleftrightarrow> sr_exit_code r \<in> set [1, 10, 30, 130] \<and> e \<noteq> None"
| "accounted _ r e \<longleftrightarrow> False"

definition follows_job :: "string \<Rightarrow> submit_prog \<Rightarrow> bool" where
  "follows_job ref p \<longleftrightarrow> (\<forall>n. acquired (effects p (\<lambda>n. None) n) = [] \<and> released (effects p (\<lambda>n. None) n) = []
     \<and> sr_job_ref (fst (ending p (\<lambda>n. None) n)) = ref
     \<and> list_all (\<lambda>res. res_external_id res = ref) (recorded (effects p (\<lambda>n. None) n))
     \<and> accounted (last (ResRunning # map res_state (recorded (effects p (\<lambda>n. None) n))))
         (fst (ending p (\<lambda>n. None) n)) (snd (ending p (\<lambda>n. None) n)))"

lemma exit_codes: "gcp_exit_code e \<in> set [1, 10, 30]"
  by (auto simp: gcp_exit_code_def split: provider_error_kind.split)

lemma follows_log [effect_simps]:
  "follows_job ref (log_text s p) \<longleftrightarrow> follows_job ref p" "follows_job ref (write_log s p) \<longleftrightarrow> follows_job ref p"
  "follows_job ref (emit evs p) \<longleftrightarrow> follows_job ref p" "follows_job ref (Meanwhile p) \<longleftrightarrow> follows_job ref p"
  by (simp_all add: follows_job_def effect_simps)

lemma follows_settle: "follows_job ref (settle c ses req ref st r e)"
  if "accounted st r e" "sr_job_ref r = ref"
  using that by (simp add: follows_job_def effect_simps gcp_resource_def)

lemma follows_ends:
  "follows_job ref (failed_job c ses req red ref job)"
  "follows_job ref (cancelled_job c ses req red ref job)"
  "follows_job ref (succeeded_job c ses req red ref seen answer)"
  by (auto simp: failed_job_def cancelled_job_def succeeded_job_def Let_def effect_simps gcp_result_def
      intro!: follows_settle exit_codes [simplified] split: prod.split)

lemma follows_done: "follows_job ref (Done (gcp_result ref code reason) (Some e))" if "code \<in> set [1, 10, 30, 130]"
  using that by (simp add: follows_job_def gcp_result_def)

lemma follow_accounted: "follows_job ref (gcp_follow c ses req red ref seen later po)"
proof (induction later arbitrary: po seen)
  case Nil
  have code: "gcp_exit_code e \<in> set [1, 10, 30, 130]" for e using exit_codes [of e] by auto
  show ?case
    by (subst gcp_follow.simps)
      (auto simp: effect_simps split: prod.split sum.split job_state.split intro!: follows_ends follows_done code)
next
  case (Cons po2 later)
  have code: "gcp_exit_code e \<in> set [1, 10, 30, 130]" for e using exit_codes [of e] by auto
  show ?case
    by (subst gcp_follow.simps)
      (auto simp: effect_simps Cons.IH split: prod.split sum.split job_state.split intro!: follows_ends follows_done code)
qed

text \<open>C9. When the callbacks of the run loop succeed, Google's \<open>Submit\<close> creates at most one job and
  cancels none, and its result goes with what was last recorded of the job: it succeeds
  exactly when the record says succeeded, a record of failure or cancellation comes with the
  error and its exit code, and when the record is left at running the result is an error.\<close>

theorem gcp_job_accounted:
  "let p = gcp_submit known c ses req; es = effects p (\<lambda>n. None) 0;
       r = fst (ending p (\<lambda>n. None) 0); e = snd (ending p (\<lambda>n. None) 0) in
    released es = [] \<and>
    (case acquired es of
       [] \<Rightarrow> recorded es = [] \<and> e \<noteq> None
     | [ref] \<Rightarrow> sr_job_ref r = ref \<and> recorded es \<noteq> [] \<and> list_all (\<lambda>res. res_external_id res = ref) (recorded es)
         \<and> accounted (res_state (last (recorded es))) r e
         \<and> (e = None \<longleftrightarrow> res_state (last (recorded es)) = ResSucceeded)
     | _ \<Rightarrow> False)"
proof -
  have one: "accounted st r e \<Longrightarrow> e = None \<longleftrightarrow> st = ResSucceeded" for st r e by (cases st) auto
  have acc: "acquired (effects (gcp_started c ses req red ref) (\<lambda>n. None) 0) = []
      \<and> released (effects (gcp_started c ses req red ref) (\<lambda>n. None) 0) = []
      \<and> sr_job_ref (fst (ending (gcp_started c ses req red ref) (\<lambda>n. None) 0)) = ref
      \<and> recorded (effects (gcp_started c ses req red ref) (\<lambda>n. None) 0) \<noteq> []
      \<and> list_all (\<lambda>res. res_external_id res = ref) (recorded (effects (gcp_started c ses req red ref) (\<lambda>n. None) 0))
      \<and> accounted (res_state (last (recorded (effects (gcp_started c ses req red ref) (\<lambda>n. None) 0))))
          (fst (ending (gcp_started c ses req red ref) (\<lambda>n. None) 0))
          (snd (ending (gcp_started c ses req red ref) (\<lambda>n. None) 0))" for red ref
    using follow_accounted [of ref c ses req red "{}" "gn_poll_more ses" "gn_poll ses",
        unfolded follows_job_def, THEN spec, of "Suc (Suc 0)"]
    by (cases "recorded (effects (gcp_follow c ses req red ref {} (gn_poll_more ses) (gn_poll ses)) (\<lambda>n. None) (Suc (Suc 0))) = []")
      (simp_all add: gcp_started_def effect_simps gcp_resource_def last_map del: accounted.simps)
  have success: "snd (ending (gcp_started c ses req red ref) (\<lambda>n. None) 0) = None
      \<longleftrightarrow> res_state (last (recorded (effects (gcp_started c ses req red ref) (\<lambda>n. None) 0))) = ResSucceeded" for red ref
    by (rule one) (use acc in blast)
  show ?thesis
    using acc success
    by (simp add: gcp_submit_def Let_def effect_simps gcp_result_def split: option.split sum.split)
qed

text \<open>When the service fails to answer one question for the job, \<open>Submit\<close> gives the job up: it
  returns an error, retryable when the service was unavailable, asks for no cancellation, and the
  last record says that the job is running, as it is. The run loop then starts another attempt.\<close>

theorem gcp_poll_error_leaves_job:
  assumes "gn_open_logs ses = None" "gn_open_events ses = None" "gn_connected ses"
    and "gn_create ses (createRequest known c req) = Inr name"
    and "gp_job (gn_poll ses) (job_ref c req name) = Inl (CodeUnavailable, e)"
  shows "let p = gcp_submit known c ses req; es = effects p (\<lambda>n. None) 0 in
    acquired es = [job_ref c req name] \<and> released es = []
    \<and> map res_state (recorded es) = [ResRunning]
    \<and> sr_exit_code (fst (ending p (\<lambda>n. None) 0)) = 30
    \<and> snd (ending p (\<lambda>n. None) 0) = Some (gcp_error (CodeUnavailable, e))
    \<and> is_retryable_provider_error (gcp_error (CodeUnavailable, e))"
proof -
  obtain seen body evs where
    d: "drainLogs (gcp_redactor ses req) req {} (gp_logs (gn_poll ses) (log_request c (job_ref c req name))) = (seen, body, evs)"
    by (metis prod_cases3)
  show ?thesis
    using assms d
    by (simp add: gcp_submit_def Let_def clientFor_def gcp_started_def effect_simps gcp_follow.simps gcp_resource_def
        gcp_result_def gcp_exit_code_def provider_error_kind_of_def gcp_error_def is_retryable_provider_error_def
        kind_retryable_def)
qed

definition unanswered_turn :: gcp_poll where
  "unanswered_turn = (sample_turn [] JobOther)\<lparr>gp_job := (\<lambda>ref. Inl (CodeUnavailable, ErrText ''try again''))\<rparr>"

lemma gcp_poll_error_leaves_job_witness:
  "released (effects (gcp_submit (\<lambda>k. False) sample_settings (sample_gcp unanswered_turn []) sample_submit) (\<lambda>n. None) 0) = []
    \<and> is_retryable_provider_error (gcp_error (CodeUnavailable, ErrText ''try again''))"
  using gcp_poll_error_leaves_job [where ses = "sample_gcp unanswered_turn []" and known = "\<lambda>k. False"
      and c = sample_settings and req = sample_submit and name = "''projects/p/locations/us-central1/customJobs/7''"
      and e = "ErrText ''try again''"]
  by (simp add: sample_gcp_def unanswered_turn_def Let_def)

lemma follow_partial:
  "list_all (\<lambda>po. case gp_job po ref of Inl e \<Rightarrow> False | Inr job \<Rightarrow> cj_state job = JobPartiallySucceeded) (po # later) \<Longrightarrow>
    ending (gcp_follow c ses req red ref seen later po) (\<lambda>n. None) n
      = (gcp_result ref 130 ''context canceled'', Some (gn_poll_sleep ses))"
proof (induction later arbitrary: po seen)
  case Nil
  then show ?case by (subst gcp_follow.simps) (auto simp: effect_simps split: prod.split sum.splits)
next
  case (Cons po2 later)
  then show ?case by (subst gcp_follow.simps) (auto simp: effect_simps split: prod.split sum.splits)
qed

text \<open>A job that has partially succeeded is over, and \<open>GetStatus\<close> reports it as succeeded, but
  \<open>Submit\<close> takes the state for one of a running job: it goes on asking until the wait is cancelled.\<close>

theorem gcp_partial_success_never_ends:
  assumes "gn_open_logs ses = None" "gn_open_events ses = None" "gn_connected ses"
    and "gn_create ses (createRequest known c req) = Inr name"
    and "list_all (\<lambda>po. case gp_job po (job_ref c req name) of
        Inl e \<Rightarrow> False | Inr job \<Rightarrow> cj_state job = JobPartiallySucceeded) (gn_poll ses # gn_poll_more ses)"
    and "gn_get ses (job_ref c req name) = Inr job" and "cj_state job = JobPartiallySucceeded"
  shows "ending (gcp_submit known c ses req) (\<lambda>n. None) 0
      = (gcp_result (job_ref c req name) 130 ''context canceled'', Some (gn_poll_sleep ses))
    \<and> gcp_status c ses (job_ref c req name) = Inr \<lparr>js_state = Some AttemptSucceeded, js_resource_state = ResNone\<rparr>"
  using assms(1-4,6,7) follow_partial [OF assms(5)]
  by (simp add: gcp_submit_def Let_def clientFor_def gcp_started_def effect_simps gcp_status_def)

lemma gcp_partial_success_never_ends_witness:
  "let ses = sample_gcp (sample_turn [] JobPartiallySucceeded) [sample_turn [] JobPartiallySucceeded] in
    sr_exit_code (fst (ending (gcp_submit (\<lambda>k. False) sample_settings ses sample_submit) (\<lambda>n. None) 0)) = 130"
proof -
  let ?ses = "sample_gcp (sample_turn [] JobPartiallySucceeded) [sample_turn [] JobPartiallySucceeded]"
  show ?thesis
    using gcp_partial_success_never_ends [where ses = ?ses and known = "\<lambda>k. False"
        and c = sample_settings and req = sample_submit and name = "''projects/p/locations/us-central1/customJobs/7''"
        and job = "\<lparr>cj_state = JobPartiallySucceeded, cj_state_text = [], cj_error = None\<rparr>"]
    by (simp add: sample_gcp_def sample_turn_def gcp_result_def Let_def)
qed

section \<open>Routing and the request\<close>

lemma wrap32_id: "- (2 ^ 31) \<le> i \<Longrightarrow> i < 2 ^ 31 \<Longrightarrow> wrap32 i = i"
  by (simp add: wrap32_def)

text \<open>Whatever the services report, a shape that Google offers to routing lies in the configured
  location, and when routing selects it, the job that \<open>Submit\<close> creates there asks for its
  machine and its number of accelerators.\<close>

theorem gcp_requests_selected_shape:
  assumes "sh \<in> set (cap_shapes (gcp_capabilities (gcp_defaults c) ses))"
    and "rq_hardware req = Some (hardwareSelection ''gcp'' sh)"
    and "- (2 ^ 31) \<le> gs_accelerator_count c" "gs_accelerator_count c < 2 ^ 31"
  shows "let r = createRequest known (gcp_defaults c) req in
    cr_machine_type r = sh_machine_type sh \<and> cr_accelerator_count r = sh_accelerator_count sh
    \<and> cr_accelerator r = fst (acceleratorTypeValue known (sh_accelerator_type sh))
    \<and> cr_parent r = ''projects/'' @ gs_project c @ ''/locations/'' @ sh_region sh"
proof -
  let ?c = "gcp_defaults c"
  have ne: "gs_location ?c \<noteq> []" "gs_machine_type ?c \<noteq> []" "gs_project ?c = gs_project c"
    "gs_accelerator_count ?c = gs_accelerator_count c" by (simp_all add: gcp_defaults_def)
  obtain s where s: "s \<in> set (gcp_configured_shape ?c # catalogHardwareShapes (gs_location ?c))"
    "sh_machine_type sh = sh_machine_type s" "sh_accelerator_type sh = sh_accelerator_type s"
    "sh_accelerator_count sh = sh_accelerator_count s" "sh_region sh = sh_region s"
    using assms(1) by (auto simp: gcp_capabilities_def Let_def live_keeps priced_keeps elim!: gcp_shape_from)
  have "(sh_machine_type s \<noteq> [] \<and> sh_region s = gs_location ?c \<and>
      (sh_accelerator_type s \<noteq> [] \<or> gs_accelerator_type ?c = []) \<and> - (2 ^ 31) \<le> sh_accelerator_count s
      \<and> sh_accelerator_count s < 2 ^ 31 \<and> (sh_accelerator_count s \<noteq> 0 \<or> gs_accelerator_count c = 0))"
    using s(1) ne assms(3,4)
    by (auto simp: gcp_configured_shape_def catalogHardwareShapes_def catalogShape_def Let_def)
  with s assms(2) ne show ?thesis
    by (auto simp: createRequest_def workerPoolHardware_def hardwareSelection_def wrap32_id gcp_parent_def Let_def)
qed

lemma gcp_requests_selected_shape_witness:
  "let sh = hd (cap_shapes (gcp_capabilities (gcp_defaults sample_settings) (sample_gcp (sample_turn [] JobOther) []))) in
    cr_machine_type (createRequest (\<lambda>k. False) (gcp_defaults sample_settings)
      (sample_submit\<lparr>rq_hardware := Some (hardwareSelection ''gcp'' sh)\<rparr>)) = sh_machine_type sh"
proof -
  let ?ses = "sample_gcp (sample_turn [] JobOther) []"
  let ?sh = "hd (cap_shapes (gcp_capabilities (gcp_defaults sample_settings) ?ses))"
  have "?sh \<in> set (cap_shapes (gcp_capabilities (gcp_defaults sample_settings) ?ses))"
    by (rule hd_in_set) (simp add: gcp_capabilities_def gcp_shapes_def enrichHardwareShapes_def Let_def)
  from gcp_requests_selected_shape [OF this, where known = "\<lambda>k. False"
      and req = "sample_submit\<lparr>rq_hardware := Some (hardwareSelection ''gcp'' ?sh)\<rparr>"]
  show ?thesis by (simp add: sample_settings_def gcp_defaults_def Let_def)
qed

end
