(* ===== verification/Providers.thy ===== *)
theory Providers
  imports Runs Submitting RemoteLog
begin

text \<open>
  The providers without a cloud, \<open>provider/mock/mock.go\<close> and \<open>provider/local/local.go\<close>, and what the run
  loop makes of any provider: when the database works, its callbacks succeed, and the exit code of a
  run is that of \<open>Submit\<close>.
\<close>

section \<open>The mock provider\<close>

record mock_config =
  mk_name :: string
  mk_hourly_cost :: rat
  mk_failure_mode :: string
  mk_shapes :: "hardware_shape list"
  mk_events :: "event list"

record mock_session =
  mn_environ :: "string list"
  mn_open_logs :: "gerror option"
  mn_open_events :: "gerror option"
  mn_time :: gotime

definition mock_capabilities :: "mock_config \<Rightarrow> provider_capabilities" where
  "mock_capabilities c = empty_capabilities\<lparr>cap_on_demand := True, cap_local_script := True, cap_data_bundle := True,
     cap_uri_schemes := [''http'', ''https'', ''s3'', ''gs''], cap_checkpoint_schemes := [''file'', ''mock'', ''gs'', ''s3''],
     cap_object_store_pull := True, cap_shapes := mk_shapes c\<rparr>"

definition script_required :: "job_spec \<Rightarrow> support_report" where
  "script_required job = (if job_script job = [] then \<lparr>sup_supported = False, sup_reasons = [''script is required'']\<rparr>
     else \<lparr>sup_supported = True, sup_reasons = []\<rparr>)"

definition failureError :: "mock_config \<Rightarrow> (provider_error_kind \<times> string) option" where
  "failureError c =
     (if mk_failure_mode c = ''capacity'' then Some (ErrCapacity, mk_name c @ '' capacity interruption'')
      else if mk_failure_mode c = ''network'' then Some (ErrNetwork, mk_name c @ '' network failure'')
      else if mk_failure_mode c = ''internal'' then Some (ErrInternal, mk_name c @ '' internal failure'')
      else if mk_failure_mode c = ''runtime'' then Some (ErrRuntime, mk_name c @ '' runtime failure'')
      else None)"

text \<open>One scripted event: a log line, or an event with its line in the log.\<close>

definition scripted_event :: "redactor \<Rightarrow> submit_request \<Rightarrow> gotime \<Rightarrow> event \<Rightarrow> submit_prog \<Rightarrow> submit_prog" where
  "scripted_event red req t scripted p =
     (let ev = scripted\<lparr>ev_run_id := rq_run_id req, ev_attempt_id := rq_attempt_id req,
            ev_timestamp := (if is_zero_time (ev_timestamp scripted) then t else ev_timestamp scripted)\<rparr>
      in if ev_type ev = EventLog then write_log (redact_string red (ev_message ev)) p
         else EventWritten (redact_event red ev)
           (write_log (redact_string red (event_type_string (ev_type ev) @
              (case ev_step ev of None \<Rightarrow> [] | Some i \<Rightarrow> '' step='' @ string_of_int i))) p))"

definition mock_submit :: "mock_config \<Rightarrow> mock_session \<Rightarrow> submit_request \<Rightarrow> submit_prog" where
  "mock_submit c ses req =
     (let red = FromEnvironment (mn_environ ses) [job_env (rq_job req), rq_env req];
          ref = ''mock:'' @ mk_name c @ '':'' @ rq_attempt_id req;
          empty = \<lparr>sr_job_ref = [], sr_exit_code = 0, sr_exit_reason = []\<rparr> in
      Started ref (\<lambda>r. case r of
         Some e \<Rightarrow> Done empty (Some e)
       | None \<Rightarrow>
       (case mn_open_logs ses of
         Some e \<Rightarrow> Done empty (Some (ErrWrap ''open logs artifact: '' e))
       | None \<Rightarrow>
       (case mn_open_events ses of
         Some e \<Rightarrow> Done empty (Some (ErrWrap ''open events artifact: '' e))
       | None \<Rightarrow>
           write_log (redact_string red (''mock provider '' @ mk_name c @ '' started''))
           ((case rq_resume req of
               None \<Rightarrow> id
             | Some ck \<Rightarrow> write_log (redact_string red (''resuming from checkpoint step '' @ string_of_int (ck_step ck)
                 @ '': '' @ ck_uri ck)))
           (foldr (scripted_event red req (mn_time ses)) (mk_events c)
             (case failureError c of
                Some (kind, text) \<Rightarrow>
                  let message = redact_string red text
                  in write_log message (Done \<lparr>sr_job_ref = ref, sr_exit_code = 1, sr_exit_reason = message\<rparr>
                       (Some (ErrProvider kind message None)))
              | None \<Rightarrow> write_log (redact_string red (''mock provider '' @ mk_name c @ '' completed''))
                  (Done \<lparr>sr_job_ref = ref, sr_exit_code = 0, sr_exit_reason = ''completed''\<rparr> None))))))))"

definition mock_adapter :: "mock_config \<Rightarrow> mock_session \<Rightarrow> adapter" where
  "mock_adapter c ses =
     \<lparr>ad_name = mk_name c, ad_auth = None, ad_capabilities = (mock_capabilities c, None), ad_validate = script_required,
      ad_estimate = (\<lambda>job. Inr \<lparr>est_hourly_usd = mk_hourly_cost c, est_currency = ''USD''\<rparr>),
      ad_submit = mock_submit c ses,
      ad_status = (\<lambda>ref. Inr \<lparr>js_state = Some AttemptSucceeded, js_resource_state = ResNone\<rparr>), ad_cancel = (\<lambda>ref. None)\<rparr>"

section \<open>The local provider\<close>

text \<open>How the process ended (\<open>cmd.Wait\<close>), and what happened to a signal that was sent.\<close>

datatype wait_result = WaitOk | WaitExit int | WaitError gerror

datatype signal_result = SignalSent | SignalGone | SignalError gerror

text \<open>One stream of the process: what was read of it and the error that ended the scan, if any. The
  two readers take turns line by line; \<open>lo_turns\<close> says who is next as long as both have lines.\<close>

record process_stream =
  ps_text :: string
  ps_error :: "gerror option"

record local_session =
  lo_environ :: "string list"
  lo_windows :: bool
  lo_stat :: "string \<Rightarrow> bool"
  lo_open_logs :: "gerror option"
  lo_open_events :: "gerror option"
  lo_pipes :: "gerror option"
  lo_start :: "string \<times> string list \<Rightarrow> string list \<Rightarrow> string \<Rightarrow> gerror + int"
  lo_stdout :: process_stream
  lo_stderr :: process_stream
  lo_turns :: "bool list"
  lo_now :: "nat \<Rightarrow> gotime"
  lo_wait :: wait_result
  lo_signal :: "int \<Rightarrow> signal_result"

definition commandFor :: "bool \<Rightarrow> string \<Rightarrow> string list \<Rightarrow> string \<times> string list" where
  "commandFor windows script args =
     (if equal_fold (path_ext script) ''.py'' then ((if windows then ''python'' else ''python3''), script # args)
      else (script, args))"

definition mergedEnv :: "string list \<Rightarrow> string smap \<Rightarrow> string smap \<Rightarrow> string list" where
  "mergedEnv environ jobEnv runtimeEnv =
     environ @ map (\<lambda>(k, v). k @ ''='' @ v) jobEnv @ map (\<lambda>(k, v). k @ ''='' @ v) runtimeEnv"

definition local_validate :: "local_session \<Rightarrow> job_spec \<Rightarrow> support_report" where
  "local_validate ses job =
     (if job_script job = [] then \<lparr>sup_supported = False, sup_reasons = [''script is required'']\<rparr>
      else if \<not> lo_stat ses (job_script job)
      then \<lparr>sup_supported = False, sup_reasons = [''script '' @ quote (job_script job) @ '' is not readable'']\<rparr>
      else if list_ex (\<lambda>input. di_mode input = ModeUri) (job_data job)
      then \<lparr>sup_supported = False, sup_reasons = [''local provider does not fetch URI data inputs'']\<rparr>
      else \<lparr>sup_supported = True, sup_reasons = []\<rparr>)"

fun interleave :: "bool list \<Rightarrow> 'a list \<Rightarrow> 'a list \<Rightarrow> 'a list" where
  "interleave ts [] ys = ys"
| "interleave ts xs [] = xs"
| "interleave [] xs ys = xs @ ys"
| "interleave (True # ts) (x # xs) ys = x # interleave ts xs ys"
| "interleave (False # ts) xs (y # ys) = y # interleave ts xs ys"

text \<open>\<open>consume\<close>: a line goes redacted to the log, and is an event if it is structured.\<close>

fun consume_lines :: "redactor \<Rightarrow> submit_request \<Rightarrow> (nat \<Rightarrow> gotime) \<Rightarrow> nat \<Rightarrow> string list \<Rightarrow> submit_prog \<Rightarrow> submit_prog" where
  "consume_lines red req clock n [] p = p"
| "consume_lines red req clock n (line # ls) p =
     (let parsed = ParseLine line (rq_run_id req) (rq_attempt_id req) (clock n);
          rest = consume_lines red req clock (Suc n) ls p
      in log_text (redact_line red line @ [nl])
        (if pl_structured parsed then EventWritten (redact_event red (pl_event parsed)) rest else rest))"

definition scan_error_text :: "redactor \<Rightarrow> process_stream \<Rightarrow> string" where
  "scan_error_text red s = (case ps_error s of None \<Rightarrow> []
     | Some e \<Rightarrow> ''log scanner error: '' @ redact_string red (error_string e) @ [nl])"

fun local_result :: "redactor \<Rightarrow> string \<Rightarrow> wait_result \<Rightarrow> submit_result" where
  "local_result red ref WaitOk = \<lparr>sr_job_ref = ref, sr_exit_code = 0, sr_exit_reason = ''completed''\<rparr>"
| "local_result red ref (WaitExit code) =
     \<lparr>sr_job_ref = ref, sr_exit_code = code, sr_exit_reason = ''process exited with code '' @ string_of_int code\<rparr>"
| "local_result red ref (WaitError e) =
     \<lparr>sr_job_ref = ref, sr_exit_code = 1, sr_exit_reason = redact_string red (error_string e)\<rparr>"

definition local_submit :: "local_session \<Rightarrow> submit_request \<Rightarrow> submit_prog" where
  "local_submit ses req =
     (let job = rq_job req; red = FromEnvironment (lo_environ ses) [job_env job, rq_env req];
          empty = \<lparr>sr_job_ref = [], sr_exit_code = 0, sr_exit_reason = []\<rparr> in
      case lo_open_logs ses of
        Some e \<Rightarrow> Done empty (Some (ErrWrap ''open logs artifact: '' e))
      | None \<Rightarrow>
      (case lo_open_events ses of
        Some e \<Rightarrow> Done empty (Some (ErrWrap ''open events artifact: '' e))
      | None \<Rightarrow>
      (case lo_pipes ses of
        Some e \<Rightarrow> Done empty (Some e)
      | None \<Rightarrow>
      (case lo_start ses (commandFor (lo_windows ses) (job_script job) (job_args job))
          (mergedEnv (lo_environ ses) (job_env job) (rq_env req)) (job_work_dir job) of
        Inl e \<Rightarrow> Done empty (Some (ErrWrap ''start local job: '' e))
      | Inr pid \<Rightarrow>
          let ref = ''local:'' @ string_of_int pid in
          Act (Acquired ref) (Started ref (\<lambda>r. case r of
            Some e \<Rightarrow> Act (Released ref) (Done empty (Some e))
          | None \<Rightarrow>
              Meanwhile (consume_lines red req (lo_now ses) 0
                (interleave (lo_turns ses) (scan_lines (ps_text (lo_stdout ses))) (scan_lines (ps_text (lo_stderr ses))))
                (log_text (scan_error_text red (lo_stdout ses)) (log_text (scan_error_text red (lo_stderr ses))
                  (Act (Released ref) (Done (local_result red ref (lo_wait ses)) None)))))))))))"

text \<open>\<open>strconv.Atoi\<close>\<close>

definition atoi :: "string \<Rightarrow> int option" where
  "atoi s =
     (let sign = (case s of c # cs \<Rightarrow> if c = CHR ''-'' then -1 else 1 | [] \<Rightarrow> 1);
          ds = (case s of c # cs \<Rightarrow> if c = CHR ''-'' \<or> c = CHR ''+'' then cs else s | [] \<Rightarrow> []);
          v = sign * int (digits_value 0 ds)
      in if ds \<noteq> [] \<and> list_all is_digit ds \<and> - (2 ^ 63) \<le> v \<and> v < 2 ^ 63 then Some v else None)"

definition local_cancel :: "local_session \<Rightarrow> string \<Rightarrow> gerror option" where
  "local_cancel ses ref =
     (case atoi (trim_prefix ''local:'' ref) of
        None \<Rightarrow> Some (ErrText (''invalid local provider ref '' @ quote ref))
      | Some pid \<Rightarrow> (case lo_signal ses pid of SignalSent \<Rightarrow> None | SignalGone \<Rightarrow> None | SignalError e \<Rightarrow> Some e))"

definition local_adapter :: "local_session \<Rightarrow> adapter" where
  "local_adapter ses =
     \<lparr>ad_name = provider_local, ad_auth = None,
      ad_capabilities = (empty_capabilities\<lparr>cap_on_demand := True, cap_local_script := True, cap_data_bundle := True,
        cap_checkpoint_schemes := [''file'']\<rparr>, None),
      ad_validate = local_validate ses, ad_estimate = (\<lambda>job. Inr \<lparr>est_hourly_usd = 0, est_currency = ''USD''\<rparr>),
      ad_submit = local_submit ses,
      ad_status = (\<lambda>ref. Inr \<lparr>js_state = Some AttemptSucceeded, js_resource_state = ResNone\<rparr>),
      ad_cancel = local_cancel ses\<rparr>"
section \<open>A run without disturbance\<close>

text \<open>The database works, nobody cancels, summaries can be written, and \<open>events.jsonl\<close> exists.\<close>

definition calm :: "world \<Rightarrow> bool" where
  "calm w \<longleftrightarrow> healthy (w_store w) \<and> (\<forall>n. \<not> w_cancel w n) \<and> (\<forall>n. w_summary_fault w n = None) \<and> w_events w \<noteq> None"

definition calm_step :: "string \<Rightarrow> world \<Rightarrow> world \<Rightarrow> bool" where
  "calm_step runID w w' \<longleftrightarrow> calm w' \<and> run_row runID w' = run_row runID w"

lemma calm_on_store: "calm w \<Longrightarrow> st_fault (fst (f (w_store w))) = st_fault (w_store w) \<Longrightarrow> calm (fst (on_store f w))"
  by (auto simp: calm_def on_store_fst healthy_def)

lemma calm_same: "calm w \<Longrightarrow> calm (tick w)" "calm w \<Longrightarrow> calm (print_line l w)" "calm w \<Longrightarrow> calm (w\<lparr>w_events := Some evs\<rparr>)"
  "calm w \<Longrightarrow> calm (w\<lparr>w_disk := d\<rparr>)" "calm w \<Longrightarrow> calm (w\<lparr>w_summary := sm\<rparr>)" "calm w \<Longrightarrow> healthy (w_store w)"
  by (simp_all add: calm_def tick_def print_line_def)

lemma calm_meddle: "calm w \<Longrightarrow> meddle runID w = tick w"
  by (simp add: meddle_def calm_def)

lemma calm_query: "calm w \<Longrightarrow> calm_step k w (fst (on_store (query q) w))"
  by (simp add: calm_step_def calm_on_store frame_simps)

lemma calm_update_attempt: "calm w \<Longrightarrow> calm_step k w (fst (on_store (update_attempt i g) w))"
  by (simp add: calm_step_def calm_on_store frame_simps)

lemma calm_step_trans: "calm_step k a b \<Longrightarrow> calm_step k b c \<Longrightarrow> calm_step k a c"
  by (simp add: calm_step_def)

lemma run_row_save: "run_row k (fst (on_store (SaveProviderResource t i r) w)) = run_row k w"
  by (simp add: run_row_def on_store_fst frame_simps)

text \<open>Recording a resource succeeds, and so does the reference of the job.\<close>

lemma persist_calm:
  assumes "calm w" and "persistProviderResource red r ids w = (w', ids', err)"
  shows "err = None \<and> calm_step k w w'"
proof -
  have t: "calm (tick w)" using assms(1) by (rule calm_same)
  have s: "calm (fst (on_store (SaveProviderResource a b x) (tick w)))" for a b x
    by (rule calm_on_store [OF t]) (simp add: frame_simps)
  have ok: "snd (on_store (SaveProviderResource a b x) (tick w)) = Inr (resource_defaults a b x)" for a b x
    using calm_same(6) [OF t] by (simp add: on_store_fst save_resource_healthy)
  have pair: "on_store (SaveProviderResource a b x) (tick w)
      = (fst (on_store (SaveProviderResource a b x) (tick w)), Inr (resource_defaults a b x))" for a b x
    using ok [of a b x] by (metis prod.collapse)
  have row: "run_row k (fst (on_store (SaveProviderResource a b x) (tick w))) = run_row k w" for a b x
    by (simp add: run_row_save)
  show ?thesis
    using assms(2) s row unfolding persistProviderResource_def Let_def calm_step_def
    by (subst (asm) pair) (auto split: if_splits)
qed

lemma ref_calm:
  assumes "calm w" and "on_store (UpdateAttemptProviderRef i p) w = (w', err)"
  shows "err = None \<and> calm_step k w w'"
  using assms calm_update_attempt [OF assms(1)] on_store_fst(2) [of "UpdateAttemptProviderRef i p" w]
    update_attempt_ok [OF calm_same(6) [OF assms(1)]]
  by (auto simp: UpdateAttemptProviderRef_def) (metis fst_conv)+

lemma run_submit_calm:
  "calm w \<Longrightarrow> run_submit runID i red p ids w = (w', res, err) \<Longrightarrow>
    calm_step k w w' \<and> (res, err) = ending p (\<lambda>n. None) n"
proof (induction p arbitrary: ids w n)
  case (Done r e)
  then show ?case by (simp add: calm_step_def)
next
  case (Started ref c)
  obtain w1 e where w1: "on_store (UpdateAttemptProviderRef i (redact_string red ref)) w = (w1, e)" by fastforce
  from ref_calm [OF Started.prems(1) w1, of k] have e: "e = None" "calm_step k w w1" by auto
  from Started.prems(2) w1 e have "run_submit runID i red (c None) ids w1 = (w', res, err)" by simp
  from Started.IH [OF _ _ this, of "Suc n"] e show ?case
    by (auto simp: calm_step_def)
next
  case (ResourceSaved r c)
  obtain w1 ids1 e where w1: "persistProviderResource red r ids w = (w1, ids1, e)" by (metis prod_cases3)
  from persist_calm [OF ResourceSaved.prems(1) w1, of k] have e: "e = None" "calm_step k w w1" by auto
  from ResourceSaved.prems(2) w1 e have "run_submit runID i red (c None) ids1 w1 = (w', res, err)" by simp
  from ResourceSaved.IH [OF _ _ this, of "Suc n"] e show ?case
    by (auto simp: calm_step_def)
next
  case (EventWritten ev p)
  from EventWritten.prems(2) obtain evs where "run_submit runID i red p ids (w\<lparr>w_events := Some evs\<rparr>) = (w', res, err)"
    by simp
  from EventWritten.IH [OF _ this, of n] calm_same(3) [OF EventWritten.prems(1)] show ?case
    by (auto simp: calm_step_def)
next
  case (Act a p)
  from Act.IH [OF Act.prems(1), of ids n] Act.prems(2) show ?case by simp
next
  case (Meanwhile p)
  from Meanwhile.IH [OF calm_same(1) [OF Meanwhile.prems(1)], of ids n] Meanwhile.prems show ?case
    by (simp add: calm_meddle calm_step_def)
qed

lemma summary_calm:
  assumes "calm w" and "run_row (rx_run_id rx) w = Some row"
  shows "\<exists>w'. writeSummary rx w = (w', None) \<and> calm_step k w w'"
proof -
  have ok: "db_ok (rx_run_id rx) w" using assms by (simp add: db_ok_def calm_def)
  obtain w1 r1 where w1: "on_store (GetRun (rx_run_id rx)) w = (w1, r1)" by fastforce
  obtain r where r1: "r1 = Inr r" using get_run_row [OF ok w1] by auto
  have c1: "calm_step k w w1" using calm_query [OF assms(1)] w1 unfolding GetRun_def by (metis fst_conv)
  obtain w2 r2 where w2: "on_store (AttemptsByRun (rx_run_id rx)) w1 = (w2, r2)" by fastforce
  have c2: "calm_step k w1 w2" using calm_query [of w1] c1 w2 unfolding AttemptsByRun_def calm_step_def by (metis fst_conv)
  obtain attempts where r2: "r2 = Inr attempts"
    using on_store_fst(2) [of "AttemptsByRun (rx_run_id rx)" w1] w2 c1 calm_same(6) [of w1]
    by (auto simp: AttemptsByRun_def query_healthy calm_step_def)
  obtain events where ev: "ReadJSONL (w_events w2) = Inr events"
    using c1 c2 by (auto simp: ReadJSONL_def calm_step_def calm_def split: option.split)
  obtain w3 r3 where w3: "on_store (GetRoutingDecision (rx_run_id rx)) w2 = (w3, r3)" by fastforce
  have c3: "calm_step k w2 w3" using calm_query [of w2] c2 w3 unfolding GetRoutingDecision_def calm_step_def by (metis fst_conv)
  then have calm3: "calm w3" by (simp add: calm_step_def)
  have wr: "write_summary_file sm w3 = ((tick w3)\<lparr>w_summary := Some sm\<rparr>, None)" for sm
    using calm3 by (simp add: write_summary_file_def calm_def)
  have "calm_step k w3 ((tick w3)\<lparr>w_summary := Some sm\<rparr>)" for sm
    using calm_same(5) [OF calm_same(1) [OF calm3]] by (simp add: calm_step_def run_row_def tick_def)
  then have "calm_step k w ((tick w3)\<lparr>w_summary := Some sm\<rparr>)" for sm
    using calm_step_trans [OF c1 calm_step_trans [OF c2 calm_step_trans [OF c3]]] by blast
  then show ?thesis
    using w1 r1 w2 r2 ev w3 wr by (auto simp: writeSummary_def)
qed
text \<open>How \<open>settle_done\<close> ends a run that nobody cancelled.\<close>

definition outcome_row :: "int \<Rightarrow> run_row \<Rightarrow> bool" where
  "outcome_row code row \<longleftrightarrow> rr_state row = (if code = 0 then RunSucceeded else RunFailed) \<and> rr_exit_code row = code"

lemma settle_done_calm:
  assumes "calm w" and "run_row (rx_run_id rx) w = Some row" and "rr_state row = RunRunning"
  shows "\<exists>w'. settle_done rx i red res w = (w', sr_exit_code res, False, None)
    \<and> (\<exists>row'. run_row (rx_run_id rx) w' = Some row' \<and> outcome_row (sr_exit_code res) row')"
proof -
  let ?id = "rx_run_id rx" and ?c = "sr_exit_code res"
  have ok: "db_ok ?id w" using assms by (simp add: db_ok_def calm_def)
  obtain w1 r1 where w1: "on_store (GetRun ?id) w = (w1, r1)" by fastforce
  from get_run_row [OF ok w1] assms(2) have r1: "r1 = Inr (scan_run row)" "run_row ?id w1 = Some row" "db_ok ?id w1" by auto
  have "calm w1" using calm_query [OF assms(1), of ?id] w1 unfolding GetRun_def calm_step_def by (metis fst_conv)
  then have c2: "calm (tick w1)" "db_ok ?id (tick w1)" "run_row ?id (tick w1) = Some row"
    using calm_same(1) r1 db_ok_adds [OF keeps_tick] by auto
  define ast where "ast = (if ?c \<noteq> 0 then AttemptFailed else AttemptSucceeded)"
  define st where "st = (if ?c \<noteq> 0 then RunFailed else RunSucceeded)"
  define why where "why = redact_string red (sr_exit_reason res)"
  define ref where "ref = redact_string red (sr_job_ref res)"
  obtain w3 e3 where w3: "on_store (FinishAttempt i ast ?c why ref (now w1)) (tick w1) = (w3, e3)" by fastforce
  from finish_attempt_row [OF c2(2) w3, of ?id] have e3: "e3 = None" "run_row ?id w3 = Some row" "db_ok ?id w3"
    using c2(3) by auto
  have c3: "calm w3" using calm_update_attempt [OF c2(1)] w3 unfolding FinishAttempt_def calm_step_def by (metis fst_conv)
  obtain w4 e4 where w4: "on_store (FinishRun ?id st ?c why (now w1)) w3 = (w4, e4)" by fastforce
  from finish_run_row [OF e3(3) w4] e3(2) have e4: "e4 = None" "run_row ?id w4 = Some (set_outcome st ?c why (now w1) row)" by auto
  have c4: "calm w4"
    using calm_on_store [OF c3, of "FinishRun ?id st ?c why (now w1)"] w4 by (simp add: FinishRun_def frame_simps)
  obtain w5 where w5: "writeSummary rx w4 = (w5, None)" "calm_step ?id w4 w5" using summary_calm [OF c4 e4(2)] by blast
  have "settle_done rx i red res w = (print_line (''Run '' @ ?id @ '' '' @ run_state_string st) w5, ?c, False, None)"
    using w1 r1 w3 e3(1) w4 e4(1) w5(1) assms(3)
    by (simp add: settle_done_def Let_def ast_def st_def why_def ref_def scan_run_def)
  moreover have "run_row ?id (print_line l w5) = Some (set_outcome st ?c why (now w1) row)" for l
    using w5(2) e4(2) by (simp add: calm_step_def)
  ultimately show ?thesis by (auto simp: outcome_row_def set_outcome_def st_def)
qed

text \<open>What the loop asks of a fixed provider that is not the local one, for its first attempt.\<close>

definition first_request :: "loop_ctx \<Rightarrow> string \<Rightarrow> string \<Rightarrow> submit_request" where
  "first_request lc provider attemptID =
     \<lparr>rq_job = lc_job lc, rq_run_id = rx_run_id (lc_run lc), rq_attempt_id = attemptID, rq_resume = None,
      rq_hardware = None, rq_env = runtimeEnvForProvider provider (rx_run_id (lc_run lc)) attemptID []
        (rx_paths (lc_run lc)) (rs_staging (lc_resolved lc)) (job_data (lc_job lc)),
      rq_run_dir = p_run_dir (rx_paths (lc_run lc))\<rparr>"

lemma submit_attempt_calm:
  assumes "calm w" and "run_row (rx_run_id (lc_run lc)) w = Some row" and "rr_state row = RunRunning"
    and "ad_estimate adapter (lc_job lc) = Inr est"
    and "ending (ad_submit adapter (first_request lc p i)) (\<lambda>n. None) 0 = (res, None)"
  shows "\<exists>w'. submit_attempt (attempt_of lc None p None) adapter i (lc_job lc) w = (w', sr_exit_code res, False, None)
    \<and> (\<exists>row'. run_row (rx_run_id (lc_run lc)) w' = Some row' \<and> outcome_row (sr_exit_code res) row')"
proof -
  let ?id = "rx_run_id (lc_run lc)"
  define env where "env = runtimeEnvForProvider p ?id i [] (rx_paths (lc_run lc)) (rs_staging (lc_resolved lc)) (job_data (lc_job lc))"
  define red where "red = FromEnvironment (rx_environ (lc_run lc)) [job_env (lc_job lc), env]"
  have estimate: "attempt_estimate (attempt_of lc None p None) adapter (lc_job lc) = Inr est"
    using assms(4) by (simp add: attempt_estimate_def attempt_of_def)
  have ok: "db_ok ?id w" using assms by (simp add: db_ok_def calm_def)
  obtain w1 e1 where w1: "on_store (UpdateAttemptEstimate i est) w = (w1, e1)" by fastforce
  have e1: "e1 = None" using update_estimate_ok [OF ok w1] by simp
  have c1: "calm_step ?id w w1" using calm_update_attempt [OF assms(1)] w1 unfolding UpdateAttemptEstimate_def by (metis fst_conv)
  obtain w2 res2 e2 where w2: "run_submit ?id i red (ad_submit adapter (first_request lc p i)) [] w1 = (w2, res2, e2)"
    by (metis prod_cases3)
  have "calm_step ?id w1 w2" "(res2, e2) = (res, None)"
    using run_submit_calm [OF _ w2, of ?id 0] c1 assms(5) by (auto simp: calm_step_def)
  then have w2': "calm w2" "run_row ?id w2 = Some row" "res2 = res" "e2 = None"
    using c1 assms(2) by (auto simp: calm_step_def)
  have "submit_attempt (attempt_of lc None p None) adapter i (lc_job lc) w = settle_done (lc_run lc) i red res w2"
    using estimate w1 e1 w2 w2'(3,4)
    by (simp add: submit_attempt_def attempt_of_def Let_def first_request_def red_def env_def)
  with settle_done_calm [OF w2'(1,2) assms(3)] show ?thesis by simp
qed

lemma run_attempt_calm:
  assumes "calm w" and "ids_unused w"
    and "run_row (rx_run_id (lc_run lc)) w = Some row" and "rr_state row = RunRunning"
    and "p \<noteq> provider_local" and "registry_get (lc_registry lc) p = Inr adapter"
    and "sup_supported (ad_validate adapter (lc_job lc))" and "ad_estimate adapter (lc_job lc) = Inr est"
    and "ending (ad_submit adapter (first_request lc p (fresh w))) (\<lambda>n. None) 0 = (res, None)"
  shows "\<exists>w'. runAttempt (attempt_of lc None p None) w = (w', sr_exit_code res, False, None)
    \<and> (\<exists>row'. run_row (rx_run_id (lc_run lc)) w' = Some row' \<and> outcome_row (sr_exit_code res) row')"
proof -
  let ?ac = "attempt_of lc None p None" and ?id = "rx_run_id (lc_run lc)"
  have ok: "db_ok (rx_run_id (ac_run ?ac)) w" using assms by (simp add: db_ok_def calm_def attempt_of_def)
  obtain w1 e1 where w1: "on_store (CreateAttempt (new_attempt ?ac (fresh w) (now w))) (tick w) = (w1, e1)" by fastforce
  have e1: "e1 = None" using create_attempt_row [OF ok assms(2) w1] by simp
  have "w1 = fst (on_store (CreateAttempt (new_attempt ?ac (fresh w) (now w))) (tick w))" using w1 by simp
  moreover have "calm (fst (on_store (CreateAttempt a) (tick w)))" for a
    by (rule calm_on_store [OF calm_same(1) [OF assms(1)]]) (simp add: frame_simps)
  ultimately have "calm w1" "run_row ?id w1 = Some row"
    using assms(3) by (simp_all add: frame_simps run_row_def on_store_fst tick_def)
  from submit_attempt_calm [OF this assms(4,8), of p "fresh w"] assms(9)
  show ?thesis
    using w1 e1 assms(5,6,7)
    by (auto simp: runAttempt_def Let_def prepare_on_disk_def attempt_of_def)
qed

lemma run_exit_code:
  assumes "calm w" and "ids_unused w"
    and "run_row (rx_run_id (lc_run lc)) w = Some row" and "rr_state row = RunRunning"
    and "rs_provider (lc_resolved lc) = p" and "p \<notin> set [provider_auto, provider_local]"
    and "registry_get (lc_registry lc) p = Inr adapter"
    and "sup_supported (ad_validate adapter (lc_job lc))" and "ad_estimate adapter (lc_job lc) = Inr est"
    and "ending (ad_submit adapter (first_request lc p (fresh w))) (\<lambda>n. None) 0 = (res, None)"
  shows "fst (snd (runAttempts lc None w)) = sr_exit_code res \<and> snd (snd (runAttempts lc None w)) = None
    \<and> (case run_row (rx_run_id (lc_run lc)) (fst (runAttempts lc None w)) of
         None \<Rightarrow> False | Some row' \<Rightarrow> outcome_row (sr_exit_code res) row')"
proof -
  obtain w' where "runAttempt (attempt_of lc None p None) w = (w', sr_exit_code res, False, None)"
    "\<exists>row'. run_row (rx_run_id (lc_run lc)) w' = Some row' \<and> outcome_row (sr_exit_code res) row'"
    using run_attempt_calm [OF assms(1-4) _ assms(7-10)] assms(6) by auto
  moreover obtain n where "max_attempts lc = Suc n" using runAttempts_loop(2) [of lc] by (cases "max_attempts lc") auto
  moreover have "choose_provider lc [] None w = (w, Inr (p, None))"
    using assms(5,6) by (simp add: choose_provider_def Let_def)
  ultimately show ?thesis by (auto simp: runAttempts_loop)
qed

section \<open>Runs on the mock provider\<close>

lemma ending_scripted: "ending (foldr (scripted_event red req t) evs p) ans n = ending p ans n"
  by (induction evs) (simp_all add: scripted_event_def Let_def effect_simps)

lemma ending_mock:
  assumes "failureError c = None" and "mn_open_logs ses = None" and "mn_open_events ses = None"
  shows "ending (mock_submit c ses req) (\<lambda>n. None) 0
    = (\<lparr>sr_job_ref = ''mock:'' @ mk_name c @ '':'' @ rq_attempt_id req, sr_exit_code = 0, sr_exit_reason = ''completed''\<rparr>, None)"
  using assms by (simp add: mock_submit_def Let_def effect_simps ending_scripted split: option.split)

end
