(* ===== verification/Wiring.thy ===== *)
theory Wiring
  imports Providers Lambda ChinaVm Gcp CredentialStore
begin

text \<open>
  How \<open>internal/cli/root.go\<close> makes providers out of a configuration and registers them. The sessions of
  the services are given for each provider; the factories that a test may put in place of a provider
  are options of the program.
\<close>

section \<open>The configurations of the providers\<close>

text \<open>\<open>VMProviderConfig\<close>, and the configuration of the runtime that \<open>NewVMProvider\<close> makes of it.\<close>

record vm_provider_config =
  vp_region :: string
  vp_zone :: string
  vp_instance_type :: string
  vp_image_id :: string
  vp_ssh_user :: string
  vp_ssh_private_key :: string
  vp_ssh_key_name :: string
  vp_vpc_id :: string
  vp_subnet_id :: string
  vp_security_group :: string
  vp_disk_type :: string
  vp_disk_size :: int
  vp_bandwidth :: int
  vp_poll_interval :: int
  vp_api_timeout :: int
  vp_connect_timeout :: int
  vp_ready_timeout :: int
  vp_terminate :: bool
  vp_terminate_set :: bool
  vp_keep_on_failure :: bool
  vp_hourly_usd :: rat
  vp_project :: string
  vp_endpoint :: string
  vp_shapes :: "hardware_shape list"

definition vm_runtime_config :: "cloud_definition \<Rightarrow> vm_provider_config \<Rightarrow> vm_config" where
  "vm_runtime_config def c =
     \<lparr>vc_region = vp_region c, vc_zone = vp_zone c, vc_instance_type = vp_instance_type c, vc_image_id = vp_image_id c,
      vc_ssh_user = vp_ssh_user c, vc_ssh_private_key = vp_ssh_private_key c, vc_ssh_key_name = vp_ssh_key_name c,
      vc_network_id = vp_vpc_id c, vc_subnet_id = vp_subnet_id c, vc_vswitch_id = vp_subnet_id c,
      vc_security_group = vp_security_group c, vc_disk_type = vp_disk_type c, vc_disk_size = vp_disk_size c,
      vc_bandwidth = vp_bandwidth c, vc_poll_interval = vp_poll_interval c, vc_connect_timeout = vp_connect_timeout c,
      vc_ready_timeout = vp_ready_timeout c, vc_terminate = vp_terminate c, vc_terminate_set = vp_terminate_set c,
      vc_keep_on_failure = vp_keep_on_failure c, vc_hourly_usd = vp_hourly_usd c, vc_project = vp_project c,
      vc_require_project = (cd_name def = ''huawei-cloud''), vc_shapes = vp_shapes c\<rparr>"

text \<open>\<open>newVMClient\<close> knows the five clouds of the table.\<close>

definition has_vm_client :: "cloud_definition \<Rightarrow> bool" where
  "has_vm_client def \<longleftrightarrow> cd_name def \<in>
     set [''alibaba-cloud'', ''huawei-cloud'', ''tencent-cloud'', ''tianyi-cloud'', ''baidu-ai-cloud'']"

definition NewVMProvider :: "cloud_definition \<Rightarrow> vm_provider_config \<Rightarrow> vm_session \<Rightarrow> adapter" where
  "NewVMProvider def c ses = china_adapter (vm_runtime_config def c) def
     (ses\<lparr>vs_runtime := has_vm_client def, vs_client := has_vm_client def\<rparr>)"

text \<open>\<open>New(definition)\<close>: a provider that can only be checked; its runtime configuration is not read.\<close>

definition readiness_adapter :: "cloud_definition \<Rightarrow> vm_session \<Rightarrow> adapter" where
  "readiness_adapter def ses = china_adapter
     \<lparr>vc_region = [], vc_zone = [], vc_instance_type = [], vc_image_id = [], vc_ssh_user = [], vc_ssh_private_key = [],
      vc_ssh_key_name = [], vc_network_id = [], vc_subnet_id = [], vc_vswitch_id = [], vc_security_group = [],
      vc_disk_type = [], vc_disk_size = 0, vc_bandwidth = 0, vc_poll_interval = 0, vc_connect_timeout = 0,
      vc_ready_timeout = 0, vc_terminate = False, vc_terminate_set = False, vc_keep_on_failure = False,
      vc_hourly_usd = 0, vc_project = [], vc_require_project = False, vc_shapes = []\<rparr>
     def (ses\<lparr>vs_runtime := False, vs_client := False\<rparr>)"

definition chinaVMProviderConfigFromConfig :: "china_provider_config \<Rightarrow> vm_provider_config" where
  "chinaVMProviderConfigFromConfig cfg =
     \<lparr>vp_region = cp_region cfg, vp_zone = cp_zone cfg, vp_instance_type = cp_instance_type cfg,
      vp_image_id = cp_image_id cfg, vp_ssh_user = cp_ssh_user cfg, vp_ssh_private_key = cp_ssh_private_key cfg,
      vp_ssh_key_name = cp_ssh_key_name cfg, vp_vpc_id = cp_vpc_id cfg, vp_subnet_id = cp_subnet_id cfg,
      vp_security_group = cp_security_group cfg, vp_disk_type = cp_disk_category cfg, vp_disk_size = cp_disk_gb cfg,
      vp_bandwidth = cp_bandwidth cfg, vp_poll_interval = cp_poll_interval cfg, vp_api_timeout = cp_api_timeout cfg,
      vp_connect_timeout = cp_ssh_connect_timeout cfg, vp_ready_timeout = cp_ssh_ready_timeout cfg,
      vp_terminate = (case cp_terminate cfg of None \<Rightarrow> True | Some b \<Rightarrow> b),
      vp_terminate_set = (cp_terminate cfg \<noteq> None), vp_keep_on_failure = cp_keep_on_failure cfg,
      vp_hourly_usd = cp_estimate_usd cfg,
      vp_project = (if cp_project_id cfg = [] then cp_account_id cfg else cp_project_id cfg),
      vp_endpoint = cp_endpoint cfg, vp_shapes = []\<rparr>"

definition gcpConfigFromConfig :: "gcp_config \<Rightarrow> gcp_settings" where
  "gcpConfigFromConfig cfg =
     \<lparr>gs_project = gc_project_id cfg, gs_location = gc_location cfg, gs_output_prefix = gc_output_prefix cfg,
      gs_machine_type = gc_machine_type cfg, gs_accelerator_type = gc_accelerator_type cfg,
      gs_accelerator_count = gc_accelerator_count cfg, gs_boot_disk_type = gc_boot_disk_type cfg,
      gs_boot_disk_gb = gc_boot_disk_gb cfg, gs_service_account = gc_service_account cfg, gs_network = gc_network cfg,
      gs_poll_interval = gc_poll_interval cfg, gs_estimate_usd = gc_estimate_usd cfg, gs_repository = gc_repository cfg\<rparr>"

definition lambdaConfigFromConfig :: "(string \<Rightarrow> string) \<Rightarrow> Config.lambda_config \<Rightarrow> Lambda.lambda_config" where
  "lambdaConfigFromConfig getenv cfg =
     \<lparr>lm_region = lc_region cfg, lm_instance_type = lc_instance_type cfg, lm_ssh_key_name = lc_ssh_key_name cfg,
      lm_ssh_private_key = lc_ssh_private_key cfg, lm_image_family = lc_image_family cfg,
      lm_registry = \<lparr>ra_server = registry_auth_config.ra_server (lc_registry_auth cfg),
        ra_username = getenv (ra_username_env (lc_registry_auth cfg)),
        ra_password = getenv (ra_password_env (lc_registry_auth cfg))\<rparr>,
      lm_poll_interval = lc_poll_interval cfg,
      lm_terminate = (case lc_terminate cfg of None \<Rightarrow> True | Some b \<Rightarrow> b),
      lm_terminate_set = (lc_terminate cfg \<noteq> None), lm_keep_on_failure = lc_keep_on_failure cfg,
      lm_api_timeout = lc_api_timeout cfg, lm_connect_timeout = lc_ssh_connect_timeout cfg,
      lm_ready_timeout = lc_ssh_ready_timeout cfg\<rparr>"

section \<open>The mock providers\<close>

definition default_mocks :: "mock_provider_config list" where
  "default_mocks =
     [\<lparr>mp_name = ''mock-lambda'', mp_hourly_cost = 110 / 100, mp_failure_mode = ''capacity'', mp_shapes = [], mp_events = []\<rparr>,
      \<lparr>mp_name = ''mock-gcp'', mp_hourly_cost = 130 / 100, mp_failure_mode = [], mp_shapes = [], mp_events = []\<rparr>]"

text \<open>The map by names, whose order is open after the two default names.\<close>

definition mocks_by_name :: "mock_provider_config list \<Rightarrow> mock_provider_config smap" where
  "mocks_by_name items = fold (\<lambda>item m. AList.update (mp_name item) item m) (default_mocks @ items) []"

definition mergedMockProviders :: "mock_provider_config list \<Rightarrow> mock_provider_config list" where
  "mergedMockProviders items =
     (if items = [] then default_mocks
      else let byName = mocks_by_name items; names = [''mock-lambda'', ''mock-gcp''] in
        List.map_filter (map_of byName) names @ map snd (filter (\<lambda>(n, item). n \<notin> set names) byName))"

definition mockEvents :: "mock_event_config list \<Rightarrow> event list" where
  "mockEvents configs = map (\<lambda>cfg.
     \<lparr>ev_type = event_type_of (me_type cfg), ev_run_id = [], ev_attempt_id = [], ev_timestamp = zero_time,
      ev_step = me_step cfg, ev_epoch = None, ev_split = me_split cfg, ev_state = me_state cfg,
      ev_checkpoint_uri = me_checkpoint_uri cfg, ev_message = me_message cfg, ev_metrics = me_metrics cfg,
      ev_fields = None\<rparr>) configs"

definition mock_of_config :: "mock_provider_config \<Rightarrow> mock_config" where
  "mock_of_config item = \<lparr>mk_name = mp_name item, mk_hourly_cost = mp_hourly_cost item,
     mk_failure_mode = mp_failure_mode item, mk_shapes = mp_shapes item, mk_events = mockEvents (mp_events item)\<rparr>"

section \<open>Which providers are registered\<close>

text \<open>The sessions of the providers, the environment, the accelerators that the client library of Google
  knows, and the factories of \<open>Options\<close>.\<close>

record wiring =
  wi_getenv :: "string \<Rightarrow> string"
  wi_known :: "string \<Rightarrow> bool"
  wi_local :: local_session
  wi_mock :: "string \<Rightarrow> mock_session"
  wi_gcp :: gcp_session
  wi_lambda :: lambda_session
  wi_china :: "string \<Rightarrow> vm_session"
  wi_gcp_factory :: "(gcp_config \<Rightarrow> adapter) option"
  wi_lambda_factory :: "(Config.lambda_config \<Rightarrow> adapter) option"

definition shouldRegisterGCPForTrain :: "resolved_config \<Rightarrow> bool" where
  "shouldRegisterGCPForTrain r =
     (if rs_provider r = ''gcp'' then True else if rs_provider r \<noteq> provider_auto then False
      else gc_project_id (rs_gcp r) \<noteq> [] \<and> gc_output_prefix (rs_gcp r) \<noteq> [])"

definition shouldRegisterLambdaForTrain :: "resolved_config \<Rightarrow> bool" where
  "shouldRegisterLambdaForTrain r =
     (if rs_provider r = ''lambda'' then True else if rs_provider r \<noteq> provider_auto then False
      else lc_region (rs_lambda r) \<noteq> [] \<and> lc_instance_type (rs_lambda r) \<noteq> []
        \<and> lc_ssh_key_name (rs_lambda r) \<noteq> [] \<and> lc_ssh_private_key (rs_lambda r) \<noteq> [])"

definition chinaCloudProviderConfigured :: "china_provider_config \<Rightarrow> bool" where
  "chinaCloudProviderConfigured cfg \<longleftrightarrow> cp_region cfg \<noteq> [] \<or> cp_instance_type cfg \<noteq> [] \<or> cp_image_id cfg \<noteq> []
     \<or> cp_subnet_id cfg \<noteq> [] \<or> cp_security_group cfg \<noteq> [] \<or> cp_ssh_key_name cfg \<noteq> [] \<or> cp_ssh_private_key cfg \<noteq> []"

definition chinaProviderConfigByName :: "china_config \<Rightarrow> string \<Rightarrow> china_provider_config" where
  "chinaProviderConfigByName china name =
     (if name = ''alibaba-cloud'' then cc_alibaba china else if name = ''huawei-cloud'' then cc_huawei china
      else if name = ''tencent-cloud'' then cc_tencent china else if name = ''tianyi-cloud'' then cc_tianyi china
      else if name = ''baidu-ai-cloud'' then cc_baidu china else zero_china_provider)"

definition shouldRegisterAnyChinaVMForTrain :: "resolved_config \<Rightarrow> bool" where
  "shouldRegisterAnyChinaVMForTrain r =
     (if isChinaCloudProvider (rs_provider r) then True else if rs_provider r \<noteq> provider_auto then False
      else list_ex (\<lambda>name. chinaCloudProviderConfigured (chinaProviderConfigByName (rs_china r) name)) Names)"

definition china_cloud_adapter :: "wiring \<Rightarrow> china_config \<Rightarrow> cloud_definition \<Rightarrow> adapter" where
  "china_cloud_adapter wi china def =
     (let cfg = chinaProviderConfigByName china (cd_name def); ses = wi_china wi (cd_name def) in
      if chinaCloudProviderConfigured cfg then NewVMProvider def (chinaVMProviderConfigFromConfig cfg) ses
      else readiness_adapter def ses)"

definition chinaCloudAdapters :: "wiring \<Rightarrow> china_config \<Rightarrow> adapter list" where
  "chinaCloudAdapters wi china = map (china_cloud_adapter wi china) Definitions"

definition gcp_provider :: "wiring \<Rightarrow> gcp_config \<Rightarrow> adapter" where
  "gcp_provider wi cfg = (case wi_gcp_factory wi of
      Some f \<Rightarrow> f cfg | None \<Rightarrow> gcp_adapter (wi_known wi) (gcpConfigFromConfig cfg) (wi_gcp wi))"

definition lambda_provider :: "wiring \<Rightarrow> Config.lambda_config \<Rightarrow> adapter" where
  "lambda_provider wi cfg = (case wi_lambda_factory wi of
      Some f \<Rightarrow> f cfg | None \<Rightarrow> lambda_adapter (lambdaConfigFromConfig (wi_getenv wi) cfg) (wi_lambda wi))"

definition provider_adapters ::
  "wiring \<Rightarrow> mock_provider_config list \<Rightarrow> gcp_config \<Rightarrow> Config.lambda_config \<Rightarrow> china_config \<Rightarrow> bool \<Rightarrow> bool \<Rightarrow> adapter list" where
  "provider_adapters wi mock gcp lambda china includeGCP includeLambda =
     local_adapter (wi_local wi) # chinaCloudAdapters wi china
     @ map (\<lambda>item. mock_adapter (mock_of_config item) (wi_mock wi (mp_name item))) (mergedMockProviders mock)
     @ (if includeGCP then [gcp_provider wi gcp] else [])
     @ (if includeLambda then [lambda_provider wi lambda] else [])"

definition buildProviderRegistryWithOptions ::
  "wiring \<Rightarrow> mock_provider_config list \<Rightarrow> gcp_config \<Rightarrow> Config.lambda_config \<Rightarrow> china_config \<Rightarrow> bool \<Rightarrow> bool
    \<Rightarrow> gerror + registry" where
  "buildProviderRegistryWithOptions wi mock gcp lambda china includeGCP includeLambda =
     new_registry (provider_adapters wi mock gcp lambda china includeGCP includeLambda)"

definition buildTrainProviderRegistry :: "wiring \<Rightarrow> resolved_config \<Rightarrow> gerror + registry" where
  "buildTrainProviderRegistry wi r =
     buildProviderRegistryWithOptions wi (rs_mock r) (rs_gcp r) (rs_lambda r) (rs_china r)
       (shouldRegisterGCPForTrain r) (shouldRegisterLambdaForTrain r)"

definition buildPlanProviderRegistry :: "wiring \<Rightarrow> resolved_config \<Rightarrow> gerror + registry" where
  "buildPlanProviderRegistry wi r =
     buildProviderRegistryWithOptions wi (rs_mock r) (rs_gcp r) (rs_lambda r) (rs_china r)
       (shouldRegisterGCPForTrain r) (shouldRegisterLambdaForTrain r)"

definition buildProviderRegistry :: "wiring \<Rightarrow> mock_provider_config list \<Rightarrow> gcp_config \<Rightarrow> gerror + registry" where
  "buildProviderRegistry wi mock gcp =
     buildProviderRegistryWithOptions wi mock gcp (cf_lambda zero_file) (cf_china zero_file) True True"

text \<open>The resolver of the credentials that a run needs: none is opened when no provider wants it.\<close>

definition credentialResolverForTrain ::
  "wiring \<Rightarrow> cred_process \<Rightarrow> fs \<Rightarrow> resolved_config \<Rightarrow> gerror + file_store option" where
  "credentialResolverForTrain wi p s r =
     (if wi_lambda_factory wi \<noteq> None \<and> \<not> shouldRegisterAnyChinaVMForTrain r then Inr None
      else if \<not> shouldRegisterLambdaForTrain r \<and> \<not> shouldRegisterAnyChinaVMForTrain r then Inr None
      else optionalCredentialResolverAtHome p (rs_home r) s)"

section \<open>The names of a registry\<close>

lemma mocks_fold:
  "list_all (\<lambda>(n, item). mp_name item = n) m \<Longrightarrow> distinct (map fst m) \<Longrightarrow>
    list_all (\<lambda>(n, item). mp_name item = n) (fold (\<lambda>item m. AList.update (mp_name item) item m) items m)
    \<and> distinct (map fst (fold (\<lambda>item m. AList.update (mp_name item) item m) items m))
    \<and> set (map fst (fold (\<lambda>item m. AList.update (mp_name item) item m) items m)) = set (map fst m) \<union> set (map mp_name items)"
proof (induction items arbitrary: m)
  case Nil
  then show ?case by simp
next
  case (Cons item items)
  have "list_all (\<lambda>(n, i). mp_name i = n) (AList.update (mp_name item) item m)"
    using Cons.prems(1) set_update_subset [of "mp_name item" item m] by (fastforce simp: list_all_iff)
  moreover have "distinct (map fst (AList.update (mp_name item) item m))"
    using Cons.prems(2) by (simp add: distinct_update)
  moreover have "fst ` set (AList.update (mp_name item) item m) = insert (mp_name item) (fst ` set m)"
    using dom_update [of "mp_name item" item m] by (simp add: dom_map_of_conv_image_fst)
  ultimately show ?case using Cons.IH [of "AList.update (mp_name item) item m"] by auto
qed

lemma mocks_by_name:
  "list_all (\<lambda>(n, item). mp_name item = n) (mocks_by_name items)" "distinct (map fst (mocks_by_name items))"
  "set (map fst (mocks_by_name items)) = {''mock-lambda'', ''mock-gcp''} \<union> set (map mp_name items)"
  using mocks_fold [of "[]" "default_mocks @ items"] by (simp_all add: mocks_by_name_def default_mocks_def)

lemma merged_names:
  "distinct (map mp_name (mergedMockProviders items))"
  "set (map mp_name (mergedMockProviders items)) = {''mock-lambda'', ''mock-gcp''} \<union> set (map mp_name items)"
proof -
  let ?m = "mocks_by_name items" and ?d = "[''mock-lambda'', ''mock-gcp'']"
  have *: "distinct (map mp_name (mergedMockProviders items))
    \<and> set (map mp_name (mergedMockProviders items)) = {''mock-lambda'', ''mock-gcp''} \<union> set (map mp_name items)"
  proof (cases "items = []")
    case True
    then show ?thesis by (simp add: mergedMockProviders_def default_mocks_def)
  next
    case False
    have named: "map_of ?m n = Some i \<Longrightarrow> mp_name i = n" for n i
      using mocks_by_name(1) [of items] by (auto simp: list_all_iff dest: map_of_SomeD)
    have "map mp_name (map snd (filter (\<lambda>(n, i). n \<notin> ns) m)) = filter (\<lambda>n. n \<notin> ns) (map fst m)"
      if "list_all (\<lambda>(n, item). mp_name item = n) m" for ns m
      using that by (induction m) auto
    then have rest: "map mp_name (map snd (filter (\<lambda>(n, i). n \<notin> set ?d) ?m)) = filter (\<lambda>n. n \<notin> set ?d) (map fst ?m)"
      using mocks_by_name(1) [of items] by blast
    have "map_of ?m n \<noteq> None" if "n \<in> set ?d" for n
      using that mocks_by_name(3) [of items] by (auto simp: map_of_eq_None_iff)
    then obtain a b where "map_of ?m ''mock-lambda'' = Some a" "map_of ?m ''mock-gcp'' = Some b" by fastforce
    then have first: "map mp_name (List.map_filter (map_of ?m) ?d) = ?d"
      using named by (simp add: List.map_filter_simps)
    have eq: "map mp_name (mergedMockProviders items) = ?d @ filter (\<lambda>n. n \<notin> set ?d) (map fst ?m)"
      using False first rest by (simp add: mergedMockProviders_def Let_def)
    show ?thesis using mocks_by_name(2,3) [of items] unfolding eq by auto
  qed
  then show "distinct (map mp_name (mergedMockProviders items))"
    "set (map mp_name (mergedMockProviders items)) = {''mock-lambda'', ''mock-gcp''} \<union> set (map mp_name items)" by auto
qed

lemma cloud_names: "map cd_name Definitions = china_cloud_names"
  by (simp add: Definitions_def china_cloud_names_def)

lemma adapter_names [simp]:
  "ad_name (china_cloud_adapter wi china def) = cd_name def" "ad_name (local_adapter ses) = ''local''"
  "ad_name (mock_adapter m s) = mk_name m" "ad_name (gcp_adapter known c g) = ''gcp''"
  "ad_name (lambda_adapter l t) = ''lambda''"
  by (simp_all add: china_cloud_adapter_def NewVMProvider_def readiness_adapter_def china_adapter_def Let_def
      local_adapter_def provider_local_def mock_adapter_def gcp_adapter_def lambda_adapter_def)

text \<open>The names that a run registers besides those of the mock providers.\<close>

definition own_names :: "resolved_config \<Rightarrow> string list" where
  "own_names r = ''local'' # china_cloud_names @ (if shouldRegisterGCPForTrain r then [''gcp''] else [])
     @ (if shouldRegisterLambdaForTrain r then [''lambda''] else [])"

lemma distinct_own_names: "distinct (own_names r)"
  by (simp add: own_names_def china_cloud_names_def)

lemma default_names: "''mock-lambda'' \<notin> set (own_names r)" "''mock-gcp'' \<notin> set (own_names r)"
  by (simp_all add: own_names_def china_cloud_names_def)

lemma train_names:
  assumes "wi_gcp_factory wi = None" "wi_lambda_factory wi = None"
  shows "map ad_name (provider_adapters wi (rs_mock r) (rs_gcp r) (rs_lambda r) (rs_china r)
      (shouldRegisterGCPForTrain r) (shouldRegisterLambdaForTrain r))
    = ''local'' # china_cloud_names @ map mp_name (mergedMockProviders (rs_mock r))
      @ (if shouldRegisterGCPForTrain r then [''gcp''] else []) @ (if shouldRegisterLambdaForTrain r then [''lambda''] else [])"
  using assms
  by (simp add: provider_adapters_def chinaCloudAdapters_def gcp_provider_def lambda_provider_def comp_def
      cloud_names [symmetric] mock_of_config_def)

lemma registry_panics:
  "let wi = w\<lparr>wi_gcp_factory := None, wi_lambda_factory := None\<rparr> in
    (\<exists>e. buildTrainProviderRegistry wi r = Inl e) \<longleftrightarrow> list_ex (\<lambda>m. mp_name m \<in> set (own_names r)) (rs_mock r)"
proof -
  let ?wi = "w\<lparr>wi_gcp_factory := None, wi_lambda_factory := None\<rparr>"
  let ?as = "provider_adapters ?wi (rs_mock r) (rs_gcp r) (rs_lambda r) (rs_china r)
      (shouldRegisterGCPForTrain r) (shouldRegisterLambdaForTrain r)"
  have names: "map ad_name ?as = ''local'' # china_cloud_names @ map mp_name (mergedMockProviders (rs_mock r))
      @ (if shouldRegisterGCPForTrain r then [''gcp''] else []) @ (if shouldRegisterLambdaForTrain r then [''lambda''] else [])"
    by (rule train_names) simp_all
  have "(\<exists>e. buildTrainProviderRegistry ?wi r = Inl e) \<longleftrightarrow> \<not> (\<exists>reg. new_registry ?as = Inr reg)"
    by (cases "new_registry ?as") (auto simp: buildTrainProviderRegistry_def buildProviderRegistryWithOptions_def)
  also have "\<dots> \<longleftrightarrow> \<not> distinct (map ad_name ?as)" by (simp add: new_registry_panics)
  also have "\<dots> \<longleftrightarrow> set (own_names r) \<inter> set (map mp_name (mergedMockProviders (rs_mock r))) \<noteq> {}"
  proof -
    have "distinct (xs @ ms @ ys) \<longleftrightarrow> distinct ms \<and> distinct (xs @ ys) \<and> set (xs @ ys) \<inter> set ms = {}"
      for xs ms ys :: "string list" by auto
    from this [of "''local'' # china_cloud_names" "map mp_name (mergedMockProviders (rs_mock r))"
        "(if shouldRegisterGCPForTrain r then [''gcp''] else []) @ (if shouldRegisterLambdaForTrain r then [''lambda''] else [])"]
    show ?thesis
      unfolding names using merged_names(1) [of "rs_mock r"] distinct_own_names [of r] by (simp add: own_names_def)
  qed
  also have "\<dots> \<longleftrightarrow> list_ex (\<lambda>m. mp_name m \<in> set (own_names r)) (rs_mock r)"
    unfolding merged_names(2) using default_names [of r] by (auto simp: list_ex_iff)
  finally show ?thesis by simp
qed

text \<open>A run registers its providers, unless a mock provider of its configuration bears the name of
  another one that is registered, such as \<open>local\<close> or the name of a cloud: then the registry
  panics. The names of mock providers are not checked when the configuration is loaded.\<close>

theorem registry_panics_on_mock_name:
  "let wi = w\<lparr>wi_gcp_factory := None, wi_lambda_factory := None\<rparr> in
    (\<exists>e. buildTrainProviderRegistry wi r = Inl e) \<longleftrightarrow> list_ex (\<lambda>m. mp_name m \<in> set (own_names r)) (rs_mock r)"
  by (rule registry_panics)

section \<open>What was loaded is what the provider needs\<close>

text \<open>A job that a cloud can run, once it is packaged and staged: an image, no script, and no bundled input.\<close>

definition image_job :: "job_spec \<Rightarrow> bool" where
  "image_job job \<longleftrightarrow> job_image job \<noteq> [] \<and> job_script job = [] \<and> list_all (\<lambda>d. di_mode d \<noteq> ModeBundle) (job_data job)"

text \<open>What Google checks besides: the accelerators are known and counted, and inputs come from \<open>gs://\<close>.\<close>

definition gcp_suits :: "(string \<Rightarrow> bool) \<Rightarrow> gcp_config \<Rightarrow> job_spec \<Rightarrow> bool" where
  "gcp_suits known g job \<longleftrightarrow>
     (if gc_accelerator_type g = [] then gc_accelerator_count g = 0
      else snd (acceleratorTypeValue known (gc_accelerator_type g)) \<and> gc_accelerator_count g > 0)
     \<and> list_all (\<lambda>d. di_mode d \<noteq> ModeUri \<or> prefix ''gs://'' (to_lower (di_source d))) (job_data job)"

lemma registered:
  assumes "new_registry as = Inr reg" and "a \<in> set as"
  shows "registry_get reg (ad_name a) = Inr a"
proof -
  from add_adapters_result [of "[]" as reg] assms(1)
  have "distinct (map fst (map (\<lambda>a. (ad_name a, a)) as))" and eq: "map_of reg = map_of (map (\<lambda>a. (ad_name a, a)) as)"
    by (simp_all add: new_registry_def comp_def)
  moreover have "(ad_name a, a) \<in> set (map (\<lambda>a. (ad_name a, a)) as)" using assms(2) by simp
  ultimately show ?thesis unfolding registry_get_def eq by (simp add: map_of_is_SomeI)
qed

lemma loaded_valid:
  "LoadTrain env load flags = Inr (r, None) \<Longrightarrow>
    validateProviderConfig (se_getenv env) (rs_provider r) (rs_job r) (rs_packaging r) (rs_gcp r) (rs_lambda r) (rs_china r) = None"
  by (erule LoadTrain_result) (auto simp: validateResolvedConfig_def split: option.splits)

lemma no_reasons: "concat (map f xs) = [] \<longleftrightarrow> list_all (\<lambda>x. f x = []) xs"
  by (induction xs) auto

lemma gcp_accepts:
  assumes "validateGCPConfig job0 p g = None" and "image_job job" and "gcp_suits known g job"
  shows "ad_validate (gcp_adapter known (gcpConfigFromConfig g) ses) job = \<lparr>sup_supported = True, sup_reasons = []\<rparr>"
proof -
  have none: "concat (map (\<lambda>input. case di_mode input of
              ModeBundle \<Rightarrow> [''gcp provider v1 does not support bundled data input '' @ quote (di_name input)]
            | ModeUri \<Rightarrow> if \<not> prefix ''gs://'' (to_lower (di_source input))
                then [''gcp provider v1 only supports gs:// URI data input '' @ quote (di_name input)] else []
            | ModeOther s \<Rightarrow> []) (job_data job)) = []"
    unfolding no_reasons using assms(2,3)
    by (auto simp: image_job_def gcp_suits_def list_all_iff split: data_input_mode.split)
  have "ad_validate (gcp_adapter known c ses) = gcp_validate known (gcp_defaults c)" for c
    by (simp add: gcp_adapter_def Let_def)
  then have eq: "ad_validate (gcp_adapter known c ses) job = gcp_validate known (gcp_defaults c) job" for c by simp
  have unset: "snd (acceleratorTypeValue known [])" by (simp add: acceleratorTypeValue_def)
  show ?thesis
    unfolding eq gcp_validate_def none using assms
    by (simp add: gcpConfigFromConfig_def gcp_defaults_def Let_def validateGCPConfig_def
        reasons_error_None image_job_def gcp_suits_def unset split: if_splits)
qed

lemma lambda_accepts:
  assumes "validateLambdaConfig getenv job0 p l = None" and "image_job job"
  shows "ad_validate (lambda_adapter (lambdaConfigFromConfig getenv' l) ses) job = \<lparr>sup_supported = True, sup_reasons = []\<rparr>"
  using assms
  by (simp add: lambda_adapter_def lambda_validate_def lambdaConfigFromConfig_def withDefaults_def Let_def
      validateLambdaConfig_def reasons_error_None image_job_def filter_empty_conv list_all_iff)

lemma vm_defaults_keep:
  "vc_region (vmRuntimeDefaults c) = vc_region c" "vc_instance_type (vmRuntimeDefaults c) = vc_instance_type c"
  "vc_image_id (vmRuntimeDefaults c) = vc_image_id c" "vc_ssh_private_key (vmRuntimeDefaults c) = vc_ssh_private_key c"
  "vc_require_project (vmRuntimeDefaults c) = vc_require_project c" "vc_project (vmRuntimeDefaults c) = vc_project c"
  by (simp_all add: vmRuntimeDefaults_def Let_def if_distrib)

lemma china_accepts:
  assumes "validateChinaCloudConfig (cd_name def) job0 cfg = None" and "image_job job" and "cd_name def \<in> set china_cloud_names"
  shows "chinaCloudProviderConfigured cfg
    \<and> ad_validate (NewVMProvider def (chinaVMProviderConfigFromConfig cfg) ses) job = \<lparr>sup_supported = True, sup_reasons = []\<rparr>"
proof -
  have client: "has_vm_client def" using assms(3) by (simp only: has_vm_client_def china_cloud_names_def)
  have cfg: "cp_region cfg \<noteq> []" "cp_instance_type cfg \<noteq> []" "cp_image_id cfg \<noteq> []" "cp_ssh_private_key cfg \<noteq> []"
    "\<not> (cd_name def = ''huawei-cloud'' \<and> cp_project_id cfg = [] \<and> cp_account_id cfg = [])"
    using assms(1) unfolding validateChinaCloudConfig_def Let_def reasons_error_None append_is_Nil_conv require_Nil by blast+
  have job: "job_image job \<noteq> []" "job_script job = []" "filter (\<lambda>input. di_mode input = ModeBundle) (job_data job) = []"
    using assms(2) by (simp_all add: image_job_def filter_empty_conv list_all_iff)
  let ?c = "vmRuntimeDefaults (vm_runtime_config def (chinaVMProviderConfigFromConfig cfg))"
  have c: "vc_region ?c = cp_region cfg" "vc_instance_type ?c = cp_instance_type cfg" "vc_image_id ?c = cp_image_id cfg"
    "vc_ssh_private_key ?c = cp_ssh_private_key cfg" "vc_require_project ?c = (cd_name def = ''huawei-cloud'')"
    "vc_project ?c = (if cp_project_id cfg = [] then cp_account_id cfg else cp_project_id cfg)"
    by (simp_all add: vm_defaults_keep vm_runtime_config_def chinaVMProviderConfigFromConfig_def)
  have project: "\<not> (vc_require_project ?c \<and> vc_project ?c = [])" using cfg(5) by (simp add: c)
  have "vm_validate ?c True def job = \<lparr>sup_supported = True, sup_reasons = []\<rparr>"
    unfolding vm_validate_def Let_def job(3) if_not_P [OF project]
    using cfg(1-4) job(1,2) by (simp add: c)
  moreover have "ad_validate (NewVMProvider def (chinaVMProviderConfigFromConfig cfg) ses) job = vm_validate ?c True def job"
    using client by (simp add: NewVMProvider_def china_adapter_def china_validate_def Let_def)
  ultimately show ?thesis using cfg(1) by (simp add: chinaCloudProviderConfigured_def)
qed

text \<open>C19. A configuration that loads for a cloud is enough for it: the registry of the run has that cloud's
  provider, built from the configuration, and it accepts every job with an image, without a
  script and bundled inputs; Google when, besides, the accelerators and inputs suit it.\<close>

theorem loaded_provider_accepts:
  assumes "LoadTrain env load flags = Inr (r, None)" and "rs_provider r \<in> set (''gcp'' # ''lambda'' # china_cloud_names)"
    and "wi_gcp_factory wi = None" "wi_lambda_factory wi = None"
    and "buildTrainProviderRegistry wi r = Inr reg"
    and "image_job job" and "rs_provider r = ''gcp'' \<Longrightarrow> gcp_suits (wi_known wi) (rs_gcp r) job"
  shows "\<exists>a. registry_get reg (rs_provider r) = Inr a \<and> ad_validate a job = \<lparr>sup_supported = True, sup_reasons = []\<rparr>"
proof -
  let ?as = "provider_adapters wi (rs_mock r) (rs_gcp r) (rs_lambda r) (rs_china r)
      (shouldRegisterGCPForTrain r) (shouldRegisterLambdaForTrain r)"
  note valid = loaded_valid [OF assms(1)]
  have reg: "new_registry ?as = Inr reg"
    using assms(5) by (simp add: buildTrainProviderRegistry_def buildProviderRegistryWithOptions_def)
  have found: ?thesis if "a \<in> set ?as" "ad_name a = rs_provider r"
    "ad_validate a job = \<lparr>sup_supported = True, sup_reasons = []\<rparr>" for a
    using registered [OF reg that(1)] that by auto
  consider "rs_provider r = ''gcp''" | "rs_provider r = ''lambda''" | "rs_provider r \<in> set china_cloud_names"
    using assms(2) by auto
  then show ?thesis
  proof cases
    case 1
    show ?thesis
      by (rule found [of "gcp_adapter (wi_known wi) (gcpConfigFromConfig (rs_gcp r)) (wi_gcp wi)"])
        (use 1 valid assms(3,6,7) in \<open>auto simp: provider_adapters_def shouldRegisterGCPForTrain_def gcp_provider_def
          validateProviderConfig_def intro!: gcp_accepts\<close>)
  next
    case 2
    show ?thesis
      by (rule found [of "lambda_adapter (lambdaConfigFromConfig (wi_getenv wi) (rs_lambda r)) (wi_lambda wi)"])
        (use 2 valid assms(4,6) in \<open>auto simp: provider_adapters_def shouldRegisterLambdaForTrain_def lambda_provider_def
          validateProviderConfig_def intro!: lambda_accepts\<close>)
  next
    case 3
    then obtain def where def: "def \<in> set Definitions" "cd_name def = rs_provider r"
      unfolding cloud_names [symmetric] by auto
    let ?cfg = "chinaProviderConfigByName (rs_china r) (rs_provider r)"
    have "validateChinaCloudConfig (rs_provider r) (rs_job r) ?cfg = None"
      using valid 3 by (auto simp: validateProviderConfig_def chinaProviderConfigByName_def china_cloud_names_def)
    note ok = china_accepts [of def "rs_job r" ?cfg job, unfolded def(2), OF this assms(6) 3]
    show ?thesis
    proof (rule found)
      show "china_cloud_adapter wi (rs_china r) def \<in> set ?as"
        using def(1) by (simp add: provider_adapters_def chinaCloudAdapters_def)
      show "ad_name (china_cloud_adapter wi (rs_china r) def) = rs_provider r" by (simp add: def(2))
      show "ad_validate (china_cloud_adapter wi (rs_china r) def) job = \<lparr>sup_supported = True, sup_reasons = []\<rparr>"
        using ok by (simp add: china_cloud_adapter_def Let_def def(2))
    qed
  qed
qed

definition sample_wiring :: wiring where
  "sample_wiring = \<lparr>wi_getenv = (\<lambda>n. []), wi_known = (\<lambda>k. False),
     wi_local = \<lparr>lo_environ = [], lo_windows = False, lo_stat = (\<lambda>p. True), lo_open_logs = None, lo_open_events = None,
       lo_pipes = None, lo_start = (\<lambda>c e d. Inr 1), lo_stdout = \<lparr>ps_text = [], ps_error = None\<rparr>,
       lo_stderr = \<lparr>ps_text = [], ps_error = None\<rparr>, lo_turns = [], lo_now = (\<lambda>n. zero_time), lo_wait = WaitOk,
       lo_signal = (\<lambda>pid. SignalSent)\<rparr>,
     wi_mock = (\<lambda>n. \<lparr>mn_environ = [], mn_open_logs = None, mn_open_events = None, mn_time = zero_time\<rparr>),
     wi_gcp = sample_gcp (sample_turn [] JobOther) [], wi_lambda = Lambda.sample_session,
     wi_china = (\<lambda>n. sample_vm_session), wi_gcp_factory = None, wi_lambda_factory = None\<rparr>"

text \<open>A configuration for Google, as it is read from a file.\<close>

definition gcp_file :: train_file where
  "gcp_file = zero_file\<lparr>cf_job := (cf_job zero_file)\<lparr>jc_image := ''img''\<rparr>,
     cf_gcp := (cf_gcp zero_file)\<lparr>gc_project_id := ''p'', gc_output_prefix := ''gs://b''\<rparr>\<rparr>"

definition gcp_flags :: train_flags where
  "gcp_flags = \<lparr>tf_config_path = ''/proj/switchboard.yaml'', tf_provider = ''gcp'', tf_script = [], tf_args = [],
     tf_allow_large = False, tf_home = ''/home/u/.sb''\<rparr>"

definition gcp_resolved :: resolved_config where
  "gcp_resolved = resolved_settings gcp_flags ''gcp''
     (resolve_job (job_defaults (job_of_file gcp_file gcp_flags)) gcp_flags ''/proj'')
     (resolve_file sample_env gcp_file ''/proj'') ''/home/u/.sb''"

lemma gcp_load: "LoadTrain sample_env (\<lambda>_. Inr gcp_file) gcp_flags = Inr (gcp_resolved, None)"
proof -
  have "path_dir (tf_config_path gcp_flags) = ''/proj''" by code_simp
  moreover have "tf_config_path gcp_flags \<noteq> []" "tf_provider gcp_flags = ''gcp''"
    "tf_home gcp_flags = ''/home/u/.sb''" "job_image (job_of_file gcp_file gcp_flags) \<noteq> []"
    by (simp_all add: gcp_flags_def gcp_file_def job_of_file_def Let_def)
  moreover have "cf_staging (resolve_file sample_env gcp_file ''/proj'') = \<lparr>sg_checkpoint_prefix = [], sg_data_prefix = []\<rparr>"
    by (simp add: resolve_file_def gcp_file_def zero_file_def)
  moreover have "validateGCPConfig (resolve_job (job_defaults (job_of_file gcp_file gcp_flags)) gcp_flags ''/proj'')
      (resolvePackaging (cf_packaging (resolve_file sample_env gcp_file ''/proj'')))
      (resolveGCP (cf_gcp (resolve_file sample_env gcp_file ''/proj''))) = None"
    by (simp add: validateGCPConfig_def reasons_error_None resolve_file_def gcp_file_def zero_file_def resolveGCP_def
        resolve_job_def job_defaults_def job_of_file_def gcp_flags_def resolveJobPaths_def Let_def)
  ultimately show ?thesis
    by (simp add: LoadTrain_def home_resolve_def gcp_resolved_def validateResolvedConfig_def
        validateStagingConfig_def validate_prefix_def validateProviderConfig_def Let_def)
qed

definition gcp_job :: job_spec where
  "gcp_job = \<lparr>job_name = ''train'', job_script = [], job_image = ''img'', job_command = [], job_args = [],
     job_env = [], job_data = [], job_work_dir = []\<rparr>"

lemma gcp_resolved_fields:
  "rs_provider gcp_resolved = ''gcp''" "rs_mock gcp_resolved = []"
  "gc_accelerator_type (rs_gcp gcp_resolved) = []" "gc_accelerator_count (rs_gcp gcp_resolved) = 0"
  by (simp_all add: gcp_resolved_def resolved_settings_def Let_def resolve_file_def gcp_file_def zero_file_def resolveGCP_def)

lemma loaded_provider_accepts_witness:
  "\<exists>reg a. buildTrainProviderRegistry sample_wiring gcp_resolved = Inr reg \<and> registry_get reg ''gcp'' = Inr a
    \<and> sup_supported (ad_validate a gcp_job)"
proof -
  have "sample_wiring = sample_wiring\<lparr>wi_gcp_factory := None, wi_lambda_factory := None\<rparr>" by (simp add: sample_wiring_def)
  then obtain reg where reg: "buildTrainProviderRegistry sample_wiring gcp_resolved = Inr reg"
    using registry_panics [of sample_wiring gcp_resolved] gcp_resolved_fields(2)
    by (cases "buildTrainProviderRegistry sample_wiring gcp_resolved") (auto simp: Let_def)
  have "image_job gcp_job" by (simp add: image_job_def gcp_job_def)
  moreover have "gcp_suits (wi_known sample_wiring) (rs_gcp gcp_resolved) gcp_job"
    by (simp add: gcp_suits_def gcp_job_def gcp_resolved_fields)
  moreover have "wi_gcp_factory sample_wiring = None" "wi_lambda_factory sample_wiring = None"
    by (simp_all add: sample_wiring_def)
  moreover have "rs_provider gcp_resolved \<in> set (''gcp'' # ''lambda'' # china_cloud_names)"
    by (simp add: gcp_resolved_fields)
  ultimately show ?thesis
    using loaded_provider_accepts [OF gcp_load, of sample_wiring reg gcp_job] reg by (auto simp: gcp_resolved_fields(1))
qed

end
