(* ===== verification/AlibabaClient.thy ===== *)
theory AlibabaClient
  imports VmHttp
begin

text \<open>
  \<open>alibaba_client.go\<close>: machines of Alibaba Cloud over its signed queries.
\<close>

section \<open>Configuration\<close>

record alibaba_config =
  al_region :: string
  al_zone :: string
  al_instance_type :: string
  al_image_id :: string
  al_security_group :: string
  al_vswitch :: string
  al_key_pair :: string
  al_ssh_user :: string
  al_ssh_private_key :: string
  al_disk_category :: string
  al_disk_size :: int
  al_bandwidth :: int
  al_poll_interval :: int
  al_connect_timeout :: int
  al_ready_timeout :: int
  al_terminate :: bool
  al_terminate_set :: bool
  al_keep_on_failure :: bool
  al_hourly_usd :: rat
  al_endpoint :: string
  al_api_timeout :: int
  al_key_id :: string
  al_key_secret :: string
  al_shapes :: "hardware_shape list"

definition alibabaConfigDefaults :: "alibaba_config \<Rightarrow> alibaba_config" where
  "alibabaConfigDefaults c0 =
     (let c1 = (if al_region c0 = [] then c0\<lparr>al_region := ''cn-hangzhou''\<rparr> else c0);
          c2 = (if al_endpoint c1 = [] then c1\<lparr>al_endpoint := ''https://ecs.'' @ al_region c1 @ ''.aliyuncs.com/''\<rparr> else c1);
          c3 = (if al_disk_category c2 = [] then c2\<lparr>al_disk_category := ''cloud_essd''\<rparr> else c2)
      in if al_disk_size c3 = 0 then c3\<lparr>al_disk_size := 80\<rparr> else c3)"

definition alibabaRuntimeConfig :: "alibaba_config \<Rightarrow> vm_config" where
  "alibabaRuntimeConfig c0 = (let c = alibabaConfigDefaults c0 in
     \<lparr>vc_region = al_region c, vc_zone = al_zone c, vc_instance_type = al_instance_type c, vc_image_id = al_image_id c,
      vc_ssh_user = al_ssh_user c, vc_ssh_private_key = al_ssh_private_key c, vc_ssh_key_name = al_key_pair c,
      vc_network_id = [], vc_subnet_id = [], vc_vswitch_id = al_vswitch c, vc_security_group = al_security_group c,
      vc_disk_type = al_disk_category c, vc_disk_size = al_disk_size c, vc_bandwidth = al_bandwidth c,
      vc_poll_interval = al_poll_interval c, vc_connect_timeout = al_connect_timeout c,
      vc_ready_timeout = al_ready_timeout c, vc_terminate = al_terminate c, vc_terminate_set = al_terminate_set c,
      vc_keep_on_failure = al_keep_on_failure c, vc_hourly_usd = al_hourly_usd c, vc_project = [],
      vc_require_project = False, vc_shapes = al_shapes c\<rparr>)"

definition alibaba_credentials :: "resolver \<Rightarrow> alibaba_config \<Rightarrow> gerror + string \<times> string" where
  "alibaba_credentials resolve c = credential_pair ''Alibaba Cloud access_key_id and access_key_secret credentials are required''
     (resolved_value resolve (al_key_id c) \<lparr>cq_provider = ''alibaba-cloud'', cq_name = ''access_key_id'',
        cq_env = [''ALIBABA_CLOUD_ACCESS_KEY_ID'']\<rparr>)
     (resolved_value resolve (al_key_secret c) \<lparr>cq_provider = ''alibaba-cloud'', cq_name = ''access_key_secret'',
        cq_env = [''ALIBABA_CLOUD_ACCESS_KEY_SECRET'']\<rparr>)"

section \<open>Answers\<close>

definition alibabaErrorKind :: "int \<Rightarrow> string \<Rightarrow> string \<Rightarrow> provider_error_kind" where
  "alibabaErrorKind status code message =
     (let lower = to_lower (code @ '' '' @ message) in
      if status = 401 \<or> status = 403 \<or> mentions lower ''auth'' \<or> mentions lower ''accesskey'' \<or> mentions lower ''signature''
      then ErrAuth
      else if mentions lower ''quota'' then ErrQuota
      else if mentions lower ''insufficient'' \<or> mentions lower ''notonsale'' \<or> mentions lower ''not on sale'' then ErrCapacity
      else if status = 400 \<or> mentions lower ''invalid'' then ErrInvalidSpec
      else if 500 \<le> status then ErrInternal else ErrUnknown)"

text \<open>The error of decoding is not looked at: what could be read of the code and the message counts.\<close>

record api_message =
  am_code :: string
  am_text :: string

definition alibaba_message :: "api_message decoder" where
  "alibaba_message = dec_struct [(''Code'', dec_field am_code am_code_update dec_str),
     (''Message'', dec_field am_text am_text_update dec_str)]"

definition alibabaResponseError :: "int \<Rightarrow> string \<Rightarrow> gerror option" where
  "alibabaResponseError status body =
     (let parsed = fst (unmarshal alibaba_message body \<lparr>am_code = [], am_text = []\<rparr>) in
      if ok_status status \<and> am_code parsed = [] then None
      else let m1 = (if am_text parsed = [] then trim_space body else am_text parsed);
               message = (if m1 = [] then http_text status else m1)
        in Some (ErrProvider (alibabaErrorKind status (am_code parsed) message) (''Alibaba Cloud API: '' @ message) None))"

definition alibaba_body :: "web \<Rightarrow> http_request \<Rightarrow> gerror + string" where
  "alibaba_body w rq = bindr (request_failed ''Alibaba Cloud request failed: '' (we_send w rq)) (\<lambda>rp.
     let body = fst (read_limited (4 * 1024 * 1024) rp) in
     case alibabaResponseError (hp_status rp) body of Some e \<Rightarrow> Inl e | None \<Rightarrow> Inr body)"

definition alibaba_do :: "web \<Rightarrow> 's decoder \<Rightarrow> 's \<Rightarrow> http_request \<Rightarrow> gerror + 's" where
  "alibaba_do w d zero rq = bindr (alibaba_body w rq) (\<lambda>body. case unmarshal d body zero of (s, failed) \<Rightarrow>
     if failed then Inl (ErrProvider ErrInternal (''decode Alibaba Cloud response: '' @ error_string (we_json_error w body))
       (Some (we_json_error w body)))
     else Inr s)"

definition alibabaVMState :: "string \<Rightarrow> vm_state" where
  "alibabaVMState status =
     (let s = to_lower status in
      if s \<in> set [''pending'', ''starting''] then VmPending else if s = ''running'' then VmRunning
      else if s = ''stopping'' then VmTerminating else if s \<in> set [''stopped'', ''deleted''] then VmTerminated
      else if s = ''error'' then VmFailed else VmUnknown)"

section \<open>Requests\<close>

definition alibaba_action :: "string \<Rightarrow> string smap" where
  "alibaba_action a = [(''Action'', a), (''Version'', ''2014-05-26'')]"

definition alibaba_create_values :: "vm_create_request \<Rightarrow> string smap" where
  "alibaba_create_values r = alibaba_action ''RunInstances'' @
     [(''RegionId'', vq_region r), (''ImageId'', vc_image_id (vq_config r)), (''InstanceType'', vq_instance_type r),
      (''SecurityGroupId'', vc_security_group (vq_config r)), (''InstanceName'', vq_name r), (''HostName'', vq_name r),
      (''Amount'', ''1''), (''InstanceChargeType'', ''PostPaid''), (''UserData'', b64_encode (vq_user_data r)),
      (''SystemDisk.Category'', vc_disk_type (vq_config r)), (''SystemDisk.Size'', string_of_int (vc_disk_size (vq_config r))),
      (''InternetMaxBandwidthOut'', string_of_int (vc_bandwidth (vq_config r)))]
     @ (if vc_zone (vq_config r) \<noteq> [] then [(''ZoneId'', vc_zone (vq_config r))] else [])
     @ (if vc_vswitch_id (vq_config r) \<noteq> [] then [(''VSwitchId'', vc_vswitch_id (vq_config r))] else [])
     @ (if vc_ssh_key_name (vq_config r) \<noteq> [] then [(''KeyPairName'', vc_ssh_key_name (vq_config r))] else [])"

definition alibaba_get_values :: "alibaba_config \<Rightarrow> string \<Rightarrow> string smap" where
  "alibaba_get_values c i = alibaba_action ''DescribeInstances'' @
     [(''RegionId'', al_region c), (''InstanceIds'', ''['' @ [CHR 0x22] @ i @ [CHR 0x22] @ '']'')]"

definition alibaba_terminate_values :: "alibaba_config \<Rightarrow> string \<Rightarrow> string smap" where
  "alibaba_terminate_values c i = alibaba_action ''DeleteInstance'' @
     [(''RegionId'', al_region c), (''InstanceId'', i), (''Force'', ''true'')]"

definition alibaba_signed :: "web \<Rightarrow> alibaba_config \<Rightarrow> string \<times> string \<Rightarrow> string smap \<Rightarrow> gerror + http_request" where
  "alibaba_signed w c cred m = newAlibabaSignedRequest w (al_endpoint c) (fst cred) (snd cred) m"

section \<open>Operations\<close>

definition alibaba_auth :: "web \<Rightarrow> alibaba_config \<Rightarrow> string \<times> string \<Rightarrow> gerror option" where
  "alibaba_auth w c cred = failure_of (bindr (alibaba_signed w c cred (alibaba_action ''DescribeRegions'')) (alibaba_body w))"

record alibaba_created =
  ad_instance_id :: string
  ad_instance_ids :: "string list"

definition dec_alibaba_created :: "alibaba_created decoder" where
  "dec_alibaba_created = dec_struct [(''InstanceId'', dec_field ad_instance_id ad_instance_id_update dec_str),
     (''InstanceIdSets'', dec_struct [(''InstanceIdSet'',
        dec_field ad_instance_ids ad_instance_ids_update (dec_slice dec_str []))])]"

definition alibaba_create_answer :: "vm_create_request \<Rightarrow> alibaba_created \<Rightarrow> gerror + vm_instance" where
  "alibaba_create_answer r out =
     (let i = (if ad_instance_id out = [] then first_string (ad_instance_ids out) else ad_instance_id out) in
      if i = [] then Inl (ErrProvider ErrInternal ''Alibaba Cloud RunInstances returned no instance ID'' None)
      else Inr \<lparr>vi_id = i, vi_state = VmPending, vi_native_state = ''Pending'', vi_public_ip = [], vi_private_ip = [],
        vi_region = vq_region r, vi_zone = vc_zone (vq_config r)\<rparr>)"

definition alibaba_create :: "web \<Rightarrow> alibaba_config \<Rightarrow> string \<times> string \<Rightarrow> vm_create_request \<Rightarrow> gerror + vm_instance" where
  "alibaba_create w c cred r = bindr (alibaba_signed w c cred (alibaba_create_values r)) (\<lambda>rq.
     bindr (alibaba_do w dec_alibaba_created \<lparr>ad_instance_id = [], ad_instance_ids = []\<rparr> rq) (alibaba_create_answer r))"

record alibaba_item =
  ai_instance_id :: string
  ai_status :: string
  ai_region :: string
  ai_zone :: string
  ai_public :: "string list"
  ai_private :: "string list"

definition empty_alibaba_item :: alibaba_item where
  "empty_alibaba_item = \<lparr>ai_instance_id = [], ai_status = [], ai_region = [], ai_zone = [], ai_public = [], ai_private = []\<rparr>"

definition dec_alibaba_item :: "alibaba_item decoder" where
  "dec_alibaba_item = dec_struct
     [(''InstanceId'', dec_field ai_instance_id ai_instance_id_update dec_str),
      (''Status'', dec_field ai_status ai_status_update dec_str), (''RegionId'', dec_field ai_region ai_region_update dec_str),
      (''ZoneId'', dec_field ai_zone ai_zone_update dec_str),
      (''PublicIpAddress'', dec_struct [(''IpAddress'', dec_field ai_public ai_public_update (dec_slice dec_str []))]),
      (''VpcAttributes'', dec_struct [(''PrivateIpAddress'', dec_struct
        [(''IpAddress'', dec_field ai_private ai_private_update (dec_slice dec_str []))])])]"

definition dec_alibaba_items :: "alibaba_item list decoder" where
  "dec_alibaba_items = dec_struct [(''Instances'', dec_struct [(''Instance'', dec_slice dec_alibaba_item empty_alibaba_item)])]"

definition alibaba_found :: "string \<Rightarrow> alibaba_item list \<Rightarrow> gerror + vm_instance" where
  "alibaba_found i items = (case items of
      [] \<Rightarrow> Inl (ErrProvider ErrInvalidSpec (''Alibaba Cloud instance '' @ quote i @ '' was not found'') None)
    | item # _ \<Rightarrow> Inr \<lparr>vi_id = ai_instance_id item, vi_state = alibabaVMState (ai_status item), vi_native_state = ai_status item,
        vi_public_ip = first_string (ai_public item), vi_private_ip = first_string (ai_private item),
        vi_region = ai_region item, vi_zone = ai_zone item\<rparr>)"

definition alibaba_get :: "web \<Rightarrow> alibaba_config \<Rightarrow> string \<times> string \<Rightarrow> string \<Rightarrow> gerror + vm_instance" where
  "alibaba_get w c cred i = bindr (alibaba_signed w c cred (alibaba_get_values c i)) (\<lambda>rq.
     bindr (alibaba_do w dec_alibaba_items [] rq) (alibaba_found i))"

definition alibaba_terminate :: "web \<Rightarrow> alibaba_config \<Rightarrow> string \<times> string \<Rightarrow> string \<Rightarrow> gerror option" where
  "alibaba_terminate w c cred i =
     failure_of (bindr (alibaba_signed w c cred (alibaba_terminate_values c i)) (alibaba_body w))"

end
