(* ===== verification/HuaweiClient.thy ===== *)
theory HuaweiClient
  imports VmHttp
begin

text \<open>
  \<open>huawei_client.go\<close>: machines of Huawei Cloud.
\<close>

section \<open>Configuration\<close>

record huawei_config =
  hu_region :: string
  hu_zone :: string
  hu_project :: string
  hu_flavor :: string
  hu_image :: string
  hu_vpc :: string
  hu_subnet :: string
  hu_security_group :: string
  hu_key_name :: string
  hu_ssh_user :: string
  hu_ssh_private_key :: string
  hu_volume_type :: string
  hu_volume_size :: int
  hu_poll_interval :: int
  hu_connect_timeout :: int
  hu_ready_timeout :: int
  hu_terminate :: bool
  hu_terminate_set :: bool
  hu_keep_on_failure :: bool
  hu_hourly_usd :: rat
  hu_endpoint :: string
  hu_api_timeout :: int
  hu_access_key :: string
  hu_secret_key :: string
  hu_shapes :: "hardware_shape list"

definition huaweiConfigDefaults :: "huawei_config \<Rightarrow> huawei_config" where
  "huaweiConfigDefaults c0 =
     (let c1 = (if hu_region c0 = [] then c0\<lparr>hu_region := ''cn-north-4''\<rparr> else c0);
          c2 = (if hu_endpoint c1 = [] then c1\<lparr>hu_endpoint := ''https://ecs.'' @ hu_region c1 @ ''.myhuaweicloud.com''\<rparr> else c1);
          c3 = (if hu_volume_type c2 = [] then c2\<lparr>hu_volume_type := ''SSD''\<rparr> else c2)
      in if hu_volume_size c3 = 0 then c3\<lparr>hu_volume_size := 80\<rparr> else c3)"

definition huaweiRuntimeConfig :: "huawei_config \<Rightarrow> vm_config" where
  "huaweiRuntimeConfig c0 = (let c = huaweiConfigDefaults c0 in
     \<lparr>vc_region = hu_region c, vc_zone = hu_zone c, vc_instance_type = hu_flavor c, vc_image_id = hu_image c,
      vc_ssh_user = hu_ssh_user c, vc_ssh_private_key = hu_ssh_private_key c, vc_ssh_key_name = hu_key_name c,
      vc_network_id = hu_vpc c, vc_subnet_id = hu_subnet c, vc_vswitch_id = [], vc_security_group = hu_security_group c,
      vc_disk_type = hu_volume_type c, vc_disk_size = hu_volume_size c, vc_bandwidth = 0,
      vc_poll_interval = hu_poll_interval c, vc_connect_timeout = hu_connect_timeout c,
      vc_ready_timeout = hu_ready_timeout c, vc_terminate = hu_terminate c, vc_terminate_set = hu_terminate_set c,
      vc_keep_on_failure = hu_keep_on_failure c, vc_hourly_usd = hu_hourly_usd c, vc_project = hu_project c,
      vc_require_project = True, vc_shapes = hu_shapes c\<rparr>)"

definition huawei_credentials :: "resolver \<Rightarrow> huawei_config \<Rightarrow> gerror + string \<times> string" where
  "huawei_credentials resolve c = credential_pair ''Huawei Cloud access_key_id and secret_access_key credentials are required''
     (resolved_value resolve (hu_access_key c) \<lparr>cq_provider = ''huawei-cloud'', cq_name = ''access_key_id'',
        cq_env = [''HUAWEICLOUD_SDK_AK'', ''HUAWEI_CLOUD_ACCESS_KEY_ID'']\<rparr>)
     (resolved_value resolve (hu_secret_key c) \<lparr>cq_provider = ''huawei-cloud'', cq_name = ''secret_access_key'',
        cq_env = [''HUAWEICLOUD_SDK_SK'', ''HUAWEI_CLOUD_SECRET_ACCESS_KEY'']\<rparr>)"

definition requireProjectID :: "huawei_config \<Rightarrow> gerror option" where
  "requireProjectID c = (if trim_space (hu_project c) = []
     then Some (ErrProvider ErrInvalidSpec ''Huawei Cloud project_id is required'' None) else None)"

section \<open>Answers\<close>

definition huaweiErrorKind :: "int \<Rightarrow> string \<Rightarrow> string \<Rightarrow> provider_error_kind" where
  "huaweiErrorKind status code message =
     (let lower = to_lower (code @ '' '' @ message) in
      if status = 401 \<or> status = 403 \<or> mentions lower ''auth'' \<or> mentions lower ''signature'' \<or> mentions lower ''aksk''
      then ErrAuth
      else if status = 429 \<or> mentions lower ''quota'' then ErrQuota
      else if mentions lower ''insufficient'' \<or> mentions lower ''no valid host'' \<or> mentions lower ''capacity'' then ErrCapacity
      else if status = 400 \<or> mentions lower ''invalid'' then ErrInvalidSpec
      else if 500 \<le> status then ErrInternal else ErrUnknown)"

record huawei_message =
  hm_code :: string
  hm_text :: string
  hm_error_code :: string
  hm_error_msg :: string

definition dec_huawei_message :: "huawei_message decoder" where
  "dec_huawei_message = dec_struct
     [(''error'', dec_struct [(''code'', dec_field hm_code hm_code_update dec_str),
        (''message'', dec_field hm_text hm_text_update dec_str)]),
      (''error_code'', dec_field hm_error_code hm_error_code_update dec_str),
      (''error_msg'', dec_field hm_error_msg hm_error_msg_update dec_str)]"

definition huaweiResponseError :: "int \<Rightarrow> string \<Rightarrow> gerror option" where
  "huaweiResponseError status body =
     (let parsed = fst (unmarshal dec_huawei_message body \<lparr>hm_code = [], hm_text = [], hm_error_code = [], hm_error_msg = []\<rparr>);
          code = (if hm_code parsed = [] then hm_error_code parsed else hm_code parsed);
          m0 = (if hm_text parsed = [] then hm_error_msg parsed else hm_text parsed) in
      if ok_status status \<and> code = [] then None
      else let m1 = (if m0 = [] then trim_space body else m0);
               message = (if m1 = [] then http_text status else m1)
        in Some (ErrProvider (huaweiErrorKind status code message) (''Huawei Cloud ECS API: '' @ message) None))"

definition huawei_body :: "web \<Rightarrow> http_request \<Rightarrow> gerror + string" where
  "huawei_body w rq = bindr (request_failed ''Huawei Cloud ECS request failed: '' (we_send w rq)) (\<lambda>rp.
     let body = fst (read_limited (4 * 1024 * 1024) rp) in
     case huaweiResponseError (hp_status rp) body of Some e \<Rightarrow> Inl e | None \<Rightarrow> Inr body)"

definition huawei_do :: "web \<Rightarrow> 's decoder \<Rightarrow> 's \<Rightarrow> http_request \<Rightarrow> gerror + 's" where
  "huawei_do w d zero rq = bindr (huawei_body w rq) (\<lambda>body.
     if body = [] then Inr zero
     else (case unmarshal d body zero of (s, failed) \<Rightarrow>
       if failed then Inl (ErrProvider ErrInternal (''decode Huawei Cloud ECS response: '' @ error_string (we_json_error w body))
         (Some (we_json_error w body)))
       else Inr s))"

definition huaweiClientVMState :: "string \<Rightarrow> vm_state" where
  "huaweiClientVMState status =
     (let s = to_lower status in
      if s \<in> set [''build'', ''building'', ''reboot'', ''hard_reboot'', ''resize'', ''verify_resize'', ''migrating''] then VmPending
      else if s = ''active'' then VmRunning else if s = ''deleting'' then VmTerminating
      else if s \<in> set [''deleted'', ''shutoff'', ''shelved_offloaded''] then VmTerminated
      else if s = ''error'' then VmFailed else VmUnknown)"

record huawei_address =
  ha_addr :: string
  ha_version :: int
  ha_type :: string

definition add_address :: "huawei_address \<Rightarrow> string \<times> string \<Rightarrow> string \<times> string" where
  "add_address a ips =
     (let public = (if fst ips = [] then (ha_addr a, snd ips) else ips);
          private = (if snd ips = [] then (fst ips, ha_addr a) else ips) in
      if ha_addr a = [] then ips
      else if to_lower (ha_type a) = ''floating'' then public
      else if to_lower (ha_type a) = ''fixed'' then private else public)"

text \<open>The networks come in any order of the map.\<close>

definition huaweiIPs :: "huawei_address list smap \<Rightarrow> string \<times> string" where
  "huaweiIPs addresses = fold add_address (concat (map snd addresses)) ([], [])"

section \<open>Requests\<close>

definition cloudserversPath :: "huawei_config \<Rightarrow> string" where
  "cloudserversPath c = ''/v1/'' @ escape EncodePathSegment (hu_project c) @ ''/cloudservers''"

definition huawei_server_path :: "huawei_config \<Rightarrow> string \<Rightarrow> string" where
  "huawei_server_path c i = cloudserversPath c @ ''/'' @ escape EncodePathSegment i"

definition huawei_root_volume :: "vm_create_request \<Rightarrow> json" where
  "huawei_root_volume r = payload
     [(''volumetype'', given (vc_disk_type (vq_config r) \<noteq> []) (JStr (vc_disk_type (vq_config r)))),
      (''size'', given (vc_disk_size (vq_config r) > 0) (json_whole (vc_disk_size (vq_config r))))]"

definition huawei_server_fields :: "vm_create_request \<Rightarrow> (string \<times> json option) list" where
  "huawei_server_fields r =
     (let c = vq_config r in
      [(''name'', Some (JStr (vq_name r))), (''imageRef'', Some (JStr (vc_image_id c))),
       (''flavorRef'', Some (JStr (vq_instance_type r))), (''key_name'', Some (JStr (vc_ssh_key_name c))),
       (''user_data'', Some (JStr (b64_encode (vq_user_data r)))),
       (''vpcid'', given (vc_network_id c \<noteq> []) (JStr (vc_network_id c))),
       (''nics'', given (vc_subnet_id c \<noteq> []) (JArr [json_map [(''subnet_id'', JStr (vc_subnet_id c))]])),
       (''security_groups'', given (vc_security_group c \<noteq> []) (JArr [json_map [(''id'', JStr (vc_security_group c))]])),
       (''root_volume'', given (vc_disk_type c \<noteq> [] \<or> vc_disk_size c > 0) (huawei_root_volume r))])"

definition huaweiCreatePayload :: "vm_create_request \<Rightarrow> json" where
  "huaweiCreatePayload r = json_map [(''server'', payload (huawei_server_fields r))]"

definition huawei_signed ::
  "web \<Rightarrow> huawei_config \<Rightarrow> string \<times> string \<Rightarrow> string \<Rightarrow> string \<Rightarrow> url_values option \<Rightarrow> string \<Rightarrow> gerror + http_request" where
  "huawei_signed w c cred m path query body = (case requireProjectID c of Some e \<Rightarrow> Inl e
     | None \<Rightarrow> newHuaweiSignedRequest w (hu_endpoint c) m path query body (fst cred) (snd cred))"

definition huawei_create_request :: "web \<Rightarrow> huawei_config \<Rightarrow> string \<times> string \<Rightarrow> vm_create_request \<Rightarrow> gerror + http_request" where
  "huawei_create_request w c cred r =
     huawei_signed w c cred ''POST'' (cloudserversPath c) None (marshal (huaweiCreatePayload r))"

section \<open>Operations\<close>

definition huawei_auth :: "web \<Rightarrow> huawei_config \<Rightarrow> string \<times> string \<Rightarrow> gerror option" where
  "huawei_auth w c cred = failure_of (bindr
     (huawei_signed w c cred ''GET'' (cloudserversPath c @ ''/detail'') (Some [(''limit'', [''1''])]) []) (huawei_body w))"

record huawei_created =
  hc_server_id :: string
  hc_job_id :: string

definition dec_huawei_created :: "huawei_created decoder" where
  "dec_huawei_created = dec_struct
     [(''server'', dec_struct [(''id'', dec_field hc_server_id hc_server_id_update dec_str)]),
      (''job_id'', dec_field hc_job_id hc_job_id_update dec_str)]"

definition huawei_create_answer :: "vm_create_request \<Rightarrow> huawei_created \<Rightarrow> gerror + vm_instance" where
  "huawei_create_answer r out =
     (if hc_server_id out = [] then Inl (ErrProvider ErrInternal ''Huawei Cloud ECS create returned no server ID'' None)
      else Inr \<lparr>vi_id = hc_server_id out, vi_state = VmPending, vi_native_state = ''BUILD'', vi_public_ip = [],
        vi_private_ip = [], vi_region = vq_region r, vi_zone = vc_zone (vq_config r)\<rparr>)"

definition huawei_create :: "web \<Rightarrow> huawei_config \<Rightarrow> string \<times> string \<Rightarrow> vm_create_request \<Rightarrow> gerror + vm_instance" where
  "huawei_create w c cred r = bindr (huawei_create_request w c cred r) (\<lambda>rq.
     bindr (huawei_do w dec_huawei_created \<lparr>hc_server_id = [], hc_job_id = []\<rparr> rq) (huawei_create_answer r))"

record huawei_server =
  hv_id :: string
  hv_status :: string
  hv_tenant :: string
  hv_addresses :: "huawei_address list smap"

definition dec_huawei_address :: "huawei_address decoder" where
  "dec_huawei_address = dec_struct [(''addr'', dec_field ha_addr ha_addr_update dec_str),
     (''version'', dec_field ha_version ha_version_update dec_whole), (''OS-EXT-IPS:type'', dec_field ha_type ha_type_update dec_str)]"

definition dec_huawei_server :: "huawei_server decoder" where
  "dec_huawei_server = dec_struct [(''server'', dec_struct
     [(''id'', dec_field hv_id hv_id_update dec_str), (''status'', dec_field hv_status hv_status_update dec_str),
      (''tenant_id'', dec_field hv_tenant hv_tenant_update dec_str),
      (''addresses'', dec_field hv_addresses hv_addresses_update
        (dec_map (dec_slice dec_huawei_address \<lparr>ha_addr = [], ha_version = 0, ha_type = []\<rparr>) []))])]"

definition huawei_found :: "huawei_config \<Rightarrow> string \<Rightarrow> huawei_server \<Rightarrow> gerror + vm_instance" where
  "huawei_found c i s =
     (if hv_id s = [] then Inl (ErrProvider ErrInvalidSpec (''Huawei Cloud ECS server '' @ quote i @ '' was not found'') None)
      else Inr \<lparr>vi_id = hv_id s, vi_state = huaweiClientVMState (hv_status s), vi_native_state = hv_status s,
        vi_public_ip = fst (huaweiIPs (hv_addresses s)), vi_private_ip = snd (huaweiIPs (hv_addresses s)),
        vi_region = hu_region c, vi_zone = []\<rparr>)"

definition huawei_get :: "web \<Rightarrow> huawei_config \<Rightarrow> string \<times> string \<Rightarrow> string \<Rightarrow> gerror + vm_instance" where
  "huawei_get w c cred i = bindr (huawei_signed w c cred ''GET'' (huawei_server_path c i) None []) (\<lambda>rq.
     bindr (huawei_do w dec_huawei_server \<lparr>hv_id = [], hv_status = [], hv_tenant = [], hv_addresses = []\<rparr> rq) (huawei_found c i))"

definition huawei_terminate :: "web \<Rightarrow> huawei_config \<Rightarrow> string \<times> string \<Rightarrow> string \<Rightarrow> gerror option" where
  "huawei_terminate w c cred i =
     failure_of (bindr (huawei_signed w c cred ''DELETE'' (huawei_server_path c i) None []) (huawei_body w))"

end
