(* ===== verification/TencentClient.thy ===== *)
theory TencentClient
  imports VmHttp
begin

text \<open>
  \<open>tencent_vm.go\<close>: machines of Tencent Cloud.
\<close>

section \<open>Configuration and requests\<close>

record tencent_client =
  te_endpoint :: string
  te_region :: string
  te_secret_id :: string
  te_secret_key :: string

record tencent_create_request =
  tq_zone :: string
  tq_image_id :: string
  tq_instance_type :: string
  tq_instance_name :: string
  tq_key_pair :: string
  tq_vpc :: string
  tq_subnet :: string
  tq_security_groups :: "string list"
  tq_disk_type :: string
  tq_disk_size :: int
  tq_bandwidth :: int
  tq_public_ip :: bool
  tq_user_data :: string
  tq_client_token :: string
  tq_tags :: "string smap"

record tencent_status =
  ts_instance_id :: string
  ts_state :: string
  ts_public_ip :: string
  ts_private_ip :: string
  ts_request_id :: string

definition tencent_credentials :: "resolver \<Rightarrow> tencent_client \<Rightarrow> gerror + string \<times> string" where
  "tencent_credentials resolve c = credential_pair ''Tencent Cloud secret_id and secret_key credentials are required''
     (resolved_value resolve (te_secret_id c) \<lparr>cq_provider = ''tencent-cloud'', cq_name = ''secret_id'',
        cq_env = [''TENCENTCLOUD_SECRET_ID'', ''TENCENT_CLOUD_SECRET_ID'']\<rparr>)
     (resolved_value resolve (te_secret_key c) \<lparr>cq_provider = ''tencent-cloud'', cq_name = ''secret_key'',
        cq_env = [''TENCENTCLOUD_SECRET_KEY'', ''TENCENT_CLOUD_SECRET_KEY'']\<rparr>)"

definition tencent_new_request ::
  "web \<Rightarrow> tencent_client \<Rightarrow> string \<times> string \<Rightarrow> string \<Rightarrow> string \<Rightarrow> gerror + http_request" where
  "tencent_new_request w c cred action body =
     (let endpoint = (if te_endpoint c = [] then ''https://cvm.tencentcloudapi.com/'' else te_endpoint c);
          region = (if te_region c = [] then ''ap-guangzhou'' else te_region c)
      in case url_parse endpoint of None \<Rightarrow> Inl (invalid_address w ''Tencent Cloud'' endpoint)
       | Some u \<Rightarrow> tencent_request w u action region (fst cred) (snd cred) body)"

definition tencentTags :: "string smap \<Rightarrow> json" where
  "tencentTags tags = JArr (map (\<lambda>k. json_map [(''Key'', JStr k), (''Value'', JStr (lookup_default [] tags k))])
     (sort_strings (map fst tags)))"

definition tencent_fields :: "tencent_create_request \<Rightarrow> (string \<times> json option) list" where
  "tencent_fields r =
     [(''InstanceChargeType'', Some (JStr ''POSTPAID_BY_HOUR'')),
      (''Placement'', Some (json_map [(''Zone'', JStr (tq_zone r))])),
      (''ImageId'', Some (JStr (tq_image_id r))), (''InstanceType'', Some (JStr (tq_instance_type r))),
      (''InstanceName'', Some (JStr (tq_instance_name r))), (''InstanceCount'', Some (json_whole 1)),
      (''ClientToken'', given (tq_client_token r \<noteq> []) (JStr (tq_client_token r))),
      (''SystemDisk'', given (tq_disk_type r \<noteq> [] \<or> tq_disk_size r > 0) (payload
        [(''DiskType'', given (tq_disk_type r \<noteq> []) (JStr (tq_disk_type r))),
         (''DiskSize'', given (tq_disk_size r > 0) (json_whole (tq_disk_size r)))])),
      (''VirtualPrivateCloud'', given (tq_vpc r \<noteq> [] \<or> tq_subnet r \<noteq> [])
        (json_map [(''VpcId'', JStr (tq_vpc r)), (''SubnetId'', JStr (tq_subnet r))])),
      (''SecurityGroupIds'', given (tq_security_groups r \<noteq> []) (json_strings (tq_security_groups r))),
      (''LoginSettings'', given (tq_key_pair r \<noteq> []) (json_map [(''KeyIds'', json_strings [tq_key_pair r])])),
      (''InternetAccessible'', given (tq_public_ip r \<or> tq_bandwidth r > 0) (json_map
        [(''InternetChargeType'', JStr ''TRAFFIC_POSTPAID_BY_HOUR''),
         (''InternetMaxBandwidthOut'', json_whole (tq_bandwidth r)), (''PublicIpAssigned'', JBool (tq_public_ip r))])),
      (''UserData'', given (tq_user_data r \<noteq> []) (JStr (tq_user_data r))),
      (''TagSpecification'', given (tq_tags r \<noteq> [])
        (JArr [json_map [(''ResourceType'', JStr ''instance''), (''Tags'', tencentTags (tq_tags r))]]))]"

definition tencentRunInstancesPayload :: "tencent_create_request \<Rightarrow> json" where
  "tencentRunInstancesPayload r = payload (tencent_fields r)"

definition tencent_create_of :: "vm_create_request \<Rightarrow> tencent_create_request" where
  "tencent_create_of r =
     (let c = vq_config r in
      \<lparr>tq_zone = vc_zone c, tq_image_id = vc_image_id c, tq_instance_type = vq_instance_type r, tq_instance_name = vq_name r,
       tq_key_pair = vc_ssh_key_name c, tq_vpc = vc_network_id c, tq_subnet = vc_subnet_id c,
       tq_security_groups = (if vc_security_group c \<noteq> [] then [vc_security_group c] else []),
       tq_disk_type = vc_disk_type c, tq_disk_size = vc_disk_size c, tq_bandwidth = vc_bandwidth c,
       tq_public_ip = vc_bandwidth c > 0, tq_user_data = b64_encode (vq_user_data r), tq_client_token = vq_run_id r,
       tq_tags = [(''switchboard'', ''true''), (''switchboard-run-id'', vq_run_id r)]\<rparr>)"

definition tencent_instances :: "string \<Rightarrow> string" where
  "tencent_instances i = marshal (json_map [(''InstanceIds'', json_strings [i])])"

definition tencent_run_request :: "web \<Rightarrow> tencent_client \<Rightarrow> string \<times> string \<Rightarrow> tencent_create_request \<Rightarrow> gerror + http_request" where
  "tencent_run_request w c cred r = tencent_new_request w c cred ''RunInstances'' (marshal (tencentRunInstancesPayload r))"

section \<open>Answers\<close>

definition tencentAPIError :: "string \<Rightarrow> string \<Rightarrow> gerror" where
  "tencentAPIError code message =
     (let lower = to_lower (code @ '' '' @ message);
          kind = (if mentions lower ''auth'' \<or> mentions lower ''unauthorized'' \<or> mentions lower ''secret'' then ErrAuth
            else if mentions lower ''quota'' then ErrQuota
            else if mentions lower ''resourceinsufficient'' \<or> mentions lower ''capacity'' then ErrCapacity
            else if mentions lower ''invalid'' \<or> mentions lower ''unsupported'' then ErrInvalidSpec else ErrUnknown)
      in ErrProvider kind (''Tencent Cloud CVM error '' @ code @ '': '' @ message) None)"

definition tencentVMState :: "string \<Rightarrow> vm_state" where
  "tencentVMState status =
     (let s = to_lower status in
      if s \<in> set [''pending'', ''starting'', ''rebooting''] then VmPending else if s = ''running'' then VmRunning
      else if s = ''stopping'' then VmTerminating else if s \<in> set [''stopped'', ''shutdown'', ''terminated''] then VmTerminated
      else if s \<in> set [''launch_failed'', ''failed'', ''error''] then VmFailed else VmUnknown)"

record tencent_instance =
  tn_id :: string
  tn_state :: string
  tn_public :: "string list"
  tn_private :: string

text \<open>The fields of \<open>Response\<close> of the four actions; an action reads the ones it declares.\<close>

record tencent_response =
  tr_instance_ids :: "string list"
  tr_instances :: "tencent_instance list"
  tr_request_id :: string
  tr_error :: "(string \<times> string) option"

definition empty_tencent :: tencent_response where
  "empty_tencent = \<lparr>tr_instance_ids = [], tr_instances = [], tr_request_id = [], tr_error = None\<rparr>"

definition dec_tencent_error :: "string \<times> tencent_response decoder" where
  "dec_tencent_error = (''Error'', dec_field tr_error tr_error_update (dec_ptr (dec_struct
     [(''Code'', dec_field fst apfst dec_str), (''Message'', dec_field snd apsnd dec_str)]) ([], [])))"

definition dec_tencent_id :: "string \<times> tencent_response decoder" where
  "dec_tencent_id = (''RequestId'', dec_field tr_request_id tr_request_id_update dec_str)"

definition dec_tencent_ids :: "string \<times> tencent_response decoder" where
  "dec_tencent_ids = (''InstanceIdSet'', dec_field tr_instance_ids tr_instance_ids_update (dec_slice dec_str []))"

definition dec_tencent_instances :: "string \<times> tencent_response decoder" where
  "dec_tencent_instances = (''InstanceSet'', dec_field tr_instances tr_instances_update (dec_slice (dec_struct
     [(''InstanceId'', dec_field tn_id tn_id_update dec_str), (''InstanceState'', dec_field tn_state tn_state_update dec_str),
      (''PublicIpAddresses'', dec_field tn_public tn_public_update (dec_slice dec_str [])),
      (''PrivateIpAddress'', dec_field tn_private tn_private_update dec_str)])
     \<lparr>tn_id = [], tn_state = [], tn_public = [], tn_private = []\<rparr>))"

text \<open>\<open>do\<close>, and the error inside the answer, which every action looks at.\<close>

definition tencent_do ::
  "web \<Rightarrow> (string \<times> tencent_response decoder) list \<Rightarrow> http_request \<Rightarrow> gerror + tencent_response" where
  "tencent_do w fs rq =
     bindr (request_failed ''Tencent Cloud CVM request failed: '' (we_send w rq)) (\<lambda>rp.
     bindr (decodeProviderJSON w ''Tencent Cloud CVM'' rp (dec_struct [(''Response'', dec_struct (dec_tencent_error # fs))])
       empty_tencent) (\<lambda>out.
       case tr_error out of Some (code, message) \<Rightarrow> Inl (tencentAPIError code message) | None \<Rightarrow> Inr out))"

section \<open>Operations\<close>

definition tencent_auth :: "web \<Rightarrow> tencent_client \<Rightarrow> string \<times> string \<Rightarrow> gerror option" where
  "tencent_auth w c cred =
     failure_of (bindr (tencent_new_request w c cred ''DescribeRegions'' ''{}'') (tencent_do w []))"

definition tencent_created :: "tencent_response \<Rightarrow> gerror + string" where
  "tencent_created out = (case tr_instance_ids out of
      [] \<Rightarrow> Inl (ErrProvider ErrInternal ''Tencent Cloud RunInstances returned no instance IDs'' None)
    | i # _ \<Rightarrow> Inr i)"

definition tencent_create_instance ::
  "web \<Rightarrow> tencent_client \<Rightarrow> string \<times> string \<Rightarrow> tencent_create_request \<Rightarrow> gerror + string" where
  "tencent_create_instance w c cred r = bindr (tencent_run_request w c cred r) (\<lambda>rq.
     bindr (tencent_do w [dec_tencent_ids, dec_tencent_id] rq) tencent_created)"

definition tencent_create :: "web \<Rightarrow> tencent_client \<Rightarrow> string \<times> string \<Rightarrow> vm_create_request \<Rightarrow> gerror + vm_instance" where
  "tencent_create w c cred r = bindr (tencent_create_instance w c cred (tencent_create_of r)) (\<lambda>i.
     Inr \<lparr>vi_id = i, vi_state = VmPending, vi_native_state = ''PENDING'', vi_public_ip = [], vi_private_ip = [],
       vi_region = vq_region r, vi_zone = vc_zone (vq_config r)\<rparr>)"

definition tencent_described :: "string \<Rightarrow> tencent_response \<Rightarrow> gerror + tencent_status" where
  "tencent_described i out = (case tr_instances out of
      [] \<Rightarrow> Inl (ErrProvider ErrUnknown (''Tencent Cloud instance '' @ quote i @ '' was not found'') None)
    | x # _ \<Rightarrow> Inr \<lparr>ts_instance_id = tn_id x, ts_state = tn_state x, ts_public_ip = first_string (tn_public x),
        ts_private_ip = tn_private x, ts_request_id = tr_request_id out\<rparr>)"

definition tencent_describe :: "web \<Rightarrow> tencent_client \<Rightarrow> string \<times> string \<Rightarrow> string \<Rightarrow> gerror + tencent_status" where
  "tencent_describe w c cred i = bindr (tencent_new_request w c cred ''DescribeInstances'' (tencent_instances i)) (\<lambda>rq.
     bindr (tencent_do w [dec_tencent_instances, dec_tencent_id] rq) (tencent_described i))"

definition tencent_get :: "web \<Rightarrow> tencent_client \<Rightarrow> string \<times> string \<Rightarrow> string \<Rightarrow> gerror + vm_instance" where
  "tencent_get w c cred i = bindr (tencent_describe w c cred i) (\<lambda>s.
     Inr \<lparr>vi_id = ts_instance_id s, vi_state = tencentVMState (ts_state s), vi_native_state = ts_state s,
       vi_public_ip = ts_public_ip s, vi_private_ip = ts_private_ip s, vi_region = te_region c, vi_zone = []\<rparr>)"

definition tencent_terminate :: "web \<Rightarrow> tencent_client \<Rightarrow> string \<times> string \<Rightarrow> string \<Rightarrow> gerror option" where
  "tencent_terminate w c cred i = failure_of
     (bindr (tencent_new_request w c cred ''TerminateInstances'' (tencent_instances i)) (tencent_do w [dec_tencent_id]))"

end
