(* ===== verification/TianyiClient.thy ===== *)
theory TianyiClient
  imports VmHttp
begin

text \<open>
  \<open>tianyi_vm.go\<close>: machines of Tianyi Cloud. Its service answers with an envelope that has a code of its
  own.
\<close>

section \<open>Configuration and requests\<close>

record tianyi_client =
  ti_endpoint :: string
  ti_region :: string
  ti_az :: string
  ti_access_key :: string
  ti_secret_key :: string

record tianyi_create_request =
  yq_client_token :: string
  yq_region :: string
  yq_az :: string
  yq_display_name :: string
  yq_host_name :: string
  yq_flavor :: string
  yq_image_id :: string
  yq_image_public :: int
  yq_disk_type :: string
  yq_disk_size :: int
  yq_vpc :: string
  yq_subnet :: string
  yq_security_groups :: "string list"
  yq_public_ip :: bool
  yq_user_data :: string
  yq_metadata :: "string smap"

definition tianyi_credentials :: "resolver \<Rightarrow> tianyi_client \<Rightarrow> gerror + string \<times> string" where
  "tianyi_credentials resolve c = credential_pair ''Tianyi Cloud access_key and secret_key credentials are required''
     (resolved_value resolve (ti_access_key c) \<lparr>cq_provider = ''tianyi-cloud'', cq_name = ''access_key'',
        cq_env = [''CTYUN_ACCESS_KEY'', ''TIANYI_CLOUD_ACCESS_KEY'']\<rparr>)
     (resolved_value resolve (ti_secret_key c) \<lparr>cq_provider = ''tianyi-cloud'', cq_name = ''secret_key'',
        cq_env = [''CTYUN_SECRET_KEY'', ''TIANYI_CLOUD_SECRET_KEY'']\<rparr>)"

definition tianyi_new_request ::
  "web \<Rightarrow> tianyi_client \<Rightarrow> string \<times> string \<Rightarrow> string \<Rightarrow> string \<Rightarrow> url_values \<Rightarrow> string \<Rightarrow> gerror + http_request" where
  "tianyi_new_request w c cred m path query body =
     (let e0 = trim_right (\<lambda>x. x = CHR ''/'') (ti_endpoint c);
          endpoint = (if e0 = [] then ''https://ctecs-global.ctapi.ctyun.cn'' else e0)
      in case url_parse (endpoint @ path) of None \<Rightarrow> Inl (invalid_address w ''Tianyi Cloud'' (endpoint @ path))
       | Some u \<Rightarrow> tianyi_request w m (u\<lparr>url_raw_query := encode_query query\<rparr>) (requestID w 0) (fst cred) (snd cred) body)"

definition securityGroupList :: "string \<Rightarrow> string list" where
  "securityGroupList g = (if g = [] then [] else [g])"

definition tianyi_fields :: "tianyi_create_request \<Rightarrow> (string \<times> json option) list" where
  "tianyi_fields r =
     [(''clientToken'', Some (JStr (yq_client_token r))), (''regionID'', Some (JStr (yq_region r))),
      (''azName'', Some (JStr (yq_az r))), (''displayName'', Some (JStr (yq_display_name r))),
      (''flavorID'', Some (JStr (yq_flavor r))), (''imagePublic'', Some (json_whole (yq_image_public r))),
      (''imageID'', Some (JStr (yq_image_id r))), (''syshdType'', Some (JStr (yq_disk_type r))),
      (''syshd'', Some (json_whole (yq_disk_size r))), (''vpc'', Some (JStr (yq_vpc r))),
      (''extIP'', Some (JStr (if yq_public_ip r then ''1'' else ''0''))),
      (''name'', given (yq_host_name r \<noteq> []) (JStr (yq_host_name r))),
      (''secGroupList'', given (yq_security_groups r \<noteq> []) (json_strings (yq_security_groups r))),
      (''networkCardList'', given (yq_subnet r \<noteq> []) (JArr [json_map [(''subnetID'', JStr (yq_subnet r))]])),
      (''userData'', given (yq_user_data r \<noteq> []) (JStr (yq_user_data r))),
      (''metadata'', given (yq_metadata r \<noteq> []) (json_map (map (\<lambda>(k, v). (k, JStr v)) (yq_metadata r))))]"

definition tianyiCreatePayload :: "tianyi_create_request \<Rightarrow> json" where
  "tianyiCreatePayload r = payload (tianyi_fields r)"

text \<open>The name of the key pair is not sent to this cloud.\<close>

definition tianyi_create_of :: "vm_create_request \<Rightarrow> tianyi_create_request" where
  "tianyi_create_of r =
     (let c = vq_config r in
      \<lparr>yq_client_token = vq_run_id r, yq_region = vq_region r, yq_az = vc_zone c, yq_display_name = vq_name r,
       yq_host_name = vq_name r, yq_flavor = vq_instance_type r, yq_image_id = vc_image_id c, yq_image_public = 1,
       yq_disk_type = vc_disk_type c, yq_disk_size = vc_disk_size c, yq_vpc = vc_network_id c, yq_subnet = vc_subnet_id c,
       yq_security_groups = securityGroupList (vc_security_group c), yq_public_ip = vc_bandwidth c > 0,
       yq_user_data = b64_encode (vq_user_data r),
       yq_metadata = [(''switchboard'', ''true''), (''switchboard-run-id'', vq_run_id r)]\<rparr>)"

definition tianyi_run_request ::
  "web \<Rightarrow> tianyi_client \<Rightarrow> string \<times> string \<Rightarrow> tianyi_create_request \<Rightarrow> gerror + http_request" where
  "tianyi_run_request w c cred r =
     tianyi_new_request w c cred ''POST'' ''/v4/dec/ecs-create'' [] (marshal (tianyiCreatePayload r))"

definition tianyi_describe_query :: "tianyi_client \<Rightarrow> string \<Rightarrow> url_values" where
  "tianyi_describe_query c i = [(''regionID'', [ti_region c]), (''azName'', [ti_az c]), (''instanceID'', [i])]"

definition tianyi_terminate_body :: "web \<Rightarrow> tianyi_client \<Rightarrow> string \<Rightarrow> string" where
  "tianyi_terminate_body w c i = marshal (json_map
     [(''clientToken'', JStr (requestID w 1)), (''regionID'', JStr (ti_region c)), (''azName'', JStr (ti_az c)),
      (''instanceID'', JStr i)])"

section \<open>Answers\<close>

record tianyi_envelope =
  en_status :: int
  en_code :: json
  en_message :: string
  en_description :: string
  en_details :: string
  en_request_id :: string
  en_return :: "json smap"

definition empty_envelope :: tianyi_envelope where
  "empty_envelope = \<lparr>en_status = 0, en_code = JNull, en_message = [], en_description = [], en_details = [],
     en_request_id = [], en_return = []\<rparr>"

definition dec_envelope :: "tianyi_envelope decoder" where
  "dec_envelope = dec_struct
     [(''statusCode'', dec_field en_status en_status_update dec_whole), (''code'', dec_field en_code en_code_update dec_any),
      (''message'', dec_field en_message en_message_update dec_str),
      (''description'', dec_field en_description en_description_update dec_str),
      (''details'', dec_field en_details en_details_update dec_str),
      (''requestId'', dec_field en_request_id en_request_id_update dec_str),
      (''returnObj'', dec_field en_return en_return_update (dec_map dec_any JNull))]"

definition envelope_error :: "string \<Rightarrow> tianyi_envelope \<Rightarrow> gerror option" where
  "envelope_error msg e =
     (let lower = to_lower (en_message e @ '' '' @ en_description e @ '' '' @ en_details e) in
      if en_status e \<notin> set [0, 800, 200]
      then Some (ErrProvider ErrUnknown (msg @ '': statusCode='' @ string_of_int (en_status e) @ '' message='' @ en_message e
        @ '' details='' @ en_details e) None)
      else if equal_fold (en_message e) ''success'' \<or> equal_fold (en_description e) ''success'' \<or> en_message e = [] then None
      else if mentions lower ''fail'' \<or> mentions lower ''error''
      then Some (ErrProvider ErrUnknown (msg @ '': '' @ en_message e @ '' '' @ en_details e) None)
      else None)"

text \<open>A decoded value is never a \<open>Stringer\<close>, so only strings count.\<close>

fun firstTianyiString :: "json smap \<Rightarrow> string list \<Rightarrow> string" where
  "firstTianyiString m [] = []"
| "firstTianyiString m (k # ks) = (case map_of m k of Some (JStr s) \<Rightarrow> s | _ \<Rightarrow> firstTianyiString m ks)"

definition tianyiVMState :: "string \<Rightarrow> vm_state" where
  "tianyiVMState status =
     (let s = to_lower status in
      if s \<in> set [''pending'', ''creating'', ''starting'', ''building''] then VmPending
      else if s \<in> set [''running'', ''active''] then VmRunning
      else if s \<in> set [''stopping'', ''deleting'', ''rebooting''] then VmTerminating
      else if s \<in> set [''stopped'', ''deleted'', ''terminated''] then VmTerminated
      else if s \<in> set [''error'', ''failed'', ''fault''] then VmFailed else VmUnknown)"

text \<open>\<open>do\<close> without a structure, and with the envelope.\<close>

definition tianyi_body :: "web \<Rightarrow> http_request \<Rightarrow> gerror + string" where
  "tianyi_body w rq = bindr (request_failed ''Tianyi Cloud ECS request failed: '' (we_send w rq)) (provider_body ''Tianyi Cloud ECS'')"

definition tianyi_do :: "web \<Rightarrow> string \<Rightarrow> http_request \<Rightarrow> gerror + tianyi_envelope" where
  "tianyi_do w msg rq =
     bindr (request_failed ''Tianyi Cloud ECS request failed: '' (we_send w rq)) (\<lambda>rp.
     bindr (decodeProviderJSON w ''Tianyi Cloud ECS'' rp dec_envelope empty_envelope) (\<lambda>out.
       case envelope_error msg out of Some e \<Rightarrow> Inl e | None \<Rightarrow> Inr out))"

section \<open>Operations\<close>

text \<open>The check of the credentials does not look into the envelope.\<close>

definition tianyi_auth :: "web \<Rightarrow> tianyi_client \<Rightarrow> string \<times> string \<Rightarrow> gerror option" where
  "tianyi_auth w c cred = failure_of
     (bindr (tianyi_new_request w c cred ''GET'' ''/v3/cluster/describeRegionClusters'' [] []) (tianyi_body w))"

record tianyi_create_result =
  yr_instance_id :: string
  yr_order_id :: string
  yr_request_id :: string

definition tianyi_created :: "tianyi_envelope \<Rightarrow> tianyi_create_result" where
  "tianyi_created out =
     \<lparr>yr_instance_id = firstTianyiString (en_return out) [''instanceID'', ''instanceId'', ''serverID'', ''serverId''],
      yr_order_id = firstTianyiString (en_return out) [''masterOrderID'', ''masterOrderId'', ''orderID'', ''orderId''],
      yr_request_id = en_request_id out\<rparr>"

definition tianyi_create_answer :: "vm_create_request \<Rightarrow> tianyi_create_result \<Rightarrow> gerror + vm_instance" where
  "tianyi_create_answer r out =
     (if yr_instance_id out = []
      then Inl (ErrProvider ErrInternal (''Tianyi Cloud ECS create returned no instance ID for order '' @ quote (yr_order_id out)) None)
      else Inr \<lparr>vi_id = yr_instance_id out, vi_state = VmPending, vi_native_state = ''PENDING'', vi_public_ip = [],
        vi_private_ip = [], vi_region = vq_region r, vi_zone = vc_zone (vq_config r)\<rparr>)"

definition tianyi_create :: "web \<Rightarrow> tianyi_client \<Rightarrow> string \<times> string \<Rightarrow> vm_create_request \<Rightarrow> gerror + vm_instance" where
  "tianyi_create w c cred r = bindr (tianyi_run_request w c cred (tianyi_create_of r)) (\<lambda>rq.
     bindr (tianyi_do w ''Tianyi Cloud ECS create failed'' rq) (\<lambda>out. tianyi_create_answer r (tianyi_created out)))"

definition tianyi_described :: "tianyi_client \<Rightarrow> tianyi_envelope \<Rightarrow> vm_instance" where
  "tianyi_described c out =
     (let m = en_return out; state = firstTianyiString m [''status'', ''state'', ''instanceStatus''] in
      \<lparr>vi_id = firstTianyiString m [''instanceID'', ''instanceId''], vi_state = tianyiVMState state, vi_native_state = state,
       vi_public_ip = firstTianyiString m [''publicIP'', ''publicIp'', ''eipAddress''],
       vi_private_ip = firstTianyiString m [''privateIP'', ''privateIp'', ''fixedIP''], vi_region = ti_region c, vi_zone = ti_az c\<rparr>)"

definition tianyi_get :: "web \<Rightarrow> tianyi_client \<Rightarrow> string \<times> string \<Rightarrow> string \<Rightarrow> gerror + vm_instance" where
  "tianyi_get w c cred i = bindr (tianyi_new_request w c cred ''GET'' ''/v4/ecs/details'' (tianyi_describe_query c i) []) (\<lambda>rq.
     bindr (tianyi_do w ''Tianyi Cloud ECS describe failed'' rq) (\<lambda>out. Inr (tianyi_described c out)))"

definition tianyi_terminate :: "web \<Rightarrow> tianyi_client \<Rightarrow> string \<times> string \<Rightarrow> string \<Rightarrow> gerror option" where
  "tianyi_terminate w c cred i = failure_of
     (bindr (tianyi_new_request w c cred ''POST'' ''/v4/ecs/delete'' [] (tianyi_terminate_body w c i))
       (tianyi_do w ''Tianyi Cloud ECS terminate failed''))"

end
