(* ===== verification/BaiduClient.thy ===== *)
theory BaiduClient
  imports VmHttp
begin

text \<open>
  \<open>baidu_vm.go\<close>: machines of Baidu AI Cloud.
\<close>

section \<open>Configuration and requests\<close>

record baidu_client =
  ba_endpoint :: string
  ba_key_id :: string
  ba_secret_key :: string

record baidu_create_request =
  bq_client_token :: string
  bq_zone :: string
  bq_image_id :: string
  bq_spec :: string
  bq_name :: string
  bq_hostname :: string
  bq_subnet :: string
  bq_vpc :: string
  bq_security_group :: string
  bq_key_pair :: string
  bq_disk_size :: int
  bq_disk_type :: string
  bq_network :: int
  bq_user_data :: string
  bq_tags :: "string smap"

definition baidu_credentials :: "resolver \<Rightarrow> baidu_client \<Rightarrow> gerror + string \<times> string" where
  "baidu_credentials resolve c = credential_pair ''Baidu AI Cloud access_key_id and secret_access_key credentials are required''
     (resolved_value resolve (ba_key_id c) \<lparr>cq_provider = ''baidu-ai-cloud'', cq_name = ''access_key_id'',
        cq_env = [''BAIDU_CLOUD_ACCESS_KEY_ID'', ''BCE_ACCESS_KEY_ID'']\<rparr>)
     (resolved_value resolve (ba_secret_key c) \<lparr>cq_provider = ''baidu-ai-cloud'', cq_name = ''secret_access_key'',
        cq_env = [''BAIDU_CLOUD_SECRET_ACCESS_KEY'', ''BCE_SECRET_ACCESS_KEY'']\<rparr>)"

definition baidu_new_request ::
  "web \<Rightarrow> baidu_client \<Rightarrow> string \<times> string \<Rightarrow> string \<Rightarrow> string \<Rightarrow> url_values \<Rightarrow> string \<Rightarrow> gerror + http_request" where
  "baidu_new_request w c cred m path query body =
     (let e0 = trim_right (\<lambda>x. x = CHR ''/'') (ba_endpoint c);
          endpoint = (if e0 = [] then ''https://bcc.bj.baidubce.com'' else e0)
      in case url_parse (endpoint @ path) of None \<Rightarrow> Inl (invalid_address w ''Baidu AI Cloud BCC'' (endpoint @ path))
       | Some u \<Rightarrow> baidu_request w m (u\<lparr>url_raw_query := encode_query query\<rparr>) (fst cred) (snd cred) body)"

definition clientTokenFromRun :: "web \<Rightarrow> string \<Rightarrow> string" where
  "clientTokenFromRun w runID = (if runID = [] then string_of_int (unix_nano (we_now w)) else runID)"

definition baiduTags :: "string smap \<Rightarrow> json" where
  "baiduTags tags = JArr (map (\<lambda>k. json_map [(''tagKey'', JStr k), (''tagValue'', JStr (lookup_default [] tags k))])
     (sort_strings (map fst tags)))"

definition baidu_fields :: "baidu_create_request \<Rightarrow> (string \<times> json option) list" where
  "baidu_fields r =
     [(''spec'', Some (JStr (bq_spec r))), (''imageId'', Some (JStr (bq_image_id r))), (''name'', Some (JStr (bq_name r))),
      (''hostname'', Some (JStr (bq_hostname r))), (''zoneName'', Some (JStr (bq_zone r))),
      (''subnetId'', Some (JStr (bq_subnet r))), (''vpcId'', Some (JStr (bq_vpc r))),
      (''keypairId'', Some (JStr (bq_key_pair r))), (''paymentTiming'', Some (JStr ''Postpaid'')),
      (''securityGroupId'', given (bq_security_group r \<noteq> []) (JStr (bq_security_group r))),
      (''rootDiskSizeInGb'', given (bq_disk_size r > 0) (json_whole (bq_disk_size r))),
      (''rootDiskStorageType'', given (bq_disk_type r \<noteq> []) (JStr (bq_disk_type r))),
      (''networkCapacityInMbps'', given (bq_network r > 0) (json_whole (bq_network r))),
      (''userData'', given (bq_user_data r \<noteq> []) (JStr (bq_user_data r))),
      (''tags'', given (bq_tags r \<noteq> []) (baiduTags (bq_tags r)))]"

definition baiduCreatePayload :: "baidu_create_request \<Rightarrow> json" where
  "baiduCreatePayload r = payload (baidu_fields r)"

definition baidu_create_of :: "web \<Rightarrow> vm_create_request \<Rightarrow> baidu_create_request" where
  "baidu_create_of w r =
     (let c = vq_config r in
      \<lparr>bq_client_token = clientTokenFromRun w (vq_run_id r), bq_zone = vc_zone c, bq_image_id = vc_image_id c,
       bq_spec = vq_instance_type r, bq_name = vq_name r, bq_hostname = vq_name r, bq_subnet = vc_subnet_id c,
       bq_vpc = vc_network_id c, bq_security_group = vc_security_group c, bq_key_pair = vc_ssh_key_name c,
       bq_disk_size = vc_disk_size c, bq_disk_type = vc_disk_type c, bq_network = vc_bandwidth c,
       bq_user_data = b64_encode (vq_user_data r),
       bq_tags = [(''switchboard'', ''true''), (''switchboard-run-id'', vq_run_id r)]\<rparr>)"

definition baidu_run_request ::
  "web \<Rightarrow> baidu_client \<Rightarrow> string \<times> string \<Rightarrow> baidu_create_request \<Rightarrow> gerror + http_request" where
  "baidu_run_request w c cred r = baidu_new_request w c cred ''POST'' ''/v2/instanceBySpec''
     [(''clientToken'', [bq_client_token r])] (marshal (baiduCreatePayload r))"

definition baidu_instance_path :: "string \<Rightarrow> string" where
  "baidu_instance_path i = ''/v2/instance/'' @ escape EncodePathSegment i"

definition baidu_terminate_body :: string where
  "baidu_terminate_body = marshal (json_map
     [(''relatedReleaseFlag'', JBool True), (''deleteCdsSnapshotFlag'', JBool False),
      (''deleteRelatedEnisFlag'', JBool True), (''bccRecycleFlag'', JBool True)])"

section \<open>Answers\<close>

definition baiduVMState :: "string \<Rightarrow> vm_state" where
  "baiduVMState status =
     (let s = to_lower status in
      if s \<in> set [''creating'', ''starting'', ''pending'', ''rebooting''] then VmPending else if s = ''running'' then VmRunning
      else if s \<in> set [''stopping'', ''deleting''] then VmTerminating
      else if s \<in> set [''stopped'', ''deleted'', ''terminated''] then VmTerminated
      else if s \<in> set [''error'', ''failed''] then VmFailed else VmUnknown)"

definition baidu_body :: "web \<Rightarrow> http_request \<Rightarrow> gerror + string" where
  "baidu_body w rq = bindr (request_failed ''Baidu AI Cloud BCC request failed: '' (we_send w rq)) (provider_body ''Baidu AI Cloud BCC'')"

definition baidu_do :: "web \<Rightarrow> 's decoder \<Rightarrow> 's \<Rightarrow> http_request \<Rightarrow> gerror + 's" where
  "baidu_do w d zero rq = bindr (request_failed ''Baidu AI Cloud BCC request failed: '' (we_send w rq)) (\<lambda>rp.
     decodeProviderJSON w ''Baidu AI Cloud BCC'' rp d zero)"

section \<open>Operations\<close>

definition baidu_auth :: "web \<Rightarrow> baidu_client \<Rightarrow> string \<times> string \<Rightarrow> gerror option" where
  "baidu_auth w c cred = failure_of (bindr (baidu_new_request w c cred ''GET'' ''/v2/instance'' [] []) (baidu_body w))"

record baidu_created =
  bc_ids :: "string list"
  bc_id :: string

definition dec_baidu_created :: "baidu_created decoder" where
  "dec_baidu_created = dec_struct [(''instanceIds'', dec_field bc_ids bc_ids_update (dec_slice dec_str [])),
     (''instanceId'', dec_field bc_id bc_id_update dec_str)]"

definition baidu_created_id :: "baidu_created \<Rightarrow> gerror + string" where
  "baidu_created_id out =
     (let i = (if bc_id out = [] then first_string (bc_ids out) else bc_id out) in
      if i = [] then Inl (ErrProvider ErrInternal ''Baidu AI Cloud BCC create returned no instance IDs'' None) else Inr i)"

definition baidu_create :: "web \<Rightarrow> baidu_client \<Rightarrow> string \<times> string \<Rightarrow> vm_create_request \<Rightarrow> gerror + vm_instance" where
  "baidu_create w c cred r = bindr (baidu_run_request w c cred (baidu_create_of w r)) (\<lambda>rq.
     bindr (baidu_do w dec_baidu_created \<lparr>bc_ids = [], bc_id = []\<rparr> rq) (\<lambda>out.
     bindr (baidu_created_id out) (\<lambda>i.
     Inr \<lparr>vi_id = i, vi_state = VmPending, vi_native_state = ''Creating'', vi_public_ip = [], vi_private_ip = [],
       vi_region = vq_region r, vi_zone = vc_zone (vq_config r)\<rparr>)))"

record baidu_instance =
  bi_id :: string
  bi_status :: string
  bi_public_ip :: string
  bi_internal_ip :: string

definition dec_baidu_instance :: "baidu_instance decoder" where
  "dec_baidu_instance = dec_struct [(''instance'', dec_struct
     [(''id'', dec_field bi_id bi_id_update dec_str), (''status'', dec_field bi_status bi_status_update dec_str),
      (''publicIp'', dec_field bi_public_ip bi_public_ip_update dec_str),
      (''internalIp'', dec_field bi_internal_ip bi_internal_ip_update dec_str)])]"

definition baidu_described :: "string \<Rightarrow> baidu_instance \<Rightarrow> gerror + vm_instance" where
  "baidu_described i x =
     (if bi_id x = [] then Inl (ErrProvider ErrUnknown (''Baidu AI Cloud BCC instance '' @ quote i @ '' was not found'') None)
      else Inr \<lparr>vi_id = bi_id x, vi_state = baiduVMState (bi_status x), vi_native_state = bi_status x,
        vi_public_ip = bi_public_ip x, vi_private_ip = bi_internal_ip x, vi_region = [], vi_zone = []\<rparr>)"

definition baidu_get :: "web \<Rightarrow> baidu_client \<Rightarrow> string \<times> string \<Rightarrow> string \<Rightarrow> gerror + vm_instance" where
  "baidu_get w c cred i = bindr (baidu_new_request w c cred ''GET'' (baidu_instance_path i) [] []) (\<lambda>rq.
     bindr (baidu_do w dec_baidu_instance \<lparr>bi_id = [], bi_status = [], bi_public_ip = [], bi_internal_ip = []\<rparr> rq)
       (baidu_described i))"

definition baidu_terminate :: "web \<Rightarrow> baidu_client \<Rightarrow> string \<times> string \<Rightarrow> string \<Rightarrow> gerror option" where
  "baidu_terminate w c cred i = failure_of
     (bindr (baidu_new_request w c cred ''POST'' (baidu_instance_path i) [] baidu_terminate_body) (baidu_body w))"

end
