(* ===== verification/VmClients.thy ===== *)
theory VmClients
  imports AlibabaClient HuaweiClient TencentClient TianyiClient BaiduClient
begin

text \<open>
  The interface \<open>VMClient\<close> over the five clients: what each promises to the runtime that creates a
  machine through it, and how it uses the secret of a cloud.
\<close>

section \<open>The interface\<close>

datatype vm_client = Alibaba alibaba_config | Huawei huawei_config | Tencent tencent_client
  | Tianyi tianyi_client | Baidu baidu_client

fun client_credentials :: "resolver \<Rightarrow> vm_client \<Rightarrow> gerror + string \<times> string" where
  "client_credentials resolve (Alibaba c) = alibaba_credentials resolve c"
| "client_credentials resolve (Huawei c) = huawei_credentials resolve c"
| "client_credentials resolve (Tencent c) = tencent_credentials resolve c"
| "client_credentials resolve (Tianyi c) = tianyi_credentials resolve c"
| "client_credentials resolve (Baidu c) = baidu_credentials resolve c"

fun auth_with :: "web \<Rightarrow> vm_client \<Rightarrow> string \<times> string \<Rightarrow> gerror option" where
  "auth_with w (Alibaba c) = alibaba_auth w c"
| "auth_with w (Huawei c) = huawei_auth w c"
| "auth_with w (Tencent c) = tencent_auth w c"
| "auth_with w (Tianyi c) = tianyi_auth w c"
| "auth_with w (Baidu c) = baidu_auth w c"

fun create_with :: "web \<Rightarrow> vm_client \<Rightarrow> string \<times> string \<Rightarrow> vm_create_request \<Rightarrow> gerror + vm_instance" where
  "create_with w (Alibaba c) = alibaba_create w c"
| "create_with w (Huawei c) = huawei_create w c"
| "create_with w (Tencent c) = tencent_create w c"
| "create_with w (Tianyi c) = tianyi_create w c"
| "create_with w (Baidu c) = baidu_create w c"

fun get_with :: "web \<Rightarrow> vm_client \<Rightarrow> string \<times> string \<Rightarrow> string \<Rightarrow> gerror + vm_instance" where
  "get_with w (Alibaba c) = alibaba_get w c"
| "get_with w (Huawei c) = huawei_get w c"
| "get_with w (Tencent c) = tencent_get w c"
| "get_with w (Tianyi c) = tianyi_get w c"
| "get_with w (Baidu c) = baidu_get w c"

fun terminate_with :: "web \<Rightarrow> vm_client \<Rightarrow> string \<times> string \<Rightarrow> string \<Rightarrow> gerror option" where
  "terminate_with w (Alibaba c) = alibaba_terminate w c"
| "terminate_with w (Huawei c) = huawei_terminate w c"
| "terminate_with w (Tencent c) = tencent_terminate w c"
| "terminate_with w (Tianyi c) = tianyi_terminate w c"
| "terminate_with w (Baidu c) = baidu_terminate w c"

text \<open>Every operation finds its credentials first.\<close>

definition client_auth :: "web \<Rightarrow> resolver \<Rightarrow> vm_client \<Rightarrow> gerror option" where
  "client_auth w resolve client = (case client_credentials resolve client of Inl e \<Rightarrow> Some e
     | Inr cred \<Rightarrow> auth_with w client cred)"

definition client_create :: "web \<Rightarrow> resolver \<Rightarrow> vm_client \<Rightarrow> vm_create_request \<Rightarrow> gerror + vm_instance" where
  "client_create w resolve client r = bindr (client_credentials resolve client) (\<lambda>cred. create_with w client cred r)"

definition client_get :: "web \<Rightarrow> resolver \<Rightarrow> vm_client \<Rightarrow> string \<Rightarrow> gerror + vm_instance" where
  "client_get w resolve client i = bindr (client_credentials resolve client) (\<lambda>cred. get_with w client cred i)"

definition client_terminate :: "web \<Rightarrow> resolver \<Rightarrow> vm_client \<Rightarrow> string \<Rightarrow> gerror option" where
  "client_terminate w resolve client i = (case client_credentials resolve client of Inl e \<Rightarrow> Some e
     | Inr cred \<Rightarrow> terminate_with w client cred i)"

section \<open>What a machine is asked to run\<close>

text \<open>The request of a creation, and the script that the cloud reads out of it.\<close>

fun create_request :: "web \<Rightarrow> vm_client \<Rightarrow> string \<times> string \<Rightarrow> vm_create_request \<Rightarrow> gerror + http_request" where
  "create_request w (Alibaba c) cred r = alibaba_signed w c cred (alibaba_create_values r)"
| "create_request w (Huawei c) cred r = huawei_create_request w c cred r"
| "create_request w (Tencent c) cred r = tencent_run_request w c cred (tencent_create_of r)"
| "create_request w (Tianyi c) cred r = tianyi_run_request w c cred (tianyi_create_of r)"
| "create_request w (Baidu c) cred r = baidu_run_request w c cred (baidu_create_of w r)"

definition decoded_member :: "string \<Rightarrow> json option \<Rightarrow> string option" where
  "decoded_member k j = (case j of None \<Rightarrow> None | Some m \<Rightarrow>
     (case member k m of Some (JStr s) \<Rightarrow> b64_decode s | _ \<Rightarrow> None))"

fun script_of :: "vm_client \<Rightarrow> http_request \<Rightarrow> string option" where
  "script_of (Alibaba c) rq = (case lookup_default [] (parse_query (url_raw_query (hr_url rq))) ''UserData'' of
     [v] \<Rightarrow> b64_decode v | _ \<Rightarrow> None)"
| "script_of (Huawei c) rq = decoded_member ''user_data'' (member ''server'' (body_json rq))"
| "script_of (Tencent c) rq = decoded_member ''UserData'' (Some (body_json rq))"
| "script_of (Tianyi c) rq = decoded_member ''userData'' (Some (body_json rq))"
| "script_of (Baidu c) rq = decoded_member ''userData'' (Some (body_json rq))"

text \<open>The contract of a client with the runtime: a machine that was created was asked for with the
  script, it is still pending, and it is where it was asked for.\<close>

locale machine_client =
  fixes request :: "string \<times> string \<Rightarrow> vm_create_request \<Rightarrow> gerror + http_request"
    and create :: "string \<times> string \<Rightarrow> vm_create_request \<Rightarrow> gerror + vm_instance"
    and send :: "http_request \<Rightarrow> gerror + http_response"
    and script :: "http_request \<Rightarrow> string option"
  assumes create_sends: "create cred r = Inr i \<Longrightarrow>
      \<exists>rq rp. request cred r = Inr rq \<and> send rq = Inr rp \<and> ok_status (hp_status rp)"
    and carries_script: "request cred r = Inr rq \<Longrightarrow> vq_user_data r \<noteq> [] \<Longrightarrow> script rq = Some (vq_user_data r)"
    and create_pending: "create cred r = Inr i \<Longrightarrow>
      vi_state i = VmPending \<and> vi_region i = vq_region r \<and> vi_zone i = vc_zone (vq_config r)"
begin

lemma created_runs_script:
  assumes "create cred r = Inr i" and "vq_user_data r \<noteq> []"
  shows "\<exists>rq rp. request cred r = Inr rq \<and> send rq = Inr rp \<and> ok_status (hp_status rp) \<and> script rq = Some (vq_user_data r)"
  using create_sends [OF assms(1)] carries_script assms(2) by blast

end

section \<open>The bodies that are sent\<close>

lemma b64_no_space: "c \<in> set (b64_encode s) \<Longrightarrow> \<not> is_space c"
proof -
  have "b64_value c = Some n \<Longrightarrow> \<not> is_space c" for c n by (auto simp: b64_value_def is_space_def split: if_splits)
  then have symbol: "\<not> is_space (b64_symbol n)" if "n < 64" for n using b64_symbol_value [OF that] by blast
  have equals: "\<not> is_space (CHR ''='')" by (simp add: is_space_def)
  show "c \<in> set (b64_encode s) \<Longrightarrow> \<not> is_space c"
    by (induction s rule: b64_encode.induct) (use symbol b64_parts equals in auto)
qed

lemma dropWhile_none: "(\<And>c. c \<in> set s \<Longrightarrow> \<not> P c) \<Longrightarrow> dropWhile P s = s"
  by (cases s) auto

lemma b64_ne:
  assumes "s \<noteq> []"
  shows "trim_space (b64_encode s) \<noteq> []"
proof -
  from assms have "b64_encode s \<noteq> []" by (cases s rule: b64_encode.cases) auto
  moreover have "dropWhile is_space (b64_encode s) = b64_encode s"
    by (rule dropWhile_none) (rule b64_no_space)
  moreover have "dropWhile is_space (rev (b64_encode s)) = rev (b64_encode s)"
    by (rule dropWhile_none) (simp add: b64_no_space)
  ultimately show ?thesis by (simp add: trim_space_def trim_def trim_left_def trim_right_def)
qed

lemma b64_text_ne: "s \<noteq> [] \<Longrightarrow> b64_encode s \<noteq> []"
  by (cases s rule: b64_encode.cases) auto

lemma new_request_body: "new_request w m a body = Inr rq \<Longrightarrow> hr_body rq = body"
  by (auto simp: new_request_def Let_def split: option.splits)

lemma bodies_kept:
  "huawei_signed w hc cred m path query body = Inr rq \<Longrightarrow> hr_body rq = body"
  "tencent_new_request w tc cred action body = Inr rq \<Longrightarrow> hr_body rq = body"
  "tianyi_new_request w yc cred m path q body = Inr rq \<Longrightarrow> hr_body rq = body"
  "baidu_new_request w bc cred m path q body = Inr rq \<Longrightarrow> hr_body rq = body"
  by (auto simp: huawei_signed_def newHuaweiSignedRequest_def huawei_request_def tencent_new_request_def tencent_request_def
      tianyi_new_request_def tianyi_request_def baidu_new_request_def baidu_request_def Let_def bindr_eq_Inr
      dest!: new_request_body split: option.splits)

lemma plain_array: "list_all json_plain xs \<Longrightarrow> json_plain (JArr xs)"
  by (rule plain_arr) (simp add: list_all_iff)

lemma huawei_plain: "json_plain (huaweiCreatePayload r)"
proof -
  have "json_plain (huawei_root_volume r)"
    unfolding huawei_root_volume_def by (rule plain_payload) (simp_all add: given_plain)
  then have "json_plain (payload (huawei_server_fields r))"
    by (intro plain_payload) (simp_all add: huawei_server_fields_def Let_def given_plain plain_array plain_map)
  then show ?thesis by (simp add: huaweiCreatePayload_def plain_map)
qed

lemma tencent_plain: "json_plain (tencentRunInstancesPayload r)"
proof -
  have "json_plain (payload [(''DiskType'', given (tq_disk_type r \<noteq> []) (JStr (tq_disk_type r))),
      (''DiskSize'', given (tq_disk_size r > 0) (json_whole (tq_disk_size r)))])"
    by (rule plain_payload) (simp_all add: given_plain)
  moreover have "json_plain (tencentTags (tq_tags r))"
    unfolding tencentTags_def by (rule plain_array) (simp add: list_all_iff plain_map)
  ultimately show ?thesis
    unfolding tencentRunInstancesPayload_def
    by (intro plain_payload) (simp_all add: tencent_fields_def given_plain plain_array plain_map)
qed

lemma tianyi_plain: "distinct (map fst (yq_metadata r)) \<Longrightarrow> json_plain (tianyiCreatePayload r)"
  unfolding tianyiCreatePayload_def
  by (intro plain_payload)
    (simp_all add: tianyi_fields_def given_plain plain_array plain_map list_all_iff comp_def case_prod_beta)

lemma baidu_plain: "json_plain (baiduCreatePayload r)"
proof -
  have "json_plain (baiduTags (bq_tags r))"
    unfolding baiduTags_def by (rule plain_array) (simp add: list_all_iff plain_map)
  then show ?thesis
    unfolding baiduCreatePayload_def by (intro plain_payload) (simp_all add: baidu_fields_def given_plain)
qed

section \<open>Each client keeps the contract\<close>

lemma alibaba_create_keys: "distinct (map fst (alibaba_create_values r))"
  by (simp add: alibaba_create_values_def alibaba_action_def)

lemma alibaba_carries:
  assumes "alibaba_signed w c cred (alibaba_create_values r) = Inr rq" and "vq_user_data r \<noteq> []"
  shows "script_of (Alibaba c) rq = Some (vq_user_data r)"
proof -
  let ?m = "alibaba_values w (fst cred) (alibaba_create_values r)"
  have rq: "alibaba_request w (al_endpoint c) (snd cred) ?m = Inr rq"
    using assms(1) by (simp add: alibaba_signed_def newAlibabaSignedRequest_def)
  then obtain u where u: "url_parse (al_endpoint c) = Some u" by (auto simp: alibaba_request_def split: option.splits)
  have "map_of (alibaba_create_values r) ''UserData'' = Some (b64_encode (vq_user_data r))"
    "map_of (alibaba_create_values r) ''Signature'' = None"
    by (simp_all add: alibaba_create_values_def alibaba_action_def)
  then have "map_of ?m ''UserData'' = Some (b64_encode (vq_user_data r))" "map_of ?m ''Signature'' = None"
    using b64_ne [OF assms(2)] by (simp_all add: alibaba_values_of [OF alibaba_create_keys] alibaba_base_def)
  then show ?thesis using alibaba_sent [OF rq distinct_alibaba_values _ u, of "''UserData''"] by simp
qed

lemma body_ok: "provider_body msg rp = Inr b \<Longrightarrow> ok_status (hp_status rp)"
  by (auto simp: provider_body_def split: option.splits if_splits prod.splits)

lemma decoded_ok: "decodeProviderJSON w msg rp d z = Inr x \<Longrightarrow> ok_status (hp_status rp)"
  by (auto simp: decodeProviderJSON_def bindr_eq_Inr dest: body_ok)

lemma request_failed_Inr [simp]: "request_failed msg r = Inr rp \<longleftrightarrow> r = Inr rp"
  by (simp add: request_failed_def split: sum.split)

lemma alibaba_ok: "alibaba_body w rq = Inr b \<Longrightarrow> \<exists>rp. we_send w rq = Inr rp \<and> ok_status (hp_status rp)"
  by (auto simp: alibaba_body_def bindr_eq_Inr Let_def alibabaResponseError_def split: option.splits if_splits)

lemma huawei_ok: "huawei_body w rq = Inr b \<Longrightarrow> \<exists>rp. we_send w rq = Inr rp \<and> ok_status (hp_status rp)"
  by (auto simp: huawei_body_def bindr_eq_Inr Let_def huaweiResponseError_def split: option.splits if_splits)

lemmas read_answers = alibaba_do_def huawei_do_def tencent_do_def tianyi_do_def baidu_do_def
  alibaba_create_answer_def huawei_create_answer_def tianyi_create_answer_def

interpretation alibaba: machine_client "create_request w (Alibaba c)" "create_with w (Alibaba c)" "we_send w" "script_of (Alibaba c)"
  for w c
proof
  fix cred r i
  assume "create_with w (Alibaba c) cred r = Inr i"
  then show "\<exists>rq rp. create_request w (Alibaba c) cred r = Inr rq \<and> we_send w rq = Inr rp \<and> ok_status (hp_status rp)"
    "vi_state i = VmPending \<and> vi_region i = vq_region r \<and> vi_zone i = vc_zone (vq_config r)"
    by (auto simp: alibaba_create_def bindr_eq_Inr read_answers Let_def dest!: alibaba_ok split: if_splits)
qed (simp add: alibaba_carries del: script_of.simps)

interpretation huawei: machine_client "create_request w (Huawei c)" "create_with w (Huawei c)" "we_send w" "script_of (Huawei c)"
  for w c
proof
  fix cred r i
  assume "create_with w (Huawei c) cred r = Inr i"
  then show "\<exists>rq rp. create_request w (Huawei c) cred r = Inr rq \<and> we_send w rq = Inr rp \<and> ok_status (hp_status rp)"
    "vi_state i = VmPending \<and> vi_region i = vq_region r \<and> vi_zone i = vc_zone (vq_config r)"
    by (auto simp: huawei_create_def bindr_eq_Inr read_answers Let_def dest!: huawei_ok split: if_splits)
next
  fix cred r rq
  assume "create_request w (Huawei c) cred r = Inr rq"
  then have "body_json rq = huaweiCreatePayload r"
    using body_marshal [OF bodies_kept(1) huawei_plain] by (simp add: huawei_create_request_def)
  moreover have "member ''server'' (huaweiCreatePayload r) = Some (payload (huawei_server_fields r))"
    by (simp add: huaweiCreatePayload_def member_def json_map_def)
  moreover have "member ''user_data'' (payload (huawei_server_fields r)) = Some (JStr (b64_encode (vq_user_data r)))"
    by (subst member_payload) (simp_all add: huawei_server_fields_def Let_def)
  ultimately show "script_of (Huawei c) rq = Some (vq_user_data r)" by (simp add: decoded_member_def)
qed

interpretation tencent: machine_client "create_request w (Tencent c)" "create_with w (Tencent c)" "we_send w" "script_of (Tencent c)"
  for w c
proof
  fix cred r i
  assume "create_with w (Tencent c) cred r = Inr i"
  then show "\<exists>rq rp. create_request w (Tencent c) cred r = Inr rq \<and> we_send w rq = Inr rp \<and> ok_status (hp_status rp)"
    "vi_state i = VmPending \<and> vi_region i = vq_region r \<and> vi_zone i = vc_zone (vq_config r)"
    by (auto simp: tencent_create_def tencent_create_instance_def bindr_eq_Inr read_answers Let_def dest!: decoded_ok split: if_splits)
next
  fix cred r rq
  assume "create_request w (Tencent c) cred r = Inr rq" and data: "vq_user_data r \<noteq> []"
  then have "body_json rq = tencentRunInstancesPayload (tencent_create_of r)"
    using body_marshal [OF bodies_kept(2) tencent_plain] by (simp add: tencent_run_request_def)
  moreover have "member ''UserData'' (tencentRunInstancesPayload (tencent_create_of r)) = Some (JStr (b64_encode (vq_user_data r)))"
    unfolding tencentRunInstancesPayload_def using b64_text_ne [OF data]
    by (subst member_payload) (auto simp: tencent_fields_def given_def tencent_create_of_def Let_def)
  ultimately show "script_of (Tencent c) rq = Some (vq_user_data r)" by (simp add: decoded_member_def)
qed

interpretation tianyi: machine_client "create_request w (Tianyi c)" "create_with w (Tianyi c)" "we_send w" "script_of (Tianyi c)"
  for w c
proof
  fix cred r i
  assume "create_with w (Tianyi c) cred r = Inr i"
  then show "\<exists>rq rp. create_request w (Tianyi c) cred r = Inr rq \<and> we_send w rq = Inr rp \<and> ok_status (hp_status rp)"
    "vi_state i = VmPending \<and> vi_region i = vq_region r \<and> vi_zone i = vc_zone (vq_config r)"
    by (auto simp: tianyi_create_def bindr_eq_Inr read_answers Let_def dest!: decoded_ok split: if_splits)
next
  fix cred r rq
  assume "create_request w (Tianyi c) cred r = Inr rq" and data: "vq_user_data r \<noteq> []"
  moreover have "json_plain (tianyiCreatePayload (tianyi_create_of r))"
    by (rule tianyi_plain) (simp add: tianyi_create_of_def Let_def)
  ultimately have "body_json rq = tianyiCreatePayload (tianyi_create_of r)"
    using body_marshal [OF bodies_kept(3)] by (simp add: tianyi_run_request_def)
  moreover have "member ''userData'' (tianyiCreatePayload (tianyi_create_of r)) = Some (JStr (b64_encode (vq_user_data r)))"
    unfolding tianyiCreatePayload_def using b64_text_ne [OF data]
    by (subst member_payload) (auto simp: tianyi_fields_def given_def tianyi_create_of_def Let_def)
  ultimately show "script_of (Tianyi c) rq = Some (vq_user_data r)" by (simp add: decoded_member_def)
qed

interpretation baidu: machine_client "create_request w (Baidu c)" "create_with w (Baidu c)" "we_send w" "script_of (Baidu c)"
  for w c
proof
  fix cred r i
  assume "create_with w (Baidu c) cred r = Inr i"
  then show "\<exists>rq rp. create_request w (Baidu c) cred r = Inr rq \<and> we_send w rq = Inr rp \<and> ok_status (hp_status rp)"
    "vi_state i = VmPending \<and> vi_region i = vq_region r \<and> vi_zone i = vc_zone (vq_config r)"
    by (auto simp: baidu_create_def bindr_eq_Inr read_answers Let_def dest!: decoded_ok split: if_splits)
next
  fix cred r rq
  assume "create_request w (Baidu c) cred r = Inr rq" and data: "vq_user_data r \<noteq> []"
  then have "body_json rq = baiduCreatePayload (baidu_create_of w r)"
    using body_marshal [OF bodies_kept(4) baidu_plain] by (simp add: baidu_run_request_def)
  moreover have "member ''userData'' (baiduCreatePayload (baidu_create_of w r)) = Some (JStr (b64_encode (vq_user_data r)))"
    unfolding baiduCreatePayload_def using b64_text_ne [OF data]
    by (subst member_payload) (auto simp: baidu_fields_def given_def baidu_create_of_def Let_def)
  ultimately show "script_of (Baidu c) rq = Some (vq_user_data r)" by (simp add: decoded_member_def)
qed

lemma created_machine:
  assumes "client_create w resolve client r = Inr i" and "vq_user_data r \<noteq> []"
  shows "\<exists>cred rq rp. client_credentials resolve client = Inr cred \<and> create_request w client cred r = Inr rq
    \<and> we_send w rq = Inr rp \<and> ok_status (hp_status rp) \<and> script_of client rq = Some (vq_user_data r)"
proof -
  obtain cred where cred: "client_credentials resolve client = Inr cred" "create_with w client cred r = Inr i"
    using assms(1) by (auto simp: client_create_def bindr_eq_Inr)
  have "\<exists>rq rp. create_request w client cred r = Inr rq \<and> we_send w rq = Inr rp \<and> ok_status (hp_status rp)
      \<and> script_of client rq = Some (vq_user_data r)"
  proof (cases client)
    case (Alibaba c)
    show ?thesis unfolding Alibaba using cred(2) assms(2) unfolding Alibaba by (rule alibaba.created_runs_script)
  next
    case (Huawei c)
    show ?thesis unfolding Huawei using cred(2) assms(2) unfolding Huawei by (rule huawei.created_runs_script)
  next
    case (Tencent c)
    show ?thesis unfolding Tencent using cred(2) assms(2) unfolding Tencent by (rule tencent.created_runs_script)
  next
    case (Tianyi c)
    show ?thesis unfolding Tianyi using cred(2) assms(2) unfolding Tianyi by (rule tianyi.created_runs_script)
  next
    case (Baidu c)
    show ?thesis unfolding Baidu using cred(2) assms(2) unfolding Baidu by (rule baidu.created_runs_script)
  qed
  with cred(1) show ?thesis by blast
qed

section \<open>The secret\<close>

text \<open>The request of every operation, from the credentials.\<close>

datatype vm_call = Check | Create vm_create_request | Get string | Terminate string

fun client_request :: "web \<Rightarrow> vm_client \<Rightarrow> string \<times> string \<Rightarrow> vm_call \<Rightarrow> gerror + http_request" where
  "client_request w client cred (Create r) = create_request w client cred r"
| "client_request w (Alibaba c) cred Check = alibaba_signed w c cred (alibaba_action ''DescribeRegions'')"
| "client_request w (Alibaba c) cred (Get i) = alibaba_signed w c cred (alibaba_get_values c i)"
| "client_request w (Alibaba c) cred (Terminate i) = alibaba_signed w c cred (alibaba_terminate_values c i)"
| "client_request w (Huawei c) cred Check =
     huawei_signed w c cred ''GET'' (cloudserversPath c @ ''/detail'') (Some [(''limit'', [''1''])]) []"
| "client_request w (Huawei c) cred (Get i) = huawei_signed w c cred ''GET'' (huawei_server_path c i) None []"
| "client_request w (Huawei c) cred (Terminate i) = huawei_signed w c cred ''DELETE'' (huawei_server_path c i) None []"
| "client_request w (Tencent c) cred Check = tencent_new_request w c cred ''DescribeRegions'' ''{}''"
| "client_request w (Tencent c) cred (Get i) = tencent_new_request w c cred ''DescribeInstances'' (tencent_instances i)"
| "client_request w (Tencent c) cred (Terminate i) = tencent_new_request w c cred ''TerminateInstances'' (tencent_instances i)"
| "client_request w (Tianyi c) cred Check = tianyi_new_request w c cred ''GET'' ''/v3/cluster/describeRegionClusters'' [] []"
| "client_request w (Tianyi c) cred (Get i) =
     tianyi_new_request w c cred ''GET'' ''/v4/ecs/details'' (tianyi_describe_query c i) []"
| "client_request w (Tianyi c) cred (Terminate i) =
     tianyi_new_request w c cred ''POST'' ''/v4/ecs/delete'' [] (tianyi_terminate_body w c i)"
| "client_request w (Baidu c) cred Check = baidu_new_request w c cred ''GET'' ''/v2/instance'' [] []"
| "client_request w (Baidu c) cred (Get i) = baidu_new_request w c cred ''GET'' (baidu_instance_path i) [] []"
| "client_request w (Baidu c) cred (Terminate i) = baidu_new_request w c cred ''POST'' (baidu_instance_path i) [] baidu_terminate_body"

text \<open>An operation whose request is not made ends with its error: nothing is sent.\<close>

lemma no_request:
  assumes "client_request w client cred call = Inl e"
  shows "case call of Check \<Rightarrow> auth_with w client cred = Some e | Create r \<Rightarrow> create_with w client cred r = Inl e
    | Get i \<Rightarrow> get_with w client cred i = Inl e | Terminate i \<Rightarrow> terminate_with w client cred i = Some e"
  using assms
  by (cases client; cases call) (simp_all add: alibaba_auth_def alibaba_create_def alibaba_get_def alibaba_terminate_def
    huawei_auth_def huawei_create_def huawei_get_def huawei_terminate_def tencent_auth_def tencent_create_def
    tencent_create_instance_def tencent_get_def tencent_describe_def tencent_terminate_def tianyi_auth_def tianyi_create_def
    tianyi_get_def tianyi_terminate_def baidu_auth_def baidu_create_def baidu_get_def baidu_terminate_def failure_of_def)

lemmas signers = alibaba_signed_def newAlibabaSignedRequest_def alibaba_request_def alibaba_query_def alibaba_signature_def
  huawei_signed_def newHuaweiSignedRequest_def huawei_request_def huawei_authorization_def
  tencent_new_request_def tencent_request_def tencent_headers_def tencent_authorization_def tencent_key_def
  tianyi_new_request_def tianyi_request_def tianyi_authorization_def tianyi_key_def
  baidu_new_request_def baidu_request_def baidu_authorization_def

lemma signers_agree:
  assumes "we_hmac_sha256 w = (\<lambda>key. f)" and "we_hmac_sha1 w = (\<lambda>key. g)"
  shows "alibaba_signed w ac (keyID, secret) m = alibaba_signed w ac (keyID, secret') m"
    "huawei_signed w hc (keyID, secret) meth path q b = huawei_signed w hc (keyID, secret') meth path q b"
    "tencent_new_request w tc (keyID, secret) action b = tencent_new_request w tc (keyID, secret') action b"
    "tianyi_new_request w yc (keyID, secret) meth path vs b = tianyi_new_request w yc (keyID, secret') meth path vs b"
    "baidu_new_request w bc (keyID, secret) meth path vs b = baidu_new_request w bc (keyID, secret') meth path vs b"
  unfolding signers fst_conv snd_conv Let_def assms by (rule refl)+

text \<open>C14. The secret of a cloud only signs: what a client sends, for any operation, depends on the
  secret through the keyed digest alone. With a digest that does not look at its key, the requests for
  two secrets are the same.\<close>

theorem secret_only_signs:
  assumes "we_hmac_sha256 w = (\<lambda>key. f)" and "we_hmac_sha1 w = (\<lambda>key. g)"
  shows "client_request w client (keyID, secret) call = client_request w client (keyID, secret') call"
proof -
  have "alibaba_signed w ac (keyID, secret) m = alibaba_signed w ac (keyID, secret') m"
    "huawei_signed w hc (keyID, secret) meth path q b = huawei_signed w hc (keyID, secret') meth path q b"
    "tencent_new_request w tc (keyID, secret) action b = tencent_new_request w tc (keyID, secret') action b"
    "tianyi_new_request w yc (keyID, secret) meth path vs b = tianyi_new_request w yc (keyID, secret') meth path vs b"
    "baidu_new_request w bc (keyID, secret) meth path vs b = baidu_new_request w bc (keyID, secret') meth path vs b"
    for ac hc tc yc bc m meth path q b action vs
    by (rule signers_agree [OF assms])+
  then show ?thesis
    by (cases client; cases call)
      (simp_all add: huawei_create_request_def tencent_run_request_def tianyi_run_request_def baidu_run_request_def)
qed

lemma secret_only_signs_witness:
  "client_request sample_web (Baidu \<lparr>ba_endpoint = [], ba_key_id = [], ba_secret_key = []\<rparr>) (''id'', ''one'') Check
    = client_request sample_web (Baidu \<lparr>ba_endpoint = [], ba_key_id = [], ba_secret_key = []\<rparr>) (''id'', ''two'') Check"
  by (rule secret_only_signs [where f = "\<lambda>d. ''mac''" and g = "\<lambda>d. take 20 d"]) (simp_all add: sample_web_def)

section \<open>A check that does not look at the answer\<close>

text \<open>The check of the credentials of Tianyi Cloud passes on any answer with a status of success, also
  on one whose envelope reports a failure, which every other operation takes for an error.\<close>

theorem tianyi_check_ignores_envelope:
  assumes "tianyi_new_request w c cred ''GET'' ''/v3/cluster/describeRegionClusters'' [] [] = Inr rq"
    and "we_send w rq = Inr rp" and "ok_status (hp_status rp)" and "hp_read_error rp = None"
    and "unmarshal dec_envelope (fst (read_limited (1024 * 1024) rp)) empty_envelope = (out, False)"
    and "en_status out \<notin> set [0, 800, 200]"
  shows "tianyi_auth w c cred = None \<and> (\<exists>text. tianyi_do w msg rq = Inl (ErrProvider ErrUnknown text None))"
proof -
  have read: "read_limited (1024 * 1024) rp = (fst (read_limited (1024 * 1024) rp), None)"
    using assms(4) by (simp add: read_limited_def)
  have "fst (read_limited (1024 * 1024) rp) \<noteq> []"
  proof
    assume "fst (read_limited (1024 * 1024) rp) = []"
    moreover have "json_parse [] = None" by code_simp
    ultimately show False using assms(5) by (simp add: unmarshal_def)
  qed
  moreover have body: "provider_body ''Tianyi Cloud ECS'' rp = Inr (fst (read_limited (1024 * 1024) rp))"
    using assms(3) by (subst provider_body_def, subst read) simp
  ultimately have "decodeProviderJSON w ''Tianyi Cloud ECS'' rp dec_envelope empty_envelope = Inr out"
    using assms(5) by (simp add: decodeProviderJSON_def)
  then have "\<exists>text. tianyi_do w msg rq = Inl (ErrProvider ErrUnknown text None)"
    using assms(2,6) by (simp add: tianyi_do_def envelope_error_def request_failed_def)
  moreover have "tianyi_auth w c cred = None"
    using assms(1,2) body by (simp add: tianyi_auth_def tianyi_body_def failure_of_def request_failed_def)
  ultimately show ?thesis by blast
qed

definition refusal :: string where
  "refusal = ''{'' @ [CHR 0x22] @ ''statusCode'' @ [CHR 0x22] @ '':9}''"

definition refusing_web :: web where
  "refusing_web = sample_web\<lparr>we_send := (\<lambda>rq. Inr \<lparr>hp_status = 200, hp_body = refusal, hp_read_error = None\<rparr>)\<rparr>"

definition sample_tianyi :: tianyi_client where
  "sample_tianyi = \<lparr>ti_endpoint = ''https://a'', ti_region = ''r'', ti_az = [], ti_access_key = ''k'', ti_secret_key = ''s''\<rparr>"

lemma tianyi_check_ignores_envelope_witness:
  "\<exists>rq text. tianyi_auth refusing_web sample_tianyi (''k'', ''s'') = None
    \<and> tianyi_do refusing_web ''describe'' rq = Inl (ErrProvider ErrUnknown text None)"
proof -
  let ?r = "tianyi_new_request refusing_web sample_tianyi (''k'', ''s'') ''GET'' ''/v3/cluster/describeRegionClusters'' [] []"
  let ?rp = "\<lparr>hp_status = 200, hp_body = refusal, hp_read_error = None\<rparr>"
  let ?u = "empty_url\<lparr>url_scheme := ''https'', url_host := ''a'', url_path := ''/v3/cluster/describeRegionClusters''\<rparr>"
  have u: "url_parse ''https://a/v3/cluster/describeRegionClusters'' = Some ?u" by code_simp
  have shown: "url_string (?u\<lparr>url_raw_query := []\<rparr>) = ''https://a/v3/cluster/describeRegionClusters''" by code_simp
  have endpoint: "trim_right (\<lambda>x. x = CHR ''/'') ''https://a'' = ''https://a''" by (simp add: trim_right_def)
  have "encode_query [] = []" by (simp add: encode_query_def sort_strings_def)
  then obtain rq where rq: "?r = Inr rq"
    using u shown by (simp add: tianyi_new_request_def sample_tianyi_def endpoint tianyi_request_def new_request_def Let_def)
  have read: "fst (read_limited (1024 * 1024) ?rp) = refusal" by (simp add: read_limited_def refusal_def)
  have "unmarshal dec_envelope refusal empty_envelope = (empty_envelope\<lparr>en_status := 9\<rparr>, False)" by code_simp
  then show ?thesis
    using tianyi_check_ignores_envelope [OF rq, of ?rp "empty_envelope\<lparr>en_status := 9\<rparr>" "''describe''"]
    unfolding read by (auto simp: refusing_web_def ok_status_def)
qed

end
