(* ===== verification/ClientWiring.thy ===== *)
theory ClientWiring
  imports Wiring VmClients
begin

text \<open>
  \<open>vm_client_factory.go\<close>: the client of a cloud from the configuration of its provider, and the provider
  whose session asks that client. What the machine of a run is told to do is followed from the job to
  the request that the cloud answers.
\<close>

section \<open>The client of a configuration\<close>

definition alibaba_of_provider :: "vm_provider_config \<Rightarrow> alibaba_config" where
  "alibaba_of_provider c =
     \<lparr>al_region = vp_region c, al_zone = vp_zone c, al_instance_type = vp_instance_type c, al_image_id = vp_image_id c,
      al_security_group = vp_security_group c, al_vswitch = vp_subnet_id c, al_key_pair = vp_ssh_key_name c,
      al_ssh_user = vp_ssh_user c, al_ssh_private_key = vp_ssh_private_key c, al_disk_category = vp_disk_type c,
      al_disk_size = vp_disk_size c, al_bandwidth = vp_bandwidth c, al_poll_interval = vp_poll_interval c,
      al_connect_timeout = vp_connect_timeout c, al_ready_timeout = vp_ready_timeout c, al_terminate = vp_terminate c,
      al_terminate_set = vp_terminate_set c, al_keep_on_failure = vp_keep_on_failure c, al_hourly_usd = vp_hourly_usd c,
      al_endpoint = vp_endpoint c, al_api_timeout = vp_api_timeout c, al_key_id = [], al_key_secret = [],
      al_shapes = vp_shapes c\<rparr>"

definition huawei_of_provider :: "vm_provider_config \<Rightarrow> huawei_config" where
  "huawei_of_provider c =
     \<lparr>hu_region = vp_region c, hu_zone = vp_zone c, hu_project = vp_project c, hu_flavor = vp_instance_type c,
      hu_image = vp_image_id c, hu_vpc = vp_vpc_id c, hu_subnet = vp_subnet_id c, hu_security_group = vp_security_group c,
      hu_key_name = vp_ssh_key_name c, hu_ssh_user = vp_ssh_user c, hu_ssh_private_key = vp_ssh_private_key c,
      hu_volume_type = vp_disk_type c, hu_volume_size = vp_disk_size c, hu_poll_interval = vp_poll_interval c,
      hu_connect_timeout = vp_connect_timeout c, hu_ready_timeout = vp_ready_timeout c, hu_terminate = vp_terminate c,
      hu_terminate_set = vp_terminate_set c, hu_keep_on_failure = vp_keep_on_failure c, hu_hourly_usd = vp_hourly_usd c,
      hu_endpoint = vp_endpoint c, hu_api_timeout = vp_api_timeout c, hu_access_key = [], hu_secret_key = [],
      hu_shapes = vp_shapes c\<rparr>"

definition newVMClient :: "cloud_definition \<Rightarrow> vm_provider_config \<Rightarrow> vm_client option" where
  "newVMClient def c =
     (if cd_name def = ''alibaba-cloud'' then Some (Alibaba (alibabaConfigDefaults (alibaba_of_provider c)))
      else if cd_name def = ''huawei-cloud'' then Some (Huawei (huaweiConfigDefaults (huawei_of_provider c)))
      else if cd_name def = ''tencent-cloud''
      then Some (Tencent \<lparr>te_endpoint = vp_endpoint c, te_region = vp_region c, te_secret_id = [], te_secret_key = []\<rparr>)
      else if cd_name def = ''tianyi-cloud''
      then Some (Tianyi \<lparr>ti_endpoint = vp_endpoint c, ti_region = vp_region c, ti_az = vp_zone c, ti_access_key = [], ti_secret_key = []\<rparr>)
      else if cd_name def = ''baidu-ai-cloud''
      then Some (Baidu \<lparr>ba_endpoint = vp_endpoint c, ba_key_id = [], ba_secret_key = []\<rparr>)
      else None)"

text \<open>The session of a provider whose service is the client.\<close>

definition client_session :: "web \<Rightarrow> resolver \<Rightarrow> vm_client \<Rightarrow> vm_session \<Rightarrow> vm_session" where
  "client_session w resolve client ses = ses\<lparr>vs_auth := client_auth w resolve client,
     vs_create := client_create w resolve client, vs_get := client_get w resolve client,
     vs_terminate := client_terminate w resolve client\<rparr>"

definition client_provider ::
  "web \<Rightarrow> resolver \<Rightarrow> cloud_definition \<Rightarrow> vm_provider_config \<Rightarrow> vm_session \<Rightarrow> adapter" where
  "client_provider w resolve def c ses = NewVMProvider def c (case newVMClient def c of
     Some client \<Rightarrow> client_session w resolve client ses | None \<Rightarrow> ses)"

lemma client_known: "newVMClient def c = None \<longleftrightarrow> \<not> has_vm_client def"
  by (simp add: newVMClient_def has_vm_client_def)

section \<open>From the job to the request\<close>

lemma acquired_created:
  assumes "acquired (effects (vm_submit c def ses req) ans n) \<noteq> []"
  shows "\<exists>i. vs_create ses (ChinaVm.createRequest c def req) = Inr i"
proof (cases "vs_create ses (ChinaVm.createRequest c def req)")
  case (Inl e)
  then show ?thesis
    using assms by (simp add: vm_submit_def Let_def effect_simps split: option.splits if_splits)
qed simp

text \<open>The script that the job of a request becomes.\<close>

definition job_script_text :: "submit_request \<Rightarrow> string" where
  "job_script_text req = (let job = rq_job req in cloud_config (vmRunnerScript (job_image job) (job_command job)
     (job_args job) (container_env (job_env job) (rq_env req)) (job_work_dir job)))"

lemma requested_script: "vq_user_data (ChinaVm.createRequest c def req) = job_script_text req"
  by (simp add: ChinaVm.createRequest_def job_script_text_def Let_def)

lemma job_script_text_ne: "job_script_text req \<noteq> []"
  by (simp add: job_script_text_def cloud_config_def Let_def)

lemma client_provider_parts:
  assumes "newVMClient def c = Some client"
  shows "ad_submit (client_provider w resolve def c ses) req = vm_submit (vmRuntimeDefaults (vm_runtime_config def c)) def
      ((client_session w resolve client ses)\<lparr>vs_runtime := True, vs_client := True\<rparr>) req"
    "ad_auth (client_provider w resolve def c ses) = client_auth w resolve client"
    "ad_status (client_provider w resolve def c ses) ref = (case client_get w resolve client (vmIDFromProviderRef (cd_name def) ref) of
       Inl e \<Rightarrow> Inl (normalizeChinaCloudRuntimeError e)
     | Inr i \<Rightarrow> Inr \<lparr>js_state = Some (attemptStateFromVMState (vi_state i)), js_resource_state = ResNone\<rparr>)"
    "ad_cancel (client_provider w resolve def c ses) ref =
       map_option normalizeChinaCloudRuntimeError (client_terminate w resolve client (vmIDFromProviderRef (cd_name def) ref))"
proof -
  have "has_vm_client def" using client_known [of def c] assms by simp
  then show "ad_submit (client_provider w resolve def c ses) req = vm_submit (vmRuntimeDefaults (vm_runtime_config def c)) def
      ((client_session w resolve client ses)\<lparr>vs_runtime := True, vs_client := True\<rparr>) req"
    "ad_auth (client_provider w resolve def c ses) = client_auth w resolve client"
    "ad_status (client_provider w resolve def c ses) ref = (case client_get w resolve client (vmIDFromProviderRef (cd_name def) ref) of
       Inl e \<Rightarrow> Inl (normalizeChinaCloudRuntimeError e)
     | Inr i \<Rightarrow> Inr \<lparr>js_state = Some (attemptStateFromVMState (vi_state i)), js_resource_state = ResNone\<rparr>)"
    "ad_cancel (client_provider w resolve def c ses) ref =
       map_option normalizeChinaCloudRuntimeError (client_terminate w resolve client (vmIDFromProviderRef (cd_name def) ref))"
    using assms by (simp_all add: client_provider_def NewVMProvider_def china_adapter_def china_submit_def china_status_def
        china_cancel_def client_session_def Let_def)
qed

text \<open>C12. A machine runs the job: when a provider of one of the five clouds has acquired a machine for a job,
  its cloud has answered with success to a request out of which it reads the script of that job, with its
  image, command, arguments, environment and directory.\<close>

theorem cloud_machine_runs_job:
  assumes "newVMClient def c = Some client"
    and "acquired (effects (ad_submit (client_provider w resolve def c ses) req) ans n) \<noteq> []"
  shows "\<exists>rq rp. we_send w rq = Inr rp \<and> ok_status (hp_status rp) \<and> script_of client rq = Some (job_script_text req)"
proof -
  let ?c = "vmRuntimeDefaults (vm_runtime_config def c)"
  obtain i where "client_create w resolve client (ChinaVm.createRequest ?c def req) = Inr i"
    using acquired_created [OF assms(2) [unfolded client_provider_parts(1) [OF assms(1)]]] by (auto simp: client_session_def)
  then show ?thesis
    using created_machine [of w resolve client "ChinaVm.createRequest ?c def req" i] job_script_text_ne [of req]
    unfolding requested_script by blast
qed


text \<open>The size of the disk that the client of Alibaba Cloud fills in is never asked for: with a
  configuration that leaves it out, the client holds eighty gigabytes and the request says zero.\<close>

theorem alibaba_disk_default_lost:
  assumes "cd_name def = ''alibaba-cloud''" and "vp_disk_size c = 0"
  shows "\<exists>cfg. newVMClient def c = Some (Alibaba cfg) \<and> al_disk_size cfg = 80
    \<and> map_of (alibaba_create_values (ChinaVm.createRequest (vmRuntimeDefaults (vm_runtime_config def c)) def req))
        ''SystemDisk.Size'' = Some ''0''"
proof -
  have "vc_disk_size (vmRuntimeDefaults (vm_runtime_config def c)) = 0"
    using assms(2) by (simp add: vmRuntimeDefaults_def vm_runtime_config_def Let_def)
  moreover have "char_of (48::nat) = CHR ''0''" by (simp add: char_of_eq_iff)
  ultimately show ?thesis
    using assms by (simp add: newVMClient_def alibabaConfigDefaults_def alibaba_of_provider_def Let_def
        alibaba_create_values_def alibaba_action_def ChinaVm.createRequest_def string_of_int_def string_of_nat.simps)
qed

section \<open>Witnesses\<close>

definition sample_provider_config :: vm_provider_config where
  "sample_provider_config =
     \<lparr>vp_region = ''r'', vp_zone = [], vp_instance_type = ''t'', vp_image_id = ''i'', vp_ssh_user = [],
      vp_ssh_private_key = ''k'', vp_ssh_key_name = [], vp_vpc_id = [], vp_subnet_id = [], vp_security_group = [],
      vp_disk_type = [], vp_disk_size = 0, vp_bandwidth = 0, vp_poll_interval = 0, vp_api_timeout = 0,
      vp_connect_timeout = 0, vp_ready_timeout = 0, vp_terminate = True, vp_terminate_set = False,
      vp_keep_on_failure = False, vp_hourly_usd = 0, vp_project = [], vp_endpoint = ''https://a'', vp_shapes = []\<rparr>"

definition sample_cloud :: "string \<Rightarrow> cloud_definition" where
  "sample_cloud name = (hd Definitions)\<lparr>cd_name := name\<rparr>"

definition keyed :: resolver where
  "keyed q = Inr \<lparr>sc_key = [], sc_secret = ''s'', sc_created = zero_time, sc_updated = zero_time\<rparr>"

definition unkeyed :: resolver where
  "unkeyed q = Inl ErrNotFound"

definition created_text :: string where
  "created_text = ''{'' @ [CHR 0x22] @ ''instanceId'' @ [CHR 0x22] @ '':'' @ [CHR 0x22] @ ''m'' @ [CHR 0x22] @ ''}''"

definition creating_web :: web where
  "creating_web = sample_web\<lparr>we_send := (\<lambda>rq. Inr \<lparr>hp_status = 200, hp_body = created_text, hp_read_error = None\<rparr>)\<rparr>"

lemma alibaba_disk_default_lost_witness:
  "\<exists>cfg. newVMClient (sample_cloud ''alibaba-cloud'') sample_provider_config = Some (Alibaba cfg) \<and> al_disk_size cfg = 80"
  using alibaba_disk_default_lost [of "sample_cloud ''alibaba-cloud''" sample_provider_config sample_vm_request]
  by (auto simp: sample_cloud_def sample_provider_config_def)


definition sample_baidu :: baidu_client where
  "sample_baidu = \<lparr>ba_endpoint = ''https://a'', ba_key_id = [], ba_secret_key = []\<rparr>"

lemma sample_created:
  assumes "vq_run_id r = ''run_1''"
  shows "\<exists>i. client_create creating_web keyed (Baidu sample_baidu) r = Inr i"
proof -
  let ?u = "empty_url\<lparr>url_scheme := ''https'', url_host := ''a'', url_path := ''/v2/instanceBySpec''\<rparr>"
  let ?q = "[(''clientToken'', [''run_1''])]"
  let ?v = "?u\<lparr>url_raw_query := ''clientToken=run_1''\<rparr>"
  have u: "url_parse ''https://a/v2/instanceBySpec'' = Some ?u" by code_simp
  have q: "encode_query ?q = ''clientToken=run_1''" by code_simp
  have v: "url_parse (url_string ?v) = Some ?v" by code_simp
  have endpoint: "trim_right (\<lambda>x. x = CHR ''/'') ''https://a'' = ''https://a''" by (simp add: trim_right_def)
  have "bq_client_token (baidu_create_of creating_web r) = ''run_1''"
    using assms by (simp add: baidu_create_of_def clientTokenFromRun_def Let_def)
  then obtain rq where "baidu_run_request creating_web sample_baidu (''s'', ''s'') (baidu_create_of creating_web r) = Inr rq"
    using u v by (simp add: baidu_run_request_def baidu_new_request_def sample_baidu_def endpoint q baidu_request_def
        new_request_def Let_def)
  moreover have "unmarshal dec_baidu_created created_text \<lparr>bc_ids = [], bc_id = []\<rparr> = (\<lparr>bc_ids = [], bc_id = ''m''\<rparr>, False)"
    by code_simp
  moreover have "created_text \<noteq> []" by (simp add: created_text_def)
  moreover have "fst (read_limited (1024 * 1024) \<lparr>hp_status = 200, hp_body = created_text, hp_read_error = None\<rparr>) = created_text"
    by (simp add: read_limited_def created_text_def)
  moreover have "client_credentials keyed (Baidu sample_baidu) = Inr (''s'', ''s'')"
  proof -
    have "trim_space [] = []" by (simp add: trim_space_def trim_def trim_left_def trim_right_def)
    then show ?thesis by (simp add: baidu_credentials_def sample_baidu_def credential_pair_def resolved_value_def keyed_def)
  qed
  ultimately show ?thesis
    by (simp add: client_create_def baidu_create_def baidu_do_def creating_web_def request_failed_def decodeProviderJSON_def
        provider_body_def read_limited_def ok_status_def baidu_created_id_def)
qed

lemma cloud_machine_runs_job_witness:
  "\<exists>rq rp. we_send creating_web rq = Inr rp \<and> script_of (Baidu sample_baidu) rq = Some (job_script_text sample_vm_request)"
proof -
  let ?def = "sample_cloud ''baidu-ai-cloud''"
  let ?P = "client_provider creating_web keyed ?def sample_provider_config sample_vm_session"
  have client: "newVMClient ?def sample_provider_config = Some (Baidu sample_baidu)"
    by (simp add: newVMClient_def sample_cloud_def sample_provider_config_def sample_baidu_def)
  obtain i where "client_create creating_web keyed (Baidu sample_baidu)
      (ChinaVm.createRequest (vmRuntimeDefaults (vm_runtime_config ?def sample_provider_config)) ?def sample_vm_request) = Inr i"
    using sample_created [of "ChinaVm.createRequest (vmRuntimeDefaults (vm_runtime_config ?def sample_provider_config)) ?def sample_vm_request"]
    by (auto simp: ChinaVm.createRequest_def sample_vm_request_def Let_def)
  then have "acquired (effects (ad_submit ?P sample_vm_request) (\<lambda>n. None) 0) \<noteq> []"
    by (simp add: client_provider_parts(1) [OF client] vm_submit_def client_session_def sample_vm_session_def effect_simps Let_def)
  from cloud_machine_runs_job [OF client this] show ?thesis by blast
qed

end
