(* ===== verification/ChinaAuth.thy ===== *)
theory ChinaAuth
  imports ClientWiring
begin

text \<open>
  How \<open>chinacloud.go\<close> checks the connection to a cloud: the client of the runtime, a command of the user,
  a signed request of its own for each of the five clouds, or a request that only reaches the
  endpoint. What it reports is followed to what a cloud has answered.
\<close>

section \<open>The environment\<close>

datatype shell_end = ShellOk | ShellTimedOut gerror | ShellFailed gerror

text \<open>The variables, the network, what \<open>sh -c\<close> does with a command, and what the client of the runtime
  answers when the provider has one.\<close>

record auth_env =
  ae_getenv :: "string \<Rightarrow> string"
  ae_web :: web
  ae_shell :: "string \<Rightarrow> shell_end"
  ae_client :: "gerror option option"

record connection_report =
  cr_mode :: string
  cr_authenticated :: bool
  cr_endpoint :: string
  cr_command_env :: string
  cr_built_in :: bool
  cr_built_in_endpoint :: string
  cr_documentation :: string
  cr_warnings :: "string list"
  cr_credential_names :: "string list"

definition envValue :: "auth_env \<Rightarrow> string \<Rightarrow> string" where
  "envValue e name = trim_space (ae_getenv e name)"

definition anyEnvSet :: "auth_env \<Rightarrow> string list \<Rightarrow> bool" where
  "anyEnvSet e names = list_ex (\<lambda>n. envValue e n \<noteq> []) names"

definition firstEnvValue :: "auth_env \<Rightarrow> string list \<Rightarrow> string" where
  "firstEnvValue e names = (case find (\<lambda>n. envValue e n \<noteq> []) names of Some n \<Rightarrow> envValue e n | None \<Rightarrow> [])"

definition provider_endpoint :: "auth_env \<Rightarrow> cloud_definition \<Rightarrow> string" where
  "provider_endpoint e def =
     (if cd_endpoint_env def \<noteq> [] \<and> envValue e (cd_endpoint_env def) \<noteq> [] then envValue e (cd_endpoint_env def)
      else cd_endpoint def)"

definition builtInAuthEndpoint :: "auth_env \<Rightarrow> cloud_definition \<Rightarrow> string" where
  "builtInAuthEndpoint e def =
     (if cd_built_in_endpoint_env def \<noteq> [] \<and> envValue e (cd_built_in_endpoint_env def) \<noteq> []
      then envValue e (cd_built_in_endpoint_env def)
      else if cd_built_in_endpoint def \<noteq> [] then cd_built_in_endpoint def else provider_endpoint e def)"

definition credentialNames :: "cloud_definition \<Rightarrow> string list" where
  "credentialNames def = sort_strings (concat (map er_names (cd_requirements def)))"

definition hasBuiltInAuth :: "cloud_definition \<Rightarrow> bool" where
  "hasBuiltInAuth def \<longleftrightarrow>
     cd_name def \<in> set [''alibaba-cloud'', ''huawei-cloud'', ''tencent-cloud'', ''tianyi-cloud'', ''baidu-ai-cloud'']"

section \<open>Signed requests\<close>

definition alibaba_check :: "auth_env \<Rightarrow> string \<Rightarrow> gerror + http_request" where
  "alibaba_check e endpoint = alibaba_request (ae_web e) endpoint (envValue e ''ALIBABA_CLOUD_ACCESS_KEY_SECRET'')
     (alibaba_base (ae_web e) (envValue e ''ALIBABA_CLOUD_ACCESS_KEY_ID'')
       @ [(''Action'', ''DescribeRegions''), (''Version'', ''2014-05-26'')])"

definition parsed_endpoint :: "auth_env \<Rightarrow> string \<Rightarrow> string \<Rightarrow> gerror + url" where
  "parsed_endpoint e cloud endpoint = (case url_parse endpoint of
     None \<Rightarrow> Inl (invalid_address (ae_web e) cloud endpoint) | Some u \<Rightarrow> Inr u)"

definition huawei_check :: "auth_env \<Rightarrow> string \<Rightarrow> gerror + http_request" where
  "huawei_check e endpoint = bindr (parsed_endpoint e ''Huawei Cloud auth'' endpoint) (\<lambda>u.
     huawei_request (ae_web e) ''GET'' (rooted_url u) (firstEnvValue e [''HUAWEICLOUD_SDK_AK'', ''HUAWEI_CLOUD_ACCESS_KEY_ID''])
       (firstEnvValue e [''HUAWEICLOUD_SDK_SK'', ''HUAWEI_CLOUD_SECRET_ACCESS_KEY'']) [])"

definition tencent_check :: "auth_env \<Rightarrow> string \<Rightarrow> gerror + http_request" where
  "tencent_check e endpoint = bindr (parsed_endpoint e ''Tencent Cloud'' endpoint) (\<lambda>u.
     wrap_request ''Tencent Cloud'' (tencent_request (ae_web e) u ''DescribeRegions'' ''ap-guangzhou''
       (envValue e ''TENCENTCLOUD_SECRET_ID'') (envValue e ''TENCENTCLOUD_SECRET_KEY'') ''{}''))"

definition tianyi_check :: "auth_env \<Rightarrow> string \<Rightarrow> gerror + http_request" where
  "tianyi_check e endpoint = bindr (parsed_endpoint e ''Tianyi Cloud auth'' endpoint) (\<lambda>u.
     wrap_request ''Tianyi Cloud'' (tianyi_request (ae_web e) ''GET''
       (if url_path u = [] then u\<lparr>url_path := ''/v3/cluster/describeRegionClusters''\<rparr> else u) (requestID (ae_web e) 0)
       (firstEnvValue e [''CTYUN_ACCESS_KEY'', ''TIANYI_CLOUD_ACCESS_KEY''])
       (firstEnvValue e [''CTYUN_SECRET_KEY'', ''TIANYI_CLOUD_SECRET_KEY'']) []))"

text \<open>This request signs its query as it stands, and no content type.\<close>

definition baidu_check_canonical :: "web \<Rightarrow> url \<Rightarrow> string" where
  "baidu_check_canonical w u =
     join nl [''GET'', escaped_path u, url_raw_query u, ''host:'' @ url_host u @ nl @ ''x-bce-date:'' @ time_text (we_now w)]"

definition baidu_check :: "auth_env \<Rightarrow> string \<Rightarrow> gerror + http_request" where
  "baidu_check e endpoint = bindr (parsed_endpoint e ''Baidu AI Cloud'' endpoint) (\<lambda>u0.
     let w = ae_web e; u = rooted_url u0;
         ak = firstEnvValue e [''BAIDU_CLOUD_ACCESS_KEY_ID'', ''BCE_ACCESS_KEY_ID''];
         sk = firstEnvValue e [''BAIDU_CLOUD_SECRET_ACCESS_KEY'', ''BCE_SECRET_ACCESS_KEY'']
     in bindr (wrap_request ''Baidu AI Cloud'' (new_request w ''GET'' (url_string u) [])) (\<lambda>rq.
       Inr (set_headers [(''Authorization'', baidu_authorization w ak sk ''host;x-bce-date'' (baidu_check_canonical w u)),
         (''x-bce-date'', time_text (we_now w))] (rq\<lparr>hr_host := url_host u\<rparr>))))"

section \<open>The answer\<close>

definition isAuthFailureBody :: "string \<Rightarrow> bool" where
  "isAuthFailureBody body = list_ex (mentions (to_lower body))
     [''authfailure'', ''signature'', ''invalidaccesskey'', ''invalid_access_key'', ''invalidcredential'',
      ''invalid credential'', ''secretid'', ''accesskeyidnotfound'', ''invalidaccesskeyid'', ''signaturedoesnotmatch'']"

definition auth_answer :: "string \<Rightarrow> http_response \<Rightarrow> gerror option" where
  "auth_answer cloud rp =
     (let status = hp_status rp;
          rejected = ErrProvider ErrAuth (cloud @ '' signed auth request was rejected with HTTP '' @ string_of_int status) None;
          returned = cloud @ '' signed auth request returned HTTP '' @ string_of_int status
      in if isAuthFailureBody (fst (read_limited (64 * 1024) rp)) then Some rejected
         else if ok_status status then None
         else if status \<ge> 500 then Some (ErrProvider ErrInternal returned None)
         else if status = 401 \<or> status = 403 then Some rejected
         else Some (ErrProvider ErrUnknown returned None))"

definition doAuthRequest :: "auth_env \<Rightarrow> cloud_definition \<Rightarrow> http_request \<Rightarrow> gerror option" where
  "doAuthRequest e def rq = (case we_send (ae_web e) rq of
     Inl err \<Rightarrow> Some (ErrProvider ErrNetwork
       (cd_display_name def @ '' signed auth request failed: '' @ error_string err) (Some err))
   | Inr rp \<Rightarrow> auth_answer (cd_display_name def) rp)"

text \<open>The request of a cloud that has one; two clouds have an endpoint of their own for it.\<close>

definition auth_request :: "auth_env \<Rightarrow> cloud_definition \<Rightarrow> string \<Rightarrow> gerror + http_request" where
  "auth_request e def endpoint =
     (if cd_name def = ''alibaba-cloud'' then alibaba_check e endpoint
      else if cd_name def = ''huawei-cloud'' then huawei_check e (builtInAuthEndpoint e def)
      else if cd_name def = ''tencent-cloud'' then tencent_check e endpoint
      else if cd_name def = ''tianyi-cloud'' then tianyi_check e (builtInAuthEndpoint e def)
      else if cd_name def = ''baidu-ai-cloud'' then baidu_check e endpoint
      else Inl (ErrProvider ErrInvalidSpec (cd_display_name def @ '' has no built-in authenticated validation'') None))"

definition runBuiltInAuth :: "auth_env \<Rightarrow> cloud_definition \<Rightarrow> string \<Rightarrow> gerror option" where
  "runBuiltInAuth e def endpoint = (case auth_request e def endpoint of
     Inl err \<Rightarrow> Some err | Inr rq \<Rightarrow> doAuthRequest e def rq)"

definition runAuthCommand :: "auth_env \<Rightarrow> cloud_definition \<Rightarrow> string \<Rightarrow> gerror option" where
  "runAuthCommand e def command = (case ae_shell e command of
     ShellOk \<Rightarrow> None
   | ShellTimedOut err \<Rightarrow> Some (ErrProvider ErrNetwork (cd_display_name def @ '' auth command timed out'') (Some err))
   | ShellFailed err \<Rightarrow> Some (ErrProvider ErrAuth
       (cd_display_name def @ '' auth command failed: '' @ error_string err) (Some err)))"

definition unexpected_status :: "http_response \<Rightarrow> gerror option" where
  "unexpected_status rp =
     (if hp_status rp \<ge> 500 then Some (ErrText (''unexpected HTTP '' @ string_of_int (hp_status rp))) else None)"

definition probeEndpointWithGet :: "auth_env \<Rightarrow> string \<Rightarrow> gerror option" where
  "probeEndpointWithGet e endpoint =
     (case bindr (new_request (ae_web e) ''GET'' endpoint []) (we_send (ae_web e)) of
        Inl err \<Rightarrow> Some err | Inr rp \<Rightarrow> unexpected_status rp)"

definition probeEndpoint :: "auth_env \<Rightarrow> string \<Rightarrow> gerror option" where
  "probeEndpoint e endpoint =
     (case bindr (new_request (ae_web e) ''HEAD'' endpoint []) (we_send (ae_web e)) of
        Inl err \<Rightarrow> Some err
      | Inr rp \<Rightarrow> if hp_status rp = 405 then probeEndpointWithGet e endpoint else unexpected_status rp)"

section \<open>The connection\<close>

definition missing_requirements :: "auth_env \<Rightarrow> cloud_definition \<Rightarrow> string list" where
  "missing_requirements e def = map (\<lambda>r. er_label r @ '' ('' @ join '' or '' (er_names r) @ '')'')
     (filter (\<lambda>r. \<not> anyEnvSet e (er_names r)) (cd_requirements def))"

definition empty_report :: "auth_env \<Rightarrow> cloud_definition \<Rightarrow> connection_report" where
  "empty_report e def =
     \<lparr>cr_mode = [], cr_authenticated = False, cr_endpoint = provider_endpoint e def, cr_command_env = cd_auth_command_env def,
      cr_built_in = hasBuiltInAuth def, cr_built_in_endpoint = builtInAuthEndpoint e def,
      cr_documentation = cd_documentation def, cr_warnings = [], cr_credential_names = credentialNames def\<rparr>"

definition tried :: "connection_report \<Rightarrow> gerror option \<Rightarrow> connection_report \<times> gerror option" where
  "tried rep err = (case err of Some x \<Rightarrow> (rep, Some x) | None \<Rightarrow> (rep\<lparr>cr_authenticated := True\<rparr>, None))"

text \<open>Without a way to authenticate there is only the endpoint.\<close>

definition probe_connection ::
  "auth_env \<Rightarrow> cloud_definition \<Rightarrow> bool \<Rightarrow> connection_report \<Rightarrow> connection_report \<times> gerror option" where
  "probe_connection e def requireAuthenticated rep =
     (if requireAuthenticated
      then (rep, Some (ErrProvider ErrAuth (cd_display_name def @ '' authenticated validation requires '' @ cd_auth_command_env def
        @ '' to run an official CLI or SDK smoke command'') None))
      else if cr_endpoint rep = []
      then (rep, Some (ErrProvider ErrInvalidSpec (cd_display_name def @ '' endpoint is empty'') None))
      else case probeEndpoint e (cr_endpoint rep) of
        Some err \<Rightarrow> (rep, Some (ErrProvider ErrNetwork (cd_display_name def @ '' endpoint probe failed for '' @ cr_endpoint rep
          @ '': '' @ error_string err) (Some err)))
      | None \<Rightarrow> (rep\<lparr>cr_mode := ''endpoint_probe'', cr_authenticated := False, cr_warnings :=
          [''endpoint probe validates network reachability only; set the auth command env var or use providers check --strict-auth for authenticated validation'']\<rparr>, None))"

definition ValidateConnection :: "auth_env \<Rightarrow> cloud_definition \<Rightarrow> bool \<Rightarrow> connection_report \<times> gerror option" where
  "ValidateConnection e def requireAuthenticated =
     (let rep = empty_report e def; command = envValue e (cd_auth_command_env def); missing = missing_requirements e def
      in case ae_client e of
        Some answer \<Rightarrow> tried (rep\<lparr>cr_mode := ''vm_client_signed_request''\<rparr>) answer
      | None \<Rightarrow>
        if command \<noteq> [] then tried (rep\<lparr>cr_mode := ''auth_command''\<rparr>) (runAuthCommand e def command)
        else if missing \<noteq> []
        then (rep, Some (ErrProvider ErrAuth (cd_display_name def @ '' credentials are not configured; missing ''
          @ join '', '' missing) None))
        else if hasBuiltInAuth def
        then (case runBuiltInAuth e def (cr_endpoint rep) of Some err \<Rightarrow> (rep, Some err)
          | None \<Rightarrow> tried (rep\<lparr>cr_mode := ''built_in_signed_request''\<rparr>) None)
        else probe_connection e def requireAuthenticated rep)"

definition ValidateAuth :: "auth_env \<Rightarrow> cloud_definition \<Rightarrow> gerror option" where
  "ValidateAuth e def = (case ae_client e of Some answer \<Rightarrow> answer | None \<Rightarrow> snd (ValidateConnection e def False))"

text \<open>A provider of a configuration has the client of its cloud, one of \<open>New\<close> has none.\<close>

definition IsReadinessOnly :: "cloud_definition \<Rightarrow> vm_provider_config option \<Rightarrow> bool" where
  "IsReadinessOnly def c \<longleftrightarrow> (case c of None \<Rightarrow> True | Some cfg \<Rightarrow> newVMClient def cfg = None)"

definition provider_env :: "auth_env \<Rightarrow> resolver \<Rightarrow> cloud_definition \<Rightarrow> vm_provider_config option \<Rightarrow> auth_env" where
  "provider_env e resolve def c =
     e\<lparr>ae_client := map_option (client_auth (ae_web e) resolve) (Option.bind c (newVMClient def))\<rparr>"

section \<open>What a ready connection rests on\<close>

lemma tried_ok: "tried rep err = (rep', None) \<longleftrightarrow> err = None \<and> rep' = rep\<lparr>cr_authenticated := True\<rparr>"
  by (auto simp: tried_def split: option.split)

lemma auth_answer_ok:
  "auth_answer cloud rp = None \<longleftrightarrow> ok_status (hp_status rp) \<and> \<not> isAuthFailureBody (take (64 * 1024) (hp_body rp))"
  by (simp add: auth_answer_def read_limited_def Let_def)

lemma built_in_ok:
  assumes "runBuiltInAuth e def endpoint = None"
  shows "\<exists>rq rp. auth_request e def endpoint = Inr rq \<and> we_send (ae_web e) rq = Inr rp \<and> ok_status (hp_status rp)
    \<and> \<not> isAuthFailureBody (take (64 * 1024) (hp_body rp))"
  using assms by (auto simp: runBuiltInAuth_def doAuthRequest_def auth_answer_ok split: sum.splits)

lemma command_ok: "runAuthCommand e def command = None \<Longrightarrow> ae_shell e command = ShellOk"
  by (simp add: runAuthCommand_def split: shell_end.splits)

lemma known_built_in: "def \<in> set Definitions \<Longrightarrow> hasBuiltInAuth def"
  using cloud_names by (metis hasBuiltInAuth_def china_cloud_names_def image_eqI set_map)

lemma built_in_connection:
  assumes "hasBuiltInAuth def"
  shows "ValidateConnection e def b = ValidateConnection e def b'"
  using assms by (simp add: ValidateConnection_def Let_def split: option.split)

lemma ready_connection:
  assumes "hasBuiltInAuth def" and "ValidateConnection e def b = (rep, None)"
  shows "cr_authenticated rep"
    and "(cr_mode rep = ''vm_client_signed_request'' \<and> ae_client e = Some None)
      \<or> (cr_mode rep = ''auth_command'' \<and> ae_shell e (envValue e (cd_auth_command_env def)) = ShellOk)
      \<or> (cr_mode rep = ''built_in_signed_request'' \<and> (\<exists>rq rp. auth_request e def (provider_endpoint e def) = Inr rq
        \<and> we_send (ae_web e) rq = Inr rp \<and> ok_status (hp_status rp) \<and> \<not> isAuthFailureBody (take (64 * 1024) (hp_body rp))))"
proof -
  consider (client) answer where "ae_client e = Some answer"
    | (shell) "ae_client e = None" "envValue e (cd_auth_command_env def) \<noteq> []"
    | (signed) "ae_client e = None" "envValue e (cd_auth_command_env def) = []"
    by (cases "ae_client e") auto
  then have "cr_authenticated rep \<and> ((cr_mode rep = ''vm_client_signed_request'' \<and> ae_client e = Some None)
      \<or> (cr_mode rep = ''auth_command'' \<and> ae_shell e (envValue e (cd_auth_command_env def)) = ShellOk)
      \<or> (cr_mode rep = ''built_in_signed_request'' \<and> (\<exists>rq rp. auth_request e def (provider_endpoint e def) = Inr rq
        \<and> we_send (ae_web e) rq = Inr rp \<and> ok_status (hp_status rp) \<and> \<not> isAuthFailureBody (take (64 * 1024) (hp_body rp)))))"
  proof cases
    case client
    then show ?thesis using assms by (simp add: ValidateConnection_def Let_def tried_ok)
  next
    case shell
    then have "runAuthCommand e def (envValue e (cd_auth_command_env def)) = None"
        "rep = (empty_report e def)\<lparr>cr_mode := ''auth_command'', cr_authenticated := True\<rparr>"
      using assms by (simp_all add: ValidateConnection_def Let_def tried_ok)
    then show ?thesis using command_ok by simp
  next
    case signed
    have "missing_requirements e def = []"
      using assms signed by (rule_tac ccontr) (simp add: ValidateConnection_def Let_def)
    then have "runBuiltInAuth e def (provider_endpoint e def) = None"
        "rep = (empty_report e def)\<lparr>cr_mode := ''built_in_signed_request'', cr_authenticated := True\<rparr>"
      using assms signed
      by (simp_all add: ValidateConnection_def Let_def tried_ok empty_report_def split: option.splits)
    then show ?thesis using built_in_ok by simp
  qed
  then show "cr_authenticated rep"
    and "(cr_mode rep = ''vm_client_signed_request'' \<and> ae_client e = Some None)
      \<or> (cr_mode rep = ''auth_command'' \<and> ae_shell e (envValue e (cd_auth_command_env def)) = ShellOk)
      \<or> (cr_mode rep = ''built_in_signed_request'' \<and> (\<exists>rq rp. auth_request e def (provider_endpoint e def) = Inr rq
        \<and> we_send (ae_web e) rq = Inr rp \<and> ok_status (hp_status rp) \<and> \<not> isAuthFailureBody (take (64 * 1024) (hp_body rp))))"
    by blast+
qed

section \<open>A connection that succeeds\<close>

definition sample_auth_env :: auth_env where
  "sample_auth_env = \<lparr>ae_getenv = (\<lambda>n. if n = ''SWITCHBOARD_TENCENT_CLOUD_ENDPOINT'' then ''https://a/''
       else if n = ''TENCENTCLOUD_SECRET_ID'' \<or> n = ''TENCENTCLOUD_SECRET_KEY'' then ''v'' else []),
     ae_web = sample_web, ae_shell = (\<lambda>c. ShellOk), ae_client = None\<rparr>"

lemma sample_signed: "case tencent_check sample_auth_env ''https://a/'' of Inr rq \<Rightarrow> True | Inl err \<Rightarrow> False"
  by code_simp

lemma sample_body: "\<not> isAuthFailureBody ''{}''"
  by code_simp

lemma sample_built_in: "runBuiltInAuth sample_auth_env (Definitions ! 2) ''https://a/'' = None"
proof -
  obtain rq where "tencent_check sample_auth_env ''https://a/'' = Inr rq"
    using sample_signed by (auto split: sum.splits)
  moreover have "cd_name (Definitions ! 2) = ''tencent-cloud''" by (simp add: Definitions_def)
  moreover have "doAuthRequest sample_auth_env (Definitions ! 2) rq = None"
    using sample_body by (simp add: doAuthRequest_def auth_answer_ok sample_auth_env_def sample_web_def ok_status_def)
  ultimately show ?thesis by (simp add: runBuiltInAuth_def auth_request_def)
qed

lemma sample_connection: "snd (ValidateConnection sample_auth_env (Definitions ! 2) strict) = None"
proof -
  have "trim_space ''https://a/'' = ''https://a/''" "trim_space ''v'' = ''v''" "trim_space [] = []" by code_simp+
  then show ?thesis
    using sample_built_in by (simp add: ValidateConnection_def Let_def missing_requirements_def anyEnvSet_def envValue_def
        Definitions_def requirement_def sample_auth_env_def empty_report_def provider_endpoint_def hasBuiltInAuth_def tried_def)
qed

end
