(* ===== verification/Readiness.thy ===== *)
theory Readiness
  imports ChinaAuth Commands
begin

text \<open>
  The commands \<open>providers list\<close>, \<open>providers inspect\<close> and \<open>providers check\<close> of \<open>cli/root.go\<close>, over the registry
  that a configuration without providers makes. Their JSON form is not modelled.
\<close>

section \<open>The registry of the commands\<close>

definition commands_registry :: "wiring \<Rightarrow> gerror + registry" where
  "commands_registry wi = buildProviderRegistry wi [] (cf_gcp zero_file)"

definition providers_list :: "wiring \<Rightarrow> gerror + string list" where
  "providers_list wi = bindr (commands_registry wi) (\<lambda>reg. Inr (registry_list reg))"

section \<open>Inspect\<close>

record inspect_report =
  ip_name :: string
  ip_capabilities :: provider_capabilities

definition providers_inspect :: "wiring \<Rightarrow> string \<Rightarrow> gerror + inspect_report" where
  "providers_inspect wi name =
     bindr (commands_registry wi) (\<lambda>reg.
     bindr (registry_get reg name) (\<lambda>a. case ad_capabilities a of
         (cap, Some e) \<Rightarrow> Inl e
       | (cap, None) \<Rightarrow> Inr \<lparr>ip_name = ad_name a, ip_capabilities = cap\<rparr>))"

definition tab :: string where "tab = [CHR 0x09]"

definition bool_text :: "bool \<Rightarrow> string" where
  "bool_text b = (if b then ''true'' else ''false'')"

text \<open>\<open>printProviderCapabilities\<close>, line by line.\<close>

definition capability_lines :: "string \<Rightarrow> provider_capabilities \<Rightarrow> string list" where
  "capability_lines name c =
     [''name'' @ tab @ name,
      ''regions'' @ tab @ join '','' (cap_regions c),
      ''gpu_families'' @ tab @ join '','' (cap_gpu_families c),
      ''supports_docker_image'' @ tab @ bool_text (cap_docker_image c),
      ''supports_local_script'' @ tab @ bool_text (cap_local_script c),
      ''supports_data_bundle'' @ tab @ bool_text (cap_data_bundle c),
      ''supports_object_store_pull'' @ tab @ bool_text (cap_object_store_pull c),
      ''uri_schemes'' @ tab @ join '','' (cap_uri_schemes c),
      ''checkpoint_schemes'' @ tab @ join '','' (cap_checkpoint_schemes c)]"

section \<open>Check\<close>

record check_report =
  pk_name :: string
  pk_ready :: bool
  pk_error :: string
  pk_auth_mode :: string
  pk_authenticated :: bool
  pk_endpoint :: string
  pk_command_env :: string
  pk_built_in :: bool
  pk_built_in_endpoint :: string
  pk_documentation :: string
  pk_warnings :: "string list"
  pk_credential_names :: "string list"
  pk_capabilities :: provider_capabilities

definition not_ready :: "gerror option \<Rightarrow> check_report \<Rightarrow> check_report" where
  "not_ready err rep = (case err of None \<Rightarrow> rep | Some e \<Rightarrow> rep\<lparr>pk_ready := False, pk_error := error_string e\<rparr>)"

definition capabilities_checked :: "adapter \<Rightarrow> check_report" where
  "capabilities_checked a =
     (let rep = \<lparr>pk_name = ad_name a, pk_ready = True, pk_error = [], pk_auth_mode = [], pk_authenticated = False,
        pk_endpoint = [], pk_command_env = [], pk_built_in = False, pk_built_in_endpoint = [], pk_documentation = [],
        pk_warnings = [], pk_credential_names = [], pk_capabilities = empty_capabilities\<rparr>
      in case ad_capabilities a of (cap, Some e) \<Rightarrow> not_ready (Some e) rep
       | (cap, None) \<Rightarrow> rep\<lparr>pk_capabilities := cap\<rparr>)"

definition connection_checked :: "connection_report \<times> gerror option \<Rightarrow> check_report \<Rightarrow> check_report" where
  "connection_checked conn rep = (case conn of (c, err) \<Rightarrow>
     not_ready err (rep\<lparr>pk_auth_mode := cr_mode c, pk_authenticated := cr_authenticated c, pk_endpoint := cr_endpoint c,
       pk_command_env := cr_command_env c, pk_built_in := cr_built_in c, pk_built_in_endpoint := cr_built_in_endpoint c,
       pk_documentation := cr_documentation c, pk_warnings := cr_warnings c, pk_credential_names := cr_credential_names c\<rparr>))"

definition adapter_checked :: "adapter \<Rightarrow> check_report \<Rightarrow> check_report" where
  "adapter_checked a rep = (case ad_auth a of Some e \<Rightarrow> not_ready (Some e) rep
     | None \<Rightarrow> rep\<lparr>pk_auth_mode := ''provider'', pk_authenticated := True\<rparr>)"

text \<open>The providers with a \<open>ValidateConnection\<close> are those of \<open>chinacloud\<close>, which have no client here: they
  are made by \<open>New\<close>.\<close>

definition providers_check :: "auth_env \<Rightarrow> wiring \<Rightarrow> bool \<Rightarrow> string \<Rightarrow> gerror + check_report" where
  "providers_check e wi strict name =
     bindr (commands_registry wi) (\<lambda>reg.
     bindr (registry_get reg name) (\<lambda>a.
       Inr ((case DefinitionFor (ad_name a) of
           Inr def \<Rightarrow> connection_checked (ValidateConnection (e\<lparr>ae_client := None\<rparr>) def strict)
         | Inl err \<Rightarrow> adapter_checked a) (capabilities_checked a))))"

definition check_lines :: "check_report \<Rightarrow> string list" where
  "check_lines rep =
     (if pk_ready rep
      then ((pk_name rep @ (if pk_authenticated rep then '' ready'' else '' ready; authenticated provider API was not verified'')
             @ (if pk_auth_mode rep \<noteq> [] then '' ('' @ pk_auth_mode rep @ '')'' else []))
           # map (\<lambda>m. ''warning: '' @ m) (pk_warnings rep))
      else [pk_name rep @ '' not ready: '' @ pk_error rep])"

text \<open>The exit code of the process.\<close>

definition check_exit_code :: "auth_env \<Rightarrow> wiring \<Rightarrow> bool \<Rightarrow> string \<Rightarrow> int" where
  "check_exit_code e wi strict name = (case commands_registry wi of Inl panic \<Rightarrow> exit_panic
     | Inr reg \<Rightarrow> (case providers_check e wi strict name of Inl err \<Rightarrow> process_exit 0 (Some err)
       | Inr rep \<Rightarrow> process_exit (if pk_ready rep then 0 else exitCodeInternal) None))"

section \<open>What the commands promise\<close>

definition command_names :: "string list" where
  "command_names = ''local'' # china_cloud_names @ [''mock-lambda'', ''mock-gcp''] @ [''gcp'', ''lambda'']"

lemma command_adapters:
  assumes "wi_gcp_factory wi = None" "wi_lambda_factory wi = None"
  shows "map ad_name (provider_adapters wi [] (cf_gcp zero_file) (cf_lambda zero_file) (cf_china zero_file) True True) = command_names"
  using assms
  by (simp add: command_names_def provider_adapters_def chinaCloudAdapters_def gcp_provider_def lambda_provider_def comp_def
      cloud_names [symmetric] mock_of_config_def mergedMockProviders_def default_mocks_def)

lemma commands_registry_built:
  assumes "wi_gcp_factory wi = None" "wi_lambda_factory wi = None"
  shows "\<exists>reg. commands_registry wi = Inr reg"
proof -
  have "distinct command_names" by (simp add: command_names_def china_cloud_names_def)
  then show ?thesis
    unfolding commands_registry_def buildProviderRegistry_def buildProviderRegistryWithOptions_def
    by (simp add: new_registry_panics command_adapters [OF assms])
qed

lemma cloud_registered:
  assumes "commands_registry wi = Inr reg" and "def \<in> set Definitions"
  shows "\<exists>a. registry_get reg (cd_name def) = Inr a \<and> ad_name a = cd_name def \<and> snd (ad_capabilities a) = None"
proof -
  let ?a = "china_cloud_adapter wi (cf_china zero_file) def"
  have "?a \<in> set (provider_adapters wi [] (cf_gcp zero_file) (cf_lambda zero_file) (cf_china zero_file) True True)"
    using assms(2) by (simp add: provider_adapters_def chinaCloudAdapters_def)
  then have "registry_get reg (ad_name ?a) = Inr ?a"
    by (rule registered [rotated]) (use assms(1) in \<open>simp add: commands_registry_def buildProviderRegistry_def buildProviderRegistryWithOptions_def\<close>)
  moreover have "ad_name ?a = cd_name def \<and> snd (ad_capabilities ?a) = None"
    by (simp add: china_cloud_adapter_def NewVMProvider_def readiness_adapter_def china_adapter_def Let_def)
  ultimately show ?thesis by auto
qed

lemma commands_registry_wf: "commands_registry wi = Inr reg \<Longrightarrow> registry_wf reg"
  unfolding commands_registry_def buildProviderRegistry_def buildProviderRegistryWithOptions_def new_registry_def
  by (erule add_adapters_wf) (simp add: registry_wf_def)

lemma registry_get_name: "registry_wf reg \<Longrightarrow> registry_get reg name = Inr a \<Longrightarrow> ad_name a = name"
  by (auto simp: registry_get_def registry_wf_def split: option.splits dest: map_of_SomeD)

text \<open>Every listed provider can be inspected or has an error of its own, and no other can.\<close>

lemma inspect_listed:
  assumes "providers_list wi = Inr names" and "providers_inspect wi name = Inr rep"
  shows "name \<in> set names \<and> ip_name rep = name"
proof -
  obtain reg where reg: "commands_registry wi = Inr reg" "names = registry_list reg"
    using assms(1) by (auto simp: providers_list_def bindr_eq_Inr)
  then obtain a where got: "registry_get reg name = Inr a"
    using assms(2) by (auto simp: providers_inspect_def bindr_eq_Inr)
  have a: "registry_get reg name = Inr a" "ip_name rep = ad_name a"
    using assms(2) reg(1) by (auto simp: providers_inspect_def got split: prod.splits option.splits)
  then have "map_of reg name = Some a" by (simp add: registry_get_def split: option.splits)
  then have "name \<in> set names" using reg(2) by (auto simp: registry_list_def dest: map_of_SomeD intro!: image_eqI)
  then show ?thesis using a registry_get_name [OF commands_registry_wf [OF reg(1)] a(1)] by simp
qed

lemma not_ready_fields [simp]:
  "pk_ready (not_ready err rep) \<longleftrightarrow> pk_ready rep \<and> err = None"
  "pk_auth_mode (not_ready err rep) = pk_auth_mode rep" "pk_authenticated (not_ready err rep) = pk_authenticated rep"
  by (auto simp: not_ready_def split: option.splits)

lemma check_ready:
  assumes "providers_check e wi strict name = Inr rep" and "pk_ready rep" and "DefinitionFor name = Inr def"
  shows "\<exists>conn. ValidateConnection (e\<lparr>ae_client := None\<rparr>) def strict = (conn, None)
    \<and> pk_auth_mode rep = cr_mode conn \<and> pk_authenticated rep = cr_authenticated conn"
proof -
  obtain reg a where reg: "commands_registry wi = Inr reg" "registry_get reg name = Inr a"
    "rep = (case DefinitionFor (ad_name a) of
           Inr def \<Rightarrow> connection_checked (ValidateConnection (e\<lparr>ae_client := None\<rparr>) def strict)
         | Inl err \<Rightarrow> adapter_checked a) (capabilities_checked a)"
    using assms(1) by (auto simp: providers_check_def bindr_eq_Inr)
  then have "rep = connection_checked (ValidateConnection (e\<lparr>ae_client := None\<rparr>) def strict) (capabilities_checked a)"
    using registry_get_name [OF commands_registry_wf [OF reg(1)] reg(2)] assms(3) by simp
  then show ?thesis using assms(2)
    by (cases "ValidateConnection (e\<lparr>ae_client := None\<rparr>) def strict") (auto simp: connection_checked_def)
qed

lemma DefinitionFor_known: "DefinitionFor name = Inr def \<Longrightarrow> def \<in> set Definitions"
  by (auto simp: DefinitionFor_def find_Some_iff split: option.splits)

lemma check_either:
  assumes "DefinitionFor name = Inr def" and "hasBuiltInAuth def"
  shows "providers_check e wi b name = providers_check e wi b' name"
proof (cases "commands_registry wi")
  case (Inr reg)
  then show ?thesis
    using registry_get_name [OF commands_registry_wf [OF Inr], of name] assms(1)
      built_in_connection [OF assms(2), of "e\<lparr>ae_client := None\<rparr>" b b']
    by (cases "registry_get reg name") (simp_all add: providers_check_def)
qed (simp add: providers_check_def)

text \<open>The requests do not depend on the client of the runtime.\<close>

lemma without_client [simp]:
  "envValue (e\<lparr>ae_client := c\<rparr>) = envValue e" "firstEnvValue (e\<lparr>ae_client := c\<rparr>) = firstEnvValue e"
  "provider_endpoint (e\<lparr>ae_client := c\<rparr>) = provider_endpoint e" "auth_request (e\<lparr>ae_client := c\<rparr>) = auth_request e"
proof -
  show env: "envValue (e\<lparr>ae_client := c\<rparr>) = envValue e" by (rule ext) (simp add: envValue_def)
  show first: "firstEnvValue (e\<lparr>ae_client := c\<rparr>) = firstEnvValue e" by (rule ext) (simp add: firstEnvValue_def env split: option.split)
  show endpoint: "provider_endpoint (e\<lparr>ae_client := c\<rparr>) = provider_endpoint e"
    by (rule ext) (simp add: provider_endpoint_def env)
  have "parsed_endpoint (e\<lparr>ae_client := c\<rparr>) = parsed_endpoint e" by (intro ext) (simp add: parsed_endpoint_def split: option.split)
  then show "auth_request (e\<lparr>ae_client := c\<rparr>) = auth_request e"
    by (intro ext) (simp add: auth_request_def alibaba_check_def huawei_check_def tencent_check_def tianyi_check_def
        baidu_check_def builtInAuthEndpoint_def env first endpoint)
qed

text \<open>C38. A check of a cloud that exits with 0 is earned: it says that the provider is authenticated, and then
  the user's command succeeded, or the cloud answered a signed request with success and without a word
  of a failure. The flag that asks for authentication changes nothing: the endpoint is never enough for
  one of the five clouds.\<close>

theorem check_success_is_earned:
  assumes "DefinitionFor name = Inr def" and "check_exit_code e wi strict name = 0"
  shows "\<exists>rep. providers_check e wi strict name = Inr rep \<and> providers_check e wi (\<not> strict) name = Inr rep \<and> pk_authenticated rep
    \<and> (pk_auth_mode rep = ''auth_command'' \<and> ae_shell e (envValue e (cd_auth_command_env def)) = ShellOk
      \<or> pk_auth_mode rep = ''built_in_signed_request'' \<and> (\<exists>rq rp. auth_request e def (provider_endpoint e def) = Inr rq
        \<and> we_send (ae_web e) rq = Inr rp \<and> ok_status (hp_status rp) \<and> \<not> isAuthFailureBody (take (64 * 1024) (hp_body rp))))"
proof -
  obtain rep where rep: "providers_check e wi strict name = Inr rep" "pk_ready rep"
    using assms(2) by (auto simp: check_exit_code_def exit_panic_def process_exit_def exitCodeInternal_def split: sum.splits if_splits)
  then obtain conn where conn: "ValidateConnection (e\<lparr>ae_client := None\<rparr>) def strict = (conn, None)"
    "pk_auth_mode rep = cr_mode conn" "pk_authenticated rep = cr_authenticated conn"
    using check_ready assms(1) by blast
  have built_in: "hasBuiltInAuth def" by (rule known_built_in [OF DefinitionFor_known [OF assms(1)]])
  show ?thesis
    using rep(1) check_either [OF assms(1) built_in, of e wi "\<not> strict" strict] ready_connection [OF built_in conn(1)]
    by (simp add: conn without_client)
qed

section \<open>Witness\<close>

lemma check_success_is_earned_witness:
  "\<exists>rep. providers_check sample_auth_env sample_wiring True ''tencent-cloud'' = Inr rep \<and> pk_authenticated rep"
proof -
  have plain: "wi_gcp_factory sample_wiring = None" "wi_lambda_factory sample_wiring = None" by (simp_all add: sample_wiring_def)
  obtain reg where reg: "commands_registry sample_wiring = Inr reg"
    using commands_registry_built [OF plain] by blast
  let ?def = "Definitions ! 2"
  have named: "cd_name ?def = ''tencent-cloud''" and known: "DefinitionFor ''tencent-cloud'' = Inr ?def"
    by (simp_all add: DefinitionFor_def Definitions_def)
  obtain a where a: "registry_get reg ''tencent-cloud'' = Inr a" "ad_name a = ''tencent-cloud''" "snd (ad_capabilities a) = None"
    using cloud_registered [OF reg, of ?def] named by (auto simp: Definitions_def)
  have "sample_auth_env\<lparr>ae_client := None\<rparr> = sample_auth_env" by (simp add: sample_auth_env_def)
  then have "check_exit_code sample_auth_env sample_wiring True ''tencent-cloud'' = 0"
    using sample_connection [of True] a
    by (cases "ad_capabilities a"; cases "ValidateConnection sample_auth_env ?def True")
      (simp add: check_exit_code_def providers_check_def reg known connection_checked_def capabilities_checked_def process_exit_def Let_def)
  then show ?thesis using check_success_is_earned [OF known] by blast
qed

end
