(* ===== verification/Rendering.thy ===== *)
theory Rendering
  imports Plan Readiness
begin

text \<open>
  \<open>renderPlanReport\<close> of \<open>cli/root.go\<close>: the text of a plan, with its amounts of money.
\<close>

section \<open>Amounts\<close>

text \<open>Two decimals, as \<open>%.2f\<close> rounds: to the nearest hundredth, and to an even one between two.\<close>

definition hundredths :: "rat \<Rightarrow> int" where
  "hundredths x = (let f = \<lfloor>100 * x\<rfloor>; rest = 100 * x - of_int f
     in if rest < 1 / 2 \<or> (rest = 1 / 2 \<and> even f) then f else f + 1)"

definition amount :: "rat \<Rightarrow> string" where
  "amount x = (let n = nat (hundredths \<bar>x\<bar>)
     in (if x < 0 then ''-'' else []) @ string_of_nat (n div 100) @ ''.'' @ pad 2 (n mod 100))"

lemma hundredths_near: "\<bar>100 * x - of_int (hundredths x)\<bar> \<le> 1 / 2"
proof -
  let ?r = "100 * x - of_int \<lfloor>100 * x\<rfloor>"
  have r: "0 \<le> ?r" "?r < 1" by linarith+
  consider "hundredths x = \<lfloor>100 * x\<rfloor>" "?r \<le> 1 / 2" | "hundredths x = \<lfloor>100 * x\<rfloor> + 1" "1 / 2 \<le> ?r"
    by (cases "?r < 1 / 2 \<or> (?r = 1 / 2 \<and> even \<lfloor>100 * x\<rfloor>)") (auto simp: hundredths_def Let_def)
  then show ?thesis
  proof cases
    case 1
    then show ?thesis using r by simp
  next
    case 2
    then have "\<bar>100 * x - of_int (hundredths x)\<bar> = 1 - ?r" using r by simp
    then show ?thesis using 2 by simp
  qed
qed

lemma hundredths_exact: "hundredths (of_int n / 100) = n"
  by (simp add: hundredths_def)

section \<open>The text of a plan\<close>

text \<open>The actions that a plan does not take, which are part of every report.\<close>

definition suppressed_actions :: "string list" where
  "suppressed_actions = [''provider submit'', ''docker build'', ''docker push'', ''managed data upload'', ''run state/artifact writes'']"

definition data_lines :: "data_manifest option \<Rightarrow> string list" where
  "data_lines m = (let inputs = (case m of None \<Rightarrow> [] | Some d \<Rightarrow> dm_inputs d);
       bytes = (case m of None \<Rightarrow> 0 | Some d \<Rightarrow> dm_bundle_size_bytes d)
     in (''Data inputs: '' @ string_of_nat (length inputs))
       # (if bytes > 0 then [''Bundle size: '' @ string_of_int bytes @ '' bytes''] else []))"

definition staging_lines :: "plan_staging_report option \<Rightarrow> string list" where
  "staging_lines s = (case s of None \<Rightarrow> [] | Some r \<Rightarrow>
     if ps_would_upload r then ''Planned staged data uploads:'' # map (\<lambda>uri. ''  '' @ uri) (ps_planned_uploads r) else [])"

definition packaging_lines :: "plan_packaging_report option \<Rightarrow> string list" where
  "packaging_lines p = (case p of None \<Rightarrow> [] | Some r \<Rightarrow>
     if pp_would_package r then [''Packaging: would build and push '' @ pp_image r] else [])"

definition hardware_line :: "hardware_selection \<Rightarrow> string" where
  "hardware_line h = ''Selected hardware: '' @ hs_shape_id h
     @ (if hs_region h \<noteq> [] then '' in '' @ hs_region h else [])
     @ (if hs_hourly_usd h > 0 then '' at $'' @ amount (hs_hourly_usd h) @ ''/hr'' else [])"

definition routing_lines :: "routing_decision \<Rightarrow> string list" where
  "routing_lines d =
     (if rd_selected_provider d \<noteq> [] then [''Selected provider: '' @ rd_selected_provider d] else [])
     @ (case rd_selected_hardware d of None \<Rightarrow> [] | Some h \<Rightarrow> [hardware_line h])
     @ (case rd_total_cost d of None \<Rightarrow> [] | Some c \<Rightarrow> [''Estimated run cost: $'' @ amount c])
     @ (if rd_rejected_providers d \<noteq> []
        then ''Rejected providers:'' # map (\<lambda>r. ''  '' @ rc_provider r @ '': '' @ join '', '' (rc_reasons r)) (rd_rejected_providers d)
        else [])"

definition provider_lines :: "plan_provider_report \<Rightarrow> string list" where
  "provider_lines r =
     (''Provider supported: '' @ bool_text (pv_supported r))
     # (if est_hourly_usd (pv_estimate r) > 0 then [''Estimated hourly cost: $'' @ amount (est_hourly_usd (pv_estimate r))] else [])
     @ (if pv_reasons r \<noteq> [] then [''Provider reasons: '' @ join '', '' (pv_reasons r)] else [])"

definition checkpoint_lines :: "plan_checkpoint_report \<Rightarrow> string list" where
  "checkpoint_lines c =
     (if pc_resume_uri c \<noteq> []
      then [''Checkpoint compatibility: '' @ bool_text (pc_supported_by_selected c)
        @ (if pc_reason c \<noteq> [] then '' ('' @ pc_reason c @ '')'' else [])]
      else [])"

definition plan_lines :: "plan_report \<Rightarrow> string list" where
  "plan_lines r =
     [''Plan '' @ pl_run_id r, ''Provider: '' @ pl_provider r,
      (if job_image (pl_job r) \<noteq> [] then ''Job image: '' @ job_image (pl_job r) else ''Job script: '' @ job_script (pl_job r))]
     @ data_lines (pl_manifest r) @ staging_lines (pl_staging r) @ packaging_lines (pl_packaging r)
     @ (case pl_routing r of Some d \<Rightarrow> routing_lines d
        | None \<Rightarrow> (case pl_provider_report r of Some p \<Rightarrow> provider_lines p | None \<Rightarrow> []))
     @ checkpoint_lines (pl_checkpoint r)
     @ ''Suppressed actions:'' # map (\<lambda>a. ''  '' @ a) suppressed_actions"

end
