(* ===== verification/LambdaClient.thy ===== *)
theory LambdaClient
  imports VmHttp Lambda
begin

text \<open>
  \<open>provider/lambda/client.go\<close>: the client of the Lambda service, its requests and what it makes of an
  answer, read with what the clients of the other clouds share. The provider of Lambda is then one whose session asks this client.
\<close>

section \<open>The client\<close>

record lambda_client =
  lk_base :: string
  lk_key :: string

text \<open>The address and the key of a configuration.\<close>

definition newRealClient :: "resolver \<Rightarrow> string \<Rightarrow> api_failure + lambda_client" where
  "newRealClient resolve base = (case resolve \<lparr>cq_provider = ''lambda'', cq_name = ''api_key'', cq_env = []\<rparr> of
     Inl e \<Rightarrow> Inl (ApiError 401 ''global/missing-api-key''
       ''stored lambda/api_key credential is required; run `switchboard-cli credentials set lambda api-key`'')
   | Inr s \<Rightarrow> Inr \<lparr>lk_base = trim_right (\<lambda>c. c = CHR ''/'') (if base = [] then ''https://cloud.lambda.ai'' else base),
       lk_key = sc_secret s\<rparr>)"

definition lambda_api_request :: "web \<Rightarrow> lambda_client \<Rightarrow> string \<Rightarrow> string \<Rightarrow> json option \<Rightarrow> gerror + http_request" where
  "lambda_api_request w c m path body =
     bindr (new_request w m (lk_base c @ path) (case body of None \<Rightarrow> [] | Some j \<Rightarrow> marshal j)) (\<lambda>rq.
       Inr (set_headers ([(''Accept'', ''application/json''), (''Authorization'', ''Bearer '' @ lk_key c)]
         @ (case body of None \<Rightarrow> [] | Some j \<Rightarrow> [(''Content-Type'', ''application/json'')])) rq))"

section \<open>Answers\<close>

text \<open>A field whose value is checked and not kept.\<close>

definition dec_unused :: "'b decoder \<Rightarrow> 'b \<Rightarrow> 's decoder" where
  "dec_unused d zero j s = (s, snd (d j zero))"

definition dec_specs :: "int decoder" where
  "dec_specs = dec_struct [(''vcpus'', dec_unused dec_whole 0), (''memory_gib'', dec_unused dec_whole 0),
     (''storage_gib'', dec_unused dec_whole 0), (''gpus'', dec_whole)]"

definition dec_instance_type :: "instance_type decoder" where
  "dec_instance_type = dec_struct
     [(''name'', dec_field it_name it_name_update dec_str), (''description'', dec_unused dec_str []),
      (''gpu_description'', dec_field it_gpu_description it_gpu_description_update dec_str),
      (''price_cents_per_hour'', dec_field it_price_cents it_price_cents_update dec_whole),
      (''specs'', dec_field it_gpus it_gpus_update dec_specs)]"

definition dec_region :: "string decoder" where
  "dec_region = dec_struct [(''name'', dec_str), (''description'', dec_unused dec_str [])]"

definition empty_type :: instance_type where
  "empty_type = \<lparr>it_name = [], it_gpu_description = [], it_price_cents = 0, it_gpus = 0\<rparr>"

definition dec_types_item :: "instance_types_item decoder" where
  "dec_types_item = dec_struct [(''instance_type'', dec_field ii_type ii_type_update dec_instance_type),
     (''regions_with_capacity_available'', dec_field ii_regions ii_regions_update (dec_slice dec_region []))]"

definition dec_lambda_instance :: "lambda_instance decoder" where
  "dec_lambda_instance = dec_struct
     [(''id'', dec_field li_id li_id_update dec_str), (''name'', dec_unused dec_str []),
      (''ip'', dec_field li_ip li_ip_update dec_str), (''private_ip'', dec_unused dec_str []),
      (''status'', dec_field li_status li_status_update dec_str), (''region'', dec_unused dec_region []),
      (''instance_type'', dec_unused dec_instance_type empty_type)]"

definition empty_instance :: lambda_instance where
  "empty_instance = \<lparr>li_id = [], li_ip = [], li_status = []\<rparr>"

text \<open>Every answer is in the member \<open>data\<close>.\<close>

definition dec_data :: "'a decoder \<Rightarrow> 'a decoder" where
  "dec_data d = dec_struct [(''data'', d)]"

definition dec_api_error :: "(string \<times> string) decoder" where
  "dec_api_error = dec_struct
     [(''error'', dec_struct [(''code'', dec_field fst apfst dec_str), (''message'', dec_field snd apsnd dec_str),
        (''suggestion'', dec_unused dec_str [])])]"

definition lambda_response_error :: "http_response \<Rightarrow> api_failure" where
  "lambda_response_error rp = (case unmarshal dec_api_error (hp_body rp) ([], []) of
     ((code, message), failed) \<Rightarrow>
       if \<not> failed \<and> code \<noteq> [] then ApiError (hp_status rp) code message
       else ApiError (hp_status rp) (''http/'' @ string_of_int (hp_status rp)) (hp_body rp))"

definition lambda_answer :: "web \<Rightarrow> 'a decoder \<Rightarrow> 'a \<Rightarrow> http_response \<Rightarrow> api_failure + 'a" where
  "lambda_answer w d zero rp = (case hp_read_error rp of Some e \<Rightarrow> Inl (OtherError e)
     | None \<Rightarrow> if \<not> ok_status (hp_status rp) then Inl (lambda_response_error rp)
         else (case unmarshal d (hp_body rp) zero of (out, failed) \<Rightarrow>
           if failed then Inl (OtherError (ErrWrap ''decode lambda api response: '' (we_json_error w (hp_body rp))))
           else Inr out))"

definition lambda_do ::
  "web \<Rightarrow> lambda_client \<Rightarrow> string \<Rightarrow> string \<Rightarrow> json option \<Rightarrow> 'a decoder \<Rightarrow> 'a \<Rightarrow> api_failure + 'a" where
  "lambda_do w c m path body d zero =
     (case bindr (lambda_api_request w c m path body) (we_send w) of Inl e \<Rightarrow> Inl (OtherError e)
      | Inr rp \<Rightarrow> lambda_answer w (dec_data d) zero rp)"

section \<open>Operations\<close>

definition ListInstanceTypes :: "web \<Rightarrow> lambda_client \<Rightarrow> api_failure + instance_types_item smap" where
  "ListInstanceTypes w c = lambda_do w c ''GET'' ''/api/v1/instance-types'' None
     (dec_map dec_types_item \<lparr>ii_type = empty_type, ii_regions = []\<rparr>) []"

definition ListInstances :: "web \<Rightarrow> lambda_client \<Rightarrow> api_failure + lambda_instance list" where
  "ListInstances w c = lambda_do w c ''GET'' ''/api/v1/instances'' None (dec_slice dec_lambda_instance empty_instance) []"

definition lambda_failure :: "api_failure + 'a \<Rightarrow> api_failure option" where
  "lambda_failure r = (case r of Inl e \<Rightarrow> Some e | Inr x \<Rightarrow> None)"

definition lambda_validate_auth :: "web \<Rightarrow> lambda_client \<Rightarrow> api_failure option" where
  "lambda_validate_auth w c = lambda_failure (ListInstances w c)"

definition GetInstance :: "web \<Rightarrow> lambda_client \<Rightarrow> string \<Rightarrow> api_failure + lambda_instance" where
  "GetInstance w c i = lambda_do w c ''GET'' (''/api/v1/instances/'' @ escape EncodePathSegment i) None
     dec_lambda_instance empty_instance"

text \<open>A request is a structure: its members are in the order of the fields.\<close>

definition launch_fields :: "launch_request \<Rightarrow> (string \<times> json option) list" where
  "launch_fields r =
     [(''region_name'', Some (JStr (lr_region r))), (''instance_type_name'', Some (JStr (lr_instance_type r))),
      (''ssh_key_names'', Some (json_strings (lr_ssh_keys r))),
      (''hostname'', given (lr_hostname r \<noteq> []) (JStr (lr_hostname r))),
      (''name'', given (lr_name r \<noteq> []) (JStr (lr_name r))),
      (''image'', given (lr_image r \<noteq> []) (json_map (map (\<lambda>(k, v). (k, JStr v)) (lr_image r)))),
      (''user_data'', given (lr_user_data r \<noteq> []) (JStr (lr_user_data r))),
      (''tags'', given (lr_tags r \<noteq> [])
        (JArr (map (\<lambda>(k, v). JObj [(''key'', JStr k), (''value'', JStr v)]) (lr_tags r))))]"

definition launch_json :: "launch_request \<Rightarrow> json" where
  "launch_json r = JObj (present (launch_fields r))"

definition LaunchInstance :: "web \<Rightarrow> lambda_client \<Rightarrow> launch_request \<Rightarrow> api_failure + string list" where
  "LaunchInstance w c r = lambda_do w c ''POST'' ''/api/v1/instance-operations/launch'' (Some (launch_json r))
     (dec_struct [(''instance_ids'', dec_slice dec_str [])]) []"

definition TerminateInstances :: "web \<Rightarrow> lambda_client \<Rightarrow> string list \<Rightarrow> api_failure option" where
  "TerminateInstances w c ids = lambda_failure (lambda_do w c ''POST'' ''/api/v1/instance-operations/terminate''
     (Some (JObj [(''instance_ids'', json_strings ids)])) dec_any JNull)"

section \<open>The provider on the client\<close>

text \<open>The answers over time, while a machine boots and runs, stay with the session.\<close>

definition lambda_client_session :: "web \<Rightarrow> resolver \<Rightarrow> string \<Rightarrow> lambda_session \<Rightarrow> lambda_session" where
  "lambda_client_session w resolve base ses = (case newRealClient resolve base of
     Inl e \<Rightarrow> ses\<lparr>ls_client := Some e\<rparr>
   | Inr c \<Rightarrow> ses\<lparr>ls_client := None, ls_auth := lambda_validate_auth w c, ls_types := ListInstanceTypes w c,
       ls_launch := LaunchInstance w c, ls_get := GetInstance w c, ls_terminate := (\<lambda>i. TerminateInstances w c [i])\<rparr>)"

section \<open>What is sent\<close>

lemma lambda_api_request_parts:
  assumes "lambda_api_request w c m path body = Inr rq"
  shows "hr_method rq = m" and "hr_body rq = (case body of None \<Rightarrow> [] | Some j \<Rightarrow> marshal j)"
  using assms by (auto simp: lambda_api_request_def new_request_def bindr_eq_Inr Let_def split: option.splits)

lemma lambda_do_sends:
  assumes "lambda_do w c m path body d zero = Inr out"
  shows "\<exists>rq rp. lambda_api_request w c m path body = Inr rq \<and> we_send w rq = Inr rp \<and> ok_status (hp_status rp)"
  using assms by (auto simp: lambda_do_def lambda_answer_def bindr_eq_Inr split: sum.splits option.splits if_splits)

lemma launch_distinct: "distinct (map fst (launch_fields r))"
  by (simp add: launch_fields_def)

lemma launch_plain:
  assumes "distinct (map fst (lr_image r))"
  shows "json_plain (launch_json r)"
proof -
  have "json_plain (json_map (map (\<lambda>(k, v). (k, JStr v)) (lr_image r)))"
    using assms by (intro plain_map) (simp_all add: list_all_iff plain_str case_prod_beta comp_def)
  moreover have "json_plain (JObj [(''key'', JStr k), (''value'', JStr v)])" for k v
    by (rule plain_obj) (auto intro: plain_str)
  then have "json_plain (JArr (map (\<lambda>(k, v). JObj [(''key'', JStr k), (''value'', JStr v)]) (lr_tags r)))"
    by (intro plain_arr) auto
  ultimately have "list_all (\<lambda>(k, v). case v of None \<Rightarrow> True | Some j \<Rightarrow> json_plain j) (launch_fields r)"
    by (simp add: launch_fields_def given_plain plain_str)
  then have "list_all (\<lambda>(k, v). json_plain v) (present (launch_fields r))"
    by (auto simp: present_def map_filter_def list_all_iff split: option.splits)
  then show ?thesis unfolding launch_json_def
    by (intro plain_obj) (auto simp: distinct_present launch_distinct list_all_iff)
qed

lemma launch_member:
  "member ''user_data'' (launch_json r) = (if lr_user_data r = [] then None else Some (JStr (lr_user_data r)))"
  by (simp add: member_def launch_json_def map_of_present launch_distinct) (simp add: launch_fields_def given_def)

lemma launch_sends:
  assumes "LaunchInstance w c r = Inr ids" and "distinct (map fst (lr_image r))"
  shows "\<exists>rq rp. we_send w rq = Inr rp \<and> ok_status (hp_status rp) \<and> hr_method rq = ''POST'' \<and> body_json rq = launch_json r"
proof -
  obtain rq rp where rq: "lambda_api_request w c ''POST'' ''/api/v1/instance-operations/launch'' (Some (launch_json r)) = Inr rq"
    "we_send w rq = Inr rp" "ok_status (hp_status rp)"
    using lambda_do_sends [OF assms(1) [unfolded LaunchInstance_def]] by blast
  have "body_json rq = launch_json r"
    by (rule body_marshal) (use lambda_api_request_parts(2) [OF rq(1)] launch_plain [OF assms(2)] in simp_all)
  then show ?thesis using rq lambda_api_request_parts(1) [OF rq(1)] by blast
qed

lemma acquired_launched:
  assumes "acquired (effects (lambda_submit c ses req) ans n) \<noteq> []"
  shows "ls_client ses = None \<and> (\<exists>ids. ls_launch ses (launchRequest c req) = Inr ids)"
proof -
  have quiet: "acquired (effects (failed_with ref code reason e) ans n) = []" for ref code reason e
    by (simp add: failed_with_def)
  show ?thesis
    using assms by (auto simp: lambda_submit_def Let_def effect_simps quiet split: option.splits sum.splits)
qed

section \<open>From the job to the request\<close>

text \<open>C13. A machine of Lambda runs the job: when a run has acquired an instance, the service has answered with
  success to a request to launch one whose user data is the script of that job.\<close>

theorem lambda_machine_runs_job:
  assumes "acquired (effects (lambda_submit cfg (lambda_client_session w resolve base ses) req) ans n) \<noteq> []"
  shows "\<exists>rq rp. we_send w rq = Inr rp \<and> ok_status (hp_status rp) \<and> hr_method rq = ''POST''
    \<and> member ''user_data'' (body_json rq) = Some (JStr (cloudInitUserData req (lm_registry cfg)))"
proof -
  let ?r = "launchRequest cfg req"
  obtain c where "newRealClient resolve base = Inr c"
    using acquired_launched [OF assms] by (auto simp: lambda_client_session_def split: sum.splits)
  then obtain ids where launch: "LaunchInstance w c ?r = Inr ids"
    using acquired_launched [OF assms] by (auto simp: lambda_client_session_def)
  have "distinct (map fst (lr_image ?r))" "lr_user_data ?r = cloudInitUserData req (lm_registry cfg)"
    by (simp_all add: launchRequest_def)
  moreover have "cloudInitUserData req (lm_registry cfg) \<noteq> []" by (simp add: cloudInitUserData_def cloud_config_def Let_def)
  ultimately have "member ''user_data'' (launch_json ?r) = Some (JStr (cloudInitUserData req (lm_registry cfg)))"
    and "distinct (map fst (lr_image ?r))" by (simp_all add: launch_member)
  then show ?thesis using launch_sends [OF launch] by (metis (no_types, lifting))
qed

section \<open>Witness\<close>

definition launching_web :: web where
  "launching_web = sample_web\<lparr>we_send := (\<lambda>rq. Inr \<lparr>hp_status = 200,
     hp_body = ''{\"data\":{\"instance_ids\":[\"i-1\"]}}'', hp_read_error = None\<rparr>)\<rparr>"

definition sample_resolver :: resolver where
  "sample_resolver q = Inr \<lparr>sc_key = [], sc_secret = ''key'', sc_created = zero_time, sc_updated = zero_time\<rparr>"

lemma launching_address: "case url_parse ''https://cloud.lambda.ai/api/v1/instance-operations/launch'' of Some u \<Rightarrow> True | None \<Rightarrow> False"
  by code_simp

lemma launching_base: "trim_right (\<lambda>c. c = CHR ''/'') ''https://cloud.lambda.ai'' = ''https://cloud.lambda.ai''"
  by code_simp

lemma launching_answer: "unmarshal (dec_data (dec_struct [(''instance_ids'', dec_slice dec_str [])]))
    ''{\"data\":{\"instance_ids\":[\"i-1\"]}}'' [] = ([''i-1''], False)"
  by code_simp

lemma launching: "LaunchInstance launching_web \<lparr>lk_base = ''https://cloud.lambda.ai'', lk_key = k\<rparr> r = Inr [''i-1'']"
proof -
  obtain u where "url_parse ''https://cloud.lambda.ai/api/v1/instance-operations/launch'' = Some u"
    using launching_address by (auto split: option.splits)
  then show ?thesis
    by (simp add: LaunchInstance_def lambda_do_def lambda_api_request_def new_request_def Let_def launching_web_def
        lambda_answer_def ok_status_def launching_answer)
qed

lemma lambda_machine_runs_job_witness:
  "\<exists>rq rp. we_send launching_web rq = Inr rp \<and> ok_status (hp_status rp) \<and> hr_method rq = ''POST''
    \<and> member ''user_data'' (body_json rq) = Some (JStr (cloudInitUserData Lambda.sample_request (lm_registry Lambda.sample_config)))"
proof (rule lambda_machine_runs_job)
  have "newRealClient sample_resolver [] = Inr \<lparr>lk_base = ''https://cloud.lambda.ai'', lk_key = ''key''\<rparr>"
    by (simp add: newRealClient_def sample_resolver_def launching_base)
  then have "lambda_client_session launching_web sample_resolver [] Lambda.sample_session =
      (lambda_client_session launching_web sample_resolver [] Lambda.sample_session)\<lparr>ls_open_logs := None, ls_open_events := None,
        ls_client := None, ls_launch := LaunchInstance launching_web \<lparr>lk_base = ''https://cloud.lambda.ai'', lk_key = ''key''\<rparr>\<rparr>"
    by (simp add: lambda_client_session_def Lambda.sample_session_def)
  then show "acquired (effects (lambda_submit Lambda.sample_config
      (lambda_client_session launching_web sample_resolver [] Lambda.sample_session) Lambda.sample_request) (\<lambda>n. None) 0) \<noteq> []"
    by (rule ssubst) (simp add: lambda_submit_def Let_def effect_simps launching)
qed

end
