(* ===== verification/Ids.thy ===== *)
theory Ids
  imports GoHttp Artifact
begin

text \<open>
  \<open>app/ids.go\<close>: how runs, attempts and tracked resources are named. The random bytes and the clock are
  parameters: four bytes, or an error of the generator, and the time that stands for them then.
\<close>

definition newID :: "string \<Rightarrow> string option \<Rightarrow> int \<Rightarrow> string" where
  "newID kind random nanos = (case random of
     None \<Rightarrow> kind @ ''_'' @ string_of_int nanos
   | Some b \<Rightarrow> kind @ ''_'' @ hex_encode b)"

definition NewRunID :: "string option \<Rightarrow> int \<Rightarrow> string" where
  "NewRunID = newID ''r''"

definition NewAttemptID :: "string option \<Rightarrow> int \<Rightarrow> string" where
  "NewAttemptID = newID ''a''"

definition NewProviderResourceID :: "string option \<Rightarrow> int \<Rightarrow> string" where
  "NewProviderResourceID = newID ''res''"

section \<open>New identifiers\<close>

lemma hex_digits: "list_all is_alnum ''0123456789abcdef''"
  by code_simp

lemma hex_digit_alnum: "is_alnum (hex_digit n)"
  using hex_digits by (auto simp: hex_digit_def list_all_length)

lemma hex_encode_alnum: "list_all is_alnum (hex_encode s)"
  by (simp add: hex_encode_def list_all_iff hex_digit_alnum)

abbreviation id_char :: "char \<Rightarrow> bool" where
  "id_char c \<equiv> is_alnum c \<or> c = CHR ''_'' \<or> c = CHR ''-''"

lemma hex_id: "list_all id_char (hex_encode s)"
  using hex_encode_alnum by (auto simp: list_all_iff)

lemma int_id: "list_all id_char (string_of_int i)"
  by (auto simp: string_of_int_def list_all_iff is_alnum_def dest: string_of_nat_digits)

lemma kinds_id: "list_all (\<lambda>kind. is_alnum (hd kind) \<and> kind \<noteq> [] \<and> list_all is_alnum kind) [''r'', ''a'', ''res'']"
  by code_simp

text \<open>Every new identifier is one that the artifacts of a run may be named by, whether or not there were
  random bytes.\<close>

lemma new_id_valid:
  assumes "kind \<in> set [''r'', ''a'', ''res'']"
  shows "valid_run_id (newID kind random nanos)"
proof -
  have kind: "is_alnum (hd kind)" "kind \<noteq> []" "list_all is_alnum kind"
    using kinds_id assms unfolding list_all_iff by blast+
  then obtain c cs where split: "kind = c # cs" by (cases kind) auto
  have "list_all id_char cs" using kind(3) by (auto simp: split list_all_iff)
  moreover have "newID kind random nanos = c # cs @ ''_'' @ (case random of None \<Rightarrow> string_of_int nanos | Some b \<Rightarrow> hex_encode b)"
    by (simp add: newID_def split split: option.split)
  moreover have "list_all id_char (case random of None \<Rightarrow> string_of_int nanos | Some b \<Rightarrow> hex_encode b)"
    by (simp add: hex_id int_id split: option.split)
  ultimately show ?thesis using kind(1) by (simp add: valid_run_id_def split)
qed

end
