(* ===== verification/Logs.thy ===== *)
theory Logs
  imports Ids ArtifactIO Config Store Runs
begin

text \<open>
  The commands \<open>status\<close> and \<open>logs\<close> of \<open>cli/root.go\<close>. What another process does to the log and to the run
  while a log is followed is given turn by turn.
\<close>

section \<open>Status\<close>

definition runTarget :: "run \<Rightarrow> string" where
  "runTarget r = (if run_script r \<noteq> [] then run_script r else run_image r)"

definition status_text :: "run \<Rightarrow> string" where
  "status_text r = join [CHR 0x09] [run_id r, run_state_string (run_state r), run_provider r, runTarget r]"

text \<open>The run is read after the directory of the data was made and the identifier was found to be valid.\<close>

definition run_status ::
  "system_env \<Rightarrow> os_calls \<Rightarrow> (string \<Rightarrow> gerror option) \<Rightarrow> string \<Rightarrow> string \<Rightarrow> store \<Rightarrow> store \<times> (gerror + run)" where
  "run_status env os opening flag runID s =
     (case home_resolve (se_getenv env) (se_user_home env) (se_exists env) flag of
        Inl e \<Rightarrow> (s, Inl e)
      | Inr home \<Rightarrow>
     (case EnsureHome os home of Some e \<Rightarrow> (s, Inl e) | None \<Rightarrow>
     (case ValidateRunID runID of Some e \<Rightarrow> (s, Inl e) | None \<Rightarrow>
     (case opening (DBPath (se_exists env) home) of Some e \<Rightarrow> (s, Inl e) | None \<Rightarrow> GetRun runID s))))"

section \<open>Following a log\<close>

text \<open>A reading of the log from an offset: it cannot be opened, its offset cannot be set, it breaks off
  after some bytes, or it is read to its end.\<close>

datatype log_reading = NotOpened gerror | NotPlaced gerror | BrokenOff string nat gerror | ReadToEnd string

record follow_state =
  fo_printed :: string
  fo_offset :: nat

definition copyLogFromOffset :: "log_reading \<Rightarrow> follow_state \<Rightarrow> follow_state \<times> gerror option" where
  "copyLogFromOffset r st = (case r of
     NotOpened e \<Rightarrow> (st, Some e)
   | NotPlaced e \<Rightarrow> (st, Some e)
   | BrokenOff content n e \<Rightarrow> (st\<lparr>fo_printed := fo_printed st @ take n (drop (fo_offset st) content)\<rparr>, Some e)
   | ReadToEnd content \<Rightarrow> (let written = drop (fo_offset st) content in
       (st\<lparr>fo_printed := fo_printed st @ written, fo_offset := fo_offset st + length written\<rparr>, None)))"

text \<open>The end of a command that is interrupted while it waits: a last reading, and the error.\<close>

type_synonym interruption = "log_reading \<times> gerror"

definition interrupted :: "interruption \<Rightarrow> follow_state \<Rightarrow> follow_state \<times> gerror option" where
  "interrupted i st = (case copyLogFromOffset (fst i) st of (st, Some e) \<Rightarrow> (st, Some e) | (st, None) \<Rightarrow> (st, Some (snd i)))"

text \<open>Once the run has ended the log is read every 100 ms, until nothing is new.\<close>

fun drainFinalLogAfterTerminal ::
  "interruption \<Rightarrow> follow_state \<Rightarrow> log_reading list \<Rightarrow> follow_state \<times> gerror option" where
  "drainFinalLogAfterTerminal i st [] = interrupted i st"
| "drainFinalLogAfterTerminal i st (r # rs) = (case copyLogFromOffset r st of
     (st', Some e) \<Rightarrow> (st', Some e)
   | (st', None) \<Rightarrow> if fo_offset st' = fo_offset st then (st', None) else drainFinalLogAfterTerminal i st' rs)"

record follow_turn =
  ft_reading :: log_reading
  ft_run :: "gerror + run"

fun follow_turns ::
  "interruption \<Rightarrow> log_reading list \<Rightarrow> follow_state \<Rightarrow> follow_turn \<Rightarrow> follow_turn list \<Rightarrow> follow_state \<times> gerror option" where
  "follow_turns i drains st t later = (case copyLogFromOffset (ft_reading t) st of
     (st, Some e) \<Rightarrow> (st, Some e)
   | (st, None) \<Rightarrow> (case ft_run t of
       Inl e \<Rightarrow> (st, Some e)
     | Inr r \<Rightarrow> if run_state r \<noteq> RunRunning then drainFinalLogAfterTerminal i st drains
         else (case later of [] \<Rightarrow> interrupted i st
           | t' # later' \<Rightarrow> follow_turns i drains st t' later')))"

declare follow_turns.simps [simp del]

definition followLogs ::
  "gerror option \<Rightarrow> interruption \<Rightarrow> log_reading list \<Rightarrow> follow_turn \<Rightarrow> follow_turn list \<Rightarrow> follow_state \<times> gerror option" where
  "followLogs opening i drains t later = (case opening of
     Some e \<Rightarrow> (\<lparr>fo_printed = [], fo_offset = 0\<rparr>, Some e)
   | None \<Rightarrow> follow_turns i drains \<lparr>fo_printed = [], fo_offset = 0\<rparr> t later)"

text \<open>The command, with what it prints; its paths panic when the run has no directory of its own.\<close>

datatype logs_end = LogsPanic gerror | LogsEnd string "gerror option"

definition logs_command ::
  "system_env \<Rightarrow> string \<Rightarrow> files \<Rightarrow> (string \<Rightarrow> gerror option) \<Rightarrow> interruption \<Rightarrow> log_reading list \<Rightarrow> follow_turn
    \<Rightarrow> follow_turn list \<Rightarrow> string \<Rightarrow> string \<Rightarrow> bool \<Rightarrow> logs_end" where
  "logs_command env cwd fl opening i drains t later flag runID follow =
     (case home_resolve (se_getenv env) (se_user_home env) (se_exists env) flag of
        Inl e \<Rightarrow> LogsEnd [] (Some e)
      | Inr home \<Rightarrow>
     (case ValidateRunID runID of Some e \<Rightarrow> LogsEnd [] (Some e) | None \<Rightarrow>
     (case ForRun cwd (se_exists env) home runID of
        Inl e \<Rightarrow> LogsPanic e
      | Inr p \<Rightarrow>
          if follow
          then (case followLogs (opening (DBPath (se_exists env) home)) i drains t later of
            (st, err) \<Rightarrow> LogsEnd (fo_printed st) err)
          else (case StreamLogs cwd fl p of Inl e \<Rightarrow> LogsEnd [] (Some e) | Inr text \<Rightarrow> LogsEnd text None))))"

section \<open>What a follower has printed\<close>

fun reading_text :: "log_reading \<Rightarrow> string option" where
  "reading_text (ReadToEnd content) = Some content"
| "reading_text _ = None"

text \<open>A reading of the whole log, when the log has only grown.\<close>

lemma copy_grown:
  assumes "copyLogFromOffset r st = (st', None)" and "fo_offset st = length (fo_printed st)"
    and "\<And>c. reading_text r = Some c \<Longrightarrow> prefix (fo_printed st) c"
  shows "reading_text r = Some (fo_printed st') \<and> fo_offset st' = length (fo_printed st')"
  using assms by (cases r) (auto simp: copyLogFromOffset_def Let_def elim!: prefixE)

text \<open>The readings of a log that only grows from what was printed.\<close>

fun grows :: "string \<Rightarrow> log_reading list \<Rightarrow> bool" where
  "grows s [] \<longleftrightarrow> True"
| "grows s (r # rs) \<longleftrightarrow> (case reading_text r of None \<Rightarrow> grows s rs | Some c \<Rightarrow> prefix s c \<and> grows c rs)"

lemma grows_read: "grows s (r # rs) \<Longrightarrow> reading_text r = Some c \<Longrightarrow> prefix s c \<and> grows c rs"
  by simp

lemma copy_step:
  assumes "copyLogFromOffset r st = (st', None)" and "fo_offset st = length (fo_printed st)" and "grows (fo_printed st) (r # rs)"
  shows "reading_text r = Some (fo_printed st')" "fo_offset st' = length (fo_printed st')" "grows (fo_printed st') rs"
  using copy_grown [OF assms(1,2)] grows_read [OF assms(3)] by auto

lemma grows_before: "prefix s c \<Longrightarrow> grows c rs \<Longrightarrow> grows s rs"
  by (induction rs) (auto split: option.splits dest: prefix_order.trans)

lemma grows_later: "grows s (xs @ ys) \<Longrightarrow> grows s ys"
  by (induction xs arbitrary: s) (auto split: option.splits dest: grows_before)

lemma drain_grown:
  assumes "drainFinalLogAfterTerminal i st rs = (st', None)" and "fo_offset st = length (fo_printed st)"
    and "grows (fo_printed st) rs"
  shows "Some (fo_printed st') \<in> set (map reading_text rs)"
  using assms
proof (induction rs arbitrary: st)
  case Nil
  then show ?case by (auto simp: interrupted_def split: prod.splits option.splits)
next
  case (Cons r rs)
  obtain st1 where copy: "copyLogFromOffset r st = (st1, None)"
    using Cons.prems(1) by (auto split: prod.splits option.splits)
  note st1 = copy_step [OF copy Cons.prems(2,3)]
  show ?case
  proof (cases "fo_offset st1 = fo_offset st")
    case True
    then have "st' = st1" using Cons.prems(1) copy by simp
    then show ?thesis using st1(1) by simp
  next
    case False
    then have "drainFinalLogAfterTerminal i st1 rs = (st', None)" using Cons.prems(1) copy by simp
    from Cons.IH [OF this st1(2,3)] show ?thesis by simp
  qed
qed

lemma follow_grown:
  assumes "follow_turns i drains st t later = (st', None)" and "fo_offset st = length (fo_printed st)"
    and "grows (fo_printed st) (map ft_reading (t # later) @ drains)"
  shows "Some (fo_printed st') \<in> set (map reading_text drains)"
  using assms
proof (induction later arbitrary: st t)
  case Nil
  obtain st1 where copy: "copyLogFromOffset (ft_reading t) st = (st1, None)"
    using Nil.prems(1) by (auto simp: follow_turns.simps split: prod.splits option.splits)
  have "grows (fo_printed st) (ft_reading t # drains)" using Nil.prems(3) by simp
  note st1 = copy_step [OF copy Nil.prems(2) this]
  have "drainFinalLogAfterTerminal i st1 drains = (st', None)"
    using Nil.prems(1) copy
    by (auto simp: follow_turns.simps interrupted_def split: sum.splits if_splits prod.splits option.splits)
  then show ?case using drain_grown st1(2,3) by blast
next
  case (Cons t' later)
  obtain st1 where copy: "copyLogFromOffset (ft_reading t) st = (st1, None)"
    using Cons.prems(1) by (subst (asm) follow_turns.simps) (auto split: prod.splits option.splits)
  have "grows (fo_printed st) (ft_reading t # map ft_reading (t' # later) @ drains)" using Cons.prems(3) by simp
  note st1 = copy_step [OF copy Cons.prems(2) this]
  consider "drainFinalLogAfterTerminal i st1 drains = (st', None)" | "follow_turns i drains st1 t' later = (st', None)"
    using Cons.prems(1) copy by (subst (asm) follow_turns.simps) (auto split: sum.splits if_splits)
  then show ?case
  proof cases
    case 1
    have "grows (fo_printed st1) drains" by (rule grows_later [OF st1(3)])
    with 1 st1(2) show ?thesis using drain_grown by blast
  next
    case 2
    then show ?thesis using Cons.IH st1(2,3) by blast
  qed
qed

text \<open>C40. Whoever follows a log that only grows has, when the command ends without an error, printed the whole
  text of a reading that was made after the run was seen to have ended: nothing twice and nothing
  left out, however the writing and the turns fall.\<close>

theorem follow_prints_log:
  assumes "followLogs opening i drains t later = (st, None)" and "grows [] (map ft_reading (t # later) @ drains)"
  shows "Some (fo_printed st) \<in> set (map reading_text drains)"
proof -
  have "follow_turns i drains \<lparr>fo_printed = [], fo_offset = 0\<rparr> t later = (st, None)"
    using assms(1) by (simp add: followLogs_def split: option.splits)
  from follow_grown [OF this] assms(2) show ?thesis by simp
qed

section \<open>Witness\<close>

definition ended_run :: run where
  "ended_run = \<lparr>run_id = ''r_1'', run_job_name = ''train'', run_script = [], run_image = ''img'', run_provider = ''local'',
     run_state = RunSucceeded, run_started_at = zero_time, run_ended_at = zero_time, run_exit_code = 0, run_error = []\<rparr>"

lemma follow_prints_log_witness:
  "fo_printed (fst (followLogs None (ReadToEnd [], ErrText ''context canceled'') [ReadToEnd ''abc'', ReadToEnd ''abc'']
     \<lparr>ft_reading = ReadToEnd ''a'', ft_run = Inr (ended_run\<lparr>run_state := RunRunning\<rparr>)\<rparr>
     [\<lparr>ft_reading = ReadToEnd ''ab'', ft_run = Inr ended_run\<rparr>])) = ''abc''"
proof -
  let ?f = "followLogs None (ReadToEnd [], ErrText ''context canceled'') [ReadToEnd ''abc'', ReadToEnd ''abc'']
     \<lparr>ft_reading = ReadToEnd ''a'', ft_run = Inr (ended_run\<lparr>run_state := RunRunning\<rparr>)\<rparr>
     [\<lparr>ft_reading = ReadToEnd ''ab'', ft_run = Inr ended_run\<rparr>]"
  have "snd ?f = None"
    by (simp add: followLogs_def follow_turns.simps copyLogFromOffset_def ended_run_def Let_def)
  then have "?f = (fst ?f, None)" by (metis prod.collapse)
  from follow_prints_log [OF this] show ?thesis by simp
qed

end
