(* ===== verification/Contract.thy ===== *)
theory Contract
  imports Providers Submitting
begin

text \<open>
  \<open>provider/contract/contract.go\<close>: what the tests of the program ask of every provider, as a function of a
  subject. The tests run it on one subject for each provider; here the mock and the local provider are
  shown to meet it for every configuration and job it applies to.
\<close>

section \<open>The contract\<close>

datatype stream_behavior = StreamLogsRequired | StreamLogsUnsupported | StreamLogsSkip | StreamLogsOther string

datatype test_result = Passed | Skipped | Failed string

text \<open>What \<open>StreamLogs\<close> returns: its error, and its stream as what \<open>Close\<close> returns. The two functions of a
  subject answer with the message they fail the test with. The values that messages show are left out.\<close>

type_synonym stream_answer = "gerror option \<times> gerror option option"

record subject =
  cs_name :: string
  cs_adapter :: adapter
  cs_valid_job :: job_spec
  cs_invalid_job :: job_spec
  cs_request :: submit_request
  cs_ref_prefix :: string
  cs_stream_logs :: stream_behavior
  cs_logs :: stream_answer
  cs_cancel :: "(adapter \<Rightarrow> string option) option"
  cs_assert :: "(provider_capabilities \<Rightarrow> string option) option"

definition verdict :: "string option \<Rightarrow> test_result" where
  "verdict m = (case m of None \<Rightarrow> Passed | Some text \<Rightarrow> Failed text)"

definition identity_test :: "subject \<Rightarrow> test_result" where
  "identity_test s =
     (if cs_name s = [] then Failed ''contract subject name is required''
      else if ad_name (cs_adapter s) \<noteq> cs_name s
      then Failed (''adapter name = '' @ quote (ad_name (cs_adapter s)) @ '', want '' @ quote (cs_name s))
      else Passed)"

definition auth_test :: "subject \<Rightarrow> test_result" where
  "auth_test s = (case ad_auth (cs_adapter s) of
     Some e \<Rightarrow> Failed (''ValidateAuth returned error: '' @ error_string e) | None \<Rightarrow> Passed)"

definition capabilities_test :: "subject \<Rightarrow> test_result" where
  "capabilities_test s = (case ad_capabilities (cs_adapter s) of
     (c, Some e) \<Rightarrow> Failed (''Capabilities returned error: '' @ error_string e)
   | (c, None) \<Rightarrow>
       if \<not> cap_local_script c \<and> \<not> cap_docker_image c then Failed ''provider must support local scripts or docker images''
       else if cap_object_store_pull c \<and> cap_uri_schemes c = [] then Failed ''object-store pull support requires URI schemes''
       else case cs_assert s of None \<Rightarrow> Passed | Some assert \<Rightarrow> verdict (assert c))"

definition job_test :: "subject \<Rightarrow> test_result" where
  "job_test s =
     (if \<not> sup_supported (ad_validate (cs_adapter s) (cs_valid_job s)) then Failed ''valid job rejected''
      else let report = ad_validate (cs_adapter s) (cs_invalid_job s) in
        if sup_supported report then Failed ''invalid job supported''
        else case sup_reasons report of [] \<Rightarrow> Failed ''invalid job rejection must include a reason''
          | reason # _ \<Rightarrow> if trim_space reason = [] then Failed ''invalid job rejection must include a reason'' else Passed)"

definition estimate_test :: "subject \<Rightarrow> test_result" where
  "estimate_test s = (case ad_estimate (cs_adapter s) (cs_valid_job s) of
     Inl e \<Rightarrow> Failed (''Estimate returned error: '' @ error_string e)
   | Inr c \<Rightarrow> if est_hourly_usd c < 0 then Failed ''negative estimate''
       else if est_currency c = [] then Failed ''estimate currency is required'' else Passed)"

text \<open>The reference of the last call of \<open>OnStarted\<close>, which always succeeds here.\<close>

fun refs :: "effect list \<Rightarrow> string list" where
  "refs [] = []"
| "refs (Ref r # es) = r # refs es"
| "refs (e # es) = refs es"

definition started_ref :: "submit_prog \<Rightarrow> string" where
  "started_ref p = (case refs (effects p (\<lambda>n. None) 0) of [] \<Rightarrow> [] | r # rs \<Rightarrow> last (r # rs))"

definition status_test :: "subject \<Rightarrow> string \<Rightarrow> test_result" where
  "status_test s ref = (case ad_status (cs_adapter s) ref of
     Inl e \<Rightarrow> Failed (''GetStatus returned error: '' @ error_string e)
   | Inr status \<Rightarrow> if js_state status = None then Failed ''unexpected status state'' else Passed)"

definition submit_test :: "subject \<Rightarrow> test_result" where
  "submit_test s =
     (let p = ad_submit (cs_adapter s) (cs_request s); startedRef = started_ref p in
      case ending p (\<lambda>n. None) 0 of
        (res, Some e) \<Rightarrow> Failed (''Submit returned error: '' @ error_string e)
      | (res, None) \<Rightarrow>
          if sr_exit_code res \<noteq> 0 then Failed (''Submit exit code = '' @ string_of_int (sr_exit_code res))
          else if sr_job_ref res = [] then Failed ''provider job ref is required''
          else if startedRef = [] then Failed ''Submit did not call OnStarted''
          else if startedRef \<noteq> sr_job_ref res
          then Failed (''started ref '' @ quote startedRef @ '' != result ref '' @ quote (sr_job_ref res))
          else if cs_ref_prefix s \<noteq> [] \<and> \<not> prefix (cs_ref_prefix s) (sr_job_ref res)
          then Failed (''provider ref '' @ quote (sr_job_ref res) @ '' does not start with '' @ quote (cs_ref_prefix s))
          else status_test s (sr_job_ref res))"

definition stream_test :: "subject \<Rightarrow> test_result" where
  "stream_test s = (case cs_stream_logs s of
     StreamLogsRequired \<Rightarrow> (case cs_logs s of
         (Some e, stream) \<Rightarrow> Failed (''StreamLogs returned error: '' @ error_string e)
       | (None, None) \<Rightarrow> Failed ''StreamLogs returned nil stream''
       | (None, Some (Some e)) \<Rightarrow> Failed (''Close returned error: '' @ error_string e)
       | (None, Some None) \<Rightarrow> Passed)
   | StreamLogsUnsupported \<Rightarrow> (case cs_logs s of
         (None, stream) \<Rightarrow> Failed ''expected StreamLogs unsupported error''
       | (Some e, Some stream) \<Rightarrow> Failed ''unsupported StreamLogs returned stream''
       | (Some e, None) \<Rightarrow> Passed)
   | StreamLogsSkip \<Rightarrow> Skipped
   | StreamLogsOther b \<Rightarrow> if b = [] then Skipped else Failed (''unknown StreamLogs behavior '' @ quote b))"

definition cancel_test :: "subject \<Rightarrow> test_result" where
  "cancel_test s = (case cs_cancel s of None \<Rightarrow> Skipped | Some cancel \<Rightarrow> verdict (cancel (cs_adapter s)))"

definition contract_run :: "subject \<Rightarrow> (string \<times> test_result) list" where
  "contract_run s =
     [(''identity'', identity_test s), (''auth'', auth_test s), (''capabilities'', capabilities_test s),
      (''validate job'', job_test s), (''estimate'', estimate_test s), (''submit and status'', submit_test s),
      (''stream logs'', stream_test s), (''cancel'', cancel_test s)]"

definition failures :: "subject \<Rightarrow> string list" where
  "failures s = map fst (filter (\<lambda>(name, r). case r of Failed m \<Rightarrow> True | _ \<Rightarrow> False) (contract_run s))"

section \<open>The subjects\<close>

definition mock_stream_logs :: stream_answer where
  "mock_stream_logs = (Some (ErrText ''mock provider logs are read from run artifacts''), None)"

definition local_stream_logs :: stream_answer where
  "local_stream_logs = (Some (ErrText ''local provider logs are read from run artifacts''), None)"

definition mock_subject :: "mock_config \<Rightarrow> mock_session \<Rightarrow> job_spec \<Rightarrow> job_spec \<Rightarrow> submit_request \<Rightarrow> subject" where
  "mock_subject c ses valid invalid req =
     \<lparr>cs_name = mk_name c, cs_adapter = mock_adapter c ses, cs_valid_job = valid, cs_invalid_job = invalid, cs_request = req,
      cs_ref_prefix = ''mock:'' @ mk_name c @ '':'', cs_stream_logs = StreamLogsUnsupported, cs_logs = mock_stream_logs,
      cs_cancel = Some (\<lambda>a. map_option error_string (ad_cancel a (''mock:'' @ mk_name c @ '':'' @ rq_attempt_id req))),
      cs_assert = Some (\<lambda>c. if \<not> cap_object_store_pull c \<or> cap_uri_schemes c = []
        then Some ''mock provider must report URI pull support'' else None)\<rparr>"

definition local_subject :: "local_session \<Rightarrow> job_spec \<Rightarrow> job_spec \<Rightarrow> submit_request \<Rightarrow> subject" where
  "local_subject ses valid invalid req =
     \<lparr>cs_name = provider_local, cs_adapter = local_adapter ses, cs_valid_job = valid, cs_invalid_job = invalid, cs_request = req,
      cs_ref_prefix = ''local:'', cs_stream_logs = StreamLogsUnsupported, cs_logs = local_stream_logs,
      cs_cancel = Some (\<lambda>a. if ad_cancel a ''not-local'' = None
        then Some ''expected invalid local ref cancellation to fail'' else None),
      cs_assert = Some (\<lambda>c. if \<not> cap_data_bundle c then Some ''local provider must report bundled data support'' else None)\<rparr>"

section \<open>The contract is met\<close>

lemma refs_quiet [effect_simps]:
  "refs (effects (log_text t p) ans n) = refs (effects p ans n)"
  "refs (effects (write_log t p) ans n) = refs (effects p ans n)"
  by (simp_all add: log_text_def write_log_def)

lemma refs_scripted: "refs (effects (foldr (scripted_event red req t) evs p) ans n) = refs (effects p ans n)"
  by (induction evs) (simp_all add: scripted_event_def Let_def effect_simps)

lemma consumed_lines:
  "refs (effects (consume_lines red req clock m ls p) ans n) = refs (effects p ans n)"
  "ending (consume_lines red req clock m ls p) ans n = ending p ans n"
  by (induction ls arbitrary: m) (simp_all add: Let_def effect_simps)

lemma started_mock:
  assumes "mn_open_logs ses = None" "mn_open_events ses = None"
  shows "started_ref (mock_submit c ses req) = ''mock:'' @ mk_name c @ '':'' @ rq_attempt_id req"
  using assms by (simp add: started_ref_def mock_submit_def Let_def effect_simps refs_scripted split: option.split)

lemma mock_completes:
  assumes "mn_open_logs ses = None" "mn_open_events ses = None" "failureError c = None"
  shows "ending (mock_submit c ses req) (\<lambda>n. None) 0 =
    (\<lparr>sr_job_ref = ''mock:'' @ mk_name c @ '':'' @ rq_attempt_id req, sr_exit_code = 0, sr_exit_reason = ''completed''\<rparr>, None)"
  using assms by (simp add: mock_submit_def Let_def effect_simps ending_scripted split: option.split)

lemma mock_meets:
  assumes "mn_open_logs ses = None" "mn_open_events ses = None" "failureError c = None" "mk_name c \<noteq> []" "0 \<le> mk_hourly_cost c"
    and "job_script valid \<noteq> []" "job_script invalid = []"
  shows "failures (mock_subject c ses valid invalid req) = []"
proof -
  let ?s = "mock_subject c ses valid invalid req"
  have reason: "trim_space ''script is required'' \<noteq> []" by code_simp
  have "identity_test ?s = Passed" "auth_test ?s = Passed" "estimate_test ?s = Passed" "stream_test ?s = Passed" "cancel_test ?s = Passed"
    using assms by (simp_all add: mock_subject_def mock_adapter_def identity_test_def auth_test_def estimate_test_def
        stream_test_def mock_stream_logs_def cancel_test_def verdict_def)
  moreover have "capabilities_test ?s = Passed"
    by (simp add: capabilities_test_def mock_subject_def mock_adapter_def mock_capabilities_def verdict_def)
  moreover have "job_test ?s = Passed"
    using assms(6,7) reason by (simp add: job_test_def mock_subject_def mock_adapter_def script_required_def Let_def)
  moreover have "submit_test ?s = Passed"
    using started_mock [OF assms(1,2), of c req] mock_completes [OF assms(1-3), of req]
    by (simp add: submit_test_def mock_subject_def mock_adapter_def status_test_def Let_def)
  ultimately show ?thesis by (simp add: failures_def contract_run_def)
qed

lemma local_meets:
  assumes "lo_stat ses (job_script valid)" and "list_all (\<lambda>input. di_mode input \<noteq> ModeUri) (job_data valid)"
    and "lo_open_logs ses = None" "lo_open_events ses = None" "lo_pipes ses = None" "lo_start ses = (\<lambda>c e d. Inr pid)" "lo_wait ses = WaitOk"
    and "job_script valid \<noteq> []" "job_script invalid = []"
  shows "failures (local_subject ses valid invalid req) = []"
proof -
  let ?s = "local_subject ses valid invalid req"
  have reason: "trim_space ''script is required'' \<noteq> []" by code_simp
  have "trim_prefix ''local:'' ''not-local'' = ''not-local''" "\<not> is_digit (CHR ''n'')" by code_simp+
  then have refused: "atoi (trim_prefix ''local:'' ''not-local'') = None" by (simp add: atoi_def Let_def)
  have "\<not> list_ex (\<lambda>input. di_mode input = ModeUri) (job_data valid)"
    using assms(2) by (simp add: list_all_iff list_ex_iff)
  then have "job_test ?s = Passed"
    using assms(1,8,9) reason by (simp add: job_test_def local_subject_def local_adapter_def local_validate_def Let_def)
  moreover have "identity_test ?s = Passed" "auth_test ?s = Passed" "estimate_test ?s = Passed" "stream_test ?s = Passed"
    by (simp_all add: local_subject_def local_adapter_def identity_test_def auth_test_def estimate_test_def
        stream_test_def local_stream_logs_def provider_local_def)
  moreover have "cancel_test ?s = Passed"
    by (simp add: cancel_test_def local_subject_def local_adapter_def local_cancel_def refused verdict_def)
  moreover have "capabilities_test ?s = Passed"
    by (simp add: capabilities_test_def local_subject_def local_adapter_def empty_capabilities_def verdict_def)
  moreover have "started_ref (local_submit ses req) = ''local:'' @ string_of_int pid"
    "ending (local_submit ses req) (\<lambda>n. None) 0 =
      (\<lparr>sr_job_ref = ''local:'' @ string_of_int pid, sr_exit_code = 0, sr_exit_reason = ''completed''\<rparr>, None)"
    using assms(3-7) by (simp_all add: local_submit_def started_ref_def Let_def effect_simps consumed_lines)
  then have "submit_test ?s = Passed"
    by (simp add: submit_test_def local_subject_def local_adapter_def status_test_def Let_def)
  ultimately show ?thesis by (simp add: failures_def contract_run_def)
qed


section \<open>Witness\<close>

definition contract_job :: job_spec where
  "contract_job = \<lparr>job_name = ''train'', job_script = ''train.py'', job_image = [], job_command = [], job_args = [], job_env = [],
     job_data = [], job_work_dir = []\<rparr>"

definition contract_request :: submit_request where
  "contract_request = \<lparr>rq_job = contract_job, rq_run_id = ''r_contract'', rq_attempt_id = ''a_contract'', rq_resume = None,
     rq_hardware = None, rq_env = [], rq_run_dir = ''/home/runs/r_contract''\<rparr>"

definition contract_process :: local_session where
  "contract_process = \<lparr>lo_environ = [], lo_windows = False, lo_stat = (\<lambda>p. True), lo_open_logs = None, lo_open_events = None,
     lo_pipes = None, lo_start = (\<lambda>c e d. Inr 7), lo_stdout = \<lparr>ps_text = ''ok'', ps_error = None\<rparr>,
     lo_stderr = \<lparr>ps_text = [], ps_error = None\<rparr>, lo_turns = [], lo_now = (\<lambda>n. zero_time), lo_wait = WaitOk,
     lo_signal = (\<lambda>pid. SignalSent)\<rparr>"


end
