(* ===== verification/Announce.thy ===== *)
theory Announce
  imports Wiring Contract
begin

text \<open>
  The reference of a job, which the run loop stores to cancel the job and to clean up after it: every
  provider that can be registered announces it once, by \<open>OnStarted\<close>, and returns the same one.
\<close>

section \<open>Announcing\<close>

text \<open>From here on no reference is announced, and an end without an error has the one that was.\<close>

primrec finishes :: "string \<Rightarrow> submit_prog \<Rightarrow> bool" where
  "finishes ref (Done r e) \<longleftrightarrow> e \<noteq> None \<or> sr_job_ref r = ref"
| "finishes ref (Started ref' k) \<longleftrightarrow> False"
| "finishes ref (ResourceSaved r k) \<longleftrightarrow> (\<forall>a. finishes ref (k a))"
| "finishes ref (EventWritten ev p) \<longleftrightarrow> finishes ref p"
| "finishes ref (Act a p) \<longleftrightarrow> finishes ref p"
| "finishes ref (Meanwhile p) \<longleftrightarrow> finishes ref p"

text \<open>No end without an error before a reference was announced.\<close>

primrec announces :: "submit_prog \<Rightarrow> bool" where
  "announces (Done r e) \<longleftrightarrow> e \<noteq> None"
| "announces (Started ref k) \<longleftrightarrow> ref \<noteq> [] \<and> (\<forall>a. finishes ref (k a))"
| "announces (ResourceSaved r k) \<longleftrightarrow> (\<forall>a. announces (k a))"
| "announces (EventWritten ev p) \<longleftrightarrow> announces p"
| "announces (Act a p) \<longleftrightarrow> announces p"
| "announces (Meanwhile p) \<longleftrightarrow> announces p"

lemma finishes_ending:
  "finishes ref p \<Longrightarrow> refs (effects p ans n) = [] \<and> (snd (ending p ans n) \<noteq> None \<or> sr_job_ref (fst (ending p ans n)) = ref)"
  by (induction p arbitrary: n) auto

lemma announces_ending:
  "announces p \<Longrightarrow> ending p ans n = (res, None) \<Longrightarrow> refs (effects p ans n) = [sr_job_ref res] \<and> sr_job_ref res \<noteq> []"
proof (induction p arbitrary: n)
  case (Started ref k)
  then have "finishes ref (k (ans n))" by simp
  from finishes_ending [OF this, of ans "Suc n"] Started.prems show ?case by auto
qed auto

section \<open>The parts of a submission\<close>

named_theorems announced

lemma announced_logs [announced]:
  "finishes ref (log_text s p) = finishes ref p" "finishes ref (write_log s p) = finishes ref p"
  "announces (log_text s p) = announces p" "announces (write_log s p) = announces p"
  by (simp_all add: log_text_def write_log_def)

lemma announced_emit [announced]:
  "finishes ref (emit evs p) = finishes ref p" "announces (emit evs p) = announces p"
  by (induction evs) (simp_all add: emit_def)

lemma announced_acts [announced]: "announces (foldr (\<lambda>i. Act (f i)) is p) = announces p"
  by (induction "is") simp_all

lemma announced_scripted [announced]: "finishes ref (foldr (scripted_event red req t) evs p) = finishes ref p"
  by (induction evs) (simp_all add: scripted_event_def Let_def announced)

lemma announced_lines [announced]: "finishes ref (consume_lines red req clock m ls p) = finishes ref p"
  by (induction ls arbitrary: m) (simp_all add: Let_def announced)

lemma mock_announces: "announces (mock_submit c ses req)"
  by (simp add: mock_submit_def Let_def announced split: option.split)

lemma local_announces: "announces (local_submit ses req)"
proof -
  have "sr_job_ref (local_result red ref r) = ref" for red ref r by (cases r) simp_all
  then show ?thesis by (simp add: local_submit_def Let_def announced split: option.split sum.split)
qed

section \<open>Lambda\<close>

lemma wait_active_finishes:
  assumes "\<And>x. finishes ref (k x)"
  shows "finishes ref (waitForActive red sleepErr first later k)"
proof (induction later arbitrary: first)
  case Nil
  show ?case using assms by (cases first) (simp_all add: announced)
next
  case (Cons next_one later)
  then show ?case using assms by (cases first) (simp_all add: announced)
qed

lemma monitor_finishes:
  assumes "\<And>x. finishes ref (k x)"
  shows "finishes ref (monitorRemote red req sleepErr st later po k)"
proof (induction later arbitrary: st po)
  case Nil
  show ?case using assms by (subst monitorRemote.simps) (simp add: announced split: prod.split option.split sum.split)
next
  case (Cons next_po later)
  then show ?case using assms by (subst monitorRemote.simps) (simp add: announced split: prod.split option.split sum.split)
qed

lemma terminate_finishes [announced]: "finishes ref (terminate ses i k) = finishes ref (k (ls_terminate ses i))"
  by (simp add: terminate_def split: option.split)

lemma failed_finishes [announced]: "finishes ref (failed_with r code reason e)" "announces (failed_with r code reason e)"
  by (simp_all add: failed_with_def)

lemma lambda_failure_finishes [announced]: "finishes ref (failureResult c ses req red i e)"
  by (simp add: failureResult_def Let_def announced split: option.split)

lemma lambda_finish_finishes [announced]: "finishes (lambda_ref i) (finish_submit c ses req red i code reason)"
  by (simp add: finish_submit_def Let_def announced split: option.split)

lemma lambda_run_finishes: "finishes (lambda_ref i) (run_on_instance c ses req red i inst)"
  by (simp add: run_on_instance_def announced split: option.split)
    (intro allI impI monitor_finishes, simp add: announced split: sum.split)

lemma lambda_launched_announces: "announces (launched c ses req red i)"
proof -
  let ?k = "\<lambda>r. case r of Inl e \<Rightarrow> failureResult c ses req red i e | Inr inst \<Rightarrow> run_on_instance c ses req red i inst"
  have "finishes (lambda_ref i) (?k r)" for r by (cases r) (simp_all add: announced lambda_run_finishes)
  then have "finishes (lambda_ref i) (waitForActive red (ls_wait_sleep ses) (ls_wait ses) (ls_wait_more ses) ?k)"
    by (rule wait_active_finishes)
  moreover have "lambda_ref i \<noteq> []" by (simp add: lambda_ref_def)
  ultimately show ?thesis
    by (simp add: launched_def announced terminate_def split: option.split)
qed

lemma lambda_announces: "announces (lambda_submit c ses req)"
  by (simp add: lambda_submit_def Let_def announced lambda_launched_announces split: option.split sum.split list.split)

section \<open>Google and the clouds of China\<close>


lemma cancel_job_finishes [announced]:
  "finishes ref (cancel_job ses r p) = finishes ref p" "announces (cancel_job ses r p) = announces p"
  by (simp_all add: cancel_job_def split: option.split)

lemma settle_finishes [announced]: "finishes ref (settle c ses req ref state r e) \<longleftrightarrow> e \<noteq> None \<or> sr_job_ref r = ref"
  by (auto simp: settle_def split: option.split)

lemma gcp_follow_finishes: "finishes ref (gcp_follow c ses req red ref seen later po)"
proof (induction later arbitrary: seen po)
  case Nil
  show ?case
    by (subst gcp_follow.simps) (simp add: announced succeeded_job_def failed_job_def cancelled_job_def gcp_result_def Let_def
        split: prod.split sum.split job_state.split)
next
  case (Cons next_po later)
  then show ?case
    by (subst gcp_follow.simps) (simp add: announced succeeded_job_def failed_job_def cancelled_job_def gcp_result_def Let_def
        split: prod.split sum.split job_state.split)
qed

lemma gcp_announces: "announces (gcp_submit known c ses req)"
proof -
  have "job_ref c req name \<noteq> []" for name by (simp add: job_ref_def)
  then show ?thesis
    by (simp add: gcp_submit_def gcp_started_def Let_def announced gcp_follow_finishes split: option.split sum.split)
qed

lemma wait_running_finishes:
  assumes "\<And>x. finishes ref (k x)"
  shows "finishes ref (waitForRunning def red sleepErr first later k)"
proof (induction later arbitrary: first)
  case Nil
  show ?case using assms by (cases first) (simp_all add: announced split: option.split)
next
  case (Cons next_one later)
  then show ?case using assms by (cases first) (simp_all add: announced split: option.split)
qed

lemma vm_monitor_finishes:
  assumes "\<And>x. finishes ref (k x)"
  shows "finishes ref (vm_monitor def red req sleepErr st later po k)"
proof (induction later arbitrary: st po)
  case Nil
  show ?case using assms by (subst vm_monitor.simps) (simp add: announced split: prod.split option.split sum.split)
next
  case (Cons next_po later)
  then show ?case using assms by (subst vm_monitor.simps) (simp add: announced split: prod.split option.split sum.split)
qed

lemma vm_ends [announced]:
  "finishes ref (terminate_vm ses i k) = finishes ref (k (vs_terminate ses i))"
  "finishes ref (vm_failed_with r code reason e)" "announces (vm_failed_with r code reason e)"
  by (simp_all add: terminate_vm_def vm_failed_with_def split: option.split)

lemma vm_failure_finishes [announced]: "finishes ref (vm_failure c def ses req red i e)"
  by (simp add: vm_failure_def Let_def announced split: option.split)

lemma vm_finish_finishes [announced]: "finishes (vmProviderRef (cd_name def) i) (vm_finish c def ses req red i inst code reason)"
  by (simp add: vm_finish_def Let_def announced split: option.split)

lemma vm_run_finishes [announced]: "finishes (vmProviderRef (cd_name def) i) (vm_run_on c def ses req red i inst)"
  by (simp add: vm_run_on_def Let_def announced split: option.split)
    (intro allI impI vm_monitor_finishes, simp add: announced split: sum.split)

lemma vm_created_announces: "announces (vm_created c def ses req red inst)"
proof -
  let ?k = "\<lambda>r. case r of Inl e \<Rightarrow> vm_failure c def ses req red (vi_id inst) e
    | Inr active \<Rightarrow> vm_run_on c def ses req red (vi_id inst) active"
  have "finishes (vmProviderRef (cd_name def) (vi_id inst)) (?k r)" for r by (cases r) (simp_all add: announced)
  then have "finishes (vmProviderRef (cd_name def) (vi_id inst))
      (waitForRunning def red (vs_wait_sleep ses) (vs_wait ses) (vs_wait_more ses) ?k)"
    by (rule wait_running_finishes)
  moreover have "vmProviderRef (cd_name def) (vi_id inst) \<noteq> []" by (simp add: vmProviderRef_def)
  ultimately show ?thesis
    by (simp add: vm_created_def Let_def announced terminate_vm_def split: option.split)
qed

lemma china_announces: "announces (china_submit c def ses req)"
  by (simp add: china_submit_def vm_submit_def Let_def announced vm_created_announces split: option.split sum.split)

section \<open>Every provider\<close>

lemma adapters_announce:
  assumes "wi_gcp_factory wi = None" and "wi_lambda_factory wi = None"
    and "a \<in> set (provider_adapters wi mock gcp lambda china includeGCP includeLambda)"
  shows "announces (ad_submit a req)"
proof -
  have "announces (ad_submit (china_cloud_adapter wi china def) req)" for def
    by (simp add: china_cloud_adapter_def NewVMProvider_def readiness_adapter_def china_adapter_def china_announces Let_def)
  moreover have "announces (ad_submit (mock_adapter c ses) req)" for c ses by (simp add: mock_adapter_def mock_announces)
  moreover have "announces (ad_submit (local_adapter ses) req)" for ses by (simp add: local_adapter_def local_announces)
  moreover have "announces (ad_submit (gcp_provider wi gcp) req)"
    using assms(1) by (simp add: gcp_provider_def gcp_adapter_def gcp_announces Let_def)
  moreover have "announces (ad_submit (lambda_provider wi lambda) req)"
    using assms(2) by (simp add: lambda_provider_def lambda_adapter_def lambda_announces Let_def)
  ultimately show ?thesis
    using assms(3) by (auto simp: provider_adapters_def chinaCloudAdapters_def split: if_splits)
qed

text \<open>C16. Whatever a configuration registers, and however services, machines and callbacks behave: when \<open>Submit\<close>
  returns without an error, the provider has announced exactly one reference of the job, not an empty one,
  and it is the one that is returned.\<close>

theorem reference_announced_once:
  assumes "wi_gcp_factory wi = None" and "wi_lambda_factory wi = None"
    and "a \<in> set (provider_adapters wi mock gcp lambda china includeGCP includeLambda)"
    and "ending (ad_submit a req) answers n = (res, None)"
  shows "refs (effects (ad_submit a req) answers n) = [sr_job_ref res] \<and> sr_job_ref res \<noteq> []"
  by (rule announces_ending [OF adapters_announce [OF assms(1-3)] assms(4)])

section \<open>Witness\<close>

lemma one_text: "string_of_int 1 = ''1''"
  by code_simp

lemma reference_announced_once_witness:
  "refs (effects (local_submit (wi_local sample_wiring) contract_request) (\<lambda>n. None) 0) = [''local:1'']"
proof -
  let ?a = "local_adapter (wi_local sample_wiring)"
  have "?a \<in> set (provider_adapters sample_wiring [] gcp lambda china True True)" for gcp lambda china
    by (simp add: provider_adapters_def)
  moreover have "ending (ad_submit ?a contract_request) (\<lambda>n. None) 0 =
      (\<lparr>sr_job_ref = ''local:1'', sr_exit_code = 0, sr_exit_reason = ''completed''\<rparr>, None)"
    by (simp add: local_adapter_def local_submit_def sample_wiring_def Let_def effect_simps consumed_lines one_text)
  ultimately have "refs (effects (ad_submit ?a contract_request) (\<lambda>n. None) 0) = [''local:1'']"
    using reference_announced_once [of sample_wiring ?a "[]" "cf_gcp zero_file" "cf_lambda zero_file" "cf_china zero_file" True True]
    by (simp add: sample_wiring_def)
  then show ?thesis by (simp add: local_adapter_def)
qed

end
