(* ===== verification/EndToEnd.thy ===== *)
theory EndToEnd
  imports Providers Lambda ChinaVm
begin

text \<open>
  The run loop together with the providers: what a run on Lambda returns and what its database says of
  the instance, and a run on the mock provider. No new operation of the program is modelled here.
\<close>

section \<open>What the database says of a resource\<close>

definition row_shows :: "redactor \<Rightarrow> provider_resource \<Rightarrow> resource_row \<Rightarrow> bool" where
  "row_shows red r row \<longleftrightarrow> sr_external_id row = redact_string red (res_external_id r)
     \<and> sr_state row = res_state r \<and> sr_provider row = res_provider r \<and> sr_run_id row = res_run_id r"

lemma upsert_row: "\<exists>row \<in> set (tbl_upsert sr_id resource_merge (resource_row_of r) rows). row_shows red r0 row"
  if "row_shows red r0 (resource_row_of r)"
proof -
  let ?k = "res_id r"
  have key: "sr_id (resource_row_of r) = ?k" by (simp add: resource_row_of_def)
  have "\<exists>row. tbl_find sr_id ?k (tbl_upsert sr_id resource_merge (resource_row_of r) rows) = Some row \<and> row_shows red r0 row"
    using that by (auto simp: resources.find_upsert key resource_merge_def row_shows_def split: option.split)
  then show ?thesis by (metis find_Some_iff nth_mem tbl_find_def)
qed

lemma persist_row:
  assumes "calm w" and "persistProviderResource red r ids w = (w', ids', err)"
  shows "\<exists>row \<in> set (st_resources (w_store w')). row_shows red r row"
proof -
  have h: "healthy (w_store (tick w))" using assms(1) by (simp add: calm_def tick_def)
  have shows_row: "row_shows red r (resource_row_of (resource_defaults a b (x\<lparr>res_id := i\<rparr>)))"
    "row_shows red r (resource_row_of (resource_defaults a b x))"
    if "x = redactProviderResource r red" for a b x i
    using that by (simp_all add: row_shows_def resource_row_of_def resource_defaults_def Let_def redactProviderResource_def)
  show ?thesis
    using assms(2) upsert_row [OF shows_row(1)] upsert_row [OF shows_row(2)] h
    by (auto simp: persistProviderResource_def Let_def on_store_def save_resource_healthy split: if_splits)
qed

lemma run_submit_last_row:
  "calm w \<Longrightarrow> run_submit runID i red p ids w = (w', res, err) \<Longrightarrow>
    (recorded (effects p (\<lambda>n. None) n) = [] \<longrightarrow> st_resources (w_store w') = st_resources (w_store w))
    \<and> (recorded (effects p (\<lambda>n. None) n) \<noteq> [] \<longrightarrow>
        (\<exists>row \<in> set (st_resources (w_store w')). row_shows red (last (recorded (effects p (\<lambda>n. None) n))) row))"
proof (induction p arbitrary: ids w n)
  case (Done r e)
  then show ?case by simp
next
  case (Started ref c)
  obtain w1 e where w1: "on_store (UpdateAttemptProviderRef i (redact_string red ref)) w = (w1, e)" by fastforce
  from ref_calm [OF Started.prems(1) w1, of runID] have e: "e = None" "calm w1" by (auto simp: calm_step_def)
  have same: "st_resources (w_store w1) = st_resources (w_store w)"
    using on_store_fst(1) [of "UpdateAttemptProviderRef i (redact_string red ref)" w] w1
    by (simp add: UpdateAttemptProviderRef_def frame_simps)
  from Started.prems(2) w1 e have "run_submit runID i red (c None) ids w1 = (w', res, err)" by simp
  from Started.IH [OF _ e(2) this, of "Suc n"] same show ?case by auto
next
  case (ResourceSaved r c)
  obtain w1 ids1 e where w1: "persistProviderResource red r ids w = (w1, ids1, e)" by (metis prod_cases3)
  from persist_calm [OF ResourceSaved.prems(1) w1, of runID] have e: "e = None" "calm w1" by (auto simp: calm_step_def)
  from ResourceSaved.prems(2) w1 e have "run_submit runID i red (c None) ids1 w1 = (w', res, err)" by simp
  from ResourceSaved.IH [OF _ e(2) this, of "Suc n"] persist_row [OF ResourceSaved.prems(1) w1] show ?case by auto
next
  case (EventWritten ev p)
  from EventWritten.prems(2) obtain evs where "run_submit runID i red p ids (w\<lparr>w_events := Some evs\<rparr>) = (w', res, err)"
    by simp
  from EventWritten.IH [OF _ this, of n] calm_same(3) [OF EventWritten.prems(1)] show ?case by simp
next
  case (Act a p)
  have "recorded (Did a # es) = recorded es" for es by (cases a) simp_all
  with Act.IH [OF Act.prems(1), of ids n] Act.prems(2) show ?case by simp
next
  case (Meanwhile p)
  from Meanwhile.IH [OF calm_same(1) [OF Meanwhile.prems(1)], of ids n] Meanwhile.prems show ?case
    by (simp add: calm_meddle tick_def)
qed

section \<open>Lambda in a run\<close>

text \<open>C8. After a run has submitted to Lambda, with a working database and nobody cancelling, each instance
  that was launched has a row in \<open>provider_resources\<close> under its identifier, as redacted, and the row
  says terminating exactly when the service accepted the termination of the instance.\<close>

theorem lambda_instance_is_tracked:
  assumes "calm w" and "\<And>req ids. ls_launch ses req = Inr ids \<Longrightarrow> length ids \<le> 1"
  shows "case run_submit runID attemptID red (lambda_submit c ses req) ids w of (w', res, err) \<Rightarrow>
    list_all (\<lambda>i. list_ex (\<lambda>row. sr_external_id row = redact_string red i
        \<and> (sr_state row = ResTerminating \<longleftrightarrow> i \<in> set (released (effects (lambda_submit c ses req) (\<lambda>n. None) 0))))
      (st_resources (w_store w')))
    (acquired (effects (lambda_submit c ses req) (\<lambda>n. None) 0))"
proof -
  let ?es = "effects (lambda_submit c ses req) (\<lambda>n. None) 0"
  obtain w' res err where r: "run_submit runID attemptID red (lambda_submit c ses req) ids w = (w', res, err)"
    by (metis prod_cases3)
  note row = run_submit_last_row [OF assms(1) r, of 0]
  consider "acquired ?es = []" | i where "acquired ?es = [i]"
    "settled (lm_terminate c) (lm_keep_on_failure c) i (recorded ?es) (released ?es)"
    using lambda_settled [of ses c req, unfolded Let_def] assms(2) by blast
  then show ?thesis
    unfolding r prod.case using row
    by cases (auto simp: settled_def row_shows_def list_ex_iff split: if_splits)
qed
section \<open>The exit code of a run\<close>

text \<open>The exit code of a run on a fixed remote provider is the exit code that the provider's \<open>Submit\<close>
  returns, and the run is recorded with it, as succeeded exactly for 0, when the database works,
  nobody cancels the run, the provider accepts and prices the job, and \<open>Submit\<close> returns no error.\<close>

theorem run_exit_code_is_submits:
  assumes "calm w" and "ids_unused w"
    and "run_row (rx_run_id (lc_run lc)) w = Some row" and "rr_state row = RunRunning"
    and "rs_provider (lc_resolved lc) = p" and "p \<notin> set [provider_auto, provider_local]"
    and "registry_get (lc_registry lc) p = Inr adapter"
    and "sup_supported (ad_validate adapter (lc_job lc))" and "ad_estimate adapter (lc_job lc) = Inr est"
    and "ending (ad_submit adapter (first_request lc p (fresh w))) (\<lambda>n. None) 0 = (res, None)"
  shows "fst (snd (runAttempts lc None w)) = sr_exit_code res \<and> snd (snd (runAttempts lc None w)) = None
    \<and> (case run_row (rx_run_id (lc_run lc)) (fst (runAttempts lc None w)) of
         None \<Rightarrow> False | Some row' \<Rightarrow> outcome_row (sr_exit_code res) row')"
  by (rule run_exit_code [OF assms])

text \<open>A turn of the monitor that goes on: no exit marker yet, and the instance is well.\<close>

definition goes_on :: "lambda_poll \<Rightarrow> bool" where
  "goes_on po \<longleftrightarrow> exit_marker po = None \<and> (case po_instance po of Inl e \<Rightarrow> False | Inr i \<Rightarrow> status_error (li_status i) = None)"

lemma ending_monitor:
  assumes "list_all goes_on turns" and "exit_marker po = Some content"
  shows "ending (monitorRemote red req sleepErr st (tl (turns @ po # later)) (hd (turns @ po # later)) k) ans n
    = ending (k (marker_result po content)) ans n"
  using assms(1)
proof (induction turns arbitrary: st)
  case Nil
  with assms(2) show ?case by (subst monitor_eq) (simp add: effect_simps split: prod.split)
next
  case (Cons t turns)
  obtain st' body evs where take: "take_over red req t st = (st', body, evs)" by (metis prod_cases3)
  obtain nxt rest where more: "turns @ po # later = nxt # rest" by (cases "turns @ po # later") auto
  from Cons.prems take more Cons.IH [of st'] show ?case
    by (subst monitor_eq) (auto simp: goes_on_def effect_simps split: sum.splits)
qed

text \<open>A turn of the wait for the instance that goes on.\<close>

lemma ending_wait:
  assumes "list_all (\<lambda>r. case r of Inl e \<Rightarrow> False | Inr i \<Rightarrow> li_status i = ''booting'') turns"
    and "li_status inst = ''active''" and "li_ip inst \<noteq> []"
  shows "ending (waitForActive red sleepErr (hd (turns @ [Inr inst])) (tl (turns @ [Inr inst])) k) ans n = ending (k (Inr inst)) ans n"
  using assms(1)
proof (induction turns)
  case Nil
  with assms(2,3) show ?case by (simp add: effect_simps)
next
  case (Cons t turns)
  obtain nxt rest where "turns @ [Inr inst] = nxt # rest" by (cases "turns @ [Inr inst]") auto
  with Cons show ?case by (cases t) (auto simp: effect_simps)
qed

lemma ending_finish:
  "ending (finish_submit c ses req red i code reason) (\<lambda>n. None) n
    = (\<lparr>sr_job_ref = lambda_ref i, sr_exit_code = code, sr_exit_reason = redact_string red reason\<rparr>, None)"
  by (simp add: finish_submit_def Let_def effect_simps split: option.split)

text \<open>What a session shows when the instance comes up and the container exits with \<open>code\<close>.\<close>

definition exits_with :: "lambda_config \<Rightarrow> lambda_session \<Rightarrow> submit_request \<Rightarrow> int \<Rightarrow> bool" where
  "exits_with c ses req code \<longleftrightarrow> ls_open_logs ses = None \<and> ls_open_events ses = None \<and> ls_client ses = None
     \<and> ls_ready ses = None \<and> (case ls_launch ses (launchRequest c req) of Inl e \<Rightarrow> False | Inr ids \<Rightarrow> length ids = 1)
     \<and> (let waits = ls_wait ses # ls_wait_more ses in
          list_all (\<lambda>r. case r of Inl e \<Rightarrow> False | Inr i \<Rightarrow> li_status i = ''booting'') (butlast waits)
          \<and> (case last waits of Inl e \<Rightarrow> False | Inr i \<Rightarrow> li_status i = ''active'' \<and> li_ip i \<noteq> []))
     \<and> (let polls = ls_poll ses # ls_poll_more ses in
          list_all goes_on (butlast polls)
          \<and> (case exit_marker (last polls) of None \<Rightarrow> False
             | Some content \<Rightarrow> (case parseExit content of None \<Rightarrow> False | Some (n, reason) \<Rightarrow> n = code)))"

lemma ending_lambda:
  assumes "exits_with c ses req code"
  shows "\<exists>res. ending (lambda_submit c ses req) (\<lambda>n. None) 0 = (res, None) \<and> sr_exit_code res = code"
proof -
  let ?waits = "ls_wait ses # ls_wait_more ses" and ?polls = "ls_poll ses # ls_poll_more ses"
  let ?red = "lambda_redactor c ses req"
  obtain i where launch: "ls_launch ses (launchRequest c req) = Inr [i]"
    using assms by (auto simp: exits_with_def length_Suc_conv split: sum.splits)
  obtain inst where inst: "last ?waits = Inr inst" "li_status inst = ''active''" "li_ip inst \<noteq> []"
    using assms by (auto simp: exits_with_def Let_def split: sum.splits simp del: last.simps)
  obtain content reason where marker: "exit_marker (last ?polls) = Some content" "parseExit content = Some (code, reason)"
    using assms by (auto simp: exits_with_def Let_def split: option.splits simp del: last.simps)
  have w: "?waits = butlast ?waits @ [Inr inst]" using inst(1) append_butlast_last_id [of ?waits] by (metis list.distinct(1))
  have p: "?polls = butlast ?polls @ last ?polls # []" using append_butlast_last_id [of ?polls] by simp
  have waits: "ending (waitForActive red e (ls_wait ses) (ls_wait_more ses) k) ans n = ending (k (Inr inst)) ans n" for red e k ans n
    using ending_wait [of "butlast ?waits" inst red e k ans n] assms inst w
    by (simp only: exits_with_def Let_def list.sel w [symmetric]) simp
  have polls: "ending (monitorRemote red r e st (ls_poll_more ses) (ls_poll ses) k) ans n
      = ending (k (Inr (code, reason))) ans n" for red r e st k ans n
    using ending_monitor [of "butlast ?polls" "last ?polls" content red r e st "[]" k ans n] assms marker
    by (simp only: exits_with_def Let_def list.sel p [symmetric]) (simp add: marker_result_def)
  have "ending (run_on_instance c ses req ?red i inst) (\<lambda>n. None) n
      = ending (finish_submit c ses req ?red i code reason) (\<lambda>n. None) (Suc n)" for n
    using assms by (simp add: run_on_instance_def polls exits_with_def)
  then have "ending (launched c ses req ?red i) (\<lambda>n. None) 0
      = (\<lparr>sr_job_ref = lambda_ref i, sr_exit_code = code, sr_exit_reason = redact_string ?red reason\<rparr>, None)"
    by (simp add: launched_def effect_simps waits ending_finish)
  then show ?thesis using launch assms by (simp add: lambda_submit_def Let_def exits_with_def effect_simps)
qed

text \<open>C6. A run on Lambda returns the exit code that the container's marker says, and is recorded as succeeded
  exactly for 0: when the database works and nobody cancels, the service launches an instance that
  boots and stays up until the marker appears, and its messages come after any number of turns.\<close>

theorem lambda_run_exit_code:
  assumes "calm w" and "ids_unused w"
    and "run_row (rx_run_id (lc_run lc)) w = Some row" and "rr_state row = RunRunning"
    and "rs_provider (lc_resolved lc) = ''lambda''"
    and "registry_get (lc_registry lc) ''lambda'' = Inr (lambda_adapter config ses)"
    and "sup_supported (lambda_validate (withDefaults config) (lc_job lc))"
    and "exits_with (withDefaults config) ses (first_request lc ''lambda'' (fresh w)) code"
  shows "fst (snd (runAttempts lc None w)) = code \<and> snd (snd (runAttempts lc None w)) = None
    \<and> (case run_row (rx_run_id (lc_run lc)) (fst (runAttempts lc None w)) of
         None \<Rightarrow> False | Some row' \<Rightarrow> outcome_row code row')"
proof -
  obtain res where "ending (lambda_submit (withDefaults config) ses (first_request lc ''lambda'' (fresh w))) (\<lambda>n. None) 0 = (res, None)"
    "sr_exit_code res = code"
    using ending_lambda [OF assms(8)] by blast
  then show ?thesis
    using run_exit_code [OF assms(1-5) _ assms(6)] assms(7)
    by (auto simp: lambda_adapter_def Let_def provider_auto_def provider_local_def)
qed

text \<open>A run on a mock provider without a failure mode succeeds with exit code 0.\<close>

theorem mock_run_succeeds:
  assumes "calm w" and "ids_unused w"
    and "run_row (rx_run_id (lc_run lc)) w = Some row" and "rr_state row = RunRunning"
    and "rs_provider (lc_resolved lc) = mk_name c" and "mk_name c \<notin> set [provider_auto, provider_local]"
    and "registry_get (lc_registry lc) (mk_name c) = Inr (mock_adapter c ses)"
    and "job_script (lc_job lc) \<noteq> []" and "failureError c = None"
    and "mn_open_logs ses = None" and "mn_open_events ses = None"
  shows "fst (snd (runAttempts lc None w)) = 0 \<and> snd (snd (runAttempts lc None w)) = None
    \<and> (case run_row (rx_run_id (lc_run lc)) (fst (runAttempts lc None w)) of
         None \<Rightarrow> False | Some row' \<Rightarrow> rr_state row' = RunSucceeded)"
proof -
  have "ending (ad_submit (mock_adapter c ses) (first_request lc (mk_name c) (fresh w))) (\<lambda>n. None) 0
    = (\<lparr>sr_job_ref = ''mock:'' @ mk_name c @ '':'' @ fresh w, sr_exit_code = 0, sr_exit_reason = ''completed''\<rparr>, None)"
    using ending_mock [OF assms(9-11)] by (simp add: mock_adapter_def first_request_def)
  from run_exit_code [OF assms(1-7) _ _ this] assms(8) show ?thesis
    by (auto simp: mock_adapter_def script_required_def outcome_row_def split: option.splits)
qed
section \<open>Concrete runs\<close>

lemma sample_world_calm: "calm sample_world"
proof -
  have "healthy (fst (CreateRun sample_run empty_store))"
    by (rule healthy_fault [of empty_store]) (simp_all add: frame_simps healthy_def empty_store_def)
  then show ?thesis by (simp add: calm_def sample_world_def)
qed

lemma sample_world_row: "run_row ''r_1'' sample_world = Some (run_row_of sample_run)"
  by (simp add: run_row_def sample_world_def CreateRun_def exec_def empty_store_def tbl_insert_def tbl_find_def
      run_row_of_def sample_run_def)

lemma lambda_instance_is_tracked_witness:
  "case run_submit ''r_1'' ''a_1'' \<lparr>rd_values = []\<rparr> (lambda_submit sample_config sample_session sample_request) [] sample_world
   of (w', res, err) \<Rightarrow>
    list_all (\<lambda>i. list_ex (\<lambda>row. sr_external_id row = redact_string \<lparr>rd_values = []\<rparr> i
        \<and> (sr_state row = ResTerminating \<longleftrightarrow>
            i \<in> set (released (effects (lambda_submit sample_config sample_session sample_request) (\<lambda>n. None) 0))))
      (st_resources (w_store w')))
    (acquired (effects (lambda_submit sample_config sample_session sample_request) (\<lambda>n. None) 0))"
  using lambda_instance_is_tracked [of sample_world sample_session] sample_world_calm
  by (simp add: sample_session_def)

definition lambda_loop :: loop_ctx where
  "lambda_loop = sample_loop\<lparr>lc_resolved := sample_resolved\<lparr>rs_provider := ''lambda''\<rparr>,
     lc_registry := registry_of [lambda_adapter sample_config sample_session],
     lc_job := sample_job\<lparr>job_data := []\<rparr>\<rparr>"

lemma sample_exits: "exits_with (withDefaults sample_config) sample_session req 0"
proof -
  have "parseExit ''{\"exit_code\":0}'' = Some (0, ''completed'')" by code_simp
  moreover have "trim_space ''{\"exit_code\":0}'' \<noteq> []" by code_simp
  ultimately show ?thesis
    by (simp add: exits_with_def sample_session_def sample_poll_def goes_on_def exit_marker_def status_error_def)
qed

lemma lambda_run_exit_code_witness:
  "fst (snd (runAttempts lambda_loop None sample_world)) = 0
   \<and> (case run_row ''r_1'' (fst (runAttempts lambda_loop None sample_world)) of
        None \<Rightarrow> False | Some row' \<Rightarrow> outcome_row 0 row')"
proof -
  have "sup_supported (lambda_validate (withDefaults sample_config) (lc_job lambda_loop))" by code_simp
  moreover have "registry_get (lc_registry lambda_loop) ''lambda'' = Inr (lambda_adapter sample_config sample_session)"
    by (simp add: lambda_loop_def registry_of_def registry_get_def new_registry_def lambda_adapter_def Let_def)
  moreover have "rs_provider (lc_resolved lambda_loop) = ''lambda''" "rx_run_id (lc_run lambda_loop) = ''r_1''"
    by (simp_all add: lambda_loop_def sample_loop_def sample_ctx_def)
  moreover have "rr_state (run_row_of sample_run) = RunRunning" by (simp add: run_row_of_def sample_run_def)
  ultimately show ?thesis
    using lambda_run_exit_code [OF sample_world_calm sample_world_ok(2), of lambda_loop "run_row_of sample_run"
        sample_config sample_session 0] sample_world_row sample_exits
    by simp
qed

definition mock_config_sample :: mock_config where
  "mock_config_sample = \<lparr>mk_name = ''mock'', mk_hourly_cost = 1, mk_failure_mode = [], mk_shapes = [], mk_events = []\<rparr>"

definition mock_session_sample :: mock_session where
  "mock_session_sample = \<lparr>mn_environ = [], mn_open_logs = None, mn_open_events = None, mn_time = zero_time\<rparr>"

definition mock_loop :: loop_ctx where
  "mock_loop = sample_loop\<lparr>lc_resolved := sample_resolved\<lparr>rs_provider := ''mock''\<rparr>,
     lc_registry := registry_of [mock_adapter mock_config_sample mock_session_sample],
     lc_job := sample_job\<lparr>job_script := ''train.py''\<rparr>\<rparr>"

lemma run_exit_code_is_submits_witness:
  "fst (snd (runAttempts mock_loop None sample_world)) = 0
   \<and> (case run_row ''r_1'' (fst (runAttempts mock_loop None sample_world)) of
        None \<Rightarrow> False | Some row' \<Rightarrow> outcome_row 0 row')"
proof -
  let ?a = "mock_adapter mock_config_sample mock_session_sample"
  have "ending (ad_submit ?a (first_request mock_loop ''mock'' (fresh sample_world))) (\<lambda>n. None) 0
    = (\<lparr>sr_job_ref = ''mock:mock:'' @ fresh sample_world, sr_exit_code = 0, sr_exit_reason = ''completed''\<rparr>, None)"
    using ending_mock [of mock_config_sample mock_session_sample "first_request mock_loop ''mock'' (fresh sample_world)"]
    by (simp add: mock_adapter_def first_request_def mock_config_sample_def mock_session_sample_def failureError_def)
  moreover have "registry_get (lc_registry mock_loop) ''mock'' = Inr ?a"
    by (simp add: mock_loop_def registry_of_def registry_get_def new_registry_def mock_adapter_def mock_config_sample_def)
  moreover have "sup_supported (ad_validate ?a (lc_job mock_loop))"
    "ad_estimate ?a (lc_job mock_loop) = Inr \<lparr>est_hourly_usd = 1, est_currency = ''USD''\<rparr>"
    by (simp_all add: mock_adapter_def script_required_def mock_loop_def mock_config_sample_def)
  moreover have "rs_provider (lc_resolved mock_loop) = ''mock''" "rx_run_id (lc_run mock_loop) = ''r_1''"
    by (simp_all add: mock_loop_def sample_loop_def sample_ctx_def)
  moreover have "rr_state (run_row_of sample_run) = RunRunning" by (simp add: run_row_of_def sample_run_def)
  ultimately show ?thesis
    using run_exit_code_is_submits [OF sample_world_calm sample_world_ok(2), of mock_loop "run_row_of sample_run" "''mock''" ?a
        "\<lparr>est_hourly_usd = 1, est_currency = ''USD''\<rparr>"
        "\<lparr>sr_job_ref = ''mock:mock:'' @ fresh sample_world, sr_exit_code = 0, sr_exit_reason = ''completed''\<rparr>"] sample_world_row
    by (auto simp: provider_auto_def provider_local_def split: option.splits)
qed

end
