(* ===== verification/Spec2Isabelle.thy ===== *)
theory Spec2Isabelle
  imports Prelude GoStrings GoUrl GoTime GoPath GoJson GoFiles Types Registry Routing Redact Events
    Summary Store Artifact ArtifactIO Config Packaging DataPrep JobPrep Staging RuntimePrep Runs Resources Commands Plan
    JsonText Base64 Credentials CredentialFile CredentialStore
    GoHttp Queries Signing VmHttp RemoteLog CloudInit RemoteShell Submitting Lambda ChinaVm GcpHardware Gcp Providers Wiring
    AlibabaClient HuaweiClient TencentClient TianyiClient BaiduClient VmClients ClientWiring ChinaAuth Readiness Rendering LambdaClient Ids Logs Contract Announce EndToEnd
begin

text \<open>
  Switchboard runs a training job on one of several compute providers, keeps a record of the run,
  and moves it to another provider when one fails. This library models its core, in Go under
  \<open>src/internal\<close>, and proves what makes it correct.

  \<^bold>\<open>Foundations.\<close> Prelude has the results of fallible calls, \<open>int64\<close> wrap-around, maps as
  association lists and the interface of Go's stable sort. GoStrings, GoUrl, GoTime, GoPath, GoJson
  and GoFiles model what the program uses of Go's library: strings as bytes, URL parsing and
  escaping, RFC 3339 times, lexical paths, JSON, and the file system as a tree that is read and a
  record of files that are written. GoHttp has requests, answers and decoding into structures, Queries
  the queries of addresses.

  \<^bold>\<open>Components.\<close> Types is \<open>app/types.go\<close>; a provider is a record of functions, and its \<open>Submit\<close> a
  tree of the callbacks it makes (\<open>submit_prog\<close>). Registry is \<open>provider/registry.go\<close>, stated as an
  interface of names and lookups that routing and the run loop use. Routing is
  \<open>routing/routing.go\<close>. Redact is \<open>redact/redact.go\<close>. Events is \<open>event/ingestor.go\<close> with
  \<open>checkpoint/resolver.go\<close>; Summary is \<open>summary/summary.go\<close>. Store is \<open>state/store.go\<close>: four
  tables over the interface of a keyed table, and the schema migration; every statement may fail,
  by an oracle. Artifact and ArtifactIO are \<open>artifact/artifact.go\<close>, its paths and what it writes.
  Config is \<open>config/config.go\<close>, \<open>home/home.go\<close> and the profile of \<open>sizing/probe.go\<close>. DataPrep is
  \<open>data/preflight.go\<close>, Staging is \<open>staging\<close>, RuntimePrep is \<open>runtimeprep/local.go\<close> and Packaging is
  \<open>packaging/docker.go\<close>.

  \<^bold>\<open>The commands, all of \<open>cli/root.go\<close>.\<close> JobPrep prepares the job of a run and of a plan; Runs is the
  run loop with its attempts, callbacks and settlement; Commands is train and resume, down to the
  exit code of the process; Plan is plan and Rendering its text; Resources is cancel and the commands on
  resources. Logs is status and logs, with the log of a run that is followed while it grows, and
  Readiness the commands on providers. Ids is \<open>app/ids.go\<close>.

  \<^bold>\<open>The providers.\<close> RemoteLog is how the log of a machine is followed, CloudInit the script that the
  machine runs, with a reader for the fragment of the POSIX shell it uses. Submitting says what a
  \<open>Submit\<close> does to the world when its callbacks answer: machines acquired and released, rows
  reported. RemoteShell is \<open>provider/lambda/ssh.go\<close>, with the wait for a machine that boots. Lambda is
  \<open>provider/lambda/lambda.go\<close> and LambdaClient its client in \<open>client.go\<close>, ChinaVm
  \<open>provider/chinacloud\<close> with \<open>vm_runtime.go\<close>, GcpHardware and Gcp \<open>provider/gcp/gcp.go\<close> with its live
  inventory, and Providers the mock and the local provider. Wiring is how \<open>cli/root.go\<close> makes them out of
  a configuration. EndToEnd puts a provider under the run loop: the exit code of a run and the rows of
  its machines. Contract is \<open>provider/contract/contract.go\<close>, what the tests ask of a provider, and
  Announce shows of all that can be registered that they announce the reference of a job and return it.

  \<^bold>\<open>The clouds of China.\<close> Signing has the signed requests of \<open>provider/chinacloud\<close>, VmHttp what
  \<open>vm_http.go\<close> does with an answer. AlibabaClient, HuaweiClient, TencentClient, TianyiClient and
  BaiduClient are the clients of \<open>alibaba_client.go\<close>, \<open>huawei_client.go\<close>, \<open>tencent_vm.go\<close>, \<open>tianyi_vm.go\<close> and
  \<open>baidu_vm.go\<close>: credentials, payloads, what an answer becomes, and the operations that ChinaVm asks for.
  VmClients is the interface \<open>VMClient\<close> over them, with its contract towards the runtime. ClientWiring is
  \<open>vm_client_factory.go\<close>, and follows the script of a job to the request that creates its machine.
  ChinaAuth is how \<open>chinacloud.go\<close> checks a connection without a machine. The
  hash functions, the clock, random bytes and the transport are parameters.

  \<^bold>\<open>Credentials.\<close> JsonText prints and reads the JSON text of the encrypted document and Base64 its
  bytes. Credentials is \<open>credentials/model.go\<close>, \<open>memory.go\<close> and \<open>resolver.go\<close>; CredentialFile seals
  and opens the document of \<open>encrypted_file.go\<close>, and CredentialStore is the store with the commands on it.

  \<^bold>\<open>Numbers, order, failure.\<close> \<open>float64\<close> is an exact rational, so rounding and NaN are not
  modelled. A map is an association list in one of its possible orders. The clock, fresh
  identifiers, failures of the database and what another process does are oracles, read at a
  counter, so a statement about all oracles is one about all behaviours. A service or a machine
  answers through a session: a first answer, finitely many later ones, and the error of the sleep
  that ends the polling. A statement about all sessions is about every run of \<open>Submit\<close> that ends,
  however many turns it takes.

  \<^bold>\<open>What is shown.\<close> Each theory states the properties of its component after its operations; a
  claim is a theorem after a text that begins with its number. C1 to C5 are the run loop and the
  commands, then come machines, jobs and exit codes from the provider to the database, the signed
  requests of the clouds, the references of jobs, cleanup, planning, the configuration of providers, artifacts, routing,
  redaction, the store, credentials and the smaller components. Some theorems state a defect: a secret
  that redaction reveals, an instance that is left running, a job that is waited for without end, a
  registry that panics, a check of credentials that accepts a refusal, a default that is not sent.

  \<^bold>\<open>Not modelled.\<close> YAML decoding, the SQL driver and the cipher (parameters); rendering of reports
  as JSON, and cobra wiring (pure I/O); Google's own clients (answered by the session).
\<close>

end
